(* ===== verification/Prelude.thy ===== *)
theory Prelude
  imports Main "HOL-Library.Word"
begin

text \<open>
  Shared vocabulary of the development: Go strings and byte slices, instants and durations,
  the string functions of the Go standard library that the sources call, and the generic
  lemmas on lists that the component theories rely on.

  A Go string is a sequence of bytes and HOL's \<^typ>\<open>char\<close> is an 8-bit value, so a Go string
  and a \<^verbatim>\<open>[]byte\<close> are both a \<^typ>\<open>char list\<close>, byte for byte.
\<close>

type_synonym bytes = "char list"

text \<open>
  A \<^verbatim>\<open>time.Time\<close> is the number of nanoseconds since the zero instant (1 January of year 1), so
  \<^verbatim>\<open>IsZero\<close> is equality with 0. A \<^verbatim>\<open>time.Duration\<close> is a signed 64-bit count of nanoseconds, kept
  as an \<^typ>\<open>int\<close> with its range and wrap-around written out.
\<close>

type_synonym instant = int
type_synonym duration = int

abbreviation (input) IsZero :: "instant \<Rightarrow> bool" where
  "IsZero t \<equiv> t = 0"

abbreviation (input) Before :: "instant \<Rightarrow> instant \<Rightarrow> bool" where
  "Before a b \<equiv> a < b"

abbreviation (input) After :: "instant \<Rightarrow> instant \<Rightarrow> bool" where
  "After a b \<equiv> b < a"

definition minDuration :: duration where
  "minDuration = - (2 ^ 63)"

definition maxDuration :: duration where
  "maxDuration = 2 ^ 63 - 1"

text \<open>\<^verbatim>\<open>t.Sub(u)\<close> saturates at the ends of the 64-bit range.\<close>

definition go_Sub :: "instant \<Rightarrow> instant \<Rightarrow> duration" where
  "go_Sub t u =
     (if t - u < minDuration then minDuration
      else if t - u > maxDuration then maxDuration
      else t - u)"

text \<open>Unary minus on an \<^verbatim>\<open>int64\<close>: the least value is its own negation.\<close>

definition go_neg :: "duration \<Rightarrow> duration" where
  "go_neg d = (if d = minDuration then minDuration else - d)"

definition second :: duration where "second = 1000000000"
definition minute :: duration where "minute = 60 * second"
definition hour :: duration where "hour = 60 * minute"

text \<open>The collections the component theories extend and hand to the simplifier.\<close>

named_theorems go_strings \<open>unfolding equations of the modelled Go string functions\<close>
named_theorems go_defs \<open>definitions that a functional proof unfolds\<close>

section \<open>Go string functions\<close>

definition HasPrefix :: "string \<Rightarrow> string \<Rightarrow> bool" where
  "HasPrefix s p \<longleftrightarrow> take (length p) s = p"

definition HasSuffix :: "string \<Rightarrow> string \<Rightarrow> bool" where
  "HasSuffix s p \<longleftrightarrow> HasPrefix (rev s) (rev p)"

text \<open>The ASCII part of \<^verbatim>\<open>unicode.IsSpace\<close>, which \<^verbatim>\<open>strings.TrimSpace\<close> and
  \<^verbatim>\<open>bytes.TrimSpace\<close> cut at both ends.\<close>

definition isSpace :: "char \<Rightarrow> bool" where
  "isSpace c \<longleftrightarrow> c \<in> {CHR '' '', CHR 0x09, CHR 0x0A, CHR 0x0B, CHR 0x0C, CHR 0x0D}"

definition TrimSpace :: "string \<Rightarrow> string" where
  "TrimSpace s = rev (dropWhile isSpace (rev (dropWhile isSpace s)))"

definition lower_char :: "char \<Rightarrow> char" where
  "lower_char c =
     (if of_char c \<ge> (65::nat) \<and> of_char c \<le> (90::nat) then char_of (of_char c + (32::nat)) else c)"

text \<open>\<^verbatim>\<open>strings.ToLower\<close> on ASCII text.\<close>

definition ToLower :: "string \<Rightarrow> string" where
  "ToLower s = map lower_char s"

text \<open>\<^verbatim>\<open>strings.Split\<close> at a one-byte separator: never empty, and \<^verbatim>\<open>Join\<close> undoes it.\<close>

fun go_Split :: "char \<Rightarrow> string \<Rightarrow> string list" where
  "go_Split c [] = [[]]"
| "go_Split c (x # xs) =
     (if x = c then [] # go_Split c xs
      else (case go_Split c xs of [] \<Rightarrow> [[x]] | p # ps \<Rightarrow> (x # p) # ps))"

fun go_Join :: "string list \<Rightarrow> string \<Rightarrow> string" where
  "go_Join [] sep = []"
| "go_Join [p] sep = p"
| "go_Join (p # q # ps) sep = p @ sep @ go_Join (q # ps) sep"

text \<open>\<^verbatim>\<open>s[i+1:]\<close> after the last occurrence, as \<^verbatim>\<open>strings.LastIndex\<close> splits it:
  \<^verbatim>\<open>None\<close> when the byte does not occur.\<close>

definition split_last :: "(char \<Rightarrow> bool) \<Rightarrow> string \<Rightarrow> (string \<times> string) option" where
  "split_last p s =
     (let post = rev (takeWhile (\<lambda>c. \<not> p c) (rev s)) in
      if length post = length s then None
      else Some (take (length s - length post) s, post))"

text \<open>The \<^verbatim>\<open>%d\<close> verb on a natural number.\<close>

fun dec_nat :: "nat \<Rightarrow> string" where
  "dec_nat n = (if n < 10 then [char_of (48 + n)] else dec_nat (n div 10) @ [char_of (48 + n mod 10)])"

declare dec_nat.simps [simp del]

subsection \<open>Laws of the string functions\<close>

lemma HasPrefix_Nil [simp]: "HasPrefix s []"
  by (simp add: HasPrefix_def)

lemma HasPrefix_refl [simp]: "HasPrefix s s"
  by (simp add: HasPrefix_def)

lemma HasPrefix_append [simp]: "HasPrefix (p @ s) p"
  by (simp add: HasPrefix_def)

lemma HasPrefix_iff: "HasPrefix s p \<longleftrightarrow> (\<exists>r. s = p @ r)"
  unfolding HasPrefix_def by (metis append_take_drop_id append_eq_conv_conj)

lemma HasPrefix_trans: "HasPrefix s p \<Longrightarrow> HasPrefix p q \<Longrightarrow> HasPrefix s q"
  by (auto simp: HasPrefix_iff)

lemma HasPrefix_length: "HasPrefix s p \<Longrightarrow> length p \<le> length s"
  by (auto simp: HasPrefix_iff)

lemma HasPrefix_Cons [go_strings]: "HasPrefix (x # s) (y # p) \<longleftrightarrow> x = y \<and> HasPrefix s p"
  by (auto simp: HasPrefix_iff)

lemma HasPrefix_Nil_left [simp]: "HasPrefix [] p \<longleftrightarrow> p = []"
  by (auto simp: HasPrefix_iff)

lemma go_Split_nonempty [simp]: "go_Split c s \<noteq> []"
  by (induction s) (auto split: list.splits)

lemma go_Join_Cons: "ps \<noteq> [] \<Longrightarrow> go_Join (p # ps) sep = p @ sep @ go_Join ps sep"
  by (cases ps) auto

lemma go_Join_Split: "go_Join (go_Split c s) [c] = s"
proof (induction s)
  case Nil
  then show ?case by simp
next
  case (Cons x xs)
  obtain p ps where p: "go_Split c xs = p # ps"
    by (meson go_Split_nonempty neq_Nil_conv)
  show ?case
  proof (cases "x = c")
    case True
    with Cons p show ?thesis by (simp add: go_Join_Cons)
  next
    case False
    with Cons p show ?thesis by (cases ps) auto
  qed
qed

lemma go_Split_no_sep: "c \<notin> set s \<Longrightarrow> go_Split c s = [s]"
  by (induction s) auto

lemma go_Split_append:
  "c \<notin> set p \<Longrightarrow> go_Split c (p @ c # s) = p # go_Split c s"
  by (induction p) auto

lemma length_ToLower [simp]: "length (ToLower s) = length s"
  by (simp add: ToLower_def)

lemma lower_char_idem [simp]: "lower_char (lower_char c) = lower_char c"
proof (cases "of_char c \<ge> (65::nat) \<and> of_char c \<le> (90::nat)")
  case True
  then have "of_char (char_of (of_char c + (32::nat)) :: char) = of_char c + (32::nat)"
    by (subst of_char_of) simp
  with True show ?thesis by (simp add: lower_char_def)
next
  case False
  then have "lower_char c = c" by (auto simp: lower_char_def)
  then show ?thesis by simp
qed

lemma ToLower_idem [simp]: "ToLower (ToLower s) = ToLower s"
  by (simp add: ToLower_def comp_def)

lemma ToLower_append [simp]: "ToLower (s @ t) = ToLower s @ ToLower t"
  by (simp add: ToLower_def)

definition dec_value :: "string \<Rightarrow> nat" where
  "dec_value s = foldl (\<lambda>a c. 10 * a + (of_char c - 48)) 0 s"

lemma dec_value_dec_nat: "dec_value (dec_nat n) = n"
proof (induction n rule: dec_nat.induct)
  case (1 n)
  have d: "(of_char (char_of (48 + m) :: char) :: nat) = 48 + m" if "m < 10" for m :: nat
    using that by (simp add: of_char_of)
  show ?case
  proof (cases "n < 10")
    case True
    then show ?thesis by (subst dec_nat.simps) (simp add: dec_value_def d)
  next
    case False
    then have "dec_value (dec_nat (n div 10)) = n div 10" by (rule 1)
    then show ?thesis
      using False by (subst dec_nat.simps) (simp add: dec_value_def d)
  qed
qed

lemma dec_nat_inject [simp]: "dec_nat a = dec_nat b \<longleftrightarrow> a = b"
  by (metis dec_value_dec_nat)

subsection \<open>Arithmetic of durations\<close>

lemma go_Sub_range: "minDuration \<le> go_Sub t u" "go_Sub t u \<le> maxDuration"
  by (auto simp: go_Sub_def minDuration_def maxDuration_def)

lemma go_Sub_exact:
  "minDuration \<le> t - u \<Longrightarrow> t - u \<le> maxDuration \<Longrightarrow> go_Sub t u = t - u"
  by (simp add: go_Sub_def)

section \<open>Lists\<close>

lemma filter_eq_self_iff: "filter P xs = xs \<longleftrightarrow> (\<forall>x\<in>set xs. P x)"
  by (auto simp: filter_id_conv)

text \<open>The first element that a search loop returns early with.\<close>

lemma find_SomeD: "List.find P xs = Some x \<Longrightarrow> x \<in> set xs \<and> P x"
  by (auto simp: find_Some_iff)

section \<open>Sequenced checks\<close>

text \<open>An early return of an error before the next check: the sequence succeeds exactly when every
  check does.\<close>

lemma err_seq_None [simp]:
  "(case x of None \<Rightarrow> y | Some e \<Rightarrow> Some (f e)) = None \<longleftrightarrow> x = None \<and> y = None"
  by (cases x) auto

lemma err_seq_None_id [simp]:
  "(case x of None \<Rightarrow> y | Some e \<Rightarrow> Some e) = None \<longleftrightarrow> x = None \<and> y = None"
  by (cases x) auto

lemma err_sum_None [simp]:
  "(case s of Inl e \<Rightarrow> Some (f e) | Inr v \<Rightarrow> g v) = None \<longleftrightarrow> (\<exists>v. s = Inr v \<and> g v = None)"
  by (cases s) auto

lemma err_sum_None_id [simp]:
  "(case s of Inl e \<Rightarrow> Some e | Inr v \<Rightarrow> g v) = None \<longleftrightarrow> (\<exists>v. s = Inr v \<and> g v = None)"
  by (cases s) auto

lemma some_seq_None [simp]:
  "(case x of None \<Rightarrow> Some e | Some v \<Rightarrow> g v) = None \<longleftrightarrow> (\<exists>v. x = Some v \<and> g v = None)"
  by (cases x) auto

lemma err_res_Inr [simp]:
  "(case x of None \<Rightarrow> y | Some e \<Rightarrow> Inl (f e)) = Inr r \<longleftrightarrow> x = None \<and> y = Inr r"
  by (cases x) auto

lemma err_res_Inr_id [simp]:
  "(case x of None \<Rightarrow> y | Some e \<Rightarrow> Inl e) = Inr r \<longleftrightarrow> x = None \<and> y = Inr r"
  by (cases x) auto

lemma sum_res_Inr [simp]:
  "(case s of Inl e \<Rightarrow> Inl (f e) | Inr v \<Rightarrow> g v) = Inr r \<longleftrightarrow> (\<exists>v. s = Inr v \<and> g v = Inr r)"
  by (cases s) auto

lemma sum_res_Inr_id [simp]:
  "(case s of Inl e \<Rightarrow> Inl e | Inr v \<Rightarrow> g v) = Inr r \<longleftrightarrow> (\<exists>v. s = Inr v \<and> g v = Inr r)"
  by (cases s) auto

lemma guard_None [simp]: "(if b then Some e else x) = None \<longleftrightarrow> \<not> b \<and> x = None"
  by simp

lemma guard_Inr [simp]: "(if b then Inl e else x) = Inr r \<longleftrightarrow> \<not> b \<and> x = Inr r"
  by simp

lemma map_of_Some_key: "map_of xs k = Some v \<Longrightarrow> k \<in> fst ` set xs"
  by (metis map_of_eq_None_iff option.distinct(1))

text \<open>\<^verbatim>\<open>big.Int.SetBytes\<close>.\<close>

definition big_endian :: "bytes \<Rightarrow> int" where
  "big_endian bs = foldl (\<lambda>n c. 256 * n + int (of_char c)) 0 bs"

lemma big_endian_nonneg: "0 \<le> big_endian bs"
proof -
  have "0 \<le> n \<Longrightarrow> 0 \<le> foldl (\<lambda>n c. 256 * n + int (of_char c)) n bs" for n by (induction bs arbitrary: n) auto
  then show ?thesis by (simp add: big_endian_def)
qed

end
