(* ===== verification/Merkle.thy ===== *)
theory Merkle
  imports Prelude
begin

text \<open>
  The tamper-evident audit chain of \<^verbatim>\<open>src/merkle.go\<close>: Merkle trees with domain-separated
  leaf and node hashes, audit proofs and their verification, and the chain of sealed
  batches in which every batch names the root of the one before it.

  \<^verbatim>\<open>crypto/sha256.Sum256\<close> is the parameter \<open>H\<close> of every definition. What a theorem needs of it
  (32 bytes of output, no collision among the inputs at hand) is a hypothesis of that theorem.
\<close>

section \<open>Hashes, trees and proofs\<close>

definition HashLeaf :: "(bytes \<Rightarrow> bytes) \<Rightarrow> bytes \<Rightarrow> bytes" where
  "HashLeaf H data = H (CHR 0x00 # data)"

definition HashNode :: "(bytes \<Rightarrow> bytes) \<Rightarrow> bytes \<Rightarrow> bytes \<Rightarrow> bytes" where
  "HashNode H left right = H ((CHR 0x01 # left) @ right)"

record merkle_tree =
  mt_leaves :: "bytes list"
  mt_levels :: "bytes list list"
  mt_root :: "bytes option"

text \<open>One pass of the inner loop of \<^verbatim>\<open>NewMerkleTree\<close>: pairs are hashed, a last odd node is
  promoted unchanged.\<close>

fun next_level :: "(bytes \<Rightarrow> bytes) \<Rightarrow> bytes list \<Rightarrow> bytes list" where
  "next_level H (a # b # rest) = HashNode H a b # next_level H rest"
| "next_level H current = current"

lemma length_next_level: "length (next_level H xs) = (length xs + 1) div 2"
  by (induction H xs rule: next_level.induct) auto

text \<open>The outer loop: levels are appended until one has a single node.\<close>

function build_levels :: "(bytes \<Rightarrow> bytes) \<Rightarrow> bytes list \<Rightarrow> bytes list list" where
  "build_levels H current =
     (if length current > 1 then current # build_levels H (next_level H current)
      else [current])"
  by pat_completeness auto
termination
  by (relation "measure (\<lambda>(H, current). length current)") (auto simp: length_next_level)

declare build_levels.simps [simp del]

definition NewMerkleTree :: "(bytes \<Rightarrow> bytes) \<Rightarrow> bytes list \<Rightarrow> merkle_tree" where
  "NewMerkleTree H leaves =
     (if leaves = [] then \<lparr>mt_leaves = [], mt_levels = [], mt_root = None\<rparr>
      else (let lv = build_levels H (map (HashLeaf H) leaves)
            in \<lparr>mt_leaves = leaves, mt_levels = lv,
                mt_root = (case last lv of [] \<Rightarrow> None | r # _ \<Rightarrow> Some r)\<rparr>))"

definition Root :: "merkle_tree \<Rightarrow> bytes option" where
  "Root m = mt_root m"

record proof_step =
  ps_Sibling :: bytes
  ps_Left :: bool

datatype merkle_error = LeafIndexOutOfRange int | EmptyPreviousRoot nat
  | ContinuityBroken string string | Discontinuity nat string string
  | BatchNotFound int | InvalidRootHash | InvalidLeafEncoding | InvalidSiblingEncoding

text \<open>The loop of \<^verbatim>\<open>Proof\<close> runs over every level but the last.\<close>

fun proof_loop :: "bytes list list \<Rightarrow> nat \<Rightarrow> proof_step list" where
  "proof_loop (nodes # l # ls) idx =
     (if even idx
      then (if idx + 1 < length nodes
            then [\<lparr>ps_Sibling = nodes ! (idx + 1), ps_Left = False\<rparr>] else [])
      else [\<lparr>ps_Sibling = nodes ! (idx - 1), ps_Left = True\<rparr>])
     @ proof_loop (l # ls) (idx div 2)"
| "proof_loop ls idx = []"

definition Proof :: "merkle_tree \<Rightarrow> int \<Rightarrow> merkle_error + proof_step list" where
  "Proof m leafIndex =
     (if leafIndex < 0 \<or> leafIndex \<ge> int (length (mt_leaves m))
      then Inl (LeafIndexOutOfRange leafIndex)
      else Inr (proof_loop (mt_levels m) (nat leafIndex)))"

definition proof_combine :: "(bytes \<Rightarrow> bytes) \<Rightarrow> bytes \<Rightarrow> proof_step \<Rightarrow> bytes" where
  "proof_combine H hash step =
     (if ps_Left step then HashNode H (ps_Sibling step) hash
      else HashNode H hash (ps_Sibling step))"

fun run_proof :: "(bytes \<Rightarrow> bytes) \<Rightarrow> bytes \<Rightarrow> proof_step list \<Rightarrow> bytes" where
  "run_proof H hash [] = hash"
| "run_proof H hash (step # steps) = run_proof H (proof_combine H hash step) steps"

definition VerifyProof :: "(bytes \<Rightarrow> bytes) \<Rightarrow> bytes \<Rightarrow> proof_step list \<Rightarrow> bytes \<Rightarrow> bool" where
  "VerifyProof H leaf pf root =
     (let hash = run_proof H (HashLeaf H leaf) pf
      in length hash > 0 \<and> length root > 0 \<and> hash = root)"

definition VerifyProofBounded ::
  "(bytes \<Rightarrow> bytes) \<Rightarrow> bytes \<Rightarrow> proof_step list \<Rightarrow> bytes \<Rightarrow> int \<Rightarrow> bool" where
  "VerifyProofBounded H leaf pf root maxProofLen =
     (if maxProofLen \<ge> 0 \<and> int (length pf) > maxProofLen then False
      else VerifyProof H leaf pf root)"

subsection \<open>Every index has a proof that verifies\<close>

lemma build_levels_ne [simp]: "build_levels H xs \<noteq> []"
  by (subst build_levels.simps) simp

lemma build_levels_Cons:
  "length xs > 1 \<Longrightarrow> build_levels H xs = xs # build_levels H (next_level H xs)"
  by (subst build_levels.simps) simp

lemma build_levels_one: "length xs \<le> 1 \<Longrightarrow> build_levels H xs = [xs]"
  by (subst build_levels.simps) simp

lemma next_level_ne [simp]: "next_level H xs = [] \<longleftrightarrow> xs = []"
  by (cases "(H, xs)" rule: next_level.cases) auto

text \<open>The last level holds exactly one node, the root.\<close>

lemma last_build_levels: "xs \<noteq> [] \<Longrightarrow> \<exists>r. last (build_levels H xs) = [r]"
proof (induction H xs rule: build_levels.induct)
  case (1 H xs)
  show ?case
  proof (cases "length xs > 1")
    case True
    with 1 show ?thesis by (simp add: build_levels_Cons)
  next
    case False
    with 1 show ?thesis by (cases xs) (auto simp: build_levels_one)
  qed
qed

text \<open>A level-to-level step of the tree: the parent of node \<open>i\<close> is what the proof step computes.\<close>

lemma next_level_even:
  "Suc (2 * k) < length xs \<Longrightarrow> next_level H xs ! k = HashNode H (xs ! (2 * k)) (xs ! Suc (2 * k))"
proof (induction H xs arbitrary: k rule: next_level.induct)
  case (1 H a b rest)
  then show ?case by (cases k) auto
qed auto

lemma next_level_last:
  "2 * k < length xs \<Longrightarrow> \<not> Suc (2 * k) < length xs \<Longrightarrow> next_level H xs ! k = xs ! (2 * k)"
proof (induction H xs arbitrary: k rule: next_level.induct)
  case (1 H a b rest)
  then show ?case by (cases k) auto
qed auto

lemma run_proof_append: "run_proof H h (p @ q) = run_proof H (run_proof H h p) q"
  by (induction p arbitrary: h) auto

lemma proof_loop_build_levels:
  "i < length xs \<Longrightarrow>
   run_proof H (xs ! i) (proof_loop (build_levels H xs) i) = hd (last (build_levels H xs))"
proof (induction H xs arbitrary: i rule: build_levels.induct)
  case (1 H xs)
  show ?case
  proof (cases "length xs > 1")
    case False
    with 1 show ?thesis by (cases xs) (auto simp: build_levels_one)
  next
    case True
    obtain l ls where nx: "build_levels H (next_level H xs) = l # ls"
      by (meson build_levels_ne neq_Nil_conv)
    have i2: "i div 2 < length (next_level H xs)"
      using 1(2) by (simp add: length_next_level)
    have step: "run_proof H (xs ! i)
        (if even i then (if i + 1 < length xs
            then [\<lparr>ps_Sibling = xs ! (i + 1), ps_Left = False\<rparr>] else [])
         else [\<lparr>ps_Sibling = xs ! (i - 1), ps_Left = True\<rparr>]) = next_level H xs ! (i div 2)"
    proof (cases "even i")
      case even: True
      then obtain k where "i = 2 * k" by blast
      with 1(2) show ?thesis
        by (auto simp: next_level_even next_level_last proof_combine_def)
    next
      case odd: False
      then obtain k where "i = 2 * k + 1" by (meson oddE)
      with 1(2) show ?thesis by (auto simp: next_level_even proof_combine_def)
    qed
    show ?thesis
      using 1(1)[OF True i2] step nx
      by (simp add: build_levels_Cons[OF True] run_proof_append)
  qed
qed

lemma mt_root_NewMerkleTree:
  assumes "leaves \<noteq> []"
  shows "mt_root (NewMerkleTree H leaves) =
    Some (hd (last (build_levels H (map (HashLeaf H) leaves))))"
proof -
  from assms obtain r where "last (build_levels H (map (HashLeaf H) leaves)) = [r]"
    using last_build_levels by (metis map_is_Nil_conv)
  with assms show ?thesis by (simp add: NewMerkleTree_def Let_def)
qed

lemma run_proof_ne:
  "(\<And>x. H x \<noteq> []) \<Longrightarrow> h \<noteq> [] \<Longrightarrow> run_proof H h p \<noteq> []"
  by (induction p arbitrary: h) (auto simp: proof_combine_def HashNode_def)

lemma Proof_verifies:
  assumes "\<And>x. H x \<noteq> []" and "i < length leaves"
  shows "VerifyProof H (leaves ! i) (proof_loop (mt_levels (NewMerkleTree H leaves)) i)
           (the (mt_root (NewMerkleTree H leaves)))"
proof -
  let ?xs = "map (HashLeaf H) leaves"
  have ne: "leaves \<noteq> []" using assms(2) by auto
  have "run_proof H (?xs ! i) (proof_loop (build_levels H ?xs) i) = hd (last (build_levels H ?xs))"
    using assms(2) by (intro proof_loop_build_levels) simp
  moreover have "run_proof H (?xs ! i) (proof_loop (build_levels H ?xs) i) \<noteq> []"
    using assms by (intro run_proof_ne) (auto simp: HashLeaf_def)
  ultimately show ?thesis
    using assms(2) ne mt_root_NewMerkleTree[OF ne, of H]
    by (simp add: VerifyProof_def Let_def NewMerkleTree_def)
qed

subsection \<open>A proof that verifies is about a leaf of the tree\<close>

text \<open>
  The inputs hashed while the tree is built and while a proof is replayed. Soundness needs
  that \<open>H\<close> has no collision among them; the two domain prefixes and the fixed width of a
  hash then leave an accepted proof no choice but to follow a path of the tree.
\<close>

fun level_inputs :: "bytes list \<Rightarrow> bytes set" where
  "level_inputs (a # b # rest) = insert (CHR 0x01 # a @ b) (level_inputs rest)"
| "level_inputs current = {}"

definition tree_inputs :: "(bytes \<Rightarrow> bytes) \<Rightarrow> bytes list \<Rightarrow> bytes set" where
  "tree_inputs H leaves = (\<lambda>d. CHR 0x00 # d) ` set leaves \<union>
     (\<Union>l\<in>set (build_levels H (map (HashLeaf H) leaves)). level_inputs l)"

definition step_input :: "bytes \<Rightarrow> proof_step \<Rightarrow> bytes" where
  "step_input h s = (if ps_Left s then CHR 0x01 # ps_Sibling s @ h else CHR 0x01 # h @ ps_Sibling s)"

lemma proof_combine_input: "proof_combine H h s = H (step_input h s)"
  by (simp add: proof_combine_def HashNode_def step_input_def)

fun replay_inputs :: "(bytes \<Rightarrow> bytes) \<Rightarrow> bytes \<Rightarrow> proof_step list \<Rightarrow> bytes set" where
  "replay_inputs H h [] = {}"
| "replay_inputs H h (s # ss) =
     insert (step_input h s) (replay_inputs H (proof_combine H h s) ss)"

definition proof_inputs :: "(bytes \<Rightarrow> bytes) \<Rightarrow> bytes \<Rightarrow> proof_step list \<Rightarrow> bytes set" where
  "proof_inputs H leaf pf = insert (CHR 0x00 # leaf) (replay_inputs H (HashLeaf H leaf) pf)"

lemma replay_inputs_append:
  "replay_inputs H h (p @ q) = replay_inputs H h p \<union> replay_inputs H (run_proof H h p) q"
  by (induction p arbitrary: h) auto

lemma next_level_cases:
  "x \<in> set (next_level H xs) \<Longrightarrow>
   x \<in> set xs \<or> (\<exists>a\<in>set xs. \<exists>b\<in>set xs. x = H (CHR 0x01 # a @ b) \<and> CHR 0x01 # a @ b \<in> level_inputs xs)"
proof (induction H xs rule: next_level.induct)
  case (1 H a b rest)
  then show ?case by (auto simp: HashNode_def)
qed auto

lemma run_proof_length:
  "(\<And>x. length (H x) = n) \<Longrightarrow> length h = n \<Longrightarrow> length (run_proof H h p) = n"
  by (induction p arbitrary: h) (auto simp: proof_combine_def HashNode_def)

text \<open>
  Reading a node's preimage back: with both halves of the node \<open>n\<close> bytes wide, the replayed hash
  (also \<open>n\<close> bytes) is one of the two halves, whatever the width of the sibling.
\<close>

lemma replay_input_split:
  assumes "step_input h s = CHR 0x01 # a @ b"
    and "length h = n" "length a = n" "length b = n"
  shows "h = a \<or> h = b"
  using assms by (auto simp: step_input_def append_eq_append_conv split: if_splits)

definition all_width :: "nat \<Rightarrow> bytes list \<Rightarrow> bool" where
  "all_width n xs \<longleftrightarrow> (\<forall>x\<in>set xs. length x = n)"

lemma all_width_next_level:
  "(\<And>x. length (H x) = n) \<Longrightarrow> all_width n xs \<Longrightarrow> all_width n (next_level H xs)"
  by (induction H xs rule: next_level.induct) (auto simp: all_width_def HashNode_def)

text \<open>
  The heart of soundness, from the top level down: whatever hash a replayed proof ends in, if
  it is a node of the last level then some prefix of the proof ends in a node of the first.
\<close>

lemma replay_reaches_base:
  assumes len: "\<And>x. length (H x) = n"
    and h0: "h0 = H z" and z: "\<And>a b. z \<noteq> CHR 0x01 # a @ b"
  shows "all_width n xs \<Longrightarrow>
    run_proof H h0 p \<in> set (last (build_levels H xs)) \<Longrightarrow>
    inj_on H (insert z ((\<Union>l\<in>set (build_levels H xs). level_inputs l) \<union> replay_inputs H h0 p)) \<Longrightarrow>
    \<exists>q r. p = q @ r \<and> run_proof H h0 q \<in> set xs"
proof (induction "length xs" arbitrary: xs p rule: less_induct)
  case less
  show ?case
  proof (cases "length xs > 1")
    case False
    with less.prems(2) show ?thesis
      by (intro exI[of _ p] exI[of _ "[]"]) (simp add: build_levels_one)
  next
    case True
    note bl = build_levels_Cons[OF True, of H]
    have shorter: "length (next_level H xs) < length xs"
      using True by (simp add: length_next_level)
    have inj': "inj_on H (insert z ((\<Union>l\<in>set (build_levels H (next_level H xs)). level_inputs l)
        \<union> replay_inputs H h0 p))"
      using less.prems(3) by (rule inj_on_subset) (auto simp: bl)
    have top: "run_proof H h0 p \<in> set (last (build_levels H (next_level H xs)))"
      using less.prems(2) by (simp add: bl)
    obtain q r where p: "p = q @ r" and q: "run_proof H h0 q \<in> set (next_level H xs)"
      using less.hyps[OF shorter all_width_next_level[OF len less.prems(1)] top inj'] by blast
    from next_level_cases[OF q] show ?thesis
    proof
      assume "run_proof H h0 q \<in> set xs"
      with p show ?thesis by blast
    next
      assume "\<exists>a\<in>set xs. \<exists>b\<in>set xs. run_proof H h0 q = H (CHR 0x01 # a @ b)
                \<and> CHR 0x01 # a @ b \<in> level_inputs xs"
      then obtain a b where ab: "a \<in> set xs" "b \<in> set xs"
        and eq: "run_proof H h0 q = H (CHR 0x01 # a @ b)"
        and inp: "CHR 0x01 # a @ b \<in> level_inputs xs" by blast
      let ?S = "insert z ((\<Union>l\<in>set (build_levels H xs). level_inputs l) \<union> replay_inputs H h0 p)"
      have abS: "CHR 0x01 # a @ b \<in> ?S" using inp by (simp add: bl)
      show ?thesis
      proof (cases q rule: rev_cases)
        case Nil
        with eq h0 have "H z = H (CHR 0x01 # a @ b)" by simp
        with less.prems(3) abS have "z = CHR 0x01 # a @ b" by (auto dest: inj_onD)
        with z show ?thesis by blast
      next
        case (snoc q' s)
        let ?h = "run_proof H h0 q'"
        have eqH: "H (step_input ?h s) = H (CHR 0x01 # a @ b)"
          using eq by (simp add: snoc run_proof_append proof_combine_input)
        have "step_input ?h s \<in> ?S" by (simp add: p snoc replay_inputs_append)
        with less.prems(3) eqH have "step_input ?h s = CHR 0x01 # a @ b"
          using abS by (rule inj_onD)
        moreover have "length ?h = n" using run_proof_length[OF len] h0 len by simp
        ultimately have "?h = a \<or> ?h = b"
          using less.prems(1) ab replay_input_split[of ?h s a b n] by (simp add: all_width_def)
        with ab p snoc show ?thesis by (intro exI[of _ q'] exI[of _ "[s] @ r"]) auto
      qed
    qed
  qed
qed

lemma VerifyProof_member:
  assumes len: "\<And>x. length (H x) = 32"
    and root: "mt_root (NewMerkleTree H leaves) = Some rt"
    and ok: "VerifyProof H leaf pf rt"
    and inj: "inj_on H (tree_inputs H leaves \<union> proof_inputs H leaf pf)"
  shows "leaf \<in> set leaves"
proof -
  let ?xs = "map (HashLeaf H) leaves"
  have ne: "leaves \<noteq> []" using root by (auto simp: NewMerkleTree_def)
  have rt: "rt = hd (last (build_levels H ?xs))"
    using root mt_root_NewMerkleTree[OF ne, of H] by simp
  moreover have "last (build_levels H ?xs) \<noteq> []"
    using last_build_levels[of ?xs H] ne by auto
  ultimately have "rt \<in> set (last (build_levels H ?xs))" by simp
  moreover have "run_proof H (HashLeaf H leaf) pf = rt"
    using ok by (simp add: VerifyProof_def Let_def)
  ultimately have "run_proof H (HashLeaf H leaf) pf \<in> set (last (build_levels H ?xs))" by simp
  moreover have "all_width 32 ?xs" by (auto simp: all_width_def HashLeaf_def len)
  moreover have "inj_on H (insert (CHR 0x00 # leaf)
      ((\<Union>l\<in>set (build_levels H ?xs). level_inputs l) \<union> replay_inputs H (HashLeaf H leaf) pf))"
    using inj by (rule inj_on_subset) (auto simp: tree_inputs_def proof_inputs_def)
  ultimately obtain q r where pr: "pf = q @ r" and q: "run_proof H (HashLeaf H leaf) q \<in> set ?xs"
    using replay_reaches_base[of H 32 "HashLeaf H leaf" "CHR 0x00 # leaf" ?xs pf] len
    by (auto simp: HashLeaf_def)
  then obtain d where d: "d \<in> set leaves" "run_proof H (HashLeaf H leaf) q = H (CHR 0x00 # d)"
    by (auto simp: HashLeaf_def)
  have dS: "CHR 0x00 # d \<in> tree_inputs H leaves" using d by (simp add: tree_inputs_def)
  show ?thesis
  proof (cases q rule: rev_cases)
    case Nil
    with d have "H (CHR 0x00 # leaf) = H (CHR 0x00 # d)" by (simp add: HashLeaf_def)
    then have "leaf = d"
      using inj dS by (auto dest: inj_onD simp: proof_inputs_def)
    with d show ?thesis by simp
  next
    case (snoc q' s)
    let ?h = "run_proof H (HashLeaf H leaf) q'"
    have eqH: "H (step_input ?h s) = H (CHR 0x00 # d)"
      using d by (simp add: snoc run_proof_append proof_combine_input)
    have "step_input ?h s \<in> tree_inputs H leaves \<union> proof_inputs H leaf pf"
      by (simp add: pr snoc replay_inputs_append proof_inputs_def)
    with inj eqH have "step_input ?h s = CHR 0x00 # d"
      using UnI1[OF dS] by (rule inj_onD)
    then show ?thesis by (simp add: step_input_def split: if_splits)
  qed
qed

end
