(* ===== verification/Audit_Chain.thy ===== *)
theory Audit_Chain
  imports Merkle
begin

text \<open>
  The sequence of sealed batches (\<^verbatim>\<open>AuditChain\<close> in \<^verbatim>\<open>src/merkle.go\<close>): sealing with and without
  the continuity check, verification of a proof against a sealed batch, the JSON front end,
  and \<^verbatim>\<open>encoding/hex\<close>, through which roots are stored.
\<close>

section \<open>Hexadecimal encoding\<close>

definition hex_digit :: "nat \<Rightarrow> char" where
  "hex_digit n = ''0123456789abcdef'' ! n"

definition hex_val :: "char \<Rightarrow> nat option" where
  "hex_val c =
     (let n = of_char c :: nat in
      if 48 \<le> n \<and> n \<le> 57 then Some (n - 48)
      else if 97 \<le> n \<and> n \<le> 102 then Some (n - 87)
      else if 65 \<le> n \<and> n \<le> 70 then Some (n - 55)
      else None)"

definition EncodeToString :: "bytes \<Rightarrow> string" where
  "EncodeToString bs = concat (map (\<lambda>c. [hex_digit (of_char c div 16), hex_digit (of_char c mod 16)]) bs)"

fun DecodeString :: "string \<Rightarrow> bytes option" where
  "DecodeString [] = Some []"
| "DecodeString [a] = None"
| "DecodeString (a # b # r) =
     (case hex_val a of None \<Rightarrow> None | Some x \<Rightarrow>
      (case hex_val b of None \<Rightarrow> None | Some y \<Rightarrow>
       (case DecodeString r of None \<Rightarrow> None | Some bs \<Rightarrow> Some (char_of (16 * x + y) # bs))))"

lemma hex_val_digit: "n < 16 \<Longrightarrow> hex_val (hex_digit n) = Some n"
proof -
  have "\<forall>n \<in> set [0..<16]. hex_val (hex_digit n) = Some n" by code_simp
  then show "n < 16 \<Longrightarrow> ?thesis" by simp
qed

lemma hex_digit_byte:
  "char_of (16 * (of_char c div 16) + of_char c mod 16 :: nat) = c"
  by (simp add: mult.commute[of 16])

lemma of_char_less: "of_char c < (256 :: nat)"
  by (metis nat_of_char_less_256)

lemma Decode_Encode: "DecodeString (EncodeToString bs) = Some bs"
proof (induction bs)
  case Nil
  then show ?case by (simp add: EncodeToString_def)
next
  case (Cons c bs)
  have "hex_val (hex_digit (of_char c div 16)) = Some (of_char c div 16)"
    using of_char_less[of c] by (intro hex_val_digit less_mult_imp_div_less) simp
  moreover have "hex_val (hex_digit (of_char c mod 16)) = Some (of_char c mod 16)"
    by (intro hex_val_digit) simp
  ultimately show ?case
    using Cons hex_digit_byte[of c] by (simp add: EncodeToString_def)
qed

lemma EncodeToString_Nil_iff [simp]: "EncodeToString bs = [] \<longleftrightarrow> bs = []"
  by (cases bs) (auto simp: EncodeToString_def)

definition RootHex :: "merkle_tree \<Rightarrow> string" where
  "RootHex m = (case mt_root m of None \<Rightarrow> [] | Some r \<Rightarrow> EncodeToString r)"

section \<open>The chain\<close>

record sealed_tree =
  st_BatchNumber :: nat
  st_Timestamp :: string
  st_Previous :: string
  st_Root :: string
  st_Size :: nat

text \<open>\<open>ac_onSeal\<close> says whether a callback is installed and \<open>ac_sealed\<close> lists the roots it was
  called with.\<close>

record audit_chain =
  ac_trees :: "sealed_tree list"
  ac_batchSize :: int
  ac_onSeal :: bool
  ac_sealed :: "bytes option list"

definition NewAuditChain :: "int \<Rightarrow> bool \<Rightarrow> audit_chain" where
  "NewAuditChain batchSize onSeal =
     \<lparr>ac_trees = [], ac_batchSize = (if batchSize \<le> 0 then 1000 else batchSize),
      ac_onSeal = onSeal, ac_sealed = []\<rparr>"

text \<open>\<open>ts\<close> is the decimal rendering of the clock at the call.\<close>

definition Seal ::
  "(bytes \<Rightarrow> bytes) \<Rightarrow> string \<Rightarrow> audit_chain \<Rightarrow> bytes list \<Rightarrow> string \<Rightarrow> audit_chain \<times> sealed_tree" where
  "Seal H ts c entries previousRoot =
     (let tree = NewMerkleTree H entries;
          st = \<lparr>st_BatchNumber = length (ac_trees c), st_Timestamp = ts,
                st_Previous = previousRoot, st_Root = RootHex tree, st_Size = length entries\<rparr>
      in (c\<lparr>ac_trees := ac_trees c @ [st],
            ac_sealed := (if ac_onSeal c then ac_sealed c @ [Root tree] else ac_sealed c)\<rparr>, st))"

definition dump_line :: "sealed_tree \<Rightarrow> string" where
  "dump_line st = dec_nat (st_BatchNumber st) @ ''|'' @ st_Timestamp st @ ''|'' @ st_Previous st @ ''|'' @ st_Root st @ ''|'' @ dec_nat (st_Size st) @ [CHR 0x0A]"

definition Dump :: "audit_chain \<Rightarrow> string" where
  "Dump c = concat (map dump_line (ac_trees c))"

definition SealChecked ::
  "(bytes \<Rightarrow> bytes) \<Rightarrow> string \<Rightarrow> audit_chain \<Rightarrow> bytes list \<Rightarrow> string \<Rightarrow>
   merkle_error + (audit_chain \<times> sealed_tree)" where
  "SealChecked H ts c entries previousRoot =
     (if length (ac_trees c) > 0 \<and> previousRoot = []
      then Inl (EmptyPreviousRoot (length (ac_trees c)))
      else if length (ac_trees c) > 0 \<and> previousRoot \<noteq> st_Root (last (ac_trees c))
      then Inl (ContinuityBroken previousRoot (st_Root (last (ac_trees c))))
      else (let tree = NewMerkleTree H entries;
                st = \<lparr>st_BatchNumber = length (ac_trees c), st_Timestamp = ts,
                      st_Previous = previousRoot, st_Root = RootHex tree, st_Size = length entries\<rparr>
            in Inr (c\<lparr>ac_trees := ac_trees c @ [st],
                      ac_sealed := (if ac_onSeal c then ac_sealed c @ [Root tree] else ac_sealed c)\<rparr>, st)))"

text \<open>The loop of \<^verbatim>\<open>VerifyContinuity\<close> from batch \<open>i\<close> on, with its predecessor at hand.\<close>

fun continuity_from :: "nat \<Rightarrow> sealed_tree \<Rightarrow> sealed_tree list \<Rightarrow> merkle_error option" where
  "continuity_from i prev [] = None"
| "continuity_from i prev (st # sts) =
     (if st_Previous st \<noteq> st_Root prev then Some (Discontinuity i (st_Previous st) (st_Root prev))
      else continuity_from (Suc i) st sts)"

definition VerifyContinuity :: "audit_chain \<Rightarrow> merkle_error option" where
  "VerifyContinuity c =
     (case ac_trees c of [] \<Rightarrow> None | st # sts \<Rightarrow> continuity_from 1 st sts)"

text \<open>\<^verbatim>\<open>int(math.Ceil(math.Log2(float64(n))))\<close>: the least \<open>k\<close> with \<open>n \<le> 2 ^ k\<close>, which the floating
  point computation gives for every batch size below \<open>2 ^ 48\<close>.\<close>

fun ceil_log2 :: "nat \<Rightarrow> nat" where
  "ceil_log2 n = (if n \<le> 1 then 0 else Suc (ceil_log2 ((n + 1) div 2)))"

declare ceil_log2.simps [simp del]

definition Verify ::
  "(bytes \<Rightarrow> bytes) \<Rightarrow> audit_chain \<Rightarrow> int \<Rightarrow> bytes \<Rightarrow> proof_step list \<Rightarrow> merkle_error + bool" where
  "Verify H c batchNumber leaf pf =
     (if batchNumber < 0 \<or> batchNumber \<ge> int (length (ac_trees c)) then Inl (BatchNotFound batchNumber)
      else (let st = ac_trees c ! nat batchNumber in
        (case DecodeString (st_Root st) of
          None \<Rightarrow> Inl InvalidRootHash
        | Some root \<Rightarrow>
            (let maxProof = (if st_Size st > 1 then ceil_log2 (st_Size st) else 0)
             in Inr (VerifyProofBounded H leaf pf root (int maxProof))))))"

definition LatestRoot :: "audit_chain \<Rightarrow> string" where
  "LatestRoot c = (if ac_trees c = [] then [] else st_Root (last (ac_trees c)))"

definition LatestRootBytes :: "audit_chain \<Rightarrow> bytes" where
  "LatestRootBytes c =
     (if ac_trees c = [] then []
      else (case DecodeString (st_Root (last (ac_trees c))) of None \<Rightarrow> [] | Some r \<Rightarrow> r))"

definition BatchCount :: "audit_chain \<Rightarrow> nat" where
  "BatchCount c = length (ac_trees c)"

definition GetTree :: "audit_chain \<Rightarrow> int \<Rightarrow> sealed_tree option" where
  "GetTree c batchNumber =
     (if batchNumber < 0 \<or> batchNumber \<ge> int (length (ac_trees c)) then None
      else Some (ac_trees c ! nat batchNumber))"

record proof_step_json =
  psj_Sibling :: string
  psj_Left :: bool

record verify_request =
  vr_Batch :: int
  vr_Leaf :: string
  vr_Proof :: "proof_step_json list"

fun decode_proof :: "proof_step_json list \<Rightarrow> proof_step list option" where
  "decode_proof [] = Some []"
| "decode_proof (p # ps) =
     (case DecodeString (psj_Sibling p) of
        None \<Rightarrow> None
      | Some sib \<Rightarrow> (case decode_proof ps of
           None \<Rightarrow> None
         | Some rest \<Rightarrow> Some (\<lparr>ps_Sibling = sib, ps_Left = psj_Left p\<rparr> # rest)))"

text \<open>A \<^verbatim>\<open>VerifyResponse\<close> carries either an error or the verdict.\<close>

definition VerifyJSON :: "(bytes \<Rightarrow> bytes) \<Rightarrow> audit_chain \<Rightarrow> verify_request \<Rightarrow> merkle_error + bool" where
  "VerifyJSON H c req =
     (case DecodeString (vr_Leaf req) of
        None \<Rightarrow> Inl InvalidLeafEncoding
      | Some leaf \<Rightarrow>
          (case decode_proof (vr_Proof req) of
             None \<Rightarrow> Inl InvalidSiblingEncoding
           | Some pf \<Rightarrow> Verify H c (vr_Batch req) leaf pf))"

section \<open>The proof-length bound\<close>

lemma ceil_log2_le_iff: "0 < n \<Longrightarrow> ceil_log2 n \<le> k \<longleftrightarrow> n \<le> 2 ^ k"
proof (induction n arbitrary: k rule: ceil_log2.induct)
  case (1 n)
  show ?case
  proof (cases "n \<le> 1")
    case True
    then show ?thesis by (simp add: ceil_log2.simps[of n] le_trans[OF _ one_le_power])
  next
    case False
    show ?thesis
    proof (cases k)
      case 0
      with False show ?thesis by (simp add: ceil_log2.simps[of n])
    next
      case (Suc j)
      have "(n + 1) div 2 \<le> 2 ^ j \<longleftrightarrow> n \<le> 2 * 2 ^ j" by linarith
      with 1 False Suc show ?thesis by (simp add: ceil_log2.simps[of n])
    qed
  qed
qed

lemma length_build_levels: "length (build_levels H xs) = Suc (ceil_log2 (length xs))"
proof (induction "length xs" arbitrary: xs rule: less_induct)
  case less
  show ?case
  proof (cases "length xs > 1")
    case True
    then show ?thesis
      using less[of "next_level H xs"]
      by (simp add: build_levels_Cons length_next_level ceil_log2.simps[of "length xs"])
  next
    case False
    then show ?thesis by (simp add: build_levels_one ceil_log2.simps[of "length xs"])
  qed
qed

lemma length_proof_loop: "length (proof_loop ls i) \<le> length ls - 1"
  by (induction ls i rule: proof_loop.induct) auto

lemma proof_length_bound:
  assumes "leaves \<noteq> []"
  shows "length (proof_loop (mt_levels (NewMerkleTree H leaves)) i) \<le> ceil_log2 (length leaves)"
  using length_proof_loop[of "build_levels H (map (HashLeaf H) leaves)" i] assms
  by (simp add: NewMerkleTree_def Let_def length_build_levels)

lemma mt_leaves_NewMerkleTree [simp]: "mt_leaves (NewMerkleTree H leaves) = leaves"
  by (simp add: NewMerkleTree_def Let_def)

text \<open>C40. Building a tree and walking a proof end after logarithmically many rounds: a tree over at most \<open>2 ^ n\<close> leaves has at most \<open>n + 1\<close> levels, and the proof of
  each of its leaves has at most \<open>n\<close> steps.\<close>

theorem merkle_rounds_logarithmic:
  assumes "length leaves \<le> 2 ^ n" "Proof (NewMerkleTree H leaves) i = Inr pf"
  shows "length (mt_levels (NewMerkleTree H leaves)) \<le> n + 1 \<and> length pf \<le> n"
proof -
  have ne: "leaves \<noteq> []" and pf: "pf = proof_loop (mt_levels (NewMerkleTree H leaves)) (nat i)"
    using assms(2) by (auto simp: Proof_def split: if_splits)
  have "length (mt_levels (NewMerkleTree H leaves)) = Suc (ceil_log2 (length leaves))"
    using ne by (simp add: NewMerkleTree_def Let_def length_build_levels)
  then show ?thesis using assms(1) ne ceil_log2_le_iff[of "length leaves" n] proof_length_bound[OF ne, of H "nat i"] by (simp add: pf)
qed

theorem merkle_rounds_logarithmic_witness: "length (mt_levels (NewMerkleTree id [''a'', ''b'', ''c''])) \<le> 3"
proof -
  obtain pf where pf: "Proof (NewMerkleTree id [''a'', ''b'', ''c'']) 1 = Inr pf" by (simp add: Proof_def NewMerkleTree_def Let_def)
  show ?thesis using merkle_rounds_logarithmic[OF _ pf, of 2] by simp
qed

lemma Proof_complete:
  assumes "\<And>x. length (H x) = 32" and "i < length leaves"
  obtains pf r where "Proof (NewMerkleTree H leaves) (int i) = Inr pf"
    "mt_root (NewMerkleTree H leaves) = Some r" "VerifyProof H (leaves ! i) pf r"
    "length pf \<le> ceil_log2 (length leaves)"
proof -
  have ne: "leaves \<noteq> []" using assms(2) by auto
  have "\<And>x. H x \<noteq> []" using assms(1) by (metis list.size(3) zero_neq_numeral)
  from Proof_verifies[of H, OF this assms(2)] mt_root_NewMerkleTree[OF ne, of H]
    proof_length_bound[OF ne, of H i]
  show ?thesis
    using assms(2) that[of "proof_loop (mt_levels (NewMerkleTree H leaves)) i"]
    by (simp add: Proof_def)
qed

section \<open>Chains built by checked sealing\<close>

text \<open>
  The states an audit chain passes through when every batch is sealed with \<^verbatim>\<open>SealChecked\<close>; the
  second argument remembers the entries of each batch, which the chain itself does not keep.
\<close>

inductive sealed_chain :: "(bytes \<Rightarrow> bytes) \<Rightarrow> audit_chain \<Rightarrow> bytes list list \<Rightarrow> bool"
  for H :: "bytes \<Rightarrow> bytes" where
  fresh: "sealed_chain H (NewAuditChain n f) []"
| seal: "sealed_chain H c log \<Longrightarrow> SealChecked H ts c entries prev = Inr (c', st) \<Longrightarrow>
     sealed_chain H c' (log @ [entries])"

inductive_cases sealed_chain_snocE: "sealed_chain H c (log @ [entries])"

text \<open>A sealed batch is the Merkle summary of its entries.\<close>

definition batch_of :: "(bytes \<Rightarrow> bytes) \<Rightarrow> sealed_tree \<Rightarrow> bytes list \<Rightarrow> bool" where
  "batch_of H st entries \<longleftrightarrow>
     st_Root st = RootHex (NewMerkleTree H entries) \<and> st_Size st = length entries"

lemma Dump_Seal: "Seal H ts c entries previousRoot = (c', st) \<Longrightarrow> Dump c' = Dump c @ dump_line st"
  by (auto simp: Seal_def Let_def Dump_def)

lemma SealChecked_trees:
  assumes "SealChecked H ts c entries prev = Inr (c', st)"
  shows "ac_trees c' = ac_trees c @ [st]" and "batch_of H st entries"
    and "st_BatchNumber st = length (ac_trees c)"
    and "ac_trees c \<noteq> [] \<longrightarrow> st_Previous st = st_Root (last (ac_trees c))"
  using assms by (auto simp: SealChecked_def batch_of_def Let_def split: if_splits)

lemma continuity_from_snoc:
  "continuity_from i p (sts @ [st]) = None \<longleftrightarrow>
   continuity_from i p sts = None \<and> st_Previous st = st_Root (last (p # sts))"
  by (induction sts arbitrary: i p) auto

lemma VerifyContinuity_snoc:
  assumes "ac_trees c' = ac_trees c @ [st]"
  shows "VerifyContinuity c' = None \<longleftrightarrow>
    VerifyContinuity c = None \<and> (ac_trees c \<noteq> [] \<longrightarrow> st_Previous st = st_Root (last (ac_trees c)))"
  using assms by (cases "ac_trees c") (auto simp: VerifyContinuity_def continuity_from_snoc)

lemma sealed_chain_continuity: "sealed_chain H c log \<Longrightarrow> VerifyContinuity c = None"
proof (induction rule: sealed_chain.induct)
  case (fresh n f)
  then show ?case by (simp add: NewAuditChain_def VerifyContinuity_def)
next
  case (seal c log ts entries prev c' st)
  then show ?case
    using SealChecked_trees[OF seal.hyps(2)] by (simp add: VerifyContinuity_snoc)
qed

lemma sealed_chain_batches: "sealed_chain H c log \<Longrightarrow> list_all2 (batch_of H) (ac_trees c) log"
proof (induction rule: sealed_chain.induct)
  case (fresh n f)
  then show ?case by (simp add: NewAuditChain_def)
next
  case (seal c log ts entries prev c' st)
  then show ?case using SealChecked_trees[OF seal.hyps(2)] by (simp add: list_all2_appendI)
qed

lemma sealed_chain_numbers:
  "sealed_chain H c log \<Longrightarrow> map st_BatchNumber (ac_trees c) = [0..<length log]"
proof (induction rule: sealed_chain.induct)
  case (fresh n f)
  then show ?case by (simp add: NewAuditChain_def)
next
  case (seal c log ts entries prev c' st)
  then have "length (ac_trees c) = length log"
    by (metis length_map length_upt minus_nat.diff_0)
  with seal show ?case using SealChecked_trees[OF seal.hyps(2)] by simp
qed

lemma Verify_batch:
  assumes "b < length (ac_trees c)" and "batch_of H (ac_trees c ! b) entries"
    and "mt_root (NewMerkleTree H entries) = Some root"
  shows "Verify H c (int b) leaf pf =
    Inr (length pf \<le> ceil_log2 (length entries) \<and> VerifyProof H leaf pf root)"
proof -
  have "DecodeString (st_Root (ac_trees c ! b)) = Some root"
    using assms by (simp add: batch_of_def RootHex_def Decode_Encode)
  moreover have "(if length entries > 1 then ceil_log2 (length entries) else 0) = ceil_log2 (length entries)"
    by (simp add: ceil_log2.simps[of "length entries"])
  ultimately show ?thesis
    using assms(1,2) by (auto simp: Verify_def Let_def VerifyProofBounded_def batch_of_def)
qed

section \<open>Properties\<close>

text \<open>A hash-shaped function for the concrete instances below: 32 bytes out, by padding and
  cutting.\<close>

definition pad32 :: "bytes \<Rightarrow> bytes" where
  "pad32 x = take 32 (x @ replicate 32 (CHR 0x00))"

lemma length_pad32 [simp]: "length (pad32 x) = 32"
  by (simp add: pad32_def)

lemma pad32_first: "pad32 (x # xs) = pad32 (y # ys) \<Longrightarrow> x = y"
  by (simp add: pad32_def)

lemma pad32_second: "pad32 [x, x'] = pad32 [y, y'] \<Longrightarrow> x' = y'"
  by (simp add: pad32_def numeral_eq_Suc)

text \<open>Completeness of audit proofs: for every leaf index of a Merkle tree, \<open>Proof\<close> returns a
  path that \<open>VerifyProof\<close> accepts against the tree's root, of at most
  \<open>\<lceil>log\<^sub>2 n\<rceil>\<close> steps.\<close>

theorem merkle_proof_complete:
  assumes "\<And>x. length (H x) = 32" and "i < length leaves"
  shows "\<exists>pf r. Proof (NewMerkleTree H leaves) (int i) = Inr pf
    \<and> Root (NewMerkleTree H leaves) = Some r
    \<and> VerifyProof H (leaves ! i) pf r \<and> length leaves \<le> 2 ^ ceil_log2 (length leaves)
    \<and> length pf \<le> ceil_log2 (length leaves)"
proof -
  have "length leaves \<le> 2 ^ ceil_log2 (length leaves)"
    using assms(2) ceil_log2_le_iff[of "length leaves" "ceil_log2 (length leaves)"]
    by (metis length_pos_if_in_set nth_mem order_refl)
  moreover obtain pf r where "Proof (NewMerkleTree H leaves) (int i) = Inr pf"
    "mt_root (NewMerkleTree H leaves) = Some r" "VerifyProof H (leaves ! i) pf r"
    "length pf \<le> ceil_log2 (length leaves)"
    using Proof_complete[OF assms] .
  ultimately show ?thesis by (auto simp: Root_def)
qed

theorem merkle_proof_complete_witness:
  "\<exists>pf r. Proof (NewMerkleTree pad32 [''a'', ''b'', ''c'']) (int 2) = Inr pf
    \<and> Root (NewMerkleTree pad32 [''a'', ''b'', ''c'']) = Some r
    \<and> VerifyProof pad32 ''c'' pf r"
  using merkle_proof_complete[of pad32 2 "[''a'', ''b'', ''c'']"] by auto

text \<open>C39. Soundness of audit proofs: if \<open>H\<close> has 32-byte outputs and no collision among the inputs
  hashed for the tree and for the replayed proof, a proof that verifies against the root of a
  tree is about a leaf of that tree, whatever siblings and directions the proof claims.\<close>

theorem merkle_proof_sound:
  assumes "\<And>x. length (H x) = 32"
    and "Root (NewMerkleTree H leaves) = Some r"
    and "VerifyProof H leaf pf r"
    and "inj_on H (tree_inputs H leaves \<union> proof_inputs H leaf pf)"
  shows "leaf \<in> set leaves"
  using assms VerifyProof_member[of H leaves r leaf pf] by (simp add: Root_def)

lemma pad32_example_inputs:
  "inj_on pad32 (tree_inputs pad32 [''a'', ''b''] \<union>
     proof_inputs pad32 ''a'' [\<lparr>ps_Sibling = HashLeaf pad32 ''b'', ps_Left = False\<rparr>])"
proof -
  have "tree_inputs pad32 [''a'', ''b''] \<union>
      proof_inputs pad32 ''a'' [\<lparr>ps_Sibling = HashLeaf pad32 ''b'', ps_Left = False\<rparr>]
    = {[CHR 0x00, CHR ''a''], [CHR 0x00, CHR ''b''],
       CHR 0x01 # HashLeaf pad32 ''a'' @ HashLeaf pad32 ''b''}"
    by (auto simp: tree_inputs_def proof_inputs_def build_levels.simps step_input_def)
  then show ?thesis by (auto simp: inj_on_def dest: pad32_first pad32_second)
qed

theorem merkle_proof_sound_witness: "''a'' \<in> set [''a'', ''b'']"
proof (rule merkle_proof_sound[of pad32 _ "the (Root (NewMerkleTree pad32 [''a'', ''b'']))" _
      "[\<lparr>ps_Sibling = HashLeaf pad32 ''b'', ps_Left = False\<rparr>]"])
  show "length (pad32 x) = 32" for x by simp
  show "Root (NewMerkleTree pad32 [''a'', ''b''])
      = Some (the (Root (NewMerkleTree pad32 [''a'', ''b''])))"
    by (simp add: Root_def mt_root_NewMerkleTree)
  show "VerifyProof pad32 ''a'' [\<lparr>ps_Sibling = HashLeaf pad32 ''b'', ps_Left = False\<rparr>]
      (the (Root (NewMerkleTree pad32 [''a'', ''b''])))"
    by (simp add: VerifyProof_def Let_def Root_def NewMerkleTree_def build_levels.simps
        proof_combine_def HashNode_def flip: length_greater_0_conv)
qed (rule pad32_example_inputs)

text \<open>Checked sealing keeps the chain continuous: in every chain built by \<open>SealChecked\<close> each batch
  names its predecessor's root, so \<open>VerifyContinuity\<close> reports nothing, and the batches are
  numbered from 0 without a gap.\<close>

theorem sealed_chain_continuous:
  assumes "sealed_chain H c log"
  shows "VerifyContinuity c = None \<and> map st_BatchNumber (ac_trees c) = [0..<length log]"
  using assms by (blast intro: sealed_chain_continuity sealed_chain_numbers)

lemma sealed_chain_example:
  "sealed_chain pad32 (fst (projr (SealChecked pad32 ''7'' (NewAuditChain 0 False) [''x''] [])))
     ([] @ [[''x'']])"
  by (rule sealed_chain.seal[OF sealed_chain.fresh[of _ 0 False], where ts = "''7''" and prev = "[]"])
    (simp add: SealChecked_def NewAuditChain_def Let_def)

theorem sealed_chain_continuous_witness:
  "VerifyContinuity (fst (projr (SealChecked pad32 ''7'' (NewAuditChain 0 False) [''x''] []))) = None"
  using sealed_chain_continuous[OF sealed_chain_example] by simp

text \<open>\<open>AuditChain.Verify\<close> accepts exactly the proofs that are short enough and replay to the
  sealed root; in particular the proof \<open>Proof\<close> produces for any entry of any sealed batch is
  accepted, through the hexadecimal root and the proof-length limit.\<close>

theorem audit_chain_verify_complete:
  assumes "\<And>x. length (H x) = 32" and "sealed_chain H c log"
    and "b < length log" and "i < length (log ! b)"
  shows "\<exists>pf. Proof (NewMerkleTree H (log ! b)) (int i) = Inr pf
    \<and> Verify H c (int b) (log ! b ! i) pf = Inr True"
proof -
  obtain pf r where pf: "Proof (NewMerkleTree H (log ! b)) (int i) = Inr pf"
    "mt_root (NewMerkleTree H (log ! b)) = Some r" "VerifyProof H (log ! b ! i) pf r"
    "length pf \<le> ceil_log2 (length (log ! b))"
    using Proof_complete[OF assms(1,4)] .
  have batches: "list_all2 (batch_of H) (ac_trees c) log"
    using assms(2) by (rule sealed_chain_batches)
  then have "b < length (ac_trees c)" "batch_of H (ac_trees c ! b) (log ! b)"
    using assms(3) by (auto simp: list_all2_conv_all_nth)
  with pf show ?thesis by (auto simp: Verify_batch)
qed

theorem audit_chain_verify_complete_witness:
  "\<exists>pf. Proof (NewMerkleTree pad32 [''x'']) (int 0) = Inr pf
    \<and> Verify pad32 (fst (projr (SealChecked pad32 ''7'' (NewAuditChain 0 False) [''x''] [])))
        (int 0) ''x'' pf = Inr True"
  using audit_chain_verify_complete[OF length_pad32 sealed_chain_example, of 0 0] by simp

text \<open>\<open>AuditChain.Verify\<close> is sound: under the collision hypothesis, a positive answer for batch
  \<open>b\<close> means that the leaf is one of the entries sealed in that batch.\<close>

theorem audit_chain_verify_sound:
  assumes "\<And>x. length (H x) = 32" and "sealed_chain H c log"
    and "b < length log" and "log ! b \<noteq> []"
    and "Verify H c (int b) leaf pf = Inr True"
    and "inj_on H (tree_inputs H (log ! b) \<union> proof_inputs H leaf pf)"
  shows "leaf \<in> set (log ! b)"
proof -
  have batches: "list_all2 (batch_of H) (ac_trees c) log"
    using assms(2) by (rule sealed_chain_batches)
  then have b: "b < length (ac_trees c)" "batch_of H (ac_trees c ! b) (log ! b)"
    using assms(3) by (auto simp: list_all2_conv_all_nth)
  note r = mt_root_NewMerkleTree[OF assms(4), of H]
  from assms(5) Verify_batch[OF b r, of leaf pf] VerifyProof_member[OF assms(1) r _ assms(6)]
  show ?thesis by simp
qed

lemma audit_chain_example_verifies:
  "Verify pad32 (fst (projr (SealChecked pad32 ''7'' (NewAuditChain 0 False) [''x''] [])))
      (int 0) ''x'' [] = Inr True"
  by (simp add: SealChecked_def NewAuditChain_def Let_def Verify_def RootHex_def NewMerkleTree_def
      build_levels.simps Decode_Encode VerifyProofBounded_def VerifyProof_def HashLeaf_def
      flip: length_greater_0_conv)

theorem audit_chain_verify_sound_witness: "''x'' \<in> set (([] @ [[''x'']]) ! 0)"
proof (rule audit_chain_verify_sound[OF length_pad32 sealed_chain_example _ _ audit_chain_example_verifies])
  show "inj_on pad32 (tree_inputs pad32 (([] @ [[''x'']]) ! 0) \<union> proof_inputs pad32 ''x'' [])"
    by (simp add: tree_inputs_def proof_inputs_def build_levels.simps)
qed simp_all

text \<open>Removing a batch from the middle of a continuous chain is reported by
  \<open>VerifyContinuity\<close>, unless the removed batch and the one before it have the same root.\<close>

theorem deleted_batch_detected:
  assumes "VerifyContinuity c = None"
    and "ac_trees c = before @ [p, d, n] @ rest"
    and "st_Root d \<noteq> st_Root p"
  shows "VerifyContinuity (c\<lparr>ac_trees := before @ [p, n] @ rest\<rparr>) \<noteq> None"
proof -
  have step: "continuity_from i q (xs @ [d, n] @ rest) = None \<Longrightarrow> last (q # xs) = p \<Longrightarrow>
      continuity_from i q (xs @ [n] @ rest) \<noteq> None" for i q xs
    using assms(3) by (induction xs arbitrary: i q) (auto split: if_splits)
  show ?thesis
    using assms(1,2) step[of 1 p "[]"] step[of 1 "hd before" "tl before @ [p]"]
    by (cases before) (auto simp: VerifyContinuity_def)
qed

theorem deleted_batch_detected_witness:
  "VerifyContinuity \<lparr>ac_trees =
      [\<lparr>st_BatchNumber = 0, st_Timestamp = [], st_Previous = [], st_Root = ''aa'', st_Size = 1\<rparr>,
       \<lparr>st_BatchNumber = 2, st_Timestamp = [], st_Previous = ''bb'', st_Root = ''cc'', st_Size = 1\<rparr>],
      ac_batchSize = 1000, ac_onSeal = False, ac_sealed = []\<rparr> \<noteq> None"
proof -
  let ?p = "\<lparr>st_BatchNumber = 0, st_Timestamp = [], st_Previous = [], st_Root = ''aa'', st_Size = 1\<rparr>"
  let ?d = "\<lparr>st_BatchNumber = 1, st_Timestamp = [], st_Previous = ''aa'', st_Root = ''bb'', st_Size = 1\<rparr>"
  let ?n = "\<lparr>st_BatchNumber = 2, st_Timestamp = [], st_Previous = ''bb'', st_Root = ''cc'', st_Size = 1\<rparr>"
  let ?c = "\<lparr>ac_trees = [?p, ?d, ?n], ac_batchSize = 1000, ac_onSeal = False, ac_sealed = []\<rparr>"
  have ok: "VerifyContinuity ?c = None" by (simp add: VerifyContinuity_def)
  have shape: "ac_trees ?c = [] @ [?p, ?d, ?n] @ []" by simp
  have differ: "st_Root ?d \<noteq> st_Root ?p" by simp
  show ?thesis using deleted_batch_detected[OF ok shape differ] by simp
qed

text \<open>Sealing an empty batch ends a checked chain: its root is the empty string, which
  \<open>SealChecked\<close> refuses as a link, so no further batch can be sealed.\<close>

theorem empty_batch_blocks_chain:
  assumes "SealChecked H ts c [] prev = Inr (c', st)"
  shows "\<exists>e. SealChecked H ts' c' entries prev' = Inl e"
  using assms by (cases "prev' = []") (auto simp: SealChecked_def Let_def RootHex_def NewMerkleTree_def split: if_splits)

theorem empty_batch_blocks_chain_witness:
  "\<exists>e. SealChecked pad32 ''8'' (fst (projr (SealChecked pad32 ''7'' (NewAuditChain 0 False) [] [])))
     [''x''] [] = Inl e"
  by (rule empty_batch_blocks_chain[where ts = "''7''" and c = "NewAuditChain 0 False" and prev = "[]"
        and st = "snd (projr (SealChecked pad32 ''7'' (NewAuditChain 0 False) [] []))"])
    (simp add: SealChecked_def NewAuditChain_def Let_def)

end
