(* ===== verification/Json.thy ===== *)
theory Json
  imports Prelude
begin

text \<open>
  JSON values and the part of \<^verbatim>\<open>encoding/json\<close> that fills a Go struct from a value: members are
  matched to a field by name without regard to ASCII case, unknown members are ignored, a later
  member overwrites an earlier one, \<^verbatim>\<open>null\<close> leaves a scalar as it is, and a value of another type is
  an error. The parser itself (bytes to a value) is an argument of the definitions that use it.
\<close>

section \<open>Values\<close>

text \<open>An object keeps its members in order; a number literal with a fraction or an exponent is kept
  as it is written.\<close>

datatype json = JNull | JBool bool | JNum int | JFloat string | JStr string | JArr "json list"
  | JObj "(string \<times> json) list"

section \<open>Decoding into typed fields\<close>

text \<open>A decoder gets the value and the present content of the field.\<close>

definition decode_string :: "json \<Rightarrow> string \<Rightarrow> string option" where
  "decode_string j v = (case j of JStr s \<Rightarrow> Some s | JNull \<Rightarrow> Some v | _ \<Rightarrow> None)"

definition decode_bool :: "json \<Rightarrow> bool \<Rightarrow> bool option" where
  "decode_bool j v = (case j of JBool b \<Rightarrow> Some b | JNull \<Rightarrow> Some v | _ \<Rightarrow> None)"

text \<open>Go's \<^verbatim>\<open>int\<close> and \<^verbatim>\<open>int64\<close>: a number literal without a fraction, within 64 bits.\<close>

definition decode_int :: "json \<Rightarrow> int \<Rightarrow> int option" where
  "decode_int j v =
     (case j of JNum n \<Rightarrow> if - (2 ^ 63) \<le> n \<and> n < 2 ^ 63 then Some n else None
      | JNull \<Rightarrow> Some v | _ \<Rightarrow> None)"

text \<open>A pointer to an integer: \<^verbatim>\<open>null\<close> sets it to nil.\<close>

definition decode_int_ptr :: "json \<Rightarrow> int option \<Rightarrow> int option option" where
  "decode_int_ptr j v =
     (case j of JNull \<Rightarrow> Some None
      | _ \<Rightarrow> map_option Some (decode_int j 0))"

fun decode_strings :: "json list \<Rightarrow> string list option" where
  "decode_strings [] = Some []"
| "decode_strings (j # js) =
     (case decode_string j [] of None \<Rightarrow> None
      | Some s \<Rightarrow> map_option ((#) s) (decode_strings js))"

definition decode_string_list :: "json \<Rightarrow> string list \<Rightarrow> string list option" where
  "decode_string_list j v = (case j of JArr js \<Rightarrow> decode_strings js | JNull \<Rightarrow> Some [] | _ \<Rightarrow> None)"

text \<open>The members of an object that belong to the field \<open>name\<close>, applied in order.\<close>

fun decode_field :: "string \<Rightarrow> (json \<Rightarrow> 'v \<Rightarrow> 'v option) \<Rightarrow> (string \<times> json) list \<Rightarrow> 'v \<Rightarrow> 'v option" where
  "decode_field name dec [] v = Some v"
| "decode_field name dec ((k, j) # ms) v =
     (if ToLower k = ToLower name
      then (case dec j v of None \<Rightarrow> None | Some v' \<Rightarrow> decode_field name dec ms v')
      else decode_field name dec ms v)"

text \<open>A struct accepts an object or \<^verbatim>\<open>null\<close>, which is no member at all.\<close>

definition struct_members :: "json \<Rightarrow> (string \<times> json) list option" where
  "struct_members j = (case j of JObj ms \<Rightarrow> Some ms | JNull \<Rightarrow> Some [] | _ \<Rightarrow> None)"

definition decode_struct1 :: "string \<Rightarrow> (json \<Rightarrow> 'v \<Rightarrow> 'v option) \<Rightarrow> 'v \<Rightarrow> json \<Rightarrow> 'v option" where
  "decode_struct1 name dec zero j =
     (case struct_members j of None \<Rightarrow> None | Some ms \<Rightarrow> decode_field name dec ms zero)"

text \<open>A map keeps the last value of each key; its iteration order is up to the runtime, so the
  entries are listed in the order of their last occurrence and callers permute them.\<close>

fun last_members :: "(string \<times> 'v) list \<Rightarrow> (string \<times> 'v) list" where
  "last_members [] = []"
| "last_members ((k, v) # ms) =
     (if k \<in> fst ` set ms then last_members ms else (k, v) # last_members ms)"

fun decode_entries :: "(json \<Rightarrow> 'v option) \<Rightarrow> (string \<times> json) list \<Rightarrow> (string \<times> 'v) list option" where
  "decode_entries dec [] = Some []"
| "decode_entries dec ((k, j) # ms) =
     (case dec j of None \<Rightarrow> None
      | Some v \<Rightarrow> map_option ((#) (k, v)) (decode_entries dec ms))"

definition decode_map :: "(json \<Rightarrow> 'v option) \<Rightarrow> json \<Rightarrow> (string \<times> 'v) list option" where
  "decode_map dec j =
     (case struct_members j of None \<Rightarrow> None
      | Some ms \<Rightarrow> map_option last_members (decode_entries dec ms))"

lemma set_last_members_keys: "fst ` set (last_members ms) = fst ` set ms"
  by (induction ms rule: last_members.induct) auto

lemma distinct_last_members: "distinct (map fst (last_members ms))"
  by (induction ms rule: last_members.induct) (auto simp: set_last_members_keys)

lemma decode_field_single [simp]:
  "decode_field name dec [(name, j)] v = dec j v"
  by (simp split: option.splits)

lemma decode_int_bounds: "decode_int (JNum n) v = Some m \<Longrightarrow> m = n \<and> - (2 ^ 63) \<le> m \<and> m < 2 ^ 63"
  by (simp add: decode_int_def split: if_splits)

end
