(* ===== verification/Data.thy ===== *)
theory Data
  imports Json
begin

text \<open>
  The data model the components share: certificates with the fields the sources read, the AIC
  and principal-authorization extensions, capabilities, and the records of
  functions that stand for code outside the repository. A definition that needs such code takes
  the record as its first argument:

  \<^item> \<open>pki_ops\<close>: \<^verbatim>\<open>github.com/varwof/types\<close>, the parser and the methods of the AIC structures;
  \<^item> \<open>crypto_ops\<close>: the cryptographic primitives of the Go library (hashes, DER marshalling,
    signature verification).
\<close>

section \<open>Capabilities and the AIC extension\<close>

record capability =
  SchemeId :: string
  CapabilityId :: string
  Parameters :: bytes

type_synonym oid = "nat list"

record principal_uid =
  pu_Realm :: string
  pu_Identifier :: string
  pu_KeyHash :: bytes

record delegation_auth =
  da_Reason :: string
  da_RequestedLifetime :: int
  da_Timestamp :: instant
  da_Nonce :: bytes
  da_SignatureAlgorithm :: oid
  da_SignatureValue :: bytes

record aic =
  aic_Version :: int
  aic_AgentId :: string
  aic_PrincipalUid :: principal_uid
  aic_Capabilities :: "capability list"
  aic_DelegationMode :: int
  aic_AuthorizationConstraints :: "capability list"
  aic_DelegationAuthorization :: delegation_auth

record principal_authorization =
  pa_Grants :: "capability list"
  pa_AuthorizationConstraints :: "capability list"
  pa_AllowedMode :: int

definition DelegationAuthorized :: int where "DelegationAuthorized = 0"
definition DelegationRepresentative :: int where "DelegationRepresentative = 1"

section \<open>Certificates\<close>

datatype public_key = ECDSAKey bytes | RSAKey bytes | OtherKey bytes | NoKey

record uri =
  uri_Scheme :: string
  uri_String :: string

record certificate =
  cert_CommonName :: string
  cert_Organization :: "string list"
  cert_OrganizationalUnit :: "string list"
  cert_Subject :: string
  cert_Issuer :: string
  cert_IssuerCommonName :: string
  cert_RawIssuer :: bytes
  cert_RawSubject :: bytes
  cert_SerialNumber :: int
  cert_NotBefore :: instant
  cert_NotAfter :: instant
  cert_URIs :: "uri list"
  cert_Raw :: bytes
  cert_RawSubjectPublicKeyInfo :: bytes
  cert_PublicKey :: public_key
  cert_Extensions :: "(oid \<times> bytes) list"

section \<open>Code outside the repository\<close>

text \<open>The to-be-signed structure of a delegation authorization.\<close>

record delegation_auth_tbs =
  tbs_Version :: int
  tbs_AgentId :: string
  tbs_PrincipalUid :: principal_uid
  tbs_Reason :: string
  tbs_Capabilities :: "capability list"
  tbs_DelegationMode :: int
  tbs_AuthorizationConstraints :: "capability list"
  tbs_RequestedLifetime :: int
  tbs_Timestamp :: instant
  tbs_Nonce :: bytes
  tbs_AgentKeyBinding :: "bytes option"

text \<open>An optional string result is an error message: \<open>None\<close> is the \<^verbatim>\<open>nil\<close> error.\<close>

record pki_ops =
  ParseAIC :: "certificate \<Rightarrow> string + aic option"
  ParseUserPermissionExtension :: "certificate \<Rightarrow> string + principal_authorization option"
  ValidateAIC :: "aic \<Rightarrow> string option"
  HasProtocol :: "aic \<Rightarrow> string \<Rightarrow> bool"
  CheckPermission :: "aic \<Rightarrow> string \<Rightarrow> bool"
  PrincipalUidString :: "principal_uid \<Rightarrow> string"
  HashAlgoOID :: "principal_uid \<Rightarrow> oid"
  FullID :: "capability \<Rightarrow> string"
  GrantIds :: "principal_authorization \<Rightarrow> string list"
  IntersectPermissions :: "aic \<Rightarrow> principal_authorization \<Rightarrow> string list"
  IsPresent :: "delegation_auth \<Rightarrow> bool"
  MakeAgentKeyBinding :: "bytes \<Rightarrow> string + bytes"
  ValidateDelegationAuthTBSVersion :: "delegation_auth_tbs \<Rightarrow> string option"
  OIDSigECDSAWithSHA256 :: oid
  OIDSigRSAWithSHA256 :: oid
  OIDSigRSAPSSWithSHA256 :: oid
  OIDSHA256 :: oid

record crypto_ops =
  Sum256 :: "bytes \<Rightarrow> bytes"
  MarshalTBS :: "delegation_auth_tbs \<Rightarrow> string + bytes"
  MarshalPKIXPublicKey :: "public_key \<Rightarrow> string + bytes"
  EcdsaVerifyASN1 :: "bytes \<Rightarrow> bytes \<Rightarrow> bytes \<Rightarrow> bool"
  RsaVerifyPKCS1v15 :: "bytes \<Rightarrow> bytes \<Rightarrow> bytes \<Rightarrow> bool"
  RsaVerifyPSS :: "bytes \<Rightarrow> bytes \<Rightarrow> bytes \<Rightarrow> bool"

section \<open>Concrete values for the witnesses\<close>

definition example_cert :: certificate where
  "example_cert =
     \<lparr>cert_CommonName = ''agent-1'', cert_Organization = [], cert_OrganizationalUnit = [''gateway:ops''],
      cert_Subject = ''CN=agent-1'', cert_Issuer = ''CN=ca'', cert_IssuerCommonName = ''ca'',
      cert_RawIssuer = ''ca'', cert_RawSubject = ''agent-1'', cert_SerialNumber = 7,
      cert_NotBefore = 100, cert_NotAfter = 200, cert_URIs = [], cert_Raw = ''der'',
      cert_RawSubjectPublicKeyInfo = ''spki'', cert_PublicKey = ECDSAKey ''k'',
      cert_Extensions = []\<rparr>"

definition example_aic :: aic where
  "example_aic =
     \<lparr>aic_Version = 2, aic_AgentId = ''agent-1'',
      aic_PrincipalUid = \<lparr>pu_Realm = ''r'', pu_Identifier = ''alice'', pu_KeyHash = ''spki''\<rparr>,
      aic_Capabilities = [\<lparr>SchemeId = ''db'', CapabilityId = ''read'', Parameters = []\<rparr>],
      aic_DelegationMode = 0, aic_AuthorizationConstraints = [],
      aic_DelegationAuthorization =
        \<lparr>da_Reason = [], da_RequestedLifetime = 60, da_Timestamp = 120, da_Nonce = ''n1'',
         da_SignatureAlgorithm = [1], da_SignatureValue = ''sig''\<rparr>\<rparr>"

definition example_pki :: pki_ops where
  "example_pki =
     \<lparr>ParseAIC = (\<lambda>c. Inr (Some example_aic)),
      ParseUserPermissionExtension = (\<lambda>c. Inr None),
      ValidateAIC = (\<lambda>a. None), HasProtocol = (\<lambda>a p. True), CheckPermission = (\<lambda>a r. True),
      PrincipalUidString = pu_Identifier, HashAlgoOID = (\<lambda>u. []),
      FullID = (\<lambda>c. if SchemeId c = [] then CapabilityId c else SchemeId c @ '':'' @ CapabilityId c),
      GrantIds = (\<lambda>pa. map CapabilityId (pa_Grants pa)),
      IntersectPermissions = (\<lambda>a pa. map CapabilityId (aic_Capabilities a)),
      IsPresent = (\<lambda>d. da_SignatureValue d \<noteq> []),
      MakeAgentKeyBinding = (\<lambda>s. Inr s),
      ValidateDelegationAuthTBSVersion = (\<lambda>t. None),
      OIDSigECDSAWithSHA256 = [1], OIDSigRSAWithSHA256 = [2], OIDSigRSAPSSWithSHA256 = [3],
      OIDSHA256 = [4]\<rparr>"

definition example_crypto :: crypto_ops where
  "example_crypto =
     \<lparr>Sum256 = (\<lambda>x. x), MarshalTBS = (\<lambda>t. Inr (tbs_AgentId t @ tbs_Nonce t)),
      MarshalPKIXPublicKey = (\<lambda>k. Inr ''spki''),
      EcdsaVerifyASN1 = (\<lambda>k d s. s = ''sig''),
      RsaVerifyPKCS1v15 = (\<lambda>k d s. False), RsaVerifyPSS = (\<lambda>k d s. False)\<rparr>"

end
