(* ===== verification/Glob.thy ===== *)
theory Glob
  imports Prelude
begin

text \<open>
  \<^verbatim>\<open>filepath.Match\<close> of the Go standard library (Unix separator), which
  \<^verbatim>\<open>MatchCapability\<close> in \<^verbatim>\<open>src/policy.go\<close> calls: the chunk scanner, the chunk matcher with its
  character classes, escapes and UTF-8 decoding, and the outer loop that backtracks over one
  star at a time. The error a malformed pattern gives is dropped by the caller, so it is the
  value \<open>False\<close> here.
\<close>

section \<open>UTF-8 decoding\<close>

definition RuneError :: nat where
  "RuneError = 0xFFFD"

definition byte_in :: "nat \<Rightarrow> nat \<Rightarrow> char \<Rightarrow> bool" where
  "byte_in lo hi c \<longleftrightarrow> lo \<le> of_char c \<and> of_char c \<le> hi"

text \<open>\<^verbatim>\<open>utf8.DecodeRuneInString\<close>: the rune and the number of bytes it takes; an invalid or cut-off
  sequence is one byte of \<open>RuneError\<close>.\<close>

fun DecodeRune :: "string \<Rightarrow> nat \<times> nat" where
  "DecodeRune [] = (RuneError, 0)"
| "DecodeRune (c # cs) =
     (let b = of_char c :: nat in
      if b < 0x80 then (b, 1)
      else if 0xC2 \<le> b \<and> b \<le> 0xDF then
        (case cs of c1 # _ \<Rightarrow>
           if byte_in 0x80 0xBF c1 then ((b mod 32) * 64 + of_char c1 mod 64, 2) else (RuneError, 1)
         | _ \<Rightarrow> (RuneError, 1))
      else if 0xE0 \<le> b \<and> b \<le> 0xEF then
        (case cs of c1 # c2 # _ \<Rightarrow>
           if byte_in (if b = 0xE0 then 0xA0 else 0x80) (if b = 0xED then 0x9F else 0xBF) c1
              \<and> byte_in 0x80 0xBF c2
           then ((b mod 16) * 4096 + (of_char c1 mod 64) * 64 + of_char c2 mod 64, 3)
           else (RuneError, 1)
         | _ \<Rightarrow> (RuneError, 1))
      else if 0xF0 \<le> b \<and> b \<le> 0xF4 then
        (case cs of c1 # c2 # c3 # _ \<Rightarrow>
           if byte_in (if b = 0xF0 then 0x90 else 0x80) (if b = 0xF4 then 0x8F else 0xBF) c1
              \<and> byte_in 0x80 0xBF c2 \<and> byte_in 0x80 0xBF c3
           then ((b mod 8) * 262144 + (of_char c1 mod 64) * 4096 + (of_char c2 mod 64) * 64
                 + of_char c3 mod 64, 4)
           else (RuneError, 1)
         | _ \<Rightarrow> (RuneError, 1))
      else (RuneError, 1))"

lemma DecodeRune_pos: "s \<noteq> [] \<Longrightarrow> 0 < snd (DecodeRune s)"
  by (cases s) (auto simp: Let_def split: list.splits)

declare DecodeRune.simps [simp del]

section \<open>Chunks\<close>

text \<open>\<^verbatim>\<open>getEsc\<close>: one possibly escaped rune of a character class; \<open>None\<close> is \<^verbatim>\<open>ErrBadPattern\<close>.\<close>

definition getEsc :: "string \<Rightarrow> (nat \<times> string) option" where
  "getEsc chunk =
     (case chunk of
        [] \<Rightarrow> None
      | c # cs \<Rightarrow>
          if c = CHR ''-'' \<or> c = CHR '']'' then None
          else (let chunk' = (if c = CHR 0x5C then cs else chunk) in
            if chunk' = [] then None
            else (let (r, n) = DecodeRune chunk'; nchunk = drop n chunk' in
              if r = RuneError \<and> n = 1 then None
              else if nchunk = [] then None
              else Some (r, nchunk))))"

lemma getEsc_shorter: "getEsc chunk = Some (r, rest) \<Longrightarrow> length rest < length chunk"
proof -
  have pos: "DecodeRune s = (r', n) \<Longrightarrow> s \<noteq> [] \<Longrightarrow> 0 < n" for s r' n
    using DecodeRune_pos[of s] by simp
  show "getEsc chunk = Some (r, rest) \<Longrightarrow> ?thesis"
    by (auto simp: getEsc_def Let_def split: list.splits if_splits prod.splits dest!: pos)
qed

text \<open>The loop over the ranges of a character class: whether \<open>r\<close> is in one of them, and what
  follows the closing bracket.\<close>

function class_loop :: "nat \<Rightarrow> bool \<Rightarrow> nat \<Rightarrow> string \<Rightarrow> (bool \<times> string) option" where
  "class_loop r mtch nrange chunk =
     (if chunk \<noteq> [] \<and> hd chunk = CHR '']'' \<and> nrange > 0 then Some (mtch, tl chunk)
      else (case getEsc chunk of
        None \<Rightarrow> None
      | Some (lo, chunk1) \<Rightarrow>
          if hd chunk1 = CHR ''-'' then
            (case getEsc (tl chunk1) of
               None \<Rightarrow> None
             | Some (hi, chunk2) \<Rightarrow> class_loop r (mtch \<or> lo \<le> r \<and> r \<le> hi) (nrange + 1) chunk2)
          else class_loop r (mtch \<or> lo \<le> r \<and> r \<le> lo) (nrange + 1) chunk1))"
  by pat_completeness auto
termination
proof (relation "measure (\<lambda>(r, m, n, chunk). length chunk)", goal_cases)
  case (2 r mtch nrange chunk x lo chunk1 x' hi chunk2)
  then have "length chunk1 < length chunk" "length chunk2 < length (tl chunk1)"
    by (auto dest: getEsc_shorter)
  then show ?case by simp
next
  case (3 r mtch nrange chunk x lo chunk1)
  then show ?case by (auto dest: getEsc_shorter)
qed simp

declare class_loop.simps [simp del]

lemma class_loop_shorter:
  "class_loop r m n chunk = Some (m', rest) \<Longrightarrow> length rest < length chunk"
proof (induction r m n chunk rule: class_loop.induct)
  case (1 r mtch nrange chunk)
  show ?case
  proof (cases "chunk \<noteq> [] \<and> hd chunk = CHR '']'' \<and> nrange > 0")
    case True
    then have "class_loop r mtch nrange chunk = Some (mtch, tl chunk)"
      by (simp add: class_loop.simps[of r mtch nrange chunk])
    with 1(3) True show ?thesis by (cases chunk) auto
  next
    case stop: False
    with 1(3) obtain lo chunk1 where e1: "getEsc chunk = Some (lo, chunk1)"
      by (auto simp: class_loop.simps[of r mtch nrange chunk] split: option.splits)
    have l1: "length chunk1 < length chunk" using e1 by (rule getEsc_shorter)
    show ?thesis
    proof (cases "hd chunk1 = CHR ''-''")
      case False
      with stop 1(3) e1 have "class_loop r (mtch \<or> lo \<le> r \<and> r \<le> lo) (nrange + 1) chunk1 = Some (m', rest)"
        by (auto simp: class_loop.simps[of r mtch nrange chunk])
      with 1(2)[OF stop e1 refl False] l1 show ?thesis by linarith
    next
      case True
      with stop 1(3) e1 obtain hi chunk2 where e2: "getEsc (tl chunk1) = Some (hi, chunk2)"
        "class_loop r (mtch \<or> lo \<le> r \<and> r \<le> hi) (nrange + 1) chunk2 = Some (m', rest)"
        by (auto simp: class_loop.simps[of r mtch nrange chunk] split: option.splits)
      with 1(1)[OF stop e1 refl True e2(1) refl] getEsc_shorter[OF e2(1)] l1
      show ?thesis by simp
    qed
  qed
qed

text \<open>
  \<^verbatim>\<open>matchChunk\<close>: after a mismatch the loop goes on to check the chunk's syntax with
  \<open>failed\<close> set. \<open>None\<close> is \<^verbatim>\<open>ErrBadPattern\<close>, \<open>Some None\<close> no match, \<open>Some (Some rest)\<close> a match that leaves
  \<open>rest\<close> of the name.
\<close>

function match_loop :: "bool \<Rightarrow> string \<Rightarrow> string \<Rightarrow> string option option" where
  "match_loop failed [] s = (if failed then Some None else Some (Some s))"
| "match_loop failed (c # chunk) s =
     (let failed = (failed \<or> s = []) in
      if c = CHR ''['' then
        (let (r, n) = (if failed then (0, 0) else DecodeRune s);
             negated = (chunk \<noteq> [] \<and> hd chunk = CHR ''^'')
         in (case class_loop r False 0 (if negated then tl chunk else chunk) of
               None \<Rightarrow> None
             | Some (mtch, rest) \<Rightarrow> match_loop (failed \<or> mtch = negated) rest (drop n s)))
      else if c = CHR ''?'' then
        match_loop (failed \<or> hd s = CHR ''/'') chunk (if failed then s else drop (snd (DecodeRune s)) s)
      else if c = CHR 0x5C then
        (case chunk of
           [] \<Rightarrow> None
         | d # chunk' \<Rightarrow> match_loop (failed \<or> d \<noteq> hd s) chunk' (if failed then s else tl s))
      else match_loop (failed \<or> c \<noteq> hd s) chunk (if failed then s else tl s))"
  by pat_completeness auto
termination
proof (relation "measure (\<lambda>(f, chunk, s). length chunk)", goal_cases)
  case (2 failed c chunk s f x r n neg y mtch rest)
  then have "length rest < length (if neg then tl chunk else chunk)"
    by (auto dest: class_loop_shorter)
  then show ?case by (cases neg) auto
qed auto

declare match_loop.simps(2) [simp del]

definition matchChunk :: "string \<Rightarrow> string \<Rightarrow> string option option" where
  "matchChunk chunk s = match_loop False chunk s"

section \<open>The matcher\<close>

fun scan_loop :: "bool \<Rightarrow> string \<Rightarrow> string \<times> string" where
  "scan_loop inrange [] = ([], [])"
| "scan_loop inrange (c # cs) =
     (if c = CHR 0x5C then
        (case cs of
           [] \<Rightarrow> ([c], [])
         | d # ds \<Rightarrow> (let (chunk, rest) = scan_loop inrange ds in (c # d # chunk, rest)))
      else if c = CHR ''*'' \<and> \<not> inrange then ([], c # cs)
      else (let (chunk, rest) =
              scan_loop (if c = CHR ''['' then True else if c = CHR '']'' then False else inrange) cs
            in (c # chunk, rest)))"

definition scanChunk :: "string \<Rightarrow> bool \<times> string \<times> string" where
  "scanChunk pattern =
     (let p = dropWhile (\<lambda>c. c = CHR ''*'') pattern
      in (p \<noteq> pattern, scan_loop False p))"

lemma scan_loop_append: "scan_loop b p = (chunk, rest) \<Longrightarrow> p = chunk @ rest"
  by (induction b p arbitrary: chunk rest rule: scan_loop.induct)
    (auto split: if_splits list.splits prod.splits simp: Let_def)

lemma scanChunk_shorter:
  "pattern \<noteq> [] \<Longrightarrow> scanChunk pattern = (star, chunk, rest) \<Longrightarrow> length rest < length pattern"
proof -
  assume ne: "pattern \<noteq> []" and eq: "scanChunk pattern = (star, chunk, rest)"
  let ?p = "dropWhile (\<lambda>c. c = CHR ''*'') pattern"
  have app: "?p = chunk @ rest"
    using eq by (auto simp: scanChunk_def Let_def dest: scan_loop_append)
  have le: "length ?p \<le> length pattern" by (rule length_dropWhile_le)
  show ?thesis
  proof (cases "?p = pattern")
    case False
    then have "length ?p \<noteq> length pattern"
      by (metis append_self_conv2 length_append nat_add_left_cancel_less less_add_same_cancel2
          length_greater_0_conv linorder_neq_iff takeWhile_dropWhile_id)
    with le have "length ?p < length pattern" by simp
    with app show ?thesis by simp
  next
    case True
    then obtain c cs where p: "pattern = c # cs" "c \<noteq> CHR ''*''"
      using ne by (cases pattern) (auto split: if_splits dest: arg_cong[of _ _ length]
          simp: le_imp_less_Suc[OF length_dropWhile_le, THEN less_imp_neq])
    have "scan_loop False (c # cs) = (chunk, rest)"
      using eq True p(1) by (simp add: scanChunk_def)
    then have "chunk \<noteq> []"
      using p(2) by (auto split: if_splits list.splits prod.splits simp: Let_def)
    with app show ?thesis using True by (cases chunk) auto
  qed
qed

text \<open>The search of the star branch: skip \<open>i + 1\<close> bytes, never a separator.\<close>

fun star_skip :: "string \<Rightarrow> string \<Rightarrow> string \<Rightarrow> string option option" where
  "star_skip chunk pattern [] = Some None"
| "star_skip chunk pattern (c # cs) =
     (if c = CHR ''/'' then Some None
      else (case matchChunk chunk cs of
        None \<Rightarrow> None
      | Some None \<Rightarrow> star_skip chunk pattern cs
      | Some (Some t) \<Rightarrow> if pattern = [] \<and> t \<noteq> [] then star_skip chunk pattern cs else Some (Some t)))"

function Match :: "string \<Rightarrow> string \<Rightarrow> bool" where
  "Match pattern name =
     (if pattern = [] then name = []
      else (case scanChunk pattern of (star, chunk, rest) \<Rightarrow>
        if star \<and> chunk = [] then CHR ''/'' \<notin> set name
        else (case matchChunk chunk name of
          None \<Rightarrow> False
        | Some t \<Rightarrow>
            if t \<noteq> None \<and> (the t = [] \<or> rest \<noteq> []) then Match rest (the t)
            else if star then
              (case star_skip chunk rest name of
                 Some (Some t) \<Rightarrow> Match rest t
               | _ \<Rightarrow> False)
            else False)))"
  by pat_completeness auto
termination
  by (relation "measure (\<lambda>(pattern, name). length pattern)") (auto dest: scanChunk_shorter[OF _ sym])

declare Match.simps [simp del]

section \<open>Patterns without metacharacters\<close>

text \<open>The bytes that \<open>Match\<close> gives a meaning of their own.\<close>

definition meta_free :: "string \<Rightarrow> bool" where
  "meta_free p \<longleftrightarrow> set p \<inter> {CHR ''*'', CHR ''?'', CHR ''['', CHR 0x5C} = {}"

lemma meta_free_Nil [simp]: "meta_free []"
  by (simp add: meta_free_def)

lemma meta_free_append [simp]: "meta_free (p @ q) \<longleftrightarrow> meta_free p \<and> meta_free q"
  by (auto simp: meta_free_def)

lemma meta_free_Cons:
  "meta_free (c # p) \<longleftrightarrow> c \<noteq> CHR ''*'' \<and> c \<noteq> CHR ''?'' \<and> c \<noteq> CHR ''['' \<and> c \<noteq> CHR 0x5C \<and> meta_free p"
  by (auto simp: meta_free_def)

lemma match_loop_failed: "meta_free p \<Longrightarrow> match_loop True p s = Some None"
  by (induction p arbitrary: s) (auto simp: meta_free_Cons match_loop.simps(2) Let_def)

lemma matchChunk_literal:
  "meta_free p \<Longrightarrow> matchChunk p s = Some (if HasPrefix s p then Some (drop (length p) s) else None)"
  unfolding matchChunk_def
proof (induction p arbitrary: s)
  case Nil
  then show ?case by simp
next
  case (Cons c p)
  show ?case
  proof (cases s)
    case Nil
    with Cons show ?thesis by (simp add: meta_free_Cons match_loop.simps(2) Let_def match_loop_failed)
  next
    case (Cons d ds)
    with Cons.IH[of ds] Cons.prems show ?thesis
      by (cases "c = d")
        (simp_all add: meta_free_Cons match_loop.simps(2) Let_def match_loop_failed HasPrefix_Cons)
  qed
qed

lemma scan_loop_literal:
  "meta_free p \<Longrightarrow> scan_loop False (p @ rest) =
     (if rest = [] \<or> hd rest = CHR ''*'' then (p, rest) else scan_loop False (p @ rest))"
proof (induction p)
  case Nil
  then show ?case by (cases rest) auto
next
  case (Cons c p)
  then show ?case by (auto simp: meta_free_Cons)
qed

lemma scanChunk_literal: "meta_free p \<Longrightarrow> scanChunk p = (False, p, [])"
proof -
  assume "meta_free p"
  then have "dropWhile (\<lambda>c. c = CHR ''*'') p = p" by (cases p) (auto simp: meta_free_Cons)
  with scan_loop_literal[OF \<open>meta_free p\<close>, of "[]"] show ?thesis by (simp add: scanChunk_def)
qed

lemma scanChunk_literal_star:
  "meta_free p \<Longrightarrow> p \<noteq> [] \<Longrightarrow> scanChunk (p @ ''*'') = (False, p, ''*'')"
proof -
  assume *: "meta_free p" "p \<noteq> []"
  then have "dropWhile (\<lambda>c. c = CHR ''*'') (p @ ''*'') = p @ ''*''"
    by (cases p) (auto simp: meta_free_Cons)
  with scan_loop_literal[OF *(1), of "''*''"] show ?thesis by (simp add: scanChunk_def)
qed

text \<open>A pattern without metacharacters matches itself only.\<close>

lemma Match_literal: "meta_free p \<Longrightarrow> Match p s \<longleftrightarrow> s = p"
proof (cases "p = []")
  case True
  then show ?thesis by (simp add: Match.simps[of "[]"])
next
  case False
  assume "meta_free p"
  with False show ?thesis
    by (auto simp: Match.simps[of p] scanChunk_literal matchChunk_literal Match.simps[of "[]"] HasPrefix_iff)
qed

text \<open>A literal followed by one star matches the names that extend it without a separator.\<close>

lemma Match_star: "Match ''*'' s \<longleftrightarrow> CHR ''/'' \<notin> set s"
  by (simp add: Match.simps[of "''*''"] scanChunk_def)

lemma Match_literal_star:
  "meta_free p \<Longrightarrow> p \<noteq> [] \<Longrightarrow> Match (p @ ''*'') s \<longleftrightarrow>
     HasPrefix s p \<and> CHR ''/'' \<notin> set (drop (length p) s)"
  by (auto simp: Match.simps[of "p @ ''*''"] scanChunk_literal_star matchChunk_literal Match_star)

end
