(* ===== verification/Capability.thy ===== *)
theory Capability
  imports Data Glob
begin

text \<open>
  Capability matching (\<^verbatim>\<open>MatchCapability\<close> in \<^verbatim>\<open>src/policy.go\<close>, the helpers around
  \<^verbatim>\<open>aicCapabilityMatches\<close> in \<^verbatim>\<open>src/decision.go\<close> and \<^verbatim>\<open>requiredCapUnserved\<close> in
  \<^verbatim>\<open>src/pipeline.go\<close>), with an exact description of what the two patterns that grants are
  written in (a literal id, and a prefix ending in a colon and a star) authorize.
\<close>

definition MatchCapability :: "string \<Rightarrow> string \<Rightarrow> bool" where
  "MatchCapability capID pattern =
     (if capID = pattern then True
      else if pattern = ''*'' then True
      else if Match pattern capID then True
      else if length pattern \<ge> 2 \<and> pattern ! (length pattern - 1) = CHR ''*''
              \<and> pattern ! (length pattern - 2) = CHR '':''
      then (let prefix = take (length pattern - 1) pattern
            in length capID \<ge> length prefix \<and> take (length prefix) capID = prefix)
      else False)"

text \<open>\<open>c.SchemeId + ":" + c.CapabilityId\<close>.\<close>

definition scheme_id :: "capability \<Rightarrow> string" where
  "scheme_id c = SchemeId c @ '':'' @ CapabilityId c"

fun aicCapabilityMatches :: "capability list \<Rightarrow> string \<Rightarrow> bool" where
  "aicCapabilityMatches [] req = False"
| "aicCapabilityMatches (cap # caps) req =
     (if MatchCapability req (CapabilityId cap) then True
      else if SchemeId cap \<noteq> [] \<and> MatchCapability req (scheme_id cap) then True
      else aicCapabilityMatches caps req)"

text \<open>The two loops of \<^verbatim>\<open>effectiveCapabilities\<close>: a declaration is kept at its first matching grant.\<close>

fun effectiveCapabilities :: "capability list \<Rightarrow> string list \<Rightarrow> capability list" where
  "effectiveCapabilities [] grants = []"
| "effectiveCapabilities (c # declared) grants =
     (if list_ex (\<lambda>g. aicCapabilityMatches [c] g) grants
      then c # effectiveCapabilities declared grants
      else effectiveCapabilities declared grants)"

fun requiredCapUnserved :: "string list \<Rightarrow> capability \<Rightarrow> bool" where
  "requiredCapUnserved [] cap = False"
| "requiredCapUnserved (req # required) cap =
     (if MatchCapability req (CapabilityId cap) then True
      else if SchemeId cap \<noteq> [] \<and> MatchCapability req (scheme_id cap) then True
      else requiredCapUnserved required cap)"

datatype size_error = SchemeIdLength nat nat | CapabilityIdLength nat nat | ParametersLength nat nat

fun cap_size_loop :: "nat \<Rightarrow> capability list \<Rightarrow> size_error option" where
  "cap_size_loop i [] = None"
| "cap_size_loop i (cap # caps) =
     (if length (SchemeId cap) < 1 \<or> length (SchemeId cap) > 128
      then Some (SchemeIdLength i (length (SchemeId cap)))
      else if length (CapabilityId cap) < 1 \<or> length (CapabilityId cap) > 256
      then Some (CapabilityIdLength i (length (CapabilityId cap)))
      else if length (Parameters cap) > 4096
      then Some (ParametersLength i (length (Parameters cap)))
      else cap_size_loop (Suc i) caps)"

definition validateCapSizeConstraints :: "capability list \<Rightarrow> size_error option" where
  "validateCapSizeConstraints caps = cap_size_loop 0 caps"

section \<open>What a pattern authorizes\<close>

lemma MatchCapability_refl [simp]: "MatchCapability s s"
  by (simp add: MatchCapability_def)

lemma MatchCapability_star [simp]: "MatchCapability s ''*''"
  by (simp add: MatchCapability_def)

lemma MatchCapability_literal: "meta_free p \<Longrightarrow> MatchCapability s p \<longleftrightarrow> s = p"
proof -
  assume p: "meta_free p"
  then have "\<not> (length p \<ge> 2 \<and> p ! (length p - 1) = CHR ''*'')"
  proof (intro notI, elim conjE)
    assume "length p \<ge> 2" and star: "p ! (length p - 1) = CHR ''*''"
    then have "p ! (length p - 1) \<in> set p" by (intro nth_mem) linarith
    with p star show False by (simp add: meta_free_def)
  qed
  moreover have "p \<noteq> ''*''" using p by (auto simp: meta_free_def)
  ultimately show ?thesis
    using p by (auto simp: MatchCapability_def Match_literal)
qed

lemma MatchCapability_prefix:
  assumes "meta_free p"
  shows "MatchCapability s (p @ '':*'') \<longleftrightarrow> HasPrefix s (p @ '':'')"
proof -
  have eq: "p @ '':*'' = (p @ '':'') @ ''*''" by simp
  have mf: "meta_free (p @ '':'')" using assms by (simp add: meta_free_Cons)
  have glob: "Match (p @ '':*'') s \<Longrightarrow> HasPrefix s (p @ '':'')"
    unfolding eq using Match_literal_star[OF mf] by simp
  have self: "HasPrefix (p @ '':*'') (p @ '':'')"
    unfolding HasPrefix_iff by (intro exI[of _ "''*''"]) simp
  have "take (length p) (p @ '':*'') = p" by simp
  then show ?thesis
    using glob self HasPrefix_length[of s "p @ '':''"]
    by (auto simp: MatchCapability_def Let_def nth_append HasPrefix_def)
qed

lemma aicCapabilityMatches_iff:
  "aicCapabilityMatches caps req \<longleftrightarrow>
   (\<exists>c\<in>set caps. MatchCapability req (CapabilityId c) \<or> SchemeId c \<noteq> [] \<and> MatchCapability req (scheme_id c))"
  by (induction caps) auto

lemma requiredCapUnserved_iff:
  "requiredCapUnserved required cap \<longleftrightarrow> (\<exists>req\<in>set required. aicCapabilityMatches [cap] req)"
  by (induction required) auto

lemma effectiveCapabilities_filter:
  "effectiveCapabilities declared grants =
     filter (\<lambda>c. \<exists>g\<in>set grants. aicCapabilityMatches [c] g) declared"
  by (induction declared) (auto simp: list_ex_iff)

lemma validateCapSize_None_iff:
  "validateCapSizeConstraints caps = None \<longleftrightarrow>
   (\<forall>c\<in>set caps. length (SchemeId c) \<in> {1..128} \<and> length (CapabilityId c) \<in> {1..256}
      \<and> length (Parameters c) \<le> 4096)"
proof -
  have "cap_size_loop i caps = None \<longleftrightarrow>
   (\<forall>c\<in>set caps. length (SchemeId c) \<in> {1..128} \<and> length (CapabilityId c) \<in> {1..256}
      \<and> length (Parameters c) \<le> 4096)" for i
    by (induction caps arbitrary: i) (auto simp: Suc_le_eq)
  then show ?thesis by (simp add: validateCapSizeConstraints_def)
qed

section \<open>Properties\<close>

text \<open>What a capability pattern authorizes: a pattern without metacharacters authorizes exactly
  itself, a metacharacter-free prefix followed by \<open>:*\<close> authorizes exactly the ids that start
  with that prefix and a colon (separators included, which the glob alone would refuse), and
  \<open>*\<close> authorizes everything.\<close>

theorem match_capability_meaning:
  assumes "meta_free p"
  shows "(MatchCapability req p \<longleftrightarrow> req = p)
    \<and> (MatchCapability req (p @ '':*'') \<longleftrightarrow> HasPrefix req (p @ '':''))
    \<and> MatchCapability req ''*''"
  using assms by (simp add: MatchCapability_literal MatchCapability_prefix)

theorem match_capability_meaning_witness:
  "MatchCapability ''db:read/x'' ''db:*'' \<and> \<not> MatchCapability ''dbx:read'' ''db:*''
    \<and> \<not> MatchCapability ''db:read'' ''db''"
proof -
  have db: "meta_free ''db''" by (simp add: meta_free_def)
  show ?thesis
    using match_capability_meaning[OF db, of "''db:read/x''"] match_capability_meaning[OF db, of "''dbx:read''"]
      match_capability_meaning[OF db, of "''db:read''"]
    by (simp add: HasPrefix_def)
qed

text \<open>The size check accepts a capability list exactly when every scheme id has 1 to 128 bytes,
  every capability id 1 to 256 and every parameter blob at most 4096.\<close>

theorem cap_size_constraints_exact:
  "validateCapSizeConstraints caps = None \<longleftrightarrow>
   (\<forall>i < length caps. length (SchemeId (caps ! i)) \<in> {1..128}
      \<and> length (CapabilityId (caps ! i)) \<in> {1..256} \<and> length (Parameters (caps ! i)) \<le> 4096)"
  unfolding validateCapSize_None_iff by (metis in_set_conv_nth)

theorem cap_size_constraints_exact_witness:
  "validateCapSizeConstraints [\<lparr>SchemeId = ''db'', CapabilityId = ''read'', Parameters = []\<rparr>] = None
   \<and> validateCapSizeConstraints [\<lparr>SchemeId = [], CapabilityId = ''read'', Parameters = []\<rparr>] \<noteq> None"
  by (simp add: cap_size_constraints_exact)

text \<open>The intersection of declared capabilities with principal grants reads the declaration as the
  pattern and the grant as the id, so it is exact only without wildcards: a declaration \<open>db:*\<close> is kept
  whole against the single grant \<open>db:read\<close>, although the grants do not authorize \<open>db:drop\<close>, and a
  declaration \<open>db:read\<close> is dropped against the grant \<open>db:*\<close> that authorizes it.\<close>

theorem effective_capabilities_wildcards:
  "let wide = \<lparr>SchemeId = [], CapabilityId = ''db:*'', Parameters = []\<rparr>;
       narrow = \<lparr>SchemeId = [], CapabilityId = ''db:read'', Parameters = []\<rparr>
   in effectiveCapabilities [wide] [''db:read''] = [wide]
      \<and> aicCapabilityMatches (effectiveCapabilities [wide] [''db:read'']) ''db:drop''
      \<and> \<not> MatchCapability ''db:drop'' ''db:read''
      \<and> effectiveCapabilities [narrow] [''db:*''] = []
      \<and> MatchCapability ''db:read'' ''db:*''"
  by code_simp

text \<open>For capabilities and grants without metacharacters the intersection is exact: it keeps, in order,
  the declarations whose bare or scheme-qualified id is granted.\<close>

theorem effective_capabilities_literal:
  assumes "list_all (\<lambda>c. meta_free (CapabilityId c) \<and> meta_free (scheme_id c)) declared"
  shows "effectiveCapabilities declared grants =
    filter (\<lambda>c. CapabilityId c \<in> set grants \<or> (SchemeId c \<noteq> [] \<and> scheme_id c \<in> set grants)) declared"
  using assms
  by (induction declared) (auto simp: MatchCapability_literal list_ex_iff)

theorem effective_capabilities_literal_witness:
  "effectiveCapabilities [\<lparr>SchemeId = ''db'', CapabilityId = ''read'', Parameters = []\<rparr>] [''db:read'']
   = [\<lparr>SchemeId = ''db'', CapabilityId = ''read'', Parameters = []\<rparr>]"
proof -
  have "list_all (\<lambda>c. meta_free (CapabilityId c) \<and> meta_free (scheme_id c))
      [\<lparr>SchemeId = ''db'', CapabilityId = ''read'', Parameters = []\<rparr>]" by code_simp
  from effective_capabilities_literal[OF this, of "[''db:read'']"] show ?thesis
    by (simp add: scheme_id_def)
qed

end
