(* ===== verification/Policy.thy ===== *)
theory Policy
  imports Capability
begin

text \<open>
  Roles and the authorization policy: \<^verbatim>\<open>src/rbac.go\<close> (roles in certificate OUs, the role check)
  and \<^verbatim>\<open>src/policy.go\<close> (the policy file, its signed loading into the process-wide policy, OU to
  role mapping, grants of roles). Reading a file, decoding the policy JSON, PKCS\#7 and chain
  verification are the fields of \<open>policy_env\<close>.
\<close>

section \<open>Roles\<close>

definition RolePrefix :: string where "RolePrefix = ''gateway:''"
definition RoleAdmin :: string where "RoleAdmin = ''gateway:admin''"
definition RoleWild :: string where "RoleWild = ''gateway:*''"

definition ExtractRoles :: "certificate \<Rightarrow> string list" where
  "ExtractRoles cert =
     filter (\<lambda>r. HasPrefix r RolePrefix) (map TrimSpace (cert_OrganizationalUnit cert))"

fun role_allowed :: "string \<Rightarrow> string list \<Rightarrow> bool" where
  "role_allowed role [] = False"
| "role_allowed role (allow # allowed) =
     (if role = allow \<or> (allow = RoleWild \<and> HasPrefix role RolePrefix) then True
      else role_allowed role allowed)"

fun CheckRole :: "string list \<Rightarrow> string list \<Rightarrow> bool" where
  "CheckRole [] allowed = False"
| "CheckRole (role # roles) allowed =
     (if role = RoleWild then True
      else if role_allowed role allowed then True
      else CheckRole roles allowed)"

record offline_rbac =
  rbac_roles :: "string list"

definition NewOfflineRBAC :: "string list option \<Rightarrow> offline_rbac" where
  "NewOfflineRBAC roles = \<lparr>rbac_roles = (case roles of None \<Rightarrow> [] | Some r \<Rightarrow> r)\<rparr>"

definition NewOfflineRBACFromCert :: "certificate \<Rightarrow> offline_rbac" where
  "NewOfflineRBACFromCert cert = NewOfflineRBAC (Some (ExtractRoles cert))"

definition OfflineRBAC_CheckRole :: "offline_rbac \<Rightarrow> string list \<Rightarrow> bool" where
  "OfflineRBAC_CheckRole r allowed = CheckRole (rbac_roles r) allowed"

text \<open>A request's TLS peer certificates: \<open>None\<close> when the connection has no TLS.\<close>

definition PeerCertRoles :: "certificate list option \<Rightarrow> string list" where
  "PeerCertRoles tls =
     (case tls of Some (c # _) \<Rightarrow> ExtractRoles c | _ \<Rightarrow> [])"

definition RequireRoles :: "certificate list option \<Rightarrow> string list \<Rightarrow> bool" where
  "RequireRoles tls allowedRoles = CheckRole (PeerCertRoles tls) allowedRoles"

section \<open>The authorization policy\<close>

record policy_role =
  pr_DisplayName :: string
  pr_Profiles :: "string list"
  pr_Grants :: "string list"
  pr_Scope :: "string list"

text \<open>Go maps are association lists with distinct keys.\<close>

record authorization_policy =
  ap_Version :: string
  ap_Roles :: "(string \<times> policy_role) list"
  ap_OUMapping :: "(string \<times> string) list"
  ap_CapabilityParameters :: "(string \<times> (string \<times> json) list) list"

definition HasGrant :: "authorization_policy \<Rightarrow> string \<Rightarrow> string \<Rightarrow> bool" where
  "HasGrant p role cap =
     (case map_of (ap_Roles p) role of
        None \<Rightarrow> False
      | Some def \<Rightarrow> list_ex (\<lambda>grant. MatchCapability cap grant) (pr_Grants def))"

definition RoleGrants :: "authorization_policy \<Rightarrow> string \<Rightarrow> string list" where
  "RoleGrants p role = (case map_of (ap_Roles p) role of None \<Rightarrow> [] | Some def \<Rightarrow> pr_Grants def)"

definition RoleByOU :: "authorization_policy \<Rightarrow> string \<Rightarrow> string" where
  "RoleByOU p ou = (case map_of (ap_OUMapping p) ou of None \<Rightarrow> [] | Some role \<Rightarrow> role)"

definition ParamDefaults :: "authorization_policy option \<Rightarrow> string \<Rightarrow> string \<Rightarrow> (string \<times> json) list option" where
  "ParamDefaults p scheme capID =
     (case p of None \<Rightarrow> None
      | Some q \<Rightarrow> map_of (ap_CapabilityParameters q) (scheme @ '':'' @ capID))"

definition HasParamDefault :: "authorization_policy option \<Rightarrow> string \<Rightarrow> string \<Rightarrow> string \<Rightarrow> json option" where
  "HasParamDefault p scheme capID param =
     (case ParamDefaults p scheme capID of None \<Rightarrow> None | Some params \<Rightarrow> map_of params param)"

text \<open>The two loops of \<^verbatim>\<open>extractPolicyRoles\<close>: mapped roles first, then the \<^verbatim>\<open>gateway:\<close> OUs, each name
  once.\<close>

fun mapped_roles :: "authorization_policy \<Rightarrow> string list \<Rightarrow> string list \<Rightarrow> string list" where
  "mapped_roles p [] result = result"
| "mapped_roles p (ou # ous) result =
     (let role = RoleByOU p (TrimSpace ou)
      in if role \<noteq> [] \<and> role \<notin> set result then mapped_roles p ous (result @ [role])
         else mapped_roles p ous result)"

fun add_unseen :: "string list \<Rightarrow> string list \<Rightarrow> string list" where
  "add_unseen [] result = result"
| "add_unseen (r # roles) result =
     (if r \<notin> set result then add_unseen roles (result @ [r]) else add_unseen roles result)"

definition extractPolicyRoles :: "certificate \<Rightarrow> authorization_policy option \<Rightarrow> string list" where
  "extractPolicyRoles cert policy =
     (let roles = ExtractRoles cert in
      case policy of
        None \<Rightarrow> roles
      | Some p \<Rightarrow> add_unseen roles (mapped_roles p (cert_OrganizationalUnit cert) []))"

text \<open>The set of grants the roles hold, and the ids one of them matches. The source iterates the
  grants in map order; only whether one matches is observed.\<close>

definition grant_set :: "authorization_policy \<Rightarrow> string list \<Rightarrow> string list" where
  "grant_set p roles = concat (map (RoleGrants p) roles)"

definition IntersectGrants :: "authorization_policy \<Rightarrow> string list \<Rightarrow> string list \<Rightarrow> string list" where
  "IntersectGrants p roles aicCapIds =
     (if roles = [] \<or> aicCapIds = [] then []
      else filter (\<lambda>capID. list_ex (\<lambda>grant. MatchCapability capID grant) (grant_set p roles)) aicCapIds)"

section \<open>Signed policy files\<close>

definition IsAdminOU :: "string \<Rightarrow> bool" where
  "IsAdminOU ou \<longleftrightarrow> ou = RoleAdmin \<or> ou = ''admin''"

fun SignerHasAdminOU_ous :: "string list \<Rightarrow> bool" where
  "SignerHasAdminOU_ous [] = False"
| "SignerHasAdminOU_ous (ou # ous) = (if IsAdminOU ou then True else SignerHasAdminOU_ous ous)"

definition SignerHasAdminOU :: "certificate \<Rightarrow> bool" where
  "SignerHasAdminOU cert = SignerHasAdminOU_ous (cert_OrganizationalUnit cert)"

text \<open>\<open>'r\<close> is the type of certificate pools.\<close>

record 'r policy_env =
  env_ReadFile :: "string \<Rightarrow> bytes option"
  env_DecodePolicy :: "bytes \<Rightarrow> authorization_policy option"
  env_VerifyDetached :: "bytes \<Rightarrow> bytes \<Rightarrow> certificate option"
  env_CertVerify :: "'r \<Rightarrow> certificate \<Rightarrow> bool"
  env_LoadCA :: "string \<Rightarrow> 'r option"

datatype policy_error = PolicyRead string | SignatureRead string | SignatureInvalid
  | SignerNotAdmin | SignerUntrusted | PolicyParse | MissingVersion | NoRoles | LoadCA string
  | RequiredLoad policy_error

definition VerifySignedPolicy ::
  "'r policy_env \<Rightarrow> bytes \<Rightarrow> bytes \<Rightarrow> 'r option \<Rightarrow> bool \<Rightarrow> policy_error + certificate" where
  "VerifySignedPolicy E sigDER policyData roots requireAdminOU =
     (case env_VerifyDetached E sigDER policyData of
        None \<Rightarrow> Inl SignatureInvalid
      | Some cert \<Rightarrow>
          if requireAdminOU \<and> \<not> SignerHasAdminOU cert then Inl SignerNotAdmin
          else (case roots of
             Some pool \<Rightarrow> if env_CertVerify E pool cert then Inr cert else Inl SignerUntrusted
           | None \<Rightarrow> Inr cert))"

definition ParseAuthorizationPolicy :: "'r policy_env \<Rightarrow> bytes \<Rightarrow> policy_error + authorization_policy" where
  "ParseAuthorizationPolicy E data =
     (case env_DecodePolicy E data of
        None \<Rightarrow> Inl PolicyParse
      | Some p \<Rightarrow>
          if ap_Version p = [] then Inl MissingVersion
          else if length (ap_Roles p) = 0 then Inl NoRoles
          else Inr p)"

record 'r policy_verify_options =
  pvo_Roots :: "'r option"
  pvo_RequireAdminOU :: bool

definition LoadAuthorizationPolicy ::
  "'r policy_env \<Rightarrow> string \<Rightarrow> string \<Rightarrow> 'r policy_verify_options option \<Rightarrow>
   policy_error + authorization_policy" where
  "LoadAuthorizationPolicy E policyPath sigSuffix opts =
     (case env_ReadFile E policyPath of
        None \<Rightarrow> Inl (PolicyRead policyPath)
      | Some data \<Rightarrow>
          (case opts of
             None \<Rightarrow> ParseAuthorizationPolicy E data
           | Some o' \<Rightarrow>
               (case env_ReadFile E (policyPath @ sigSuffix) of
                  None \<Rightarrow> Inl (SignatureRead (policyPath @ sigSuffix))
                | Some sig \<Rightarrow>
                    (case VerifySignedPolicy E sig data (pvo_Roots o') (pvo_RequireAdminOU o') of
                       Inl e \<Rightarrow> Inl e
                     | Inr _ \<Rightarrow> ParseAuthorizationPolicy E data))))"

text \<open>The process-wide policy \<^verbatim>\<open>globalGWPolicy\<close> is the state \<open>g\<close>; \<^verbatim>\<open>SetAuthorizationPolicy\<close> replaces it.\<close>

type_synonym global_policy = "authorization_policy option"

definition SetAuthorizationPolicy :: "authorization_policy option \<Rightarrow> global_policy \<Rightarrow> global_policy" where
  "SetAuthorizationPolicy p g = p"

definition ExtractPolicyRoles :: "global_policy \<Rightarrow> certificate \<Rightarrow> string list" where
  "ExtractPolicyRoles g cert = extractPolicyRoles cert g"

definition LoadGatewayPolicy ::
  "'r policy_env \<Rightarrow> global_policy \<Rightarrow> string \<Rightarrow> string \<Rightarrow> 'r policy_verify_options option \<Rightarrow> bool \<Rightarrow>
   global_policy \<times> policy_error option" where
  "LoadGatewayPolicy E g policyPath sigSuffix opts require =
     (if policyPath = [] then (g, None)
      else (case LoadAuthorizationPolicy E policyPath sigSuffix opts of
        Inl e \<Rightarrow> (if require then (g, Some (RequiredLoad e)) else (g, None))
      | Inr p \<Rightarrow> (SetAuthorizationPolicy (Some p) g, None)))"

record policy_signing_config =
  psc_Enabled :: bool
  psc_CAFile :: string
  psc_RequireAdminOU :: "bool option"
  psc_Require :: bool
  psc_SigSuffix :: string

definition BuildPolicyVerifyOptions ::
  "'r policy_env \<Rightarrow> policy_signing_config option \<Rightarrow> string \<Rightarrow>
   policy_error + 'r policy_verify_options option" where
  "BuildPolicyVerifyOptions E ps tlsClientCA =
     (case ps of
        None \<Rightarrow> Inr None
      | Some c \<Rightarrow>
          if \<not> psc_Enabled c then Inr None
          else (let caFile = (if psc_CAFile c = [] then tlsClientCA else psc_CAFile c);
                    requireAdminOU = (case psc_RequireAdminOU c of None \<Rightarrow> True | Some b \<Rightarrow> b)
                in if caFile \<noteq> [] then
                     (case env_LoadCA E caFile of
                        None \<Rightarrow> Inl (LoadCA caFile)
                      | Some pool \<Rightarrow> Inr (Some \<lparr>pvo_Roots = Some pool, pvo_RequireAdminOU = requireAdminOU\<rparr>))
                   else Inr (Some \<lparr>pvo_Roots = None, pvo_RequireAdminOU = requireAdminOU\<rparr>)))"

section \<open>Lemmas\<close>

lemma role_allowed_iff:
  "role_allowed role allowed \<longleftrightarrow>
   role \<in> set allowed \<or> RoleWild \<in> set allowed \<and> HasPrefix role RolePrefix"
  by (induction allowed) auto

lemma CheckRole_iff:
  "CheckRole roles allowed \<longleftrightarrow>
   (\<exists>role\<in>set roles. role = RoleWild \<or> role \<in> set allowed
      \<or> RoleWild \<in> set allowed \<and> HasPrefix role RolePrefix)"
  by (induction roles) (auto simp: role_allowed_iff)

lemma set_add_unseen: "set (add_unseen roles result) = set result \<union> set roles"
  by (induction roles arbitrary: result) auto

lemma distinct_add_unseen: "distinct result \<Longrightarrow> distinct (add_unseen roles result)"
  by (induction roles arbitrary: result) auto

lemma set_mapped_roles:
  "set (mapped_roles p ous result) =
     set result \<union> {RoleByOU p (TrimSpace ou) | ou. ou \<in> set ous \<and> RoleByOU p (TrimSpace ou) \<noteq> []}"
  by (induction ous arbitrary: result) (auto simp: Let_def)

lemma distinct_mapped_roles: "distinct result \<Longrightarrow> distinct (mapped_roles p ous result)"
  by (induction ous arbitrary: result) (auto simp: Let_def)

lemma SignerHasAdminOU_iff:
  "SignerHasAdminOU cert \<longleftrightarrow> (\<exists>ou\<in>set (cert_OrganizationalUnit cert). IsAdminOU ou)"
proof -
  have "SignerHasAdminOU_ous ous \<longleftrightarrow> (\<exists>ou\<in>set ous. IsAdminOU ou)" for ous
    by (induction ous) auto
  then show ?thesis by (simp add: SignerHasAdminOU_def)
qed

lemma VerifySignedPolicy_Inr:
  "VerifySignedPolicy E sig data roots adm = Inr cert \<Longrightarrow>
   env_VerifyDetached E sig data = Some cert \<and> (adm \<longrightarrow> SignerHasAdminOU cert)
   \<and> (\<forall>pool. roots = Some pool \<longrightarrow> env_CertVerify E pool cert)"
  by (auto simp: VerifySignedPolicy_def split: option.splits if_splits)

section \<open>Properties\<close>

text \<open>The role check admits exactly the role lists that hold the wildcard role, or an allowed
  role, or any \<open>gateway:\<close> role when the wildcard is allowed; an empty role list is refused.\<close>

theorem check_role_exact:
  "CheckRole roles allowed \<longleftrightarrow>
     RoleWild \<in> set roles \<or> list_ex (\<lambda>r. r \<in> set allowed) roles
     \<or> (RoleWild \<in> set allowed \<and> list_ex (\<lambda>r. HasPrefix r RolePrefix) roles)"
  by (auto simp: CheckRole_iff list_ex_iff)

text \<open>Under a policy, the roles of a certificate are exactly the roles its OUs map to plus its
  \<open>gateway:\<close> OUs, each listed once.\<close>

theorem extract_policy_roles_exact:
  "distinct (extractPolicyRoles cert (Some p)) \<and>
   set (extractPolicyRoles cert (Some p)) =
     {r. r \<noteq> [] \<and> r \<in> (\<lambda>ou. RoleByOU p (TrimSpace ou)) ` set (cert_OrganizationalUnit cert)}
     \<union> set (ExtractRoles cert)"
  by (auto simp: extractPolicyRoles_def Let_def set_add_unseen set_mapped_roles
      intro!: distinct_add_unseen distinct_mapped_roles)

text \<open>Reloading the policy file fails closed: with verification options, the process-wide policy
  changes only to a policy parsed from the bytes of the file, for which a detached signature
  verified, made by a signer with the admin OU where that is required and chaining to the roots
  where they are given; whenever an error is reported the old policy stays.\<close>

theorem policy_reload_fail_closed:
  assumes "LoadGatewayPolicy E g path sfx (Some opts) require = (g', err)"
  shows "(err \<noteq> None \<longrightarrow> g' = g) \<and>
    (g' \<noteq> g \<longrightarrow> (\<exists>data sig signer p.
        env_ReadFile E path = Some data \<and> env_ReadFile E (path @ sfx) = Some sig
        \<and> env_VerifyDetached E sig data = Some signer
        \<and> (pvo_RequireAdminOU opts \<longrightarrow> SignerHasAdminOU signer)
        \<and> (\<forall>pool. pvo_Roots opts = Some pool \<longrightarrow> env_CertVerify E pool signer)
        \<and> ParseAuthorizationPolicy E data = Inr p \<and> g' = Some p))"
  using assms
  by (auto simp: LoadGatewayPolicy_def LoadAuthorizationPolicy_def SetAuthorizationPolicy_def
      split: if_splits option.splits sum.splits dest!: VerifySignedPolicy_Inr)

definition policy_reload_example_env :: "unit policy_env" where
  "policy_reload_example_env =
     \<lparr>env_ReadFile = (\<lambda>f. if f = ''authz.json'' then Some ''p'' else if f = ''authz.json.sig'' then Some ''s'' else None),
      env_DecodePolicy = (\<lambda>d. Some \<lparr>ap_Version = ''1'', ap_Roles = [(''ops'',
         \<lparr>pr_DisplayName = [], pr_Profiles = [], pr_Grants = [''db:*''], pr_Scope = []\<rparr>)],
         ap_OUMapping = [], ap_CapabilityParameters = []\<rparr>),
      env_VerifyDetached = (\<lambda>s d. None),
      env_CertVerify = (\<lambda>_ _. True),
      env_LoadCA = (\<lambda>_. None)\<rparr>"

theorem policy_reload_fail_closed_witness:
  "fst (LoadGatewayPolicy policy_reload_example_env None ''authz.json'' ''.sig''
     (Some \<lparr>pvo_Roots = None, pvo_RequireAdminOU = True\<rparr>) True) = None"
proof -
  obtain g' err where eq: "LoadGatewayPolicy policy_reload_example_env None ''authz.json'' ''.sig''
     (Some \<lparr>pvo_Roots = None, pvo_RequireAdminOU = True\<rparr>) True = (g', err)" by fastforce
  have "g' = None"
    using policy_reload_fail_closed[OF eq] by (auto simp: policy_reload_example_env_def)
  with eq show ?thesis by simp
qed

end
