(* ===== verification/Registry.thy ===== *)
theory Registry
  imports Prelude
begin

text \<open>
  The contract of the gateway's extension registries: entries are found under the key they
  report, registering never replaces an entry, and an empty key or a missing entry is refused.
  The constraint evaluators and the parameter validators each implement it
  (\<^verbatim>\<open>src/constraints.go\<close>, \<^verbatim>\<open>src/parameters.go\<close>); what follows from the contract alone is proved here.
\<close>

datatype registry_error = NilRegistry | NilEntry | EmptyKey | AlreadyRegistered string
  | NotRegistered string

locale keyed_registry =
  fixes key :: "'e \<Rightarrow> string"
    and find :: "'r \<Rightarrow> string \<Rightarrow> registry_error + 'e"
    and register :: "'e option \<Rightarrow> 'r \<Rightarrow> 'r \<times> registry_error option"
    and reset :: "'r \<Rightarrow> 'r"
    and keys :: "'r \<Rightarrow> string list"
  assumes register_nil: "register None r = (r, Some NilEntry)"
    and register_empty: "key e = [] \<Longrightarrow> register (Some e) r = (r, Some EmptyKey)"
    and register_dup: "key e \<noteq> [] \<Longrightarrow> find r (key e) = Inr e' \<Longrightarrow>
      register (Some e) r = (r, Some (AlreadyRegistered (key e)))"
    and register_new: "key e \<noteq> [] \<Longrightarrow> find r (key e) = Inl err \<Longrightarrow>
      snd (register (Some e) r) = None
      \<and> find (fst (register (Some e) r)) k = (if k = key e then Inr e else find r k)"
    and find_error: "find r k = Inl err \<Longrightarrow> err = NotRegistered k"
    and find_reset: "find (reset r) k = Inl (NotRegistered k)"
    and keys_find: "k \<in> set (keys r) \<longleftrightarrow> (\<exists>e. find r k = Inr e)"
begin

lemma register_keeps:
  assumes "find r k = Inr e"
  shows "find (fst (register x r)) k = Inr e"
proof (cases x)
  case None
  then show ?thesis using assms register_nil by simp
next
  case (Some y)
  show ?thesis
  proof (cases "key y = []")
    case True
    then show ?thesis using Some assms register_empty by simp
  next
    case False
    then show ?thesis
      using Some assms register_dup[OF False, of r] register_new[OF False, of r _ k]
      by (cases "find r (key y)") auto
  qed
qed

text \<open>Registering a list, the errors ignored, as the package initialisers do.\<close>

fun register_all :: "'e list \<Rightarrow> 'r \<Rightarrow> 'r" where
  "register_all [] r = r"
| "register_all (e # es) r = register_all es (fst (register (Some e) r))"

lemma register_all_keeps: "find r k = Inr e \<Longrightarrow> find (register_all es r) k = Inr e"
  by (induction es arbitrary: r) (simp_all add: register_keeps)

lemma find_register_all:
  assumes "find r k = Inl err" "[] \<notin> key ` set es"
  shows "find (register_all es r) k =
    (case List.find (\<lambda>e. key e = k) es of None \<Rightarrow> Inl (NotRegistered k) | Some e \<Rightarrow> Inr e)"
  using assms
proof (induction es arbitrary: r err)
  case Nil
  then show ?case using find_error by auto
next
  case (Cons e es)
  then have ne: "key e \<noteq> []" and nes: "[] \<notin> key ` set es" by auto
  show ?case
  proof (cases "key e = k")
    case True
    then show ?thesis
      using Cons.prems(1) register_new[OF ne, of r err k] by (simp add: register_all_keeps)
  next
    case False
    have "find (fst (register (Some e) r)) k = Inl err"
      using Cons.prems(1) False register_dup[OF ne, of r] register_new[OF ne, of r _ k]
      by (cases "find r (key e)") auto
    from Cons.IH[OF this nes] False show ?thesis by simp
  qed
qed

lemma keys_register_all:
  assumes "[] \<notin> key ` set es"
  shows "set (keys (register_all es (reset r))) = key ` set es"
  using find_register_all[OF find_reset assms, of r]
  by (auto simp: keys_find find_None_iff find_Some_iff split: option.splits)

end

end
