(* ===== verification/Parameters.thy ===== *)
theory Parameters
  imports Data Registry
begin

text \<open>
  Parameter boundaries (\<^verbatim>\<open>src/parameters.go\<close>): the validator registry, which implements the
  registry contract, and the built-in \<open>max_rows\<close> validator. A registry pointer that may be nil is
  an option.
\<close>

section \<open>The registry\<close>

datatype parameter_error = MaxRowsJSON | MaxRowsNegative int | MaxRowsExceeded int int | ValidatorError string

record parameter_validator =
  pv_Scheme :: string
  pv_Validate :: "capability \<Rightarrow> capability \<Rightarrow> parameter_error option"

record parameter_validator_registry =
  pvr_m :: "(string \<times> parameter_validator) list"

definition NewParameterValidatorRegistry :: parameter_validator_registry where
  "NewParameterValidatorRegistry = \<lparr>pvr_m = []\<rparr>"

definition pvr_register ::
    "parameter_validator option \<Rightarrow> parameter_validator_registry
     \<Rightarrow> parameter_validator_registry \<times> registry_error option" where
  "pvr_register v_opt r =
     (case v_opt of None \<Rightarrow> (r, Some NilEntry) | Some v \<Rightarrow>
      let s = pv_Scheme v in
      if s = [] then (r, Some EmptyKey)
      else if map_of (pvr_m r) s \<noteq> None then (r, Some (AlreadyRegistered s))
      else (r\<lparr>pvr_m := (s, v) # pvr_m r\<rparr>, None))"

definition ParameterValidatorRegistry_Register ::
    "parameter_validator option \<Rightarrow> parameter_validator_registry option
     \<Rightarrow> parameter_validator_registry option \<times> registry_error option" where
  "ParameterValidatorRegistry_Register v r_opt =
     (case r_opt of None \<Rightarrow> (None, Some NilRegistry)
      | Some r \<Rightarrow> (case pvr_register v r of (r', err) \<Rightarrow> (Some r', err)))"

definition pvr_find :: "parameter_validator_registry \<Rightarrow> string \<Rightarrow> registry_error + parameter_validator" where
  "pvr_find r schemeID =
     (case map_of (pvr_m r) schemeID of None \<Rightarrow> Inl (NotRegistered schemeID) | Some v \<Rightarrow> Inr v)"

definition ParameterValidatorRegistry_Find ::
    "parameter_validator_registry option \<Rightarrow> string \<Rightarrow> registry_error + parameter_validator" where
  "ParameterValidatorRegistry_Find r_opt schemeID =
     (case r_opt of None \<Rightarrow> Inl NilRegistry | Some r \<Rightarrow> pvr_find r schemeID)"

definition pvr_reset :: "parameter_validator_registry \<Rightarrow> parameter_validator_registry" where
  "pvr_reset r = r\<lparr>pvr_m := []\<rparr>"

definition ParameterValidatorRegistry_Reset ::
    "parameter_validator_registry option \<Rightarrow> parameter_validator_registry option" where
  "ParameterValidatorRegistry_Reset r_opt = map_option pvr_reset r_opt"

definition ParameterValidatorRegistry_Len :: "parameter_validator_registry option \<Rightarrow> nat" where
  "ParameterValidatorRegistry_Len r_opt = (case r_opt of None \<Rightarrow> 0 | Some r \<Rightarrow> length (pvr_m r))"

definition pvr_keys :: "parameter_validator_registry \<Rightarrow> string list" where
  "pvr_keys r = map fst (pvr_m r)"

definition ParameterValidatorRegistry_Keys :: "parameter_validator_registry option \<Rightarrow> string list" where
  "ParameterValidatorRegistry_Keys r_opt = (case r_opt of None \<Rightarrow> [] | Some r \<Rightarrow> pvr_keys r)"

interpretation pvreg: keyed_registry pv_Scheme pvr_find pvr_register pvr_reset pvr_keys
  by unfold_locales
    (auto simp: pvr_register_def pvr_find_def pvr_reset_def pvr_keys_def Let_def map_of_eq_None_iff
      split: option.splits dest: map_of_Some_key)

definition ValidateCapability ::
    "parameter_validator_registry option \<Rightarrow> capability \<Rightarrow> capability \<Rightarrow> parameter_error option" where
  "ValidateCapability r_opt granted declared =
     (case r_opt of None \<Rightarrow> None | Some r \<Rightarrow>
      case ParameterValidatorRegistry_Find (Some r) (SchemeId declared) of
        Inl e \<Rightarrow> None
      | Inr v \<Rightarrow> pv_Validate v granted declared)"

section \<open>The max\_rows validator\<close>

text \<open>\<open>unmarshal\<close> is the JSON parser. The result is the value and whether there is one.\<close>

definition parseMaxRows :: "(bytes \<Rightarrow> json option) \<Rightarrow> bytes \<Rightarrow> parameter_error + (int \<times> bool)" where
  "parseMaxRows unmarshal raw =
     (let trimmed = TrimSpace raw in
      if trimmed = [] then Inr (0, False)
      else case Option.bind (unmarshal trimmed) (decode_struct1 ''max_rows'' decode_int_ptr None) of
             None \<Rightarrow> Inl MaxRowsJSON
           | Some None \<Rightarrow> Inr (0, False)
           | Some (Some n) \<Rightarrow> if n < 0 then Inl (MaxRowsNegative n) else Inr (n, True))"

definition maxRows_Validate :: "(bytes \<Rightarrow> json option) \<Rightarrow> capability \<Rightarrow> capability \<Rightarrow> parameter_error option" where
  "maxRows_Validate unmarshal granted declared =
     (case parseMaxRows unmarshal (Parameters granted) of Inl e \<Rightarrow> Some e | Inr (g, gOK) \<Rightarrow>
      case parseMaxRows unmarshal (Parameters declared) of Inl e \<Rightarrow> Some e | Inr (d, dOK) \<Rightarrow>
      if \<not> dOK then None
      else if gOK \<and> d > g then Some (MaxRowsExceeded d g)
      else None)"

definition MaxRowsValidator :: "(bytes \<Rightarrow> json option) \<Rightarrow> parameter_validator" where
  "MaxRowsValidator unmarshal = \<lparr>pv_Scheme = ''report'', pv_Validate = maxRows_Validate unmarshal\<rparr>"

definition builtinParameterValidators :: "(bytes \<Rightarrow> json option) \<Rightarrow> parameter_validator_registry option" where
  "builtinParameterValidators unmarshal =
     fst (ParameterValidatorRegistry_Register (Some (MaxRowsValidator unmarshal))
            (Some NewParameterValidatorRegistry))"

section \<open>Lemmas\<close>

text \<open>The boundary a parameter string states: \<open>None\<close> when it is malformed, \<open>Some None\<close> for no boundary.\<close>

definition row_limit :: "(bytes \<Rightarrow> json option) \<Rightarrow> bytes \<Rightarrow> int option option" where
  "row_limit unmarshal raw =
     (case parseMaxRows unmarshal raw of Inl e \<Rightarrow> None | Inr (n, ok) \<Rightarrow> Some (if ok then Some n else None))"

lemma row_limit_nonneg: "row_limit u raw = Some (Some n) \<Longrightarrow> 0 \<le> n"
  by (auto simp: row_limit_def parseMaxRows_def Let_def split: option.splits if_splits)

lemma maxRows_Validate_None:
  "maxRows_Validate u granted declared = None \<longleftrightarrow>
     (\<exists>g d. row_limit u (Parameters granted) = Some g \<and> row_limit u (Parameters declared) = Some d
        \<and> (d = None \<or> g = None \<or> the d \<le> the g))"
  by (cases "parseMaxRows u (Parameters granted)"; cases "parseMaxRows u (Parameters declared)")
    (auto simp: maxRows_Validate_def row_limit_def split: prod.splits)

lemma find_builtin:
  "ParameterValidatorRegistry_Find (builtinParameterValidators u) s =
     (if s = ''report'' then Inr (MaxRowsValidator u) else Inl (NotRegistered s))"
  by (simp add: builtinParameterValidators_def ParameterValidatorRegistry_Register_def
      ParameterValidatorRegistry_Find_def pvr_register_def pvr_find_def NewParameterValidatorRegistry_def
      MaxRowsValidator_def Let_def)

lemma builtin_nonnil: "\<exists>r. builtinParameterValidators u = Some r"
  by (simp add: builtinParameterValidators_def ParameterValidatorRegistry_Register_def split: prod.splits)

section \<open>Properties\<close>

text \<open>The built-in boundary check constrains exactly the scheme \<open>report\<close>: there it passes when both
  parameter strings are well formed and the declared row limit, if there is one, does not exceed
  the granted one, if there is one; row limits are never negative; any other scheme passes.\<close>

theorem max_rows_boundary:
  "ValidateCapability (builtinParameterValidators u) granted declared = None \<longleftrightarrow>
     SchemeId declared \<noteq> ''report'' \<or>
     (\<exists>g d. row_limit u (Parameters granted) = Some g \<and> row_limit u (Parameters declared) = Some d
        \<and> (d = None \<or> g = None \<or> the d \<le> the g))"
proof -
  obtain r where r: "builtinParameterValidators u = Some r" using builtin_nonnil by blast
  then show ?thesis
    using find_builtin[of u "SchemeId declared"]
    by (simp add: ValidateCapability_def MaxRowsValidator_def maxRows_Validate_None)
qed

text \<open>The boundary relation is transitive through well-formed boundaries, so it can be checked level by
  level: what passes against a boundary that itself passes against a wider one passes against the
  wider one, provided the middle level states a limit.\<close>

theorem max_rows_transitive:
  assumes "maxRows_Validate u a b = None" "maxRows_Validate u b c = None"
    and "row_limit u (Parameters b) \<noteq> Some None"
  shows "maxRows_Validate u a c = None"
  using assms by (auto simp: maxRows_Validate_None)

definition example_rows :: "bytes \<Rightarrow> json option" where
  "example_rows b = Some (JObj [(''max_rows'', JNum (int (length b)))])"

theorem max_rows_boundary_witness:
  "ValidateCapability (builtinParameterValidators example_rows)
     \<lparr>SchemeId = ''report'', CapabilityId = ''r'', Parameters = ''xx''\<rparr>
     \<lparr>SchemeId = ''report'', CapabilityId = ''r'', Parameters = ''xxx''\<rparr> \<noteq> None"
proof -
  have "row_limit example_rows ''xx'' = Some (Some 2)" "row_limit example_rows ''xxx'' = Some (Some 3)"
    by code_simp+
  then show ?thesis by (simp add: max_rows_boundary del: not_None_eq)
qed

theorem max_rows_transitive_witness:
  "maxRows_Validate example_rows
     \<lparr>SchemeId = ''report'', CapabilityId = ''r'', Parameters = ''xxx''\<rparr>
     \<lparr>SchemeId = ''report'', CapabilityId = ''r'', Parameters = ''x''\<rparr> = None"
  by (rule max_rows_transitive[where b = "\<lparr>SchemeId = ''report'', CapabilityId = ''r'', Parameters = ''xx''\<rparr>"])
    code_simp+

end
