(* ===== verification/Mask.thy ===== *)
theory Mask
  imports Glob
begin

text \<open>
  Masking of sensitive strings for logs (\<^verbatim>\<open>src/mask.go\<close>). Strings are byte sequences; a one-byte slice
  converted with \<^verbatim>\<open>string(b)\<close> becomes the UTF-8 form of that code point.
\<close>

section \<open>Masks\<close>

abbreviation (input) DefaultMaskRune :: char where "DefaultMaskRune \<equiv> CHR ''*''"

definition stars :: "nat \<Rightarrow> string" where
  "stars n = replicate n DefaultMaskRune"

definition MaskString :: "string \<Rightarrow> int \<Rightarrow> string" where
  "MaskString s visible =
     (if s = [] \<or> visible < 0 then s
      else if int (length s) \<le> visible then s
      else stars (length s - nat visible) @ drop (length s - nat visible) s)"

text \<open>The re-insertion of colons: \<open>i\<close> is the byte index of the rune that \<^verbatim>\<open>range\<close> yields, and a byte that
  is no rune is written as the replacement character.\<close>

function insert_colons :: "nat \<Rightarrow> string \<Rightarrow> string" where
  "insert_colons i [] = []"
| "insert_colons i (c # cs) =
     (let (r, n) = DecodeRune (c # cs);
          out = (if r = RuneError \<and> n = 1 then [CHR 0xEF, CHR 0xBF, CHR 0xBD] else take n (c # cs))
      in (if i > 0 \<and> i mod 2 = 0 then '':'' else []) @ out @ insert_colons (i + n) (drop n (c # cs)))"
  by pat_completeness auto

termination
proof (relation "measure (length \<circ> snd)")
  fix i c cs x r n
  assume "x = DecodeRune (c # cs)" "(r, n) = x"
  then have "0 < n" using DecodeRune_pos[of "c # cs"] by (metis list.distinct(1) snd_conv)
  then show "((i + n, drop n (c # cs)), i, c # cs) \<in> measure (length \<circ> snd)" by simp
qed simp

definition MaskCertSerial :: "string \<Rightarrow> string" where
  "MaskCertSerial serial =
     (let clean = filter (\<lambda>c. c \<noteq> CHR '':'') serial in
      if clean = [] then serial else insert_colons 0 (MaskString clean 4))"

definition byte_string :: "char \<Rightarrow> string" where
  "byte_string c =
     (let n = of_char c :: nat in
      if n < 128 then [c] else [char_of (192 + n div 64), char_of (128 + n mod 64)])"

definition mask_inner :: "string \<Rightarrow> string" where
  "mask_inner base =
     (if length base \<le> 2 then stars (length base)
      else byte_string (hd base) @ stars (length base - 2) @ byte_string (last base))"

definition maskBasename :: "string \<Rightarrow> string" where
  "maskBasename name =
     (case split_last (\<lambda>c. c = CHR ''.'') name of
        None \<Rightarrow> stars (length name)
      | Some (pre, post) \<Rightarrow> mask_inner (butlast pre) @ ''.'' @ post)"

definition MaskFilePath :: "string \<Rightarrow> string" where
  "MaskFilePath path =
     (if path = [] then []
      else case split_last (\<lambda>c. c = CHR ''/'' \<or> c = CHR 0x5C) path of
             None \<Rightarrow> maskBasename path
           | Some (dir, base) \<Rightarrow> dir @ maskBasename base)"

definition token_keep :: "nat \<Rightarrow> nat" where
  "token_keep n =
     (let maxKeep = n div 2; keep = (if 4 > maxKeep div 2 then maxKeep div 2 else 4)
      in if keep < 1 then 1 else keep)"

definition MaskToken :: "string \<Rightarrow> string" where
  "MaskToken token =
     (if token = [] then []
      else let n = length token in
        if n \<le> 8 then stars n
        else take (token_keep n) token @ stars (n - 2 * token_keep n) @ drop (n - token_keep n) token)"

definition MaskEmail :: "string \<Rightarrow> string" where
  "MaskEmail email =
     (case split_last (\<lambda>c. c = CHR ''@'') email of
        None \<Rightarrow> MaskString email 4
      | Some (pre, post) \<Rightarrow> mask_inner (butlast pre) @ ''@'' @ post)"

text \<open>Every rune from 128 on is dropped whole, and so is every byte that is no rune, which leaves the
  printable ASCII bytes.\<close>

definition SanitizeString :: "string \<Rightarrow> string" where
  "SanitizeString s =
     filter (\<lambda>c. (32 \<le> (of_char c :: nat) \<and> of_char c \<le> (126 :: nat)) \<or> c = CHR 0x0A \<or> c = CHR 0x09)
       (TrimSpace s)"

section \<open>Properties\<close>

lemma length_MaskString: "length (MaskString s v) = length s"
  by (simp add: MaskString_def stars_def)

lemma token_keep_bound: "8 < n \<Longrightarrow> 4 * token_keep n \<le> n \<and> token_keep n \<le> 4"
  by (simp add: token_keep_def Let_def) linarith

text \<open>A masked token has the length of the token and shows at most four characters at each end and
  never more than half of the token; a token of up to eight characters is masked completely.\<close>

theorem mask_token_hides_half:
  "\<exists>keep. MaskToken t = take keep t @ replicate (length t - 2 * keep) (CHR ''*'') @ drop (length t - keep) t
     \<and> keep \<le> 4 \<and> 4 * keep \<le> length t \<and> (length t \<le> 8 \<longrightarrow> keep = 0) \<and> length (MaskToken t) = length t"
proof (cases "length t \<le> 8")
  case True
  then show ?thesis by (intro exI[of _ 0]) (auto simp: MaskToken_def stars_def Let_def)
next
  case False
  then show ?thesis
    using token_keep_bound[of "length t"]
    by (intro exI[of _ "token_keep (length t)"]) (auto simp: MaskToken_def stars_def Let_def)
qed

theorem mask_token_hides_half_witness:
  "length (MaskToken ''sk-abc123'') = 9 \<and> MaskToken ''sk-abc12'' = replicate 8 (CHR ''*'')"
  using mask_token_hides_half[of "''sk-abc123''"] mask_token_hides_half[of "''sk-abc12''"]
  by (auto simp: numeral_eq_Suc)

end
