(* ===== verification/Spiffe.thy ===== *)
theory Spiffe
  imports Data
begin

text \<open>
  SPIFFE identities (\<^verbatim>\<open>src/spiffe.go\<close>). \<^verbatim>\<open>url.Parse\<close> is the argument \<open>parse\<close>; it yields the scheme, the
  host name and the path.
\<close>

section \<open>Identities\<close>

record spiffe_id =
  TrustDomain :: string
  sp_Path :: string

record parsed_url =
  url_Scheme :: string
  url_Hostname :: string
  url_Path :: string

datatype spiffe_error = URLParse string | NotSpiffe | EmptyTrustDomain | InvalidTrustDomain | NoDot

definition SPIFFEID_String :: "spiffe_id option \<Rightarrow> string" where
  "SPIFFEID_String s_opt =
     (case s_opt of None \<Rightarrow> [] | Some s \<Rightarrow> ''spiffe://'' @ TrustDomain s @ sp_Path s)"

definition SPIFFEID_Equal :: "spiffe_id option \<Rightarrow> spiffe_id option \<Rightarrow> bool" where
  "SPIFFEID_Equal s other =
     (case (s, other) of
        (Some a, Some b) \<Rightarrow> TrustDomain a = TrustDomain b \<and> sp_Path a = sp_Path b
      | (None, None) \<Rightarrow> True
      | _ \<Rightarrow> False)"

fun first_spiffe_uri :: "uri list \<Rightarrow> string" where
  "first_spiffe_uri [] = []"
| "first_spiffe_uri (u # us) = (if uri_Scheme u = ''spiffe'' then uri_String u else first_spiffe_uri us)"

definition ExtractSPIFFEIDFromCert :: "certificate \<Rightarrow> string" where
  "ExtractSPIFFEIDFromCert cert = first_spiffe_uri (cert_URIs cert)"

definition validTrustDomainCharset :: "string \<Rightarrow> bool" where
  "validTrustDomainCharset td =
     list_all (\<lambda>c. (97 \<le> (of_char c :: nat) \<and> of_char c \<le> (122 :: nat))
       \<or> (48 \<le> (of_char c :: nat) \<and> of_char c \<le> (57 :: nat))
       \<or> c = CHR ''-'' \<or> c = CHR ''_'' \<or> c = CHR ''.'') td"

definition ParseSPIFFEID :: "(string \<Rightarrow> string + parsed_url) \<Rightarrow> string \<Rightarrow> spiffe_error + spiffe_id" where
  "ParseSPIFFEID parse i =
     (case parse i of Inl e \<Rightarrow> Inl (URLParse e) | Inr u \<Rightarrow>
      if url_Scheme u \<noteq> ''spiffe'' then Inl NotSpiffe
      else let trustDomain = ToLower (url_Hostname u) in
        if trustDomain = [] then Inl EmptyTrustDomain
        else if \<not> validTrustDomainCharset trustDomain then Inl InvalidTrustDomain
        else if CHR ''.'' \<notin> set trustDomain then Inl NoDot
        else Inr \<lparr>TrustDomain = trustDomain,
                  sp_Path = (if url_Path u = [] then ''/'' else url_Path u)\<rparr>)"

definition ExtractSPIFFEID :: "(string \<Rightarrow> string + parsed_url) \<Rightarrow> certificate option \<Rightarrow> spiffe_id option" where
  "ExtractSPIFFEID parse cert_opt =
     (case cert_opt of None \<Rightarrow> None | Some cert \<Rightarrow>
      let raw = ExtractSPIFFEIDFromCert cert in
      if raw = [] then None
      else case ParseSPIFFEID parse raw of Inl e \<Rightarrow> None | Inr sid \<Rightarrow> Some sid)"

definition canonicalSPIFFEID :: "string \<Rightarrow> string" where
  "canonicalSPIFFEID i =
     (if \<not> HasPrefix i ''spiffe://'' then i
      else let rest = drop (length ''spiffe://'') i in
        ''spiffe://'' @ ToLower (takeWhile (\<lambda>c. c \<noteq> CHR ''/'') rest) @ dropWhile (\<lambda>c. c \<noteq> CHR ''/'') rest)"

definition VerifySPIFFESAN :: "certificate \<Rightarrow> string \<Rightarrow> bool" where
  "VerifySPIFFESAN cert expectedID \<longleftrightarrow>
     canonicalSPIFFEID (ExtractSPIFFEIDFromCert cert) = canonicalSPIFFEID expectedID"

section \<open>Lemmas\<close>

lemma lower_char_slash: "lower_char c = CHR ''/'' \<longleftrightarrow> c = CHR ''/''"
proof (cases "of_char c \<ge> (65::nat) \<and> of_char c \<le> (90::nat)")
  case True
  then have "of_char (lower_char c) = (of_char c + 32 :: nat)" by (simp add: lower_char_def)
  with True show ?thesis by auto
qed (auto simp: lower_char_def)

lemma slash_ToLower: "CHR ''/'' \<in> set (ToLower s) \<longleftrightarrow> CHR ''/'' \<in> set s"
  by (induction s) (simp_all add: ToLower_def, metis lower_char_slash)

lemma canonical_split:
  assumes "CHR ''/'' \<notin> set td" "path = [] \<or> hd path = CHR ''/''"
  shows "canonicalSPIFFEID (''spiffe://'' @ td @ path) = ''spiffe://'' @ ToLower td @ path"
proof -
  have "takeWhile (\<lambda>c. c \<noteq> CHR ''/'') (td @ path) = td" "dropWhile (\<lambda>c. c \<noteq> CHR ''/'') (td @ path) = path"
    using assms by (cases path; auto simp: takeWhile_append dropWhile_append)+
  then show ?thesis by (simp add: canonicalSPIFFEID_def HasPrefix_def)
qed

lemma split_at_slash:
  assumes "CHR ''/'' \<notin> set a" "CHR ''/'' \<notin> set b" "p = [] \<or> hd p = CHR ''/''" "q = [] \<or> hd q = CHR ''/''"
    and "a @ p = b @ q"
  shows "a = b \<and> p = q"
proof -
  have "takeWhile (\<lambda>c. c \<noteq> CHR ''/'') (a @ p) = a" "takeWhile (\<lambda>c. c \<noteq> CHR ''/'') (b @ q) = b"
    using assms(1-4) by (cases p; cases q; auto simp: takeWhile_append)+
  with assms(5) show ?thesis by auto
qed

section \<open>Properties\<close>

text \<open>The expected SPIFFE identity is compared without regard to the case of the trust domain and
  verbatim in the path: two ids match exactly when their trust domains agree up to case and their
  paths are equal.\<close>

theorem spiffe_san_comparison:
  assumes "ExtractSPIFFEIDFromCert cert = ''spiffe://'' @ td @ path"
    and "CHR ''/'' \<notin> set td" "path = [] \<or> hd path = CHR ''/''"
    and "CHR ''/'' \<notin> set td'" "path' = [] \<or> hd path' = CHR ''/''"
  shows "VerifySPIFFESAN cert (''spiffe://'' @ td' @ path') \<longleftrightarrow> ToLower td = ToLower td' \<and> path = path'"
proof -
  have "VerifySPIFFESAN cert (''spiffe://'' @ td' @ path') \<longleftrightarrow> ToLower td @ path = ToLower td' @ path'"
    unfolding VerifySPIFFESAN_def assms(1) canonical_split[OF assms(2,3)] canonical_split[OF assms(4,5)]
    by simp
  then show ?thesis
    using assms(2-5) split_at_slash[of "ToLower td" "ToLower td'" path path'] by (auto simp: slash_ToLower)
qed

theorem spiffe_san_comparison_witness:
  "VerifySPIFFESAN (example_cert\<lparr>cert_URIs := [\<lparr>uri_Scheme = ''spiffe'', uri_String = ''spiffe://VARWOF.com/x''\<rparr>]\<rparr>)
     (''spiffe://'' @ ''varwof.com'' @ ''/x'')"
proof -
  have e: "ExtractSPIFFEIDFromCert (example_cert\<lparr>cert_URIs := [\<lparr>uri_Scheme = ''spiffe'', uri_String = ''spiffe://VARWOF.com/x''\<rparr>]\<rparr>)
      = ''spiffe://'' @ ''VARWOF.com'' @ ''/x''" by code_simp
  have l: "ToLower ''VARWOF.com'' = ToLower ''varwof.com''" by code_simp
  show ?thesis by (subst spiffe_san_comparison[OF e]) (use l in auto)
qed

end
