(* ===== verification/Risk_Monitor.thy ===== *)
theory Risk_Monitor
  imports Prelude
begin

text \<open>
  The behavioural risk monitor (\<^verbatim>\<open>src/riskmonitor.go\<close>): the violations recorded per agent and the
  evaluation of the rules, which prunes expired violations as it goes. Times are Unix seconds in a
  64-bit integer. A nil monitor is \<open>None\<close>; the enforcement callback's arguments are returned.
\<close>

section \<open>State\<close>

record risk_violation =
  rv_AgentId :: string
  rv_Signal :: string
  rv_CapabilityId :: string
  rv_Details :: string
  rv_At :: int

record risk_rule =
  rr_Name :: string
  rr_Signals :: "string list"
  rr_Threshold :: int
  rr_WindowSeconds :: int
  rr_Action :: string
  rr_Reason :: string

record risk_monitor =
  rm_rules :: "risk_rule list"
  rm_violations :: "(string \<times> risk_violation list) list"

definition NewRiskMonitor :: "risk_rule list \<Rightarrow> risk_monitor" where
  "NewRiskMonitor rules = \<lparr>rm_rules = rules, rm_violations = []\<rparr>"

definition Rules :: "risk_monitor option \<Rightarrow> risk_rule list" where
  "Rules m_opt = (case m_opt of None \<Rightarrow> [] | Some m \<Rightarrow> rm_rules m)"

definition SetRules :: "risk_rule list \<Rightarrow> risk_monitor option \<Rightarrow> risk_monitor option" where
  "SetRules rules m_opt =
     (case m_opt of None \<Rightarrow> None | Some m \<Rightarrow> Some (m\<lparr>rm_rules := rules, rm_violations := []\<rparr>))"

definition violations_of :: "risk_monitor \<Rightarrow> string \<Rightarrow> risk_violation list" where
  "violations_of m agent = (case map_of (rm_violations m) agent of None \<Rightarrow> [] | Some vs \<Rightarrow> vs)"

definition set_violations :: "string \<Rightarrow> risk_violation list \<Rightarrow> risk_monitor \<Rightarrow> risk_monitor" where
  "set_violations agent vs m =
     m\<lparr>rm_violations := (agent, vs) # filter (\<lambda>(k, _). k \<noteq> agent) (rm_violations m)\<rparr>"

definition delete_violations :: "string \<Rightarrow> risk_monitor \<Rightarrow> risk_monitor" where
  "delete_violations agent m = m\<lparr>rm_violations := filter (\<lambda>(k, _). k \<noteq> agent) (rm_violations m)\<rparr>"

definition Violations :: "risk_monitor option \<Rightarrow> string \<Rightarrow> nat" where
  "Violations m_opt agent = (case m_opt of None \<Rightarrow> 0 | Some m \<Rightarrow> length (violations_of m agent))"

section \<open>Rules\<close>

definition signalIn :: "string list \<Rightarrow> string \<Rightarrow> bool" where
  "signalIn sigs sig \<longleftrightarrow> list_ex (\<lambda>s. s = ''*'' \<or> ToLower s = ToLower sig) sigs"

text \<open>Subtraction of 64-bit integers.\<close>

definition wrap64 :: "int \<Rightarrow> int" where
  "wrap64 x = (x + 2 ^ 63) mod 2 ^ 64 - 2 ^ 63"

definition rule_window :: "risk_rule \<Rightarrow> int" where
  "rule_window rule = (if rr_WindowSeconds rule \<le> 0 then 60 else rr_WindowSeconds rule)"

definition rule_threshold :: "risk_rule \<Rightarrow> int" where
  "rule_threshold rule = (if rr_Threshold rule \<le> 0 then 1 else rr_Threshold rule)"

definition in_rule_window :: "int \<Rightarrow> risk_rule \<Rightarrow> risk_violation \<Rightarrow> bool" where
  "in_rule_window now rule viol \<longleftrightarrow> \<not> wrap64 (now - rv_At viol) > rule_window rule"

definition rule_fires :: "risk_rule \<Rightarrow> risk_violation list \<Rightarrow> bool" where
  "rule_fires rule kept \<longleftrightarrow>
     list_ex (\<lambda>viol. signalIn (rr_Signals rule) (rv_Signal viol)) kept
     \<and> int (length kept) \<ge> rule_threshold rule"

record risk_action =
  ra_AgentId :: string
  ra_Action :: string
  ra_Reason :: string

text \<open>The loop over the rules: each rule first drops the violations outside its own window.\<close>

fun eval_rules :: "int \<Rightarrow> string \<Rightarrow> risk_rule list \<Rightarrow> risk_monitor \<Rightarrow> risk_monitor \<times> risk_action option" where
  "eval_rules now agent [] m = (m, None)"
| "eval_rules now agent (rule # rules) m =
     (let kept = filter (in_rule_window now rule) (violations_of m agent);
          m' = set_violations agent kept m
      in if rule_fires rule kept
         then (delete_violations agent m',
               Some \<lparr>ra_AgentId = agent,
                     ra_Action = (if rr_Action rule = [] then ''disconnect'' else rr_Action rule),
                     ra_Reason = rr_Reason rule\<rparr>)
         else eval_rules now agent rules m')"

definition RecordViolation ::
    "int \<Rightarrow> risk_violation \<Rightarrow> risk_monitor option \<Rightarrow> risk_monitor option \<times> risk_action option" where
  "RecordViolation clock v m_opt =
     (case m_opt of None \<Rightarrow> (None, None) | Some m \<Rightarrow>
      if rm_rules m = [] then (Some m, None)
      else let now = (if rv_At v = 0 then clock else rv_At v);
               v' = v\<lparr>rv_At := now\<rparr>;
               m1 = set_violations (rv_AgentId v) (violations_of m (rv_AgentId v) @ [v']) m
           in (case eval_rules now (rv_AgentId v) (rm_rules m) m1 of (m2, act) \<Rightarrow> (Some m2, act)))"

section \<open>Lemmas\<close>

lemma violations_of_set [simp]:
  "violations_of (set_violations a vs m) b = (if b = a then vs else violations_of m b)"
proof -
  have "map_of (filter (\<lambda>(k, _). k \<noteq> a) xs) b = (if b = a then None else map_of xs b)"
    for xs :: "(string \<times> risk_violation list) list"
    by (induction xs) auto
  then show ?thesis by (auto simp: violations_of_def set_violations_def)
qed

lemma violations_of_delete [simp]:
  "violations_of (delete_violations a m) b = (if b = a then [] else violations_of m b)"
proof -
  have "map_of (filter (\<lambda>(k, _). k \<noteq> a) xs) b = (if b = a then None else map_of xs b)"
    for xs :: "(string \<times> risk_violation list) list"
    by (induction xs) auto
  then show ?thesis by (auto simp: violations_of_def delete_violations_def)
qed

lemma set_violations_rules [simp]: "rm_rules (set_violations a vs m) = rm_rules m"
  by (simp add: set_violations_def)

lemma delete_violations_rules [simp]: "rm_rules (delete_violations a m) = rm_rules m"
  by (simp add: delete_violations_def)

lemma eval_rules_rules: "rm_rules (fst (eval_rules now a rules m)) = rm_rules m"
  by (induction rules arbitrary: m) (auto simp: Let_def)

lemma eval_rules_others: "b \<noteq> a \<Longrightarrow> violations_of (fst (eval_rules now a rules m)) b = violations_of m b"
  by (induction rules arbitrary: m) (auto simp: Let_def)

text \<open>What the first \<open>k\<close> rules leave: the violations inside all their windows.\<close>

definition surviving :: "int \<Rightarrow> risk_rule list \<Rightarrow> risk_violation list \<Rightarrow> risk_violation list" where
  "surviving now rules vs = filter (\<lambda>v. list_all (\<lambda>r. in_rule_window now r v) rules) vs"

lemma surviving_Cons: "surviving now (r # rs) vs = surviving now rs (filter (in_rule_window now r) vs)"
  by (auto simp: surviving_def intro: filter_cong)

lemma eval_rules_fires:
  "(snd (eval_rules now a rules m) \<noteq> None) \<longleftrightarrow>
     (\<exists>k<length rules. rule_fires (rules ! k) (surviving now (take (Suc k) rules) (violations_of m a)))"
proof (induction rules arbitrary: m)
  case Nil
  then show ?case by simp
next
  case (Cons r rs)
  have nil: "surviving now [] vs = vs" for vs by (simp add: surviving_def)
  show ?case
    using Cons.IH[of "set_violations a (filter (in_rule_window now r) (violations_of m a)) m"]
    by (auto simp: Let_def surviving_Cons nil Ex_less_Suc2)
qed

lemma eval_rules_record:
  "violations_of (fst (eval_rules now a rules m)) a =
     (if snd (eval_rules now a rules m) \<noteq> None then [] else surviving now rules (violations_of m a))"
proof (induction rules arbitrary: m)
  case Nil
  then show ?case by (simp add: surviving_def)
next
  case (Cons r rs)
  then show ?case by (simp add: Let_def surviving_Cons)
qed

lemma RecordViolation_Some: "\<exists>m' act. RecordViolation clock v (Some m) = (Some m', act)"
  by (simp add: RecordViolation_def Let_def case_prod_unfold)

section \<open>Properties\<close>

text \<open>Enforcement is exact: recording a violation triggers an action exactly when for some rule, in
  order, the agent's violations inside the windows of that rule and of all rules before it contain
  one with a signal of the rule and reach its threshold. The agent's record is then cleared, and
  otherwise keeps what is inside the windows of all rules; no other agent's record and no rule is
  ever changed.\<close>

theorem risk_enforcement_exact:
  assumes "RecordViolation clock v (Some m) = (Some m', act)" "rm_rules m \<noteq> []"
    and "now = (if rv_At v = 0 then clock else rv_At v)"
    and "vs = violations_of m (rv_AgentId v) @ [v\<lparr>rv_At := now\<rparr>]"
  shows "(act \<noteq> None \<longleftrightarrow>
      (\<exists>k<length (rm_rules m). rule_fires (rm_rules m ! k) (surviving now (take (Suc k) (rm_rules m)) vs)))
    \<and> violations_of m' (rv_AgentId v) = (if act \<noteq> None then [] else surviving now (rm_rules m) vs)
    \<and> rm_rules m' = rm_rules m
    \<and> (\<forall>b. b \<noteq> rv_AgentId v \<longrightarrow> violations_of m' b = violations_of m b)"
proof -
  let ?m1 = "set_violations (rv_AgentId v) vs m"
  have eq: "eval_rules now (rv_AgentId v) (rm_rules m) ?m1 = (m', act)"
    using assms by (cases "rv_At v = 0") (simp_all add: RecordViolation_def Let_def split: prod.splits)
  show ?thesis
    using eval_rules_fires[of now "rv_AgentId v" "rm_rules m" ?m1]
      eval_rules_record[of now "rv_AgentId v" "rm_rules m" ?m1]
      eval_rules_rules[of now "rv_AgentId v" "rm_rules m" ?m1]
      eval_rules_others[of _ "rv_AgentId v" now "rm_rules m" ?m1]
    unfolding eq fst_conv snd_conv violations_of_set
    by (intro conjI) (simp_all only: if_True refl set_violations_rules, simp)
qed

definition example_rule :: "string \<Rightarrow> int \<Rightarrow> int \<Rightarrow> risk_rule" where
  "example_rule sig threshold window =
     \<lparr>rr_Name = sig, rr_Signals = [sig], rr_Threshold = threshold, rr_WindowSeconds = window,
      rr_Action = ''revoke'', rr_Reason = sig\<rparr>"

definition example_violation :: "string \<Rightarrow> int \<Rightarrow> risk_violation" where
  "example_violation sig t =
     \<lparr>rv_AgentId = ''a'', rv_Signal = sig, rv_CapabilityId = [], rv_Details = [], rv_At = t\<rparr>"

text \<open>The rules are not independent: a rule with a short window, placed first, discards the violations
  a later rule with a long window has to count. Two violations 100 seconds apart trigger the long
  rule (threshold 2 in 3600 seconds) when it stands first and nothing when it stands second.\<close>

theorem risk_rules_interfere:
  "let short = example_rule ''burst'' 5 10; long = example_rule ''cap_overflow'' 2 3600;
       run = (\<lambda>rules. snd (RecordViolation 0 (example_violation ''cap_overflow'' 1100)
                (fst (RecordViolation 0 (example_violation ''cap_overflow'' 1000) (Some (NewRiskMonitor rules))))))
   in run [short, long] = None
      \<and> run [long, short] = Some \<lparr>ra_AgentId = ''a'', ra_Action = ''revoke'', ra_Reason = ''cap_overflow''\<rparr>"
  by code_simp

theorem risk_enforcement_exact_witness:
  "snd (RecordViolation 0 (example_violation ''x'' 10) (Some (NewRiskMonitor [example_rule ''x'' 1 60]))) \<noteq> None"
proof -
  let ?m = "NewRiskMonitor [example_rule ''x'' 1 60]"
  obtain m' act where eq: "RecordViolation 0 (example_violation ''x'' 10) (Some ?m) = (Some m', act)"
    using RecordViolation_Some by blast
  have "rule_fires (rm_rules ?m ! 0) (surviving 10 (take (Suc 0) (rm_rules ?m))
      (violations_of ?m ''a'' @ [(example_violation ''x'' 10)\<lparr>rv_At := 10\<rparr>]))"
    by code_simp
  then show ?thesis
    using risk_enforcement_exact[OF eq, of 10] eq
    by (auto simp: NewRiskMonitor_def example_violation_def)
qed

end
