(* ===== verification/Delegation_Chain.thy ===== *)
theory Delegation_Chain
  imports Capability
begin

text \<open>
  The capability side of multi-level delegation (\<^verbatim>\<open>src/delegation_chain.go\<close>): coverage of one
  capability by another, the per-level subset check, the intersection along the chain, and the
  structural limits (length, repeated serials). \<^verbatim>\<open>src/serial.go\<close> gives the serial form that the
  repetition check compares.
\<close>

section \<open>Serial numbers\<close>

definition hex_upper :: "nat \<Rightarrow> char" where
  "hex_upper n = ''0123456789ABCDEF'' ! n"

fun hex_nat :: "nat \<Rightarrow> string" where
  "hex_nat n = (if n < 16 then [hex_upper n] else hex_nat (n div 16) @ [hex_upper (n mod 16)])"

declare hex_nat.simps [simp del]

text \<open>\<^verbatim>\<open>fmt.Sprintf("%040X", serial)\<close>: upper case, padded with zeros to 40 places, the sign of a negative
  number first and counted.\<close>

definition NormalizeSerial :: "int \<Rightarrow> string" where
  "NormalizeSerial serial =
     (let digits = hex_nat (nat \<bar>serial\<bar>) in
      if serial < 0 then CHR ''-'' # replicate (39 - length digits) (CHR ''0'') @ digits
      else replicate (40 - length digits) (CHR ''0'') @ digits)"

section \<open>Coverage\<close>

definition DefaultMaxChainLength :: int where
  "DefaultMaxChainLength = 8"

definition capabilityID :: "pki_ops \<Rightarrow> capability \<Rightarrow> string" where
  "capabilityID P c = FullID P c"

definition capabilityCovered :: "pki_ops \<Rightarrow> capability \<Rightarrow> capability \<Rightarrow> bool" where
  "capabilityCovered P leaf ancestor =
     (let leafID = capabilityID P leaf; ancID = capabilityID P ancestor in
      if MatchCapability leafID ancID then True
      else if CHR ''*'' \<notin> set ancID \<and> HasPrefix leafID (ancID @ '':'') then True
      else False)"

definition capabilitySubset :: "pki_ops \<Rightarrow> capability list \<Rightarrow> capability list \<Rightarrow> bool" where
  "capabilitySubset P lower upper =
     (if lower = [] then True
      else if upper = [] then False
      else list_all (\<lambda>s. list_ex (capabilityCovered P s) upper) lower)"

definition filterCovered :: "pki_ops \<Rightarrow> capability list \<Rightarrow> capability list \<Rightarrow> capability list" where
  "filterCovered P leaf ancestor =
     (if leaf = [] \<or> ancestor = [] then []
      else filter (\<lambda>l. list_ex (capabilityCovered P l) ancestor) leaf)"

section \<open>The chain\<close>

datatype chain_error = NilVerifier | EmptyChain | NilTopPrincipal | DepthExceeded nat int
  | LengthExceeded nat int | NilCertificate nat | DuplicateSerial string nat
  | LevelParse nat string | LevelNoAIC nat | LevelEmptyDA nat | Escalation nat | EmptyEffective nat
  | TopParse string | TopNoAIC

fun structure_loop :: "nat \<Rightarrow> string set \<Rightarrow> certificate option list \<Rightarrow> chain_error option" where
  "structure_loop i seen [] = None"
| "structure_loop i seen (None # chain) = Some (NilCertificate i)"
| "structure_loop i seen (Some cert # chain) =
     (let serial = NormalizeSerial (cert_SerialNumber cert) in
      if serial \<in> seen then Some (DuplicateSerial serial i)
      else structure_loop (Suc i) (insert serial seen) chain)"

definition verifyChainStructure :: "certificate option list \<Rightarrow> int \<Rightarrow> chain_error option" where
  "verifyChainStructure chain maxChainLen =
     (if chain = [] then Some EmptyChain
      else if maxChainLen > 0 \<and> int (length chain) > maxChainLen
      then Some (LengthExceeded (length chain) maxChainLen)
      else structure_loop 0 {} chain)"

text \<open>The level loop of \<^verbatim>\<open>EffectiveDelegationCapabilities\<close> from level \<open>i\<close> on.\<close>

fun effective_loop ::
  "pki_ops \<Rightarrow> nat \<Rightarrow> capability list \<Rightarrow> certificate list \<Rightarrow> chain_error + capability list" where
  "effective_loop P i eff [] = Inr eff"
| "effective_loop P i eff (cert # chain) =
     (case ParseAIC P cert of
        Inl e \<Rightarrow> Inl (LevelParse i e)
      | Inr None \<Rightarrow> Inl (LevelNoAIC i)
      | Inr (Some a) \<Rightarrow>
          if \<not> capabilitySubset P (aic_Capabilities a) eff then Inl (Escalation i)
          else (let eff' = filterCovered P (aic_Capabilities a) eff in
                if eff' = [] then Inl (EmptyEffective i)
                else effective_loop P (Suc i) eff' chain))"

definition EffectiveDelegationCapabilities ::
  "pki_ops \<Rightarrow> certificate option list \<Rightarrow> capability list \<Rightarrow> int \<Rightarrow> chain_error + capability list" where
  "EffectiveDelegationCapabilities P chain principalCaps maxChainLen =
     (case verifyChainStructure chain maxChainLen of
        Some e \<Rightarrow> Inl e
      | None \<Rightarrow> effective_loop P 0 principalCaps (map the chain))"

definition EffectiveDelegationCapabilitiesFromAIC ::
  "pki_ops \<Rightarrow> certificate option list \<Rightarrow> certificate option \<Rightarrow> int \<Rightarrow> chain_error + capability list" where
  "EffectiveDelegationCapabilitiesFromAIC P chain topPrincipal maxChainLen =
     (case topPrincipal of
        None \<Rightarrow> Inl NilTopPrincipal
      | Some tp \<Rightarrow>
          (case ParseAIC P tp of
             Inl e \<Rightarrow> Inl (TopParse e)
           | Inr None \<Rightarrow> Inl TopNoAIC
           | Inr (Some a) \<Rightarrow> EffectiveDelegationCapabilities P chain (aic_Capabilities a) maxChainLen))"

section \<open>Serial forms are injective\<close>

definition hex_upper_val :: "char \<Rightarrow> nat" where
  "hex_upper_val c = (let n = of_char c :: nat in if n \<ge> 65 then n - 55 else n - 48)"

lemma hex_upper_val_digit: "n < 16 \<Longrightarrow> hex_upper_val (hex_upper n) = n \<and> hex_upper n \<noteq> CHR ''-''"
proof -
  have "\<forall>n \<in> set [0..<16]. hex_upper_val (hex_upper n) = n \<and> hex_upper n \<noteq> CHR ''-''" by code_simp
  then show "n < 16 \<Longrightarrow> ?thesis" by simp
qed

definition hex_value :: "string \<Rightarrow> nat" where
  "hex_value s = fold (\<lambda>c v. 16 * v + hex_upper_val c) s 0"

lemma hex_value_hex_nat: "hex_value (hex_nat n) = n"
proof (induction n rule: hex_nat.induct)
  case (1 n)
  show ?case
  proof (cases "n < 16")
    case True
    then show ?thesis by (simp add: hex_nat.simps[of n] hex_value_def hex_upper_val_digit)
  next
    case False
    with 1 show ?thesis
      by (simp add: hex_nat.simps[of n] hex_value_def hex_upper_val_digit)
  qed
qed

lemma hex_value_zeros: "hex_value (replicate k (CHR ''0'') @ s) = hex_value s"
  by (induction k) (simp_all add: hex_value_def hex_upper_val_def)

lemma hex_nat_no_sign: "CHR ''-'' \<notin> set (hex_nat n)"
proof (induction n rule: hex_nat.induct)
  case (1 n)
  show ?case
    using 1 hex_upper_val_digit[of n] hex_upper_val_digit[of "n mod 16"]
    by (auto simp: hex_nat.simps[of n] dest!: sym[of "CHR ''-''"])
qed

lemma NormalizeSerial_inject [simp]: "NormalizeSerial a = NormalizeSerial b \<longleftrightarrow> a = b"
proof
  assume eq: "NormalizeSerial a = NormalizeSerial b"
  have sign: "CHR ''-'' \<in> set (NormalizeSerial x) \<longleftrightarrow> x < 0" for x
    using hex_nat_no_sign[of "nat \<bar>x\<bar>"] by (auto simp: NormalizeSerial_def Let_def)
  have val: "hex_value (if x < 0 then tl (NormalizeSerial x) else NormalizeSerial x) = nat \<bar>x\<bar>" for x
    by (simp add: NormalizeSerial_def Let_def hex_value_zeros hex_value_hex_nat)
  have "a < 0 \<longleftrightarrow> b < 0" using eq sign by metis
  moreover have "nat \<bar>a\<bar> = nat \<bar>b\<bar>" using eq val[of a] val[of b] calculation by metis
  ultimately show "a = b" by linarith
qed simp

lemma structure_loop_None:
  "structure_loop i seen chain = None \<longleftrightarrow>
   None \<notin> set chain \<and> distinct (map (\<lambda>c. NormalizeSerial (cert_SerialNumber (the c))) chain)
   \<and> (\<forall>c\<in>set chain. NormalizeSerial (cert_SerialNumber (the c)) \<notin> seen)"
  by (induction i seen chain rule: structure_loop.induct)
    (auto simp: Let_def simp del: NormalizeSerial_inject, metis image_eqI)

lemma verifyChainStructure_None:
  "verifyChainStructure chain m = None \<longleftrightarrow>
   chain \<noteq> [] \<and> (m > 0 \<longrightarrow> int (length chain) \<le> m) \<and> None \<notin> set chain
   \<and> distinct (map (\<lambda>c. cert_SerialNumber (the c)) chain)"
  by (auto simp: verifyChainStructure_def structure_loop_None distinct_map inj_on_def)

section \<open>Coverage narrows along a chain\<close>

text \<open>
  An interface for coverage relations: on the capabilities that are \<open>regular\<close> the relation is
  transitive. What follows for a chain of levels in which each level is covered by the one
  before is proved here once.
\<close>

locale coverage =
  fixes covers :: "'c \<Rightarrow> 'c \<Rightarrow> bool"
    and regular :: "'c \<Rightarrow> bool"
  assumes covers_trans:
    "regular b \<Longrightarrow> regular c \<Longrightarrow> covers a b \<Longrightarrow> covers b c \<Longrightarrow> covers a c"
begin

definition narrows :: "'c list \<Rightarrow> 'c list \<Rightarrow> bool" where
  "narrows lower upper \<longleftrightarrow> (\<forall>s\<in>set lower. \<exists>p\<in>set upper. covers s p)"

lemma narrows_trans:
  assumes "list_all regular b" "list_all regular c" and "narrows a b" "narrows b c"
  shows "narrows a c"
  unfolding narrows_def
proof
  fix s assume s: "s \<in> set a"
  with assms(3) obtain p where p: "p \<in> set b" "covers s p" by (auto simp: narrows_def)
  with assms(4) obtain q where q: "q \<in> set c" "covers p q" by (auto simp: narrows_def)
  from assms(1,2) p q have "covers s q" by (auto simp: list_all_iff intro: covers_trans)
  with q show "\<exists>q\<in>set c. covers s q" by blast
qed

lemma narrows_authority:
  assumes "list_all regular lower" "list_all regular upper"
    and "narrows lower upper" and "\<exists>s\<in>set lower. covers x s"
  shows "\<exists>p\<in>set upper. covers x p"
  using narrows_trans[of lower upper "[x]"] assms by (auto simp: narrows_def)

fun narrowing_chain :: "'c list \<Rightarrow> 'c list list \<Rightarrow> bool" where
  "narrowing_chain eff [] = True"
| "narrowing_chain eff (lv # lvs) = (narrows lv eff \<and> narrowing_chain lv lvs)"

lemma narrowing_chain_authority:
  "list_all regular eff \<Longrightarrow> list_all (list_all regular) lvs \<Longrightarrow>
   narrowing_chain eff lvs \<Longrightarrow> lv \<in> set (eff # lvs) \<Longrightarrow> \<exists>s\<in>set (last (eff # lvs)). covers x s \<Longrightarrow>
   \<exists>p\<in>set lv. covers x p"
proof (induction lvs arbitrary: eff lv)
  case Nil
  then show ?case by simp
next
  case (Cons l ls)
  have below: "\<exists>p\<in>set lv'. covers x p" if "lv' \<in> set (l # ls)" for lv'
    using Cons.prems that by (intro Cons.IH[of l lv']) auto
  then have "\<exists>p\<in>set eff. covers x p"
    using Cons.prems narrows_authority[of l eff x] by simp
  with below show ?case using Cons.prems(4) by auto
qed

end

section \<open>Regular capability ids\<close>

text \<open>The ids grants are written in: no metacharacter at all, or a metacharacter-free prefix followed
  by a colon and a star.\<close>

definition regular_id :: "string \<Rightarrow> bool" where
  "regular_id s \<longleftrightarrow> meta_free s \<or>
     (2 \<le> length s \<and> drop (length s - 2) s = '':*'' \<and> meta_free (take (length s - 2) s))"

definition regular_cap :: "pki_ops \<Rightarrow> capability \<Rightarrow> bool" where
  "regular_cap P c = regular_id (capabilityID P c)"

text \<open>Every id at or below a regular id starts with its stem.\<close>

lemma regular_id_cases:
  assumes "regular_id s"
  obtains (literal) "meta_free s" | (wild) p where "s = p @ '':*''" "meta_free p"
  using assms unfolding regular_id_def by (metis append_take_drop_id)

definition id_covered :: "string \<Rightarrow> string \<Rightarrow> bool" where
  "id_covered l a \<longleftrightarrow> MatchCapability l a \<or> (CHR ''*'' \<notin> set a \<and> HasPrefix l (a @ '':''))"

lemma capabilityCovered_id:
  "capabilityCovered P l a = id_covered (capabilityID P l) (capabilityID P a)"
  by (simp add: capabilityCovered_def id_covered_def Let_def)

lemma id_covered_literal: "meta_free a \<Longrightarrow> id_covered l a \<longleftrightarrow> l = a \<or> HasPrefix l (a @ '':'')"
  by (auto simp: id_covered_def MatchCapability_literal meta_free_def)

lemma id_covered_wild: "meta_free p \<Longrightarrow> id_covered l (p @ '':*'') \<longleftrightarrow> HasPrefix l (p @ '':'')"
  by (simp add: id_covered_def MatchCapability_prefix)

text \<open>A prefix that ends in a colon does not reach the star.\<close>

lemma HasPrefix_wild: "HasPrefix (q @ '':*'') (p @ '':'') \<Longrightarrow> HasPrefix (q @ '':'') (p @ '':'')"
proof -
  assume "HasPrefix (q @ '':*'') (p @ '':'')"
  then obtain r where r: "(q @ '':'') @ ''*'' = (p @ '':'') @ r" by (auto simp: HasPrefix_iff)
  then show ?thesis
    by (cases r rule: rev_cases) (auto simp: HasPrefix_iff)
qed

lemma id_covered_trans:
  assumes a: "regular_id b" "regular_id c" and bc: "id_covered b c" and ab: "id_covered a b"
  shows "id_covered a c"
  using a(1)
proof (cases rule: regular_id_cases)
  case literal
  then have "a = b \<or> HasPrefix a (b @ '':'')" using ab by (simp add: id_covered_literal)
  with a(2) bc show ?thesis
    by (cases rule: regular_id_cases)
      (auto simp: id_covered_literal id_covered_wild HasPrefix_iff)
next
  case (wild q)
  then have aq: "HasPrefix a (q @ '':'')" using ab by (simp add: id_covered_wild)
  from a(2) show ?thesis
  proof (cases rule: regular_id_cases)
    case literal
    then have "b \<noteq> c" using wild by (auto simp: meta_free_def)
    with literal bc wild have "HasPrefix (q @ '':'') (c @ '':'')"
      by (auto simp: id_covered_literal intro: HasPrefix_wild)
    with aq have "HasPrefix a (c @ '':'')" by (rule HasPrefix_trans)
    with literal show ?thesis by (simp add: id_covered_literal)
  next
    case w: (wild p)
    with bc wild have "HasPrefix (q @ '':'') (p @ '':'')"
      by (auto simp: id_covered_wild intro: HasPrefix_wild)
    with aq have "HasPrefix a (p @ '':'')" by (rule HasPrefix_trans)
    with w show ?thesis by (simp add: id_covered_wild)
  qed
qed

interpretation cap_cover: coverage "capabilityCovered P" "regular_cap P" for P
  by unfold_locales (auto simp: capabilityCovered_id regular_cap_def intro: id_covered_trans)

section \<open>The effective capabilities\<close>

lemma capabilitySubset_narrows: "capabilitySubset P lower upper \<longleftrightarrow> cap_cover.narrows P lower upper"
  by (auto simp: capabilitySubset_def cap_cover.narrows_def list_all_iff list_ex_iff)

lemma filterCovered_subset:
  "capabilitySubset P lower upper \<Longrightarrow> filterCovered P lower upper = (if upper = [] then [] else lower)"
  by (auto simp: filterCovered_def capabilitySubset_def list_all_iff filter_id_conv)

text \<open>The capabilities a certificate's AIC declares.\<close>

definition declared_caps :: "pki_ops \<Rightarrow> certificate \<Rightarrow> capability list" where
  "declared_caps P cert =
     (case ParseAIC P cert of Inr (Some a) \<Rightarrow> aic_Capabilities a | _ \<Rightarrow> [])"

lemma effective_loop_Inr:
  "effective_loop P i eff chain = Inr r \<Longrightarrow>
   cap_cover.narrowing_chain P eff (map (declared_caps P) chain)
   \<and> r = last (eff # map (declared_caps P) chain)
   \<and> (\<forall>c\<in>set chain. declared_caps P c \<noteq> [])"
proof (induction chain arbitrary: i eff)
  case Nil
  then show ?case by simp
next
  case (Cons cert chain)
  then obtain a where a: "ParseAIC P cert = Inr (Some a)" "capabilitySubset P (aic_Capabilities a) eff"
    "filterCovered P (aic_Capabilities a) eff \<noteq> []"
    "effective_loop P (Suc i) (filterCovered P (aic_Capabilities a) eff) chain = Inr r"
    by (auto simp: Let_def split: sum.splits option.splits if_splits)
  then have d: "filterCovered P (aic_Capabilities a) eff = declared_caps P cert"
    by (simp add: filterCovered_subset declared_caps_def split: if_splits)
  with a Cons.IH[of "Suc i" "declared_caps P cert"] show ?case
    by (simp add: capabilitySubset_narrows declared_caps_def)
qed

lemma effective_no_escalation:
  assumes "EffectiveDelegationCapabilities P chain principalCaps maxLen = Inr eff"
    and "list_all (regular_cap P) principalCaps"
    and "list_all (\<lambda>c. list_all (regular_cap P) (declared_caps P (the c))) chain"
    and "list_ex (capabilityCovered P op) eff"
  shows "list_ex (capabilityCovered P op) principalCaps
    \<and> list_all (\<lambda>c. list_ex (capabilityCovered P op) (declared_caps P (the c))) chain"
proof -
  let ?lvs = "map (declared_caps P) (map the chain)"
  from assms(1) have e: "effective_loop P 0 principalCaps (map the chain) = Inr eff"
    by (auto simp: EffectiveDelegationCapabilities_def split: option.splits)
  from effective_loop_Inr[OF this]
  have nc: "cap_cover.narrowing_chain P principalCaps ?lvs" and eff: "eff = last (principalCaps # ?lvs)"
    by auto
  have reg: "list_all (list_all (regular_cap P)) ?lvs"
    using assms(3) by (simp add: list_all_iff)
  have use: "\<exists>s\<in>set (last (principalCaps # ?lvs)). capabilityCovered P op s"
    using assms(4) unfolding eff by (simp only: list_ex_iff)
  have "list_ex (capabilityCovered P op) lv" if "lv \<in> set (principalCaps # ?lvs)" for lv
    unfolding list_ex_iff by (rule cap_cover.narrowing_chain_authority[OF assms(2) reg nc that use])
  then show ?thesis by (simp add: list_all_iff)
qed

lemma effective_is_leaf:
  assumes "EffectiveDelegationCapabilities P chain principalCaps maxLen = Inr eff"
  shows "eff = declared_caps P (the (last chain)) \<and> eff \<noteq> []
    \<and> distinct (map (\<lambda>c. cert_SerialNumber (the c)) chain)
    \<and> (maxLen > 0 \<longrightarrow> int (length chain) \<le> maxLen)"
proof -
  from assms have st: "verifyChainStructure chain maxLen = None"
    and e: "effective_loop P 0 principalCaps (map the chain) = Inr eff"
    by (auto simp: EffectiveDelegationCapabilities_def split: option.splits)
  then have ne: "chain \<noteq> []" by (simp add: verifyChainStructure_None)
  with effective_loop_Inr[OF e] have "eff = declared_caps P (the (last chain))"
    by (simp add: last_map)
  moreover have "declared_caps P (the (last chain)) \<noteq> []"
    using effective_loop_Inr[OF e] ne by simp
  ultimately show ?thesis using st by (simp add: verifyChainStructure_None)
qed

lemmas effective_is_last = effective_is_leaf [THEN conjunct1]

section \<open>Properties\<close>

text \<open>C20. Delegation never escalates: when the effective capabilities of a chain are computed and every
  id involved is a literal or ends in \<open>:*\<close>, whatever a capability of the result covers is
  covered by a capability of the original principal and by one of every certificate of the chain.\<close>

theorem delegation_no_escalation:
  assumes "EffectiveDelegationCapabilities P chain principalCaps maxLen = Inr eff"
    and "list_all (regular_cap P) principalCaps"
    and "list_all (\<lambda>c. list_all (regular_cap P) (declared_caps P (the c))) chain"
    and "list_ex (capabilityCovered P op) eff"
  shows "list_ex (capabilityCovered P op) principalCaps
    \<and> list_all (\<lambda>c. list_ex (capabilityCovered P op) (declared_caps P (the c))) chain"
  using assms by (rule effective_no_escalation)

text \<open>The effective capabilities of an accepted chain are exactly the capabilities its bottom
  certificate declares, the chain is within the length limit and no serial number occurs twice.\<close>

theorem delegation_effective_is_leaf:
  assumes "EffectiveDelegationCapabilities P chain principalCaps maxLen = Inr eff"
  shows "eff = declared_caps P (the (last chain)) \<and> eff \<noteq> []
    \<and> distinct (map (\<lambda>c. cert_SerialNumber (the c)) chain)
    \<and> (maxLen > 0 \<longrightarrow> int (length chain) \<le> maxLen)"
  using assms by (rule effective_is_leaf)

text \<open>A concrete chain: two agents below a principal that holds \<^verbatim>\<open>db:*\<close>.\<close>

definition example_agent :: "int \<Rightarrow> string \<Rightarrow> certificate" where
  "example_agent serial cn = example_cert\<lparr>cert_SerialNumber := serial, cert_CommonName := cn\<rparr>"

definition example_caps :: "string \<Rightarrow> capability list" where
  "example_caps i = [\<lparr>SchemeId = [], CapabilityId = i, Parameters = []\<rparr>]"

definition example_chain_pki :: pki_ops where
  "example_chain_pki = example_pki\<lparr>ParseAIC := (\<lambda>c. Inr (Some (example_aic\<lparr>aic_Capabilities :=
      example_caps (if cert_CommonName c = ''top'' then ''db:sales'' else ''db:sales:read'')\<rparr>)))\<rparr>"

lemma example_chain_effective:
  "EffectiveDelegationCapabilities example_chain_pki
     [Some (example_agent 1 ''top''), Some (example_agent 2 ''leaf'')] (example_caps ''db:*'') 8
   = Inr (example_caps ''db:sales:read'')"
  by code_simp

theorem delegation_no_escalation_witness:
  "list_ex (capabilityCovered example_chain_pki (hd (example_caps ''db:sales:read:row'')))
     (example_caps ''db:*'')"
proof -
  have "list_all (regular_cap example_chain_pki) (example_caps ''db:*'')"
    "list_all (\<lambda>c. list_all (regular_cap example_chain_pki) (declared_caps example_chain_pki (the c)))
      [Some (example_agent 1 ''top''), Some (example_agent 2 ''leaf'')]"
    "list_ex (capabilityCovered example_chain_pki (hd (example_caps ''db:sales:read:row'')))
      (example_caps ''db:sales:read'')"
    by code_simp+
  from delegation_no_escalation[OF example_chain_effective this] show ?thesis by simp
qed

theorem delegation_effective_is_leaf_witness:
  "example_caps ''db:sales:read'' = declared_caps example_chain_pki (the (last
     [Some (example_agent 1 ''top''), Some (example_agent 2 ''leaf'')]))"
  using delegation_effective_is_leaf[OF example_chain_effective] by simp

text \<open>Outside the regular ids coverage is not transitive and a chain can escalate: a principal that
  holds \<open>db:?\<close> (one further character) covers an agent that declares \<open>db:*\<close>, and that agent's
  effective capability covers \<open>db:drop\<close>, which the principal's does not.\<close>

theorem delegation_glob_escalation:
  "let P = example_pki\<lparr>ParseAIC := (\<lambda>c. Inr (Some (example_aic\<lparr>aic_Capabilities := example_caps ''db:*''\<rparr>)))\<rparr>;
       op = hd (example_caps ''db:drop'')
   in EffectiveDelegationCapabilities P [Some (example_agent 1 ''agent'')] (example_caps ''db:?'') 8
        = Inr (example_caps ''db:*'')
      \<and> list_ex (capabilityCovered P op) (example_caps ''db:*'')
      \<and> \<not> list_ex (capabilityCovered P op) (example_caps ''db:?'')"
  by code_simp

end
