(* ===== verification/Crl.thy ===== *)
theory Crl
  imports Delegation_Chain "HOL-Library.List_Lexorder" "HOL-Library.Char_ord" "HOL-Library.Multiset"
begin

text \<open>
  The CRL cache (\<^verbatim>\<open>src/crl.go\<close>): refresh with its authenticity and replay checks, the revocation
  queries, and the comparison of distinguished names. Fetching, PEM and DER decoding and the
  signature check are functions of the record \<open>crl_env\<close>; the lists an attempt sees may differ from
  one attempt to the next, so a run of the cache takes one environment per refresh.
\<close>

section \<open>Names\<close>

text \<open>An attribute is its type and its rendered value.\<close>

type_synonym rdn_sequence = "(string \<times> string) list list"

definition canonicalRDNs :: "rdn_sequence \<Rightarrow> string" where
  "canonicalRDNs seq =
     go_Join (sort (map (\<lambda>rdn. go_Join (sort (map (\<lambda>(ty, v). ty @ ''='' @ v) rdn)) ''+'') seq)) '',''"

section \<open>The cache\<close>

record revocation_list =
  crl_Issuer :: string
  crl_ThisUpdate :: instant
  crl_NextUpdate :: instant
  crl_Revoked :: "int list"
  crl_Raw :: bytes

record crl_env =
  crl_Get :: "string \<Rightarrow> string + bytes"
  crl_PemDecode :: "bytes \<Rightarrow> (string \<times> bytes) option"
  crl_ParseDERCRL :: "bytes \<Rightarrow> string + revocation_list"
  crl_ParseRDN :: "bytes \<Rightarrow> rdn_sequence option"
  crl_RDNString :: "rdn_sequence \<Rightarrow> string"
  crl_CheckSignature :: "certificate \<Rightarrow> revocation_list \<Rightarrow> string option"

record crl_cache =
  cc_caCert :: certificate
  cc_caDN :: string
  cc_url :: string
  cc_refreshSec :: duration
  cc_revoked :: "string list"
  cc_thisUpdate :: instant
  cc_nextUpdate :: instant
  cc_lastRefresh :: instant

datatype crl_error = FetchFailed string | ParseCRL string | CASubject | IssuerMismatch string string
  | CRLSignature string | CRLReplay instant instant | CRLExpired instant | CRLNilCert

definition NewCRLCache :: "certificate \<Rightarrow> string \<Rightarrow> int \<Rightarrow> crl_cache" where
  "NewCRLCache caCert url refreshSec =
     (let d = refreshSec * second in
      \<lparr>cc_caCert = caCert, cc_caDN = cert_Subject caCert, cc_url = url,
       cc_refreshSec = (if d \<le> 0 then 5 * minute else d),
       cc_revoked = [], cc_thisUpdate = 0, cc_nextUpdate = 0, cc_lastRefresh = 0\<rparr>)"

text \<open>\<^verbatim>\<open>serial.Text(16)\<close>: lower-case hexadecimal without padding.\<close>

definition text16 :: "int \<Rightarrow> string" where
  "text16 n = (if n < 0 then ''-'' else []) @ ToLower (hex_nat (nat \<bar>n\<bar>))"

definition revocation_key :: "string \<Rightarrow> int \<Rightarrow> string" where
  "revocation_key caDN serial = caDN @ ''|'' @ text16 serial"

definition crl_refresh :: "crl_env \<Rightarrow> instant \<Rightarrow> crl_cache \<Rightarrow> crl_cache \<times> crl_error option" where
  "crl_refresh E now c =
     (case crl_Get E (cc_url c) of Inl e \<Rightarrow> (c, Some (FetchFailed e)) | Inr body0 \<Rightarrow>
      let body1 = take (2 ^ 20) body0;
          body = (case crl_PemDecode E body1 of
                    Some (ty, der) \<Rightarrow> if ty = ''X509 CRL'' then der else body1
                  | None \<Rightarrow> body1)
      in case crl_ParseDERCRL E body of Inl e \<Rightarrow> (c, Some (ParseCRL e)) | Inr crl \<Rightarrow>
         case crl_ParseRDN E (cert_RawSubject (cc_caCert c)) of None \<Rightarrow> (c, Some CASubject) | Some caRDN \<Rightarrow>
         if crl_RDNString E caRDN \<noteq> crl_Issuer crl
         then (c, Some (IssuerMismatch (crl_Issuer crl) (crl_RDNString E caRDN)))
         else case crl_CheckSignature E (cc_caCert c) crl of Some e \<Rightarrow> (c, Some (CRLSignature e)) | None \<Rightarrow>
           if \<not> After (crl_ThisUpdate crl) (cc_thisUpdate c) \<and> \<not> IsZero (cc_thisUpdate c)
           then (c, Some (CRLReplay (crl_ThisUpdate crl) (cc_thisUpdate c)))
           else (c\<lparr>cc_revoked := map (revocation_key (cc_caDN c)) (crl_Revoked crl),
                    cc_thisUpdate := crl_ThisUpdate crl, cc_nextUpdate := crl_NextUpdate crl,
                    cc_lastRefresh := now\<rparr>, None))"

text \<open>The background loop retries until the first success and then refreshes at every tick; a failed
  attempt is only logged, so its effect is that of the attempts in order.\<close>

definition crl_Start :: "(crl_env \<times> instant) list \<Rightarrow> crl_cache \<Rightarrow> crl_cache" where
  "crl_Start attempts c = fold (\<lambda>(E, now) c. fst (crl_refresh E now c)) attempts c"

definition IsRevoked :: "instant \<Rightarrow> crl_cache \<Rightarrow> string \<Rightarrow> int \<Rightarrow> crl_error + bool" where
  "IsRevoked now c caDN serial =
     (if After now (cc_nextUpdate c) then Inl (CRLExpired (cc_nextUpdate c))
      else Inr (revocation_key caDN serial \<in> set (cc_revoked c)))"

definition rdnSequenceEqual :: "crl_env \<Rightarrow> bytes \<Rightarrow> bytes \<Rightarrow> bool" where
  "rdnSequenceEqual E a b =
     (case crl_ParseRDN E a of None \<Rightarrow> False | Some ra \<Rightarrow>
      case crl_ParseRDN E b of None \<Rightarrow> False | Some rb \<Rightarrow> canonicalRDNs ra = canonicalRDNs rb)"

definition issuerMatchesCA :: "crl_env \<Rightarrow> crl_cache \<Rightarrow> certificate \<Rightarrow> bool" where
  "issuerMatchesCA E c cert =
     (if cert_RawIssuer cert = cert_RawSubject (cc_caCert c) then True
      else rdnSequenceEqual E (cert_RawIssuer cert) (cert_RawSubject (cc_caCert c)))"

definition IsRevokedCert :: "crl_env \<Rightarrow> instant \<Rightarrow> crl_cache \<Rightarrow> certificate option \<Rightarrow> crl_error + bool" where
  "IsRevokedCert E now c cert_opt =
     (case cert_opt of None \<Rightarrow> Inl CRLNilCert | Some cert \<Rightarrow>
      if After now (cc_nextUpdate c) then Inl (CRLExpired (cc_nextUpdate c))
      else if \<not> issuerMatchesCA E c cert then Inr False
      else Inr (revocation_key (cc_caDN c) (cert_SerialNumber cert) \<in> set (cc_revoked c)))"

definition crl_Stats :: "crl_cache \<Rightarrow> nat \<times> instant \<times> instant" where
  "crl_Stats c = (card (set (cc_revoked c)), cc_thisUpdate c, cc_nextUpdate c)"

definition LastRefresh :: "crl_cache \<Rightarrow> instant" where
  "LastRefresh c = cc_lastRefresh c"

section \<open>Lemmas\<close>

lemma of_char_lower_char:
  "of_char (lower_char c) = (if 65 \<le> (of_char c :: nat) \<and> of_char c \<le> (90 :: nat) then of_char c + 32 else of_char c :: nat)"
  by (simp add: lower_char_def)

lemma lower_char_inj:
  assumes "of_char a < (97 :: nat)" "of_char b < (97 :: nat)" "lower_char a = lower_char b"
  shows "a = b"
proof -
  have "of_char (lower_char a) = (of_char (lower_char b) :: nat)" using assms(3) by simp
  then have "of_char a = (of_char b :: nat)" using assms(1,2) by (simp add: of_char_lower_char split: if_splits)
  then show ?thesis by simp
qed

lemma hex_upper_low: "n < 16 \<Longrightarrow> of_char (hex_upper n) < (97 :: nat)"
proof -
  have "list_all (\<lambda>n. of_char (hex_upper n) < (97 :: nat)) [0..<16]"
    by (simp add: hex_upper_def upt_rec)
  then show "n < 16 \<Longrightarrow> ?thesis" by (simp add: list_all_iff)
qed

lemma hex_nat_low: "c \<in> set (hex_nat n) \<Longrightarrow> of_char c < (97 :: nat)"
proof (induction n rule: hex_nat.induct)
  case (1 n)
  then show ?case
    by (cases "n < 16") (auto simp: hex_nat.simps[of n] hex_upper_low)
qed

lemma ToLower_hex_nat_inject: "ToLower (hex_nat a) = ToLower (hex_nat b) \<Longrightarrow> hex_nat a = hex_nat b"
  unfolding ToLower_def
  by (rule map_inj_on[of lower_char]) (auto intro!: inj_onI dest: lower_char_inj hex_nat_low)

lemma text16_no_sign: "CHR ''-'' \<notin> set (ToLower (hex_nat n))"
proof
  assume "CHR ''-'' \<in> set (ToLower (hex_nat n))"
  then obtain c where c: "c \<in> set (hex_nat n)" "lower_char c = CHR ''-''" by (auto simp: ToLower_def)
  then have "lower_char c = lower_char (CHR ''-'')" by (simp add: lower_char_def)
  then have "c = CHR ''-''" using lower_char_inj[of c "CHR ''-''"] hex_nat_low[OF c(1)] by simp
  with c(1) hex_nat_no_sign show False by simp
qed

lemma text16_inject [simp]: "text16 a = text16 b \<longleftrightarrow> a = b"
proof
  assume eq: "text16 a = text16 b"
  have sign: "CHR ''-'' \<in> set (text16 x) \<longleftrightarrow> x < 0" for x
    using text16_no_sign by (simp add: text16_def)
  have "a < 0 \<longleftrightarrow> b < 0" using sign[of a] sign[of b] eq by simp
  then have "ToLower (hex_nat (nat \<bar>a\<bar>)) = ToLower (hex_nat (nat \<bar>b\<bar>))"
    using eq by (simp add: text16_def split: if_splits)
  then have "hex_nat (nat \<bar>a\<bar>) = hex_nat (nat \<bar>b\<bar>)" by (rule ToLower_hex_nat_inject)
  then have "nat \<bar>a\<bar> = nat \<bar>b\<bar>" by (metis hex_value_hex_nat)
  with \<open>a < 0 \<longleftrightarrow> b < 0\<close> show "a = b" by linarith
qed simp

lemma revocation_key_inject [simp]: "revocation_key dn a = revocation_key dn b \<longleftrightarrow> a = b"
  by (simp add: revocation_key_def)

text \<open>A cache entry that stems from a list authenticated for the CA.\<close>

definition authentic :: "crl_env \<Rightarrow> certificate \<Rightarrow> revocation_list \<Rightarrow> bool" where
  "authentic E caCert crl \<longleftrightarrow> crl_CheckSignature E caCert crl = None
     \<and> (\<exists>rdn. crl_ParseRDN E (cert_RawSubject caCert) = Some rdn \<and> crl_RDNString E rdn = crl_Issuer crl)"

definition holds_crl :: "crl_cache \<Rightarrow> revocation_list \<Rightarrow> bool" where
  "holds_crl c crl \<longleftrightarrow> cc_revoked c = map (revocation_key (cc_caDN c)) (crl_Revoked crl)
     \<and> cc_thisUpdate c = crl_ThisUpdate crl \<and> cc_nextUpdate c = crl_NextUpdate crl"

lemma crl_refresh_cases:
  assumes "crl_refresh E now c = (c', err)"
  shows "cc_caCert c' = cc_caCert c \<and> cc_caDN c' = cc_caDN c \<and> cc_url c' = cc_url c \<and>
    ((err \<noteq> None \<and> c' = c) \<or>
     (err = None \<and> (\<exists>crl. authentic E (cc_caCert c) crl \<and> holds_crl c' crl
        \<and> (cc_thisUpdate c = 0 \<or> cc_thisUpdate c < crl_ThisUpdate crl))))"
  using assms unfolding crl_refresh_def
  by (auto simp: Let_def authentic_def holds_crl_def split: sum.splits option.splits if_splits)

lemma crl_Start_snoc [simp]:
  "crl_Start (attempts @ [(E, now)]) c = fst (crl_refresh E now (crl_Start attempts c))"
  by (simp add: crl_Start_def)

lemma crl_Start_Nil [simp]: "crl_Start [] c = c"
  by (simp add: crl_Start_def)

lemma crl_Start_inv:
  assumes c: "c = crl_Start attempts (NewCRLCache ca url sec)"
  shows "cc_caCert c = ca \<and> cc_caDN c = cert_Subject ca \<and>
    (c = NewCRLCache ca url sec \<or> (\<exists>(E, t)\<in>set attempts. \<exists>crl. authentic E ca crl \<and> holds_crl c crl))"
  using c
proof (induction attempts arbitrary: c rule: rev_induct)
  case Nil
  then show ?case by (simp add: NewCRLCache_def Let_def)
next
  case (snoc a attempts)
  obtain E now where a: "a = (E, now)" by fastforce
  let ?c0 = "crl_Start attempts (NewCRLCache ca url sec)"
  obtain c' err where r: "crl_refresh E now ?c0 = (c', err)" by fastforce
  have "c = c'" using snoc.prems r by (simp add: a)
  with snoc.IH[OF refl] crl_refresh_cases[OF r] show ?case by (elim conjE disjE) (simp_all add: a, blast+)
qed

section \<open>Properties\<close>


text \<open>The revocation query fails closed and is exact: after any sequence of refresh attempts, an answer
  is given only when one of them delivered a CRL that verified under the CA and has not expired,
  and the answer is yes exactly when the certificate's issuer is the CA and its serial number is on
  that list. Before the first successful refresh every query is an error.\<close>

theorem crl_query_exact:
  assumes "c = crl_Start attempts (NewCRLCache ca url sec)" "now > 0"
    and "IsRevokedCert E now c (Some cert) = Inr b"
  shows "\<exists>(E', t)\<in>set attempts. \<exists>crl. authentic E' ca crl \<and> now \<le> crl_NextUpdate crl
    \<and> (b \<longleftrightarrow> issuerMatchesCA E c cert \<and> cert_SerialNumber cert \<in> set (crl_Revoked crl))"
proof -
  have nx: "now \<le> cc_nextUpdate c"
    and b: "b \<longleftrightarrow> issuerMatchesCA E c cert \<and> revocation_key (cc_caDN c) (cert_SerialNumber cert) \<in> set (cc_revoked c)"
    using assms(3) by (auto simp: IsRevokedCert_def split: if_splits)
  have "c \<noteq> NewCRLCache ca url sec" using nx assms(2) by (auto simp: NewCRLCache_def Let_def)
  then obtain E' t crl where "(E', t) \<in> set attempts" "authentic E' ca crl" and h: "holds_crl c crl"
    using crl_Start_inv[OF assms(1)] by blast
  moreover have "revocation_key (cc_caDN c) (cert_SerialNumber cert) \<in> set (cc_revoked c)
      \<longleftrightarrow> cert_SerialNumber cert \<in> set (crl_Revoked crl)"
    using h by (auto simp: holds_crl_def)
  moreover have "now \<le> crl_NextUpdate crl" using nx h by (simp add: holds_crl_def)
  ultimately show ?thesis using b by blast
qed

text \<open>The comparison of names ignores the order of the RDNs and of the attributes in an RDN.\<close>

theorem rdn_order_irrelevant:
  assumes "image_mset mset (mset a) = image_mset mset (mset b)"
  shows "canonicalRDNs a = canonicalRDNs b"
proof -
  let ?f = "\<lambda>rdn. go_Join (sort (map (\<lambda>(ty, v). ty @ ''='' @ v) rdn)) ''+''"
  have "?f rdn = go_Join (sorted_list_of_multiset (image_mset (\<lambda>(ty, v). ty @ ''='' @ v) (mset rdn))) ''+''" for rdn
    by (simp only: sorted_list_of_multiset_mset [symmetric] mset_map)
  then have "image_mset ?f (mset s) = image_mset (\<lambda>m. go_Join (sorted_list_of_multiset
      (image_mset (\<lambda>(ty, v). ty @ ''='' @ v) m)) ''+'') (image_mset mset (mset s))" for s
    by (simp add: image_mset.compositionality comp_def)
  then have "mset (map ?f a) = mset (map ?f b)" using assms by simp
  then have "sort (map ?f a) = sort (map ?f b)" by (simp only: sorted_list_of_multiset_mset [symmetric])
  then show ?thesis by (simp only: canonicalRDNs_def)
qed

definition example_crl :: revocation_list where
  "example_crl = \<lparr>crl_Issuer = ''CN=ca'', crl_ThisUpdate = 50, crl_NextUpdate = 500, crl_Revoked = [7], crl_Raw = []\<rparr>"

definition example_crl_env :: crl_env where
  "example_crl_env =
     \<lparr>crl_Get = (\<lambda>u. Inr ''der''), crl_PemDecode = (\<lambda>b. None), crl_ParseDERCRL = (\<lambda>b. Inr example_crl),
      crl_ParseRDN = (\<lambda>b. Some [[(''CN'', b)]]), crl_RDNString = (\<lambda>r. ''CN=ca''),
      crl_CheckSignature = (\<lambda>c l. None)\<rparr>"

definition example_ca :: certificate where
  "example_ca = example_cert\<lparr>cert_Subject := ''CN=ca'', cert_RawSubject := ''ca''\<rparr>"


theorem crl_query_exact_witness:
  "\<exists>(E', t)\<in>set [(example_crl_env, 60)]. \<exists>crl. authentic E' example_ca crl \<and> 70 \<le> crl_NextUpdate crl"
proof -
  have "IsRevokedCert example_crl_env 70 (crl_Start [(example_crl_env, 60)] (NewCRLCache example_ca ''u'' 0))
      (Some example_cert) = Inr True"
    by (simp add: IsRevokedCert_def crl_Start_def crl_refresh_def example_crl_env_def example_crl_def Let_def
        NewCRLCache_def example_ca_def example_cert_def issuerMatchesCA_def)
  from crl_query_exact[OF refl _ this] show ?thesis by auto
qed

theorem rdn_order_irrelevant_witness:
  "canonicalRDNs [[(''CN'', ''a''), (''OU'', ''b'')], [(''O'', ''c'')]] =
   canonicalRDNs [[(''O'', ''c'')], [(''OU'', ''b''), (''CN'', ''a'')]]"
  by (rule rdn_order_irrelevant) (simp add: add_mset_commute)

end
