(* ===== verification/Ocsp.thy ===== *)
theory Ocsp
  imports Crl "HOL-Library.AList"
begin

text \<open>
  The OCSP cache (\<^verbatim>\<open>src/ocsp.go\<close>): the freshness of a response, the fallback policy, one status check
  with its cache, and what a request that was coalesced with a running one does when that one has
  finished. The responder and \<^verbatim>\<open>golang.org/x/crypto/ocsp\<close> are functions of \<open>ocsp_env\<close>. Two clock
  readings matter: \<open>now\<close> at the cache lookup and \<open>later\<close> after the network exchange.
\<close>

section \<open>Responder URLs\<close>

record access_description =
  ad_Method :: oid
  ad_Tag :: nat
  ad_Class :: nat
  ad_Bytes :: bytes

definition AIAOID :: oid where "AIAOID = [1, 3, 6, 1, 5, 5, 7, 1, 1]"
definition OCSPOID :: oid where "OCSPOID = [1, 3, 6, 1, 5, 5, 7, 48, 1]"

text \<open>\<^verbatim>\<open>asn1.ClassContextSpecific\<close> is 2.\<close>

fun ocsp_location :: "access_description list \<Rightarrow> string option" where
  "ocsp_location [] = None"
| "ocsp_location (desc # descs) =
     (if ad_Method desc = OCSPOID \<and> ad_Tag desc = 6 \<and> ad_Class desc = 2 then Some (ad_Bytes desc)
      else ocsp_location descs)"

fun ocsp_url_loop :: "(bytes \<Rightarrow> access_description list option) \<Rightarrow> (oid \<times> bytes) list \<Rightarrow> string" where
  "ocsp_url_loop unmarshal [] = []"
| "ocsp_url_loop unmarshal ((i, val) # exts) =
     (if i = AIAOID then
        (case unmarshal val of
           None \<Rightarrow> ocsp_url_loop unmarshal exts
         | Some descs \<Rightarrow>
             (case ocsp_location descs of
                Some url \<Rightarrow> url
              | None \<Rightarrow> ocsp_url_loop unmarshal exts))
      else ocsp_url_loop unmarshal exts)"

definition ExtractOCSPURL :: "(bytes \<Rightarrow> access_description list option) \<Rightarrow> certificate \<Rightarrow> string" where
  "ExtractOCSPURL unmarshal cert = ocsp_url_loop unmarshal (cert_Extensions cert)"

section \<open>The cache\<close>

datatype ocsp_status = OCSPGood | OCSPRevoked | OCSPOther int

record ocsp_entry =
  oc_status :: ocsp_status
  oc_revokedAt :: instant
  oc_cachedAt :: instant
  oc_thisUpdate :: instant
  oc_nextUpdate :: instant
  oc_ttl :: duration

record ocsp_response =
  or_Status :: ocsp_status
  or_RevokedAt :: instant
  or_ProducedAt :: instant
  or_ThisUpdate :: instant
  or_NextUpdate :: instant

record ocsp_env =
  oe_Unmarshal :: "bytes \<Rightarrow> access_description list option"
  oe_CreateRequest :: "certificate \<Rightarrow> certificate \<Rightarrow> string + bytes"
  oe_Post :: "string \<Rightarrow> bytes \<Rightarrow> string + bytes"
  oe_ParseResponseForCert :: "bytes \<Rightarrow> certificate \<Rightarrow> certificate \<Rightarrow> string + ocsp_response"

record ocsp_cache =
  oca_entries :: "(string \<times> ocsp_entry) list"
  oca_ttl :: duration
  oca_fallback :: string
  oca_crlCheck :: "(string \<Rightarrow> int \<Rightarrow> string + bool) option"

datatype ocsp_reason = NoOCSPURL | NoFreshEntry | IssuerUnavailable | RequestFailed string
  | ResponseParse string | NoDates | ResponseStale | NotYetValid | OutsideValidity

datatype ocsp_error = RevokedByOCSP instant | UnknownByOCSP | CreateRequestFailed string
  | FallbackDenied ocsp_reason | CRLUnconfigured ocsp_reason | CRLCheckFailed string | RevokedPerCRL

definition OCSPFallbackAllow :: string where "OCSPFallbackAllow = ''allow''"
definition OCSPFallbackDeny :: string where "OCSPFallbackDeny = ''deny''"
definition OCSPFallbackCRL :: string where "OCSPFallbackCRL = ''crl''"

definition NewOCSPCache :: "duration \<Rightarrow> string \<Rightarrow> ocsp_cache" where
  "NewOCSPCache ttl fallback =
     \<lparr>oca_entries = [], oca_ttl = (if ttl \<le> 0 then 5 * minute else ttl),
      oca_fallback = (if fallback \<in> {OCSPFallbackAllow, OCSPFallbackDeny, OCSPFallbackCRL}
                      then fallback else OCSPFallbackDeny),
      oca_crlCheck = None\<rparr>"

definition SetCRLChecker ::
    "(string \<Rightarrow> int \<Rightarrow> string + bool) option \<Rightarrow> ocsp_cache option \<Rightarrow> ocsp_cache option" where
  "SetCRLChecker fn c_opt = map_option (\<lambda>c. c\<lparr>oca_crlCheck := fn\<rparr>) c_opt"

definition responseFresh :: "ocsp_entry option \<Rightarrow> instant \<Rightarrow> bool" where
  "responseFresh e_opt now =
     (case e_opt of None \<Rightarrow> False | Some e \<Rightarrow>
      if \<not> IsZero (oc_thisUpdate e) \<and> Before now (oc_thisUpdate e) then False
      else if \<not> IsZero (oc_nextUpdate e) then Before now (oc_nextUpdate e)
      else Before now (oc_cachedAt e + oc_ttl e))"

definition fallbackErr :: "ocsp_cache \<Rightarrow> certificate \<Rightarrow> ocsp_reason \<Rightarrow> ocsp_error option" where
  "fallbackErr c cert reason =
     (if oca_fallback c = OCSPFallbackAllow then None
      else if oca_fallback c = OCSPFallbackCRL then
        (case oca_crlCheck c of
           None \<Rightarrow> Some (CRLUnconfigured reason)
         | Some check \<Rightarrow>
             (case check (cert_Issuer cert) (cert_SerialNumber cert) of
                Inl e \<Rightarrow> Some (CRLCheckFailed e)
              | Inr revoked \<Rightarrow> if revoked then Some RevokedPerCRL else None))
      else Some (FallbackDenied reason))"

text \<open>The three-way switch on the status.\<close>

definition status_result :: "ocsp_status \<Rightarrow> instant \<Rightarrow> ocsp_error option" where
  "status_result st revokedAt =
     (case st of OCSPGood \<Rightarrow> None | OCSPRevoked \<Rightarrow> Some (RevokedByOCSP revokedAt)
      | OCSPOther n \<Rightarrow> Some UnknownByOCSP)"

definition ocsp_key :: "ocsp_env \<Rightarrow> certificate \<Rightarrow> string" where
  "ocsp_key E cert = text16 (cert_SerialNumber cert) @ ''|'' @ ExtractOCSPURL (oe_Unmarshal E) cert"

definition cache_hit :: "ocsp_cache \<Rightarrow> string \<Rightarrow> instant \<Rightarrow> ocsp_entry option" where
  "cache_hit c key now =
     (case map_of (oca_entries c) key of
        None \<Rightarrow> None
      | Some e \<Rightarrow> if go_Sub now (oc_cachedAt e) < oca_ttl c \<and> responseFresh (Some e) now then Some e else None)"

text \<open>The checks on a parsed response, in order; \<open>None\<close> means it may be cached.\<close>

definition response_problem :: "ocsp_response \<Rightarrow> ocsp_entry \<Rightarrow> instant \<Rightarrow> ocsp_reason option" where
  "response_problem resp e now =
     (if IsZero (or_ThisUpdate resp) \<and> IsZero (or_ProducedAt resp) then Some NoDates
      else if \<not> IsZero (or_NextUpdate resp) \<and> After now (or_NextUpdate resp) then Some ResponseStale
      else if After (or_ThisUpdate resp) now then Some NotYetValid
      else if \<not> responseFresh (Some e) now then Some OutsideValidity
      else None)"

definition response_entry :: "ocsp_cache \<Rightarrow> ocsp_response \<Rightarrow> instant \<Rightarrow> ocsp_entry" where
  "response_entry c resp now =
     \<lparr>oc_status = or_Status resp, oc_revokedAt = or_RevokedAt resp, oc_cachedAt = now,
      oc_thisUpdate = or_ThisUpdate resp, oc_nextUpdate = or_NextUpdate resp, oc_ttl = oca_ttl c\<rparr>"

text \<open>The part of \<^verbatim>\<open>Check\<close> that runs as the fetcher of its key.\<close>

definition ocsp_fetch ::
    "ocsp_env \<Rightarrow> instant \<Rightarrow> ocsp_cache \<Rightarrow> certificate \<Rightarrow> certificate option \<Rightarrow> ocsp_cache \<times> ocsp_error option" where
  "ocsp_fetch E later c cert issuer_opt =
     (case issuer_opt of None \<Rightarrow> (c, fallbackErr c cert IssuerUnavailable) | Some issuer \<Rightarrow>
      case oe_CreateRequest E cert issuer of Inl e \<Rightarrow> (c, Some (CreateRequestFailed e)) | Inr req \<Rightarrow>
      case oe_Post E (ExtractOCSPURL (oe_Unmarshal E) cert) req of
        Inl e \<Rightarrow> (c, fallbackErr c cert (RequestFailed e))
      | Inr body \<Rightarrow>
          (case oe_ParseResponseForCert E (take (2 ^ 20) body) cert issuer of
             Inl e \<Rightarrow> (c, fallbackErr c cert (ResponseParse e))
           | Inr resp \<Rightarrow>
               (let e = response_entry c resp later in
                case response_problem resp e later of
                  Some reason \<Rightarrow> (c, fallbackErr c cert reason)
                | None \<Rightarrow>
                    (c\<lparr>oca_entries := AList.update (ocsp_key E cert) e (oca_entries c)\<rparr>,
                     status_result (or_Status resp) (or_RevokedAt resp)))))"

text \<open>\<^verbatim>\<open>Check\<close> when no request for the key is running.\<close>

definition ocsp_Check ::
    "ocsp_env \<Rightarrow> instant \<Rightarrow> instant \<Rightarrow> ocsp_cache \<Rightarrow> certificate \<Rightarrow> certificate option
     \<Rightarrow> ocsp_cache \<times> ocsp_error option" where
  "ocsp_Check E now later c cert issuer =
     (if ExtractOCSPURL (oe_Unmarshal E) cert = [] then (c, fallbackErr c cert NoOCSPURL)
      else case cache_hit c (ocsp_key E cert) now of
             Some e \<Rightarrow> (c, status_result (oc_status e) (oc_revokedAt e))
           | None \<Rightarrow> ocsp_fetch E later c cert issuer)"

text \<open>\<^verbatim>\<open>Check\<close> when a request for the key is running: it waits, and \<open>c'\<close> is the cache the other request
  left behind.\<close>

definition ocsp_Check_waiting ::
    "ocsp_env \<Rightarrow> instant \<Rightarrow> instant \<Rightarrow> ocsp_cache \<Rightarrow> ocsp_cache \<Rightarrow> certificate \<Rightarrow> ocsp_error option" where
  "ocsp_Check_waiting E now later c c' cert =
     (if ExtractOCSPURL (oe_Unmarshal E) cert = [] then fallbackErr c cert NoOCSPURL
      else case cache_hit c (ocsp_key E cert) now of
             Some e \<Rightarrow> status_result (oc_status e) (oc_revokedAt e)
           | None \<Rightarrow>
               (case map_of (oca_entries c') (ocsp_key E cert) of
                  Some e \<Rightarrow>
                    if responseFresh (Some e) later then status_result (oc_status e) (oc_revokedAt e)
                    else fallbackErr c' cert NoFreshEntry
                | None \<Rightarrow> fallbackErr c' cert NoFreshEntry))"

definition ocsp_Stats :: "ocsp_cache \<Rightarrow> nat \<times> nat" where
  "ocsp_Stats c =
     (length (filter (\<lambda>(_, e). oc_status e = OCSPGood) (oca_entries c)),
      length (filter (\<lambda>(_, e). oc_status e = OCSPRevoked) (oca_entries c)))"

definition Flush :: "ocsp_cache \<Rightarrow> ocsp_cache" where
  "Flush c = c\<lparr>oca_entries := []\<rparr>"

section \<open>Lemmas\<close>

lemma status_result_None: "status_result st t = None \<longleftrightarrow> st = OCSPGood"
  by (cases st) (simp_all add: status_result_def)

lemma fallbackErr_None:
  "oca_fallback c \<noteq> OCSPFallbackAllow \<Longrightarrow> fallbackErr c cert reason = None \<longleftrightarrow>
     oca_fallback c = OCSPFallbackCRL
     \<and> (\<exists>check. oca_crlCheck c = Some check \<and> check (cert_Issuer cert) (cert_SerialNumber cert) = Inr False)"
  by (auto simp: fallbackErr_def split: option.splits sum.splits if_splits)

text \<open>Evidence that a certificate is good at \<open>t\<close>: a response for it inside its validity window.\<close>

definition good_response :: "ocsp_response \<Rightarrow> instant \<Rightarrow> bool" where
  "good_response resp t \<longleftrightarrow> or_Status resp = OCSPGood \<and> or_ThisUpdate resp \<le> t
     \<and> (or_NextUpdate resp = 0 \<or> t < or_NextUpdate resp)"

definition crl_clears :: "ocsp_cache \<Rightarrow> certificate \<Rightarrow> bool" where
  "crl_clears c cert \<longleftrightarrow> oca_fallback c = OCSPFallbackCRL
     \<and> (\<exists>check. oca_crlCheck c = Some check \<and> check (cert_Issuer cert) (cert_SerialNumber cert) = Inr False)"

lemma response_problem_None:
  "response_problem resp (response_entry c resp t) t = None \<Longrightarrow>
   or_ThisUpdate resp \<le> t \<and> (or_NextUpdate resp = 0 \<or> t < or_NextUpdate resp)"
  by (auto simp: response_problem_def response_entry_def responseFresh_def split: if_splits)

lemma ocsp_fetch_None:
  assumes "ocsp_fetch E t c cert issuer_opt = (c', None)" "oca_fallback c \<noteq> OCSPFallbackAllow"
  shows "crl_clears c cert \<or> (\<exists>issuer body resp. issuer_opt = Some issuer
    \<and> oe_ParseResponseForCert E body cert issuer = Inr resp \<and> good_response resp t)"
proof -
  note fb = fallbackErr_None[OF assms(2)]
  show ?thesis
    using assms(1) unfolding ocsp_fetch_def
    by (auto simp: Let_def fb crl_clears_def good_response_def status_result_None
        split: option.splits sum.splits dest!: response_problem_None)
qed

section \<open>Properties\<close>

text \<open>C22. Revocation checking fails closed: unless the policy is \<open>allow\<close>, a certificate passes only on
  positive evidence: a cached good status inside its validity window and the cache lifetime, a
  response for the certificate with status good whose window contains the present, or, under the
  policy \<open>crl\<close>, an answer of the CRL that it is not revoked.\<close>

theorem ocsp_accept_needs_evidence:
  assumes "ocsp_Check E now later c cert issuer = (c', None)" "oca_fallback c \<noteq> ''allow''"
  shows "crl_clears c cert
    \<or> (\<exists>e. map_of (oca_entries c) (ocsp_key E cert) = Some e \<and> oc_status e = OCSPGood
         \<and> responseFresh (Some e) now \<and> go_Sub now (oc_cachedAt e) < oca_ttl c)
    \<or> (\<exists>iss body resp. issuer = Some iss \<and> oe_ParseResponseForCert E body cert iss = Inr resp
         \<and> good_response resp later)"
proof -
  have na: "oca_fallback c \<noteq> OCSPFallbackAllow" using assms(2) by (simp add: OCSPFallbackAllow_def)
  show ?thesis
  proof (cases "ExtractOCSPURL (oe_Unmarshal E) cert = []")
    case True
    then show ?thesis
      using assms(1) fallbackErr_None[OF na] by (auto simp: ocsp_Check_def crl_clears_def)
  next
    case url: False
    show ?thesis
    proof (cases "cache_hit c (ocsp_key E cert) now")
      case None
      then have "ocsp_fetch E later c cert issuer = (c', None)" using assms(1) url by (simp add: ocsp_Check_def)
      from ocsp_fetch_None[OF this na] show ?thesis by blast
    next
      case (Some e)
      then have "oc_status e = OCSPGood" using assms(1) url by (simp add: ocsp_Check_def status_result_None)
      with Some show ?thesis by (auto simp: cache_hit_def split: option.splits if_splits)
    qed
  qed
qed

text \<open>A revocation learned from the responder is remembered under every policy, \<open>allow\<close> included: while
  the entry is within the cache lifetime and its validity window, further checks of the certificate
  report it without asking again.\<close>

theorem ocsp_revocation_sticky:
  assumes "ocsp_Check E now later c cert issuer = (c', Some (RevokedByOCSP t))"
    and "map_of (oca_entries c') (ocsp_key E cert) = Some e"
    and "responseFresh (Some e) now'" "go_Sub now' (oc_cachedAt e) < oca_ttl c'"
  shows "ocsp_Check E now' later' (c'\<lparr>oca_fallback := policy\<rparr>) cert issuer'
    = (c'\<lparr>oca_fallback := policy\<rparr>, Some (RevokedByOCSP t))"
proof -
  have nofb: "fallbackErr c cert r \<noteq> Some (RevokedByOCSP t)" for r
    by (auto simp: fallbackErr_def split: option.splits sum.splits)
  have url: "ExtractOCSPURL (oe_Unmarshal E) cert \<noteq> []"
    using assms(1) nofb by (auto simp: ocsp_Check_def)
  have "status_result (oc_status e) (oc_revokedAt e) = Some (RevokedByOCSP t)"
  proof (cases "cache_hit c (ocsp_key E cert) now")
    case None
    then have "ocsp_fetch E later c cert issuer = (c', Some (RevokedByOCSP t))"
      using assms(1) url by (simp add: ocsp_Check_def)
    then show ?thesis
      using assms(2) nofb unfolding ocsp_fetch_def
      by (auto simp: Let_def response_entry_def update_conv' split: option.splits sum.splits)
  next
    case (Some e')
    then have "map_of (oca_entries c) (ocsp_key E cert) = Some e'"
      by (auto simp: cache_hit_def split: option.splits if_splits)
    then show ?thesis using assms(1,2) Some url by (auto simp: ocsp_Check_def)
  qed
  then show ?thesis using assms(2-4) url by (auto simp: ocsp_Check_def cache_hit_def)
qed

definition example_aia_cert :: certificate where
  "example_aia_cert = example_cert\<lparr>cert_Extensions := [(AIAOID, ''aia'')]\<rparr>"

definition example_ocsp_env :: "ocsp_status \<Rightarrow> ocsp_env" where
  "example_ocsp_env st =
     \<lparr>oe_Unmarshal = (\<lambda>b. Some [\<lparr>ad_Method = OCSPOID, ad_Tag = 6, ad_Class = 2, ad_Bytes = ''http://o''\<rparr>]),
      oe_CreateRequest = (\<lambda>c i. Inr ''req''), oe_Post = (\<lambda>u r. Inr ''resp''),
      oe_ParseResponseForCert = (\<lambda>b c i. Inr \<lparr>or_Status = st, or_RevokedAt = 3, or_ProducedAt = 10,
         or_ThisUpdate = 10, or_NextUpdate = 10 + 24 * hour\<rparr>)\<rparr>"

lemmas example_ocsp_defs = ocsp_Check_def ocsp_fetch_def ocsp_key_def cache_hit_def response_problem_def
  response_entry_def responseFresh_def status_result_def NewOCSPCache_def OCSPFallbackAllow_def
  OCSPFallbackDeny_def OCSPFallbackCRL_def ExtractOCSPURL_def example_aia_cert_def example_ocsp_env_def
  example_cert_def Let_def hour_def minute_def second_def

lemma example_ocsp_good:
  "ocsp_Check (example_ocsp_env OCSPGood) 20 20 (NewOCSPCache 0 ''deny'') example_aia_cert (Some example_cert)
   = (fst (ocsp_Check (example_ocsp_env OCSPGood) 20 20 (NewOCSPCache 0 ''deny'') example_aia_cert (Some example_cert)), None)"
  by (simp add: example_ocsp_defs)

theorem ocsp_accept_needs_evidence_witness:
  "\<exists>iss body resp. Some example_cert = Some iss
     \<and> oe_ParseResponseForCert (example_ocsp_env OCSPGood) body example_aia_cert iss = Inr resp \<and> good_response resp 20"
  using ocsp_accept_needs_evidence[OF example_ocsp_good]
  by (simp add: NewOCSPCache_def OCSPFallbackAllow_def OCSPFallbackDeny_def OCSPFallbackCRL_def crl_clears_def)

theorem ocsp_revocation_sticky_witness:
  "snd (ocsp_Check (example_ocsp_env OCSPRevoked) 40 40
     ((fst (ocsp_Check (example_ocsp_env OCSPRevoked) 20 20 (NewOCSPCache 0 ''deny'') example_aia_cert (Some example_cert)))
        \<lparr>oca_fallback := ''allow''\<rparr>) example_aia_cert None) = Some (RevokedByOCSP 3)"
proof -
  let ?E = "example_ocsp_env OCSPRevoked"
  obtain c' where c': "ocsp_Check ?E 20 20 (NewOCSPCache 0 ''deny'') example_aia_cert (Some example_cert)
      = (c', Some (RevokedByOCSP 3))"
    and e: "map_of (oca_entries c') (ocsp_key ?E example_aia_cert) = Some \<lparr>oc_status = OCSPRevoked,
      oc_revokedAt = 3, oc_cachedAt = 20, oc_thisUpdate = 10, oc_nextUpdate = 10 + 24 * hour, oc_ttl = 5 * minute\<rparr>"
    and t: "oca_ttl c' = 5 * minute"
    by (simp add: example_ocsp_defs)
  from ocsp_revocation_sticky[OF c' e, of 40 40 "''allow''" None] c' show ?thesis
    by (simp add: t responseFresh_def go_Sub_def minDuration_def maxDuration_def hour_def minute_def second_def)
qed

text \<open>A request that waited for a running one looks only at the validity window and not at the cache
  lifetime: when the refresh of an old good entry fails, the request that ran it is refused by the
  policy \<open>deny\<close> while one that waited for it is let through on the old entry.\<close>

theorem ocsp_waiter_ignores_ttl:
  "let E = (example_ocsp_env OCSPGood)\<lparr>oe_Post := (\<lambda>u r. Inl ''timeout'')\<rparr>;
       old = \<lparr>oc_status = OCSPGood, oc_revokedAt = 0, oc_cachedAt = 20, oc_thisUpdate = 10,
              oc_nextUpdate = 10 + 24 * hour, oc_ttl = 5 * minute\<rparr>;
       c = (NewOCSPCache 0 ''deny'')\<lparr>oca_entries := [(ocsp_key E example_aia_cert, old)]\<rparr>;
       now = hour
   in ocsp_Check E now now c example_aia_cert (Some example_cert) = (c, Some (FallbackDenied (RequestFailed ''timeout'')))
      \<and> ocsp_Check_waiting E now now c c example_aia_cert = None"
  by (simp add: example_ocsp_defs ocsp_Check_waiting_def fallbackErr_def go_Sub_def minDuration_def maxDuration_def)

end
