(* ===== verification/Constraints.thy ===== *)
theory Constraints
  imports Data Registry "HOL-Library.AList"
begin

text \<open>
  Authorization constraints: the evaluator registry and the built-in evaluators
  (\<^verbatim>\<open>src/constraints.go\<close>), and the check of a constraint list against a registry
  (\<^verbatim>\<open>src/decision.go\<close>). The record \<open>constraint_env\<close> holds what the evaluators take from the runtime:
  the JSON parser, the IP and CIDR parsers of \<^verbatim>\<open>net\<close>, the time zone database, the clock, the
  iteration order of a Go map, and the registered geographic resolvers.
\<close>

section \<open>Runtime environment\<close>

text \<open>A time zone gives the local calendar day of an instant, as a day number, and the instant of a
  local wall-clock time on a day.\<close>

record location =
  loc_day :: "instant \<Rightarrow> int"
  loc_Date :: "int \<Rightarrow> int \<Rightarrow> int \<Rightarrow> instant"

definition fixed_zone :: "duration \<Rightarrow> location" where
  "fixed_zone offset =
     \<lparr>loc_day = (\<lambda>t. (t + offset) div (24 * hour)),
      loc_Date = (\<lambda>d h m. d * (24 * hour) + h * hour + m * minute - offset)\<rparr>"

definition UTC :: location where
  "UTC = fixed_zone 0"

record constraint_env =
  ce_Unmarshal :: "bytes \<Rightarrow> json option"
  ce_ParseIP :: "string \<Rightarrow> bytes option"
  ce_IPString :: "bytes \<Rightarrow> string"
  ce_ParseCIDR :: "string \<Rightarrow> (bytes \<Rightarrow> bool) option"
  ce_LoadLocation :: "string \<Rightarrow> location option"
  ce_Now :: instant
  ce_map_order :: "(string \<times> string list) list \<Rightarrow> (string \<times> string list) list"
  ce_geoResolvers :: "(string \<times> (string \<Rightarrow> string + string)) list"

record constraint_context =
  cc_ClientIP :: string
  cc_Now :: instant

datatype constraint_error = NilContext string | InvalidJSON string | ClientIPUnavailable string
  | InvalidClientIP string | InvalidCIDR string | NotInCIDRs string | MaxOutOfRange int
  | WindowRequired | WindowFormat string string | WindowZone string | OutsideTimeWindow
  | RegionsRequired | RegionTable | NotInRegion | ResolverUnregistered string | RegionArray
  | ResolverFailed string | RegionNotAllowed string | TimeoutOutOfRange string int
  | ForeignScheme string | InvalidTime string | NilDereference

section \<open>Constraint keys and schemes\<close>

definition ConstraintCIDRKey :: string where "ConstraintCIDRKey = ''network:cidr''"
definition ConstraintConcurrentKey :: string where "ConstraintConcurrentKey = ''session:max-concurrent''"
definition ConstraintTimeWindowKey :: string where "ConstraintTimeWindowKey = ''time:window''"
definition ConstraintHardTimeoutKey :: string where "ConstraintHardTimeoutKey = ''session:hard-timeout''"
definition ConstraintIdleTimeoutKey :: string where "ConstraintIdleTimeoutKey = ''session:idle-timeout''"
definition ConstraintReadOnlyKey :: string where "ConstraintReadOnlyKey = ''op:readonly''"
definition ConstraintAuditRequiredKey :: string where "ConstraintAuditRequiredKey = ''op:audit:required''"
definition ConstraintGeoFenceKey :: string where "ConstraintGeoFenceKey = ''geo-fence''"

definition isConstraintScheme :: "string \<Rightarrow> bool" where
  "isConstraintScheme scheme \<longleftrightarrow>
     scheme = ''varwof/constraint-v1'' \<or> scheme = ''constraint'' \<or> scheme = ''constraint-v1''"

section \<open>The registry\<close>

record constraint_evaluator =
  ev_CapabilityId :: string
  ev_Evaluate :: "capability \<Rightarrow> constraint_context option \<Rightarrow> constraint_error option"

record constraint_registry =
  evaluators :: "(string \<times> constraint_evaluator) list"

definition NewConstraintRegistry :: constraint_registry where
  "NewConstraintRegistry = \<lparr>evaluators = []\<rparr>"

definition ConstraintRegistry_Register ::
    "constraint_evaluator option \<Rightarrow> constraint_registry \<Rightarrow> constraint_registry \<times> registry_error option" where
  "ConstraintRegistry_Register ev_opt r =
     (case ev_opt of None \<Rightarrow> (r, Some NilEntry) | Some ev \<Rightarrow>
      let i = ev_CapabilityId ev in
      if i = [] then (r, Some EmptyKey)
      else if map_of (evaluators r) i \<noteq> None then (r, Some (AlreadyRegistered i))
      else (r\<lparr>evaluators := (i, ev) # evaluators r\<rparr>, None))"

definition ConstraintRegistry_Replace ::
    "constraint_evaluator option \<Rightarrow> constraint_registry \<Rightarrow> constraint_registry \<times> registry_error option" where
  "ConstraintRegistry_Replace ev_opt r =
     (case ev_opt of None \<Rightarrow> (r, Some NilEntry) | Some ev \<Rightarrow>
      let i = ev_CapabilityId ev in
      if i = [] then (r, Some EmptyKey)
      else (r\<lparr>evaluators := AList.update i ev (evaluators r)\<rparr>, None))"

definition ConstraintRegistry_Find :: "constraint_registry \<Rightarrow> string \<Rightarrow> registry_error + constraint_evaluator" where
  "ConstraintRegistry_Find r capId =
     (case map_of (evaluators r) capId of None \<Rightarrow> Inl (NotRegistered capId) | Some ev \<Rightarrow> Inr ev)"

definition ConstraintRegistry_Remove :: "string \<Rightarrow> constraint_registry \<Rightarrow> constraint_registry" where
  "ConstraintRegistry_Remove capId r = r\<lparr>evaluators := AList.delete capId (evaluators r)\<rparr>"

definition ConstraintRegistry_Reset :: "constraint_registry \<Rightarrow> constraint_registry" where
  "ConstraintRegistry_Reset r = r\<lparr>evaluators := []\<rparr>"

definition ConstraintRegistry_Len :: "constraint_registry \<Rightarrow> nat" where
  "ConstraintRegistry_Len r = length (evaluators r)"

definition ConstraintRegistry_Keys :: "constraint_registry \<Rightarrow> string list" where
  "ConstraintRegistry_Keys r = map fst (evaluators r)"

interpretation creg: keyed_registry ev_CapabilityId ConstraintRegistry_Find ConstraintRegistry_Register
    ConstraintRegistry_Reset ConstraintRegistry_Keys
  by unfold_locales
    (auto simp: ConstraintRegistry_Register_def ConstraintRegistry_Find_def ConstraintRegistry_Reset_def
      ConstraintRegistry_Keys_def Let_def map_of_eq_None_iff
      split: option.splits dest: map_of_Some_key)

section \<open>Built-in evaluators\<close>

subsection \<open>Source addresses\<close>

definition parseCIDRParam :: "constraint_env \<Rightarrow> bytes \<Rightarrow> string list option" where
  "parseCIDRParam E raw =
     (let trimmed = TrimSpace raw in
      case ce_Unmarshal E trimmed of None \<Rightarrow> None
      | Some j \<Rightarrow>
          (if trimmed \<noteq> [] \<and> trimmed ! 0 = CHR ''{''
           then decode_struct1 ''cidrs'' decode_string_list [] j
           else decode_string_list j []))"

fun cidr_loop :: "constraint_env \<Rightarrow> string \<Rightarrow> bytes \<Rightarrow> string list \<Rightarrow> constraint_error option" where
  "cidr_loop E clientIP ip [] = Some (NotInCIDRs clientIP)"
| "cidr_loop E clientIP ip (cidr # cidrs) =
     (case ce_ParseCIDR E cidr of
        None \<Rightarrow> Some (InvalidCIDR cidr)
      | Some contains \<Rightarrow> if contains ip then None else cidr_loop E clientIP ip cidrs)"

definition cidr_Evaluate :: "constraint_env \<Rightarrow> capability \<Rightarrow> constraint_context option \<Rightarrow> constraint_error option" where
  "cidr_Evaluate E cap ctx_opt =
     (case ctx_opt of None \<Rightarrow> Some (NilContext ConstraintCIDRKey) | Some ctx \<Rightarrow>
      case parseCIDRParam E (Parameters cap) of None \<Rightarrow> Some (InvalidJSON ConstraintCIDRKey) | Some cidrs \<Rightarrow>
      if cidrs = [] then None
      else if cc_ClientIP ctx = [] then Some (ClientIPUnavailable ConstraintCIDRKey)
      else case ce_ParseIP E (cc_ClientIP ctx) of None \<Rightarrow> Some (InvalidClientIP (cc_ClientIP ctx))
           | Some ip \<Rightarrow> cidr_loop E (cc_ClientIP ctx) ip cidrs)"

subsection \<open>Numeric limits\<close>

definition MaxConcurrentMin :: int where "MaxConcurrentMin = 1"
definition MaxConcurrentMax :: int where "MaxConcurrentMax = 1024"
definition HardTimeoutMin :: int where "HardTimeoutMin = 60"
definition HardTimeoutMax :: int where "HardTimeoutMax = 86400"
definition IdleTimeoutMin :: int where "IdleTimeoutMin = 30"
definition IdleTimeoutMax :: int where "IdleTimeoutMax = 3600"

definition parseMaxConcurrentParam :: "constraint_env \<Rightarrow> bytes \<Rightarrow> constraint_error + int" where
  "parseMaxConcurrentParam E raw =
     (let trimmed = TrimSpace raw in
      if trimmed = [] then Inr 0
      else case Option.bind (ce_Unmarshal E trimmed) (decode_struct1 ''max'' decode_int 0) of
             None \<Rightarrow> Inl (InvalidJSON ConstraintConcurrentKey)
           | Some n \<Rightarrow>
               if n < MaxConcurrentMin \<or> n > MaxConcurrentMax then Inl (MaxOutOfRange n) else Inr n)"

definition maxConcurrent_Evaluate ::
    "constraint_env \<Rightarrow> capability \<Rightarrow> constraint_context option \<Rightarrow> constraint_error option" where
  "maxConcurrent_Evaluate E cap ctx =
     (case parseMaxConcurrentParam E (Parameters cap) of Inl e \<Rightarrow> Some e | Inr n \<Rightarrow> None)"

definition hardTimeout_Evaluate ::
    "constraint_env \<Rightarrow> capability \<Rightarrow> constraint_context option \<Rightarrow> constraint_error option" where
  "hardTimeout_Evaluate E cap ctx =
     (case Option.bind (ce_Unmarshal E (Parameters cap)) (decode_struct1 ''value'' decode_int 0) of
        None \<Rightarrow> Some (InvalidJSON ConstraintHardTimeoutKey)
      | Some v \<Rightarrow>
          if v < HardTimeoutMin \<or> v > HardTimeoutMax
          then Some (TimeoutOutOfRange ConstraintHardTimeoutKey v) else None)"

definition idleTimeout_Evaluate ::
    "constraint_env \<Rightarrow> capability \<Rightarrow> constraint_context option \<Rightarrow> constraint_error option" where
  "idleTimeout_Evaluate E cap ctx =
     (case Option.bind (ce_Unmarshal E (Parameters cap)) (decode_struct1 ''value'' decode_int 0) of
        None \<Rightarrow> Some (InvalidJSON ConstraintIdleTimeoutKey)
      | Some v \<Rightarrow>
          if v < IdleTimeoutMin \<or> v > IdleTimeoutMax
          then Some (TimeoutOutOfRange ConstraintIdleTimeoutKey v) else None)"

definition readOnly_Evaluate ::
    "constraint_env \<Rightarrow> capability \<Rightarrow> constraint_context option \<Rightarrow> constraint_error option" where
  "readOnly_Evaluate E cap ctx =
     (case Option.bind (ce_Unmarshal E (Parameters cap)) (decode_struct1 ''value'' decode_bool False) of
        None \<Rightarrow> Some (InvalidJSON ConstraintReadOnlyKey)
      | Some v \<Rightarrow> None)"

definition auditRequired_Evaluate ::
    "constraint_env \<Rightarrow> capability \<Rightarrow> constraint_context option \<Rightarrow> constraint_error option" where
  "auditRequired_Evaluate E cap ctx = None"

subsection \<open>Time windows\<close>

text \<open>The difference of two bytes wraps at 256, as Go's \<^verbatim>\<open>s[0]-'0'\<close> does.\<close>

definition byte_sub :: "char \<Rightarrow> char \<Rightarrow> int" where
  "byte_sub a b = (of_char a - of_char b) mod 256"

definition parseTimeParts :: "string \<Rightarrow> (int \<times> int) option" where
  "parseTimeParts s =
     (if length s \<noteq> 5 \<or> s ! 2 \<noteq> CHR '':'' then None
      else let h = byte_sub (s ! 0) (CHR ''0'') * 10 + byte_sub (s ! 1) (CHR ''0'');
               m = byte_sub (s ! 3) (CHR ''0'') * 10 + byte_sub (s ! 4) (CHR ''0'')
           in if h < 0 \<or> h > 23 \<or> m < 0 \<or> m > 59 then None else Some (h, m))"

record timeWindowParams =
  tw_Start :: string
  tw_End :: string
  tw_TZ :: string

definition decode_timeWindowParams :: "json \<Rightarrow> timeWindowParams option" where
  "decode_timeWindowParams j =
     (case decode_struct1 ''start'' decode_string [] j of None \<Rightarrow> None | Some st \<Rightarrow>
      case decode_struct1 ''end'' decode_string [] j of None \<Rightarrow> None | Some en \<Rightarrow>
      case decode_struct1 ''tz'' decode_string [] j of None \<Rightarrow> None | Some tz \<Rightarrow>
      Some \<lparr>tw_Start = st, tw_End = en, tw_TZ = tz\<rparr>)"

text \<open>The window test at instant \<open>t\<close>; a window whose start lies after its end spans midnight.\<close>

definition in_window :: "location \<Rightarrow> int \<times> int \<Rightarrow> int \<times> int \<Rightarrow> instant \<Rightarrow> bool" where
  "in_window loc start fin t =
     (let startTime = loc_Date loc (loc_day loc t) (fst start) (snd start);
          endTime = loc_Date loc (loc_day loc t) (fst fin) (snd fin)
      in if Before startTime endTime \<or> startTime = endTime
         then \<not> Before t startTime \<and> Before t endTime
         else \<not> Before t startTime \<or> Before t endTime)"

definition timeWindow_Evaluate ::
    "constraint_env \<Rightarrow> capability \<Rightarrow> constraint_context option \<Rightarrow> constraint_error option" where
  "timeWindow_Evaluate E cap ctx_opt =
     (case Option.bind (ce_Unmarshal E (Parameters cap)) decode_timeWindowParams of
        None \<Rightarrow> Some (InvalidJSON ConstraintTimeWindowKey)
      | Some params \<Rightarrow>
      if tw_Start params = [] \<or> tw_End params = [] then Some WindowRequired
      else case (parseTimeParts (tw_Start params), parseTimeParts (tw_End params)) of
        (Some start, Some fin) \<Rightarrow>
          (case (if tw_TZ params \<noteq> [] then ce_LoadLocation E (tw_TZ params) else Some UTC) of
             None \<Rightarrow> Some (WindowZone (tw_TZ params))
           | Some loc \<Rightarrow>
               (case ctx_opt of None \<Rightarrow> Some NilDereference
                | Some ctx \<Rightarrow>
                    (let now = (if IsZero (cc_Now ctx) then ce_Now E else cc_Now ctx) in
                     if \<not> in_window loc start fin now then Some OutsideTimeWindow else None)))
      | _ \<Rightarrow> Some (WindowFormat (tw_Start params) (tw_End params)))"

subsection \<open>Regions\<close>

fun region_cidrs :: "constraint_env \<Rightarrow> bytes \<Rightarrow> string list \<Rightarrow> constraint_error + bool" where
  "region_cidrs E ip [] = Inr False"
| "region_cidrs E ip (cidr # cidrs) =
     (case ce_ParseCIDR E cidr of
        None \<Rightarrow> Inl (InvalidCIDR cidr)
      | Some contains \<Rightarrow> if contains ip then Inr True else region_cidrs E ip cidrs)"

fun inline_regions :: "constraint_env \<Rightarrow> bytes \<Rightarrow> (string \<times> string list) list \<Rightarrow> constraint_error + string" where
  "inline_regions E ip [] = Inl NotInRegion"
| "inline_regions E ip ((region, cidrs) # table) =
     (case region_cidrs E ip cidrs of
        Inl e \<Rightarrow> Inl e
      | Inr hit \<Rightarrow> if hit then Inr region else inline_regions E ip table)"

definition lookupGeoResolver :: "constraint_env \<Rightarrow> string \<Rightarrow> (string \<Rightarrow> string + string) option" where
  "lookupGeoResolver E name = map_of (ce_geoResolvers E) name"

definition RegisterGeoResolver ::
    "string \<Rightarrow> (string \<Rightarrow> string + string) option \<Rightarrow> constraint_env \<Rightarrow> constraint_env" where
  "RegisterGeoResolver name fn_opt E =
     (case fn_opt of None \<Rightarrow> E
      | Some fn \<Rightarrow> if name = [] then E
                   else E\<lparr>ce_geoResolvers := AList.update name fn (ce_geoResolvers E)\<rparr>)"

definition geoResolve :: "constraint_env \<Rightarrow> string \<Rightarrow> bytes \<Rightarrow> json \<Rightarrow> constraint_error + string" where
  "geoResolve E resolver ip regions =
     (if resolver = ''inline'' then
        (case decode_map (\<lambda>j. decode_string_list j []) regions of
           None \<Rightarrow> Inl RegionTable
         | Some table \<Rightarrow> inline_regions E ip (ce_map_order E table))
      else
        (case lookupGeoResolver E resolver of
           None \<Rightarrow> Inl (ResolverUnregistered resolver)
         | Some fn \<Rightarrow>
             (case decode_string_list regions [] of
                None \<Rightarrow> Inl RegionArray
              | Some allowed \<Rightarrow>
                  (case fn (ce_IPString E ip) of
                     Inl e \<Rightarrow> Inl (ResolverFailed e)
                   | Inr region \<Rightarrow>
                       if region \<in> set allowed then Inr region else Inl (RegionNotAllowed region)))))"

text \<open>The member \<^verbatim>\<open>regions\<close> is kept raw; a missing one is an empty message.\<close>

definition decode_raw :: "json \<Rightarrow> json option \<Rightarrow> json option option" where
  "decode_raw j v = Some (Some j)"

definition geoFence_Evaluate ::
    "constraint_env \<Rightarrow> capability \<Rightarrow> constraint_context option \<Rightarrow> constraint_error option" where
  "geoFence_Evaluate E cap ctx_opt =
     (case ctx_opt of None \<Rightarrow> Some (NilContext ConstraintGeoFenceKey) | Some ctx \<Rightarrow>
      case ce_Unmarshal E (Parameters cap) of None \<Rightarrow> Some (InvalidJSON ConstraintGeoFenceKey) | Some j \<Rightarrow>
      case (decode_struct1 ''resolver'' decode_string [] j, decode_struct1 ''regions'' decode_raw None j) of
        (Some resolver0, Some regions_opt) \<Rightarrow>
          (case regions_opt of None \<Rightarrow> Some RegionsRequired | Some regions \<Rightarrow>
           let resolver = (if resolver0 = [] then ''inline'' else resolver0) in
           if cc_ClientIP ctx = [] then Some (ClientIPUnavailable ConstraintGeoFenceKey)
           else case ce_ParseIP E (cc_ClientIP ctx) of None \<Rightarrow> Some (InvalidClientIP (cc_ClientIP ctx))
                | Some ip \<Rightarrow>
                    (case geoResolve E resolver ip regions of Inl e \<Rightarrow> Some e | Inr region \<Rightarrow> None))
      | _ \<Rightarrow> Some (InvalidJSON ConstraintGeoFenceKey))"

subsection \<open>The default registry\<close>

definition builtin_evaluators :: "constraint_env \<Rightarrow> constraint_evaluator list" where
  "builtin_evaluators E =
     [\<lparr>ev_CapabilityId = ConstraintCIDRKey, ev_Evaluate = cidr_Evaluate E\<rparr>,
      \<lparr>ev_CapabilityId = ConstraintTimeWindowKey, ev_Evaluate = timeWindow_Evaluate E\<rparr>,
      \<lparr>ev_CapabilityId = ConstraintConcurrentKey, ev_Evaluate = maxConcurrent_Evaluate E\<rparr>,
      \<lparr>ev_CapabilityId = ConstraintHardTimeoutKey, ev_Evaluate = hardTimeout_Evaluate E\<rparr>,
      \<lparr>ev_CapabilityId = ConstraintIdleTimeoutKey, ev_Evaluate = idleTimeout_Evaluate E\<rparr>,
      \<lparr>ev_CapabilityId = ConstraintReadOnlyKey, ev_Evaluate = readOnly_Evaluate E\<rparr>,
      \<lparr>ev_CapabilityId = ConstraintAuditRequiredKey, ev_Evaluate = auditRequired_Evaluate E\<rparr>,
      \<lparr>ev_CapabilityId = ConstraintGeoFenceKey, ev_Evaluate = geoFence_Evaluate E\<rparr>]"

fun register_evaluators :: "constraint_evaluator list \<Rightarrow> constraint_registry \<Rightarrow> constraint_registry" where
  "register_evaluators [] r = r"
| "register_evaluators (ev # evs) r = register_evaluators evs (fst (ConstraintRegistry_Register (Some ev) r))"

definition globalConstraintRegistry :: "constraint_env \<Rightarrow> constraint_registry" where
  "globalConstraintRegistry E = register_evaluators (builtin_evaluators E) NewConstraintRegistry"

definition ResetConstraints :: "constraint_env \<Rightarrow> constraint_registry \<Rightarrow> constraint_registry" where
  "ResetConstraints E r = register_evaluators (builtin_evaluators E) (ConstraintRegistry_Reset r)"

section \<open>Checking a constraint list\<close>

fun constraints_loop ::
    "constraint_registry \<Rightarrow> constraint_context \<Rightarrow> capability list \<Rightarrow> constraint_error option" where
  "constraints_loop reg ctx [] = None"
| "constraints_loop reg ctx (c # cs) =
     (if \<not> isConstraintScheme (SchemeId c) then Some (ForeignScheme (SchemeId c))
      else case ConstraintRegistry_Find reg (CapabilityId c) of
             Inl e \<Rightarrow> constraints_loop reg ctx cs
           | Inr ev \<Rightarrow>
               (case ev_Evaluate ev c (Some ctx) of
                  Some e \<Rightarrow> Some e | None \<Rightarrow> constraints_loop reg ctx cs))"

definition checkConstraintsReg ::
    "constraint_registry \<Rightarrow> capability list \<Rightarrow> string \<Rightarrow> instant \<Rightarrow> constraint_error option" where
  "checkConstraintsReg reg constraints clientIP now =
     constraints_loop reg \<lparr>cc_ClientIP = clientIP, cc_Now = now\<rparr> constraints"

text \<open>The entry points on the global registry \<open>g\<close>.\<close>

definition checkConstraintsAt ::
    "constraint_registry \<Rightarrow> capability list \<Rightarrow> string \<Rightarrow> instant \<Rightarrow> constraint_error option" where
  "checkConstraintsAt g constraints clientIP now = checkConstraintsReg g constraints clientIP now"

definition CheckAuthorizationConstraints ::
    "constraint_env \<Rightarrow> constraint_registry \<Rightarrow> capability list \<Rightarrow> string \<Rightarrow> constraint_error option" where
  "CheckAuthorizationConstraints E g constraints clientIP = checkConstraintsAt g constraints clientIP (ce_Now E)"

definition CheckAuthorizationConstraintsAt ::
    "constraint_env \<Rightarrow> constraint_registry \<Rightarrow> capability list \<Rightarrow> string \<Rightarrow> string \<Rightarrow> constraint_error option" where
  "CheckAuthorizationConstraintsAt E g constraints clientIP timeHHMM =
     (if timeHHMM \<noteq> [] then
        (case parseTimeParts timeHHMM of
           None \<Rightarrow> Some (InvalidTime timeHHMM)
         | Some (h, m) \<Rightarrow>
             checkConstraintsAt g constraints clientIP (loc_Date UTC (loc_day UTC (ce_Now E)) h m))
      else checkConstraintsAt g constraints clientIP (ce_Now E))"

definition isKnownConstraintTypeReg :: "constraint_registry \<Rightarrow> string \<Rightarrow> bool" where
  "isKnownConstraintTypeReg reg capId = (case ConstraintRegistry_Find reg capId of Inl e \<Rightarrow> False | Inr ev \<Rightarrow> True)"

fun firstUnknownConstraintReg :: "constraint_registry \<Rightarrow> capability list \<Rightarrow> capability option" where
  "firstUnknownConstraintReg reg [] = None"
| "firstUnknownConstraintReg reg (c # cs) =
     (if \<not> isConstraintScheme (SchemeId c) then firstUnknownConstraintReg reg cs
      else if \<not> isKnownConstraintTypeReg reg (CapabilityId c) then Some c
      else firstUnknownConstraintReg reg cs)"

text \<open>The recheck of a long-lived connection: one round per tick of the ticker until \<^verbatim>\<open>done\<close> is closed,
  which ends the list of ticks. A tick is given by the two instants its two checks read from the
  clock. The value is the reason handed to \<^verbatim>\<open>onViolation\<close>.\<close>

fun ConstraintRecheckLoop ::
    "constraint_registry \<Rightarrow> capability list \<Rightarrow> capability list \<Rightarrow> string \<Rightarrow> (instant \<times> instant) list
     \<Rightarrow> constraint_error option" where
  "ConstraintRecheckLoop g aicConstraints paConstraints clientIP [] = None"
| "ConstraintRecheckLoop g aicConstraints paConstraints clientIP ((now1, now2) # ticks) =
     (case checkConstraintsAt g aicConstraints clientIP now1 of
        Some e \<Rightarrow> Some e
      | None \<Rightarrow>
          (case checkConstraintsAt g paConstraints clientIP now2 of
             Some e \<Rightarrow> Some e
           | None \<Rightarrow> ConstraintRecheckLoop g aicConstraints paConstraints clientIP ticks))"

section \<open>Lemmas\<close>

lemma constraints_loop_None:
  "constraints_loop reg ctx cs = None \<longleftrightarrow>
     list_all (\<lambda>c. isConstraintScheme (SchemeId c) \<and>
       (case ConstraintRegistry_Find reg (CapabilityId c) of
          Inl e \<Rightarrow> True | Inr ev \<Rightarrow> ev_Evaluate ev c (Some ctx) = None)) cs"
  by (induction cs) (simp_all split: sum.splits)

lemma constraints_loop_strict_None:
  "firstUnknownConstraintReg reg cs = None \<and> constraints_loop reg ctx cs = None \<longleftrightarrow>
     list_all (\<lambda>c. isConstraintScheme (SchemeId c) \<and>
       (case ConstraintRegistry_Find reg (CapabilityId c) of
          Inl e \<Rightarrow> False | Inr ev \<Rightarrow> ev_Evaluate ev c (Some ctx) = None)) cs"
proof (induction cs)
  case (Cons c cs)
  then show ?case
    by (cases "ConstraintRegistry_Find reg (CapabilityId c)"; cases "isConstraintScheme (SchemeId c)")
      (auto simp: isKnownConstraintTypeReg_def)
qed simp

lemma register_evaluators_all: "register_evaluators evs r = creg.register_all evs r"
  by (induction evs arbitrary: r) simp_all

lemmas constraint_key_defs = ConstraintCIDRKey_def ConstraintConcurrentKey_def ConstraintTimeWindowKey_def
  ConstraintHardTimeoutKey_def ConstraintIdleTimeoutKey_def ConstraintReadOnlyKey_def
  ConstraintAuditRequiredKey_def ConstraintGeoFenceKey_def

lemma builtin_keys_nonempty: "[] \<notin> ev_CapabilityId ` set (builtin_evaluators E)"
  by (simp add: builtin_evaluators_def constraint_key_defs)

lemma find_NewConstraintRegistry:
  "ConstraintRegistry_Find NewConstraintRegistry k = Inl (NotRegistered k)"
  by (simp add: ConstraintRegistry_Find_def NewConstraintRegistry_def)

lemma find_global:
  "ConstraintRegistry_Find (globalConstraintRegistry E) k =
     (case List.find (\<lambda>ev. ev_CapabilityId ev = k) (builtin_evaluators E) of
        None \<Rightarrow> Inl (NotRegistered k) | Some ev \<Rightarrow> Inr ev)"
  unfolding globalConstraintRegistry_def register_evaluators_all
  by (rule creg.find_register_all[OF find_NewConstraintRegistry builtin_keys_nonempty])

lemma cidr_loop_None:
  "list_all (\<lambda>c. ce_ParseCIDR E c \<noteq> None) cidrs \<Longrightarrow>
   cidr_loop E clientIP ip cidrs = None \<longleftrightarrow> list_ex (\<lambda>c. the (ce_ParseCIDR E c) ip) cidrs"
  by (induction cidrs) (auto simp del: some_seq_None split: option.splits)

lemma region_cidrs_valid:
  "list_all (\<lambda>c. ce_ParseCIDR E c \<noteq> None) cidrs \<Longrightarrow>
   region_cidrs E ip cidrs = Inr (list_ex (\<lambda>c. the (ce_ParseCIDR E c) ip) cidrs)"
  by (induction cidrs) (simp_all split: option.splits)

lemma inline_regions_valid:
  "\<forall>(r, cidrs)\<in>set table. list_all (\<lambda>c. ce_ParseCIDR E c \<noteq> None) cidrs \<Longrightarrow>
   (\<exists>r. inline_regions E ip table = Inr r) \<longleftrightarrow>
     (\<exists>(r, cidrs)\<in>set table. list_ex (\<lambda>c. the (ce_ParseCIDR E c) ip) cidrs)"
  by (induction table) (auto simp: region_cidrs_valid split: if_splits)

subsection \<open>Wall-clock arithmetic\<close>

definition wall_clock :: "duration \<Rightarrow> instant \<Rightarrow> duration" where
  "wall_clock offset t = (t + offset) mod (24 * hour)"

definition clock_time :: "int \<times> int \<Rightarrow> duration" where
  "clock_time hm = fst hm * hour + snd hm * minute"

lemma in_window_fixed:
  "in_window (fixed_zone offset) start fin t \<longleftrightarrow>
     (if clock_time start \<le> clock_time fin
      then clock_time start \<le> wall_clock offset t \<and> wall_clock offset t < clock_time fin
      else clock_time start \<le> wall_clock offset t \<or> wall_clock offset t < clock_time fin)"
proof -
  define d where "d = (t + offset) div (24 * hour) * (24 * hour)"
  have t: "t = d + wall_clock offset t - offset"
    using div_mult_mod_eq[of "t + offset" "24 * hour"] by (simp add: d_def wall_clock_def del: div_mult_mod_eq)
  have "loc_Date (fixed_zone offset) (loc_day (fixed_zone offset) t) (fst hm) (snd hm) = d + clock_time hm - offset" for hm
    by (simp add: fixed_zone_def d_def clock_time_def)
  then show ?thesis
    using t by (simp add: in_window_def Let_def) linarith
qed

lemma parseTimeParts_range:
  "parseTimeParts s = Some (h, m) \<Longrightarrow> 0 \<le> h \<and> h \<le> 23 \<and> 0 \<le> m \<and> m \<le> 59"
  by (auto simp: parseTimeParts_def Let_def split: if_splits)

section \<open>Properties\<close>

text \<open>Constraint lists are conjunctions: the check passes exactly when every entry has one of the
  constraint schemes and every entry whose type is registered is satisfied; an entry of an
  unregistered type is skipped, and the strict mode, which refuses when \<open>firstUnknownConstraintReg\<close>
  finds an entry, leaves no entry unevaluated.\<close>

theorem constraints_conjunction:
  "(checkConstraintsReg reg cs clientIP now = None \<longleftrightarrow>
      list_all (\<lambda>c. isConstraintScheme (SchemeId c) \<and>
        (case ConstraintRegistry_Find reg (CapabilityId c) of
           Inl e \<Rightarrow> True
         | Inr ev \<Rightarrow> ev_Evaluate ev c (Some \<lparr>cc_ClientIP = clientIP, cc_Now = now\<rparr>) = None)) cs)
   \<and> (firstUnknownConstraintReg reg cs = None \<and> checkConstraintsReg reg cs clientIP now = None \<longleftrightarrow>
      list_all (\<lambda>c. isConstraintScheme (SchemeId c) \<and>
        (case ConstraintRegistry_Find reg (CapabilityId c) of
           Inl e \<Rightarrow> False
         | Inr ev \<Rightarrow> ev_Evaluate ev c (Some \<lparr>cc_ClientIP = clientIP, cc_Now = now\<rparr>) = None)) cs)"
  unfolding checkConstraintsReg_def
  by (intro conjI constraints_loop_None constraints_loop_strict_None)

text \<open>The default registry knows exactly the eight built-in constraint types, each under the key its
  evaluator reports, and a reset restores that state whatever was registered before.\<close>

theorem builtin_constraint_types:
  "set (ConstraintRegistry_Keys (globalConstraintRegistry E)) =
     {''network:cidr'', ''time:window'', ''session:max-concurrent'', ''session:hard-timeout'',
      ''session:idle-timeout'', ''op:readonly'', ''op:audit:required'', ''geo-fence''}
   \<and> ConstraintRegistry_Find (ResetConstraints E r) k = ConstraintRegistry_Find (globalConstraintRegistry E) k"
proof
  have "globalConstraintRegistry E = creg.register_all (builtin_evaluators E) (ConstraintRegistry_Reset NewConstraintRegistry)"
    by (simp add: globalConstraintRegistry_def register_evaluators_all ConstraintRegistry_Reset_def NewConstraintRegistry_def)
  then show "set (ConstraintRegistry_Keys (globalConstraintRegistry E)) =
     {''network:cidr'', ''time:window'', ''session:max-concurrent'', ''session:hard-timeout'',
      ''session:idle-timeout'', ''op:readonly'', ''op:audit:required'', ''geo-fence''}"
    using creg.keys_register_all[OF builtin_keys_nonempty, of E NewConstraintRegistry]
    by (simp add: builtin_evaluators_def constraint_key_defs)
  show "ConstraintRegistry_Find (ResetConstraints E r) k = ConstraintRegistry_Find (globalConstraintRegistry E) k"
    unfolding find_global ResetConstraints_def register_evaluators_all
    by (rule creg.find_register_all[OF creg.find_reset builtin_keys_nonempty])
qed

text \<open>A time window in UTC or in a zone with a fixed offset admits exactly the instants whose local
  time of day is in the half-open interval from start to end, where a start after the end means
  the window that spans midnight.\<close>

theorem time_window_exact:
  assumes "Option.bind (ce_Unmarshal E (Parameters cap)) decode_timeWindowParams = Some params"
    and "parseTimeParts (tw_Start params) = Some start" "parseTimeParts (tw_End params) = Some fin"
    and "if tw_TZ params = [] then offset = 0 else ce_LoadLocation E (tw_TZ params) = Some (fixed_zone offset)"
    and "cc_Now ctx \<noteq> 0"
  shows "timeWindow_Evaluate E cap (Some ctx) = None \<longleftrightarrow>
    (let s = clock_time start; e = clock_time fin; w = wall_clock offset (cc_Now ctx) in
     if s \<le> e then s \<le> w \<and> w < e else s \<le> w \<or> w < e)"
proof -
  have "tw_Start params \<noteq> []" "tw_End params \<noteq> []"
    using assms(2,3) by (auto simp: parseTimeParts_def)
  then show ?thesis
    using assms by (auto simp: timeWindow_Evaluate_def Let_def UTC_def in_window_fixed split: if_splits)
qed

text \<open>The numeric constraints accept exactly the parameters that decode and lie in their ranges:
  1 to 1024 connections, 60 to 86400 seconds and 30 to 3600 seconds; only the connection limit
  may be left out.\<close>

theorem numeric_constraints_exact:
  "(hardTimeout_Evaluate E cap ctx = None \<longleftrightarrow>
      (\<exists>v\<in>{60..86400}. Option.bind (ce_Unmarshal E (Parameters cap)) (decode_struct1 ''value'' decode_int 0) = Some v))
   \<and> (idleTimeout_Evaluate E cap ctx = None \<longleftrightarrow>
      (\<exists>v\<in>{30..3600}. Option.bind (ce_Unmarshal E (Parameters cap)) (decode_struct1 ''value'' decode_int 0) = Some v))
   \<and> (maxConcurrent_Evaluate E cap ctx = None \<longleftrightarrow>
      TrimSpace (Parameters cap) = [] \<or>
      (\<exists>v\<in>{1..1024}. Option.bind (ce_Unmarshal E (TrimSpace (Parameters cap)))
         (decode_struct1 ''max'' decode_int 0) = Some v))"
  by (auto simp: hardTimeout_Evaluate_def idleTimeout_Evaluate_def maxConcurrent_Evaluate_def
      parseMaxConcurrentParam_def Let_def HardTimeoutMin_def HardTimeoutMax_def IdleTimeoutMin_def
      IdleTimeoutMax_def MaxConcurrentMin_def MaxConcurrentMax_def split: option.splits sum.splits if_splits)

text \<open>Source restrictions fail closed: a non-empty CIDR list with only valid entries passes exactly
  when the client address parses and lies in one of them, so a missing address never passes.\<close>

theorem cidr_fail_closed:
  assumes "parseCIDRParam E (Parameters cap) = Some cidrs" "cidrs \<noteq> []"
    and "list_all (\<lambda>c. ce_ParseCIDR E c \<noteq> None) cidrs"
  shows "cidr_Evaluate E cap (Some ctx) = None \<longleftrightarrow>
    cc_ClientIP ctx \<noteq> [] \<and>
    (case ce_ParseIP E (cc_ClientIP ctx) of None \<Rightarrow> False
     | Some ip \<Rightarrow> list_ex (\<lambda>c. the (ce_ParseCIDR E c) ip) cidrs)"
  using assms by (simp add: cidr_Evaluate_def cidr_loop_None split: option.splits)

text \<open>An inline geo-fence whose CIDRs are all valid admits an address exactly when some region of the
  table contains it, whatever order the runtime iterates the table in.\<close>

theorem geo_fence_order_independent:
  assumes "decode_map (\<lambda>j. decode_string_list j []) regions = Some table"
    and "list_all (\<lambda>(r, cidrs). list_all (\<lambda>c. ce_ParseCIDR E c \<noteq> None) cidrs) table"
    and "set (ce_map_order E table) = set table"
  shows "(\<exists>r. geoResolve E ''inline'' ip regions = Inr r) \<longleftrightarrow>
    list_ex (\<lambda>(r, cidrs). list_ex (\<lambda>c. the (ce_ParseCIDR E c) ip) cidrs) table"
proof -
  have "\<forall>(r, cidrs)\<in>set (ce_map_order E table). list_all (\<lambda>c. ce_ParseCIDR E c \<noteq> None) cidrs"
    using assms(2,3) by (simp add: list_all_iff)
  from inline_regions_valid[OF this] show ?thesis
    using assms(1,3) by (simp add: geoResolve_def list_ex_iff)
qed

text \<open>A network model for the concrete examples: addresses are single characters, a CIDR is one
  address, and everything longer is malformed.\<close>

definition example_env :: constraint_env where
  "example_env =
     \<lparr>ce_Unmarshal = (\<lambda>b. if b = ''W'' then Some (JObj [(''start'', JStr ''22:00''), (''end'', JStr ''06:00'')])
         else if b = ''C'' then Some (JArr [JStr ''a'', JStr ''b'']) else None),
      ce_ParseIP = (\<lambda>s. if length s = 1 then Some s else None), ce_IPString = (\<lambda>b. b),
      ce_ParseCIDR = (\<lambda>s. if length s = 1 then Some (\<lambda>ip. ip = s) else None),
      ce_LoadLocation = (\<lambda>_. None), ce_Now = 5, ce_map_order = (\<lambda>t. t), ce_geoResolvers = []\<rparr>"

text \<open>With an invalid CIDR in another region of the inline table of a geo fence the verdict depends on the iteration
  order, which Go leaves unspecified: the same address is admitted under one order and refused
  under the other.\<close>

theorem geo_fence_order_dependent:
  "let regions = JObj [(''CN'', JArr [JStr ''a'']), (''DE'', JArr [JStr ''bad''])] in
   geoResolve example_env ''inline'' ''a'' regions = Inr ''CN''
   \<and> geoResolve (example_env\<lparr>ce_map_order := rev\<rparr>) ''inline'' ''a'' regions = Inl (InvalidCIDR ''bad'')"
  by code_simp

text \<open>Two decimal digits.\<close>

definition two_digits :: "nat \<Rightarrow> string" where
  "two_digits n = [char_of (48 + n div 10), char_of (48 + n mod 10)]"

text \<open>Every time of day from 00:00 to 23:59, written in two digits each, is read back.\<close>

theorem parse_time_roundtrip:
  assumes "h < 24" "m < 60"
  shows "parseTimeParts (two_digits h @ '':'' @ two_digits m) = Some (int h, int m)"
proof -
  have digit: "byte_sub (char_of (48 + n)) (CHR ''0'') = int n" if "n < 10" for n :: nat
  proof -
    have "of_char (char_of (48 + n)) = int (of_char (char_of (48 + n)))" by (rule of_nat_of_char [symmetric])
    then show ?thesis using that by (simp add: byte_sub_def)
  qed
  have "byte_sub (char_of (48 + n div 10)) (CHR ''0'') * 10 + byte_sub (char_of (48 + n mod 10)) (CHR ''0'') = int n"
    if "n < 60" for n :: nat
  proof -
    have "int (n div 10) * 10 + int (n mod 10) = int n" by presburger
    then show ?thesis using that digit[of "n div 10"] digit[of "n mod 10"] by simp
  qed
  from this[of h] this[of m] show ?thesis
    using assms by (simp add: parseTimeParts_def two_digits_def Let_def)
qed

text \<open>The reader of a time of day does not check that it reads digits: the byte differences are taken
  as they are, so \<open>0A:00\<close> is read as 17:00 and \<open>0A:0:\<close> as 17:10.\<close>

theorem parse_time_accepts_non_digits:
  "parseTimeParts ''0A:00'' = Some (17, 0) \<and> parseTimeParts ''0A:0:'' = Some (17, 10)"
  by code_simp

text \<open>The periodic recheck of a connection reports a violation exactly when at one of its ticks the
  constraints of the AIC or those of the principal authorization no longer hold.\<close>

theorem recheck_detects_violation:
  "(ConstraintRecheckLoop g aicC paC clientIP ticks = None) \<longleftrightarrow>
     list_all (\<lambda>(t1, t2). checkConstraintsReg g aicC clientIP t1 = None
       \<and> checkConstraintsReg g paC clientIP t2 = None) ticks"
  by (induction ticks) (auto simp: checkConstraintsAt_def)

theorem time_window_exact_witness:
  "timeWindow_Evaluate example_env \<lparr>SchemeId = ''constraint'', CapabilityId = ''time:window'', Parameters = ''W''\<rparr>
     (Some \<lparr>cc_ClientIP = [], cc_Now = 5 * hour\<rparr>) = None"
proof -
  have "Option.bind (ce_Unmarshal example_env (Parameters \<lparr>SchemeId = ''constraint'', CapabilityId = ''time:window'', Parameters = ''W''\<rparr>))
      decode_timeWindowParams = Some \<lparr>tw_Start = ''22:00'', tw_End = ''06:00'', tw_TZ = []\<rparr>"
    "parseTimeParts (tw_Start \<lparr>tw_Start = ''22:00'', tw_End = ''06:00'', tw_TZ = []\<rparr>) = Some (22, 0)"
    "parseTimeParts (tw_End \<lparr>tw_Start = ''22:00'', tw_End = ''06:00'', tw_TZ = []\<rparr>) = Some (6, 0)"
    by code_simp+
  from time_window_exact[OF this, of 0 "\<lparr>cc_ClientIP = [], cc_Now = 5 * hour\<rparr>"] show ?thesis
    by (simp add: clock_time_def wall_clock_def hour_def minute_def second_def Let_def)
qed

theorem parse_time_roundtrip_witness: "parseTimeParts (two_digits 9 @ '':'' @ two_digits 5) = Some (9, 5)"
  using parse_time_roundtrip[of 9 5] by simp

theorem cidr_fail_closed_witness:
  "cidr_Evaluate example_env \<lparr>SchemeId = ''constraint'', CapabilityId = ''network:cidr'', Parameters = ''C''\<rparr>
     (Some \<lparr>cc_ClientIP = [], cc_Now = 5\<rparr>) \<noteq> None
   \<and> cidr_Evaluate example_env \<lparr>SchemeId = ''constraint'', CapabilityId = ''network:cidr'', Parameters = ''C''\<rparr>
     (Some \<lparr>cc_ClientIP = ''b'', cc_Now = 5\<rparr>) = None"
proof -
  have *: "parseCIDRParam example_env (Parameters \<lparr>SchemeId = ''constraint'', CapabilityId = ''network:cidr'', Parameters = ''C''\<rparr>)
      = Some [''a'', ''b'']" "[''a'', ''b''] \<noteq> []"
    "list_all (\<lambda>c. ce_ParseCIDR example_env c \<noteq> None) [''a'', ''b'']"
    by code_simp+
  show ?thesis
    using cidr_fail_closed[OF *, of "\<lparr>cc_ClientIP = [], cc_Now = 5\<rparr>"]
      cidr_fail_closed[OF *, of "\<lparr>cc_ClientIP = ''b'', cc_Now = 5\<rparr>"]
    by (simp add: example_env_def)
qed

theorem geo_fence_order_independent_witness:
  "\<exists>r. geoResolve (example_env\<lparr>ce_map_order := rev\<rparr>) ''inline'' ''a''
     (JObj [(''CN'', JArr [JStr ''a'']), (''DE'', JArr [JStr ''b''])]) = Inr r"
proof -
  have *: "decode_map (\<lambda>j. decode_string_list j []) (JObj [(''CN'', JArr [JStr ''a'']), (''DE'', JArr [JStr ''b''])])
      = Some [(''CN'', [''a'']), (''DE'', [''b''])]"
    "list_all (\<lambda>(r, cidrs). list_all (\<lambda>c. ce_ParseCIDR (example_env\<lparr>ce_map_order := rev\<rparr>) c \<noteq> None) cidrs)
      [(''CN'', [''a'']), (''DE'', [''b''])]"
    by code_simp+
  have **: "set (ce_map_order (example_env\<lparr>ce_map_order := rev\<rparr>) [(''CN'', [''a'']), (''DE'', [''b''])])
      = set [(''CN'', [''a'']), (''DE'', [''b''])]"
    by auto
  show ?thesis by (subst geo_fence_order_independent[OF * **]) code_simp
qed

end
