(* ===== verification/Delegation.thy ===== *)
theory Delegation
  imports Delegation_Chain
begin

text \<open>
  The cryptographic side of delegation: the delegation-authorization (DA) signature of one
  certificate with its version negotiation and its freshness window, the signature walk along a
  delegation chain, the checks on \<^verbatim>\<open>Delegated-Agent\<close> certificates (all in \<^verbatim>\<open>src/decision.go\<close>), the
  combined chain entry point of \<^verbatim>\<open>src/delegation_chain.go\<close> and the credential bundle of
  \<^verbatim>\<open>src/credential_bundle.go\<close>.

  Signature verification and DER marshalling are the functions of \<^typ>\<open>crypto_ops\<close>. The clock is
  an argument \<open>now\<close> where the source reads \<^verbatim>\<open>time.Now()\<close>.
\<close>

section \<open>Delegation authorizations\<close>

text \<open>The DA versions, as the messages and comments of \<^verbatim>\<open>VerifyDelegationAuthWithAgent\<close> give them.\<close>

abbreviation (input) DAVersion1 :: int where "DAVersion1 \<equiv> 1"
abbreviation (input) DAVersion2 :: int where "DAVersion2 \<equiv> 2"

datatype da_error = NilAIC | NilUserCert | EmptySignature | AgentSPKI string | V2NeedsAgent
  | UnsupportedVersion int | KeyBindingFailed string | TBSVersionInvalid string | TBSMarshal string
  | UnsupportedAlgorithm oid | SignatureMismatch | UnsupportedKeyType | UnsupportedKeyHash oid
  | SPKIHashMismatch

definition da_tbs :: "aic \<Rightarrow> int \<Rightarrow> bytes option \<Rightarrow> delegation_auth_tbs" where
  "da_tbs a version binding =
     (let ua = aic_DelegationAuthorization a in
      \<lparr>tbs_Version = version, tbs_AgentId = aic_AgentId a, tbs_PrincipalUid = aic_PrincipalUid a,
       tbs_Reason = da_Reason ua, tbs_Capabilities = aic_Capabilities a,
       tbs_DelegationMode = aic_DelegationMode a,
       tbs_AuthorizationConstraints = aic_AuthorizationConstraints a,
       tbs_RequestedLifetime = da_RequestedLifetime ua, tbs_Timestamp = da_Timestamp ua,
       tbs_Nonce = da_Nonce ua, tbs_AgentKeyBinding = binding\<rparr>)"

text \<open>The binding step: version 2 adds the agent key binding, which may fail.\<close>

definition da_binding :: "pki_ops \<Rightarrow> bytes \<Rightarrow> int \<Rightarrow> da_error + bytes option" where
  "da_binding P agentSPKI version =
     (if version = DAVersion2
      then (case MakeAgentKeyBinding P agentSPKI of
              Inl e \<Rightarrow> Inl (KeyBindingFailed e) | Inr b \<Rightarrow> Inr (Some b))
      else Inr None)"

text \<open>The switch on the type of the user's public key.\<close>

definition da_signature_check ::
    "pki_ops \<Rightarrow> crypto_ops \<Rightarrow> public_key \<Rightarrow> delegation_auth \<Rightarrow> bytes \<Rightarrow> da_error option" where
  "da_signature_check P C pub ua digest =
     (case pub of
        ECDSAKey k \<Rightarrow>
          (if da_SignatureAlgorithm ua \<noteq> OIDSigECDSAWithSHA256 P
           then Some (UnsupportedAlgorithm (da_SignatureAlgorithm ua))
           else if \<not> EcdsaVerifyASN1 C k digest (da_SignatureValue ua) then Some SignatureMismatch
           else None)
      | RSAKey k \<Rightarrow>
          (if da_SignatureAlgorithm ua = OIDSigRSAWithSHA256 P
           then (if \<not> RsaVerifyPKCS1v15 C k digest (da_SignatureValue ua) then Some SignatureMismatch else None)
           else if da_SignatureAlgorithm ua = OIDSigRSAPSSWithSHA256 P
           then (if \<not> RsaVerifyPSS C k digest (da_SignatureValue ua) then Some SignatureMismatch else None)
           else Some (UnsupportedAlgorithm (da_SignatureAlgorithm ua)))
      | _ \<Rightarrow> Some UnsupportedKeyType)"

text \<open>The cross-check of the user's key against the key hash in the AIC, when there is one.\<close>

definition da_keyhash_check :: "pki_ops \<Rightarrow> crypto_ops \<Rightarrow> principal_uid \<Rightarrow> certificate \<Rightarrow> da_error option" where
  "da_keyhash_check P C uid userCert =
     (if length (pu_KeyHash uid) > 0 then
        (let ha = HashAlgoOID P uid in
         if length ha > 0 \<and> ha \<noteq> OIDSHA256 P then Some (UnsupportedKeyHash ha)
         else if Sum256 C (cert_RawSubjectPublicKeyInfo userCert) \<noteq> pu_KeyHash uid
         then Some SPKIHashMismatch else None)
      else None)"

definition verifyDelegationAuthTBSAt ::
    "pki_ops \<Rightarrow> crypto_ops \<Rightarrow> aic \<Rightarrow> certificate \<Rightarrow> bytes \<Rightarrow> int \<Rightarrow> da_error option" where
  "verifyDelegationAuthTBSAt P C a userCert agentSPKI version =
     (case da_binding P agentSPKI version of
        Inl e \<Rightarrow> Some e
      | Inr binding \<Rightarrow>
          (let tbs = da_tbs a version binding in
           case ValidateDelegationAuthTBSVersion P tbs of
             Some e \<Rightarrow> Some (TBSVersionInvalid e)
           | None \<Rightarrow>
               (case MarshalTBS C tbs of
                  Inl e \<Rightarrow> Some (TBSMarshal e)
                | Inr tbsDER \<Rightarrow>
                    (case da_signature_check P C (cert_PublicKey userCert)
                            (aic_DelegationAuthorization a) (Sum256 C tbsDER) of
                       Some e \<Rightarrow> Some e
                     | None \<Rightarrow> da_keyhash_check P C (aic_PrincipalUid a) userCert))))"

text \<open>A version-1 signature that does not verify is tried again in the legacy encoding (version 0);
  every other failure is final.\<close>

definition verifyDelegationAuthTBS ::
    "pki_ops \<Rightarrow> crypto_ops \<Rightarrow> aic \<Rightarrow> certificate \<Rightarrow> bytes \<Rightarrow> int \<Rightarrow> da_error option" where
  "verifyDelegationAuthTBS P C a userCert agentSPKI version =
     (if version = DAVersion2 then verifyDelegationAuthTBSAt P C a userCert agentSPKI DAVersion2
      else (let err = verifyDelegationAuthTBSAt P C a userCert agentSPKI DAVersion1 in
            if err = Some SignatureMismatch then verifyDelegationAuthTBSAt P C a userCert agentSPKI 0
            else err))"

definition agent_spki :: "crypto_ops \<Rightarrow> certificate option \<Rightarrow> da_error + bytes" where
  "agent_spki C agentCert =
     (case agentCert of
        None \<Rightarrow> Inr []
      | Some cert \<Rightarrow>
          (if cert_PublicKey cert = NoKey then Inr []
           else (case MarshalPKIXPublicKey C (cert_PublicKey cert) of
                   Inl e \<Rightarrow> Inl (AgentSPKI e) | Inr spki \<Rightarrow> Inr spki)))"

definition VerifyDelegationAuthWithAgent ::
    "pki_ops \<Rightarrow> crypto_ops \<Rightarrow> aic option \<Rightarrow> certificate option \<Rightarrow> certificate option \<Rightarrow> da_error option" where
  "VerifyDelegationAuthWithAgent P C aic_opt userCert_opt agentCert =
     (case aic_opt of None \<Rightarrow> Some NilAIC | Some a \<Rightarrow>
      case userCert_opt of None \<Rightarrow> Some NilUserCert | Some userCert \<Rightarrow>
      if length (da_SignatureValue (aic_DelegationAuthorization a)) = 0 then Some EmptySignature
      else case agent_spki C agentCert of Inl e \<Rightarrow> Some e | Inr agentSPKI \<Rightarrow>
        (let version = aic_Version a in
         if version = 0 then
           (if length agentSPKI > 0 \<and> verifyDelegationAuthTBS P C a userCert agentSPKI DAVersion2 = None
            then None else verifyDelegationAuthTBS P C a userCert agentSPKI DAVersion1)
         else if version = DAVersion1 then verifyDelegationAuthTBS P C a userCert agentSPKI DAVersion1
         else if version = DAVersion2 then
           (if length agentSPKI = 0 then Some V2NeedsAgent
            else verifyDelegationAuthTBS P C a userCert agentSPKI DAVersion2)
         else Some (UnsupportedVersion version)))"

definition VerifyDelegationAuth ::
    "pki_ops \<Rightarrow> crypto_ops \<Rightarrow> aic option \<Rightarrow> certificate option \<Rightarrow> da_error option" where
  "VerifyDelegationAuth P C a userCert = VerifyDelegationAuthWithAgent P C a userCert None"

subsection \<open>Freshness\<close>

definition DefaultDAAgeMax :: duration where
  "DefaultDAAgeMax = minute"

datatype freshness_error = TimestampMissing | OutsideWindow duration duration

definition CheckDAFreshness :: "instant \<Rightarrow> instant \<Rightarrow> duration \<Rightarrow> freshness_error option" where
  "CheckDAFreshness ts now maxAge0 =
     (if IsZero ts then Some TimestampMissing
      else let maxAge = (if maxAge0 \<le> 0 then DefaultDAAgeMax else maxAge0);
               age0 = go_Sub now ts;
               age = (if age0 < 0 then go_neg age0 else age0)
           in if age > maxAge then Some (OutsideWindow age maxAge) else None)"

section \<open>The signature walk along a chain\<close>

record delegation_chain_verifier =
  MaxDepth :: int
  MaxChainLength :: int

datatype delegation_error = ChainError chain_error | LevelDA nat da_error

text \<open>One level: the certificate's AIC must carry a DA signed by \<open>signer\<close>.\<close>

definition verify_level ::
    "pki_ops \<Rightarrow> crypto_ops \<Rightarrow> nat \<Rightarrow> certificate \<Rightarrow> certificate \<Rightarrow> delegation_error option" where
  "verify_level P C i cert signer =
     (case ParseAIC P cert of
        Inl e \<Rightarrow> Some (ChainError (LevelParse i e))
      | Inr None \<Rightarrow> Some (ChainError (LevelNoAIC i))
      | Inr (Some a) \<Rightarrow>
          (if \<not> IsPresent P (aic_DelegationAuthorization a) then Some (ChainError (LevelEmptyDA i))
           else case VerifyDelegationAuthWithAgent P C (Some a) (Some signer) (Some cert) of
                  Some e \<Rightarrow> Some (LevelDA i e) | None \<Rightarrow> None))"

text \<open>The loop from the bottom level upwards: \<open>verify_levels n\<close> checks the levels \<open>n - 1, \<dots>, 0\<close>.\<close>

fun verify_levels ::
    "pki_ops \<Rightarrow> crypto_ops \<Rightarrow> certificate list \<Rightarrow> certificate \<Rightarrow> nat \<Rightarrow> delegation_error option" where
  "verify_levels P C chain topPrincipal 0 = None"
| "verify_levels P C chain topPrincipal (Suc i) =
     (case verify_level P C i (chain ! i) (if i = 0 then topPrincipal else chain ! (i - 1)) of
        Some e \<Rightarrow> Some e
      | None \<Rightarrow> verify_levels P C chain topPrincipal i)"

definition DelegationChainVerifier_Verify ::
    "pki_ops \<Rightarrow> crypto_ops \<Rightarrow> delegation_chain_verifier option \<Rightarrow> certificate option list
     \<Rightarrow> certificate option \<Rightarrow> delegation_error option" where
  "DelegationChainVerifier_Verify P C verifier chain topPrincipal =
     (case verifier of None \<Rightarrow> Some (ChainError NilVerifier) | Some v \<Rightarrow>
      if chain = [] then Some (ChainError EmptyChain)
      else case topPrincipal of None \<Rightarrow> Some (ChainError NilTopPrincipal) | Some topCert \<Rightarrow>
      if int (length chain) > MaxDepth v
      then Some (ChainError (DepthExceeded (length chain) (MaxDepth v)))
      else let maxChainLen = (if MaxChainLength v \<le> 0 then DefaultMaxChainLength else MaxChainLength v)
           in case verifyChainStructure chain maxChainLen of
                Some e \<Rightarrow> Some (ChainError e)
              | None \<Rightarrow> verify_levels P C (map the chain) topCert (length chain))"

definition VerifyDelegationChain ::
    "pki_ops \<Rightarrow> crypto_ops \<Rightarrow> certificate option list \<Rightarrow> certificate option \<Rightarrow> int
     \<Rightarrow> delegation_error option" where
  "VerifyDelegationChain P C chain topPrincipal maxDepth =
     DelegationChainVerifier_Verify P C
       (Some \<lparr>MaxDepth = maxDepth, MaxChainLength = DefaultMaxChainLength\<rparr>) chain topPrincipal"

definition VerifyDelegationChainWithCaps ::
    "pki_ops \<Rightarrow> crypto_ops \<Rightarrow> certificate option list \<Rightarrow> certificate option \<Rightarrow> capability list
     \<Rightarrow> int \<Rightarrow> int \<Rightarrow> delegation_error + capability list" where
  "VerifyDelegationChainWithCaps P C chain topPrincipal principalCaps maxDepth maxChainLen0 =
     (let maxChainLen = (if maxChainLen0 \<le> 0 then DefaultMaxChainLength else maxChainLen0) in
      case DelegationChainVerifier_Verify P C
             (Some \<lparr>MaxDepth = maxDepth, MaxChainLength = maxChainLen\<rparr>) chain topPrincipal of
        Some e \<Rightarrow> Inl e
      | None \<Rightarrow>
          (case EffectiveDelegationCapabilities P chain principalCaps maxChainLen of
             Inl e \<Rightarrow> Inl (ChainError e) | Inr eff \<Rightarrow> Inr eff))"

section \<open>Delegated-Agent certificates\<close>

definition NeedRevoke :: "instant \<Rightarrow> certificate option \<Rightarrow> bool" where
  "NeedRevoke now cert = (case cert of None \<Rightarrow> False | Some c \<Rightarrow> Before now (cert_NotAfter c))"

definition ouFallbackPrincipal :: "certificate option \<Rightarrow> string" where
  "ouFallbackPrincipal cert =
     (case cert of None \<Rightarrow> [] | Some c \<Rightarrow>
      if cert_CommonName c \<noteq> [] then cert_CommonName c
      else case cert_OrganizationalUnit c of ou # _ \<Rightarrow> ou | [] \<Rightarrow> [])"

definition hasDelegatedAgentOU :: "certificate option \<Rightarrow> bool" where
  "hasDelegatedAgentOU cert =
     (case cert of None \<Rightarrow> False
      | Some c \<Rightarrow> list_ex (\<lambda>ou. ou = ''Delegated-Agent'') (cert_OrganizationalUnit c))"

definition CheckDelegatedAgentCert :: "pki_ops \<Rightarrow> instant \<Rightarrow> certificate option \<Rightarrow> string" where
  "CheckDelegatedAgentCert P now cert =
     (case cert of None \<Rightarrow> ''nil certificate'' | Some c \<Rightarrow>
      if \<not> hasDelegatedAgentOU cert then []
      else if Before now (cert_NotBefore c) then ''Delegated-Agent certificate not yet valid''
      else if After now (cert_NotAfter c) then ''Delegated-Agent certificate expired''
      else case ParseAIC P c of
             Inr (Some a) \<Rightarrow> []
           | _ \<Rightarrow> ''Delegated-Agent certificate lacks a valid core-signed AIC'')"

text \<open>The header check; \<open>header\<close> is \<^verbatim>\<open>r.Header.Get\<close> and \<open>parse\<close> is \<^verbatim>\<open>time.Parse(time.RFC3339, _)\<close>.\<close>

definition CheckDelegatedAgentHeaders ::
    "(string \<Rightarrow> string + instant) \<Rightarrow> instant \<Rightarrow> certificate option \<Rightarrow> (string \<Rightarrow> string) \<Rightarrow> string" where
  "CheckDelegatedAgentHeaders parse now cert header =
     (if \<not> hasDelegatedAgentOU cert then []
      else if header ''X-Agent-User'' = [] then ''X-Agent-User header required for Delegated-Agent''
      else if header ''X-Agent-TTL'' = [] then ''X-Agent-TTL header required for Delegated-Agent''
      else case parse (header ''X-Agent-TTL'') of
             Inl e \<Rightarrow> ''invalid X-Agent-TTL: '' @ e
           | Inr ttl \<Rightarrow> if After now ttl then ''X-Agent-TTL expired'' else [])"

definition DelegatedAgentServerIdentity :: "certificate option \<Rightarrow> string \<Rightarrow> string \<times> instant \<times> string" where
  "DelegatedAgentServerIdentity cert prin =
     (if \<not> hasDelegatedAgentOU cert then ([], 0, [])
      else (if prin \<noteq> [] then prin else ouFallbackPrincipal cert,
            cert_NotAfter (the cert), []))"

section \<open>Credential bundles\<close>

record credential_bundle =
  AgentChain :: "certificate list"
  PrincipalChain :: "certificate list"
  CACerts :: "certificate list"

datatype bundle_error = AgentChainRequired | PrincipalChainRequired | NilBundle | NoTrustRoots
  | AgentChainInvalid string | PrincipalChainInvalid string | NilAgentCert | NilPrincipalCert
  | AgentAICParse string | NoKeyHash | KeyHashMismatch | CertParse string | NoCertificates

definition NewCredentialBundle ::
    "certificate list \<Rightarrow> certificate list \<Rightarrow> certificate list \<Rightarrow> bundle_error + credential_bundle" where
  "NewCredentialBundle agentChain principalChain caCerts =
     (if agentChain = [] then Inl AgentChainRequired
      else if principalChain = [] then Inl PrincipalChainRequired
      else Inr \<lparr>AgentChain = agentChain, PrincipalChain = principalChain, CACerts = caCerts\<rparr>)"

definition bundle_Agent :: "credential_bundle option \<Rightarrow> certificate option" where
  "bundle_Agent b =
     (case b of None \<Rightarrow> None
      | Some bd \<Rightarrow> (case AgentChain bd of [] \<Rightarrow> None | c # _ \<Rightarrow> Some c))"

definition bundle_Principal :: "credential_bundle option \<Rightarrow> certificate option" where
  "bundle_Principal b =
     (case b of None \<Rightarrow> None
      | Some bd \<Rightarrow> (case PrincipalChain bd of [] \<Rightarrow> None | c # _ \<Rightarrow> Some c))"

definition VerifyPrincipalKeyHash ::
    "pki_ops \<Rightarrow> crypto_ops \<Rightarrow> certificate option \<Rightarrow> certificate option \<Rightarrow> bundle_error option" where
  "VerifyPrincipalKeyHash P C agent prin =
     (case agent of None \<Rightarrow> Some NilAgentCert | Some ag \<Rightarrow>
      case prin of None \<Rightarrow> Some NilPrincipalCert | Some pr \<Rightarrow>
      case ParseAIC P ag of
        Inl e \<Rightarrow> Some (AgentAICParse e)
      | Inr None \<Rightarrow> Some NoKeyHash
      | Inr (Some a) \<Rightarrow>
          (if length (pu_KeyHash (aic_PrincipalUid a)) = 0 then Some NoKeyHash
           else if Sum256 C (cert_RawSubjectPublicKeyInfo pr) \<noteq> pu_KeyHash (aic_PrincipalUid a)
           then Some KeyHashMismatch else None))"

definition intermediatesPool :: "certificate list \<Rightarrow> certificate list option" where
  "intermediatesPool certs = (if certs = [] then None else Some certs)"

text \<open>\<open>CV roots intermediates cert\<close> is \<^verbatim>\<open>cert.Verify\<close> for client authentication.\<close>

definition VerifyBundle ::
    "('r \<Rightarrow> certificate list option \<Rightarrow> certificate \<Rightarrow> string option) \<Rightarrow> pki_ops \<Rightarrow> crypto_ops
     \<Rightarrow> credential_bundle option \<Rightarrow> 'r option \<Rightarrow> bundle_error option" where
  "VerifyBundle CV P C bundle roots =
     (case bundle of None \<Rightarrow> Some NilBundle | Some b \<Rightarrow>
      case roots of None \<Rightarrow> Some NoTrustRoots | Some rs \<Rightarrow>
      case AgentChain b of [] \<Rightarrow> Some AgentChainRequired | agent # agentRest \<Rightarrow>
      case CV rs (intermediatesPool agentRest) agent of Some e \<Rightarrow> Some (AgentChainInvalid e) | None \<Rightarrow>
      case PrincipalChain b of [] \<Rightarrow> Some PrincipalChainRequired | prin # prinRest \<Rightarrow>
      case CV rs (intermediatesPool prinRest) prin of Some e \<Rightarrow> Some (PrincipalChainInvalid e) | None \<Rightarrow>
      VerifyPrincipalKeyHash P C (bundle_Agent bundle) (bundle_Principal bundle))"

text \<open>The loop over the PEM blocks (their type and their bytes) that repeated \<^verbatim>\<open>pem.Decode\<close> yields;
  \<open>parse\<close> is \<^verbatim>\<open>x509.ParseCertificate\<close> and \<open>seen\<close> counts the certificates.\<close>

fun bundle_blocks ::
    "pki_ops \<Rightarrow> (bytes \<Rightarrow> string + certificate) \<Rightarrow> (string \<times> bytes) list \<Rightarrow> credential_bundle \<Rightarrow> nat
     \<Rightarrow> bundle_error + credential_bundle" where
  "bundle_blocks P parse [] bundle seen = (if seen = 0 then Inl NoCertificates else Inr bundle)"
| "bundle_blocks P parse ((ty, der) # blocks) bundle seen =
     (if ty = ''CERTIFICATE'' then
        (case parse der of
           Inl e \<Rightarrow> Inl (CertParse e)
         | Inr cert \<Rightarrow>
             bundle_blocks P parse blocks
               (case ParseAIC P cert of
                  Inr (Some a) \<Rightarrow> bundle\<lparr>AgentChain := AgentChain bundle @ [cert]\<rparr>
                | _ \<Rightarrow> (case ParseUserPermissionExtension P cert of
                         Inr (Some pa) \<Rightarrow> bundle\<lparr>PrincipalChain := PrincipalChain bundle @ [cert]\<rparr>
                       | _ \<Rightarrow> bundle\<lparr>CACerts := CACerts bundle @ [cert]\<rparr>))
               (Suc seen))
      else bundle_blocks P parse blocks bundle seen)"

definition ParseCredentialBundlePEM ::
    "pki_ops \<Rightarrow> (bytes \<Rightarrow> string + certificate) \<Rightarrow> (string \<times> bytes) list \<Rightarrow> bundle_error + credential_bundle" where
  "ParseCredentialBundlePEM P parse blocks =
     bundle_blocks P parse blocks \<lparr>AgentChain = [], PrincipalChain = [], CACerts = []\<rparr> 0"

section \<open>Signatures\<close>

text \<open>What a verified DA means: the signature over the version-\<open>v\<close> structure verifies under the
  user's key with an algorithm of its type, and the key hash of the AIC, when present, is the hash
  of that key.\<close>

definition signature_valid :: "pki_ops \<Rightarrow> crypto_ops \<Rightarrow> public_key \<Rightarrow> oid \<Rightarrow> bytes \<Rightarrow> bytes \<Rightarrow> bool" where
  "signature_valid P C pub alg digest sig =
     (case pub of
        ECDSAKey k \<Rightarrow> alg = OIDSigECDSAWithSHA256 P \<and> EcdsaVerifyASN1 C k digest sig
      | RSAKey k \<Rightarrow> alg = OIDSigRSAWithSHA256 P \<and> RsaVerifyPKCS1v15 C k digest sig
          \<or> alg \<noteq> OIDSigRSAWithSHA256 P \<and> alg = OIDSigRSAPSSWithSHA256 P \<and> RsaVerifyPSS C k digest sig
      | _ \<Rightarrow> False)"

definition da_valid_at :: "pki_ops \<Rightarrow> crypto_ops \<Rightarrow> aic \<Rightarrow> certificate \<Rightarrow> bytes \<Rightarrow> int \<Rightarrow> bool" where
  "da_valid_at P C a userCert agentSPKI v \<longleftrightarrow>
     (\<exists>binding der.
        (if v = DAVersion2 then \<exists>b. MakeAgentKeyBinding P agentSPKI = Inr b \<and> binding = Some b
         else binding = None)
        \<and> ValidateDelegationAuthTBSVersion P (da_tbs a v binding) = None
        \<and> MarshalTBS C (da_tbs a v binding) = Inr der
        \<and> signature_valid P C (cert_PublicKey userCert)
            (da_SignatureAlgorithm (aic_DelegationAuthorization a)) (Sum256 C der)
            (da_SignatureValue (aic_DelegationAuthorization a)))
     \<and> (pu_KeyHash (aic_PrincipalUid a) = []
        \<or> (HashAlgoOID P (aic_PrincipalUid a) \<in> {[], OIDSHA256 P}
           \<and> Sum256 C (cert_RawSubjectPublicKeyInfo userCert) = pu_KeyHash (aic_PrincipalUid a)))"

lemma da_signature_check_None:
  "da_signature_check P C pub ua digest = None \<longleftrightarrow>
     signature_valid P C pub (da_SignatureAlgorithm ua) digest (da_SignatureValue ua)"
  by (auto simp: da_signature_check_def signature_valid_def split: public_key.splits)

lemma da_keyhash_check_None:
  "da_keyhash_check P C uid cert = None \<longleftrightarrow>
     pu_KeyHash uid = [] \<or> (HashAlgoOID P uid \<in> {[], OIDSHA256 P}
       \<and> Sum256 C (cert_RawSubjectPublicKeyInfo cert) = pu_KeyHash uid)"
  by (auto simp: da_keyhash_check_def Let_def)

lemma verifyDelegationAuthTBSAt_None:
  "verifyDelegationAuthTBSAt P C a u spki v = None \<longleftrightarrow> da_valid_at P C a u spki v"
  unfolding verifyDelegationAuthTBSAt_def da_valid_at_def da_binding_def
  by (auto simp: Let_def da_signature_check_None da_keyhash_check_None)

lemma verifyDelegationAuthTBS_None:
  "verifyDelegationAuthTBS P C a u spki v = None \<longleftrightarrow>
     (if v = DAVersion2 then da_valid_at P C a u spki DAVersion2
      else da_valid_at P C a u spki DAVersion1
        \<or> (verifyDelegationAuthTBSAt P C a u spki DAVersion1 = Some SignatureMismatch
           \<and> da_valid_at P C a u spki 0))"
  by (simp add: verifyDelegationAuthTBS_def Let_def flip: verifyDelegationAuthTBSAt_None)

lemma VerifyDelegationAuthWithAgent_None:
  "VerifyDelegationAuthWithAgent P C (Some a) (Some u) agent = None \<longleftrightarrow>
     da_SignatureValue (aic_DelegationAuthorization a) \<noteq> [] \<and>
     (\<exists>spki. agent_spki C agent = Inr spki \<and>
       (aic_Version a \<in> {0, 2} \<and> spki \<noteq> [] \<and> da_valid_at P C a u spki DAVersion2
        \<or> aic_Version a \<in> {0, 1} \<and>
          (da_valid_at P C a u spki DAVersion1
           \<or> (verifyDelegationAuthTBSAt P C a u spki DAVersion1 = Some SignatureMismatch
              \<and> da_valid_at P C a u spki 0))))"
proof (cases "agent_spki C agent")
  case (Inl e)
  then show ?thesis by (simp add: VerifyDelegationAuthWithAgent_def)
next
  case (Inr spki)
  consider "aic_Version a = 0" | "aic_Version a = 1" | "aic_Version a = 2" | "aic_Version a \<notin> {0, 1, 2}"
    by blast
  then show ?thesis
    by cases (simp_all add: VerifyDelegationAuthWithAgent_def Inr verifyDelegationAuthTBS_None)
qed

section \<open>Chains\<close>

lemma verify_levels_None:
  "verify_levels P C chain principalCert n = None \<longleftrightarrow>
     (\<forall>i<n. verify_level P C i (chain ! i) (if i = 0 then principalCert else chain ! (i - 1)) = None)"
proof (induction n)
  case (Suc n)
  then show ?case by (auto simp: less_Suc_eq)
qed simp

lemma verify_level_None:
  "verify_level P C i cert signer = None \<longleftrightarrow>
     (\<exists>a. ParseAIC P cert = Inr (Some a) \<and> IsPresent P (aic_DelegationAuthorization a)
        \<and> VerifyDelegationAuthWithAgent P C (Some a) (Some signer) (Some cert) = None)"
  by (auto simp: verify_level_def split: sum.splits option.splits)

text \<open>What the walk establishes: every level carries a DA accepted for its delegator.\<close>

definition chain_signed :: "pki_ops \<Rightarrow> crypto_ops \<Rightarrow> certificate list \<Rightarrow> certificate \<Rightarrow> bool" where
  "chain_signed P C chain topCert \<longleftrightarrow>
     (\<forall>i<length chain. \<exists>a. ParseAIC P (chain ! i) = Inr (Some a)
        \<and> IsPresent P (aic_DelegationAuthorization a)
        \<and> VerifyDelegationAuthWithAgent P C (Some a) (Some ((topCert # chain) ! i)) (Some (chain ! i)) = None)"

lemma verify_levels_signed:
  "verify_levels P C chain topCert (length chain) = None \<longleftrightarrow> chain_signed P C chain topCert"
proof -
  have "(if i = 0 then topCert else chain ! (i - 1)) = (topCert # chain) ! i" for i
    by (simp add: nth_Cons')
  then show ?thesis
    by (simp only: verify_levels_None verify_level_None chain_signed_def)
qed

lemma DelegationChainVerifier_Verify_None:
  "DelegationChainVerifier_Verify P C (Some v) chain (Some topCert) = None \<longleftrightarrow>
     chain \<noteq> [] \<and> int (length chain) \<le> MaxDepth v
     \<and> int (length chain) \<le> (if MaxChainLength v \<le> 0 then DefaultMaxChainLength else MaxChainLength v)
     \<and> None \<notin> set chain \<and> distinct (map (cert_SerialNumber \<circ> the) chain)
     \<and> chain_signed P C (map the chain) topCert"
  using verify_levels_signed[of P C "map the chain" topCert]
  by (auto simp: DelegationChainVerifier_Verify_def Let_def verifyChainStructure_None
      DefaultMaxChainLength_def comp_def)

section \<open>Freshness, bundles\<close>

lemma go_neg_minDuration: "go_neg minDuration = minDuration"
  by (simp add: go_neg_def)

lemma VerifyBundle_None:
  "VerifyBundle CV P C (Some b) (Some rs) = None \<longleftrightarrow>
     (\<exists>agent agentRest prin prinRest a.
        AgentChain b = agent # agentRest \<and> PrincipalChain b = prin # prinRest
        \<and> CV rs (intermediatesPool agentRest) agent = None
        \<and> CV rs (intermediatesPool prinRest) prin = None
        \<and> ParseAIC P agent = Inr (Some a) \<and> pu_KeyHash (aic_PrincipalUid a) \<noteq> []
        \<and> Sum256 C (cert_RawSubjectPublicKeyInfo prin) = pu_KeyHash (aic_PrincipalUid a))"
  by (cases "AgentChain b"; cases "PrincipalChain b")
    (auto simp: VerifyBundle_def VerifyPrincipalKeyHash_def bundle_Agent_def bundle_Principal_def
      split: sum.splits option.splits)

definition has_aic :: "pki_ops \<Rightarrow> certificate \<Rightarrow> bool" where
  "has_aic P c = (case ParseAIC P c of Inr (Some a) \<Rightarrow> True | _ \<Rightarrow> False)"

definition has_pa :: "pki_ops \<Rightarrow> certificate \<Rightarrow> bool" where
  "has_pa P c = (case ParseUserPermissionExtension P c of Inr (Some a) \<Rightarrow> True | _ \<Rightarrow> False)"

text \<open>The certificates among the blocks; \<open>None\<close> when one does not parse.\<close>

fun block_certs :: "(bytes \<Rightarrow> string + certificate) \<Rightarrow> (string \<times> bytes) list \<Rightarrow> certificate list option" where
  "block_certs parse [] = Some []"
| "block_certs parse ((ty, der) # blocks) =
     (if ty = ''CERTIFICATE'' then
        (case parse der of Inl e \<Rightarrow> None | Inr c \<Rightarrow> map_option ((#) c) (block_certs parse blocks))
      else block_certs parse blocks)"

definition classify :: "pki_ops \<Rightarrow> credential_bundle \<Rightarrow> certificate list \<Rightarrow> credential_bundle" where
  "classify P b cs =
     \<lparr>AgentChain = AgentChain b @ filter (has_aic P) cs,
      PrincipalChain = PrincipalChain b @ filter (\<lambda>c. \<not> has_aic P c \<and> has_pa P c) cs,
      CACerts = CACerts b @ filter (\<lambda>c. \<not> has_aic P c \<and> \<not> has_pa P c) cs\<rparr>"

lemma classify_Nil [simp]: "classify P b [] = b"
  by (simp add: classify_def)

lemma classify_Cons: "classify P b (c # cs) = classify P (classify P b [c]) cs"
  by (simp add: classify_def)

lemma classify_step:
  "(case ParseAIC P c of
      Inr (Some a) \<Rightarrow> b\<lparr>AgentChain := AgentChain b @ [c]\<rparr>
    | _ \<Rightarrow> (case ParseUserPermissionExtension P c of
             Inr (Some pa) \<Rightarrow> b\<lparr>PrincipalChain := PrincipalChain b @ [c]\<rparr>
           | _ \<Rightarrow> b\<lparr>CACerts := CACerts b @ [c]\<rparr>)) = classify P b [c]"
  by (cases b) (simp add: classify_def has_aic_def has_pa_def split: sum.splits option.splits)

lemma bundle_blocks_Inr:
  "bundle_blocks P parse blocks b n = Inr b' \<longleftrightarrow>
     (\<exists>cs. block_certs parse blocks = Some cs \<and> n + length cs > 0 \<and> b' = classify P b cs)"
proof (induction blocks arbitrary: b n)
  case Nil
  then show ?case by auto
next
  case (Cons blk blocks)
  obtain ty der where blk: "blk = (ty, der)" by fastforce
  show ?case
  proof (cases "ty = ''CERTIFICATE''")
    case False
    then show ?thesis using Cons.IH by (simp add: blk)
  next
    case True
    show ?thesis
    proof (cases "parse der")
      case (Inl e)
      then show ?thesis using True by (simp add: blk)
    next
      case (Inr c)
      have "bundle_blocks P parse (blk # blocks) b n
          = bundle_blocks P parse blocks (classify P b [c]) (Suc n)"
        using True Inr by (simp add: blk classify_step)
      then show ?thesis
        using True Inr Cons.IH[of "classify P b [c]" "Suc n"] by (auto simp: blk simp flip: classify_Cons)
    qed
  qed
qed

section \<open>Properties\<close>

text \<open>A delegation authorization is accepted exactly when it carries a signature and that signature
  verifies under the user's key over every field of the AIC, with the user's key matching the
  key hash of the AIC where it has one: in the version-2 structure bound to the agent's key, for
  AIC version 2 (or 0 when the agent's key is known), or in the version-1 structure, for AIC
  version 1 or 0; the legacy structure counts only when the version-1 signature did not verify.
  An AIC of any other version is refused.\<close>

theorem delegation_auth_exact:
  "VerifyDelegationAuthWithAgent P C (Some a) (Some u) agent = None \<longleftrightarrow>
     da_SignatureValue (aic_DelegationAuthorization a) \<noteq> [] \<and>
     (\<exists>spki. agent_spki C agent = Inr spki \<and>
       (aic_Version a \<in> {0, 2} \<and> spki \<noteq> [] \<and> da_valid_at P C a u spki DAVersion2
        \<or> aic_Version a \<in> {0, 1} \<and>
          (da_valid_at P C a u spki DAVersion1
           \<or> (verifyDelegationAuthTBSAt P C a u spki DAVersion1 = Some SignatureMismatch
              \<and> da_valid_at P C a u spki 0))))"
  by (rule VerifyDelegationAuthWithAgent_None)

text \<open>C21. A delegation chain is accepted exactly when it is not empty, is within the depth of the
  principal and the length limit (which a non-positive setting does not switch off), repeats no
  serial number, and every level carries a delegation authorization that is accepted for the
  certificate one level up, the topmost one for the principal.\<close>

theorem delegation_chain_exact:
  "DelegationChainVerifier_Verify P C (Some v) chain (Some topCert) = None \<longleftrightarrow>
     chain \<noteq> [] \<and> int (length chain) \<le> MaxDepth v
     \<and> int (length chain) \<le> (if MaxChainLength v \<le> 0 then DefaultMaxChainLength else MaxChainLength v)
     \<and> None \<notin> set chain \<and> distinct (map (cert_SerialNumber \<circ> the) chain)
     \<and> chain_signed P C (map the chain) topCert"
  by (rule DelegationChainVerifier_Verify_None)

text \<open>A chain accepted by \<open>VerifyDelegationChainWithCaps\<close> is authentic and does not escalate: every
  level is signed by the level above up to the principal, and, for ids that are literals or end in
  \<open>:*\<close>, whatever the effective capabilities cover is covered by the principal's capabilities and
  by those of every level.\<close>

theorem delegation_chain_with_caps_sound:
  assumes "VerifyDelegationChainWithCaps P C chain (Some topCert) principalCaps maxDepth maxLen = Inr eff"
    and "list_all (regular_cap P) principalCaps"
    and "list_all (\<lambda>c. list_all (regular_cap P) (declared_caps P (the c))) chain"
  shows "chain_signed P C (map the chain) topCert \<and> int (length chain) \<le> maxDepth
    \<and> eff = declared_caps P (the (last chain))
    \<and> (\<forall>op. list_ex (capabilityCovered P op) eff \<longrightarrow>
         list_ex (capabilityCovered P op) principalCaps
         \<and> list_all (\<lambda>c. list_ex (capabilityCovered P op) (declared_caps P (the c))) chain)"
proof -
  let ?len = "if maxLen \<le> 0 then DefaultMaxChainLength else maxLen"
  have v: "DelegationChainVerifier_Verify P C (Some \<lparr>MaxDepth = maxDepth, MaxChainLength = ?len\<rparr>)
      chain (Some topCert) = None"
    and e: "EffectiveDelegationCapabilities P chain principalCaps ?len = Inr eff"
    using assms(1)
    by (auto simp: VerifyDelegationChainWithCaps_def Let_def split: option.splits sum.splits)
  from v have "chain_signed P C (map the chain) topCert" "int (length chain) \<le> maxDepth"
    by (simp_all add: DelegationChainVerifier_Verify_None)
  with effective_is_last[OF e] effective_no_escalation[OF e assms(2,3)] show ?thesis by blast
qed

text \<open>With a non-positive depth limit every chain is refused, the limit being compared before
  anything else is verified.\<close>

theorem nonpositive_depth_refuses:
  assumes "maxDepth \<le> 0"
  shows "\<exists>e. VerifyDelegationChainWithCaps P C chain topCert principalCaps maxDepth maxLen = Inl e"
  using assms
  by (cases "chain = []"; cases topCert)
    (auto simp: VerifyDelegationChainWithCaps_def DelegationChainVerifier_Verify_def Let_def
      simp flip: length_greater_0_conv)

text \<open>The freshness check accepts exactly the timestamps that are set and at most the window
  away from the clock, in the past or the future, as long as the distance is representable as a
  duration; the window defaults to one minute.\<close>

theorem da_freshness_exact:
  assumes "\<bar>now - ts\<bar> \<le> maxDuration"
  shows "CheckDAFreshness ts now maxAge = None \<longleftrightarrow>
    ts \<noteq> 0 \<and> \<bar>now - ts\<bar> \<le> (if maxAge \<le> 0 then 60 * 10 ^ 9 else maxAge)"
  using assms
  by (auto simp: CheckDAFreshness_def Let_def go_Sub_def go_neg_def minDuration_def maxDuration_def
      DefaultDAAgeMax_def minute_def second_def)

text \<open>Beyond 2^63 nanoseconds the freshness check fails open: a timestamp more than 2^63 nanoseconds (about
  292 years) in the future passes every window, because the saturated difference is the least
  duration and its negation overflows to itself.\<close>

theorem da_freshness_far_future:
  assumes "ts - now \<ge> 2 ^ 63" "now > 0"
  shows "CheckDAFreshness ts now maxAge = None"
  using assms
  by (auto simp: CheckDAFreshness_def Let_def go_Sub_def go_neg_def minDuration_def maxDuration_def
      DefaultDAAgeMax_def minute_def second_def)

text \<open>An accepted credential bundle has an agent chain and a principal chain that both verify
  against the operator's roots, and the agent's AIC names the principal's key by a non-empty hash;
  without operator roots every bundle is refused, and the CA certificates a client puts into the
  bundle play no part.\<close>

theorem bundle_verified_exact:
  "(VerifyBundle CV P C (Some b) (Some rs) = None \<longleftrightarrow>
     (\<exists>agent agentRest prin prinRest a.
        AgentChain b = agent # agentRest \<and> PrincipalChain b = prin # prinRest
        \<and> CV rs (intermediatesPool agentRest) agent = None
        \<and> CV rs (intermediatesPool prinRest) prin = None
        \<and> ParseAIC P agent = Inr (Some a) \<and> pu_KeyHash (aic_PrincipalUid a) \<noteq> []
        \<and> Sum256 C (cert_RawSubjectPublicKeyInfo prin) = pu_KeyHash (aic_PrincipalUid a)))
   \<and> VerifyBundle CV P C (Some b) None = Some NoTrustRoots
   \<and> VerifyBundle CV P C (Some (b\<lparr>CACerts := cas\<rparr>)) roots = VerifyBundle CV P C (Some b) roots"
proof -
  have "VerifyBundle CV P C (Some b) None = Some NoTrustRoots"
    by (simp add: VerifyBundle_def)
  moreover have "VerifyBundle CV P C (Some (b\<lparr>CACerts := cas\<rparr>)) roots = VerifyBundle CV P C (Some b) roots"
    by (auto simp: VerifyBundle_def bundle_Agent_def bundle_Principal_def
        split: option.splits list.splits)
  ultimately show ?thesis by (intro conjI VerifyBundle_None)
qed

text \<open>Parsing a PEM bundle keeps every certificate, in order, in exactly one of the three chains by
  the extension it carries, and fails exactly when a certificate does not parse or there is none.\<close>

theorem bundle_parse_partition:
  "ParseCredentialBundlePEM P parse blocks = Inr b \<longleftrightarrow>
     (\<exists>cs. block_certs parse blocks = Some cs \<and> cs \<noteq> []
        \<and> AgentChain b = filter (has_aic P) cs
        \<and> PrincipalChain b = filter (\<lambda>c. \<not> has_aic P c \<and> has_pa P c) cs
        \<and> CACerts b = filter (\<lambda>c. \<not> has_aic P c \<and> \<not> has_pa P c) cs)"
  unfolding ParseCredentialBundlePEM_def bundle_blocks_Inr
  by (cases b) (auto simp: classify_def)

theorem delegation_chain_with_caps_sound_witness:
  "list_ex (capabilityCovered example_chain_pki (hd (example_caps ''db:sales:read:row'')))
     (example_caps ''db:*'')"
proof -
  have "VerifyDelegationChainWithCaps example_chain_pki example_crypto
      [Some (example_agent 1 ''top''), Some (example_agent 2 ''leaf'')] (Some example_cert)
      (example_caps ''db:*'') 3 0 = Inr (example_caps ''db:sales:read'')"
    "list_all (regular_cap example_chain_pki) (example_caps ''db:*'')"
    "list_all (\<lambda>c. list_all (regular_cap example_chain_pki) (declared_caps example_chain_pki (the c)))
      [Some (example_agent 1 ''top''), Some (example_agent 2 ''leaf'')]"
    by code_simp+
  note delegation_chain_with_caps_sound[OF this]
  moreover have "list_ex (capabilityCovered example_chain_pki (hd (example_caps ''db:sales:read:row'')))
      (example_caps ''db:sales:read'')" by code_simp
  ultimately show ?thesis by blast
qed

theorem nonpositive_depth_refuses_witness:
  "\<exists>e. VerifyDelegationChainWithCaps example_chain_pki example_crypto
     [Some (example_agent 1 ''top'')] (Some example_cert) (example_caps ''db:*'') 0 0 = Inl e"
  by (rule nonpositive_depth_refuses) simp

theorem da_freshness_exact_witness:
  "CheckDAFreshness 5 (60 * 10 ^ 9 + 5) 0 = None \<and> CheckDAFreshness 5 (60 * 10 ^ 9 + 6) 0 \<noteq> None"
  using da_freshness_exact[of "60 * 10 ^ 9 + 5" 5 0] da_freshness_exact[of "60 * 10 ^ 9 + 6" 5 0]
  by (simp add: maxDuration_def)

theorem da_freshness_far_future_witness: "CheckDAFreshness (2 ^ 63 + 1) 1 second = None"
  by (rule da_freshness_far_future) simp_all

end
