(* ===== verification/Clc.thy ===== *)
theory Clc
  imports Constraints Delegation
begin

text \<open>
  Operation-level authorization (\<^verbatim>\<open>src/clc.go\<close>): capabilities become grants of the capability language
  CLC, each requested operation is decided over the AIC and the principal authorization, and the
  verdicts steer the admission. The language core \<^verbatim>\<open>github.com/varwof/register/semantics\<close> is the record
  \<open>clc_ops\<close>. The theory also holds the admission configuration and result of \<^verbatim>\<open>src/decision.go\<close>, which
  this layer reads and extends.
\<close>

section \<open>Language data\<close>

text \<open>Parameters are a JSON object; \<open>None\<close> is the nil map, which the language reads as no constraint.\<close>

type_synonym clc_params = "(string \<times> json) list option"

record operation =
  op_ID :: string
  op_Params :: clc_params

record grant =
  g_ID :: string
  g_Params :: clc_params
  g_Constraints :: "string list"

datatype verdict = VerdictAllow | VerdictDeny | VerdictAllowUR | VerdictOther string

record decision =
  dec_Verdict :: verdict
  dec_Reason :: string
  dec_Unresolved :: "string list"

text \<open>A decision context is represented by its \<^verbatim>\<open>Fresh\<close> method.\<close>

type_synonym decision_context = "instant \<Rightarrow> string option"

record clc_ops =
  sem_ValidateCapabilityID :: "string \<Rightarrow> string option"
  sem_ValidateGrantParams :: "clc_params \<Rightarrow> string option"
  sem_ValidateOperationParams :: "clc_params \<Rightarrow> string option"
  sem_AuthorizeSet :: "grant list \<Rightarrow> operation \<Rightarrow> decision"
  sem_Combine :: "decision \<Rightarrow> decision \<Rightarrow> string + decision"
  sem_Discharge :: "decision \<Rightarrow> string list \<Rightarrow> string option"
  sem_ErrContextMissing :: string
  js_Marshal :: "(string \<times> json) list \<Rightarrow> string + bytes"
  js_UnmarshalMap :: "bytes \<Rightarrow> string + (string \<times> json) list"

record operation_decision =
  od_ID :: string
  od_Params :: clc_params
  od_Verdict :: verdict
  od_Reason :: string
  od_Unresolved :: "string list"
  od_Grants :: "grant list"
  od_Released :: bool

datatype clc_error = CapabilityError string string | OperationInvalid string string | NoCapabilitySource

section \<open>Grants\<close>

text \<open>The dynamic type of the argument: nil, raw JSON bytes, or a Go map.\<close>

datatype params_input = PNil | PBytes bytes | PMap "(string \<times> json) list"

definition params_raw :: "clc_ops \<Rightarrow> params_input \<Rightarrow> string + bytes option" where
  "params_raw S p =
     (case p of
        PNil \<Rightarrow> Inr None
      | PBytes v \<Rightarrow> Inr (if v = [] then None else Some v)
      | PMap v \<Rightarrow>
          (if v = [] then Inr None
           else case js_Marshal S v of Inl e \<Rightarrow> Inl e | Inr b \<Rightarrow> Inr (Some b)))"

definition normalizeParams :: "clc_ops \<Rightarrow> params_input \<Rightarrow> string + clc_params" where
  "normalizeParams S p =
     (case params_raw S p of Inl e \<Rightarrow> Inl e | Inr None \<Rightarrow> Inr None | Inr (Some raw) \<Rightarrow>
      let trimmed = TrimSpace raw in
      if trimmed = [] \<or> trimmed = ''{}'' \<or> trimmed = ''null'' then Inr None
      else case js_UnmarshalMap S raw of
             Inl e \<Rightarrow> Inl e
           | Inr out \<Rightarrow> Inr (if out = [] then None else Some out))"

definition ToGrant :: "pki_ops \<Rightarrow> clc_ops \<Rightarrow> capability \<Rightarrow> clc_error + grant" where
  "ToGrant P S c =
     (let i = FullID P c in
      case sem_ValidateCapabilityID S i of Some e \<Rightarrow> Inl (CapabilityError i e) | None \<Rightarrow>
      case normalizeParams S (PBytes (Parameters c)) of Inl e \<Rightarrow> Inl (CapabilityError i e) | Inr params \<Rightarrow>
      case sem_ValidateGrantParams S params of Some e \<Rightarrow> Inl (CapabilityError i e) | None \<Rightarrow>
      Inr \<lparr>g_ID = i, g_Params = params, g_Constraints = []\<rparr>)"

fun ToGrantSet :: "pki_ops \<Rightarrow> clc_ops \<Rightarrow> capability list \<Rightarrow> clc_error + grant list" where
  "ToGrantSet P S [] = Inr []"
| "ToGrantSet P S (c # caps) =
     (case ToGrant P S c of Inl e \<Rightarrow> Inl e
      | Inr g \<Rightarrow> (case ToGrantSet P S caps of Inl e \<Rightarrow> Inl e | Inr gs \<Rightarrow> Inr (g # gs)))"

definition constraint_string :: "capability \<Rightarrow> string" where
  "constraint_string c =
     (let scheme = (if SchemeId c = ''constraint'' \<or> SchemeId c = ''constraint-v1''
                    then ''varwof/constraint-v1'' else SchemeId c)
      in scheme @ (if CapabilityId c \<noteq> [] then '':'' @ CapabilityId c else [])
           @ (if Parameters c \<noteq> [] then '':'' @ Parameters c else []))"

definition ConstraintStrings :: "capability list \<Rightarrow> string list" where
  "ConstraintStrings constraints = map constraint_string constraints"

definition with_constraints :: "string list \<Rightarrow> grant list \<Rightarrow> grant list" where
  "with_constraints cs grants =
     (if cs \<noteq> [] then map (\<lambda>g. g\<lparr>g_Constraints := g_Constraints g @ cs\<rparr>) grants else grants)"

section \<open>Decisions\<close>

definition grantsAbsent :: "grant list \<Rightarrow> bool" where
  "grantsAbsent grants = list_all (\<lambda>g. g_ID g = []) grants"

definition map_input :: "clc_params \<Rightarrow> params_input" where
  "map_input p = (case p of None \<Rightarrow> PMap [] | Some m \<Rightarrow> PMap m)"

definition AuthorizeGrants :: "clc_ops \<Rightarrow> grant list \<Rightarrow> string \<Rightarrow> clc_params \<Rightarrow> clc_error + decision" where
  "AuthorizeGrants S grants opID params =
     (case normalizeParams S (map_input params) of Inl e \<Rightarrow> Inl (OperationInvalid opID e) | Inr normalized \<Rightarrow>
      if grantsAbsent grants then Inr (sem_AuthorizeSet S grants \<lparr>op_ID = opID, op_Params = normalized\<rparr>)
      else case sem_ValidateCapabilityID S opID of Some e \<Rightarrow> Inl (OperationInvalid opID e) | None \<Rightarrow>
           case sem_ValidateOperationParams S normalized of Some e \<Rightarrow> Inl (OperationInvalid opID e) | None \<Rightarrow>
           Inr (sem_AuthorizeSet S grants \<lparr>op_ID = opID, op_Params = normalized\<rparr>))"

definition AuthorizeCapabilitiesWithConstraints ::
    "pki_ops \<Rightarrow> clc_ops \<Rightarrow> capability list \<Rightarrow> capability list \<Rightarrow> string \<Rightarrow> clc_params \<Rightarrow> clc_error + decision" where
  "AuthorizeCapabilitiesWithConstraints P S caps constraints opID params =
     (case ToGrantSet P S caps of Inl e \<Rightarrow> Inl e
      | Inr grants \<Rightarrow> AuthorizeGrants S (with_constraints (ConstraintStrings constraints) grants) opID params)"

definition AuthorizeCapabilities ::
    "pki_ops \<Rightarrow> clc_ops \<Rightarrow> capability list \<Rightarrow> string \<Rightarrow> clc_params \<Rightarrow> clc_error + decision" where
  "AuthorizeCapabilities P S caps opID params = AuthorizeCapabilitiesWithConstraints P S caps [] opID params"

definition combineDecisions :: "clc_ops \<Rightarrow> decision \<Rightarrow> decision \<Rightarrow> decision" where
  "combineDecisions S a b =
     (case sem_Combine S a b of
        Inl e \<Rightarrow> \<lparr>dec_Verdict = VerdictDeny, dec_Reason = e, dec_Unresolved = []\<rparr>
      | Inr combined \<Rightarrow> combined)"

definition AuthorizeOperation ::
    "pki_ops \<Rightarrow> clc_ops \<Rightarrow> aic option \<Rightarrow> principal_authorization option \<Rightarrow> string \<Rightarrow> clc_params
     \<Rightarrow> clc_error + decision" where
  "AuthorizeOperation P S aic_opt pa_opt opID params =
     (case aic_opt of
        None \<Rightarrow>
          (case pa_opt of None \<Rightarrow> Inl NoCapabilitySource
           | Some pa \<Rightarrow> AuthorizeCapabilitiesWithConstraints P S (pa_Grants pa) (pa_AuthorizationConstraints pa) opID params)
      | Some a \<Rightarrow>
          (case AuthorizeCapabilitiesWithConstraints P S (aic_Capabilities a) (aic_AuthorizationConstraints a) opID params of
             Inl e \<Rightarrow> Inl e
           | Inr aisDec \<Rightarrow>
               (case pa_opt of None \<Rightarrow> Inr aisDec
                | Some pa \<Rightarrow>
                    (case AuthorizeCapabilitiesWithConstraints P S (pa_Grants pa) (pa_AuthorizationConstraints pa) opID params of
                       Inl e \<Rightarrow> Inl e
                     | Inr paDec \<Rightarrow> Inr (combineDecisions S aisDec paDec)))))"

text \<open>The grants a source contributes to the evidence; \<open>None\<close> when they cannot be converted.\<close>

definition recorder_grants ::
    "pki_ops \<Rightarrow> clc_ops \<Rightarrow> capability list \<Rightarrow> capability list \<Rightarrow> grant list option" where
  "recorder_grants P S caps constraints =
     (case ToGrantSet P S caps of Inl e \<Rightarrow> None
      | Inr grants \<Rightarrow> Some (with_constraints (ConstraintStrings constraints) grants))"

definition evidenceRecorders ::
    "pki_ops \<Rightarrow> clc_ops \<Rightarrow> aic option \<Rightarrow> principal_authorization option \<Rightarrow> (string \<times> grant list) list" where
  "evidenceRecorders P S aic_opt pa_opt =
     (case aic_opt of None \<Rightarrow> [] | Some a \<Rightarrow>
        (case recorder_grants P S (aic_Capabilities a) (aic_AuthorizationConstraints a) of
           None \<Rightarrow> [] | Some gs \<Rightarrow> [(''aic'', gs)]))
     @ (case pa_opt of None \<Rightarrow> [] | Some pa \<Rightarrow>
        (case recorder_grants P S (pa_Grants pa) (pa_AuthorizationConstraints pa) of
           None \<Rightarrow> [] | Some gs \<Rightarrow> [(''principal-authorization'', gs)]))"

definition decisionGrants ::
    "pki_ops \<Rightarrow> clc_ops \<Rightarrow> aic option \<Rightarrow> principal_authorization option \<Rightarrow> grant list" where
  "decisionGrants P S a pa =
     (let recs = evidenceRecorders P S a pa in
      case map_of recs ''aic'' of
        Some grants \<Rightarrow> grants
      | None \<Rightarrow> (case map_of recs ''principal-authorization'' of Some grants \<Rightarrow> grants | None \<Rightarrow> []))"

section \<open>Admission data\<close>

datatype decision_result = DecisionAllow | DecisionDeny | DecisionNeedAuth

datatype admission_reason = NoReason | NilCertificateReason | AICParseReason string | AICRequired
  | AICValidation string | CapSizeReason size_error | NonceLength nat | PAParseReason string | PARequired
  | PAConstraint constraint_error | PAUnknownConstraint string | AICUnknownConstraint string
  | AICConstraint constraint_error | ProtocolMissing string | RuleMissing string
  | MissingCapabilities "string list" | OperationFailed string clc_error | OperationContext string string
  | OperationDenied string string | OperationObligation string string
  | OperationUnresolved string verdict "string list"
  | RepresentativeDisallowed | RepresentativeNeedsPA | RepresentativeNotAllowed
  | DASignatureEmpty | BundleRejected bundle_error | ResolveUserCert string | KeyHashAlgorithm
  | AuthorizationCertRequired | NoKeyHashBinding | DARejected da_error | DAStale freshness_error
  | NonceReplay | NoIntersection | CapabilityOverflow

record source_ref =
  sr_Kind :: string
  sr_ID :: string
  sr_Issuer :: string
  sr_Digest :: bytes

record admission_result =
  ar_Decision :: decision_result
  ar_Reason :: admission_reason
  ar_AIC :: "aic option"
  ar_PA :: "principal_authorization option"
  ar_PrincipalUid :: string
  ar_EffectiveCaps :: "capability list"
  ar_OperationDecisions :: "operation_decision list"
  ar_Sources :: "source_ref list option"

definition zero_admission :: admission_result where
  "zero_admission =
     \<lparr>ar_Decision = DecisionAllow, ar_Reason = NoReason, ar_AIC = None, ar_PA = None, ar_PrincipalUid = [],
      ar_EffectiveCaps = [], ar_OperationDecisions = [], ar_Sources = None\<rparr>"

text \<open>A refusal that carries nothing but its reason.\<close>

definition deny_bare :: "admission_reason \<Rightarrow> admission_result" where
  "deny_bare r = zero_admission\<lparr>ar_Decision := DecisionDeny, ar_Reason := r\<rparr>"

record admission_config =
  RequireAIC :: bool
  RequiredProtocol :: string
  RequiredRuleId :: string
  RequiredCapabilities :: "string list"
  Operations :: "operation list"
  UnresolvedEvaluator :: "(operation \<Rightarrow> string list \<Rightarrow> bool) option"
  DischargeObligations :: bool
  ObligationsUnderstood :: "string list"
  RequireFreshDecisionContext :: bool
  DecisionContext :: "decision_context option"
  DisallowRepresentative :: bool
  RequireUserPermission :: bool
  RejectOverflow :: bool
  RequireUserAuth :: bool
  SkipDelegationAuthVerification :: bool
  EnforceCapSizeConstraints :: bool
  UseNonceCache :: bool
  EnforceSize32 :: bool
  UserCert :: "certificate option"
  UserCertResolver :: "(bytes \<Rightarrow> string + certificate option) option"
  EnforceConstraints :: bool
  StrictConstraints :: bool
  ConstraintRegistry :: "constraint_registry option"
  ClientIP :: string
  UseAuditLogger :: bool
  CheckDAAge :: bool
  DAAgeMax :: duration
  CredentialBundle :: "credential_bundle option"

section \<open>Operations of an admission\<close>

definition checkDecisionContext :: "clc_ops \<Rightarrow> instant \<Rightarrow> admission_config \<Rightarrow> string option" where
  "checkDecisionContext S now cfg =
     (if \<not> RequireFreshDecisionContext cfg then None
      else case DecisionContext cfg of None \<Rightarrow> Some (sem_ErrContextMissing S) | Some fresh \<Rightarrow> fresh now)"

text \<open>A refusal that keeps the decisions made so far.\<close>

definition denyOp :: "admission_result \<Rightarrow> operation_decision list \<Rightarrow> admission_reason \<Rightarrow> admission_result" where
  "denyOp result decs r =
     zero_admission\<lparr>ar_Decision := DecisionDeny, ar_Reason := r, ar_AIC := ar_AIC result, ar_PA := ar_PA result,
       ar_PrincipalUid := ar_PrincipalUid result, ar_OperationDecisions := decs\<rparr>"

text \<open>What the switch on the verdict of one operation decides: the reason to refuse, or whether the
  operation counts as released.\<close>

definition verdict_gate ::
    "clc_ops \<Rightarrow> instant \<Rightarrow> admission_config \<Rightarrow> operation \<Rightarrow> decision \<Rightarrow> admission_reason + bool" where
  "verdict_gate S now cfg op dec =
     (case dec_Verdict dec of
        VerdictAllow \<Rightarrow>
          (case checkDecisionContext S now cfg of
             Some e \<Rightarrow> Inl (OperationContext (op_ID op) e) | None \<Rightarrow> Inr False)
      | VerdictDeny \<Rightarrow> Inl (OperationDenied (op_ID op) (dec_Reason dec))
      | _ \<Rightarrow>
          (case (if DischargeObligations cfg then sem_Discharge S dec (ObligationsUnderstood cfg) else None) of
             Some e \<Rightarrow> Inl (OperationObligation (op_ID op) e)
           | None \<Rightarrow>
               (case UnresolvedEvaluator cfg of
                  None \<Rightarrow> Inl (OperationUnresolved (op_ID op) (dec_Verdict dec) (dec_Unresolved dec))
                | Some confirms \<Rightarrow>
                    (if confirms op (dec_Unresolved dec) then
                       (case checkDecisionContext S now cfg of
                          Some e \<Rightarrow> Inl (OperationContext (op_ID op) e) | None \<Rightarrow> Inr True)
                     else Inl (OperationUnresolved (op_ID op) (dec_Verdict dec) (dec_Unresolved dec))))))"

definition operation_record ::
    "pki_ops \<Rightarrow> clc_ops \<Rightarrow> aic option \<Rightarrow> principal_authorization option \<Rightarrow> operation \<Rightarrow> decision \<Rightarrow> bool
     \<Rightarrow> operation_decision" where
  "operation_record P S a pa op dec released =
     \<lparr>od_ID = op_ID op, od_Params = op_Params op, od_Verdict = dec_Verdict dec, od_Reason = dec_Reason dec,
      od_Unresolved = dec_Unresolved dec, od_Grants = decisionGrants P S a pa, od_Released = released\<rparr>"

fun clc_loop ::
    "pki_ops \<Rightarrow> clc_ops \<Rightarrow> instant \<Rightarrow> admission_config \<Rightarrow> aic option \<Rightarrow> admission_result \<Rightarrow> operation list
     \<Rightarrow> operation_decision list \<Rightarrow> admission_result option \<times> operation_decision list" where
  "clc_loop P S now cfg a result [] decs = (None, decs)"
| "clc_loop P S now cfg a result (op # ops) decs =
     (case AuthorizeOperation P S a (ar_PA result) (op_ID op) (op_Params op) of
        Inl e \<Rightarrow> (Some (deny_bare (OperationFailed (op_ID op) e)), decs)
      | Inr dec \<Rightarrow>
          (let rec = operation_record P S a (ar_PA result) op dec in
           case verdict_gate S now cfg op dec of
             Inl r \<Rightarrow> (Some (denyOp result (decs @ [rec False]) r), decs @ [rec False])
           | Inr released \<Rightarrow> clc_loop P S now cfg a result ops (decs @ [rec released])))"

text \<open>The refusal, if there is one, and the result with the decisions appended.\<close>

definition evaluateCLCOperations ::
    "pki_ops \<Rightarrow> clc_ops \<Rightarrow> instant \<Rightarrow> aic option \<Rightarrow> admission_result \<Rightarrow> admission_config
     \<Rightarrow> admission_result option \<times> admission_result" where
  "evaluateCLCOperations P S now a result cfg =
     (case clc_loop P S now cfg a result (Operations cfg) (ar_OperationDecisions result) of
        (refusal, decs) \<Rightarrow> (refusal, result\<lparr>ar_OperationDecisions := decs\<rparr>))"

definition aggregateCLCDecisions :: "operation_decision list \<Rightarrow> verdict \<times> string \<times> string list" where
  "aggregateCLCDecisions ops =
     (if ops = [] then (VerdictOther [], [], [])
      else let open_ops = filter (\<lambda>od. od_Verdict od = VerdictAllowUR) ops in
        (if open_ops = [] then VerdictAllow else VerdictAllowUR,
         go_Join (filter (\<lambda>r. r \<noteq> []) (map od_Reason open_ops)) ''; '',
         concat (map od_Unresolved open_ops)))"

section \<open>Constraints as obligations\<close>

definition ConstraintToCapability :: "string \<Rightarrow> capability option" where
  "ConstraintToCapability c =
     (let parts = go_Split (CHR '':'') c in
      if length parts < 2 \<or> parts ! 0 = [] \<or> parts ! 1 = [] then None
      else if parts ! 1 = ''time'' \<or> parts ! 1 = ''network'' then
        (if length parts < 4 then None
         else Some \<lparr>SchemeId = parts ! 0, CapabilityId = parts ! 1 @ '':'' @ parts ! 2,
                    Parameters = go_Join (drop 3 parts) '':''\<rparr>)
      else if length parts = 2 then Some \<lparr>SchemeId = parts ! 0, CapabilityId = parts ! 1, Parameters = []\<rparr>
      else Some \<lparr>SchemeId = parts ! 0, CapabilityId = parts ! 1, Parameters = go_Join (drop 2 parts) '':''\<rparr>)"

text \<open>The evaluator on the global registry \<open>g\<close>.\<close>

definition ConnectionConstraintEvaluator ::
    "constraint_env \<Rightarrow> constraint_registry \<Rightarrow> string \<Rightarrow> operation \<Rightarrow> string list \<Rightarrow> bool" where
  "ConnectionConstraintEvaluator E g clientIP op unresolved =
     list_all (\<lambda>c.
       case ConstraintToCapability c of None \<Rightarrow> False | Some cap \<Rightarrow>
       (case ConstraintRegistry_Find g (CapabilityId cap) of Inl e \<Rightarrow> False
        | Inr ev \<Rightarrow> CheckAuthorizationConstraints E g [cap] clientIP = None)) unresolved"

section \<open>Lemmas\<close>

text \<open>What the deployment demands of one requested operation.\<close>

definition operation_admitted ::
    "pki_ops \<Rightarrow> clc_ops \<Rightarrow> instant \<Rightarrow> admission_config \<Rightarrow> aic option \<Rightarrow> principal_authorization option
     \<Rightarrow> operation \<Rightarrow> bool" where
  "operation_admitted P S now cfg a pa op \<longleftrightarrow>
     (\<exists>dec. AuthorizeOperation P S a pa (op_ID op) (op_Params op) = Inr dec
        \<and> dec_Verdict dec \<noteq> VerdictDeny
        \<and> (RequireFreshDecisionContext cfg \<longrightarrow> (\<exists>fresh. DecisionContext cfg = Some fresh \<and> fresh now = None))
        \<and> (dec_Verdict dec \<noteq> VerdictAllow \<longrightarrow>
             (DischargeObligations cfg \<longrightarrow> sem_Discharge S dec (ObligationsUnderstood cfg) = None)
             \<and> (\<exists>confirms. UnresolvedEvaluator cfg = Some confirms \<and> confirms op (dec_Unresolved dec))))"

lemma checkDecisionContext_None:
  "checkDecisionContext S now cfg = None \<longleftrightarrow>
     (RequireFreshDecisionContext cfg \<longrightarrow> (\<exists>fresh. DecisionContext cfg = Some fresh \<and> fresh now = None))"
  by (simp add: checkDecisionContext_def)

lemma verdict_gate_Inr:
  "(\<exists>released. verdict_gate S now cfg op dec = Inr released) \<longleftrightarrow>
     dec_Verdict dec \<noteq> VerdictDeny \<and> checkDecisionContext S now cfg = None
     \<and> (dec_Verdict dec \<noteq> VerdictAllow \<longrightarrow>
          (DischargeObligations cfg \<longrightarrow> sem_Discharge S dec (ObligationsUnderstood cfg) = None)
          \<and> (\<exists>confirms. UnresolvedEvaluator cfg = Some confirms \<and> confirms op (dec_Unresolved dec)))"
  by (cases "dec_Verdict dec"; cases "checkDecisionContext S now cfg")
    (auto simp: verdict_gate_def split: option.splits)

lemma operation_admitted_gate:
  "operation_admitted P S now cfg a pa op \<longleftrightarrow>
     (\<exists>dec released. AuthorizeOperation P S a pa (op_ID op) (op_Params op) = Inr dec
        \<and> verdict_gate S now cfg op dec = Inr released)"
proof -
  have "(\<exists>dec released. AuthorizeOperation P S a pa (op_ID op) (op_Params op) = Inr dec
        \<and> verdict_gate S now cfg op dec = Inr released) \<longleftrightarrow>
      (\<exists>dec. AuthorizeOperation P S a pa (op_ID op) (op_Params op) = Inr dec
        \<and> (\<exists>released. verdict_gate S now cfg op dec = Inr released))"
    by blast
  then show ?thesis
    by (simp only: verdict_gate_Inr operation_admitted_def checkDecisionContext_None)
qed

lemma clc_loop_admits:
  "fst (clc_loop P S now cfg a result ops decs) = None \<longleftrightarrow>
     list_all (operation_admitted P S now cfg a (ar_PA result)) ops"
proof (induction ops arbitrary: decs)
  case (Cons op ops)
  then show ?case
    by (auto simp: operation_admitted_gate Let_def split: sum.splits)
qed simp

lemma clc_loop_decisions:
  "fst (clc_loop P S now cfg a result ops decs) = None \<Longrightarrow>
   map od_ID (snd (clc_loop P S now cfg a result ops decs)) = map od_ID decs @ map op_ID ops"
  by (induction ops arbitrary: decs)
    (auto simp: Let_def operation_record_def split: sum.splits)

lemma clc_loop_refusal:
  "fst (clc_loop P S now cfg a result ops decs) = Some r \<Longrightarrow> ar_Decision r = DecisionDeny"
  by (induction ops arbitrary: decs)
    (auto simp: Let_def deny_bare_def denyOp_def split: sum.splits)

lemma go_Split_Cons_sep: "c \<notin> set a \<Longrightarrow> go_Split c (a @ c # b) = a # go_Split c b"
  by (induction a) auto

lemma constraint_roundtrip:
  assumes "CHR '':'' \<notin> set (SchemeId c)" "SchemeId c \<noteq> []" "Parameters c \<noteq> []"
    and "CapabilityId c = ''time:window'' \<or> CapabilityId c = ''network:cidr''"
  shows "ConstraintToCapability (constraint_string c) = Some (c\<lparr>SchemeId :=
    (if SchemeId c = ''constraint'' \<or> SchemeId c = ''constraint-v1'' then ''varwof/constraint-v1'' else SchemeId c)\<rparr>)"
proof -
  define sch where "sch = (if SchemeId c = ''constraint'' \<or> SchemeId c = ''constraint-v1''
    then ''varwof/constraint-v1'' else SchemeId c)"
  have sch: "CHR '':'' \<notin> set sch" "sch \<noteq> []" using assms(1,2) by (auto simp: sch_def)
  obtain t w where tw: "CapabilityId c = t @ CHR '':'' # w" "t = ''time'' \<or> t = ''network''" "CHR '':'' \<notin> set w"
    using assms(4) by (elim disjE) (rule that[of "''time''" "''window''"], auto, rule that[of "''network''" "''cidr''"], auto)
  have str: "constraint_string c = sch @ CHR '':'' # t @ CHR '':'' # w @ CHR '':'' # Parameters c"
    using assms(3) tw(1) by (simp add: constraint_string_def Let_def sch_def)
  have "CHR '':'' \<notin> set t" using tw(2) by auto
  then have split: "go_Split (CHR '':'') (constraint_string c) = sch # t # w # go_Split (CHR '':'') (Parameters c)"
    using sch tw(3) by (simp add: str go_Split_Cons_sep)
  have "length (go_Split (CHR '':'') (Parameters c)) > 0" by simp
  then show ?thesis
    using sch tw(2) by (auto simp: ConstraintToCapability_def split go_Join_Split tw(1) sch_def[symmetric] Let_def)
qed

lemma Evaluate_scheme_irrelevant:
  assumes "CapabilityId c = ''time:window'' \<or> CapabilityId c = ''network:cidr''"
    and "ConstraintRegistry_Find (globalConstraintRegistry E) (CapabilityId c) = Inr ev"
  shows "ev_Evaluate ev (c\<lparr>SchemeId := s\<rparr>) ctx = ev_Evaluate ev c ctx"
  using assms
  by (cases ctx)
    (auto simp: find_global builtin_evaluators_def constraint_key_defs cidr_Evaluate_def timeWindow_Evaluate_def)

lemma find_global_time_network:
  assumes "CapabilityId c = ''time:window'' \<or> CapabilityId c = ''network:cidr''"
  shows "\<exists>ev. ConstraintRegistry_Find (globalConstraintRegistry E) (CapabilityId c) = Inr ev"
  using assms by (auto simp: find_global builtin_evaluators_def constraint_key_defs)

lemma isConstraintScheme_normal:
  assumes "isConstraintScheme (SchemeId c)"
  shows "CHR '':'' \<notin> set (SchemeId c) \<and> SchemeId c \<noteq> [] \<and>
    (if SchemeId c = ''constraint'' \<or> SchemeId c = ''constraint-v1'' then ''varwof/constraint-v1'' else SchemeId c)
      = ''varwof/constraint-v1''"
  using assms by (auto simp: isConstraintScheme_def)

section \<open>Properties\<close>

text \<open>The operation layer admits exactly the requests all of whose operations are admitted: the combined
  verdict exists and is not deny; any other verdict than an outright allow additionally needs, in
  strict mode, every obligation to be understood, and in any case the deployment's confirmation,
  so that without an evaluator an unresolved verdict is refused; and where a fresh decision context
  is required there is one. On success there is one decision record per operation, in order.\<close>

theorem clc_operations_exact:
  "(fst (evaluateCLCOperations P S now a result cfg) = None \<longleftrightarrow>
      list_all (operation_admitted P S now cfg a (ar_PA result)) (Operations cfg))
   \<and> (fst (evaluateCLCOperations P S now a result cfg) = None \<longrightarrow>
      map od_ID (ar_OperationDecisions (snd (evaluateCLCOperations P S now a result cfg)))
        = map od_ID (ar_OperationDecisions result) @ map op_ID (Operations cfg))"
  using clc_loop_admits[of P S now cfg a result "Operations cfg" "ar_OperationDecisions result"]
    clc_loop_decisions[of P S now cfg a result "Operations cfg" "ar_OperationDecisions result"]
  by (cases "clc_loop P S now cfg a result (Operations cfg) (ar_OperationDecisions result)")
    (auto simp: evaluateCLCOperations_def)

text \<open>An operation is allowed outright only when both sources allow it: if the combining algorithm of the
  language yields allow only from two allows, then with an AIC and a principal authorization an
  allow verdict means that the AIC's capabilities and the principal's grants, each under its own
  constraints, allow the operation.\<close>

theorem operation_needs_both:
  assumes "\<And>x y z. sem_Combine S x y = Inr z \<Longrightarrow> dec_Verdict z = VerdictAllow \<Longrightarrow>
      dec_Verdict x = VerdictAllow \<and> dec_Verdict y = VerdictAllow"
    and "AuthorizeOperation P S (Some a) (Some pa) opID params = Inr dec" "dec_Verdict dec = VerdictAllow"
  shows "(\<exists>d1. AuthorizeCapabilitiesWithConstraints P S (aic_Capabilities a) (aic_AuthorizationConstraints a)
              opID params = Inr d1 \<and> dec_Verdict d1 = VerdictAllow)
    \<and> (\<exists>d2. AuthorizeCapabilitiesWithConstraints P S (pa_Grants pa) (pa_AuthorizationConstraints pa)
              opID params = Inr d2 \<and> dec_Verdict d2 = VerdictAllow)"
proof -
  obtain d1 d2 where d: "AuthorizeCapabilitiesWithConstraints P S (aic_Capabilities a)
        (aic_AuthorizationConstraints a) opID params = Inr d1"
      "AuthorizeCapabilitiesWithConstraints P S (pa_Grants pa) (pa_AuthorizationConstraints pa) opID params = Inr d2"
      "dec = combineDecisions S d1 d2"
    using assms(2) by (auto simp: AuthorizeOperation_def)
  have "\<exists>z. sem_Combine S d1 d2 = Inr z \<and> dec_Verdict z = VerdictAllow"
    using assms(3) d(3) by (auto simp: combineDecisions_def split: sum.splits)
  with assms(1) d show ?thesis by blast
qed

text \<open>The language-level obligation and the connection-level check agree: for a time window or a source
  network with parameters, rendered as an obligation of the language, the connection evaluator
  discharges the obligation exactly when the connection-level check of the same constraint passes.\<close>

theorem obligation_discharge_agrees:
  assumes "isConstraintScheme (SchemeId c)" "Parameters c \<noteq> []"
    and "CapabilityId c = ''time:window'' \<or> CapabilityId c = ''network:cidr''"
  shows "ConnectionConstraintEvaluator E (globalConstraintRegistry E) clientIP op [constraint_string c] \<longleftrightarrow>
    CheckAuthorizationConstraints E (globalConstraintRegistry E) [c] clientIP = None"
proof -
  obtain ev where ev: "ConstraintRegistry_Find (globalConstraintRegistry E) (CapabilityId c) = Inr ev"
    using find_global_time_network[OF assms(3)] by blast
  have rt: "ConstraintToCapability (constraint_string c) = Some (c\<lparr>SchemeId := ''varwof/constraint-v1''\<rparr>)"
    using constraint_roundtrip[OF _ _ assms(2,3)] isConstraintScheme_normal[OF assms(1)] by simp
  show ?thesis
    using assms(1) ev Evaluate_scheme_irrelevant[OF assms(3) ev]
    by (simp add: ConnectionConstraintEvaluator_def rt CheckAuthorizationConstraints_def checkConstraintsAt_def
        checkConstraintsReg_def isConstraintScheme_def)
qed

definition example_session_env :: constraint_env where
  "example_session_env = example_env\<lparr>ce_Unmarshal := (\<lambda>b. Some (JObj [(''max'', JNum 5)]))\<rparr>"

definition example_session_constraint :: capability where
  "example_session_constraint =
     \<lparr>SchemeId = ''constraint'', CapabilityId = ''session:max-concurrent'', Parameters = ''{}''\<rparr>"

text \<open>Other constraint types with a colon in their id do not survive the rendering: the id is cut at its
  first colon and the rest is taken for parameters, so no evaluator is found. A session limit of five
  connections, which the connection-level check accepts, is not discharged by the connection
  evaluator when it comes back as an obligation.\<close>

theorem session_obligation_never_discharged:
  "CheckAuthorizationConstraints example_session_env (globalConstraintRegistry example_session_env)
      [example_session_constraint] ''1'' = None
   \<and> ConstraintToCapability (constraint_string example_session_constraint) =
      Some \<lparr>SchemeId = ''varwof/constraint-v1'', CapabilityId = ''session'', Parameters = ''max-concurrent:{}''\<rparr>
   \<and> \<not> ConnectionConstraintEvaluator example_session_env (globalConstraintRegistry example_session_env) ''1''
      \<lparr>op_ID = [], op_Params = None\<rparr> [constraint_string example_session_constraint]"
  by code_simp

section \<open>Witnesses\<close>

definition example_clc :: clc_ops where
  "example_clc =
     \<lparr>sem_ValidateCapabilityID = (\<lambda>i. if i = [] then Some ''empty'' else None),
      sem_ValidateGrantParams = (\<lambda>p. None), sem_ValidateOperationParams = (\<lambda>p. None),
      sem_AuthorizeSet = (\<lambda>gs op. \<lparr>dec_Verdict = (if list_ex (\<lambda>g. g_ID g = op_ID op) gs then VerdictAllow else VerdictDeny),
         dec_Reason = [], dec_Unresolved = []\<rparr>),
      sem_Combine = (\<lambda>x y. Inr (if dec_Verdict x = VerdictAllow then y else x)),
      sem_Discharge = (\<lambda>d u. Some ''unknown''), sem_ErrContextMissing = ''context_missing'',
      js_Marshal = (\<lambda>m. Inr ''{}''), js_UnmarshalMap = (\<lambda>b. Inr [])\<rparr>"

definition example_pa :: principal_authorization where
  "example_pa = \<lparr>pa_Grants = [\<lparr>SchemeId = ''db'', CapabilityId = ''read'', Parameters = []\<rparr>],
     pa_AuthorizationConstraints = [], pa_AllowedMode = 1\<rparr>"

definition example_config :: admission_config where
  "example_config =
     \<lparr>RequireAIC = True, RequiredProtocol = [], RequiredRuleId = [], RequiredCapabilities = [''db:read''],
      Operations = [\<lparr>op_ID = ''db:read'', op_Params = None\<rparr>], UnresolvedEvaluator = None,
      DischargeObligations = False, ObligationsUnderstood = [], RequireFreshDecisionContext = False,
      DecisionContext = None, DisallowRepresentative = False, RequireUserPermission = False,
      RejectOverflow = False, RequireUserAuth = False, SkipDelegationAuthVerification = False,
      EnforceCapSizeConstraints = True, UseNonceCache = True, EnforceSize32 = False,
      UserCert = Some example_cert, UserCertResolver = None, EnforceConstraints = True,
      StrictConstraints = True, ConstraintRegistry = None, ClientIP = ''a'', UseAuditLogger = True,
      CheckDAAge = True, DAAgeMax = 0, CredentialBundle = None\<rparr>"

theorem clc_operations_exact_witness:
  "map od_ID (ar_OperationDecisions (snd (evaluateCLCOperations example_pki example_clc 0 (Some example_aic)
      (zero_admission\<lparr>ar_PA := Some example_pa\<rparr>) example_config))) = [''db:read'']"
proof -
  have "fst (evaluateCLCOperations example_pki example_clc 0 (Some example_aic)
      (zero_admission\<lparr>ar_PA := Some example_pa\<rparr>) example_config) = None" by code_simp
  then show ?thesis
    using clc_operations_exact[of example_pki example_clc 0 "Some example_aic"
        "zero_admission\<lparr>ar_PA := Some example_pa\<rparr>" example_config]
    by (simp add: zero_admission_def example_config_def)
qed

theorem operation_needs_both_witness:
  "\<exists>d2. AuthorizeCapabilitiesWithConstraints example_pki example_clc (pa_Grants example_pa)
     (pa_AuthorizationConstraints example_pa) ''db:read'' None = Inr d2 \<and> dec_Verdict d2 = VerdictAllow"
proof -
  have comb: "dec_Verdict x = VerdictAllow \<and> dec_Verdict y = VerdictAllow"
    if "sem_Combine example_clc x y = Inr z" "dec_Verdict z = VerdictAllow" for x y z
    using that by (auto simp: example_clc_def split: if_splits)
  have "AuthorizeOperation example_pki example_clc (Some example_aic) (Some example_pa) ''db:read'' None
      = Inr \<lparr>dec_Verdict = VerdictAllow, dec_Reason = [], dec_Unresolved = []\<rparr>" by code_simp
  from operation_needs_both[OF comb this] show ?thesis by simp
qed

theorem obligation_discharge_agrees_witness:
  "ConnectionConstraintEvaluator example_env (globalConstraintRegistry example_env) ''b'' \<lparr>op_ID = [], op_Params = None\<rparr>
     [constraint_string \<lparr>SchemeId = ''constraint'', CapabilityId = ''network:cidr'', Parameters = ''C''\<rparr>]"
proof -
  let ?c = "\<lparr>SchemeId = ''constraint'', CapabilityId = ''network:cidr'', Parameters = ''C''\<rparr>"
  have "CheckAuthorizationConstraints example_env (globalConstraintRegistry example_env) [?c] ''b'' = None"
    by code_simp
  then show ?thesis by (subst obligation_discharge_agrees) (simp_all add: isConstraintScheme_def)
qed

end
