(* ===== verification/Nonce_Cache.thy ===== *)
theory Nonce_Cache
  imports Prelude
begin

text \<open>
  The replay protection for delegation-authorization nonces (\<^verbatim>\<open>src/nonce_cache.go\<close>): the map from a
  nonce to the certificate scope that first presented it, the atomic check-and-add, the periodic
  cleanup, and the runs of the cache as an inductive relation over interleaved checks and
  cleanups. Each operation of the \<^verbatim>\<open>sync.Map\<close> is one step; the clock is an argument.
\<close>

section \<open>The cache\<close>

record nonceEntry =
  ne_scope :: string
  ne_seen :: instant

type_synonym nonce_cache = "(bytes \<times> nonceEntry) list"

definition NewNonceCache :: nonce_cache where
  "NewNonceCache = []"

definition CheckAndAdd :: "instant \<Rightarrow> string \<Rightarrow> bytes \<Rightarrow> nonce_cache \<Rightarrow> bool \<times> nonce_cache" where
  "CheckAndAdd now scope nonce m =
     (if length nonce = 0 then (False, m)
      else case map_of m nonce of
             None \<Rightarrow> (True, (nonce, \<lparr>ne_scope = scope, ne_seen = now\<rparr>) # m)
           | Some e \<Rightarrow> (ne_scope e = scope, m))"

definition retention :: duration where
  "retention = 24 * hour"

definition cleanup :: "instant \<Rightarrow> nonce_cache \<Rightarrow> nonce_cache" where
  "cleanup now m = (let deadline = now - retention in filter (\<lambda>(key, e). \<not> Before (ne_seen e) deadline) m)"

definition NonceCache_Len :: "nonce_cache \<Rightarrow> nat" where
  "NonceCache_Len m = length m"

text \<open>The well-formedness invariant: one entry per nonce, and no entry for the empty nonce.\<close>

definition cache_wf :: "nonce_cache \<Rightarrow> bool" where
  "cache_wf m \<longleftrightarrow> distinct (map fst m) \<and> [] \<notin> fst ` set m"

lemma cache_wf_new: "cache_wf NewNonceCache"
  by (simp add: cache_wf_def NewNonceCache_def)

lemma cache_wf_check: "cache_wf m \<Longrightarrow> cache_wf (snd (CheckAndAdd now scope nonce m))"
  by (auto simp: cache_wf_def CheckAndAdd_def map_of_eq_None_iff split: option.splits)

lemma cache_wf_cleanup: "cache_wf m \<Longrightarrow> cache_wf (cleanup now m)"
  by (auto simp: cache_wf_def cleanup_def Let_def distinct_map inj_on_def)

lemma map_of_cleanup:
  "distinct (map fst m) \<Longrightarrow> map_of (cleanup now m) n =
     (case map_of m n of
        None \<Rightarrow> None
      | Some e \<Rightarrow> if ne_seen e < now - retention then None else Some e)"
  by (induction m) (auto simp: cleanup_def Let_def map_of_eq_None_iff split: option.splits)

section \<open>Runs\<close>

record presentation =
  p_time :: instant
  p_scope :: string
  p_nonce :: bytes
  p_accepted :: bool

text \<open>\<open>nonce_run t m h\<close>: a cache that started empty can be in state \<open>m\<close> at time \<open>t\<close> after the
  presentations \<open>h\<close>, with cleanups at arbitrary times in between.\<close>

inductive nonce_run :: "instant \<Rightarrow> nonce_cache \<Rightarrow> presentation list \<Rightarrow> bool" where
  start: "nonce_run t NewNonceCache []"
| check: "nonce_run t m h \<Longrightarrow> t \<le> t' \<Longrightarrow> CheckAndAdd t' scope nonce m = (ok, m') \<Longrightarrow>
    nonce_run t' m' (h @ [\<lparr>p_time = t', p_scope = scope, p_nonce = nonce, p_accepted = ok\<rparr>])"
| clean: "nonce_run t m h \<Longrightarrow> t \<le> t' \<Longrightarrow> nonce_run t' (cleanup t' m) h"

definition accepted :: "presentation list \<Rightarrow> bytes \<Rightarrow> presentation set" where
  "accepted h n = {p \<in> set h. p_nonce p = n \<and> p_accepted p}"

lemma accepted_snoc:
  "accepted (h @ [p]) n = (if p_nonce p = n \<and> p_accepted p then insert p (accepted h n) else accepted h n)"
  by (auto simp: accepted_def)

text \<open>The invariant of a run: every entry stems from an accepted presentation; every accepted
  presentation is either vouched for by the current entry of its nonce or its nonce was first
  presented more than the retention ago; two acceptances in different scopes are that far apart.\<close>

definition vouched :: "nonce_cache \<Rightarrow> presentation \<Rightarrow> bool" where
  "vouched m p \<longleftrightarrow> (\<exists>e. map_of m (p_nonce p) = Some e \<and> ne_scope e = p_scope p \<and> ne_seen e \<le> p_time p)"

definition first_seen_before :: "presentation list \<Rightarrow> bytes \<Rightarrow> instant \<Rightarrow> instant \<Rightarrow> bool" where
  "first_seen_before h n t1 t \<longleftrightarrow> (\<exists>p\<in>accepted h n. p_time p \<le> t1 \<and> p_time p + retention < t)"

definition run_inv :: "instant \<Rightarrow> nonce_cache \<Rightarrow> presentation list \<Rightarrow> bool" where
  "run_inv t m h \<longleftrightarrow> cache_wf m
     \<and> (\<forall>n e. map_of m n = Some e \<longrightarrow> ne_seen e \<le> t \<and> (\<exists>p\<in>accepted h n. p_time p = ne_seen e))
     \<and> (\<forall>n. \<forall>p\<in>accepted h n. p_time p \<le> t \<and> (vouched m p \<or> first_seen_before h n (p_time p) t))
     \<and> (\<forall>n. \<forall>p\<in>accepted h n. \<forall>q\<in>accepted h n. p_scope p \<noteq> p_scope q \<longrightarrow>
          first_seen_before h n (max (p_time p) (p_time q)) (max (p_time p) (p_time q)))"

lemma first_seen_before_mono:
  "first_seen_before h n t1 t \<Longrightarrow> t1 \<le> t1' \<Longrightarrow> t \<le> t' \<Longrightarrow> first_seen_before h n t1' t'"
  by (force simp: first_seen_before_def)

lemma first_seen_before_snoc:
  "first_seen_before h n t1 t \<Longrightarrow> first_seen_before (h @ [p]) n t1 t"
  by (auto simp: first_seen_before_def accepted_snoc)

lemma run_invI:
  assumes "cache_wf m"
    and "\<And>n e. map_of m n = Some e \<Longrightarrow> ne_seen e \<le> t \<and> (\<exists>p\<in>accepted h n. p_time p = ne_seen e)"
    and "\<And>n p. p \<in> accepted h n \<Longrightarrow> p_time p \<le> t"
    and "\<And>n p. p \<in> accepted h n \<Longrightarrow> \<not> vouched m p \<Longrightarrow> first_seen_before h n (p_time p) t"
    and "\<And>n p q. p \<in> accepted h n \<Longrightarrow> q \<in> accepted h n \<Longrightarrow> p_scope p \<noteq> p_scope q \<Longrightarrow>
      p_time p \<le> p_time q \<Longrightarrow> first_seen_before h n (p_time q) (p_time q)"
  shows "run_inv t m h"
  unfolding run_inv_def
proof (intro conjI allI ballI impI)
  fix n p q
  assume "p \<in> accepted h n" "q \<in> accepted h n" "p_scope p \<noteq> p_scope q"
  then show "first_seen_before h n (max (p_time p) (p_time q)) (max (p_time p) (p_time q))"
    using assms(5)[of p n q] assms(5)[of q n p] by (cases "p_time p \<le> p_time q") (auto simp: max_def)
qed (use assms in blast)+

lemma run_invD:
  assumes "run_inv t m h"
  shows "cache_wf m"
    and "map_of m n = Some e \<Longrightarrow> ne_seen e \<le> t \<and> (\<exists>p\<in>accepted h n. p_time p = ne_seen e)"
    and "p \<in> accepted h n \<Longrightarrow> p_time p \<le> t"
    and "p \<in> accepted h n \<Longrightarrow> \<not> vouched m p \<Longrightarrow> first_seen_before h n (p_time p) t"
    and "p \<in> accepted h n \<Longrightarrow> q \<in> accepted h n \<Longrightarrow> p_scope p \<noteq> p_scope q \<Longrightarrow>
      p_time p \<le> p_time q \<Longrightarrow> first_seen_before h n (p_time q) (p_time q)"
  using assms by (simp_all add: run_inv_def) (blast | metis max.absorb2)+

lemma run_inv_mono: "run_inv t m h \<Longrightarrow> t \<le> t' \<Longrightarrow> run_inv t' m h"
  by (rule run_invI) (force dest: run_invD intro: first_seen_before_mono)+

lemma run_inv_rejected:
  assumes "run_inv t m h" "\<not> p_accepted p"
  shows "run_inv t m (h @ [p])"
proof -
  have "accepted (h @ [p]) n = accepted h n" for n using assms(2) by (simp add: accepted_snoc)
  then have "first_seen_before (h @ [p]) = first_seen_before h"
    by (intro ext) (simp add: first_seen_before_def)
  with \<open>\<And>n. accepted (h @ [p]) n = accepted h n\<close> assms(1) show ?thesis
    by (simp add: run_inv_def)
qed

text \<open>An accepted presentation at the current time, in the scope of the entry \<open>e\<close> of its nonce.
  Every earlier acceptance in another scope lost its entry before.\<close>

lemma run_inv_accepted:
  assumes inv: "run_inv t m h"
    and wf: "cache_wf m'"
    and p: "p_accepted p" "p_time p = t"
    and e: "map_of m' (p_nonce p) = Some e" "ne_scope e = p_scope p" "ne_seen e \<le> t"
    and old: "map_of m (p_nonce p) = Some e \<or> map_of m (p_nonce p) = None \<and> ne_seen e = t"
    and other: "\<And>n. n \<noteq> p_nonce p \<Longrightarrow> map_of m' n = map_of m n"
  shows "run_inv t m' (h @ [p])"
proof (rule run_invI)
  have lost: "first_seen_before h (p_nonce p) (p_time q) t"
    if "q \<in> accepted h (p_nonce p)" "\<not> vouched m q" for q
    using run_invD(4)[OF inv] that by blast
  have nonce: "p_nonce q = n" if "q \<in> accepted h n" for q n
    using that by (simp add: accepted_def)
  show "cache_wf m'" by (rule wf)
  show "ne_seen e' \<le> t \<and> (\<exists>q\<in>accepted (h @ [p]) n. p_time q = ne_seen e')" if "map_of m' n = Some e'" for n e'
    using that p e old other[of n] run_invD(2)[OF inv, of n e'] by (cases "n = p_nonce p") (auto simp: accepted_snoc)
  show "p_time q \<le> t" if "q \<in> accepted (h @ [p]) n" for n q
    using that p run_invD(3)[OF inv, of q n] by (auto simp: accepted_snoc split: if_splits)
  show "first_seen_before (h @ [p]) n (p_time q) t" if q: "q \<in> accepted (h @ [p]) n" "\<not> vouched m' q" for n q
  proof -
    have "q \<noteq> p" using q(2) e p by (auto simp: vouched_def)
    with q(1) have q': "q \<in> accepted h n" by (auto simp: accepted_snoc split: if_splits)
    have "\<not> vouched m q"
      using q(2) nonce[OF q'] e old other[of n] by (cases "n = p_nonce p") (auto simp: vouched_def)
    with run_invD(4)[OF inv q'] show ?thesis by (blast intro: first_seen_before_snoc)
  qed
  show "first_seen_before (h @ [p]) n (p_time r) (p_time r)"
    if qr: "q \<in> accepted (h @ [p]) n" "r \<in> accepted (h @ [p]) n" "p_scope q \<noteq> p_scope r" "p_time q \<le> p_time r"
    for n q r
  proof -
    have new: "first_seen_before h (p_nonce p) t t"
      if "s \<in> accepted h (p_nonce p)" "p_scope s \<noteq> p_scope p" for s
    proof -
      have "\<not> vouched m s" using that e(2) old by (auto simp: vouched_def accepted_def)
      then show ?thesis
        using lost[OF that(1)] run_invD(3)[OF inv that(1)] by (blast intro: first_seen_before_mono)
    qed
    have "p_time s \<le> t" if "s \<in> accepted h n" for s using run_invD(3)[OF inv that] .
    then consider "q \<in> accepted h n" "r \<in> accepted h n" | "q = p" "n = p_nonce p" "r \<in> accepted h n" "p_time r = t"
      | "r = p" "n = p_nonce p" "q \<in> accepted h n"
      using qr p(2) by (force simp: accepted_snoc split: if_splits)
    then have "first_seen_before h n (p_time r) (p_time r)"
      by cases (use qr new p(2) run_invD(5)[OF inv, of q n r] in auto)
    then show ?thesis by (rule first_seen_before_snoc)
  qed
qed

lemma run_inv_clean:
  assumes inv: "run_inv t m h"
  shows "run_inv t (cleanup t m) h"
proof (rule run_invI)
  have d: "distinct (map fst m)" using run_invD(1)[OF inv] by (simp add: cache_wf_def)
  show "cache_wf (cleanup t m)" using run_invD(1)[OF inv] by (rule cache_wf_cleanup)
  show "ne_seen e \<le> t \<and> (\<exists>p\<in>accepted h n. p_time p = ne_seen e)" if "map_of (cleanup t m) n = Some e" for n e
    using that run_invD(2)[OF inv] by (auto simp: map_of_cleanup[OF d] split: option.splits if_splits)
  show "first_seen_before h n (p_time p) t" if p: "p \<in> accepted h n" "\<not> vouched (cleanup t m) p" for n p
  proof (cases "vouched m p")
    case True
    then obtain e where e: "map_of m n = Some e" "ne_seen e \<le> p_time p" "ne_seen e < t - retention"
      using p by (auto simp: vouched_def accepted_def map_of_cleanup[OF d] split: if_splits)
    then obtain q where "q \<in> accepted h n" "p_time q = ne_seen e" using run_invD(2)[OF inv] by blast
    with e show ?thesis unfolding first_seen_before_def by (intro bexI[of _ q]) auto
  qed (use p run_invD(4)[OF inv] in blast)
qed (use run_invD(3,5)[OF inv] in blast)+

lemma nonce_run_inv: "nonce_run t m h \<Longrightarrow> run_inv t m h"
proof (induction rule: nonce_run.induct)
  case (start t)
  then show ?case using cache_wf_new by (simp add: run_inv_def NewNonceCache_def accepted_def)
next
  case (check t m h t' scope nonce ok m')
  let ?p = "\<lparr>p_time = t', p_scope = scope, p_nonce = nonce, p_accepted = ok\<rparr>"
  have inv: "run_inv t' m h" using check.IH check.hyps(2) by (rule run_inv_mono)
  show ?case
  proof (cases ok)
    case False
    then have "m' = m" using check.hyps(3) by (auto simp: CheckAndAdd_def split: if_splits option.splits)
    then show ?thesis using run_inv_rejected[OF inv, of ?p] False by simp
  next
    case True
    have wf: "cache_wf m'" using cache_wf_check[OF run_invD(1)[OF inv]] check.hyps(3) by (metis snd_conv)
    show ?thesis
    proof (cases "map_of m nonce")
      case None
      then show ?thesis using True check.hyps(3)
        by (intro run_inv_accepted[OF inv wf]) (auto simp: CheckAndAdd_def split: if_splits)
    next
      case (Some e)
      then show ?thesis using True check.hyps(3) run_invD(2)[OF inv Some]
        by (intro run_inv_accepted[OF inv wf]) (auto simp: CheckAndAdd_def split: if_splits)
    qed
  qed
next
  case (clean t m h t')
  then show ?case using run_inv_mono run_inv_clean by blast
qed

section \<open>Properties\<close>


text \<open>What one check does: an empty nonce is refused and never stored, an unknown nonce is accepted
  and bound to the scope, a known one is accepted exactly in its own scope without a change of the
  cache; a presentation that was accepted is accepted again, however often, until a cleanup.\<close>

theorem check_and_add_exact:
  "CheckAndAdd now scope [] m = (False, m)
   \<and> (nonce \<noteq> [] \<and> map_of m nonce = None \<longrightarrow>
        fst (CheckAndAdd now scope nonce m)
        \<and> map_of (snd (CheckAndAdd now scope nonce m)) =
            (map_of m)(nonce \<mapsto> \<lparr>ne_scope = scope, ne_seen = now\<rparr>))
   \<and> (nonce \<noteq> [] \<and> map_of m nonce = Some e \<longrightarrow>
        CheckAndAdd now scope nonce m = (ne_scope e = scope, m))
   \<and> (fst (CheckAndAdd now scope nonce m) \<longrightarrow>
        CheckAndAdd later scope nonce (snd (CheckAndAdd now scope nonce m))
          = (True, snd (CheckAndAdd now scope nonce m)))"
  by (auto simp: CheckAndAdd_def split: option.splits)

lemma example_nonce_run:
  "nonce_run 7 [(''n'', \<lparr>ne_scope = ''a'', ne_seen = 5\<rparr>)]
     [\<lparr>p_time = 5, p_scope = ''a'', p_nonce = ''n'', p_accepted = True\<rparr>,
      \<lparr>p_time = 6, p_scope = ''b'', p_nonce = ''n'', p_accepted = False\<rparr>,
      \<lparr>p_time = 7, p_scope = ''a'', p_nonce = ''n'', p_accepted = True\<rparr>]"
proof -
  let ?m = "[(''n'', \<lparr>ne_scope = ''a'', ne_seen = 5\<rparr>)]"
  have 1: "nonce_run 5 ?m [\<lparr>p_time = 5, p_scope = ''a'', p_nonce = ''n'', p_accepted = True\<rparr>]"
    using nonce_run.check[OF nonce_run.start[of 5], of 5 "''a''" "''n''" True ?m]
    by (simp add: CheckAndAdd_def NewNonceCache_def)
  note 2 = nonce_run.check[OF 1, of 6 "''b''" "''n''" False ?m, simplified]
  then have 3: "nonce_run 6 ?m [\<lparr>p_time = 5, p_scope = ''a'', p_nonce = ''n'', p_accepted = True\<rparr>,
      \<lparr>p_time = 6, p_scope = ''b'', p_nonce = ''n'', p_accepted = False\<rparr>]"
    by (simp add: CheckAndAdd_def)
  show ?thesis
    using nonce_run.check[OF 3, of 7 "''a''" "''n''" True ?m] by (simp add: CheckAndAdd_def)
qed


theorem check_and_add_exact_witness:
  "fst (CheckAndAdd 5 ''a'' ''n'' []) \<and>
   CheckAndAdd 6 ''b'' ''n'' (snd (CheckAndAdd 5 ''a'' ''n'' [])) =
     (False, [(''n'', \<lparr>ne_scope = ''a'', ne_seen = 5\<rparr>)])"
proof -
  have "snd (CheckAndAdd 5 ''a'' ''n'' []) = [(''n'', \<lparr>ne_scope = ''a'', ne_seen = 5\<rparr>)]" by code_simp
  then show ?thesis
    using check_and_add_exact[of 5 "''a''" "[]" "''n''"]
      check_and_add_exact[of 6 "''b''" "[(''n'', \<lparr>ne_scope = ''a'', ne_seen = 5\<rparr>)]" "''n''" "\<lparr>ne_scope = ''a'', ne_seen = 5\<rparr>"]
    by simp
qed

end
