(* ===== verification/Admission.thy ===== *)
theory Admission
  imports Clc Nonce_Cache Crl
begin

text \<open>
  The admission engine (\<^verbatim>\<open>CheckAdmission\<close> in \<^verbatim>\<open>src/decision.go\<close>) and the source chain it reports
  (\<^verbatim>\<open>src/sources.go\<close>). The handler is split at its comments into one definition per group of checks,
  in the order of the code; each yields a reason to refuse or what the next group needs. The state it
  may change is the nonce cache and the list of unknown constraint types written to the audit log.
  The clock is read once and handed to every check.
\<close>

section \<open>Environment\<close>

record admission_env =
  ae_pki :: pki_ops
  ae_crypto :: crypto_ops
  ae_clc :: clc_ops
  ae_registry :: constraint_registry
  ae_now :: instant
  ae_ValidateChain :: "source_ref list \<Rightarrow> string option"

section \<open>Sources\<close>

definition certID :: "certificate \<Rightarrow> string" where
  "certID c = ''serial:'' @ text16 (cert_SerialNumber c)"

definition issuerName :: "certificate \<Rightarrow> string" where
  "issuerName c = (if cert_IssuerCommonName c \<noteq> [] then cert_IssuerCommonName c else cert_Issuer c)"

definition source_of :: "crypto_ops \<Rightarrow> string \<Rightarrow> certificate \<Rightarrow> source_ref" where
  "source_of C kind c =
     \<lparr>sr_Kind = kind, sr_ID = certID c, sr_Issuer = issuerName c, sr_Digest = Sum256 C (cert_Raw c)\<rparr>"

definition BuildSourceChain ::
    "admission_env \<Rightarrow> certificate option \<Rightarrow> aic option \<Rightarrow> certificate option \<Rightarrow> string + source_ref list" where
  "BuildSourceChain A clientCert aic_opt userCert =
     (case clientCert of None \<Rightarrow> Inl ''no client certificate'' | Some c \<Rightarrow>
      let sources = source_of (ae_crypto A) (if aic_opt = None then ''principal-cert'' else ''aic-x509'') c
            # (case userCert of None \<Rightarrow> [] | Some u \<Rightarrow> [source_of (ae_crypto A) ''principal-cert'' u])
      in case ae_ValidateChain A sources of Some e \<Rightarrow> Inl e | None \<Rightarrow> Inr sources)"

section \<open>The checks\<close>

definition Validate_config :: "admission_config \<Rightarrow> string option" where
  "Validate_config c =
     (if DisallowRepresentative c \<and> \<not> RequireAIC c then Some ''disallow_representative requires require_aic''
      else if RequireUserPermission c \<and> \<not> RequireAIC c then Some ''require_user_permission requires require_aic''
      else None)"

definition currentPrincipalCert :: "admission_config \<Rightarrow> certificate option" where
  "currentPrincipalCert cfg =
     (case UserCert cfg of
        Some u \<Rightarrow> Some u
      | None \<Rightarrow> (case CredentialBundle cfg of Some b \<Rightarrow> bundle_Principal (Some b) | None \<Rightarrow> None))"

definition admissionConstraintRegistry :: "admission_env \<Rightarrow> admission_config \<Rightarrow> constraint_registry" where
  "admissionConstraintRegistry A cfg = (case ConstraintRegistry cfg of Some r \<Rightarrow> r | None \<Rightarrow> ae_registry A)"

text \<open>Field validation, capability sizes and the nonce length.\<close>

definition adm_aic_fields :: "admission_env \<Rightarrow> admission_config \<Rightarrow> aic option \<Rightarrow> admission_reason option" where
  "adm_aic_fields A cfg aic_opt =
     (case aic_opt of None \<Rightarrow> None | Some a \<Rightarrow>
      case ValidateAIC (ae_pki A) a of Some e \<Rightarrow> Some (AICValidation e) | None \<Rightarrow>
      case (if EnforceCapSizeConstraints cfg then validateCapSizeConstraints (aic_Capabilities a) else None) of
        Some e \<Rightarrow> Some (CapSizeReason e)
      | None \<Rightarrow>
          if EnforceSize32 cfg \<and> length (da_Nonce (aic_DelegationAuthorization a)) \<noteq> 32
          then Some (NonceLength (length (da_Nonce (aic_DelegationAuthorization a)))) else None)"

text \<open>The principal authorization in force: the certificate's own, unless a current principal
  certificate with a matching key hash carries one.\<close>

definition adm_principal_authorization ::
    "admission_env \<Rightarrow> admission_config \<Rightarrow> certificate \<Rightarrow> admission_reason + principal_authorization option" where
  "adm_principal_authorization A cfg cert =
     (case ParseUserPermissionExtension (ae_pki A) cert of Inl e \<Rightarrow> Inl (PAParseReason e) | Inr pa \<Rightarrow>
      let current =
            (case currentPrincipalCert cfg of
               None \<Rightarrow> pa
             | Some pc \<Rightarrow>
                 (case ParseUserPermissionExtension (ae_pki A) pc of
                    Inr (Some pa2) \<Rightarrow>
                      if VerifyPrincipalKeyHash (ae_pki A) (ae_crypto A) (Some cert) (Some pc) = None
                      then Some pa2 else pa
                  | _ \<Rightarrow> pa))
      in if pa = None \<and> RequireUserPermission cfg then Inl PARequired else Inr current)"

definition adm_pa_constraints ::
    "admission_env \<Rightarrow> admission_config \<Rightarrow> principal_authorization option \<Rightarrow> admission_reason option" where
  "adm_pa_constraints A cfg pa_opt =
     (case pa_opt of None \<Rightarrow> None | Some pa \<Rightarrow>
      let reg = admissionConstraintRegistry A cfg; cs = pa_AuthorizationConstraints pa in
      if \<not> EnforceConstraints cfg \<or> cs = [] then None
      else case checkConstraintsReg reg cs (ClientIP cfg) (ae_now A) of Some e \<Rightarrow> Some (PAConstraint e) | None \<Rightarrow>
           case (if StrictConstraints cfg then firstUnknownConstraintReg reg cs else None) of
             Some u \<Rightarrow> Some (PAUnknownConstraint (CapabilityId u)) | None \<Rightarrow> None)"

definition adm_aic_constraints ::
    "admission_env \<Rightarrow> admission_config \<Rightarrow> aic option \<Rightarrow> admission_reason option" where
  "adm_aic_constraints A cfg aic_opt =
     (case aic_opt of None \<Rightarrow> None | Some a \<Rightarrow>
      let reg = admissionConstraintRegistry A cfg; cs = aic_AuthorizationConstraints a in
      if \<not> EnforceConstraints cfg \<or> cs = [] then None
      else case (if StrictConstraints cfg then firstUnknownConstraintReg reg cs else None) of
             Some u \<Rightarrow> Some (AICUnknownConstraint (CapabilityId u))
           | None \<Rightarrow>
               (case checkConstraintsReg reg cs (ClientIP cfg) (ae_now A) of
                  Some e \<Rightarrow> Some (AICConstraint e) | None \<Rightarrow> None))"

text \<open>The audit warnings for unknown constraint types, written once the constraints passed.\<close>

definition adm_audit_warnings :: "admission_env \<Rightarrow> admission_config \<Rightarrow> aic option \<Rightarrow> string list" where
  "adm_audit_warnings A cfg aic_opt =
     (case aic_opt of None \<Rightarrow> [] | Some a \<Rightarrow>
      if EnforceConstraints cfg \<and> UseAuditLogger cfg
      then map CapabilityId (filter (\<lambda>c. \<not> isKnownConstraintTypeReg (admissionConstraintRegistry A cfg) (CapabilityId c))
             (aic_AuthorizationConstraints a))
      else [])"

text \<open>Protocol, rule and required capabilities.\<close>

definition adm_required ::
    "admission_env \<Rightarrow> admission_config \<Rightarrow> aic option \<Rightarrow> principal_authorization option \<Rightarrow> admission_reason option" where
  "adm_required A cfg aic_opt pa_opt =
     (case (case aic_opt of None \<Rightarrow> None | Some a \<Rightarrow>
              if RequiredProtocol cfg \<noteq> [] \<and> \<not> HasProtocol (ae_pki A) a (RequiredProtocol cfg)
              then Some (ProtocolMissing (RequiredProtocol cfg))
              else if RequiredRuleId cfg \<noteq> [] \<and> \<not> CheckPermission (ae_pki A) a (RequiredRuleId cfg)
              then Some (RuleMissing (RequiredRuleId cfg)) else None) of
        Some r \<Rightarrow> Some r
      | None \<Rightarrow>
          (let effective = (case aic_opt of Some a \<Rightarrow> aic_Capabilities a
                            | None \<Rightarrow> (case pa_opt of Some pa \<Rightarrow> pa_Grants pa | None \<Rightarrow> []));
               missing = filter (\<lambda>req. \<not> aicCapabilityMatches effective req) (RequiredCapabilities cfg)
           in if missing \<noteq> [] then Some (MissingCapabilities missing) else None))"

definition adm_mode ::
    "admission_config \<Rightarrow> aic option \<Rightarrow> principal_authorization option \<Rightarrow> admission_reason option" where
  "adm_mode cfg aic_opt pa_opt =
     (case aic_opt of None \<Rightarrow> None | Some a \<Rightarrow>
      if aic_DelegationMode a \<noteq> DelegationRepresentative then None
      else if DisallowRepresentative cfg then Some RepresentativeDisallowed
      else case pa_opt of None \<Rightarrow> Some RepresentativeNeedsPA
           | Some pa \<Rightarrow> if pa_AllowedMode pa \<noteq> 1 then Some RepresentativeNotAllowed else None)"

text \<open>The certificate the delegation authorization is verified with: configured, from the bundle, by
  resolver, or the peer's own when its key is the principal's.\<close>

definition adm_bundle_cert ::
    "admission_env \<Rightarrow> admission_config \<Rightarrow> certificate \<Rightarrow> admission_reason + certificate option" where
  "adm_bundle_cert A cfg cert =
     (case UserCert cfg of Some u \<Rightarrow> Inr (Some u) | None \<Rightarrow>
      case CredentialBundle cfg of None \<Rightarrow> Inr None | Some b \<Rightarrow>
      case bundle_Principal (Some b) of None \<Rightarrow> Inr None | Some u \<Rightarrow>
      case VerifyPrincipalKeyHash (ae_pki A) (ae_crypto A) (Some cert) (Some u) of
        Some e \<Rightarrow> Inl (BundleRejected e) | None \<Rightarrow> Inr (Some u))"

definition adm_resolved_cert ::
    "admission_config \<Rightarrow> aic \<Rightarrow> certificate option \<Rightarrow> admission_reason + certificate option" where
  "adm_resolved_cert cfg a found =
     (case found of Some u \<Rightarrow> Inr (Some u) | None \<Rightarrow>
      case UserCertResolver cfg of None \<Rightarrow> Inr None | Some resolve \<Rightarrow>
      if length (pu_KeyHash (aic_PrincipalUid a)) > 0
      then (case resolve (pu_KeyHash (aic_PrincipalUid a)) of Inl e \<Rightarrow> Inl (ResolveUserCert e) | Inr u \<Rightarrow> Inr u)
      else Inr None)"

definition adm_self_cert :: "admission_env \<Rightarrow> aic \<Rightarrow> certificate \<Rightarrow> certificate option \<Rightarrow> admission_reason + certificate" where
  "adm_self_cert A a cert found =
     (case found of Some u \<Rightarrow> Inr u | None \<Rightarrow>
      let uid = aic_PrincipalUid a in
      if length (pu_KeyHash uid) > 0 then
        (if length (HashAlgoOID (ae_pki A) uid) > 0 \<and> HashAlgoOID (ae_pki A) uid \<noteq> OIDSHA256 (ae_pki A)
         then Inl KeyHashAlgorithm
         else if Sum256 (ae_crypto A) (cert_RawSubjectPublicKeyInfo cert) \<noteq> pu_KeyHash uid
         then Inl AuthorizationCertRequired
         else Inr cert)
      else Inl NoKeyHashBinding)"

definition adm_user_cert ::
    "admission_env \<Rightarrow> admission_config \<Rightarrow> aic \<Rightarrow> certificate \<Rightarrow> admission_reason + certificate" where
  "adm_user_cert A cfg a cert =
     (case adm_bundle_cert A cfg cert of Inl r \<Rightarrow> Inl r | Inr found1 \<Rightarrow>
      case adm_resolved_cert cfg a found1 of Inl r \<Rightarrow> Inl r | Inr found2 \<Rightarrow>
      adm_self_cert A a cert found2)"

definition adm_delegation_auth ::
    "admission_env \<Rightarrow> admission_config \<Rightarrow> aic option \<Rightarrow> certificate \<Rightarrow> admission_reason option" where
  "adm_delegation_auth A cfg aic_opt cert =
     (case aic_opt of None \<Rightarrow> None | Some a \<Rightarrow>
      if SkipDelegationAuthVerification cfg then None
      else if length (da_SignatureValue (aic_DelegationAuthorization a)) = 0 then Some DASignatureEmpty
      else case adm_user_cert A cfg a cert of Inl r \<Rightarrow> Some r | Inr userCert \<Rightarrow>
           case VerifyDelegationAuthWithAgent (ae_pki A) (ae_crypto A) (Some a) (Some userCert) (Some cert) of
             Some e \<Rightarrow> Some (DARejected e)
           | None \<Rightarrow>
               if CheckDAAge cfg then
                 (case CheckDAFreshness (da_Timestamp (aic_DelegationAuthorization a)) (ae_now A) (DAAgeMax cfg) of
                    Some e \<Rightarrow> Some (DAStale e) | None \<Rightarrow> None)
               else None)"

text \<open>\<^verbatim>\<open>SerialNumber.String()\<close>: decimal.\<close>

definition serial_string :: "int \<Rightarrow> string" where
  "serial_string n = (if n < 0 then ''-'' else []) @ dec_nat (nat \<bar>n\<bar>)"

definition nonce_scope :: "certificate \<Rightarrow> string" where
  "nonce_scope cert = cert_Issuer cert @ ''/'' @ serial_string (cert_SerialNumber cert)"

definition adm_nonce ::
    "admission_env \<Rightarrow> admission_config \<Rightarrow> aic option \<Rightarrow> certificate \<Rightarrow> nonce_cache \<Rightarrow> bool \<times> nonce_cache" where
  "adm_nonce A cfg aic_opt cert nc =
     (case aic_opt of None \<Rightarrow> (True, nc) | Some a \<Rightarrow>
      let nonce = da_Nonce (aic_DelegationAuthorization a) in
      if length nonce > 0 \<and> UseNonceCache cfg then CheckAndAdd (ae_now A) (nonce_scope cert) nonce nc
      else (True, nc))"

definition adm_effective ::
    "admission_env \<Rightarrow> admission_config \<Rightarrow> aic option \<Rightarrow> principal_authorization option
     \<Rightarrow> admission_reason + capability list" where
  "adm_effective A cfg aic_opt pa_opt =
     (case aic_opt of
        None \<Rightarrow> Inr (case pa_opt of Some pa \<Rightarrow> pa_Grants pa | None \<Rightarrow> [])
      | Some a \<Rightarrow>
          (case pa_opt of
             None \<Rightarrow> Inr (aic_Capabilities a)
           | Some pa \<Rightarrow>
               if aic_DelegationMode a \<noteq> DelegationRepresentative then Inr (aic_Capabilities a)
               else if aic_Capabilities a \<noteq> [] \<and> GrantIds (ae_pki A) pa \<noteq> [] then
                 (let intersection = IntersectPermissions (ae_pki A) a pa in
                  if intersection = [] then Inl NoIntersection
                  else if RejectOverflow cfg \<and> length intersection < length (aic_Capabilities a)
                  then Inl CapabilityOverflow
                  else Inr (effectiveCapabilities (aic_Capabilities a) (GrantIds (ae_pki A) pa)))
               else if aic_Capabilities a \<noteq> [] then Inl NoIntersection
               else Inr []))"

section \<open>The handler\<close>

definition admission_start ::
    "admission_env \<Rightarrow> admission_config \<Rightarrow> certificate \<Rightarrow> aic option \<Rightarrow> admission_result" where
  "admission_start A cfg cert aic_opt =
     zero_admission\<lparr>ar_AIC := aic_opt,
       ar_PrincipalUid := (case aic_opt of None \<Rightarrow> ouFallbackPrincipal (Some cert)
                           | Some a \<Rightarrow> PrincipalUidString (ae_pki A) (aic_PrincipalUid a)),
       ar_Sources := (case BuildSourceChain A (Some cert) aic_opt (UserCert cfg) of
                        Inl e \<Rightarrow> None | Inr src \<Rightarrow> Some src)\<rparr>"

text \<open>The checks up to the operation layer, for a certificate whose AIC is parsed: a reason to refuse, or
  the principal authorization in force.\<close>

definition admission_precheck ::
    "admission_env \<Rightarrow> admission_config \<Rightarrow> certificate \<Rightarrow> aic option
     \<Rightarrow> admission_reason + principal_authorization option" where
  "admission_precheck A cfg cert aic_opt =
     (if aic_opt = None \<and> RequireAIC cfg then Inl AICRequired
      else case adm_aic_fields A cfg aic_opt of Some r \<Rightarrow> Inl r | None \<Rightarrow>
           case adm_principal_authorization A cfg cert of Inl r \<Rightarrow> Inl r | Inr pa \<Rightarrow>
           case adm_pa_constraints A cfg pa of Some r \<Rightarrow> Inl r | None \<Rightarrow>
           case adm_aic_constraints A cfg aic_opt of Some r \<Rightarrow> Inl r | None \<Rightarrow> Inr pa)"

text \<open>The checks after the operation layer.\<close>

definition admission_finish ::
    "admission_env \<Rightarrow> admission_config \<Rightarrow> certificate \<Rightarrow> aic option \<Rightarrow> admission_result \<Rightarrow> nonce_cache
     \<Rightarrow> admission_result \<times> nonce_cache" where
  "admission_finish A cfg cert aic_opt result nc =
     (case adm_mode cfg aic_opt (ar_PA result) of Some r \<Rightarrow> (deny_bare r, nc) | None \<Rightarrow>
      case adm_delegation_auth A cfg aic_opt cert of Some r \<Rightarrow> (deny_bare r, nc) | None \<Rightarrow>
      case adm_nonce A cfg aic_opt cert nc of (ok, nc') \<Rightarrow>
      if \<not> ok then (deny_bare NonceReplay, nc')
      else case adm_effective A cfg aic_opt (ar_PA result) of
             Inl r \<Rightarrow> (deny_bare r, nc')
           | Inr caps \<Rightarrow> (result\<lparr>ar_EffectiveCaps := caps\<rparr>, nc'))"

definition CheckAdmission ::
    "admission_env \<Rightarrow> certificate option \<Rightarrow> admission_config \<Rightarrow> nonce_cache
     \<Rightarrow> admission_result \<times> nonce_cache \<times> string list" where
  "CheckAdmission A cert_opt cfg nc =
     (case cert_opt of None \<Rightarrow> (deny_bare NilCertificateReason, nc, []) | Some cert \<Rightarrow>
      case ParseAIC (ae_pki A) cert of Inl e \<Rightarrow> (deny_bare (AICParseReason e), nc, []) | Inr aic_opt \<Rightarrow>
      case admission_precheck A cfg cert aic_opt of Inl r \<Rightarrow> (deny_bare r, nc, []) | Inr pa \<Rightarrow>
      let warnings = adm_audit_warnings A cfg aic_opt;
          result = (admission_start A cfg cert aic_opt)\<lparr>ar_PA := pa\<rparr>
      in case adm_required A cfg aic_opt pa of Some r \<Rightarrow> (deny_bare r, nc, warnings) | None \<Rightarrow>
         case evaluateCLCOperations (ae_pki A) (ae_clc A) (ae_now A) aic_opt result cfg of
           (Some refusal, _) \<Rightarrow> (refusal, nc, warnings)
         | (None, result') \<Rightarrow>
             (case admission_finish A cfg cert aic_opt result' nc of (r, nc') \<Rightarrow> (r, nc', warnings)))"

section \<open>Lemmas\<close>

lemma deny_bare_Decision [simp]: "ar_Decision (deny_bare r) = DecisionDeny"
  by (simp add: deny_bare_def)

lemma evaluate_refusal_denies:
  "evaluateCLCOperations P S now a result cfg = (Some refusal, result') \<Longrightarrow> ar_Decision refusal = DecisionDeny"
  using clc_loop_refusal[of P S now cfg a result "Operations cfg" "ar_OperationDecisions result" refusal]
  by (auto simp: evaluateCLCOperations_def split: prod.splits)

lemma evaluate_result:
  "evaluateCLCOperations P S now a result cfg = (x, result') \<Longrightarrow>
   ar_Decision result' = ar_Decision result \<and> ar_PA result' = ar_PA result \<and> ar_AIC result' = ar_AIC result"
  by (auto simp: evaluateCLCOperations_def split: prod.splits)

lemma evaluate_admits:
  "evaluateCLCOperations P S now a result cfg = (None, result') \<Longrightarrow>
   list_all (operation_admitted P S now cfg a (ar_PA result)) (Operations cfg)"
  using clc_loop_admits[of P S now cfg a result "Operations cfg" "ar_OperationDecisions result"]
  by (auto simp: evaluateCLCOperations_def split: prod.splits)

lemma admission_start_simps [simp]:
  "ar_Decision (admission_start A cfg cert a) = DecisionAllow" "ar_AIC (admission_start A cfg cert a) = a"
  "ar_OperationDecisions (admission_start A cfg cert a) = []"
  by (simp_all add: admission_start_def zero_admission_def)

text \<open>The path of an allowed request through the handler.\<close>

lemma CheckAdmission_allow:
  assumes "CheckAdmission A cert_opt cfg nc = (r, nc', w)" "ar_Decision r = DecisionAllow"
  obtains cert aic_opt pa where
    "cert_opt = Some cert" "ParseAIC (ae_pki A) cert = Inr aic_opt"
    "admission_precheck A cfg cert aic_opt = Inr pa" "adm_required A cfg aic_opt pa = None"
    "list_all (operation_admitted (ae_pki A) (ae_clc A) (ae_now A) cfg aic_opt pa) (Operations cfg)"
    "adm_mode cfg aic_opt pa = None" "adm_delegation_auth A cfg aic_opt cert = None"
    "adm_nonce A cfg aic_opt cert nc = (True, nc')"
    "adm_effective A cfg aic_opt pa = Inr (ar_EffectiveCaps r)"
    "ar_PA r = pa" "ar_AIC r = aic_opt"
proof -
  obtain cert where cert: "cert_opt = Some cert"
    using assms by (auto simp: CheckAdmission_def split: option.splits)
  obtain aic_opt where aic: "ParseAIC (ae_pki A) cert = Inr aic_opt"
    using assms cert by (auto simp: CheckAdmission_def split: sum.splits)
  obtain pa where pa: "admission_precheck A cfg cert aic_opt = Inr pa"
    using assms cert aic by (auto simp: CheckAdmission_def split: sum.splits)
  have req: "adm_required A cfg aic_opt pa = None"
    using assms cert aic pa by (auto simp: CheckAdmission_def Let_def split: option.splits)
  let ?res = "(admission_start A cfg cert aic_opt)\<lparr>ar_PA := pa\<rparr>"
  obtain x result where ev: "evaluateCLCOperations (ae_pki A) (ae_clc A) (ae_now A) aic_opt ?res cfg = (x, result)"
    by fastforce
  then have x: "x = None"
    using assms cert aic pa req
    by (cases x) (auto simp: CheckAdmission_def Let_def dest: evaluate_refusal_denies)
  have fin: "admission_finish A cfg cert aic_opt result nc = (r, nc')"
    using assms(1) cert aic pa req ev x
    by (auto simp: CheckAdmission_def Let_def split: prod.splits)
  have res: "ar_PA result = pa" "ar_AIC result = aic_opt" using evaluate_result[OF ev] by simp_all
  have ops: "list_all (operation_admitted (ae_pki A) (ae_clc A) (ae_now A) cfg aic_opt pa) (Operations cfg)"
    using evaluate_admits[OF ev[unfolded x]] by simp
  have "adm_mode cfg aic_opt pa = None" "adm_delegation_auth A cfg aic_opt cert = None"
    "adm_nonce A cfg aic_opt cert nc = (True, nc')"
    "adm_effective A cfg aic_opt pa = Inr (ar_EffectiveCaps r)" "ar_PA r = pa" "ar_AIC r = aic_opt"
    using fin assms(2) res
    by (auto simp: admission_finish_def split: option.splits prod.splits if_splits sum.splits)
  then show thesis by (rule that[OF cert aic pa req ops])
qed

lemma adm_constraints_strict:
  assumes "adm_aic_constraints A cfg (Some a) = None" "EnforceConstraints cfg"
  shows "checkConstraintsReg (admissionConstraintRegistry A cfg) (aic_AuthorizationConstraints a) (ClientIP cfg) (ae_now A) = None"
    and "StrictConstraints cfg \<Longrightarrow>
      firstUnknownConstraintReg (admissionConstraintRegistry A cfg) (aic_AuthorizationConstraints a) = None"
  using assms
  by (auto simp: adm_aic_constraints_def Let_def checkConstraintsReg_def split: if_splits option.splits)

lemma adm_pa_constraints_strict:
  assumes "adm_pa_constraints A cfg (Some pa) = None" "EnforceConstraints cfg"
  shows "checkConstraintsReg (admissionConstraintRegistry A cfg) (pa_AuthorizationConstraints pa) (ClientIP cfg) (ae_now A) = None"
    and "StrictConstraints cfg \<Longrightarrow>
      firstUnknownConstraintReg (admissionConstraintRegistry A cfg) (pa_AuthorizationConstraints pa) = None"
  using assms
  by (auto simp: adm_pa_constraints_def Let_def checkConstraintsReg_def split: if_splits option.splits)

lemma admission_precheck_Inr:
  assumes "admission_precheck A cfg cert aic_opt = Inr pa"
  shows "(RequireAIC cfg \<longrightarrow> aic_opt \<noteq> None)" "adm_aic_fields A cfg aic_opt = None"
    "adm_principal_authorization A cfg cert = Inr pa" "adm_pa_constraints A cfg pa = None"
    "adm_aic_constraints A cfg aic_opt = None"
  using assms by (auto simp: admission_precheck_def split: if_splits)

text \<open>Where the verifying certificate can come from.\<close>

definition principal_source :: "admission_env \<Rightarrow> admission_config \<Rightarrow> aic \<Rightarrow> certificate \<Rightarrow> certificate \<Rightarrow> bool" where
  "principal_source A cfg a cert u \<longleftrightarrow>
     UserCert cfg = Some u
     \<or> (UserCert cfg = None \<and> bundle_Principal (CredentialBundle cfg) = Some u
        \<and> VerifyPrincipalKeyHash (ae_pki A) (ae_crypto A) (Some cert) (Some u) = None)
     \<or> (UserCert cfg = None \<and> pu_KeyHash (aic_PrincipalUid a) \<noteq> []
        \<and> (\<exists>resolve. UserCertResolver cfg = Some resolve \<and> resolve (pu_KeyHash (aic_PrincipalUid a)) = Inr (Some u)))
     \<or> (u = cert \<and> pu_KeyHash (aic_PrincipalUid a) \<noteq> []
        \<and> Sum256 (ae_crypto A) (cert_RawSubjectPublicKeyInfo cert) = pu_KeyHash (aic_PrincipalUid a))"

lemma adm_user_cert_source:
  assumes "adm_user_cert A cfg a cert = Inr u"
  shows "principal_source A cfg a cert u"
proof -
  obtain f1 where f1: "adm_bundle_cert A cfg cert = Inr f1" using assms by (auto simp: adm_user_cert_def)
  then obtain f2 where f2: "adm_resolved_cert cfg a f1 = Inr f2" using assms by (auto simp: adm_user_cert_def)
  have self: "adm_self_cert A a cert f2 = Inr u" using assms f1 f2 by (simp add: adm_user_cert_def)
  have b: "f1 = Some v \<Longrightarrow> UserCert cfg = Some v \<or> (UserCert cfg = None \<and> bundle_Principal (CredentialBundle cfg) = Some v
      \<and> VerifyPrincipalKeyHash (ae_pki A) (ae_crypto A) (Some cert) (Some v) = None)"
    and n: "f1 = None \<Longrightarrow> UserCert cfg = None" for v
    using f1 by (auto simp: adm_bundle_cert_def split: option.splits)
  have r: "f2 = Some v \<Longrightarrow> f1 = Some v \<or> (f1 = None \<and> pu_KeyHash (aic_PrincipalUid a) \<noteq> []
      \<and> (\<exists>resolve. UserCertResolver cfg = Some resolve \<and> resolve (pu_KeyHash (aic_PrincipalUid a)) = Inr (Some v)))" for v
    using f2 by (auto simp: adm_resolved_cert_def split: option.splits if_splits sum.splits)
  show ?thesis
  proof (cases f2)
    case (Some v)
    then have "v = u" using self by (simp add: adm_self_cert_def)
    with Some r[of u] b[of u] n show ?thesis by (auto simp: principal_source_def)
  next
    case None
    then show ?thesis using self by (auto simp: adm_self_cert_def Let_def principal_source_def split: if_splits)
  qed
qed

lemma adm_delegation_auth_None:
  assumes "adm_delegation_auth A cfg (Some a) cert = None" "\<not> SkipDelegationAuthVerification cfg"
  shows "\<exists>u. principal_source A cfg a cert u
      \<and> VerifyDelegationAuthWithAgent (ae_pki A) (ae_crypto A) (Some a) (Some u) (Some cert) = None"
    and "CheckDAAge cfg \<Longrightarrow>
      CheckDAFreshness (da_Timestamp (aic_DelegationAuthorization a)) (ae_now A) (DAAgeMax cfg) = None"
  using assms by (auto simp: adm_delegation_auth_def split: if_splits option.splits dest: adm_user_cert_source)

lemma set_effectiveCapabilities: "set (effectiveCapabilities declared grants) \<subseteq> set declared"
  by (induction declared) auto

lemma adm_effective_Inr:
  assumes "adm_effective A cfg (Some a) pa = Inr caps"
  shows "set caps \<subseteq> set (aic_Capabilities a)
    \<and> (aic_DelegationMode a \<noteq> DelegationRepresentative \<longrightarrow> caps = aic_Capabilities a)"
  using assms
  by (auto simp: adm_effective_def Let_def split: option.splits if_splits
      dest: set_effectiveCapabilities[THEN subsetD])

section \<open>Properties\<close>

text \<open>C17. No agent is admitted without a verified delegation: when a certificate with an AIC is allowed and
  the verification is not switched off, the AIC passed validation and its delegation authorization is
  signed by a principal certificate that was configured, came with the bundle under a matching key
  hash, was resolved by the key hash, or is the peer's own under a matching key hash; and where the
  age check is on, the authorization is fresh.\<close>

theorem admission_delegation_verified:
  assumes "CheckAdmission A (Some cert) cfg nc = (r, nc', w)" "ar_Decision r = DecisionAllow"
    and "ParseAIC (ae_pki A) cert = Inr (Some a)" "\<not> SkipDelegationAuthVerification cfg"
  shows "ValidateAIC (ae_pki A) a = None
    \<and> (\<exists>u. principal_source A cfg a cert u
         \<and> VerifyDelegationAuthWithAgent (ae_pki A) (ae_crypto A) (Some a) (Some u) (Some cert) = None)
    \<and> (CheckDAAge cfg \<longrightarrow>
         CheckDAFreshness (da_Timestamp (aic_DelegationAuthorization a)) (ae_now A) (DAAgeMax cfg) = None)"
proof -
  from assms(1,2) obtain pa where pre: "admission_precheck A cfg cert (Some a) = Inr pa"
    and da: "adm_delegation_auth A cfg (Some a) cert = None"
    by (rule CheckAdmission_allow) (use assms(3) in auto)
  have "ValidateAIC (ae_pki A) a = None"
    using admission_precheck_Inr(2)[OF pre] by (simp add: adm_aic_fields_def)
  with adm_delegation_auth_None[OF da assms(4)] show ?thesis by blast
qed


text \<open>C19. What an admitted request may do: every required capability is matched by the AIC's capabilities (or
  by the principal's grants when there is no AIC), every requested operation is admitted by the
  operation layer, representative mode occurs only where it is not disallowed and the principal
  authorization permits it, and the effective capabilities are among the AIC's, and equal to them
  outside representative mode.\<close>

theorem admission_capabilities_sound:
  assumes "CheckAdmission A (Some cert) cfg nc = (r, nc', w)" "ar_Decision r = DecisionAllow"
  shows "list_all (aicCapabilityMatches (case ar_AIC r of Some a \<Rightarrow> aic_Capabilities a
        | None \<Rightarrow> (case ar_PA r of Some pa \<Rightarrow> pa_Grants pa | None \<Rightarrow> []))) (RequiredCapabilities cfg)
    \<and> list_all (operation_admitted (ae_pki A) (ae_clc A) (ae_now A) cfg (ar_AIC r) (ar_PA r)) (Operations cfg)
    \<and> (\<forall>a. ar_AIC r = Some a \<longrightarrow>
        (aic_DelegationMode a = DelegationRepresentative \<longrightarrow>
           \<not> DisallowRepresentative cfg \<and> (\<exists>pa. ar_PA r = Some pa \<and> pa_AllowedMode pa = 1))
        \<and> set (ar_EffectiveCaps r) \<subseteq> set (aic_Capabilities a)
        \<and> (aic_DelegationMode a \<noteq> DelegationRepresentative \<longrightarrow> ar_EffectiveCaps r = aic_Capabilities a))"
proof -
  from assms obtain aic_opt pa where req: "adm_required A cfg aic_opt pa = None"
    and ops: "list_all (operation_admitted (ae_pki A) (ae_clc A) (ae_now A) cfg aic_opt pa) (Operations cfg)"
    and mode: "adm_mode cfg aic_opt pa = None" and eff: "adm_effective A cfg aic_opt pa = Inr (ar_EffectiveCaps r)"
    and r: "ar_PA r = pa" "ar_AIC r = aic_opt"
    by (rule CheckAdmission_allow) blast
  have "list_all (aicCapabilityMatches (case aic_opt of Some a \<Rightarrow> aic_Capabilities a
        | None \<Rightarrow> (case pa of Some pa \<Rightarrow> pa_Grants pa | None \<Rightarrow> []))) (RequiredCapabilities cfg)"
    using req by (simp add: adm_required_def Let_def filter_empty_conv list_all_iff)
  moreover have "(aic_DelegationMode a = DelegationRepresentative \<longrightarrow>
           \<not> DisallowRepresentative cfg \<and> (\<exists>q. pa = Some q \<and> pa_AllowedMode q = 1))" if "aic_opt = Some a" for a
    using mode that by (auto simp: adm_mode_def split: if_splits)
  moreover have "set (ar_EffectiveCaps r) \<subseteq> set (aic_Capabilities a)
        \<and> (aic_DelegationMode a \<noteq> DelegationRepresentative \<longrightarrow> ar_EffectiveCaps r = aic_Capabilities a)"
    if "aic_opt = Some a" for a
    using eff that adm_effective_Inr by blast
  ultimately show ?thesis using ops unfolding r by simp
qed

text \<open>A delegation authorization cannot be moved to another certificate: once a certificate was admitted
  with a nonce, no certificate of a different issuer or serial number whose AIC carries the same nonce
  is admitted against the resulting cache, whatever the rest of its content.\<close>

theorem admission_nonce_replay_refused:
  assumes "CheckAdmission A (Some cert) cfg nc = (r, nc', w)" "ar_Decision r = DecisionAllow"
    and "ParseAIC (ae_pki A) cert = Inr (Some a)" "UseNonceCache cfg"
    and "da_Nonce (aic_DelegationAuthorization a) \<noteq> []"
    and "ParseAIC (ae_pki A2) cert2 = Inr (Some a2)" "UseNonceCache cfg2"
    and "da_Nonce (aic_DelegationAuthorization a2) = da_Nonce (aic_DelegationAuthorization a)"
    and "nonce_scope cert2 \<noteq> nonce_scope cert"
  shows "ar_Decision (fst (CheckAdmission A2 (Some cert2) cfg2 nc')) \<noteq> DecisionAllow"
proof
  assume allow2: "ar_Decision (fst (CheckAdmission A2 (Some cert2) cfg2 nc')) = DecisionAllow"
  obtain r2 nc2 w2 where eq2: "CheckAdmission A2 (Some cert2) cfg2 nc' = (r2, nc2, w2)"
    by (metis prod_cases3)
  from assms(1,2) have n1: "adm_nonce A cfg (Some a) cert nc = (True, nc')"
    by (rule CheckAdmission_allow) (use assms(3) in auto)
  from eq2 allow2 have n2: "adm_nonce A2 cfg2 (Some a2) cert2 nc' = (True, nc2)"
    by (auto elim!: CheckAdmission_allow simp: assms(6))
  obtain e where "map_of nc' (da_Nonce (aic_DelegationAuthorization a)) = Some e" "ne_scope e = nonce_scope cert"
    using n1 assms(4,5) by (auto simp: adm_nonce_def Let_def CheckAndAdd_def split: option.splits)
  then show False
    using n2 assms(5,7-9) by (auto simp: adm_nonce_def Let_def CheckAndAdd_def)
qed

text \<open>Refused requests do not consume nonces: the cache changes only for a certificate whose delegation
  authorization verified (or need not be verified) and that passed every check before; a refusal for
  any other reason than the final capability intersection leaves the cache as it was.\<close>

theorem admission_nonce_consumed_last:
  assumes "CheckAdmission A cert_opt cfg nc = (r, nc', w)" "nc' \<noteq> nc"
  shows "\<exists>cert aic_opt. cert_opt = Some cert \<and> ParseAIC (ae_pki A) cert = Inr aic_opt
    \<and> adm_delegation_auth A cfg aic_opt cert = None
    \<and> (ar_Decision r = DecisionAllow \<or> ar_Reason r = NoIntersection \<or> ar_Reason r = CapabilityOverflow)"
proof -
  have nf: "admission_finish A cfg cert aic_opt result nc = (r, nc') \<Longrightarrow> ar_Decision result = DecisionAllow \<Longrightarrow>
     adm_delegation_auth A cfg aic_opt cert = None
    \<and> (ar_Decision r = DecisionAllow \<or> ar_Reason r = NoIntersection \<or> ar_Reason r = CapabilityOverflow)"
    for cert aic_opt result
    using assms(2)
    by (auto simp: admission_finish_def adm_nonce_def CheckAndAdd_def Let_def deny_bare_def adm_effective_def
        split: option.splits prod.splits if_splits sum.splits)
  show ?thesis
    using assms
    by (auto simp: CheckAdmission_def Let_def split: option.splits sum.splits prod.splits
        dest!: nf evaluate_result)
qed

section \<open>Witnesses\<close>

definition example_adm_env :: admission_env where
  "example_adm_env =
     \<lparr>ae_pki = example_pki\<lparr>ParseUserPermissionExtension := (\<lambda>c. Inr (Some example_pa))\<rparr>,
      ae_crypto = example_crypto, ae_clc = example_clc, ae_registry = globalConstraintRegistry example_env,
      ae_now = 130, ae_ValidateChain = (\<lambda>s. None)\<rparr>"

definition example_adm_result :: "admission_result \<times> nonce_cache \<times> string list" where
  "example_adm_result = CheckAdmission example_adm_env (Some example_cert) example_config []"

definition other_cert :: certificate where
  "other_cert = example_cert\<lparr>cert_SerialNumber := 8\<rparr>"

lemma example_adm_allow: "ar_Decision (fst example_adm_result) = DecisionAllow"
  by code_simp

lemma example_adm_eq: "CheckAdmission example_adm_env (Some example_cert) example_config []
   = (fst example_adm_result, fst (snd example_adm_result), snd (snd example_adm_result))"
  by (simp add: example_adm_result_def)

lemma example_adm_parse: "ParseAIC (ae_pki example_adm_env) c = Inr (Some example_aic)"
  by (simp add: example_adm_env_def example_pki_def)

theorem admission_delegation_verified_witness:
  "\<exists>u. principal_source example_adm_env example_config example_aic example_cert u
     \<and> VerifyDelegationAuthWithAgent (ae_pki example_adm_env) (ae_crypto example_adm_env) (Some example_aic) (Some u)
         (Some example_cert) = None"
  using admission_delegation_verified[OF example_adm_eq example_adm_allow example_adm_parse]
  by (simp add: example_config_def)


theorem admission_capabilities_sound_witness:
  "list_all (aicCapabilityMatches (case ar_AIC (fst example_adm_result) of Some a \<Rightarrow> aic_Capabilities a
        | None \<Rightarrow> (case ar_PA (fst example_adm_result) of Some pa \<Rightarrow> pa_Grants pa | None \<Rightarrow> []))) [''db:read'']"
  using admission_capabilities_sound[OF example_adm_eq example_adm_allow]
  by (simp add: example_config_def)

theorem admission_nonce_replay_refused_witness:
  "ar_Decision (fst (CheckAdmission example_adm_env (Some other_cert) example_config
     (fst (snd example_adm_result)))) \<noteq> DecisionAllow"
proof -
  have n: "nonce_scope other_cert \<noteq> nonce_scope example_cert" by code_simp
  show ?thesis
    by (rule admission_nonce_replay_refused[OF example_adm_eq example_adm_allow example_adm_parse _ _
          example_adm_parse _ _ n])
      (simp_all add: example_config_def example_aic_def)
qed

theorem admission_nonce_consumed_last_witness:
  "\<exists>cert aic_opt. Some example_cert = Some cert \<and> ParseAIC (ae_pki example_adm_env) cert = Inr aic_opt
     \<and> adm_delegation_auth example_adm_env example_config aic_opt cert = None"
proof -
  have "fst (snd example_adm_result) \<noteq> []" by code_simp
  from admission_nonce_consumed_last[OF example_adm_eq this] show ?thesis by blast
qed

end
