(* ===== verification/Rotating_File.thy ===== *)
theory Rotating_File
  imports Prelude
begin

text \<open>
  The size-rotated log file (\<^verbatim>\<open>RotatingFile\<close> in \<^verbatim>\<open>src/audit.go\<close>) over a small file system: names
  refer to files by number, as directory entries refer to inodes, so that a file that was renamed
  while it is open keeps receiving the writes. Which calls of the operating system fail is a
  parameter. The refinement theorem relates it to a list of slots: the current file and its backups.
\<close>

section \<open>The file system\<close>

record file_system =
  fs_names :: "string \<Rightarrow> nat option"
  fs_data :: "nat \<Rightarrow> bytes"
  fs_next :: nat

record fs_faults =
  ff_Open :: "string \<Rightarrow> bool"
  ff_Remove :: "string \<Rightarrow> bool"
  ff_Rename :: "string \<Rightarrow> string \<Rightarrow> bool"
  ff_Written :: "bytes \<Rightarrow> nat"

definition fs_create :: "string \<Rightarrow> file_system \<Rightarrow> nat \<times> file_system" where
  "fs_create path fs =
     (fs_next fs, fs\<lparr>fs_names := (fs_names fs)(path \<mapsto> fs_next fs), fs_data := (fs_data fs)(fs_next fs := []),
                     fs_next := Suc (fs_next fs)\<rparr>)"

text \<open>\<^verbatim>\<open>os.OpenFile\<close> with \<^verbatim>\<open>O_APPEND|O_CREATE\<close> and with \<^verbatim>\<open>O_CREATE|O_TRUNC\<close>.\<close>

definition open_append :: "fs_faults \<Rightarrow> string \<Rightarrow> file_system \<Rightarrow> (nat \<times> file_system) option" where
  "open_append F path fs =
     (if ff_Open F path then None
      else case fs_names fs path of Some f \<Rightarrow> Some (f, fs) | None \<Rightarrow> Some (fs_create path fs))"

definition open_trunc :: "fs_faults \<Rightarrow> string \<Rightarrow> file_system \<Rightarrow> (nat \<times> file_system) option" where
  "open_trunc F path fs =
     (if ff_Open F path then None
      else case fs_names fs path of
             Some f \<Rightarrow> Some (f, fs\<lparr>fs_data := (fs_data fs)(f := [])\<rparr>)
           | None \<Rightarrow> Some (fs_create path fs))"

definition os_Remove :: "fs_faults \<Rightarrow> string \<Rightarrow> file_system \<Rightarrow> file_system" where
  "os_Remove F path fs = (if ff_Remove F path then fs else fs\<lparr>fs_names := (fs_names fs)(path := None)\<rparr>)"

definition os_Rename :: "fs_faults \<Rightarrow> string \<Rightarrow> string \<Rightarrow> file_system \<Rightarrow> file_system" where
  "os_Rename F prev old fs =
     (if ff_Rename F prev old then fs
      else fs\<lparr>fs_names := (fs_names fs)(old := fs_names fs prev, prev := None)\<rparr>)"

section \<open>The rotating file\<close>

text \<open>\<open>rf_f\<close> is the open file; \<open>None\<close> after \<^verbatim>\<open>Close\<close>.\<close>

record rotating_file =
  rf_path :: string
  rf_maxSize :: int
  rf_maxBak :: int
  rf_f :: "nat option"
  rf_size :: int

definition NewRotatingFile ::
    "fs_faults \<Rightarrow> string \<Rightarrow> int \<Rightarrow> int \<Rightarrow> file_system \<Rightarrow> (rotating_file \<times> file_system) option" where
  "NewRotatingFile F path maxSize maxBak fs =
     (case open_append F path fs of None \<Rightarrow> None | Some (f, fs') \<Rightarrow>
      Some (\<lparr>rf_path = path, rf_maxSize = maxSize, rf_maxBak = maxBak, rf_f = Some f,
             rf_size = int (length (fs_data fs' f))\<rparr>, fs'))"

text \<open>\<^verbatim>\<open>fmt.Sprintf("%s.%d", path, i)\<close>, and the name of slot 0 is the path itself.\<close>

definition backup_name :: "string \<Rightarrow> nat \<Rightarrow> string" where
  "backup_name path i = path @ ''.'' @ dec_nat i"

definition slot_name :: "string \<Rightarrow> nat \<Rightarrow> string" where
  "slot_name path i = (if i = 0 then path else backup_name path i)"

text \<open>The loop of \<^verbatim>\<open>rotate\<close>, from \<^verbatim>\<open>maxBak\<close> down to 1.\<close>

fun rotate_loop :: "fs_faults \<Rightarrow> string \<Rightarrow> nat \<Rightarrow> file_system \<Rightarrow> file_system" where
  "rotate_loop F path 0 fs = fs"
| "rotate_loop F path (Suc i) fs =
     (let old = backup_name path (Suc i);
          prev = slot_name path i;
          fs1 = os_Remove F old fs;
          fs2 = (if fs_names fs1 prev \<noteq> None then os_Rename F prev old fs1 else fs1)
      in rotate_loop F path i fs2)"

text \<open>The first component of a result tells whether the call succeeded.\<close>

definition rf_rotate :: "fs_faults \<Rightarrow> rotating_file \<times> file_system \<Rightarrow> bool \<times> rotating_file \<times> file_system" where
  "rf_rotate F s =
     (case s of (r, fs) \<Rightarrow>
      let fs1 = rotate_loop F (rf_path r) (nat (rf_maxBak r)) fs
      in case open_trunc F (rf_path r) fs1 of
           None \<Rightarrow> (False, r\<lparr>rf_f := None\<rparr>, fs1)
         | Some (f, fs') \<Rightarrow> (True, r\<lparr>rf_f := Some f, rf_size := 0\<rparr>, fs'))"

text \<open>A write reports how many bytes were taken; fewer than asked is an error.\<close>

definition rf_Write ::
    "fs_faults \<Rightarrow> bytes \<Rightarrow> rotating_file \<times> file_system \<Rightarrow> nat \<times> rotating_file \<times> file_system" where
  "rf_Write F p s =
     (case (if rf_size (fst s) + int (length p) > rf_maxSize (fst s) then rf_rotate F s else (True, s)) of
        (False, s') \<Rightarrow> (0, s')
      | (True, r, fs) \<Rightarrow>
          (case rf_f r of
             None \<Rightarrow> (0, r, fs)
           | Some f \<Rightarrow>
               (let n = min (ff_Written F p) (length p)
                in (n, r\<lparr>rf_size := rf_size r + int n\<rparr>,
                    fs\<lparr>fs_data := (fs_data fs)(f := fs_data fs f @ take n p)\<rparr>))))"

definition rf_Close :: "rotating_file \<Rightarrow> rotating_file" where
  "rf_Close r = r\<lparr>rf_f := None\<rparr>"

text \<open>\<^verbatim>\<open>ArchiveAuditFile\<close>: moves a non-empty file to a name with a time stamp.\<close>

definition ArchiveAuditFile :: "fs_faults \<Rightarrow> string \<Rightarrow> string \<Rightarrow> file_system \<Rightarrow> bool \<times> file_system" where
  "ArchiveAuditFile F stamp path fs =
     (if path = [] then (True, fs)
      else case fs_names fs path of None \<Rightarrow> (True, fs) | Some f \<Rightarrow>
        if fs_data fs f = [] then (True, fs)
        else let target = path @ ''.'' @ stamp @ ''.archived''
             in (\<not> ff_Rename F path target, os_Rename F path target fs))"

section \<open>Slots\<close>

text \<open>The abstract view: the content of the current file and of the backups, newest first. Rotation pushes
  an empty file and drops the oldest slot; a write appends to the first slot.\<close>

definition slots :: "rotating_file \<times> file_system \<Rightarrow> bytes option list" where
  "slots s = (case s of (r, fs) \<Rightarrow>
     map (\<lambda>i. map_option (fs_data fs) (fs_names fs (slot_name (rf_path r) i))) [0..<Suc (nat (rf_maxBak r))])"

definition slots_write :: "int \<Rightarrow> bytes \<Rightarrow> bytes option list \<Rightarrow> bytes option list" where
  "slots_write maxSize p ss =
     (if int (length (the (hd ss))) + int (length p) > maxSize then Some p # butlast ss
      else Some (the (hd ss) @ p) # tl ss)"

text \<open>The state a rotating file is in between calls: it is open at its path, the size is the file's, and no
  file has two names.\<close>

definition fs_wf :: "file_system \<Rightarrow> bool" where
  "fs_wf fs \<longleftrightarrow> (\<forall>a b f. fs_names fs a = Some f \<and> fs_names fs b = Some f \<longrightarrow> a = b)
     \<and> (\<forall>a f. fs_names fs a = Some f \<longrightarrow> f < fs_next fs)"

definition rf_wf :: "rotating_file \<times> file_system \<Rightarrow> bool" where
  "rf_wf s \<longleftrightarrow> (case s of (r, fs) \<Rightarrow> fs_wf fs
     \<and> (\<exists>f. rf_f r = Some f \<and> fs_names fs (rf_path r) = Some f \<and> rf_size r = int (length (fs_data fs f))))"

definition no_faults :: "fs_faults \<Rightarrow> bool" where
  "no_faults F \<longleftrightarrow> (\<forall>p. \<not> ff_Open F p) \<and> (\<forall>p. \<not> ff_Remove F p) \<and> (\<forall>p q. \<not> ff_Rename F p q)
     \<and> (\<forall>p. ff_Written F p = length p)"

lemma slot_name_inject [simp]: "slot_name path i = slot_name path j \<longleftrightarrow> i = j"
  by (auto simp: slot_name_def backup_name_def)

lemma backup_name_slot: "backup_name path (Suc i) = slot_name path (Suc i)"
  by (simp add: slot_name_def)

text \<open>What one rotation does to the names: slot \<open>i\<close> takes over slot \<open>i - 1\<close>, and the path is free.\<close>

lemma rotate_loop_Suc:
  assumes "no_faults F"
  shows "rotate_loop F path (Suc n) fs = rotate_loop F path n
    (fs\<lparr>fs_names := (fs_names fs)(slot_name path (Suc n) := fs_names fs (slot_name path n), slot_name path n := None)\<rparr>)"
proof -
  have nf: "\<not> ff_Remove F p" "\<not> ff_Rename F p q" for p q using assms by (simp_all add: no_faults_def)
  have "(fs_names fs)(slot_name path (Suc n) := None) = (fs_names fs)(slot_name path (Suc n) := None, slot_name path n := None)"
    if "fs_names fs (slot_name path n) = None"
    using that by (auto simp: fun_eq_iff)
  then show ?thesis
    by (auto simp: Let_def backup_name_slot os_Remove_def os_Rename_def nf)
qed

lemma rotate_loop_names:
  assumes "no_faults F"
  shows "fs_names (rotate_loop F path n fs) (slot_name path i) =
     (if n = 0 \<or> n < i then fs_names fs (slot_name path i)
      else if i = 0 then None
      else fs_names fs (slot_name path (i - 1)))"
proof (induction n arbitrary: fs)
  case 0
  then show ?case by simp
next
  case (Suc n)
  show ?case unfolding rotate_loop_Suc[OF assms] Suc.IH by (cases "n = 0") auto
qed

lemma rotate_loop_data [simp]: "fs_data (rotate_loop F path n fs) = fs_data fs"
  "fs_next (rotate_loop F path n fs) = fs_next fs"
  by (induction n arbitrary: fs) (auto simp: Let_def os_Remove_def os_Rename_def)

lemma fs_wf_Remove: "fs_wf fs \<Longrightarrow> fs_wf (os_Remove F p fs)"
  unfolding fs_wf_def os_Remove_def by (auto split: if_splits)

lemma fs_wf_Rename: "fs_wf fs \<Longrightarrow> fs_wf (os_Rename F p q fs)"
  unfolding fs_wf_def os_Rename_def by (auto split: if_splits)

lemma fs_wf_rotate_loop: "fs_wf fs \<Longrightarrow> fs_wf (rotate_loop F path n fs)"
  by (induction n arbitrary: fs) (auto simp: Let_def fs_wf_Remove fs_wf_Rename)

lemma open_trunc_wf:
  assumes "fs_wf fs" "open_trunc F path fs = Some (f, fs')"
  shows "fs_wf fs'" and "fs_names fs' path = Some f" and "fs_data fs' f = []"
    and "q \<noteq> path \<Longrightarrow> map_option (fs_data fs') (fs_names fs' q) = map_option (fs_data fs) (fs_names fs q)"
proof -
  have fresh: "fs_names fs a \<noteq> Some (fs_next fs)" for a using assms(1) by (auto simp: fs_wf_def)
  show "fs_wf fs'" "fs_names fs' path = Some f" "fs_data fs' f = []"
    using assms fresh
    by (auto simp: open_trunc_def fs_create_def fs_wf_def less_Suc_eq split: option.splits if_splits)
  show "map_option (fs_data fs') (fs_names fs' q) = map_option (fs_data fs) (fs_names fs q)" if "q \<noteq> path"
    using assms fresh[of q] that
    by (cases "fs_names fs q") (auto simp: open_trunc_def fs_create_def fs_wf_def split: option.splits if_splits)
qed

lemma length_slots [simp]: "length (slots s) = Suc (nat (rf_maxBak (fst s)))"
  by (simp add: slots_def split: prod.splits)

lemma nth_slots: "i \<le> nat (rf_maxBak r) \<Longrightarrow>
  slots (r, fs) ! i = map_option (fs_data fs) (fs_names fs (slot_name (rf_path r) i))"
  by (simp add: slots_def del: upt_Suc)

lemma rotate_ok:
  assumes "no_faults F" "rf_wf (r, fs)"
  shows "\<exists>s'. rf_rotate F (r, fs) = (True, s') \<and> rf_wf s' \<and> slots s' = Some [] # butlast (slots (r, fs))
    \<and> rf_maxSize (fst s') = rf_maxSize r"
proof -
  let ?n = "nat (rf_maxBak r)" and ?path = "rf_path r"
  let ?fs1 = "rotate_loop F ?path ?n fs"
  have nf: "\<not> ff_Open F p" for p using assms(1) by (simp add: no_faults_def)
  have wf1: "fs_wf ?fs1" using assms(2) by (simp add: rf_wf_def fs_wf_rotate_loop)
  note names = rotate_loop_names[OF assms(1), of ?path ?n fs]
  obtain f fs2 where op: "open_trunc F ?path ?fs1 = Some (f, fs2)"
    by (cases "fs_names ?fs1 ?path") (auto simp: open_trunc_def nf fs_create_def)
  note wf2 = open_trunc_wf[OF wf1 op]
  let ?s = "(r\<lparr>rf_f := Some f, rf_size := 0\<rparr>, fs2)"
  have "slots ?s = Some [] # butlast (slots (r, fs))"
  proof (rule nth_equalityI)
    show "length (slots ?s) = length (Some [] # butlast (slots (r, fs)))" by simp
    fix i assume "i < length (slots ?s)"
    then have i: "i \<le> ?n" by simp
    show "slots ?s ! i = (Some [] # butlast (slots (r, fs))) ! i"
    proof (cases i)
      case 0
      then show ?thesis using wf2(2,3) by (simp add: nth_slots slot_name_def)
    next
      case (Suc j)
      have "slot_name ?path i \<noteq> ?path" using Suc by (simp add: slot_name_def backup_name_def)
      moreover have "\<not> (?n = 0 \<or> ?n < i)" using Suc i by simp
      ultimately show ?thesis
        using wf2(4)[of "slot_name ?path i"] Suc i names[of i] by (simp add: nth_slots nth_butlast)
    qed
  qed
  moreover have "rf_wf ?s" using wf2 by (simp add: rf_wf_def)
  ultimately show ?thesis using op by (simp add: rf_rotate_def)
qed

text \<open>The refinement: without faults every write is the abstract one, and the state stays well-formed.\<close>

lemma rf_Write_refines:
  assumes "no_faults F" "rf_wf s"
  shows "\<exists>s'. rf_Write F p s = (length p, s') \<and> rf_wf s' \<and> slots s' = slots_write (rf_maxSize (fst s)) p (slots s)
    \<and> rf_maxSize (fst s') = rf_maxSize (fst s)"
proof -
  obtain r fs where s: "s = (r, fs)" by fastforce
  let ?rot = "rf_size r + int (length p) > rf_maxSize r"
  obtain r1 fs1 where step: "(if ?rot then rf_rotate F s else (True, s)) = (True, r1, fs1)"
    and wf1: "rf_wf (r1, fs1)" and sl: "slots (r1, fs1) = (if ?rot then Some [] # butlast (slots s) else slots s)"
    and mx: "rf_maxSize r1 = rf_maxSize r"
    using rotate_ok[OF assms(1)] assms(2) unfolding s by (cases ?rot) fastforce+
  from wf1 obtain f where f: "rf_f r1 = Some f" "fs_names fs1 (rf_path r1) = Some f" "rf_size r1 = int (length (fs_data fs1 f))"
    and fwf: "fs_wf fs1" by (auto simp: rf_wf_def)
  have hd1: "hd (slots (r1, fs1)) = Some (fs_data fs1 f)"
    using f(2) by (simp add: slots_def slot_name_def hd_map del: upt_Suc)
  let ?s' = "(r1\<lparr>rf_size := rf_size r1 + int (length p)\<rparr>, fs1\<lparr>fs_data := (fs_data fs1)(f := fs_data fs1 f @ p)\<rparr>)"
  have run: "rf_Write F p s = (length p, ?s')"
    unfolding rf_Write_def using step f(1) assms(1) by (simp only: s fst_conv) (simp add: no_faults_def Let_def)
  have "slots ?s' = Some (fs_data fs1 f @ p) # tl (slots (r1, fs1))"
  proof (rule nth_equalityI)
    show "length (slots ?s') = length (Some (fs_data fs1 f @ p) # tl (slots (r1, fs1)))" by simp
    fix i assume "i < length (slots ?s')"
    then have i: "i \<le> nat (rf_maxBak r1)" by simp
    show "slots ?s' ! i = (Some (fs_data fs1 f @ p) # tl (slots (r1, fs1))) ! i"
    proof (cases i)
      case 0
      then show ?thesis using f(2) by (simp add: nth_slots slot_name_def)
    next
      case (Suc j)
      have "fs_names fs1 (slot_name (rf_path r1) i) \<noteq> Some f"
        using fwf f(2) Suc unfolding fs_wf_def by (auto simp: slot_name_def backup_name_def)
      then show ?thesis
        using Suc i by (cases "fs_names fs1 (slot_name (rf_path r1) i)") (auto simp: nth_slots nth_tl)
    qed
  qed
  moreover have "rf_wf ?s'" using fwf f by (auto simp: rf_wf_def fs_wf_def)
  moreover have "rf_size r = int (length (the (hd (slots s))))"
    using assms(2) by (auto simp: s rf_wf_def slots_def slot_name_def hd_map simp del: upt_Suc)
  ultimately show ?thesis
    using run sl hd1 mx by (auto simp: slots_write_def s)
qed

lemma slots_write_segments:
  assumes "ss = map (Some \<circ> concat) segs @ replicate m None" "segs \<noteq> []" "concat (rev segs) = drop k ps" "k \<le> length ps"
    and "list_all (\<lambda>seg. int (length (concat seg)) \<le> maxSize \<or> length seg \<le> 1) segs"
  shows "\<exists>segs' m' k'. slots_write maxSize p ss = map (Some \<circ> concat) segs' @ replicate m' None \<and> segs' \<noteq> []
    \<and> concat (rev segs') = drop k' (ps @ [p]) \<and> k' \<le> length (ps @ [p])
    \<and> list_all (\<lambda>seg. int (length (concat seg)) \<le> maxSize \<or> length seg \<le> 1) segs'"
proof -
  obtain seg rest where segs: "segs = seg # rest" using assms(2) by (cases segs) auto
  show ?thesis
  proof (cases "int (length (concat seg)) + int (length p) > maxSize")
    case False
    then show ?thesis
      using assms unfolding segs
      by (intro exI[of _ "(seg @ [p]) # rest"] exI[of _ m] exI[of _ k]) (auto simp: slots_write_def)
  next
    case rot: True
    show ?thesis
    proof (cases m)
      case (Suc m')
      have b: "butlast (map (Some \<circ> concat) segs @ replicate (Suc m') None) = map (Some \<circ> concat) segs @ replicate m' None"
        by (simp add: butlast_append butlast_conv_take[of "replicate (Suc m') None"] del: replicate_Suc)
      show ?thesis
        using assms rot b unfolding segs Suc
        by (intro exI[of _ "[p] # seg # rest"] exI[of _ m'] exI[of _ k]) (auto simp: slots_write_def)
    next
      case 0
      have "segs = butlast segs @ [last segs]" using assms(2) by simp
      then have r: "rev segs = last segs # rev (butlast segs)" by (metis rev_eq_Cons_iff rev_rev_ident)
      have c: "drop k ps = last segs @ concat (rev (butlast segs))" using assms(3)[unfolded r] by simp
      then have "drop (length (last segs)) (drop k ps) = concat (rev (butlast segs))" by simp
      then have d: "concat (rev (butlast segs)) = drop (k + length (last segs)) ps" by (simp add: add.commute)
      have "length ps - k = length (last segs) + length (concat (rev (butlast segs)))"
        using arg_cong[OF c, of length] by simp
      then have len: "k + length (last segs) \<le> length ps" using assms(4) by linarith
      show ?thesis
        using assms rot d len
        by (intro exI[of _ "[p] # butlast segs"] exI[of _ 0] exI[of _ "k + length (last segs)"])
          (auto simp: slots_write_def segs 0 map_butlast list_all_iff dest: in_set_butlastD)
    qed
  qed
qed

text \<open>A sequence of writes.\<close>

definition write_all :: "fs_faults \<Rightarrow> bytes list \<Rightarrow> rotating_file \<times> file_system \<Rightarrow> rotating_file \<times> file_system" where
  "write_all F ps s = foldl (\<lambda>s p. snd (rf_Write F p s)) s ps"

lemma write_all_refines:
  assumes "no_faults F" "rf_wf s"
  shows "rf_wf (write_all F ps s) \<and> rf_maxSize (fst (write_all F ps s)) = rf_maxSize (fst s)
    \<and> slots (write_all F ps s) = foldl (\<lambda>ss p. slots_write (rf_maxSize (fst s)) p ss) (slots s) ps"
proof (induction ps rule: rev_induct)
  case Nil
  then show ?case using assms(2) by (simp add: write_all_def)
next
  case (snoc p ps)
  then show ?case using rf_Write_refines[OF assms(1), of "write_all F ps s" p] by (auto simp: write_all_def)
qed

lemma NewRotatingFile_wf:
  assumes "NewRotatingFile F path maxSize maxBak fs = Some s" "fs_wf fs"
  shows "rf_wf s" "rf_maxSize (fst s) = maxSize"
proof -
  have fresh: "fs_names fs a \<noteq> Some (fs_next fs)" for a using assms(2) by (auto simp: fs_wf_def)
  show "rf_wf s" "rf_maxSize (fst s) = maxSize"
    using assms fresh
    by (auto simp: NewRotatingFile_def open_append_def fs_create_def rf_wf_def fs_wf_def less_Suc_eq
      split: option.splits if_splits)
qed

section \<open>Properties\<close>

text \<open>C33. The rotating file implements the list of slots: on a file system where calls succeed, a file
  opened by \<^verbatim>\<open>NewRotatingFile\<close> stays well-formed over any sequence of writes (open, at its path, its size
  counter equal to the length of the file), every write takes all its bytes, and the contents of the
  current file and its backups are those of the abstract rotation, which pushes an empty slot and
  drops the oldest.\<close>

theorem rotating_file_refines:
  assumes "NewRotatingFile F path maxSize maxBak fs = Some s" "fs_wf fs" "no_faults F"
  shows "rf_wf (write_all F ps s)
    \<and> fst (rf_Write F p (write_all F ps s)) = length p
    \<and> slots (write_all F ps s) = foldl (\<lambda>ss p. slots_write maxSize p ss) (slots s) ps"
proof -
  note wf = NewRotatingFile_wf[OF assms(1,2)]
  note all = write_all_refines[OF assms(3) wf(1), of ps]
  with rf_Write_refines[OF assms(3), of "write_all F ps s" p] wf(2) show ?thesis by auto
qed

text \<open>Rotation loses only whole old records and splits none: starting with no file at any of the names, after
  any sequence of writes the files, oldest first, hold exactly a suffix of the records written, in
  order, each record inside one file; and a file is larger than the limit only when it holds a single
  record that is.\<close>

theorem rotation_keeps_recent_records:
  assumes "NewRotatingFile F path maxSize maxBak fs = Some s" "fs_wf fs" "no_faults F" "0 \<le> maxSize"
    and "\<And>i. fs_names fs (slot_name path i) = None"
  shows "\<exists>segs m k. slots (write_all F ps s) = map (Some \<circ> concat) segs @ replicate m None
    \<and> concat (rev segs) = drop k ps
    \<and> list_all (\<lambda>seg. int (length (concat seg)) \<le> maxSize \<or> length seg \<le> 1) segs"
proof -
  note wf = NewRotatingFile_wf[OF assms(1,2)]
  have s: "fst s = \<lparr>rf_path = path, rf_maxSize = maxSize, rf_maxBak = maxBak, rf_f = Some (fs_next fs), rf_size = 0\<rparr>"
    "fs_names (snd s) = (fs_names fs)(path \<mapsto> fs_next fs)" "fs_data (snd s) (fs_next fs) = []"
    using assms(1) assms(5)[of 0]
    by (auto simp: NewRotatingFile_def open_append_def fs_create_def slot_name_def split: if_splits)
  have "slots s = Some [] # replicate (nat maxBak) None"
  proof (rule nth_equalityI)
    show "length (slots s) = length (Some [] # replicate (nat maxBak) None)" using s(1) by simp
    fix i assume "i < length (slots s)"
    then show "slots s ! i = (Some [] # replicate (nat maxBak) None) ! i"
      using s assms(5)[of i] slot_name_inject[of path i 0] nth_slots[of i "fst s" "snd s"]
      by (cases i; cases s) (simp_all add: slot_name_def)
  qed
  then have init: "slots s = map (Some \<circ> concat) [[]] @ replicate (nat maxBak) None" by simp
  have "\<exists>segs m k. foldl (\<lambda>ss p. slots_write maxSize p ss) (slots s) ps = map (Some \<circ> concat) segs @ replicate m None
    \<and> segs \<noteq> [] \<and> concat (rev segs) = drop k ps \<and> k \<le> length ps
    \<and> list_all (\<lambda>seg. int (length (concat seg)) \<le> maxSize \<or> length seg \<le> 1) segs"
  proof (induction ps rule: rev_induct)
    case Nil
    then show ?case using init assms(4) by (intro exI[of _ "[[]]"]) auto
  next
    case (snoc p ps)
    then obtain segs m k where
      "foldl (\<lambda>ss p. slots_write maxSize p ss) (slots s) ps = map (Some \<circ> concat) segs @ replicate m None"
      "segs \<noteq> []" "concat (rev segs) = drop k ps" "k \<le> length ps"
      "list_all (\<lambda>seg. int (length (concat seg)) \<le> maxSize \<or> length seg \<le> 1) segs" by blast
    from slots_write_segments[OF this, of p] show ?case by (simp only: foldl_append foldl.simps)
  qed
  with write_all_refines[OF assms(3) wf(1), of ps] wf(2) show ?thesis by auto
qed

text \<open>Archiving a file that is open for logging moves it away under the logger: without a rotation, the next
  write still goes to the archived file, and nothing is left at the path.\<close>

theorem archive_keeps_receiving:
  assumes "no_faults F" "rf_wf (r, fs)" "rf_path r \<noteq> []"
    and "fs_names fs (rf_path r) = Some f" "fs_data fs f \<noteq> []"
    and "rf_size r + int (length p) \<le> rf_maxSize r"
    and "ArchiveAuditFile F stamp (rf_path r) fs = (ok, fs')" "rf_Write F p (r, fs') = (n, r'', fs'')"
  shows "ok \<and> fs_names fs'' (rf_path r) = None
    \<and> fs_names fs'' (rf_path r @ ''.'' @ stamp @ ''.archived'') = Some f \<and> fs_data fs'' f = fs_data fs f @ p"
proof -
  have "rf_f r = Some f" using assms(2,4) by (auto simp: rf_wf_def)
  with assms show ?thesis
    by (auto simp: ArchiveAuditFile_def Let_def os_Rename_def no_faults_def rf_Write_def)
qed

section \<open>Witnesses\<close>

definition empty_fs :: file_system where
  "empty_fs = \<lparr>fs_names = (\<lambda>p. None), fs_data = (\<lambda>f. []), fs_next = 0\<rparr>"

definition good_os :: fs_faults where
  "good_os = \<lparr>ff_Open = (\<lambda>p. False), ff_Remove = (\<lambda>p. False), ff_Rename = (\<lambda>p q. False), ff_Written = length\<rparr>"

definition example_rf :: "rotating_file \<times> file_system" where
  "example_rf = the (NewRotatingFile good_os ''a'' 3 1 empty_fs)"

lemma example_rf_new: "NewRotatingFile good_os ''a'' 3 1 empty_fs = Some example_rf"
  by (simp add: example_rf_def NewRotatingFile_def open_append_def good_os_def empty_fs_def split: prod.splits)

lemma example_rf_ok: "fs_wf empty_fs" "no_faults good_os"
  by (simp_all add: fs_wf_def empty_fs_def no_faults_def good_os_def)

theorem rotating_file_refines_witness:
  "slots (write_all good_os [''xy'', ''zw'', ''uv''] example_rf) = [Some ''uv'', Some ''zw'']"
proof -
  have "slots example_rf = [Some [], None]" by code_simp
  then show ?thesis
    using rotating_file_refines[OF example_rf_new example_rf_ok, of "[''xy'', ''zw'', ''uv'']"]
    by (simp add: slots_write_def)
qed

theorem rotation_keeps_recent_records_witness:
  "\<exists>segs m k. slots (write_all good_os [''xy'', ''zw'', ''uv''] example_rf) = map (Some \<circ> concat) segs @ replicate m None
    \<and> concat (rev segs) = drop k [''xy'', ''zw'', ''uv'']"
  using rotation_keeps_recent_records[OF example_rf_new example_rf_ok, of "[''xy'', ''zw'', ''uv'']"]
  by (auto simp: empty_fs_def)

end
