(* ===== verification/Audit_Log.thy ===== *)
theory Audit_Log
  imports Mask Spiffe Policy Crl Audit_Chain Rotating_File
begin

text \<open>
  The audit log (\<^verbatim>\<open>src/audit.go\<close>): entries and the evidence fingerprints in them, and the asynchronous
  logger, a bounded queue between the callers and one writer. The logger is a step relation: calls of
  \<^verbatim>\<open>Log\<close> that find room, find the queue full and drop, or wait with a critical entry; the time-out of a
  waiting call; the writer taking an entry; \<^verbatim>\<open>Close\<close>. JSON, base64 and the time-stamp authority are
  fields of \<open>audit_env\<close>.
\<close>

section \<open>Entries\<close>

definition ActionConnected :: string where "ActionConnected = ''connected''"
definition ActionDenied :: string where "ActionDenied = ''denied''"
definition ActionRevoked :: string where "ActionRevoked = ''revoked''"
definition ActionPluginDecision :: string where "ActionPluginDecision = ''plugin_decision''"
definition ActionUnknownConstraint :: string where "ActionUnknownConstraint = ''unknown_constraint''"

record audit_entry =
  ent_Time :: string
  ent_Action :: string
  ent_SrcIP :: string
  ent_ClientCN :: string
  ent_ClientSerial :: string
  ent_Roles :: "string list"
  ent_Mapping :: string
  ent_Target :: string
  ent_TargetID :: string
  ent_Duration :: string
  ent_DenyReason :: string
  ent_BytesIn :: int
  ent_BytesOut :: int
  ent_TraceId :: string
  ent_SessionId :: string
  ent_GatewayId :: string
  ent_Protocol :: string
  ent_AgentId :: string
  ent_SPIFFEID :: string
  ent_PrincipalUid :: string
  ent_DelegationMode :: int
  ent_Decision :: string
  ent_Capabilities :: "string list"
  ent_Level :: string
  ent_DaHash :: string
  ent_AICFingerprint :: string
  ent_PolicyVersion :: "64 word"
  ent_RecordDigest :: string

definition zero_entry :: audit_entry where
  "zero_entry =
     \<lparr>ent_Time = [], ent_Action = [], ent_SrcIP = [], ent_ClientCN = [], ent_ClientSerial = [], ent_Roles = [],
      ent_Mapping = [], ent_Target = [], ent_TargetID = [], ent_Duration = [], ent_DenyReason = [], ent_BytesIn = 0,
      ent_BytesOut = 0, ent_TraceId = [], ent_SessionId = [], ent_GatewayId = [], ent_Protocol = [], ent_AgentId = [],
      ent_SPIFFEID = [], ent_PrincipalUid = [], ent_DelegationMode = 0, ent_Decision = [], ent_Capabilities = [],
      ent_Level = [], ent_DaHash = [], ent_AICFingerprint = [], ent_PolicyVersion = 0, ent_RecordDigest = []\<rparr>"

record signed_audit_entry =
  sa_Entry :: audit_entry
  sa_TST :: string

definition SetV12Fields :: "string \<Rightarrow> string \<Rightarrow> string \<Rightarrow> string \<Rightarrow> string \<Rightarrow> audit_entry \<Rightarrow> audit_entry" where
  "SetV12Fields protocol gatewayId traceId sessionId decision e =
     e\<lparr>ent_Protocol := protocol, ent_GatewayId := gatewayId, ent_TraceId := traceId, ent_SessionId := sessionId,
       ent_Decision := decision\<rparr>"

text \<open>\<open>oidAIC\<close> is \<^verbatim>\<open>pki.OIDAIC\<close>. The search stops at the first AIC extension.\<close>

definition AICFingerprint :: "crypto_ops \<Rightarrow> oid \<Rightarrow> certificate option \<Rightarrow> string" where
  "AICFingerprint C oidAIC cert_opt =
     (case cert_opt of None \<Rightarrow> [] | Some cert \<Rightarrow>
      let aicExt = (case List.find (\<lambda>(i, v). i = oidAIC) (cert_Extensions cert) of Some (i, v) \<Rightarrow> v | None \<Rightarrow> [])
      in if length aicExt = 0 then [] else EncodeToString (Sum256 C aicExt))"

definition DAHashFromAIC :: "crypto_ops \<Rightarrow> aic option \<Rightarrow> string" where
  "DAHashFromAIC C aic_opt =
     (case aic_opt of None \<Rightarrow> [] | Some a \<Rightarrow>
      if length (da_SignatureValue (aic_DelegationAuthorization a)) = 0 then []
      else EncodeToString (Sum256 C (da_SignatureValue (aic_DelegationAuthorization a))))"

definition DAHash :: "pki_ops \<Rightarrow> crypto_ops \<Rightarrow> certificate option \<Rightarrow> string" where
  "DAHash P C cert_opt =
     (case cert_opt of None \<Rightarrow> [] | Some cert \<Rightarrow>
      case ParseAIC P cert of
        Inl e \<Rightarrow> []
      | Inr None \<Rightarrow> []
      | Inr (Some a) \<Rightarrow> DAHashFromAIC C (Some a))"

definition WithEvidenceFingerprints ::
    "pki_ops \<Rightarrow> crypto_ops \<Rightarrow> oid \<Rightarrow> certificate option \<Rightarrow> audit_entry \<Rightarrow> audit_entry" where
  "WithEvidenceFingerprints P C oidAIC cert e =
     e\<lparr>ent_AICFingerprint := AICFingerprint C oidAIC cert, ent_DaHash := DAHash P C cert\<rparr>"

definition NewAuditEntryFromConn ::
    "pki_ops \<Rightarrow> crypto_ops \<Rightarrow> oid \<Rightarrow> string \<Rightarrow> string \<Rightarrow> string \<Rightarrow> certificate option \<Rightarrow> audit_entry" where
  "NewAuditEntryFromConn P C oidAIC srcIP mappingName target cert_opt =
     (let entry = zero_entry\<lparr>ent_Action := ActionConnected, ent_SrcIP := srcIP, ent_Mapping := mappingName,
                             ent_Target := target\<rparr>
      in case cert_opt of None \<Rightarrow> entry | Some cert \<Rightarrow>
         let e1 = entry\<lparr>ent_ClientCN := cert_CommonName cert,
                        ent_ClientSerial := MaskCertSerial (text16 (cert_SerialNumber cert)),
                        ent_Roles := ExtractRoles cert, ent_SPIFFEID := ExtractSPIFFEIDFromCert cert\<rparr>;
             e2 = (case ParseAIC P cert of
                     Inr (Some a) \<Rightarrow>
                       e1\<lparr>ent_AgentId := aic_AgentId a, ent_PrincipalUid := PrincipalUidString P (aic_PrincipalUid a),
                          ent_DelegationMode := aic_DelegationMode a,
                          ent_Capabilities := map CapabilityId (aic_Capabilities a)\<rparr>
                   | _ \<Rightarrow> e1)
         in e2\<lparr>ent_AICFingerprint := AICFingerprint C oidAIC cert_opt, ent_DaHash := DAHash P C cert_opt\<rparr>)"

definition NewAuditEntryDenied ::
    "pki_ops \<Rightarrow> crypto_ops \<Rightarrow> oid \<Rightarrow> string \<Rightarrow> string \<Rightarrow> string \<Rightarrow> string \<Rightarrow> certificate option \<Rightarrow> audit_entry" where
  "NewAuditEntryDenied P C oidAIC srcIP mappingName target reason cert_opt =
     (NewAuditEntryFromConn P C oidAIC srcIP mappingName target cert_opt)
       \<lparr>ent_Action := ActionDenied, ent_DenyReason := reason\<rparr>"

definition isAuditCritical :: "audit_entry \<Rightarrow> bool" where
  "isAuditCritical e \<longleftrightarrow>
     ent_Level e = ''WARN'' \<or> ent_Level e = ''ERROR''
     \<or> ent_Action e \<in> {ActionDenied, ActionRevoked, ActionPluginDecision, ActionUnknownConstraint}"

section \<open>Lines\<close>

record audit_env =
  au_MarshalEntry :: "audit_entry \<Rightarrow> bytes"
  au_MarshalSigned :: "signed_audit_entry \<Rightarrow> bytes"
  au_UnmarshalSigned :: "bytes \<Rightarrow> signed_audit_entry option"
  au_EncodeBase64 :: "bytes \<Rightarrow> string"
  au_DecodeBase64 :: "string \<Rightarrow> string + bytes"
  au_TSASign :: "bytes \<Rightarrow> bytes option"
  au_TSAVerify :: "bytes \<Rightarrow> bytes \<Rightarrow> string option"

text \<open>\<open>timely\<close>: the authority answered before the time-out.\<close>

definition audit_line :: "audit_env \<Rightarrow> bool \<Rightarrow> bool \<Rightarrow> audit_entry \<Rightarrow> bytes" where
  "audit_line A hasTSA timely entry =
     (let tst = (if hasTSA \<and> timely then au_TSASign A (au_MarshalEntry A entry) else None)
      in au_MarshalSigned A \<lparr>sa_Entry = entry,
           sa_TST = (case tst of None \<Rightarrow> [] | Some t \<Rightarrow> au_EncodeBase64 A t)\<rparr> @ [CHR 0x0A])"

datatype audit_error = EntryParse | TSTDecode string | TSAFailed string

definition VerifyAuditEntry :: "audit_env \<Rightarrow> bytes \<Rightarrow> audit_error option" where
  "VerifyAuditEntry A data =
     (case au_UnmarshalSigned A data of None \<Rightarrow> Some EntryParse | Some se \<Rightarrow>
      if sa_TST se \<noteq> [] then
        (case au_DecodeBase64 A (sa_TST se) of Inl e \<Rightarrow> Some (TSTDecode e) | Inr tstDER \<Rightarrow>
         case au_TSAVerify A (au_MarshalEntry A (sa_Entry se)) tstDER of
           Some e \<Rightarrow> Some (TSAFailed e) | None \<Rightarrow> None)
      else None)"

section \<open>The logger\<close>

definition audit_capacity :: nat where "audit_capacity = 8192"

text \<open>\<open>al_waiting\<close> are the calls of \<^verbatim>\<open>Log\<close> that are blocked sending a critical entry, in the order in which
  the channel serves them.\<close>

record audit_logger =
  al_entries :: "audit_entry list"
  al_waiting :: "audit_entry list"
  al_dropped :: int
  al_stopped :: bool
  al_closed :: bool
  al_w :: "rotating_file \<times> file_system"

definition NewAuditLogger ::
    "fs_faults \<Rightarrow> string \<Rightarrow> int \<Rightarrow> int \<Rightarrow> file_system \<Rightarrow> audit_logger option option" where
  "NewAuditLogger F file maxSize maxBak fs =
     (if file = [] then Some None
      else case NewRotatingFile F file maxSize maxBak fs of None \<Rightarrow> None | Some w \<Rightarrow>
        Some (Some \<lparr>al_entries = [], al_waiting = [], al_dropped = 0, al_stopped = False, al_closed = False, al_w = w\<rparr>))"

definition Dropped :: "audit_logger option \<Rightarrow> int" where
  "Dropped l_opt = (case l_opt of None \<Rightarrow> 0 | Some l \<Rightarrow> al_dropped l)"

text \<open>What a call of \<^verbatim>\<open>Log\<close> does before it may block: \<open>stamp\<close> is the formatted clock.\<close>

definition Log :: "string \<Rightarrow> audit_entry \<Rightarrow> audit_logger \<Rightarrow> audit_logger" where
  "Log stamp entry0 l =
     (if al_stopped l then l
      else let entry = entry0\<lparr>ent_Time := stamp\<rparr> in
        if length (al_entries l) < audit_capacity then l\<lparr>al_entries := al_entries l @ [entry]\<rparr>
        else if isAuditCritical entry then l\<lparr>al_waiting := al_waiting l @ [entry]\<rparr>
        else l\<lparr>al_dropped := al_dropped l + 1\<rparr>)"

text \<open>A waiting call gives up.\<close>

definition Log_timeout :: "nat \<Rightarrow> audit_logger \<Rightarrow> audit_logger" where
  "Log_timeout i l =
     l\<lparr>al_waiting := take i (al_waiting l) @ drop (Suc i) (al_waiting l), al_dropped := al_dropped l + 1\<rparr>"

text \<open>The writer receives one entry and writes it; the first waiting sender then gets its place.\<close>

definition loop_step :: "fs_faults \<Rightarrow> audit_env \<Rightarrow> bool \<Rightarrow> bool \<Rightarrow> audit_logger \<Rightarrow> audit_logger" where
  "loop_step F A hasTSA timely l =
     (case al_entries l of [] \<Rightarrow> l | e # es \<Rightarrow>
      l\<lparr>al_entries := es @ take 1 (al_waiting l), al_waiting := drop 1 (al_waiting l),
        al_w := snd (rf_Write F (audit_line A hasTSA timely e) (al_w l))\<rparr>)"

text \<open>\<^verbatim>\<open>Close\<close> up to the close of the channel; senders that wait on it panic, which \<^verbatim>\<open>Log\<close> recovers.\<close>

definition Close_begin :: "audit_logger \<Rightarrow> audit_logger" where
  "Close_begin l = (if al_closed l then l else l\<lparr>al_closed := True, al_stopped := True, al_waiting := []\<rparr>)"

fun drain :: "fs_faults \<Rightarrow> audit_env \<Rightarrow> bool \<Rightarrow> (nat \<Rightarrow> bool) \<Rightarrow> nat \<Rightarrow> audit_logger \<Rightarrow> audit_logger" where
  "drain F A hasTSA timely 0 l = l"
| "drain F A hasTSA timely (Suc n) l = drain F A hasTSA timely n (loop_step F A hasTSA (timely n) l)"

text \<open>\<^verbatim>\<open>Close\<close>: the writer drains the closed channel before the file is closed.\<close>

definition Close_logger :: "fs_faults \<Rightarrow> audit_env \<Rightarrow> bool \<Rightarrow> (nat \<Rightarrow> bool) \<Rightarrow> audit_logger \<Rightarrow> audit_logger" where
  "Close_logger F A hasTSA timely l =
     (if al_closed l then l
      else let l1 = Close_begin l; l2 = drain F A hasTSA timely (length (al_entries l1)) l1
           in l2\<lparr>al_w := (rf_Close (fst (al_w l2)), snd (al_w l2))\<rparr>)"

section \<open>Runs\<close>

text \<open>A run from a fresh logger, with what happened to the entries: those that entered the queue, in order,
  the lines written, the entries given up (each counted), and the entries lost without a count when a
  close overtook them.\<close>

inductive logger_run ::
    "fs_faults \<Rightarrow> audit_env \<Rightarrow> bool \<Rightarrow> audit_logger \<Rightarrow> audit_logger \<Rightarrow> audit_entry list \<Rightarrow> bytes list
     \<Rightarrow> audit_entry list \<Rightarrow> audit_entry list \<Rightarrow> bool"
  for F A hasTSA l0 where
  start: "logger_run F A hasTSA l0 l0 [] [] [] []"
| log_room: "logger_run F A hasTSA l0 l acc lines dropped lost \<Longrightarrow> \<not> al_stopped l \<Longrightarrow>
    length (al_entries l) < audit_capacity \<Longrightarrow> e' = e\<lparr>ent_Time := stamp\<rparr> \<Longrightarrow>
    logger_run F A hasTSA l0 (Log stamp e l) (acc @ [e']) lines dropped lost"
| log_drop: "logger_run F A hasTSA l0 l acc lines dropped lost \<Longrightarrow> \<not> al_stopped l \<Longrightarrow>
    length (al_entries l) \<ge> audit_capacity \<Longrightarrow> e' = e\<lparr>ent_Time := stamp\<rparr> \<Longrightarrow> \<not> isAuditCritical e' \<Longrightarrow>
    logger_run F A hasTSA l0 (Log stamp e l) acc lines (dropped @ [e']) lost"
| log_wait: "logger_run F A hasTSA l0 l acc lines dropped lost \<Longrightarrow> \<not> al_stopped l \<Longrightarrow>
    length (al_entries l) \<ge> audit_capacity \<Longrightarrow> isAuditCritical (e\<lparr>ent_Time := stamp\<rparr>) \<Longrightarrow>
    logger_run F A hasTSA l0 (Log stamp e l) acc lines dropped lost"
| log_stopped: "logger_run F A hasTSA l0 l acc lines dropped lost \<Longrightarrow> al_stopped l \<Longrightarrow>
    logger_run F A hasTSA l0 (Log stamp e l) acc lines dropped lost"
| timeout: "logger_run F A hasTSA l0 l acc lines dropped lost \<Longrightarrow> i < length (al_waiting l) \<Longrightarrow>
    logger_run F A hasTSA l0 (Log_timeout i l) acc lines (dropped @ [al_waiting l ! i]) lost"
| consume: "logger_run F A hasTSA l0 l acc lines dropped lost \<Longrightarrow> al_entries l = e # es \<Longrightarrow>
    logger_run F A hasTSA l0 (loop_step F A hasTSA timely l) (acc @ take 1 (al_waiting l))
      (lines @ [audit_line A hasTSA timely e]) dropped lost"
| close: "logger_run F A hasTSA l0 l acc lines dropped lost \<Longrightarrow> \<not> al_closed l \<Longrightarrow>
    logger_run F A hasTSA l0 (Close_begin l) acc lines dropped (lost @ al_waiting l)"

definition logger_inv ::
    "fs_faults \<Rightarrow> audit_env \<Rightarrow> bool \<Rightarrow> audit_logger \<Rightarrow> audit_logger \<Rightarrow> audit_entry list \<Rightarrow> bytes list
     \<Rightarrow> audit_entry list \<Rightarrow> audit_entry list \<Rightarrow> bool" where
  "logger_inv F A hasTSA l0 l acc lines dropped lost \<longleftrightarrow>
     (\<exists>written. acc = written @ al_entries l
        \<and> list_all2 (\<lambda>e ln. \<exists>timely. ln = audit_line A hasTSA timely e) written lines)
     \<and> al_dropped l = int (length dropped)
     \<and> length (al_entries l) \<le> audit_capacity
     \<and> (al_waiting l \<noteq> [] \<longrightarrow> length (al_entries l) = audit_capacity)
     \<and> list_all isAuditCritical (al_waiting l) \<and> list_all isAuditCritical lost
     \<and> al_w l = write_all F lines (al_w l0)"

lemma write_all_snoc [simp]: "write_all F (ps @ [p]) s = snd (rf_Write F p (write_all F ps s))"
  by (simp add: write_all_def)

lemma logger_run_inv:
  assumes "logger_run F A hasTSA l0 l acc lines dropped lost"
    and "al_entries l0 = []" "al_waiting l0 = []" "al_dropped l0 = 0"
  shows "logger_inv F A hasTSA l0 l acc lines dropped lost"
  using assms(1)
proof induction
  case start
  then show ?case using assms(2-) by (simp add: logger_inv_def write_all_def)
next
  case (log_room l acc lines dropped lost e' e stamp)
  then show ?case by (auto simp: logger_inv_def Log_def Let_def)
next
  case (log_drop l acc lines dropped lost e' e stamp)
  then show ?case by (auto simp: logger_inv_def Log_def Let_def)
next
  case (log_wait l acc lines dropped lost e stamp)
  then show ?case by (auto simp: logger_inv_def Log_def Let_def)
next
  case (log_stopped l acc lines dropped lost stamp e)
  then show ?case by (simp add: Log_def)
next
  case (timeout l acc lines dropped lost i)
  then show ?case
    by (auto simp: logger_inv_def Log_timeout_def list_all_iff dest: in_set_takeD in_set_dropD)
next
  case (consume l acc lines dropped lost e es timely)
  then obtain written where w: "acc = written @ e # es"
    "list_all2 (\<lambda>e ln. \<exists>timely. ln = audit_line A hasTSA timely e) written lines"
    by (auto simp: logger_inv_def)
  have "list_all2 (\<lambda>e ln. \<exists>timely. ln = audit_line A hasTSA timely e) (written @ [e])
      (lines @ [audit_line A hasTSA timely e])"
    using w(2) by (auto intro: list_all2_appendI)
  with consume w(1) show ?case
    unfolding logger_inv_def loop_step_def
    by (cases "al_waiting l") (auto intro!: exI[of _ "written @ [e]"])
next
  case (close l acc lines dropped lost)
  then show ?case by (auto simp: logger_inv_def Close_begin_def)
qed

lemma loop_step_simps [simp]:
  "al_closed (loop_step F A h tm l) = al_closed l"
  by (simp add: loop_step_def split: list.splits)

lemma drain_run:
  assumes "logger_run F A hasTSA l0 l acc lines dropped lost" "al_waiting l = []" "n = length (al_entries l)"
  shows "\<exists>lines'. logger_run F A hasTSA l0 (drain F A hasTSA timely n l) acc (lines @ lines') dropped lost
    \<and> al_entries (drain F A hasTSA timely n l) = []"
  using assms
proof (induction n arbitrary: l lines)
  case 0
  then show ?case by (intro exI[of _ "[]"]) simp
next
  case (Suc n)
  then obtain e es where e: "al_entries l = e # es" by (cases "al_entries l") auto
  let ?l = "loop_step F A hasTSA (timely n) l"
  have "logger_run F A hasTSA l0 ?l acc (lines @ [audit_line A hasTSA (timely n) e]) dropped lost"
    using logger_run.consume[OF Suc.prems(1) e, of "timely n"] Suc.prems(2) by simp
  moreover have "al_waiting ?l = []" "n = length (al_entries ?l)"
    using Suc.prems e by (simp_all add: loop_step_def)
  ultimately obtain lines' where "logger_run F A hasTSA l0 (drain F A hasTSA timely n ?l) acc
      ((lines @ [audit_line A hasTSA (timely n) e]) @ lines') dropped lost"
    "al_entries (drain F A hasTSA timely n ?l) = []" using Suc.IH by blast
  then show ?case by (intro exI[of _ "audit_line A hasTSA (timely n) e # lines'"]) simp
qed

lemma NewAuditLogger_fresh:
  assumes "NewAuditLogger F file maxSize maxBak fs = Some (Some l0)"
  shows "al_entries l0 = []" "al_waiting l0 = []" "al_dropped l0 = 0" "\<not> al_closed l0" "\<not> al_stopped l0"
    "NewRotatingFile F file maxSize maxBak fs = Some (al_w l0)"
  using assms by (auto simp: NewAuditLogger_def split: if_splits option.splits)

section \<open>Properties\<close>



text \<open>Every line the logger writes verifies, signed or not: if decoding inverts encoding and the authority
  verifies what it signed, then a line is accepted whether or not the authority answered in time. An
  entry without a time stamp is always accepted, so the check does not show that an entry was stamped.\<close>

theorem audit_lines_verify:
  assumes "\<And>tst. au_UnmarshalSigned A (au_MarshalSigned A \<lparr>sa_Entry = e, sa_TST = tst\<rparr> @ [CHR 0x0A])
      = Some \<lparr>sa_Entry = e, sa_TST = tst\<rparr>"
    and "\<And>b. au_DecodeBase64 A (au_EncodeBase64 A b) = Inr b"
    and "\<And>d t. au_TSASign A d = Some t \<Longrightarrow> au_TSAVerify A d t = None"
  shows "VerifyAuditEntry A (audit_line A hasTSA timely e) = None
    \<and> VerifyAuditEntry A (au_MarshalSigned A \<lparr>sa_Entry = e, sa_TST = []\<rparr> @ [CHR 0x0A]) = None"
  using assms by (auto simp: VerifyAuditEntry_def audit_line_def Let_def split: option.splits if_splits)

section \<open>Witnesses\<close>

definition example_audit_env :: audit_env where
  "example_audit_env =
     \<lparr>au_MarshalEntry = ent_Action, au_MarshalSigned = (\<lambda>s. ent_Action (sa_Entry s)),
      au_UnmarshalSigned = (\<lambda>d. Some \<lparr>sa_Entry = zero_entry\<lparr>ent_Action := d\<rparr>, sa_TST = []\<rparr>),
      au_EncodeBase64 = (\<lambda>b. b), au_DecodeBase64 = Inr, au_TSASign = Some, au_TSAVerify = (\<lambda>d t. None)\<rparr>"

definition example_logger :: audit_logger where
  "example_logger = the (the (NewAuditLogger good_os ''a'' 3 1 empty_fs))"

lemma example_logger_new: "NewAuditLogger good_os ''a'' 3 1 empty_fs = Some (Some example_logger)"
  using example_rf_new by (simp add: example_logger_def NewAuditLogger_def)

lemma example_logger_run:
  "logger_run good_os example_audit_env False example_logger (Log ''t'' zero_entry example_logger)
     [zero_entry\<lparr>ent_Time := ''t''\<rparr>] [] [] []"
  using logger_run.log_room[OF logger_run.start, where e = zero_entry and stamp = "''t''"]
    NewAuditLogger_fresh[OF example_logger_new]
  by (auto simp: audit_capacity_def)



definition stamped_env :: audit_env where
  "stamped_env =
     \<lparr>au_MarshalEntry = (\<lambda>e. ''entry''), au_MarshalSigned = sa_TST,
      au_UnmarshalSigned = (\<lambda>d. Some \<lparr>sa_Entry = zero_entry, sa_TST = butlast d\<rparr>),
      au_EncodeBase64 = (\<lambda>b. b), au_DecodeBase64 = Inr, au_TSASign = Some,
      au_TSAVerify = (\<lambda>d t. if d = t then None else Some ''mismatch'')\<rparr>"

theorem audit_lines_verify_witness:
  "VerifyAuditEntry stamped_env (audit_line stamped_env True True zero_entry) = None"
proof -
  have "\<And>tst. au_UnmarshalSigned stamped_env (au_MarshalSigned stamped_env \<lparr>sa_Entry = zero_entry, sa_TST = tst\<rparr> @ [CHR 0x0A])
      = Some \<lparr>sa_Entry = zero_entry, sa_TST = tst\<rparr>"
    "\<And>b. au_DecodeBase64 stamped_env (au_EncodeBase64 stamped_env b) = Inr b"
    "\<And>d t. au_TSASign stamped_env d = Some t \<Longrightarrow> au_TSAVerify stamped_env d t = None"
    by (simp_all add: stamped_env_def)
  from audit_lines_verify[OF this] show ?thesis by blast
qed

end
