(* ===== verification/Pipeline.thy ===== *)
theory Pipeline
  imports Admission Ocsp Policy Parameters Risk_Monitor Audit_Log
begin

text \<open>
  The access pipeline (\<^verbatim>\<open>src/pipeline.go\<close>), which composes revocation, roles, SPIFFE, admission,
  parameter boundaries, the capability registry and the plugins, and the layered entry point beside
  it (\<^verbatim>\<open>src/trust_model.go\<close>). \<^verbatim>\<open>RunAccessPipeline\<close> is one definition per stage, in the order of the
  code. What a run may change is \<open>pipeline_state\<close>: the OCSP cache, the nonce cache, the risk monitor
  with the enforcement actions it fires, and the entries handed to the audit logger. The clock is read
  as \<open>ae_now\<close>, and as \<open>pe_later\<close> after a network exchange of an OCSP check.
\<close>

section \<open>Configuration, state and result\<close>

datatype pipeline_check = CheckFullChain | CheckLeafOnly

record http_facts =
  hf_Method :: string
  hf_Path :: string
  hf_Query :: "(string \<times> string list) list"
  hf_Headers :: "(string \<times> string) list"
  hf_Body :: bytes

record plugin_context =
  px_AgentId :: string
  px_ClientCN :: string
  px_Roles :: "string list"
  px_Target :: string
  px_HTTP :: "http_facts option"

datatype plugin_decision = PluginAllow | PluginDeny | PluginBypass

record plugin_result =
  pl_Decision :: plugin_decision
  pl_Reason :: string

text \<open>A plugin, a plugin registry (its \<^verbatim>\<open>Find\<close>) and a capability registry come from other modules.\<close>

type_synonym plugin = "capability \<Rightarrow> plugin_context \<Rightarrow> string + plugin_result"
type_synonym plugin_registry = "string \<Rightarrow> string + plugin"

record capability_registry =
  cr_ValidateCapability :: "string \<Rightarrow> string option"
  cr_Enabled :: bool

record policy_server =
  sv_Name :: string
  sv_CheckOnline :: "certificate \<Rightarrow> aic option \<Rightarrow> string option"

record pipeline_config =
  pc_CRLCache :: "crl_cache option"
  pc_AllowRoles :: "string list"
  pc_CheckScope :: pipeline_check
  pc_RequireAIC :: bool
  pc_RequireSPIFFE :: bool
  pc_AllowedSPIFFEIDs :: "string list"
  pc_SPIFFETrustDomain :: string
  pc_RequiredProtocol :: string
  pc_RequiredRuleId :: string
  pc_RequiredCapabilities :: "string list"
  pc_Operations :: "operation list"
  pc_UnresolvedEvaluator :: "(operation \<Rightarrow> string list \<Rightarrow> bool) option"
  pc_DischargeObligations :: bool
  pc_ObligationsUnderstood :: "string list"
  pc_RequireFreshDecisionContext :: bool
  pc_DecisionContext :: "decision_context option"
  pc_DisallowRepresentative :: bool
  pc_RequireUserPermission :: bool
  pc_RejectOverflow :: bool
  pc_RequireUserAuth :: bool
  pc_SkipDelegationAuthVerification :: bool
  pc_EnforceCapSizeConstraints :: bool
  pc_EnforceSize32 :: bool
  pc_CapabilityPluginRegistry :: "plugin_registry option"
  pc_CapabilityRegistry :: "capability_registry option"
  pc_CapabilityPluginResolver :: "(string \<Rightarrow> 64 word \<times> plugin_registry option) option"
  pc_AuditLogger :: bool
  pc_NonceCache :: bool
  pc_ClientIP :: string
  pc_UserCert :: "certificate option"
  pc_UserCertResolver :: "(bytes \<Rightarrow> string + certificate option) option"
  pc_EnforceConstraints :: bool
  pc_StrictConstraints :: bool
  pc_AuthorizationPolicy :: "authorization_policy option"
  pc_ConstraintRegistry :: "constraint_registry option"
  pc_ParameterValidators :: "parameter_validator_registry option"
  pc_PolicyServer :: "policy_server option"
  pc_CredentialBundle :: "credential_bundle option"
  pc_PolicyVersion :: "64 word"
  pc_OfflineMaxCertLifetime :: duration
  pc_HTTPFacts :: "http_facts option"

datatype pipeline_reason = NoDeny | NoClientCertificate | NilPipelineConfig
  | CertNotYetValid string | CertExpired string
  | CRLCheckError crl_error | CertRevokedCRL | OCSPCheckError ocsp_error
  | InsufficientRoles "string list" "string list"
  | SpiffeRequired | SpiffeInvalid spiffe_error | SpiffeTrustDomain string string | SpiffeNotAllowed string
  | OfflineLifetime duration duration
  | AdmissionDenied admission_reason
  | ParameterBoundary parameter_error
  | NotRegistered string string
  | UnservedScheme string string
  | PluginFailed string string
  | PluginDenied string string
  | PolicyServerDenied string string

text \<open>What is written about a decision on one capability; an entry's reason is the reason of the
  refusal, or the plugin's own text, or that the scheme is not served.\<close>

datatype log_reason = RefusedFor pipeline_reason | PluginSays string | NotServed string

record plugin_audit_entry =
  pae_Scheme :: string
  pae_CapabilityID :: string
  pae_Decision :: string
  pae_Reason :: log_reason
  pae_ClientCN :: string
  pae_Principal :: string
  pae_Level :: string
  pae_DaHash :: string
  pae_PolicyVersion :: "64 word"

datatype audit_event = UnknownConstraintWarning string | PluginEvent plugin_audit_entry

record pipeline_state =
  ps_OCSP :: "ocsp_cache option"
  ps_Nonces :: nonce_cache
  ps_Risk :: "risk_monitor option"
  ps_Actions :: "risk_action list"
  ps_Log :: "audit_event list"

record pipeline_env =
  pe_adm :: admission_env
  pe_crl :: crl_env
  pe_ocsp :: ocsp_env
  pe_later :: instant
  pe_ParseURL :: "string \<Rightarrow> string + parsed_url"
  pe_globalCaps :: "capability_registry option"
  pe_ParamErrorText :: "parameter_error \<Rightarrow> string"

abbreviation (input) pe_now :: "pipeline_env \<Rightarrow> instant" where
  "pe_now E \<equiv> ae_now (pe_adm E)"

record pipeline_result =
  pr_Granted :: bool
  pr_DenyReason :: pipeline_reason
  pr_ResultRoles :: "string list"
  pr_Principal :: string
  pr_Serial :: string
  pr_AgentId :: string
  pr_SPIFFEID :: string
  pr_AIC :: "aic option"
  pr_PrincipalAuthorization :: "principal_authorization option"
  pr_CLCVerdict :: verdict
  pr_CLCReason :: string
  pr_CLCUnresolved :: "string list"
  pr_OperationDecisions :: "operation_decision list"

definition zero_pipeline_result :: pipeline_result where
  "zero_pipeline_result =
     \<lparr>pr_Granted = False, pr_DenyReason = NoDeny, pr_ResultRoles = [], pr_Principal = [], pr_Serial = [],
      pr_AgentId = [], pr_SPIFFEID = [], pr_AIC = None, pr_PrincipalAuthorization = None,
      pr_CLCVerdict = VerdictOther [], pr_CLCReason = [], pr_CLCUnresolved = [], pr_OperationDecisions = []\<rparr>"

definition pipeline_deny :: "pipeline_reason \<Rightarrow> pipeline_result" where
  "pipeline_deny reason = zero_pipeline_result\<lparr>pr_Granted := False, pr_DenyReason := reason\<rparr>"

definition denyWithAdmission :: "admission_result \<Rightarrow> pipeline_result" where
  "denyWithAdmission admit =
     (pipeline_deny (AdmissionDenied (ar_Reason admit)))
       \<lparr>pr_AIC := ar_AIC admit, pr_PrincipalAuthorization := ar_PA admit, pr_Principal := ar_PrincipalUid admit,
        pr_OperationDecisions := ar_OperationDecisions admit\<rparr>"

definition OfflineLifetimeLimit :: duration where "OfflineLifetimeLimit = hour"

definition OfflineLifetimeFor :: "string \<Rightarrow> duration" where
  "OfflineLifetimeFor ocspFallback =
     (if ocspFallback = OCSPFallbackAllow \<or> ocspFallback = OCSPFallbackCRL then OfflineLifetimeLimit else 0)"

section \<open>Validity and revocation\<close>

definition checkCertValidity :: "instant \<Rightarrow> certificate \<Rightarrow> pipeline_reason option" where
  "checkCertValidity now cert =
     (if Before now (cert_NotBefore cert) then Some (CertNotYetValid (cert_Subject cert))
      else if After now (cert_NotAfter cert) then Some (CertExpired (cert_Subject cert))
      else None)"

definition crl_check :: "pipeline_env \<Rightarrow> pipeline_config \<Rightarrow> certificate \<Rightarrow> pipeline_reason option" where
  "crl_check E cfg cert =
     (case pc_CRLCache cfg of None \<Rightarrow> None | Some crl \<Rightarrow>
      case IsRevokedCert (pe_crl E) (pe_now E) crl (Some cert) of
        Inl e \<Rightarrow> Some (CRLCheckError e)
      | Inr revoked \<Rightarrow> if revoked then Some CertRevokedCRL else None)"

definition checkRevocation ::
    "pipeline_env \<Rightarrow> pipeline_config \<Rightarrow> certificate \<Rightarrow> certificate option \<Rightarrow> ocsp_cache option
     \<Rightarrow> ocsp_cache option \<times> pipeline_reason option" where
  "checkRevocation E cfg cert issuer oc =
     (case crl_check E cfg cert of Some r \<Rightarrow> (oc, Some r) | None \<Rightarrow>
      case oc of None \<Rightarrow> (None, None) | Some c \<Rightarrow>
      case ocsp_Check (pe_ocsp E) (pe_now E) (pe_later E) c cert issuer of
        (c', res) \<Rightarrow> (Some c', map_option OCSPCheckError res))"

definition next_in_chain :: "certificate list \<Rightarrow> certificate option" where
  "next_in_chain rest = (case rest of [] \<Rightarrow> None | i # _ \<Rightarrow> Some i)"

text \<open>The loop over the full chain: the issuer of a certificate is the next one.\<close>

fun chain_loop ::
    "pipeline_env \<Rightarrow> pipeline_config \<Rightarrow> certificate list \<Rightarrow> ocsp_cache option
     \<Rightarrow> ocsp_cache option \<times> pipeline_reason option" where
  "chain_loop E cfg [] oc = (oc, None)"
| "chain_loop E cfg (c # rest) oc =
     (case checkCertValidity (pe_now E) c of Some r \<Rightarrow> (oc, Some r) | None \<Rightarrow>
      case checkRevocation E cfg c (next_in_chain rest) oc of
        (oc', Some r) \<Rightarrow> (oc', Some r)
      | (oc', None) \<Rightarrow> chain_loop E cfg rest oc')"

definition chain_stage ::
    "pipeline_env \<Rightarrow> pipeline_config \<Rightarrow> certificate list \<Rightarrow> ocsp_cache option
     \<Rightarrow> ocsp_cache option \<times> pipeline_reason option" where
  "chain_stage E cfg chain oc =
     (if pc_CheckScope cfg = CheckLeafOnly then
        (case checkCertValidity (pe_now E) (hd chain) of
           Some r \<Rightarrow> (oc, Some r)
         | None \<Rightarrow> checkRevocation E cfg (hd chain) None oc)
      else chain_loop E cfg chain oc)"

section \<open>Identity\<close>

definition roles_stage :: "pipeline_config \<Rightarrow> string list \<Rightarrow> pipeline_reason option" where
  "roles_stage cfg roles =
     (if length (pc_AllowRoles cfg) > 0 \<and> \<not> CheckRole roles (pc_AllowRoles cfg)
      then Some (InsufficientRoles roles (pc_AllowRoles cfg)) else None)"

definition spiffe_stage :: "pipeline_env \<Rightarrow> pipeline_config \<Rightarrow> string \<Rightarrow> pipeline_reason option" where
  "spiffe_stage E cfg spiffeID =
     (if pc_RequireSPIFFE cfg \<or> length (pc_AllowedSPIFFEIDs cfg) > 0 \<or> pc_SPIFFETrustDomain cfg \<noteq> [] then
        (if spiffeID = [] then Some SpiffeRequired
         else case ParseSPIFFEID (pe_ParseURL E) spiffeID of Inl e \<Rightarrow> Some (SpiffeInvalid e) | Inr sid \<Rightarrow>
           if pc_SPIFFETrustDomain cfg \<noteq> [] \<and> TrustDomain sid \<noteq> ToLower (pc_SPIFFETrustDomain cfg)
           then Some (SpiffeTrustDomain (TrustDomain sid) (pc_SPIFFETrustDomain cfg))
           else if length (pc_AllowedSPIFFEIDs cfg) > 0
                \<and> \<not> list_ex (\<lambda>i. canonicalSPIFFEID i = canonicalSPIFFEID spiffeID) (pc_AllowedSPIFFEIDs cfg)
           then Some (SpiffeNotAllowed spiffeID)
           else None)
      else None)"

definition offline_stage :: "pipeline_env \<Rightarrow> pipeline_config \<Rightarrow> certificate \<Rightarrow> pipeline_reason option" where
  "offline_stage E cfg cert =
     (if pc_OfflineMaxCertLifetime cfg > 0 then
        (let remaining = go_Sub (cert_NotAfter cert) (pe_now E) in
         if remaining > pc_OfflineMaxCertLifetime cfg
         then Some (OfflineLifetime remaining (pc_OfflineMaxCertLifetime cfg)) else None)
      else None)"

section \<open>Admission\<close>

definition applyCLCAdmissionConfig :: "admission_config \<Rightarrow> pipeline_config \<Rightarrow> admission_config" where
  "applyCLCAdmissionConfig dst src =
     dst\<lparr>Operations := pc_Operations src,
         UnresolvedEvaluator := pc_UnresolvedEvaluator src,
         DischargeObligations := pc_DischargeObligations src,
         ObligationsUnderstood := pc_ObligationsUnderstood src,
         RequireFreshDecisionContext := pc_RequireFreshDecisionContext src,
         DecisionContext := pc_DecisionContext src,
         ConstraintRegistry := pc_ConstraintRegistry src\<rparr>"

text \<open>The literal both entry points fill from the pipeline configuration; the layered entry point
  leaves the credential bundle out. The age check of the delegation authorization is in neither.\<close>

definition layer2_config :: "pipeline_config \<Rightarrow> admission_config" where
  "layer2_config cfg = applyCLCAdmissionConfig
     \<lparr>RequireAIC = pc_RequireAIC cfg, RequiredProtocol = pc_RequiredProtocol cfg,
      RequiredRuleId = pc_RequiredRuleId cfg, RequiredCapabilities = pc_RequiredCapabilities cfg,
      Operations = [], UnresolvedEvaluator = None, DischargeObligations = False, ObligationsUnderstood = [],
      RequireFreshDecisionContext = False, DecisionContext = None,
      DisallowRepresentative = pc_DisallowRepresentative cfg,
      RequireUserPermission = pc_RequireUserPermission cfg, RejectOverflow = pc_RejectOverflow cfg,
      RequireUserAuth = pc_RequireUserAuth cfg,
      SkipDelegationAuthVerification = pc_SkipDelegationAuthVerification cfg,
      EnforceCapSizeConstraints = pc_EnforceCapSizeConstraints cfg, UseNonceCache = pc_NonceCache cfg,
      EnforceSize32 = pc_EnforceSize32 cfg, UserCert = pc_UserCert cfg, UserCertResolver = pc_UserCertResolver cfg,
      EnforceConstraints = pc_EnforceConstraints cfg, StrictConstraints = pc_StrictConstraints cfg,
      ConstraintRegistry = None, ClientIP = pc_ClientIP cfg, UseAuditLogger = pc_AuditLogger cfg,
      CheckDAAge = False, DAAgeMax = 0, CredentialBundle = None\<rparr> cfg"

definition pipeline_admission_config :: "pipeline_config \<Rightarrow> admission_config" where
  "pipeline_admission_config cfg = (layer2_config cfg)\<lparr>CredentialBundle := pc_CredentialBundle cfg\<rparr>"

section \<open>Audit and risk\<close>

text \<open>\<^verbatim>\<open>LogPluginDecision\<close>: nothing without a logger; an empty level is inferred from the decision.\<close>

definition LogPluginDecision :: "bool \<Rightarrow> plugin_audit_entry \<Rightarrow> audit_event list \<Rightarrow> audit_event list" where
  "LogPluginDecision logger entry log =
     (if \<not> logger then log
      else log @ [PluginEvent (entry\<lparr>pae_Level :=
             (if pae_Level entry \<noteq> [] then pae_Level entry
              else if pae_Decision entry = ''allow'' then ''INFO'' else ''WARN'')\<rparr>)])"

definition aicAgentID :: "pki_ops \<Rightarrow> certificate option \<Rightarrow> string" where
  "aicAgentID P cert_opt =
     (case cert_opt of None \<Rightarrow> [] | Some cert \<Rightarrow>
      case ParseAIC P cert of
        Inr (Some a) \<Rightarrow> if aic_AgentId a \<noteq> [] then aic_AgentId a else cert_CommonName cert
      | _ \<Rightarrow> cert_CommonName cert)"

text \<open>\<^verbatim>\<open>time.Now().Unix()\<close>: whole seconds since 1970.\<close>

definition go_Unix :: "instant \<Rightarrow> int" where
  "go_Unix t = t div second - 62135596800"

definition recordRiskViolation ::
    "pipeline_env \<Rightarrow> certificate \<Rightarrow> string \<Rightarrow> string \<Rightarrow> string \<Rightarrow> pipeline_state \<Rightarrow> pipeline_state" where
  "recordRiskViolation E cert signal cid details st =
     (case RecordViolation (go_Unix (pe_now E))
             \<lparr>rv_AgentId = aicAgentID (ae_pki (pe_adm E)) (Some cert), rv_Signal = signal,
              rv_CapabilityId = cid, rv_Details = details, rv_At = 0\<rparr> (ps_Risk st) of
        (m, act) \<Rightarrow> st\<lparr>ps_Risk := m,
          ps_Actions := ps_Actions st @ (case act of None \<Rightarrow> [] | Some a \<Rightarrow> [a])\<rparr>)"

section \<open>The capability stages\<close>

text \<open>The fields every entry of a run shares.\<close>

definition capability_entry ::
    "capability \<Rightarrow> string \<Rightarrow> log_reason \<Rightarrow> string \<Rightarrow> certificate \<Rightarrow> admission_result \<Rightarrow> string \<Rightarrow> 64 word
     \<Rightarrow> plugin_audit_entry" where
  "capability_entry cap decision reason level cert admit daHash version =
     \<lparr>pae_Scheme = SchemeId cap, pae_CapabilityID = CapabilityId cap, pae_Decision = decision,
      pae_Reason = reason, pae_ClientCN = cert_CommonName cert, pae_Principal = ar_PrincipalUid admit,
      pae_Level = level, pae_DaHash = daHash, pae_PolicyVersion = version\<rparr>"

fun boundary_of_grants ::
    "parameter_validator_registry \<Rightarrow> capability \<Rightarrow> capability list \<Rightarrow> parameter_error option" where
  "boundary_of_grants v declared [] = None"
| "boundary_of_grants v declared (granted # grants) =
     (if aicCapabilityMatches [declared] (CapabilityId granted) then
        (case ValidateCapability (Some v) granted declared of
           Some e \<Rightarrow> Some e
         | None \<Rightarrow> boundary_of_grants v declared grants)
      else boundary_of_grants v declared grants)"

fun boundary_of_caps ::
    "parameter_validator_registry \<Rightarrow> capability list \<Rightarrow> capability list \<Rightarrow> (capability \<times> parameter_error) option" where
  "boundary_of_caps v [] grants = None"
| "boundary_of_caps v (declared # caps) grants =
     (case boundary_of_grants v declared grants of
        Some e \<Rightarrow> Some (declared, e)
      | None \<Rightarrow> boundary_of_caps v caps grants)"

definition parameter_stage ::
    "pipeline_env \<Rightarrow> pipeline_config \<Rightarrow> certificate \<Rightarrow> admission_result \<Rightarrow> pipeline_state
     \<Rightarrow> pipeline_state \<times> pipeline_reason option" where
  "parameter_stage E cfg cert admit st =
     (case (pc_ParameterValidators cfg, ar_AIC admit, ar_PA admit) of
        (Some v, Some a, Some pa) \<Rightarrow>
          (case boundary_of_caps v (ar_EffectiveCaps admit) (pa_Grants pa) of
             None \<Rightarrow> (st, None)
           | Some (declared, e) \<Rightarrow>
               (let reason = ParameterBoundary e;
                    st1 = st\<lparr>ps_Log := LogPluginDecision (pc_AuditLogger cfg)
                       (capability_entry declared ''deny'' (RefusedFor reason) ''WARN'' cert admit [] (pc_PolicyVersion cfg))
                       (ps_Log st)\<rparr>
                in (recordRiskViolation E cert ''parameter_overflow'' (CapabilityId declared)
                      (pe_ParamErrorText E e) st1, Some reason)))
      | _ \<Rightarrow> (st, None))"

definition admitted_agent :: "admission_result \<Rightarrow> string" where
  "admitted_agent admit = (case ar_AIC admit of None \<Rightarrow> [] | Some a \<Rightarrow> aic_AgentId a)"

text \<open>The plugin registry and the policy version in force for the agent.\<close>

definition select_plugins :: "pipeline_config \<Rightarrow> string \<Rightarrow> plugin_registry option \<times> 64 word" where
  "select_plugins cfg agentId =
     (case pc_CapabilityPluginResolver cfg of
        None \<Rightarrow> (pc_CapabilityPluginRegistry cfg, pc_PolicyVersion cfg)
      | Some resolve \<Rightarrow>
          (case resolve agentId of
             (v, None) \<Rightarrow> (pc_CapabilityPluginRegistry cfg, pc_PolicyVersion cfg)
           | (v, Some reg) \<Rightarrow> (Some reg, if v \<noteq> 0 then v else pc_PolicyVersion cfg)))"

definition effective_registry :: "pipeline_env \<Rightarrow> pipeline_config \<Rightarrow> capability_registry option" where
  "effective_registry E cfg =
     (case pc_CapabilityRegistry cfg of Some r \<Rightarrow> Some r | None \<Rightarrow> pe_globalCaps E)"

fun first_unregistered ::
    "pki_ops \<Rightarrow> capability_registry \<Rightarrow> capability list \<Rightarrow> (capability \<times> string) option" where
  "first_unregistered P reg [] = None"
| "first_unregistered P reg (cap # caps) =
     (case cr_ValidateCapability reg (FullID P cap) of
        Some e \<Rightarrow> Some (cap, e)
      | None \<Rightarrow> first_unregistered P reg caps)"

definition registry_stage ::
    "pipeline_env \<Rightarrow> pipeline_config \<Rightarrow> certificate \<Rightarrow> admission_result \<Rightarrow> string \<Rightarrow> 64 word \<Rightarrow> pipeline_state
     \<Rightarrow> pipeline_state \<times> pipeline_reason option" where
  "registry_stage E cfg cert admit daHash version st =
     (case effective_registry E cfg of None \<Rightarrow> (st, None) | Some reg \<Rightarrow>
      if \<not> cr_Enabled reg then (st, None)
      else case first_unregistered (ae_pki (pe_adm E)) reg (ar_EffectiveCaps admit) of
             None \<Rightarrow> (st, None)
           | Some (cap, e) \<Rightarrow>
               (let reason = NotRegistered (FullID (ae_pki (pe_adm E)) cap) e;
                    st1 = st\<lparr>ps_Log := LogPluginDecision (pc_AuditLogger cfg)
                       (capability_entry cap ''deny'' (RefusedFor reason) ''WARN'' cert admit daHash version) (ps_Log st)\<rparr>
                in (recordRiskViolation E cert ''unregistered_capability'' (CapabilityId cap) e st1, Some reason)))"

definition plugin_ctx :: "pipeline_config \<Rightarrow> certificate \<Rightarrow> string \<Rightarrow> string list \<Rightarrow> capability \<Rightarrow> plugin_context" where
  "plugin_ctx cfg cert agentId roles cap =
     \<lparr>px_AgentId = agentId, px_ClientCN = cert_CommonName cert, px_Roles = roles, px_Target = CapabilityId cap,
      px_HTTP = pc_HTTPFacts cfg\<rparr>"

text \<open>What the body of the plugin loop decides on one capability: the decision and reason it logs, and
  the refusal, if any.\<close>

definition plugin_verdict ::
    "pipeline_config \<Rightarrow> plugin_registry \<Rightarrow> plugin_context \<Rightarrow> capability
     \<Rightarrow> string \<times> log_reason \<times> pipeline_reason option" where
  "plugin_verdict cfg reg ctx cap =
     (case reg (SchemeId cap) of
        Inl e \<Rightarrow>
          if requiredCapUnserved (pc_RequiredCapabilities cfg) cap
          then (let r = UnservedScheme (CapabilityId cap) (SchemeId cap) in (''deny'', RefusedFor r, Some r))
          else (''ignore'', NotServed (SchemeId cap), None)
      | Inr p \<Rightarrow>
          (case p cap ctx of
             Inl e \<Rightarrow> (''error'', PluginSays e, Some (PluginFailed (SchemeId cap) e))
           | Inr res \<Rightarrow>
               if pl_Decision res = PluginDeny
               then (''deny'', PluginSays (pl_Reason res), Some (PluginDenied (SchemeId cap) (pl_Reason res)))
               else (''allow'', PluginSays (pl_Reason res), None)))"

definition plugin_level :: "string \<Rightarrow> string" where
  "plugin_level decision = (if decision = ''allow'' \<or> decision = ''ignore'' then ''INFO'' else ''WARN'')"

fun plugin_loop ::
    "pipeline_env \<Rightarrow> pipeline_config \<Rightarrow> certificate \<Rightarrow> admission_result \<Rightarrow> string list \<Rightarrow> string \<Rightarrow> 64 word
     \<Rightarrow> plugin_registry \<Rightarrow> capability list \<Rightarrow> pipeline_state \<Rightarrow> pipeline_state \<times> pipeline_reason option" where
  "plugin_loop E cfg cert admit roles daHash version reg [] st = (st, None)"
| "plugin_loop E cfg cert admit roles daHash version reg (cap # caps) st =
     (case plugin_verdict cfg reg (plugin_ctx cfg cert (admitted_agent admit) roles cap) cap of
        (decision, lr, refusal) \<Rightarrow>
          (let st1 = st\<lparr>ps_Log := LogPluginDecision (pc_AuditLogger cfg)
                   (capability_entry cap decision lr (plugin_level decision) cert admit daHash version) (ps_Log st)\<rparr>
           in case refusal of
                None \<Rightarrow> plugin_loop E cfg cert admit roles daHash version reg caps st1
              | Some r \<Rightarrow>
                  (case r of
                     PluginDenied scheme why \<Rightarrow> recordRiskViolation E cert ''plugin_deny'' (CapabilityId cap) why st1
                   | _ \<Rightarrow> st1,
                   Some r)))"

definition plugin_stage ::
    "pipeline_env \<Rightarrow> pipeline_config \<Rightarrow> certificate \<Rightarrow> admission_result \<Rightarrow> string list \<Rightarrow> string
     \<Rightarrow> plugin_registry option \<times> 64 word \<Rightarrow> pipeline_state \<Rightarrow> pipeline_state \<times> pipeline_reason option" where
  "plugin_stage E cfg cert admit roles daHash selected st =
     (case selected of
        (None, version) \<Rightarrow> (st, None)
      | (Some reg, version) \<Rightarrow> plugin_loop E cfg cert admit roles daHash version reg (ar_EffectiveCaps admit) st)"

section \<open>The pipeline\<close>

definition granted_result ::
    "certificate \<Rightarrow> admission_result \<Rightarrow> string list \<Rightarrow> string \<Rightarrow> pipeline_result" where
  "granted_result cert admit roles spiffeID =
     (case aggregateCLCDecisions (ar_OperationDecisions admit) of (v, why, unresolved) \<Rightarrow>
      \<lparr>pr_Granted = True, pr_DenyReason = NoDeny, pr_ResultRoles = roles, pr_Principal = ar_PrincipalUid admit,
       pr_Serial = text16 (cert_SerialNumber cert), pr_AgentId = admitted_agent admit, pr_SPIFFEID = spiffeID,
       pr_AIC = ar_AIC admit, pr_PrincipalAuthorization = ar_PA admit, pr_CLCVerdict = v, pr_CLCReason = why,
       pr_CLCUnresolved = unresolved, pr_OperationDecisions = ar_OperationDecisions admit\<rparr>)"

text \<open>The stages before admission; they change nothing but the OCSP cache.\<close>

definition identity_stages ::
    "pipeline_env \<Rightarrow> pipeline_config \<Rightarrow> certificate list \<Rightarrow> ocsp_cache option
     \<Rightarrow> ocsp_cache option \<times> pipeline_reason option" where
  "identity_stages E cfg chain oc =
     (case chain_stage E cfg chain oc of
        (oc', Some r) \<Rightarrow> (oc', Some r)
      | (oc', None) \<Rightarrow>
          (oc',
           case roles_stage cfg (extractPolicyRoles (hd chain) (pc_AuthorizationPolicy cfg)) of
             Some r \<Rightarrow> Some r
           | None \<Rightarrow>
               (case spiffe_stage E cfg (ExtractSPIFFEIDFromCert (hd chain)) of
                  Some r \<Rightarrow> Some r
                | None \<Rightarrow> offline_stage E cfg (hd chain))))"

text \<open>The stages after an allowed admission.\<close>

definition capability_stages ::
    "pipeline_env \<Rightarrow> pipeline_config \<Rightarrow> certificate \<Rightarrow> admission_result \<Rightarrow> string list \<Rightarrow> pipeline_state
     \<Rightarrow> pipeline_state \<times> pipeline_reason option" where
  "capability_stages E cfg cert admit roles st =
     (case parameter_stage E cfg cert admit st of
        (st1, Some r) \<Rightarrow> (st1, Some r)
      | (st1, None) \<Rightarrow>
          (let daHash = DAHashFromAIC (ae_crypto (pe_adm E)) (ar_AIC admit);
               selected = select_plugins cfg (admitted_agent admit)
           in case registry_stage E cfg cert admit daHash (snd selected) st1 of
                (st2, Some r) \<Rightarrow> (st2, Some r)
              | (st2, None) \<Rightarrow> plugin_stage E cfg cert admit roles daHash selected st2))"

definition RunAccessPipeline ::
    "pipeline_env \<Rightarrow> certificate list \<Rightarrow> pipeline_config \<Rightarrow> pipeline_state \<Rightarrow> pipeline_result \<times> pipeline_state" where
  "RunAccessPipeline E chain cfg st =
     (if chain = [] then (pipeline_deny NoClientCertificate, st)
      else case identity_stages E cfg chain (ps_OCSP st) of
             (oc, Some r) \<Rightarrow> (pipeline_deny r, st\<lparr>ps_OCSP := oc\<rparr>)
           | (oc, None) \<Rightarrow>
               (case CheckAdmission (pe_adm E) (Some (hd chain)) (pipeline_admission_config cfg) (ps_Nonces st) of
                  (admit, nonces, warnings) \<Rightarrow>
                    (let st1 = st\<lparr>ps_OCSP := oc, ps_Nonces := nonces,
                                  ps_Log := ps_Log st @ map UnknownConstraintWarning warnings\<rparr>;
                         roles = extractPolicyRoles (hd chain) (pc_AuthorizationPolicy cfg)
                     in if ar_Decision admit \<noteq> DecisionAllow then (denyWithAdmission admit, st1)
                        else case capability_stages E cfg (hd chain) admit roles st1 of
                               (st2, Some r) \<Rightarrow> (pipeline_deny r, st2)
                             | (st2, None) \<Rightarrow>
                                 (granted_result (hd chain) admit roles (ExtractSPIFFEIDFromCert (hd chain)), st2))))"

section \<open>Operations\<close>

datatype operation_check_error = NilRegistryOrCapability | ExecuteError string

text \<open>\<open>quote\<close> is the \<^verbatim>\<open>%q\<close> verb of \<^verbatim>\<open>fmt\<close>.\<close>

definition CheckOperationCapability ::
    "(string \<Rightarrow> string) \<Rightarrow> plugin_registry option \<Rightarrow> capability option \<Rightarrow> plugin_context
     \<Rightarrow> operation_check_error + plugin_result" where
  "CheckOperationCapability quote reg_opt cap_opt ctx =
     (case (reg_opt, cap_opt) of
        (Some reg, Some cap) \<Rightarrow>
          (case reg (SchemeId cap) of
             Inl e \<Rightarrow> Inr \<lparr>pl_Decision = PluginDeny, pl_Reason = ''scheme '' @ quote (SchemeId cap) @
                    '' has no registered plugin: fail-closed''\<rparr>
           | Inr p \<Rightarrow> (case p cap ctx of Inl e \<Rightarrow> Inl (ExecuteError e) | Inr res \<Rightarrow> Inr res))
      | _ \<Rightarrow> Inl NilRegistryOrCapability)"

section \<open>Lemmas\<close>

text \<open>A state-changing stage followed by the next: it goes on exactly when the first passes.\<close>

lemma stage_passes [simp]:
  "(case x of (st, None) \<Rightarrow> f st | (st, Some r) \<Rightarrow> (st, Some r)) = (st', None) \<longleftrightarrow>
   (\<exists>st1. x = (st1, None) \<and> f st1 = (st', None))"
  by (auto split: prod.splits option.splits)

lemma pipeline_deny_not_granted [simp]: "\<not> pr_Granted (pipeline_deny r)"
  by (simp add: pipeline_deny_def zero_pipeline_result_def)

lemma pipeline_deny_reason [simp]: "pr_DenyReason (pipeline_deny r) = r"
  by (simp add: pipeline_deny_def)

lemma denyWithAdmission_not_granted [simp]: "\<not> pr_Granted (denyWithAdmission admit)"
  by (simp add: denyWithAdmission_def)

lemma granted_result_simps [simp]:
  "pr_Granted (granted_result cert admit roles spiffe)"
  "pr_AIC (granted_result cert admit roles spiffe) = ar_AIC admit"
  "pr_ResultRoles (granted_result cert admit roles spiffe) = roles"
  by (simp_all add: granted_result_def split: prod.splits)

definition within_validity :: "instant \<Rightarrow> certificate \<Rightarrow> bool" where
  "within_validity now cert \<longleftrightarrow> cert_NotBefore cert \<le> now \<and> now \<le> cert_NotAfter cert"

lemma checkCertValidity_None: "checkCertValidity now cert = None \<longleftrightarrow> within_validity now cert"
  by (auto simp: checkCertValidity_def within_validity_def)

lemma crl_check_None:
  "crl_check E cfg cert = None \<longleftrightarrow>
   (\<forall>crl. pc_CRLCache cfg = Some crl \<longrightarrow> IsRevokedCert (pe_crl E) (pe_now E) crl (Some cert) = Inr False)"
  by (auto simp: crl_check_def split: option.splits)

text \<open>What passing the revocation check of one certificate means.\<close>

definition revocation_clear ::
    "pipeline_env \<Rightarrow> pipeline_config \<Rightarrow> ocsp_cache option \<Rightarrow> certificate \<Rightarrow> certificate option \<Rightarrow> bool" where
  "revocation_clear E cfg oc cert issuer \<longleftrightarrow>
     (case pc_CRLCache cfg of None \<Rightarrow> True
      | Some crl \<Rightarrow> IsRevokedCert (pe_crl E) (pe_now E) crl (Some cert) = Inr False)
     \<and> (case oc of None \<Rightarrow> True
        | Some c \<Rightarrow> snd (ocsp_Check (pe_ocsp E) (pe_now E) (pe_later E) c cert issuer) = None)"

lemma checkRevocation_None:
  assumes "checkRevocation E cfg cert issuer oc = (oc', None)"
  shows "revocation_clear E cfg oc cert issuer"
    and "oc' = map_option (\<lambda>c. fst (ocsp_Check (pe_ocsp E) (pe_now E) (pe_later E) c cert issuer)) oc"
  using assms
  by (auto simp: checkRevocation_def revocation_clear_def crl_check_None split: option.splits prod.splits)

text \<open>The chain is clear when each certificate is valid now and passes with the cache its
  predecessors left.\<close>

fun chain_clear :: "pipeline_env \<Rightarrow> pipeline_config \<Rightarrow> ocsp_cache option \<Rightarrow> certificate list \<Rightarrow> bool" where
  "chain_clear E cfg oc [] = True"
| "chain_clear E cfg oc (c # rest) \<longleftrightarrow>
     within_validity (pe_now E) c \<and> revocation_clear E cfg oc c (next_in_chain rest)
     \<and> chain_clear E cfg
         (map_option (\<lambda>oc. fst (ocsp_Check (pe_ocsp E) (pe_now E) (pe_later E) oc c (next_in_chain rest))) oc) rest"

lemma chain_loop_passes:
  "chain_loop E cfg (c # rest) oc = (oc', None) \<longleftrightarrow>
   within_validity (pe_now E) c \<and> (\<exists>oc1. checkRevocation E cfg c (next_in_chain rest) oc = (oc1, None)
     \<and> chain_loop E cfg rest oc1 = (oc', None))"
  unfolding checkCertValidity_None[symmetric]
  by (cases "checkCertValidity (pe_now E) c") auto

lemma chain_loop_clear: "chain_loop E cfg chain oc = (oc', None) \<Longrightarrow> chain_clear E cfg oc chain"
proof (induction chain arbitrary: oc)
  case Nil
  then show ?case by simp
next
  case (Cons c rest)
  then obtain oc1 where "within_validity (pe_now E) c" "checkRevocation E cfg c (next_in_chain rest) oc = (oc1, None)"
    "chain_loop E cfg rest oc1 = (oc', None)" unfolding chain_loop_passes by blast
  with Cons.IH checkRevocation_None[of E cfg c "next_in_chain rest" oc oc1] show ?case by simp
qed

definition scope_clear :: "pipeline_env \<Rightarrow> pipeline_config \<Rightarrow> ocsp_cache option \<Rightarrow> certificate list \<Rightarrow> bool" where
  "scope_clear E cfg oc chain \<longleftrightarrow>
     (if pc_CheckScope cfg = CheckLeafOnly
      then within_validity (pe_now E) (hd chain) \<and> revocation_clear E cfg oc (hd chain) None
      else chain_clear E cfg oc chain)"

lemma chain_stage_clear:
  "chain_stage E cfg chain oc = (oc', None) \<Longrightarrow> scope_clear E cfg oc chain"
  by (auto simp: chain_stage_def scope_clear_def checkCertValidity_None
      split: if_splits option.splits dest: checkRevocation_None chain_loop_clear)

text \<open>The SPIFFE requirements of a configuration.\<close>

definition spiffe_ok :: "pipeline_env \<Rightarrow> pipeline_config \<Rightarrow> certificate \<Rightarrow> bool" where
  "spiffe_ok E cfg cert \<longleftrightarrow>
     (pc_RequireSPIFFE cfg \<or> pc_AllowedSPIFFEIDs cfg \<noteq> [] \<or> pc_SPIFFETrustDomain cfg \<noteq> [] \<longrightarrow>
        (\<exists>sid. ParseSPIFFEID (pe_ParseURL E) (ExtractSPIFFEIDFromCert cert) = Inr sid
           \<and> (pc_SPIFFETrustDomain cfg = [] \<or> TrustDomain sid = ToLower (pc_SPIFFETrustDomain cfg)))
        \<and> (pc_AllowedSPIFFEIDs cfg = [] \<or> list_ex (VerifySPIFFESAN cert) (pc_AllowedSPIFFEIDs cfg)))"

lemma spiffe_stage_None:
  "spiffe_stage E cfg (ExtractSPIFFEIDFromCert cert) = None \<Longrightarrow> spiffe_ok E cfg cert"
  unfolding spiffe_stage_def spiffe_ok_def VerifySPIFFESAN_def
  by (cases "ParseSPIFFEID (pe_ParseURL E) (ExtractSPIFFEIDFromCert cert)")
    (auto simp: list_ex_iff eq_commute[of "canonicalSPIFFEID (ExtractSPIFFEIDFromCert cert)"] split: if_splits)

lemma identity_stages_None:
  assumes "identity_stages E cfg chain oc = (oc', None)"
  shows "chain_stage E cfg chain oc = (oc', None)"
    and "roles_stage cfg (extractPolicyRoles (hd chain) (pc_AuthorizationPolicy cfg)) = None"
    and "spiffe_stage E cfg (ExtractSPIFFEIDFromCert (hd chain)) = None"
    and "offline_stage E cfg (hd chain) = None"
  using assms by (auto simp: identity_stages_def split: prod.splits option.splits)

lemma capability_stages_None:
  assumes "capability_stages E cfg cert admit roles st = (st', None)"
  obtains st1 st2 where "parameter_stage E cfg cert admit st = (st1, None)"
    "registry_stage E cfg cert admit (DAHashFromAIC (ae_crypto (pe_adm E)) (ar_AIC admit))
       (snd (select_plugins cfg (admitted_agent admit))) st1 = (st2, None)"
    "plugin_stage E cfg cert admit roles (DAHashFromAIC (ae_crypto (pe_adm E)) (ar_AIC admit))
       (select_plugins cfg (admitted_agent admit)) st2 = (st', None)"
  using assms by (auto simp: capability_stages_def Let_def split: prod.splits option.splits)

text \<open>The path of a granted request through the pipeline.\<close>

lemma RunAccessPipeline_granted:
  assumes "RunAccessPipeline E chain cfg st = (res, st')" "pr_Granted res"
  obtains oc admit nonces warnings st1 where "chain \<noteq> []"
    "identity_stages E cfg chain (ps_OCSP st) = (oc, None)"
    "CheckAdmission (pe_adm E) (Some (hd chain)) (pipeline_admission_config cfg) (ps_Nonces st)
       = (admit, nonces, warnings)"
    "ar_Decision admit = DecisionAllow"
    "st1 = st\<lparr>ps_OCSP := oc, ps_Nonces := nonces, ps_Log := ps_Log st @ map UnknownConstraintWarning warnings\<rparr>"
    "capability_stages E cfg (hd chain) admit (extractPolicyRoles (hd chain) (pc_AuthorizationPolicy cfg)) st1
       = (st', None)"
    "res = granted_result (hd chain) admit (extractPolicyRoles (hd chain) (pc_AuthorizationPolicy cfg))
       (ExtractSPIFFEIDFromCert (hd chain))"
proof -
  have ne: "chain \<noteq> []" using assms by (auto simp: RunAccessPipeline_def)
  obtain oc where id: "identity_stages E cfg chain (ps_OCSP st) = (oc, None)"
    using assms ne by (auto simp: RunAccessPipeline_def split: prod.splits option.splits)
  obtain admit nonces warnings where
    adm: "CheckAdmission (pe_adm E) (Some (hd chain)) (pipeline_admission_config cfg) (ps_Nonces st)
       = (admit, nonces, warnings)" by (metis prod_cases3)
  have allow: "ar_Decision admit = DecisionAllow"
    using assms ne id adm by (auto simp: RunAccessPipeline_def Let_def split: if_splits)
  show thesis
    by (rule that[OF ne id adm allow refl])
      (use assms ne id adm allow in \<open>auto simp: RunAccessPipeline_def Let_def split: prod.splits option.splits\<close>)
qed

text \<open>What the capability stages have established about one capability of a granted connection.\<close>

lemma boundary_of_grants_None:
  "boundary_of_grants v declared grants = None \<Longrightarrow> g \<in> set grants \<Longrightarrow>
   aicCapabilityMatches [declared] (CapabilityId g) \<Longrightarrow> ValidateCapability (Some v) g declared = None"
  by (induction grants) (auto split: if_splits simp del: aicCapabilityMatches.simps)

lemma boundary_of_caps_None:
  "boundary_of_caps v caps grants = None \<Longrightarrow> cap \<in> set caps \<Longrightarrow> boundary_of_grants v cap grants = None"
  by (induction caps) auto

lemma first_unregistered_None:
  "first_unregistered P reg caps = None \<longleftrightarrow> list_all (\<lambda>c. cr_ValidateCapability reg (FullID P c) = None) caps"
  by (induction caps) auto

definition plugin_clears :: "pipeline_config \<Rightarrow> plugin_registry \<Rightarrow> plugin_context \<Rightarrow> capability \<Rightarrow> bool" where
  "plugin_clears cfg reg ctx cap \<longleftrightarrow>
     (case reg (SchemeId cap) of
        Inl e \<Rightarrow> \<not> requiredCapUnserved (pc_RequiredCapabilities cfg) cap
      | Inr p \<Rightarrow> (case p cap ctx of Inl e \<Rightarrow> False | Inr res \<Rightarrow> pl_Decision res \<noteq> PluginDeny))"

lemma plugin_verdict_clears: "snd (snd (plugin_verdict cfg reg ctx cap)) = None \<longleftrightarrow> plugin_clears cfg reg ctx cap"
  by (auto simp: plugin_verdict_def plugin_clears_def Let_def split: sum.splits)

definition plugin_entry ::
    "pipeline_config \<Rightarrow> certificate \<Rightarrow> admission_result \<Rightarrow> string list \<Rightarrow> string \<Rightarrow> 64 word \<Rightarrow> plugin_registry
     \<Rightarrow> capability \<Rightarrow> plugin_audit_entry" where
  "plugin_entry cfg cert admit roles daHash version reg cap =
     (let v = plugin_verdict cfg reg (plugin_ctx cfg cert (admitted_agent admit) roles cap) cap
      in capability_entry cap (fst v) (fst (snd v)) (plugin_level (fst v)) cert admit daHash version)"

lemma LogPluginDecision_level [simp]:
  "pae_Level e \<noteq> [] \<Longrightarrow> LogPluginDecision logger e log = (if logger then log @ [PluginEvent e] else log)"
  by (simp add: LogPluginDecision_def)

lemma plugin_entry_level [simp]: "pae_Level (plugin_entry cfg cert admit roles daHash version reg cap) \<noteq> []"
  by (simp add: plugin_entry_def capability_entry_def plugin_level_def Let_def)

lemma plugin_loop_Cons:
  "plugin_loop E cfg cert admit roles daHash version reg (cap # caps) st =
     (let st1 = st\<lparr>ps_Log := LogPluginDecision (pc_AuditLogger cfg)
            (plugin_entry cfg cert admit roles daHash version reg cap) (ps_Log st)\<rparr>
      in case snd (snd (plugin_verdict cfg reg (plugin_ctx cfg cert (admitted_agent admit) roles cap) cap)) of
           None \<Rightarrow> plugin_loop E cfg cert admit roles daHash version reg caps st1
         | Some r \<Rightarrow>
             (case r of
                PluginDenied scheme why \<Rightarrow> recordRiskViolation E cert ''plugin_deny'' (CapabilityId cap) why st1
              | _ \<Rightarrow> st1,
              Some r))"
  by (simp add: plugin_entry_def Let_def case_prod_beta)

lemma plugin_loop_None:
  assumes "plugin_loop E cfg cert admit roles daHash version reg caps st = (st', None)"
  shows "list_all (\<lambda>cap. plugin_clears cfg reg (plugin_ctx cfg cert (admitted_agent admit) roles cap) cap) caps
    \<and> st' = st\<lparr>ps_Log := ps_Log st @ (if pc_AuditLogger cfg
        then map (\<lambda>cap. PluginEvent (plugin_entry cfg cert admit roles daHash version reg cap)) caps else [])\<rparr>"
  using assms
proof (induction caps arbitrary: st)
  case Nil
  then show ?case by simp
next
  case (Cons cap caps)
  then have clear: "plugin_clears cfg reg (plugin_ctx cfg cert (admitted_agent admit) roles cap) cap"
    unfolding plugin_loop_Cons plugin_verdict_clears[symmetric] Let_def
    by (auto split: option.splits)
  with Cons.prems have "plugin_loop E cfg cert admit roles daHash version reg caps
      (st\<lparr>ps_Log := LogPluginDecision (pc_AuditLogger cfg)
            (plugin_entry cfg cert admit roles daHash version reg cap) (ps_Log st)\<rparr>) = (st', None)"
    unfolding plugin_loop_Cons plugin_verdict_clears[symmetric] Let_def by simp
  from Cons.IH[OF this] clear show ?case by simp
qed

definition capability_cleared ::
    "pipeline_env \<Rightarrow> pipeline_config \<Rightarrow> certificate \<Rightarrow> admission_result \<Rightarrow> string list \<Rightarrow> capability \<Rightarrow> bool" where
  "capability_cleared E cfg cert admit roles cap \<longleftrightarrow>
     (case effective_registry E cfg of None \<Rightarrow> True
      | Some reg \<Rightarrow> \<not> cr_Enabled reg \<or> cr_ValidateCapability reg (FullID (ae_pki (pe_adm E)) cap) = None)
     \<and> (case (pc_ParameterValidators cfg, ar_AIC admit, ar_PA admit) of
          (Some v, Some a, Some pa) \<Rightarrow>
            list_all (\<lambda>g. \<not> aicCapabilityMatches [cap] (CapabilityId g) \<or> ValidateCapability (Some v) g cap = None)
              (pa_Grants pa)
        | _ \<Rightarrow> True)
     \<and> (case fst (select_plugins cfg (admitted_agent admit)) of None \<Rightarrow> True
        | Some reg \<Rightarrow> plugin_clears cfg reg (plugin_ctx cfg cert (admitted_agent admit) roles cap) cap)"

lemma parameter_stage_None:
  assumes "parameter_stage E cfg cert admit st = (st', None)"
  shows "st' = st"
    and "pc_ParameterValidators cfg = Some v \<Longrightarrow> ar_AIC admit = Some a \<Longrightarrow> ar_PA admit = Some pa \<Longrightarrow>
      boundary_of_caps v (ar_EffectiveCaps admit) (pa_Grants pa) = None"
  using assms by (auto simp: parameter_stage_def Let_def split: option.splits prod.splits)

lemma registry_stage_None:
  assumes "registry_stage E cfg cert admit daHash version st = (st', None)"
  shows "st' = st"
    and "effective_registry E cfg = Some reg \<Longrightarrow> cr_Enabled reg \<Longrightarrow>
      list_all (\<lambda>c. cr_ValidateCapability reg (FullID (ae_pki (pe_adm E)) c) = None) (ar_EffectiveCaps admit)"
  using assms
  by (auto simp: registry_stage_def Let_def first_unregistered_None split: option.splits prod.splits if_splits)

lemma capability_stages_cleared:
  assumes "capability_stages E cfg cert admit roles st = (st', None)"
  shows "list_all (capability_cleared E cfg cert admit roles) (ar_EffectiveCaps admit)"
proof -
  from assms obtain st1 st2 where p: "parameter_stage E cfg cert admit st = (st1, None)"
    and r: "registry_stage E cfg cert admit (DAHashFromAIC (ae_crypto (pe_adm E)) (ar_AIC admit))
       (snd (select_plugins cfg (admitted_agent admit))) st1 = (st2, None)"
    and g: "plugin_stage E cfg cert admit roles (DAHashFromAIC (ae_crypto (pe_adm E)) (ar_AIC admit))
       (select_plugins cfg (admitted_agent admit)) st2 = (st', None)"
    by (rule capability_stages_None)
  have "capability_cleared E cfg cert admit roles cap" if "cap \<in> set (ar_EffectiveCaps admit)" for cap
    unfolding capability_cleared_def
  proof (intro conjI)
    show "case effective_registry E cfg of None \<Rightarrow> True
      | Some reg \<Rightarrow> \<not> cr_Enabled reg \<or> cr_ValidateCapability reg (FullID (ae_pki (pe_adm E)) cap) = None"
      using registry_stage_None(2)[OF r] that by (auto simp: list_all_iff split: option.splits)
    show "case (pc_ParameterValidators cfg, ar_AIC admit, ar_PA admit) of
          (Some v, Some a, Some pa) \<Rightarrow>
            list_all (\<lambda>g. \<not> aicCapabilityMatches [cap] (CapabilityId g) \<or> ValidateCapability (Some v) g cap = None)
              (pa_Grants pa)
        | _ \<Rightarrow> True"
      using parameter_stage_None(2)[OF p] that
      by (auto simp: list_all_iff split: option.splits simp del: aicCapabilityMatches.simps
          dest!: boundary_of_caps_None dest: boundary_of_grants_None)
    show "case fst (select_plugins cfg (admitted_agent admit)) of None \<Rightarrow> True
        | Some reg \<Rightarrow> plugin_clears cfg reg (plugin_ctx cfg cert (admitted_agent admit) roles cap) cap"
      using g that
      by (auto simp: plugin_stage_def list_all_iff split: option.splits prod.splits dest!: plugin_loop_None)
  qed
  then show ?thesis by (simp add: list_all_iff)
qed

text \<open>The refusals of the capability stages, and those that count as risk signals.\<close>

definition capability_refusal :: "pipeline_reason \<Rightarrow> bool" where
  "capability_refusal r \<longleftrightarrow>
     (case r of ParameterBoundary e \<Rightarrow> True | NotRegistered i e \<Rightarrow> True | UnservedScheme i s \<Rightarrow> True
      | PluginFailed s e \<Rightarrow> True | PluginDenied s e \<Rightarrow> True | _ \<Rightarrow> False)"

definition risk_refusal :: "pipeline_reason \<Rightarrow> bool" where
  "risk_refusal r \<longleftrightarrow>
     (case r of ParameterBoundary e \<Rightarrow> True | NotRegistered i e \<Rightarrow> True | PluginDenied s e \<Rightarrow> True | _ \<Rightarrow> False)"

definition refusal_logged :: "pipeline_config \<Rightarrow> pipeline_state \<Rightarrow> bool" where
  "refusal_logged cfg st \<longleftrightarrow> (pc_AuditLogger cfg \<longrightarrow>
     (\<exists>log e. ps_Log st = log @ [PluginEvent e] \<and> pae_Level e = ''WARN'' \<and> pae_Decision e \<in> {''deny'', ''error''}))"

lemma recordRiskViolation_Log [simp]: "ps_Log (recordRiskViolation E cert signal cid details st) = ps_Log st"
  by (simp add: recordRiskViolation_def split: prod.splits)

definition stage_refuses :: "pipeline_config \<Rightarrow> pipeline_state \<Rightarrow> pipeline_state \<Rightarrow> pipeline_reason \<Rightarrow> bool" where
  "stage_refuses cfg st st' r \<longleftrightarrow> capability_refusal r \<and> refusal_logged cfg st'
     \<and> (risk_refusal r \<or> ps_Risk st' = ps_Risk st \<and> ps_Actions st' = ps_Actions st)"

lemma parameter_stage_refuses:
  "parameter_stage E cfg cert admit st = (st', Some r) \<Longrightarrow> stage_refuses cfg st st' r"
  unfolding stage_refuses_def
  by (auto simp: parameter_stage_def Let_def capability_refusal_def risk_refusal_def capability_entry_def
      refusal_logged_def split: option.splits prod.splits)

lemma registry_stage_refuses:
  "registry_stage E cfg cert admit daHash version st = (st', Some r) \<Longrightarrow> stage_refuses cfg st st' r"
  unfolding stage_refuses_def
  by (auto simp: registry_stage_def Let_def capability_refusal_def risk_refusal_def capability_entry_def
      refusal_logged_def split: option.splits prod.splits if_splits)

lemma plugin_verdict_refuses:
  "snd (snd (plugin_verdict cfg reg ctx cap)) = Some r \<Longrightarrow> capability_refusal r
   \<and> fst (plugin_verdict cfg reg ctx cap) \<in> {''deny'', ''error''}
   \<and> (risk_refusal r \<longleftrightarrow> (\<exists>s e. r = PluginDenied s e))"
  by (auto simp: plugin_verdict_def Let_def capability_refusal_def risk_refusal_def split: sum.splits if_splits)

lemma plugin_loop_refuses:
  "plugin_loop E cfg cert admit roles daHash version reg caps st = (st', Some r) \<Longrightarrow> stage_refuses cfg st st' r"
proof (induction caps arbitrary: st)
  case Nil
  then show ?case by simp
next
  case (Cons cap caps)
  let ?v = "plugin_verdict cfg reg (plugin_ctx cfg cert (admitted_agent admit) roles cap) cap"
  let ?st = "st\<lparr>ps_Log := LogPluginDecision (pc_AuditLogger cfg)
            (plugin_entry cfg cert admit roles daHash version reg cap) (ps_Log st)\<rparr>"
  show ?case
  proof (cases "snd (snd ?v)")
    case None
    with Cons.prems have "plugin_loop E cfg cert admit roles daHash version reg caps ?st = (st', Some r)"
      unfolding plugin_loop_Cons Let_def by simp
    from Cons.IH[OF this] show ?thesis by (simp add: stage_refuses_def)
  next
    case (Some r')
    note v = plugin_verdict_refuses[OF Some]
    have r: "r' = r" and st': "st' = (case r of
        PluginDenied scheme why \<Rightarrow> recordRiskViolation E cert ''plugin_deny'' (CapabilityId cap) why ?st | _ \<Rightarrow> ?st)"
      using Cons.prems Some unfolding plugin_loop_Cons Let_def by auto
    have "ps_Log st' = ps_Log ?st" using st' by (simp split: pipeline_reason.splits)
    then have "refusal_logged cfg st'"
      using v by (auto simp: refusal_logged_def plugin_entry_def capability_entry_def plugin_level_def Let_def)
    moreover have "risk_refusal r \<or> ps_Risk st' = ps_Risk st \<and> ps_Actions st' = ps_Actions st"
      using v r st' by (cases r) (simp_all add: risk_refusal_def)
    ultimately show ?thesis using v r by (simp add: stage_refuses_def)
  qed
qed

lemma capability_stages_refuses:
  assumes "capability_stages E cfg cert admit roles st = (st', Some r)"
  shows "stage_refuses cfg st st' r"
proof -
  obtain st1 x1 where p: "parameter_stage E cfg cert admit st = (st1, x1)" by fastforce
  show ?thesis
  proof (cases x1)
    case (Some r')
    with assms p show ?thesis by (auto simp: capability_stages_def dest: parameter_stage_refuses)
  next
    case None
    let ?h = "DAHashFromAIC (ae_crypto (pe_adm E)) (ar_AIC admit)"
    let ?s = "select_plugins cfg (admitted_agent admit)"
    have st1: "st1 = st" using parameter_stage_None(1)[of E cfg cert admit st st1] p None by simp
    obtain st2 x2 where g: "registry_stage E cfg cert admit ?h (snd ?s) st = (st2, x2)" by fastforce
    show ?thesis
    proof (cases x2)
      case (Some r')
      with assms p None st1 g show ?thesis
        by (auto simp: capability_stages_def Let_def dest: registry_stage_refuses)
    next
      case x2: None
      then have "st2 = st" using registry_stage_None(1)[of E cfg cert admit ?h "snd ?s" st st2] g by simp
      with assms p None st1 g x2 show ?thesis
        by (cases ?s; cases "fst ?s")
          (auto simp: capability_stages_def Let_def plugin_stage_def dest: plugin_loop_refuses)
    qed
  qed
qed

text \<open>The capability stages leave the OCSP cache alone, and they read of the environment only the
  admission part and the two registries.\<close>

lemma recordRiskViolation_OCSP [simp]: "ps_OCSP (recordRiskViolation E cert signal cid details st) = ps_OCSP st"
  by (simp add: recordRiskViolation_def split: prod.splits)

lemma plugin_loop_OCSP:
  "ps_OCSP (fst (plugin_loop E cfg cert admit roles daHash version reg caps st)) = ps_OCSP st"
  by (induction caps arbitrary: st)
    (auto simp: plugin_loop_Cons Let_def simp del: plugin_loop.simps(2) split: option.splits pipeline_reason.splits)

lemma capability_stages_OCSP: "ps_OCSP (fst (capability_stages E cfg cert admit roles st)) = ps_OCSP st"
proof -
  have "ps_OCSP (fst (parameter_stage E cfg cert admit st)) = ps_OCSP st" for st
    by (auto simp: parameter_stage_def Let_def split: prod.splits option.splits)
  moreover have "ps_OCSP (fst (registry_stage E cfg cert admit h v st)) = ps_OCSP st" for h v st
    by (auto simp: registry_stage_def Let_def split: prod.splits option.splits)
  moreover have "ps_OCSP (fst (plugin_stage E cfg cert admit roles h s st)) = ps_OCSP st" for h s st
    by (auto simp: plugin_stage_def plugin_loop_OCSP split: prod.splits option.splits)
  ultimately show ?thesis
    unfolding capability_stages_def Let_def
    by (auto split: prod.split option.split) (metis fst_conv)+
qed

lemma recordRiskViolation_env: "pe_adm E1 = pe_adm E2 \<Longrightarrow> recordRiskViolation E1 = recordRiskViolation E2"
  by (intro ext) (simp add: recordRiskViolation_def)

lemma plugin_loop_env:
  assumes "pe_adm E1 = pe_adm E2"
  shows "plugin_loop E1 cfg cert admit roles daHash version reg caps st
    = plugin_loop E2 cfg cert admit roles daHash version reg caps st"
proof (induction caps arbitrary: st)
  case (Cons cap caps)
  show ?case unfolding plugin_loop_Cons Let_def Cons.IH recordRiskViolation_env[OF assms] ..
qed simp

lemma capability_stages_env:
  assumes "pe_adm E1 = pe_adm E2" "pe_globalCaps E1 = pe_globalCaps E2" "pe_ParamErrorText E1 = pe_ParamErrorText E2"
  shows "capability_stages E1 cfg cert admit roles st = capability_stages E2 cfg cert admit roles st"
  unfolding capability_stages_def parameter_stage_def registry_stage_def plugin_stage_def effective_registry_def
    recordRiskViolation_env[OF assms(1)] plugin_loop_env[OF assms(1)] assms ..

text \<open>The stages before admission never refuse for one of these reasons.\<close>

lemma ocsp_refusals: "checkRevocation E cfg cert issuer oc = (oc', Some r) \<Longrightarrow> \<not> capability_refusal r"
  by (auto simp: checkRevocation_def crl_check_def capability_refusal_def
      split: option.splits prod.splits sum.splits if_splits)

lemma chain_loop_refusals: "chain_loop E cfg chain oc = (oc', Some r) \<Longrightarrow> \<not> capability_refusal r"
  by (induction chain arbitrary: oc)
    (auto simp: checkCertValidity_def capability_refusal_def split: option.splits prod.splits if_splits
      dest: ocsp_refusals[unfolded capability_refusal_def])

lemma identity_stages_reason:
  assumes "identity_stages E cfg chain oc = (oc', x)"
  shows "x = Some r \<Longrightarrow> \<not> capability_refusal r"
proof -
  have "chain_stage E cfg chain oc = (oc1, Some r) \<Longrightarrow> \<not> capability_refusal r" for oc1 r
    by (auto simp: chain_stage_def checkCertValidity_def split: if_splits
        dest: ocsp_refusals chain_loop_refusals simp: capability_refusal_def[of "CertNotYetValid _"]
          capability_refusal_def[of "CertExpired _"])
  moreover have "roles_stage cfg roles = Some r \<Longrightarrow> \<not> capability_refusal r" for roles r
    by (auto simp: roles_stage_def capability_refusal_def split: if_splits)
  moreover have "spiffe_stage E cfg i = Some r \<Longrightarrow> \<not> capability_refusal r" for i r
    by (auto simp: spiffe_stage_def capability_refusal_def split: if_splits sum.splits)
  moreover have "offline_stage E cfg c = Some r \<Longrightarrow> \<not> capability_refusal r" for c r
    by (auto simp: offline_stage_def Let_def capability_refusal_def split: if_splits)
  ultimately show "x = Some r \<Longrightarrow> \<not> capability_refusal r"
    using assms by (auto simp: identity_stages_def split: prod.splits option.splits)
qed

text \<open>A granted run leaves the risk monitor alone.\<close>

lemma pipeline_granted_risk:
  assumes "RunAccessPipeline E chain cfg st = (res, st')" "pr_Granted res"
  shows "pr_DenyReason res = NoDeny \<and> ps_Risk st' = ps_Risk st \<and> ps_Actions st' = ps_Actions st"
  using assms
proof (rule RunAccessPipeline_granted)
  fix oc admit nonces warnings st1
  assume st1: "st1 = st\<lparr>ps_OCSP := oc, ps_Nonces := nonces, ps_Log := ps_Log st @ map UnknownConstraintWarning warnings\<rparr>"
    and caps: "capability_stages E cfg (hd chain) admit (extractPolicyRoles (hd chain) (pc_AuthorizationPolicy cfg)) st1
       = (st', None)"
    and res: "res = granted_result (hd chain) admit (extractPolicyRoles (hd chain) (pc_AuthorizationPolicy cfg))
       (ExtractSPIFFEIDFromCert (hd chain))"
  from caps have "ps_Risk st' = ps_Risk st1 \<and> ps_Actions st' = ps_Actions st1"
    by (rule capability_stages_None)
      (auto simp: plugin_stage_def split: prod.splits option.splits
        dest!: parameter_stage_None(1) registry_stage_None(1) plugin_loop_None)
  with st1 res show ?thesis by (simp add: granted_result_def split: prod.splits)
qed

section \<open>Properties\<close>

text \<open>C15. What a granted connection has been through: there is a leaf certificate; within the configured scope
  every certificate is inside its validity period, is not on the CRL and passes the OCSP check; the leaf
  holds an allowed role where roles are restricted, has an acceptable SPIFFE identity where one is
  demanded, expires within the offline limit where one is set; and the admission engine allowed it.\<close>

theorem pipeline_grant_identity:
  assumes "RunAccessPipeline E chain cfg st = (res, st')" "pr_Granted res"
  shows "chain \<noteq> [] \<and> scope_clear E cfg (ps_OCSP st) chain
    \<and> (pc_AllowRoles cfg = [] \<or>
        CheckRole (extractPolicyRoles (hd chain) (pc_AuthorizationPolicy cfg)) (pc_AllowRoles cfg))
    \<and> spiffe_ok E cfg (hd chain)
    \<and> (0 < pc_OfflineMaxCertLifetime cfg \<longrightarrow>
        go_Sub (cert_NotAfter (hd chain)) (pe_now E) \<le> pc_OfflineMaxCertLifetime cfg)
    \<and> ar_Decision (fst (CheckAdmission (pe_adm E) (Some (hd chain)) (pipeline_admission_config cfg) (ps_Nonces st)))
        = DecisionAllow"
proof -
  from assms obtain oc where ne: "chain \<noteq> []" and id: "identity_stages E cfg chain (ps_OCSP st) = (oc, None)"
    and adm: "ar_Decision (fst (CheckAdmission (pe_adm E) (Some (hd chain)) (pipeline_admission_config cfg)
        (ps_Nonces st))) = DecisionAllow"
    by (rule RunAccessPipeline_granted) auto
  note stages = identity_stages_None[OF id]
  have "pc_AllowRoles cfg = [] \<or>
        CheckRole (extractPolicyRoles (hd chain) (pc_AuthorizationPolicy cfg)) (pc_AllowRoles cfg)"
    using stages(2) by (auto simp: roles_stage_def)
  moreover have "0 < pc_OfflineMaxCertLifetime cfg \<longrightarrow>
        go_Sub (cert_NotAfter (hd chain)) (pe_now E) \<le> pc_OfflineMaxCertLifetime cfg"
    using stages(4) by (auto simp: offline_stage_def Let_def)
  ultimately show ?thesis
    using ne adm chain_stage_clear[OF stages(1)] spiffe_stage_None[OF stages(3)] by blast
qed

text \<open>C16. No declared capability slips through: when the pipeline grants, every effective capability of the
  admission is registered (where a registry is enabled), stays inside the parameter boundary of each
  grant it matches, and is cleared by the plugin of its scheme; a scheme without a plugin is tolerated
  only for a capability that the request does not require.\<close>

theorem pipeline_grant_capabilities:
  assumes "RunAccessPipeline E chain cfg st = (res, st')" "pr_Granted res"
  shows "\<exists>admit nonces warnings.
    CheckAdmission (pe_adm E) (Some (hd chain)) (pipeline_admission_config cfg) (ps_Nonces st) = (admit, nonces, warnings)
    \<and> list_all (capability_cleared E cfg (hd chain) admit
         (extractPolicyRoles (hd chain) (pc_AuthorizationPolicy cfg))) (ar_EffectiveCaps admit)"
  using assms
proof (rule RunAccessPipeline_granted)
  fix oc admit nonces warnings st1
  assume adm: "CheckAdmission (pe_adm E) (Some (hd chain)) (pipeline_admission_config cfg) (ps_Nonces st)
       = (admit, nonces, warnings)"
    and caps: "capability_stages E cfg (hd chain) admit (extractPolicyRoles (hd chain) (pc_AuthorizationPolicy cfg)) st1
       = (st', None)"
  from adm capability_stages_cleared[OF caps] show ?thesis by blast
qed

text \<open>The audit trail of a granted connection is complete: with a logger, the log grows by the warnings of
  the admission and then, where plugins are in force, by exactly one entry per effective capability,
  in order, stating the plugin's decision on it under the policy version in force for the agent.\<close>

theorem pipeline_audit_trail:
  assumes "RunAccessPipeline E chain cfg st = (res, st')" "pr_Granted res" "pc_AuditLogger cfg"
  shows "\<exists>admit nonces warnings.
    CheckAdmission (pe_adm E) (Some (hd chain)) (pipeline_admission_config cfg) (ps_Nonces st) = (admit, nonces, warnings)
    \<and> ps_Log st' = ps_Log st @ map UnknownConstraintWarning warnings
        @ (case select_plugins cfg (admitted_agent admit) of
             (None, version) \<Rightarrow> []
           | (Some reg, version) \<Rightarrow>
               map (\<lambda>cap. PluginEvent (plugin_entry cfg (hd chain) admit
                      (extractPolicyRoles (hd chain) (pc_AuthorizationPolicy cfg))
                      (DAHashFromAIC (ae_crypto (pe_adm E)) (ar_AIC admit)) version reg cap))
                 (ar_EffectiveCaps admit))"
  using assms(1,2)
proof (rule RunAccessPipeline_granted)
  fix oc admit nonces warnings st1
  let ?roles = "extractPolicyRoles (hd chain) (pc_AuthorizationPolicy cfg)"
  assume adm: "CheckAdmission (pe_adm E) (Some (hd chain)) (pipeline_admission_config cfg) (ps_Nonces st)
       = (admit, nonces, warnings)"
    and st1: "st1 = st\<lparr>ps_OCSP := oc, ps_Nonces := nonces, ps_Log := ps_Log st @ map UnknownConstraintWarning warnings\<rparr>"
    and "capability_stages E cfg (hd chain) admit ?roles st1 = (st', None)"
  from this(3) obtain st2 st3 where "parameter_stage E cfg (hd chain) admit st1 = (st2, None)"
    "registry_stage E cfg (hd chain) admit (DAHashFromAIC (ae_crypto (pe_adm E)) (ar_AIC admit))
       (snd (select_plugins cfg (admitted_agent admit))) st2 = (st3, None)"
    and pl: "plugin_stage E cfg (hd chain) admit ?roles (DAHashFromAIC (ae_crypto (pe_adm E)) (ar_AIC admit))
       (select_plugins cfg (admitted_agent admit)) st3 = (st', None)"
    by (rule capability_stages_None)
  then have "st3 = st1" using parameter_stage_None(1) registry_stage_None(1) by blast
  with pl st1 assms(3) adm show ?thesis
    by (auto simp: plugin_stage_def split: prod.splits option.splits dest!: plugin_loop_None)
qed

text \<open>Refusals on behaviour leave a trace, others do not count against the agent: whenever the run refuses
  for a parameter boundary, an unregistered capability, an unserved scheme or a plugin, the last entry
  of the log is a warning with decision \<open>deny\<close> or \<open>error\<close>; and the risk monitor and its
  enforcement actions change only on a parameter boundary, an unregistered capability or a plugin's
  denial.\<close>

theorem pipeline_refusal_recorded:
  assumes "RunAccessPipeline E chain cfg st = (res, st')"
  shows "(capability_refusal (pr_DenyReason res) \<longrightarrow> refusal_logged cfg st')
    \<and> (risk_refusal (pr_DenyReason res) \<or> ps_Risk st' = ps_Risk st \<and> ps_Actions st' = ps_Actions st)"
proof (cases "pr_Granted res")
  case True
  with pipeline_granted_risk[OF assms] show ?thesis by (simp add: capability_refusal_def)
next
  case False
  let ?roles = "extractPolicyRoles (hd chain) (pc_AuthorizationPolicy cfg)"
  obtain admit nonces warnings where
    adm: "CheckAdmission (pe_adm E) (Some (hd chain)) (pipeline_admission_config cfg) (ps_Nonces st)
       = (admit, nonces, warnings)" by (metis prod_cases3)
  obtain oc x where id: "identity_stages E cfg chain (ps_OCSP st) = (oc, x)" by fastforce
  let ?st1 = "st\<lparr>ps_OCSP := oc, ps_Nonces := nonces, ps_Log := ps_Log st @ map UnknownConstraintWarning warnings\<rparr>"
  obtain st2 y where caps: "capability_stages E cfg (hd chain) admit ?roles ?st1 = (st2, y)" by fastforce
  show ?thesis
  proof (cases "chain = [] \<or> x \<noteq> None \<or> ar_Decision admit \<noteq> DecisionAllow")
    case True
    then have "\<not> capability_refusal (pr_DenyReason res) \<and> ps_Risk st' = ps_Risk st \<and> ps_Actions st' = ps_Actions st"
      using assms adm id identity_stages_reason[OF id]
      by (auto simp: RunAccessPipeline_def Let_def denyWithAdmission_def capability_refusal_def
          split: if_splits option.splits)
    then show ?thesis by blast
  next
    case ok: False
    then obtain r where y: "y = Some r"
      using assms adm id caps False by (cases y) (auto simp: RunAccessPipeline_def Let_def)
    have "st' = st2" "pr_DenyReason res = r"
      using assms adm id caps y ok by (auto simp: RunAccessPipeline_def Let_def)
    with capability_stages_refuses[OF caps[unfolded y]] show ?thesis by (simp add: stage_refuses_def)
  qed
qed

text \<open>In leaf-only scope the OCSP responder is never asked: the check is made without an issuer, so from an
  empty cache nothing is ever cached and the outcome of the whole run does not depend on what the
  responder would answer; the fallback policy alone decides.\<close>

theorem leaf_only_ocsp_never_asks:
  assumes "pc_CheckScope cfg = CheckLeafOnly" "ps_OCSP st = Some c" "oca_entries c = []"
    and "oe_Unmarshal other = oe_Unmarshal (pe_ocsp E)"
  shows "ps_OCSP (snd (RunAccessPipeline E chain cfg st)) = Some c
    \<and> RunAccessPipeline (E\<lparr>pe_ocsp := other\<rparr>) chain cfg st = RunAccessPipeline E chain cfg st"
proof -
  have check: "ocsp_Check X now later c cert None
      = (c, fallbackErr c cert (if ExtractOCSPURL (oe_Unmarshal X) cert = [] then NoOCSPURL else IssuerUnavailable))"
    for X now later cert
    using assms(3) by (simp add: ocsp_Check_def cache_hit_def ocsp_fetch_def)
  have crl: "crl_check (E\<lparr>pe_ocsp := other\<rparr>) cfg cert = crl_check E cfg cert" for cert
    by (simp add: crl_check_def cong: option.case_cong)
  have rev: "checkRevocation (E\<lparr>pe_ocsp := other\<rparr>) cfg cert None (Some c) = checkRevocation E cfg cert None (Some c)"
    and kept: "fst (checkRevocation E cfg cert None (Some c)) = Some c" for cert
    using assms(4) by (simp_all add: checkRevocation_def crl check split: option.split)
  have "chain_stage (E\<lparr>pe_ocsp := other\<rparr>) cfg chain (Some c) = chain_stage E cfg chain (Some c)"
    and "fst (chain_stage E cfg chain (Some c)) = Some c"
    using assms(1) rev kept by (simp_all add: chain_stage_def split: option.splits)
  then have id: "identity_stages (E\<lparr>pe_ocsp := other\<rparr>) cfg chain (Some c) = identity_stages E cfg chain (Some c)"
    and idc: "fst (identity_stages E cfg chain (Some c)) = Some c"
    by (auto simp: identity_stages_def spiffe_stage_def offline_stage_def split: prod.splits option.splits)
  have caps: "capability_stages (E\<lparr>pe_ocsp := other\<rparr>) cfg cert admit roles st1 = capability_stages E cfg cert admit roles st1"
    for cert admit roles st1
    by (rule capability_stages_env) simp_all
  have capso: "ps_OCSP st2 = ps_OCSP st1" if "capability_stages E cfg cert admit roles st1 = (st2, x)"
    for cert admit roles st1 st2 x
    using capability_stages_OCSP[of E cfg cert admit roles st1] that by simp
  show ?thesis
    using id idc assms(2)
    by (auto simp: RunAccessPipeline_def Let_def caps split: prod.splits option.splits dest: capso)
qed

text \<open>The operation layer fails closed: an operation is let through only when a registry and a capability
  are given and the plugin registered for the capability's scheme ran without error and did not deny; a
  scheme without a plugin is denied.\<close>

theorem operation_check_fail_closed:
  "(\<exists>r. CheckOperationCapability quote reg_opt cap_opt ctx = Inr r \<and> pl_Decision r \<noteq> PluginDeny) \<longleftrightarrow>
   (\<exists>reg cap p r. reg_opt = Some reg \<and> cap_opt = Some cap \<and> reg (SchemeId cap) = Inr p \<and> p cap ctx = Inr r
      \<and> pl_Decision r \<noteq> PluginDeny)"
  by (auto simp: CheckOperationCapability_def split: option.splits sum.splits)

section \<open>Witnesses\<close>

definition example_pipeline_env :: pipeline_env where
  "example_pipeline_env =
     \<lparr>pe_adm = example_adm_env, pe_crl = example_crl_env, pe_ocsp = example_ocsp_env OCSPRevoked, pe_later = 131,
      pe_ParseURL = (\<lambda>s. Inl ''no url''), pe_globalCaps = None, pe_ParamErrorText = (\<lambda>e. ''boundary'')\<rparr>"

definition example_plugins :: "plugin_decision \<Rightarrow> plugin_registry" where
  "example_plugins d scheme =
     (if scheme = ''db'' then Inr (\<lambda>cap ctx. Inr \<lparr>pl_Decision = d, pl_Reason = ''rule 1''\<rparr>) else Inl ''not found'')"

definition example_pipeline_config :: "plugin_decision \<Rightarrow> pipeline_config" where
  "example_pipeline_config d =
     \<lparr>pc_CRLCache = Some ((NewCRLCache example_ca ''url'' 60)\<lparr>cc_nextUpdate := 1000\<rparr>),
      pc_AllowRoles = [''gateway:ops''], pc_CheckScope = CheckLeafOnly, pc_RequireAIC = True, pc_RequireSPIFFE = False,
      pc_AllowedSPIFFEIDs = [], pc_SPIFFETrustDomain = [], pc_RequiredProtocol = [], pc_RequiredRuleId = [],
      pc_RequiredCapabilities = [''db:read''], pc_Operations = [], pc_UnresolvedEvaluator = None,
      pc_DischargeObligations = False, pc_ObligationsUnderstood = [], pc_RequireFreshDecisionContext = False,
      pc_DecisionContext = None, pc_DisallowRepresentative = False, pc_RequireUserPermission = False,
      pc_RejectOverflow = False, pc_RequireUserAuth = False, pc_SkipDelegationAuthVerification = False,
      pc_EnforceCapSizeConstraints = True, pc_EnforceSize32 = False,
      pc_CapabilityPluginRegistry = Some (example_plugins d),
      pc_CapabilityRegistry = Some \<lparr>cr_ValidateCapability = (\<lambda>s. None), cr_Enabled = True\<rparr>,
      pc_CapabilityPluginResolver = None, pc_AuditLogger = True, pc_NonceCache = True, pc_ClientIP = ''a'',
      pc_UserCert = Some example_cert, pc_UserCertResolver = None, pc_EnforceConstraints = True,
      pc_StrictConstraints = True, pc_AuthorizationPolicy = None, pc_ConstraintRegistry = None,
      pc_ParameterValidators = Some NewParameterValidatorRegistry, pc_PolicyServer = None,
      pc_CredentialBundle = None, pc_PolicyVersion = 3, pc_OfflineMaxCertLifetime = 100, pc_HTTPFacts = None\<rparr>"

definition example_pipeline_state :: pipeline_state where
  "example_pipeline_state =
     \<lparr>ps_OCSP = Some (NewOCSPCache 0 ''allow''), ps_Nonces = [], ps_Risk = Some (NewRiskMonitor []), ps_Actions = [],
      ps_Log = []\<rparr>"

definition example_run :: "plugin_decision \<Rightarrow> pipeline_result \<times> pipeline_state" where
  "example_run d = RunAccessPipeline example_pipeline_env [example_cert] (example_pipeline_config d) example_pipeline_state"

lemma example_run_eq:
  "RunAccessPipeline example_pipeline_env [example_cert] (example_pipeline_config d) example_pipeline_state
   = (fst (example_run d), snd (example_run d))"
  by (simp add: example_run_def)

lemma example_run_granted: "pr_Granted (fst (example_run PluginAllow))"
  by code_simp

theorem pipeline_grant_identity_witness:
  "scope_clear example_pipeline_env (example_pipeline_config PluginAllow) (ps_OCSP example_pipeline_state) [example_cert]
   \<and> go_Sub (cert_NotAfter example_cert) 130 \<le> 100"
  using pipeline_grant_identity[OF example_run_eq example_run_granted]
  by (simp add: example_pipeline_config_def example_pipeline_env_def example_adm_env_def)

theorem pipeline_grant_capabilities_witness:
  "\<exists>admit nonces warnings.
    CheckAdmission example_adm_env (Some example_cert) (pipeline_admission_config (example_pipeline_config PluginAllow)) []
      = (admit, nonces, warnings)
    \<and> list_all (capability_cleared example_pipeline_env (example_pipeline_config PluginAllow) example_cert admit
         [''gateway:ops'']) (ar_EffectiveCaps admit)"
proof -
  have "extractPolicyRoles example_cert (pc_AuthorizationPolicy (example_pipeline_config PluginAllow)) = [''gateway:ops'']"
    by code_simp
  then show ?thesis
    using pipeline_grant_capabilities[OF example_run_eq example_run_granted]
    by (simp add: example_pipeline_env_def example_pipeline_state_def)
qed

theorem pipeline_audit_trail_witness:
  "length (ps_Log (snd (example_run PluginAllow))) = 1"
proof -
  have adm: "length (ar_EffectiveCaps (fst (CheckAdmission (pe_adm example_pipeline_env) (Some example_cert)
      (pipeline_admission_config (example_pipeline_config PluginAllow)) []))) = 1"
    "snd (snd (CheckAdmission (pe_adm example_pipeline_env) (Some example_cert)
      (pipeline_admission_config (example_pipeline_config PluginAllow)) [])) = []" by code_simp+
  have "pc_AuditLogger (example_pipeline_config PluginAllow)" by (simp add: example_pipeline_config_def)
  from pipeline_audit_trail[OF example_run_eq example_run_granted this] adm show ?thesis
    by (auto simp: example_pipeline_state_def select_plugins_def example_pipeline_config_def)
qed

theorem pipeline_refusal_recorded_witness:
  "refusal_logged (example_pipeline_config PluginDeny) (snd (example_run PluginDeny))"
proof -
  have "capability_refusal (pr_DenyReason (fst (example_run PluginDeny)))" by code_simp
  with pipeline_refusal_recorded[OF example_run_eq[of PluginDeny]] show ?thesis by blast
qed

theorem leaf_only_ocsp_never_asks_witness:
  "RunAccessPipeline (example_pipeline_env\<lparr>pe_ocsp := example_ocsp_env OCSPGood\<rparr>) [example_cert]
     (example_pipeline_config PluginAllow) example_pipeline_state = example_run PluginAllow"
proof -
  have "oe_Unmarshal (example_ocsp_env OCSPGood) = oe_Unmarshal (pe_ocsp example_pipeline_env)"
    by (simp add: example_ocsp_env_def example_pipeline_env_def)
  then show ?thesis
    unfolding example_run_def
    using leaf_only_ocsp_never_asks[of "example_pipeline_config PluginAllow" example_pipeline_state "NewOCSPCache 0 ''allow''"
        "example_ocsp_env OCSPGood" example_pipeline_env "[example_cert]"]
    by (simp add: example_pipeline_config_def example_pipeline_state_def NewOCSPCache_def)
qed

end
