(* ===== verification/Trust_Layers.thy ===== *)
theory Trust_Layers
  imports Pipeline
begin

text \<open>
  The layered entry point (\<^verbatim>\<open>src/trust_model.go\<close>): identity, representation and online authorization as
  three functions and their composition \<^verbatim>\<open>VerifyTrustLayers\<close>, over the configuration, environment and
  state of the access pipeline.
\<close>

section \<open>Layers\<close>

datatype trust_layer = Layer1Identity | Layer2Representation | Layer3OnlineAuthorization | OtherLayer int

definition TrustLayer_String :: "trust_layer \<Rightarrow> string" where
  "TrustLayer_String l =
     (case l of Layer1Identity \<Rightarrow> ''identity'' | Layer2Representation \<Rightarrow> ''representation''
      | Layer3OnlineAuthorization \<Rightarrow> ''online_authorization'' | OtherLayer n \<Rightarrow> ''unknown'')"

record layer1_result =
  l1_Verified :: bool
  l1_Reason :: pipeline_reason
  l1_Roles :: "string list"

record layer2_result =
  l2_Verified :: bool
  l2_Reason :: pipeline_reason
  l2_AIC :: "aic option"
  l2_PrincipalAuthorization :: "principal_authorization option"
  l2_PrincipalUid :: string

record layer3_result =
  l3_Verified :: bool
  l3_Reason :: pipeline_reason

fun validity_loop :: "instant \<Rightarrow> certificate list \<Rightarrow> pipeline_reason option" where
  "validity_loop now [] = None"
| "validity_loop now (c # chain) =
     (case checkCertValidity now c of Some r \<Rightarrow> Some r | None \<Rightarrow> validity_loop now chain)"

definition VerifyLayer1 :: "pipeline_env \<Rightarrow> certificate list \<Rightarrow> pipeline_config \<Rightarrow> layer1_result" where
  "VerifyLayer1 E chain cfg =
     (if chain = [] then \<lparr>l1_Verified = False, l1_Reason = NoClientCertificate, l1_Roles = []\<rparr>
      else case validity_loop (pe_now E) chain of
             Some r \<Rightarrow> \<lparr>l1_Verified = False, l1_Reason = r, l1_Roles = []\<rparr>
           | None \<Rightarrow>
               (let roles = extractPolicyRoles (hd chain) (pc_AuthorizationPolicy cfg) in
                case roles_stage cfg roles of
                  Some r \<Rightarrow> \<lparr>l1_Verified = False, l1_Reason = r, l1_Roles = roles\<rparr>
                | None \<Rightarrow> \<lparr>l1_Verified = True, l1_Reason = NoDeny, l1_Roles = roles\<rparr>))"

definition VerifyLayer2 ::
    "pipeline_env \<Rightarrow> certificate list \<Rightarrow> pipeline_config \<Rightarrow> pipeline_state
     \<Rightarrow> admission_result \<times> layer2_result \<times> pipeline_state" where
  "VerifyLayer2 E chain cfg st =
     (if chain = [] then
        (zero_admission,
         \<lparr>l2_Verified = False, l2_Reason = NoClientCertificate, l2_AIC = None, l2_PrincipalAuthorization = None,
          l2_PrincipalUid = []\<rparr>, st)
      else case CheckAdmission (pe_adm E) (Some (hd chain)) (layer2_config cfg) (ps_Nonces st) of
             (admit, nonces, warnings) \<Rightarrow>
               (admit,
                \<lparr>l2_Verified = (ar_Decision admit = DecisionAllow),
                 l2_Reason = (if ar_Decision admit = DecisionAllow then NoDeny else AdmissionDenied (ar_Reason admit)),
                 l2_AIC = ar_AIC admit, l2_PrincipalAuthorization = ar_PA admit, l2_PrincipalUid = ar_PrincipalUid admit\<rparr>,
                st\<lparr>ps_Nonces := nonces, ps_Log := ps_Log st @ map UnknownConstraintWarning warnings\<rparr>))"

definition policy_server_check :: "pipeline_config \<Rightarrow> certificate \<Rightarrow> pipeline_reason option" where
  "policy_server_check cfg leaf =
     (case pc_PolicyServer cfg of None \<Rightarrow> None | Some s \<Rightarrow>
      map_option (PolicyServerDenied (sv_Name s)) (sv_CheckOnline s leaf None))"

fun revocation_loop ::
    "pipeline_env \<Rightarrow> pipeline_config \<Rightarrow> certificate list \<Rightarrow> ocsp_cache option
     \<Rightarrow> ocsp_cache option \<times> pipeline_reason option" where
  "revocation_loop E cfg [] oc = (oc, None)"
| "revocation_loop E cfg (c # rest) oc =
     (case checkRevocation E cfg c (next_in_chain rest) oc of
        (oc', Some r) \<Rightarrow> (oc', Some r)
      | (oc', None) \<Rightarrow> revocation_loop E cfg rest oc')"

definition VerifyLayer3 ::
    "pipeline_env \<Rightarrow> certificate list \<Rightarrow> pipeline_config \<Rightarrow> pipeline_state \<Rightarrow> layer3_result \<times> pipeline_state" where
  "VerifyLayer3 E chain cfg st =
     (if chain = [] then (\<lparr>l3_Verified = False, l3_Reason = NoClientCertificate\<rparr>, st)
      else case (if pc_CheckScope cfg = CheckLeafOnly then checkRevocation E cfg (hd chain) None (ps_OCSP st)
                 else revocation_loop E cfg chain (ps_OCSP st)) of
             (oc, Some r) \<Rightarrow> (\<lparr>l3_Verified = False, l3_Reason = r\<rparr>, st\<lparr>ps_OCSP := oc\<rparr>)
           | (oc, None) \<Rightarrow>
               (case policy_server_check cfg (hd chain) of
                  Some r \<Rightarrow> (\<lparr>l3_Verified = False, l3_Reason = r\<rparr>, st\<lparr>ps_OCSP := oc\<rparr>)
                | None \<Rightarrow> (\<lparr>l3_Verified = True, l3_Reason = NoDeny\<rparr>, st\<lparr>ps_OCSP := oc\<rparr>)))"

definition VerifyTrustLayers ::
    "pipeline_env \<Rightarrow> certificate list \<Rightarrow> pipeline_config option \<Rightarrow> pipeline_state \<Rightarrow> pipeline_result \<times> pipeline_state" where
  "VerifyTrustLayers E chain cfg_opt st =
     (case cfg_opt of None \<Rightarrow> (pipeline_deny NilPipelineConfig, st) | Some cfg \<Rightarrow>
      let l1 = VerifyLayer1 E chain cfg in
      if \<not> l1_Verified l1 then (pipeline_deny (l1_Reason l1), st)
      else case VerifyLayer2 E chain cfg st of (admit, l2, st1) \<Rightarrow>
        if \<not> l2_Verified l2 then (pipeline_deny (l2_Reason l2), st1)
        else case VerifyLayer3 E chain cfg st1 of (l3, st2) \<Rightarrow>
          if \<not> l3_Verified l3 then (pipeline_deny (l3_Reason l3), st2)
          else (zero_pipeline_result\<lparr>pr_Granted := True, pr_ResultRoles := l1_Roles l1,
                  pr_Principal := ar_PrincipalUid admit, pr_Serial := text16 (cert_SerialNumber (hd chain)),
                  pr_AgentId := admitted_agent admit\<rparr>, st2))"

section \<open>Lemmas\<close>

lemma validity_loop_None: "validity_loop now chain = None \<longleftrightarrow> list_all (within_validity now) chain"
  by (induction chain) (simp_all add: checkCertValidity_None)

lemma revocation_loop_passes:
  "revocation_loop E cfg (c # rest) oc = (oc', None) \<longleftrightarrow>
   (\<exists>oc1. checkRevocation E cfg c (next_in_chain rest) oc = (oc1, None) \<and> revocation_loop E cfg rest oc1 = (oc', None))"
  by simp

text \<open>The pipeline's loop over the chain is the two loops of the layers.\<close>

lemma chain_loop_split:
  "chain_loop E cfg chain oc = (oc', None) \<longleftrightarrow>
   list_all (within_validity (pe_now E)) chain \<and> revocation_loop E cfg chain oc = (oc', None)"
proof (induction chain arbitrary: oc)
  case Nil
  then show ?case by auto
next
  case (Cons c rest)
  show ?case unfolding chain_loop_passes revocation_loop_passes list.pred_inject Cons.IH by blast
qed

lemma VerifyTrustLayers_granted:
  "pr_Granted (fst (VerifyTrustLayers E chain (Some cfg) st)) \<longleftrightarrow>
     chain \<noteq> [] \<and> list_all (within_validity (pe_now E)) chain
     \<and> roles_stage cfg (extractPolicyRoles (hd chain) (pc_AuthorizationPolicy cfg)) = None
     \<and> ar_Decision (fst (CheckAdmission (pe_adm E) (Some (hd chain)) (layer2_config cfg) (ps_Nonces st))) = DecisionAllow
     \<and> (\<exists>oc. (if pc_CheckScope cfg = CheckLeafOnly then checkRevocation E cfg (hd chain) None (ps_OCSP st)
              else revocation_loop E cfg chain (ps_OCSP st)) = (oc, None))
     \<and> policy_server_check cfg (hd chain) = None"
  unfolding validity_loop_None[symmetric]
  by (auto simp: VerifyTrustLayers_def VerifyLayer1_def VerifyLayer2_def VerifyLayer3_def Let_def zero_pipeline_result_def
      split: prod.splits option.splits if_splits)

text \<open>A configuration with none of the features that only the pipeline looks at.\<close>

definition layers_suffice :: "pipeline_env \<Rightarrow> pipeline_config \<Rightarrow> bool" where
  "layers_suffice E cfg \<longleftrightarrow>
     pc_CheckScope cfg = CheckFullChain \<and> \<not> pc_RequireSPIFFE cfg \<and> pc_AllowedSPIFFEIDs cfg = []
     \<and> pc_SPIFFETrustDomain cfg = [] \<and> pc_OfflineMaxCertLifetime cfg \<le> 0 \<and> pc_CredentialBundle cfg = None
     \<and> pc_ParameterValidators cfg = None \<and> effective_registry E cfg = None
     \<and> pc_CapabilityPluginRegistry cfg = None \<and> pc_CapabilityPluginResolver cfg = None
     \<and> pc_PolicyServer cfg = None"

lemma RunAccessPipeline_layers:
  assumes "layers_suffice E cfg"
  shows "pr_Granted (fst (RunAccessPipeline E chain cfg st)) \<longleftrightarrow>
     chain \<noteq> [] \<and> (\<exists>oc. chain_loop E cfg chain (ps_OCSP st) = (oc, None))
     \<and> roles_stage cfg (extractPolicyRoles (hd chain) (pc_AuthorizationPolicy cfg)) = None
     \<and> ar_Decision (fst (CheckAdmission (pe_adm E) (Some (hd chain)) (layer2_config cfg) (ps_Nonces st))) = DecisionAllow"
proof -
  have cfg: "pipeline_admission_config cfg = layer2_config cfg"
    using assms by (simp add: pipeline_admission_config_def layer2_config_def applyCLCAdmissionConfig_def layers_suffice_def)
  have stages: "spiffe_stage E cfg i = None" "offline_stage E cfg c = None"
    "chain_stage E cfg chain oc = chain_loop E cfg chain oc" for i c oc
    using assms by (simp_all add: spiffe_stage_def offline_stage_def chain_stage_def layers_suffice_def)
  have caps: "capability_stages E cfg cert admit roles st1 = (st1, None)" for cert admit roles st1
    using assms
    by (simp add: capability_stages_def parameter_stage_def registry_stage_def plugin_stage_def select_plugins_def
        layers_suffice_def)
  show ?thesis
    by (auto simp: RunAccessPipeline_def identity_stages_def stages caps cfg Let_def
        split: prod.splits option.splits if_splits)
qed

section \<open>Properties\<close>

text \<open>Where only the three layers are configured, both entry points agree: with full-chain scope and no
  SPIFFE requirement, offline limit, credential bundle, parameter validators, capability registry,
  plugins or policy server, \<^verbatim>\<open>VerifyTrustLayers\<close> grants exactly when \<^verbatim>\<open>RunAccessPipeline\<close> does.\<close>

theorem trust_layers_agree:
  assumes "layers_suffice E cfg"
  shows "pr_Granted (fst (VerifyTrustLayers E chain (Some cfg) st)) \<longleftrightarrow> pr_Granted (fst (RunAccessPipeline E chain cfg st))"
proof -
  have "pc_CheckScope cfg \<noteq> CheckLeafOnly" "policy_server_check cfg c = None" for c
    using assms by (simp_all add: layers_suffice_def policy_server_check_def)
  then show ?thesis
    unfolding VerifyTrustLayers_granted RunAccessPipeline_layers[OF assms] chain_loop_split by auto
qed

text \<open>Outside that fragment they differ: a connection whose capability the plugin denies is refused by the
  pipeline and granted by the layered entry point.\<close>

theorem trust_layers_skip_plugins:
  "pr_Granted (fst (VerifyTrustLayers example_pipeline_env [example_cert] (Some (example_pipeline_config PluginDeny))
     example_pipeline_state))
   \<and> pr_DenyReason (fst (RunAccessPipeline example_pipeline_env [example_cert] (example_pipeline_config PluginDeny)
       example_pipeline_state)) = PluginDenied ''db'' ''rule 1''"
proof
  show "pr_Granted (fst (VerifyTrustLayers example_pipeline_env [example_cert] (Some (example_pipeline_config PluginDeny))
     example_pipeline_state))" by code_simp
  show "pr_DenyReason (fst (RunAccessPipeline example_pipeline_env [example_cert] (example_pipeline_config PluginDeny)
       example_pipeline_state)) = PluginDenied ''db'' ''rule 1''" by code_simp
qed

section \<open>Witnesses\<close>

definition layers_config :: pipeline_config where
  "layers_config = (example_pipeline_config PluginAllow)
     \<lparr>pc_CheckScope := CheckFullChain, pc_OfflineMaxCertLifetime := 0, pc_ParameterValidators := None,
      pc_CapabilityRegistry := None, pc_CapabilityPluginRegistry := None\<rparr>"

theorem trust_layers_agree_witness:
  "pr_Granted (fst (VerifyTrustLayers example_pipeline_env [example_cert] (Some layers_config) example_pipeline_state))"
proof -
  have "layers_suffice example_pipeline_env layers_config"
    by (simp add: layers_suffice_def layers_config_def example_pipeline_config_def effective_registry_def
        example_pipeline_env_def)
  moreover have "pr_Granted (fst (RunAccessPipeline example_pipeline_env [example_cert] layers_config
      example_pipeline_state))" by code_simp
  ultimately show ?thesis by (simp add: trust_layers_agree)
qed

end
