(* ===== verification/Audit_Query.thy ===== *)
theory Audit_Query
  imports Audit_Log
begin

text \<open>
  Queries on the audit file (\<^verbatim>\<open>src/audit.go\<close>): the forward reader, which jumps to a start offset found by
  binary search over the bytes of the file when a lower time bound is given, and the backward reader,
  which reads blocks of 4096 bytes from the end. The backward reader keeps the unfinished line of a
  block in a slice that may share memory with the block buffer; the model keeps track of that.
\<close>

section \<open>Filters\<close>

record audit_filter =
  af_Since :: instant
  af_Until :: instant
  af_Limit :: int
  af_Offset :: int
  af_Sort :: string
  af_Action :: string
  af_ClientCN :: string
  af_Serial :: string
  af_Mapping :: string

record query_env =
  qe_Unmarshal :: "bytes \<Rightarrow> signed_audit_entry option"
  qe_ParseTime :: "string \<Rightarrow> instant option"

abbreviation newline :: char where "newline \<equiv> CHR 0x0A"

text \<open>The conditions in the body of both loops; a line that is blank, is no entry or has no time is skipped.\<close>

definition entry_matches :: "query_env \<Rightarrow> audit_filter \<Rightarrow> audit_entry \<Rightarrow> bool" where
  "entry_matches Q filt e \<longleftrightarrow>
     (case qe_ParseTime Q (ent_Time e) of None \<Rightarrow> False | Some t \<Rightarrow>
        \<not> (af_Action filt \<noteq> [] \<and> ent_Action e \<noteq> af_Action filt)
        \<and> \<not> (\<not> IsZero (af_Since filt) \<and> Before t (af_Since filt))
        \<and> \<not> (\<not> IsZero (af_Until filt) \<and> After t (af_Until filt))
        \<and> \<not> (af_ClientCN filt \<noteq> [] \<and> ent_ClientCN e \<noteq> af_ClientCN filt)
        \<and> \<not> (af_Serial filt \<noteq> [] \<and> ent_ClientSerial e \<noteq> af_Serial filt)
        \<and> \<not> (af_Mapping filt \<noteq> [] \<and> ent_Mapping e \<noteq> af_Mapping filt))"

definition line_entry :: "query_env \<Rightarrow> audit_filter \<Rightarrow> bytes \<Rightarrow> audit_entry option" where
  "line_entry Q filt raw =
     (let line = TrimSpace raw in
      if line = [] then None
      else case qe_Unmarshal Q line of None \<Rightarrow> None | Some se \<Rightarrow>
        if entry_matches Q filt (sa_Entry se) then Some (sa_Entry se) else None)"

text \<open>Skipping and collecting until the limit.\<close>

fun collect :: "query_env \<Rightarrow> audit_filter \<Rightarrow> int \<Rightarrow> audit_entry list \<Rightarrow> bytes list \<Rightarrow> audit_entry list" where
  "collect Q filt skip entries [] = entries"
| "collect Q filt skip entries (line # rest) =
     (case line_entry Q filt line of
        None \<Rightarrow> collect Q filt skip entries rest
      | Some e \<Rightarrow>
          if skip > 0 then collect Q filt (skip - 1) entries rest
          else let entries' = entries @ [e] in
            if af_Limit filt > 0 \<and> int (length entries') \<ge> af_Limit filt then entries'
            else collect Q filt skip entries' rest)"

section \<open>The start offset\<close>

text \<open>From \<open>mid\<close> forward past the next newline, and the line that starts there.\<close>

definition skip_line :: "bytes \<Rightarrow> nat \<Rightarrow> nat" where
  "skip_line data mid =
     (let k = length (takeWhile (\<lambda>c. c \<noteq> newline) (drop mid data))
      in if mid + k < length data then mid + k + 1 else length data)"

definition line_at :: "bytes \<Rightarrow> nat \<Rightarrow> bytes" where
  "line_at data mid = takeWhile (\<lambda>c. c \<noteq> newline) (drop mid data)"

definition line_time :: "query_env \<Rightarrow> bytes \<Rightarrow> instant option" where
  "line_time Q line =
     (case qe_Unmarshal Q line of None \<Rightarrow> None | Some se \<Rightarrow> qe_ParseTime Q (ent_Time (sa_Entry se)))"

lemma skip_line_ge: "m < length data \<Longrightarrow> m < skip_line data m"
  by (auto simp: skip_line_def Let_def)

lemma skip_line_mono: "m \<le> skip_line data m \<or> length data \<le> skip_line data m"
  by (auto simp: skip_line_def Let_def)

lemma offset_step:
  assumes "lo < hi" "\<not> length data \<le> skip_line data ((lo + hi) div 2)"
  shows "hi - Suc (skip_line data ((lo + hi) div 2) + n) < hi - lo"
proof -
  have "(lo + hi) div 2 \<le> skip_line data ((lo + hi) div 2)"
    using skip_line_mono[of "(lo + hi) div 2" data] assms(2) by linarith
  then show ?thesis using assms(1) by linarith
qed

function offset_search :: "query_env \<Rightarrow> bytes \<Rightarrow> instant \<Rightarrow> nat \<Rightarrow> nat \<Rightarrow> nat" where
  "offset_search Q data target lo hi =
     (if \<not> lo < hi then lo
      else let m = (lo + hi) div 2;
               mid = skip_line data m
           in if mid \<ge> length data then offset_search Q data target lo m
              else let line = line_at data mid in
                if line = [] then offset_search Q data target (m + 1) hi
                else case line_time Q line of
                       None \<Rightarrow> offset_search Q data target (mid + length line + 1) hi
                     | Some t \<Rightarrow>
                         if Before t target then offset_search Q data target (mid + length line + 1) hi
                         else offset_search Q data target lo m)"
  by pat_completeness auto

termination
  by (relation "measure (\<lambda>(Q, data, target, lo, hi). hi - lo)") (auto simp: offset_step)

declare offset_search.simps [simp del]

definition FindStartOffsetByTime :: "query_env \<Rightarrow> bytes \<Rightarrow> instant \<Rightarrow> nat" where
  "FindStartOffsetByTime Q data target = offset_search Q data target 0 (length data)"

section \<open>The forward reader\<close>

text \<open>\<^verbatim>\<open>bufio.Scanner\<close> with a buffer of 1 MiB: a line that does not fit ends the scan with an error.\<close>

definition scanner_max :: nat where "scanner_max = 1048576"

definition fitting_lines :: "bytes \<Rightarrow> bytes list" where
  "fitting_lines data = takeWhile (\<lambda>l. length l < scanner_max) (go_Split newline data)"

definition scanner_overflows :: "bytes \<Rightarrow> bool" where
  "scanner_overflows data = list_ex (\<lambda>l. \<not> length l < scanner_max) (go_Split newline data)"

section \<open>The backward reader\<close>

text \<open>The unfinished line: the first bytes of the block buffer, or a slice of its own.\<close>

datatype carry = Shared nat | Own bytes

text \<open>The inner loop: the lines of \<open>data\<close> from the last newline backwards, and the bytes before the first
  newline.\<close>

definition block_lines :: "bytes \<Rightarrow> bytes list \<times> bytes" where
  "block_lines data = (rev (tl (go_Split newline data)), hd (go_Split newline data))"

text \<open>One block: \<^verbatim>\<open>ReadAt\<close> overwrites the buffer, and \<^verbatim>\<open>append\<close> writes behind the block into the same buffer
  where the unfinished line fits, and into a new array otherwise.\<close>

definition read_block :: "nat \<Rightarrow> bytes \<Rightarrow> nat \<Rightarrow> bytes \<Rightarrow> carry \<Rightarrow> bytes list \<times> bytes \<times> carry" where
  "read_block bs file pos scanBuf buf =
     (let readSize = min bs pos;
          block = take readSize (drop (pos - readSize) file);
          scan1 = block @ drop readSize scanBuf;
          rest = (case buf of Shared k \<Rightarrow> take k scan1 | Own b \<Rightarrow> b);
          fits = readSize + length rest \<le> bs
      in case block_lines (block @ rest) of (lines, first) \<Rightarrow>
         (lines,
          if fits then block @ rest @ drop (readSize + length rest) scan1 else scan1,
          if fits then Shared (length first) else Own first))"

function reverse_scan :: "nat \<Rightarrow> bytes \<Rightarrow> nat \<Rightarrow> bytes \<Rightarrow> carry \<Rightarrow> bytes list" where
  "reverse_scan bs file pos scanBuf buf =
     (if pos = 0 \<or> bs = 0 then []
      else case read_block bs file pos scanBuf buf of (lines, scanBuf', buf') \<Rightarrow>
        lines @ reverse_scan bs file (pos - min bs pos) scanBuf' buf')"
  by pat_completeness auto

termination
  by (relation "measure (\<lambda>(bs, file, pos, scanBuf, buf). pos)") auto

declare reverse_scan.simps [simp del]

text \<open>The buffer starts out with zero bytes.\<close>

definition reverse_lines :: "nat \<Rightarrow> bytes \<Rightarrow> bytes list" where
  "reverse_lines bs file = reverse_scan bs file (length file) (replicate bs (CHR 0x00)) (Own [])"

definition readAuditEntriesReverse :: "query_env \<Rightarrow> bytes \<Rightarrow> audit_filter \<Rightarrow> audit_entry list" where
  "readAuditEntriesReverse Q file filt = collect Q filt (af_Offset filt) [] (reverse_lines 4096 file)"

text \<open>\<^verbatim>\<open>ReadAuditEntries\<close> on a file that can be opened: the entries, and whether the scanner failed before
  the reader was done.\<close>

definition sortDesc :: string where "sortDesc = ''desc''"

definition ReadAuditEntries :: "query_env \<Rightarrow> bytes \<Rightarrow> audit_filter \<Rightarrow> audit_entry list \<times> bool" where
  "ReadAuditEntries Q file filt =
     (if af_Sort filt = sortDesc then (readAuditEntriesReverse Q file filt, False)
      else let startOffset = (if IsZero (af_Since filt) then 0 else FindStartOffsetByTime Q file (af_Since filt));
               tail = drop startOffset file;
               entries = collect Q filt (af_Offset filt) [] (fitting_lines tail)
           in (entries, scanner_overflows tail \<and> \<not> (af_Limit filt > 0 \<and> int (length entries) \<ge> af_Limit filt)))"

section \<open>Lemmas\<close>

text \<open>Collecting is filtering, skipping and cutting at the limit.\<close>

definition page :: "audit_filter \<Rightarrow> 'a list \<Rightarrow> 'a list" where
  "page filt xs =
     (let rest = drop (nat (af_Offset filt)) xs
      in if af_Limit filt > 0 then take (nat (af_Limit filt)) rest else rest)"

lemma collect_limit:
  assumes "int (length entries) < af_Limit filt \<or> af_Limit filt \<le> 0"
  shows "collect Q filt skip entries lines =
    entries @ (let rest = drop (nat skip) (List.map_filter (line_entry Q filt) lines)
      in if af_Limit filt > 0 then take (nat (af_Limit filt) - length entries) rest else rest)"
  using assms
proof (induction Q filt skip entries lines rule: collect.induct)
  case (1 Q filt skip entries)
  then show ?case by (simp add: List.map_filter_def)
next
  case (2 Q filt skip entries line rest)
  show ?case
  proof (cases "line_entry Q filt line")
    case None
    then show ?thesis using 2 by (simp add: List.map_filter_def)
  next
    case (Some e)
    show ?thesis
    proof (cases "skip > 0")
      case True
      then have "nat skip = Suc (nat (skip - 1))" by simp
      then show ?thesis using 2 Some True by (simp add: List.map_filter_def Let_def)
    next
      case False
      then show ?thesis
      proof (cases "af_Limit filt > 0 \<and> int (length (entries @ [e])) \<ge> af_Limit filt")
        case True
        then have "nat (af_Limit filt) - length entries = 1" using 2(4) by simp
        then show ?thesis using True Some False by (simp add: List.map_filter_def)
      next
        case lim: False
        then have "nat (af_Limit filt) - length entries = Suc (nat (af_Limit filt) - length (entries @ [e]))"
          if "af_Limit filt > 0" using that by simp
        then show ?thesis using 2 Some False lim by (auto simp: List.map_filter_def Let_def not_le)
      qed
    qed
  qed
qed

lemma collect_page: "collect Q filt (af_Offset filt) [] lines = page filt (List.map_filter (line_entry Q filt) lines)"
  using collect_limit[of "[]" filt] by (cases "af_Limit filt > 0") (auto simp: page_def Let_def)

text \<open>A log file as the logger writes it: non-empty lines without newlines, each ended by one. The start
  of line \<open>k\<close> is at \<open>line_start ls k\<close>.\<close>

definition log_file :: "bytes list \<Rightarrow> bytes" where
  "log_file ls = concat (map (\<lambda>l. l @ [newline]) ls)"

definition line_start :: "bytes list \<Rightarrow> nat \<Rightarrow> nat" where
  "line_start ls k = length (log_file (take k ls))"

definition plain_lines :: "bytes list \<Rightarrow> bool" where
  "plain_lines ls \<longleftrightarrow> list_all (\<lambda>l. l \<noteq> [] \<and> newline \<notin> set l \<and> TrimSpace l = l \<and> length l < scanner_max) ls"

lemma log_file_append: "log_file (xs @ ys) = log_file xs @ log_file ys"
  by (simp add: log_file_def)

lemma log_file_Cons: "log_file (l # ls) = l @ newline # log_file ls"
  by (simp add: log_file_def)

lemma drop_line_start: "drop (line_start ls k) (log_file ls) = log_file (drop k ls)"
  unfolding line_start_def by (metis append_take_drop_id append_eq_conv_conj log_file_append)

lemma split_log_file: "plain_lines ls \<Longrightarrow> go_Split newline (log_file ls) = ls @ [[]]"
  by (induction ls) (auto simp: plain_lines_def log_file_def go_Split_append)

lemma takeWhile_line:
  "newline \<notin> set l \<Longrightarrow> takeWhile (\<lambda>c. c \<noteq> newline) (l @ newline # rest) = l"
  by (induction l) auto

text \<open>Skipping from any position inside the file lands at the start of a later line, or at the end.\<close>

lemma skip_line_start:
  assumes "plain_lines ls" "m < length (log_file ls)"
  shows "\<exists>k. 0 < k \<and> k \<le> length ls \<and> skip_line (log_file ls) m = line_start ls k"
  using assms
proof (induction ls arbitrary: m)
  case Nil
  then show ?case by (simp add: log_file_def)
next
  case (Cons l ls)
  have pl: "newline \<notin> set l" "plain_lines ls" using Cons.prems(1) by (auto simp: plain_lines_def)
  show ?case
  proof (cases "m \<le> length l")
    case True
    have "takeWhile (\<lambda>c. c \<noteq> newline) (drop m (log_file (l # ls))) = drop m l"
      using True takeWhile_line[of "drop m l" "log_file ls"] pl(1)
      by (auto simp: log_file_Cons dest: in_set_dropD)
    then have "skip_line (log_file (l # ls)) m = Suc (length l)"
      using True by (simp add: skip_line_def log_file_Cons)
    then show ?thesis by (intro exI[of _ 1]) (simp add: line_start_def log_file_def)
  next
    case False
    let ?m = "m - Suc (length l)"
    have d: "drop m (log_file (l # ls)) = drop ?m (log_file ls)"
      using False by (simp add: log_file_Cons drop_Cons')
    have "?m < length (log_file ls)" using Cons.prems(2) False by (simp add: log_file_Cons)
    then obtain k where k: "0 < k" "k \<le> length ls" "skip_line (log_file ls) ?m = line_start ls k"
      using Cons.IH pl(2) by blast
    have "skip_line (log_file (l # ls)) m = Suc (length l) + skip_line (log_file ls) ?m"
      using False unfolding skip_line_def d Let_def by (auto simp: log_file_Cons)
    with k show ?thesis
      by (intro exI[of _ "Suc k"]) (simp add: line_start_def log_file_Cons)
  qed
qed

lemma line_at_start:
  assumes "plain_lines ls" "k < length ls"
  shows "line_at (log_file ls) (line_start ls k) = ls ! k"
    and "line_start ls k + length (ls ! k) + 1 = line_start ls (Suc k)"
proof -
  have "log_file (drop k ls) = ls ! k @ newline # log_file (drop (Suc k) ls)"
    using assms(2) by (simp add: Cons_nth_drop_Suc[symmetric] log_file_Cons)
  moreover have "newline \<notin> set (ls ! k)" using assms by (simp add: plain_lines_def list_all_length)
  ultimately show "line_at (log_file ls) (line_start ls k) = ls ! k"
    unfolding line_at_def drop_line_start by (simp add: takeWhile_line)
  show "line_start ls k + length (ls ! k) + 1 = line_start ls (Suc k)"
    using assms(2) by (simp add: line_start_def take_Suc_conv_app_nth log_file_append log_file_Cons log_file_def)
qed

text \<open>The search ends at the start of a line, and every line before it is older than the target.\<close>

definition sorted_log :: "query_env \<Rightarrow> bytes list \<Rightarrow> bool" where
  "sorted_log Q ls \<longleftrightarrow> list_all (\<lambda>l. line_time Q l \<noteq> None) ls \<and> sorted (map (the \<circ> line_time Q) ls)"

lemma sorted_log_before:
  assumes "sorted_log Q ls" "k < length ls" "line_time Q (ls ! k) = Some t" "t < target"
  shows "list_all (\<lambda>l. the (line_time Q l) < target) (take (Suc k) ls)"
proof -
  have "the (line_time Q (ls ! i)) \<le> the (line_time Q (ls ! k))" if "i \<le> k" for i
    using assms(1,2) that sorted_nth_mono[of "map (the \<circ> line_time Q) ls" i k] by (simp add: sorted_log_def)
  then have "the (line_time Q (ls ! i)) < target" if "i \<le> k" for i
    using that assms(3,4) by (metis le_less_trans option.sel)
  then show ?thesis using assms(2) by (simp add: list_all_length)
qed

lemma offset_search_safe:
  assumes "plain_lines ls" "sorted_log Q ls"
    and "lo = line_start ls k" "k \<le> length ls" "list_all (\<lambda>l. the (line_time Q l) < target) (take k ls)"
    and "hi \<le> length (log_file ls)"
  shows "\<exists>k'. offset_search Q (log_file ls) target lo hi = line_start ls k' \<and> k' \<le> length ls
    \<and> list_all (\<lambda>l. the (line_time Q l) < target) (take k' ls)"
  using assms(3-)
proof (induction "hi - lo" arbitrary: lo hi k rule: less_induct)
  case less
  let ?m = "(lo + hi) div 2"
  let ?mid = "skip_line (log_file ls) ?m"
  show ?case
  proof (cases "lo < hi")
    case False
    then show ?thesis using less.prems by (subst offset_search.simps) auto
  next
    case lh: True
    have m: "?m < length (log_file ls)" "?m - lo < hi - lo" "?m \<le> length (log_file ls)" using lh less.prems(4) by auto
    note below = less.hyps[OF m(2) less.prems(1-3) m(3)]
    obtain j where j: "0 < j" "j \<le> length ls" "?mid = line_start ls j" using skip_line_start[OF assms(1) m(1)] by blast
    show ?thesis
    proof (cases "length (log_file ls) \<le> ?mid")
      case True
      then show ?thesis using below lh by (subst offset_search.simps) (simp add: Let_def)
    next
      case mid: False
      then have jl: "j < length ls" using j by (cases "j = length ls") (auto simp: line_start_def)
      note line = line_at_start[OF assms(1) jl]
      have ne: "ls ! j \<noteq> []" using assms(1) jl by (simp add: plain_lines_def list_all_length)
      obtain t where t: "line_time Q (ls ! j) = Some t"
        using assms(2) jl by (auto simp: sorted_log_def list_all_length)
      have eq: "offset_search Q (log_file ls) target lo hi =
          (if t < target then offset_search Q (log_file ls) target (line_start ls (Suc j)) hi
           else offset_search Q (log_file ls) target lo ?m)"
        using lh mid ne t line by (subst offset_search.simps) (simp add: Let_def j(3))
      show ?thesis
      proof (cases "t < target")
        case True
        have "hi - line_start ls (Suc j) < hi - lo"
          using offset_step[OF lh mid, of "length (ls ! j)"] line(2) j(3) by simp
        from less.hyps[OF this refl _ sorted_log_before[OF assms(2) jl t True] less.prems(4)] jl True
        show ?thesis unfolding eq by simp
      next
        case False
        with below show ?thesis unfolding eq by simp
      qed
    qed
  qed
qed

lemma fitting_log_file: "plain_lines ls \<Longrightarrow> fitting_lines (log_file ls) = ls @ [[]]"
  by (simp add: fitting_lines_def split_log_file takeWhile_eq_all_conv)
    (auto simp: plain_lines_def list_all_iff scanner_max_def)

lemma old_line_filtered:
  "TrimSpace l = l \<Longrightarrow> line_time Q l = Some t \<Longrightarrow> t < af_Since filt \<Longrightarrow> af_Since filt \<noteq> 0 \<Longrightarrow> line_entry Q filt l = None"
  by (auto simp: line_entry_def line_time_def entry_matches_def Let_def split: option.splits)

lemma map_filter_None: "list_all (\<lambda>x. f x = None) xs \<Longrightarrow> List.map_filter f xs = []"
  by (induction xs) (auto simp: List.map_filter_def)

lemma map_filter_append: "List.map_filter f (xs @ ys) = List.map_filter f xs @ List.map_filter f ys"
  by (simp add: List.map_filter_def)

lemma line_entry_blank [simp]: "line_entry Q filt [] = None"
  by (simp add: line_entry_def TrimSpace_def)

lemma FindStartOffset_start:
  assumes "plain_lines ls" "sorted_log Q ls"
  shows "\<exists>k. FindStartOffsetByTime Q (log_file ls) target = line_start ls k \<and> k \<le> length ls
    \<and> list_all (\<lambda>l. the (line_time Q l) < target) (take k ls)"
  unfolding FindStartOffsetByTime_def
  by (rule offset_search_safe[OF assms, of 0 0]) (simp_all add: line_start_def log_file_def)

text \<open>One block.\<close>

lemma reverse_scan_0 [simp]: "reverse_scan bs file 0 scanBuf buf = []"
  by (simp add: reverse_scan.simps)

lemma reverse_lines_small:
  assumes "0 < bs" "length file \<le> bs"
  shows "reverse_lines bs file = rev (tl (go_Split newline file))"
proof (cases "file = []")
  case True
  then show ?thesis by (simp add: reverse_lines_def reverse_scan.simps)
next
  case False
  then show ?thesis
    using assms unfolding reverse_lines_def
    by (subst reverse_scan.simps) (simp add: read_block_def block_lines_def Let_def)
qed

section \<open>Properties\<close>

text \<open>C36. Jumping to a start offset does not change what a query finds: on a file of well-formed lines whose times do
  not decrease, the forward query with a lower time bound returns exactly what filtering every line,
  skipping the offset and cutting at the limit returns, without an error. The binary search over the
  bytes of the file ends for every file.\<close>

theorem audit_query_since_exact:
  assumes "plain_lines ls" "sorted_log Q ls" "af_Sort filt \<noteq> ''desc''"
  shows "ReadAuditEntries Q (log_file ls) filt = (page filt (List.map_filter (line_entry Q filt) ls), False)"
proof -
  let ?start = "if IsZero (af_Since filt) then 0 else FindStartOffsetByTime Q (log_file ls) (af_Since filt)"
  obtain k where k: "?start = line_start ls k"
    "af_Since filt \<noteq> 0 \<Longrightarrow> list_all (\<lambda>l. the (line_time Q l) < af_Since filt) (take k ls)" "af_Since filt = 0 \<Longrightarrow> k = 0"
    using FindStartOffset_start[OF assms(1,2), of "af_Since filt"]
    by (cases "af_Since filt = 0") (auto simp: line_start_def log_file_def)
  have pl: "plain_lines (drop k ls)" using assms(1) by (auto simp: plain_lines_def list_all_iff dest: in_set_dropD)
  have tail: "drop ?start (log_file ls) = log_file (drop k ls)" unfolding k(1) by (rule drop_line_start)
  have "list_all (\<lambda>l. line_entry Q filt l = None) (take k ls)"
  proof (cases "af_Since filt = 0")
    case False
    then show ?thesis
      using k(2) assms(1,2) old_line_filtered[of _ Q _ filt]
      by (fastforce simp: list_all_iff plain_lines_def sorted_log_def dest: in_set_takeD)
  qed (simp add: k(3))
  then have "List.map_filter (line_entry Q filt) ls = List.map_filter (line_entry Q filt) (drop k ls)"
    using map_filter_append[of "line_entry Q filt" "take k ls" "drop k ls"] by (simp add: map_filter_None)
  moreover have "List.map_filter (line_entry Q filt) (drop k ls @ [[]]) = List.map_filter (line_entry Q filt) (drop k ls)"
    by (simp add: map_filter_append map_filter_None)
  moreover have "\<not> scanner_overflows (log_file (drop k ls))"
    using pl by (auto simp: scanner_overflows_def split_log_file plain_lines_def list_all_iff list_ex_iff scanner_max_def)
  ultimately show ?thesis
    using assms(3) by (simp add: ReadAuditEntries_def sortDesc_def tail fitting_log_file[OF pl] collect_page Let_def)
qed

text \<open>The backward query never returns the oldest entry: on a log file of at most one block, it works on all
  lines but the first, newest first, because the bytes before the first newline are kept for a block
  that never comes.\<close>

theorem audit_query_reverse_misses_oldest:
  assumes "plain_lines ls" "length (log_file ls) \<le> 4096"
  shows "readAuditEntriesReverse Q (log_file ls) filt = page filt (List.map_filter (line_entry Q filt) (rev (tl ls)))"
proof -
  have "rev (tl (ls @ [[]])) = (if ls = [] then [] else [] # rev (tl ls))" by (cases ls) auto
  then have "List.map_filter (line_entry Q filt) (rev (tl (ls @ [[]]))) = List.map_filter (line_entry Q filt) (rev (tl ls))"
    by (simp add: List.map_filter_def)
  then show ?thesis
    using assms by (simp add: readAuditEntriesReverse_def reverse_lines_small split_log_file collect_page)
qed

text \<open>Across blocks the backward query corrupts a line: of a file of one whole block and a shorter one before it,
  the line that crosses the boundary is completed with bytes of the block read last, not with its own
  bytes, because the unfinished line is a slice of the buffer that the next read overwrites.\<close>

theorem audit_query_reverse_corrupts:
  assumes "length block = 4096" "0 < length pre" "k = length (hd (go_Split newline block))"
    and "length pre + k \<le> 4096"
  shows "reverse_lines 4096 (pre @ block) =
    rev (tl (go_Split newline block)) @ rev (tl (go_Split newline (pre @ take k (pre @ drop (length pre) block))))"
proof -
  have "length (hd (go_Split newline block)) \<le> length block"
    using arg_cong[OF go_Join_Split[of newline block], of length]
    by (cases "go_Split newline block"; cases "tl (go_Split newline block)") auto
  show ?thesis
    using assms unfolding reverse_lines_def
    by (subst reverse_scan.simps, subst reverse_scan.simps)
      (auto simp: read_block_def block_lines_def Let_def)
qed

section \<open>Witnesses\<close>

definition example_query_env :: query_env where
  "example_query_env =
     \<lparr>qe_Unmarshal = (\<lambda>l. if l = ''x'' then None else Some \<lparr>sa_Entry = zero_entry\<lparr>ent_Time := l\<rparr>, sa_TST = []\<rparr>),
      qe_ParseTime = (\<lambda>s. case s of [] \<Rightarrow> None | c # _ \<Rightarrow> Some (of_char c))\<rparr>"

definition example_filter :: audit_filter where
  "example_filter =
     \<lparr>af_Since = 97, af_Until = 0, af_Limit = 0, af_Offset = 0, af_Sort = [], af_Action = [], af_ClientCN = [],
      af_Serial = [], af_Mapping = []\<rparr>"

text \<open>The search is only safe on files without damage: one line that is not an entry makes the forward query skip
  the entries before it. Here the only entry is newer than the bound, and the query misses it.\<close>

theorem damaged_line_hides_entries:
  "ReadAuditEntries example_query_env (log_file [''b'', ''x'']) example_filter = ([], False)
   \<and> page example_filter (List.map_filter (line_entry example_query_env example_filter) [''b'', ''x''])
       = [zero_entry\<lparr>ent_Time := ''b''\<rparr>]"
proof
  have "FindStartOffsetByTime example_query_env (log_file [''b'', ''x'']) 97 = 4"
    unfolding FindStartOffsetByTime_def log_file_def
    by (subst offset_search.simps, subst offset_search.simps, subst offset_search.simps)
      (simp add: skip_line_def line_at_def line_time_def example_query_env_def)
  then show "ReadAuditEntries example_query_env (log_file [''b'', ''x'']) example_filter = ([], False)"
    by (simp add: ReadAuditEntries_def example_filter_def sortDesc_def fitting_lines_def scanner_overflows_def
        scanner_max_def log_file_def)
  show "page example_filter (List.map_filter (line_entry example_query_env example_filter) [''b'', ''x''])
       = [zero_entry\<lparr>ent_Time := ''b''\<rparr>]"
    by code_simp
qed

lemma example_lines: "plain_lines [''a'', ''b'', ''c'']" "sorted_log example_query_env [''a'', ''b'', ''c'']"
  by (simp_all add: plain_lines_def sorted_log_def line_time_def example_query_env_def TrimSpace_def isSpace_def
      scanner_max_def)

theorem audit_query_since_exact_witness:
  "ReadAuditEntries example_query_env (log_file [''a'', ''b'', ''c'']) (example_filter\<lparr>af_Since := 98\<rparr>)
   = ([zero_entry\<lparr>ent_Time := ''b''\<rparr>, zero_entry\<lparr>ent_Time := ''c''\<rparr>], False)"
proof -
  have "page (example_filter\<lparr>af_Since := 98\<rparr>)
      (List.map_filter (line_entry example_query_env (example_filter\<lparr>af_Since := 98\<rparr>)) [''a'', ''b'', ''c''])
    = [zero_entry\<lparr>ent_Time := ''b''\<rparr>, zero_entry\<lparr>ent_Time := ''c''\<rparr>]" by code_simp
  then show ?thesis
    by (subst audit_query_since_exact[OF example_lines]) (simp_all add: example_filter_def)
qed

theorem audit_query_reverse_misses_oldest_witness:
  "readAuditEntriesReverse example_query_env (log_file [''a'', ''b'', ''c'']) example_filter
   = [zero_entry\<lparr>ent_Time := ''c''\<rparr>, zero_entry\<lparr>ent_Time := ''b''\<rparr>]"
proof -
  have "page example_filter (List.map_filter (line_entry example_query_env example_filter) (rev (tl [''a'', ''b'', ''c''])))
    = [zero_entry\<lparr>ent_Time := ''c''\<rparr>, zero_entry\<lparr>ent_Time := ''b''\<rparr>]" by code_simp
  then show ?thesis
    by (subst audit_query_reverse_misses_oldest[OF example_lines(1)]) (simp_all add: log_file_def)
qed

text \<open>The line \<open>cdef\<close> crosses the boundary and is read as \<open>cdab\<close>.\<close>

theorem audit_query_reverse_corrupts_witness:
  "last (reverse_lines 4096 ((''ab'' @ [newline] @ ''cd'') @ (''ef'' @ newline # replicate 4093 (CHR ''z'')))) = ''cdab''"
proof -
  let ?block = "''ef'' @ newline # replicate 4093 (CHR ''z'')"
  let ?pre = "''ab'' @ [newline] @ ''cd''"
  have hd: "hd (go_Split newline ?block) = ''ef''" by (simp add: go_Split_append[of newline "''ef''", simplified])
  show ?thesis
    by (subst audit_query_reverse_corrupts[where k = 2]) (simp_all add: hd)
qed

end
