(* ===== verification/Jwt.thy ===== *)
theory Jwt
  imports Data
begin

text \<open>
  Bearer authentication (\<^verbatim>\<open>src/jwt.go\<close>): the in-memory replay store, the verifier of AIC-JWT tokens and the
  certificate it synthesizes from the claims so that the pipeline can treat a bearer like a client
  certificate. The token library \<^verbatim>\<open>github.com/varwof/types/aicjwt\<close> (signature and claim validation, the
  compact serialization), the ASN.1 codec of the AIC and base64 are parameters. The interface of a
  replay store is a locale; the store of the code is its interpretation.
\<close>

section \<open>The replay store\<close>

record replay_store =
  rs_seen :: "(string \<times> instant) list"
  rs_ttl :: duration
  rs_max :: int

datatype replay_error = EmptyNonce | Replayed instant | AtCapacity int

definition NewReplayNonceStore :: "duration \<Rightarrow> int \<Rightarrow> replay_store" where
  "NewReplayNonceStore ttl mx =
     \<lparr>rs_seen = [], rs_ttl = (if ttl \<le> 0 then 24 * hour else ttl), rs_max = (if mx \<le> 0 then 65536 else mx)\<rparr>"

text \<open>Only when the store is over its capacity are the lapsed markers removed; if that is not enough the new
  marker is taken out again and the token refused.\<close>

definition replay_CheckAndAdd :: "instant \<Rightarrow> string \<Rightarrow> replay_store \<Rightarrow> replay_error option \<times> replay_store" where
  "replay_CheckAndAdd now nonce s =
     (if nonce = [] then (Some EmptyNonce, s)
      else case map_of (rs_seen s) nonce of
             Some ts \<Rightarrow> (Some (Replayed ts), s)
           | None \<Rightarrow>
               (let seen = (nonce, now) # rs_seen s in
                if int (length seen) > rs_max s then
                  (let cutoff = now - rs_ttl s;
                       live = filter (\<lambda>(k, ts). \<not> Before ts cutoff) seen
                   in if int (length live) > rs_max s
                      then (Some (AtCapacity (rs_max s)), s\<lparr>rs_seen := filter (\<lambda>(k, ts). k \<noteq> nonce) live\<rparr>)
                      else (None, s\<lparr>rs_seen := live\<rparr>))
                else (None, s\<lparr>rs_seen := seen\<rparr>)))"

section \<open>Claims, options and the verifier\<close>

record jwt_capability =
  jc_Scheme :: string
  jc_ID :: string
  jc_Params :: bytes

record aic_claims =
  ac_DelegationMode :: string
  ac_PrincipalRealm :: string
  ac_PrincipalID :: string
  ac_PrincipalKeyHash :: string
  ac_Capabilities :: "jwt_capability list"
  ac_Constraints :: "jwt_capability list"

record outer_claims =
  oc_Iss :: string
  oc_Sub :: string
  oc_Jti :: string
  oc_Iat :: int
  oc_Exp :: int
  oc_Aic :: "aic_claims option"

record verify_options =
  vo_Now :: instant
  vo_IssuerKeys :: "(string \<times> public_key) list"
  vo_ExpectedIssuer :: string
  vo_ExpectedAudience :: "string list"
  vo_PresenterKey :: "public_key option"
  vo_RequireJtiNonceMatch :: bool
  vo_StatusChecker :: "(string \<Rightarrow> string option) option"

text \<open>\<open>jw_Validate\<close> is \<^verbatim>\<open>aicjwt.Validate\<close>: it may present nonces to the store it is given.\<close>

record jwt_env =
  jw_SPKIHash :: "certificate \<Rightarrow> string option"
  jw_Validate :: "string \<Rightarrow> verify_options \<Rightarrow> replay_store option \<Rightarrow> string option \<times> replay_store option"
  jw_ParseCompact :: "string \<Rightarrow> string + bytes"
  jw_UnmarshalClaims :: "bytes \<Rightarrow> string + outer_claims"
  jw_MarshalAIC :: "aic \<Rightarrow> string + bytes"
  jw_DecodeRawURL :: "string \<Rightarrow> bytes"
  jw_NameString :: "string \<Rightarrow> string"
  jw_OIDAIC :: oid
  jw_ModeRepresentative :: string

datatype jwt_error = NoTrustRoot | ValidateFailed string | ParseFailed string | PayloadFailed string
  | JtiRequired | ReplayDetected replay_error | MissingAIC | MarshalAICFailed string

record jwt_verifier =
  jv_roots :: "(string \<times> public_key) list"
  jv_expectedIssuer :: string
  jv_expectedAudience :: "string list"
  jv_nonceStore :: "replay_store option"

record jwt_verify_options =
  jo_ExpectedIssuer :: string
  jo_ExpectedAudience :: "string list"
  jo_PresenterKey :: "public_key option"
  jo_NonceStore :: "replay_store option"
  jo_RequireJtiNonceMatch :: bool
  jo_StatusChecker :: "(string \<Rightarrow> string option) option"

text \<open>A nil certificate is skipped; of two keys with one identifier the later stays.\<close>

fun jwt_roots :: "jwt_env \<Rightarrow> certificate option list \<Rightarrow> (string \<times> public_key) list \<Rightarrow> (string \<times> public_key) list" where
  "jwt_roots J [] roots = roots"
| "jwt_roots J (None # cs) roots = jwt_roots J cs roots"
| "jwt_roots J (Some c # cs) roots =
     (case jw_SPKIHash J c of
        None \<Rightarrow> jwt_roots J cs roots
      | Some kid \<Rightarrow> jwt_roots J cs ((kid, cert_PublicKey c) # filter (\<lambda>(k, _). k \<noteq> kid) roots))"

definition NewJWTVerifier :: "jwt_env \<Rightarrow> certificate option list \<Rightarrow> jwt_verifier" where
  "NewJWTVerifier J cas =
     \<lparr>jv_roots = jwt_roots J cas [], jv_expectedIssuer = [], jv_expectedAudience = [], jv_nonceStore = None\<rparr>"

definition SetBearerPolicy :: "string \<Rightarrow> string list \<Rightarrow> replay_store option \<Rightarrow> jwt_verifier option \<Rightarrow> jwt_verifier option" where
  "SetBearerPolicy expectedIssuer expectedAudience nonces v =
     map_option (\<lambda>w. w\<lparr>jv_expectedIssuer := expectedIssuer, jv_expectedAudience := expectedAudience,
                       jv_nonceStore := nonces\<rparr>) v"

text \<open>\<^verbatim>\<open>parsePEMCerts\<close> over the blocks of the PEM data.\<close>

fun parsePEMCerts :: "(bytes \<Rightarrow> string + certificate) \<Rightarrow> (string \<times> bytes) list \<Rightarrow> string + certificate list" where
  "parsePEMCerts parse [] = Inr []"
| "parsePEMCerts parse ((ty, der) # blocks) =
     (if ty \<noteq> ''CERTIFICATE'' then parsePEMCerts parse blocks
      else case parse der of Inl e \<Rightarrow> Inl e | Inr c \<Rightarrow>
        (case parsePEMCerts parse blocks of Inl e \<Rightarrow> Inl e | Inr cs \<Rightarrow> Inr (c # cs)))"

text \<open>\<^verbatim>\<open>strings.FieldsFunc\<close> at commas and blanks.\<close>

definition ca_fields :: "string \<Rightarrow> string list" where
  "ca_fields spec = filter (\<lambda>f. f \<noteq> []) (concat (map (go_Split (CHR '' '')) (go_Split (CHR '','') spec)))"

text \<open>\<open>read\<close> is \<^verbatim>\<open>os.ReadFile\<close> followed by the split into PEM blocks.\<close>

fun load_cas ::
    "(string \<Rightarrow> string + (string \<times> bytes) list) \<Rightarrow> (bytes \<Rightarrow> string + certificate) \<Rightarrow> string list \<Rightarrow> string + certificate list" where
  "load_cas rd parse [] = Inr []"
| "load_cas rd parse (f # fs) =
     (case rd f of Inl e \<Rightarrow> Inl e | Inr blocks \<Rightarrow>
      case parsePEMCerts parse blocks of Inl e \<Rightarrow> Inl e | Inr cs \<Rightarrow>
      case load_cas rd parse fs of Inl e \<Rightarrow> Inl e | Inr cs' \<Rightarrow> Inr (cs @ cs'))"

definition LoadJWTVerifier ::
    "jwt_env \<Rightarrow> (string \<Rightarrow> string + (string \<times> bytes) list) \<Rightarrow> (bytes \<Rightarrow> string + certificate) \<Rightarrow> string list
     \<Rightarrow> string + jwt_verifier option" where
  "LoadJWTVerifier J rd parse caFiles =
     (case load_cas rd parse (concat (map ca_fields caFiles)) of Inl e \<Rightarrow> Inl e | Inr certs \<Rightarrow>
      if certs = [] then Inr None else Inr (Some (NewJWTVerifier J (map Some certs))))"

section \<open>The synthesized certificate\<close>

text \<open>\<^verbatim>\<open>time.Unix(s, 0)\<close>: the Unix epoch is 62135596800 seconds after the zero instant.\<close>

definition time_Unix :: "int \<Rightarrow> instant" where
  "time_Unix s = (s + 62135596800) * second"

definition wrap64 :: "int \<Rightarrow> int" where
  "wrap64 x = (x + 2 ^ 63) mod 2 ^ 64 - 2 ^ 63"

definition modeToInt :: "jwt_env \<Rightarrow> string \<Rightarrow> int" where
  "modeToInt J mode = (if mode = jw_ModeRepresentative J then 1 else 0)"

definition nonceFromJTI :: "crypto_ops \<Rightarrow> string \<Rightarrow> bytes" where
  "nonceFromJTI C jti = Sum256 C jti"

definition requestedLifetimeOf :: "outer_claims \<Rightarrow> int" where
  "requestedLifetimeOf outer =
     (if oc_Exp outer > oc_Iat outer then
        (let lt = wrap64 (oc_Exp outer - oc_Iat outer) in if lt > 0 then lt else 3600)
      else 3600)"

definition serialFromJWT :: "crypto_ops \<Rightarrow> outer_claims \<Rightarrow> int" where
  "serialFromJWT C outer =
     (let seed = (if oc_Jti outer = [] then (case oc_Aic outer of None \<Rightarrow> [] | Some a \<Rightarrow> ac_PrincipalID a) else oc_Jti outer);
          n = big_endian (Sum256 C seed)
      in if n = 0 then 1 else n)"

definition jwt_capability_of :: "jwt_capability \<Rightarrow> capability" where
  "jwt_capability_of c = \<lparr>SchemeId = jc_Scheme c, CapabilityId = jc_ID c, Parameters = jc_Params c\<rparr>"

text \<open>The two parts of the reason of the placeholder authorization are one string here.\<close>

definition jwtToAIC :: "jwt_env \<Rightarrow> pki_ops \<Rightarrow> crypto_ops \<Rightarrow> outer_claims \<Rightarrow> aic_claims \<Rightarrow> aic" where
  "jwtToAIC J P C outer a =
     \<lparr>aic_Version = 1,
      aic_AgentId = (if oc_Sub outer = [] then ac_PrincipalID a else oc_Sub outer),
      aic_PrincipalUid = \<lparr>pu_Realm = ac_PrincipalRealm a, pu_Identifier = ac_PrincipalID a,
                          pu_KeyHash = jw_DecodeRawURL J (ac_PrincipalKeyHash a)\<rparr>,
      aic_Capabilities = map jwt_capability_of (ac_Capabilities a),
      aic_DelegationMode = modeToInt J (ac_DelegationMode a),
      aic_AuthorizationConstraints = map jwt_capability_of (ac_Constraints a),
      aic_DelegationAuthorization =
        \<lparr>da_Reason = ''JWT_BEARER: aic-jwt bearer authentication'', da_RequestedLifetime = requestedLifetimeOf outer,
         da_Timestamp = 0, da_Nonce = nonceFromJTI C (oc_Jti outer), da_SignatureAlgorithm = OIDSHA256 P,
         da_SignatureValue = []\<rparr>\<rparr>"

text \<open>Fields the Go code does not set have their zero value; the DER forms of the two names are not filled in
  by it either.\<close>

definition SynthesizeCertFromJWT :: "jwt_env \<Rightarrow> pki_ops \<Rightarrow> crypto_ops \<Rightarrow> outer_claims \<Rightarrow> jwt_error + certificate" where
  "SynthesizeCertFromJWT J P C outer =
     (case oc_Aic outer of None \<Rightarrow> Inl MissingAIC | Some a \<Rightarrow>
      case jw_MarshalAIC J (jwtToAIC J P C outer a) of Inl e \<Rightarrow> Inl (MarshalAICFailed e) | Inr extVal \<Rightarrow>
        (let agentID = (if oc_Sub outer = [] then ac_PrincipalID a else oc_Sub outer) in
         Inr \<lparr>cert_CommonName = agentID, cert_Organization = [], cert_OrganizationalUnit = [],
              cert_Subject = jw_NameString J agentID, cert_Issuer = jw_NameString J (oc_Iss outer),
              cert_IssuerCommonName = oc_Iss outer, cert_RawIssuer = [], cert_RawSubject = [],
              cert_SerialNumber = serialFromJWT C outer,
              cert_NotBefore = time_Unix (oc_Iat outer), cert_NotAfter = time_Unix (oc_Exp outer),
              cert_URIs = [], cert_Raw = [], cert_RawSubjectPublicKeyInfo = [], cert_PublicKey = NoKey,
              cert_Extensions = [(jw_OIDAIC J, extVal)]\<rparr>))"

section \<open>Verification\<close>

definition chosen_store :: "jwt_verifier \<Rightarrow> jwt_verify_options option \<Rightarrow> replay_store option" where
  "chosen_store v opts =
     (case opts of None \<Rightarrow> jv_nonceStore v
      | Some o' \<Rightarrow> (case jo_NonceStore o' of None \<Rightarrow> jv_nonceStore v | Some s \<Rightarrow> Some s))"

definition jwt_options :: "jwt_verifier \<Rightarrow> instant \<Rightarrow> jwt_verify_options option \<Rightarrow> verify_options" where
  "jwt_options v now opts =
     (let base = \<lparr>vo_Now = now, vo_IssuerKeys = jv_roots v, vo_ExpectedIssuer = jv_expectedIssuer v,
                  vo_ExpectedAudience = jv_expectedAudience v, vo_PresenterKey = None,
                  vo_RequireJtiNonceMatch = False, vo_StatusChecker = None\<rparr>
      in case opts of None \<Rightarrow> base | Some o' \<Rightarrow>
           base\<lparr>vo_ExpectedIssuer := (if jo_ExpectedIssuer o' \<noteq> [] then jo_ExpectedIssuer o' else jv_expectedIssuer v),
                vo_ExpectedAudience := (if jo_ExpectedAudience o' \<noteq> [] then jo_ExpectedAudience o' else jv_expectedAudience v),
                vo_PresenterKey := jo_PresenterKey o',
                vo_RequireJtiNonceMatch := jo_RequireJtiNonceMatch o',
                vo_StatusChecker := jo_StatusChecker o'\<rparr>)"

text \<open>The one-time use of the token identifier.\<close>

definition jti_check :: "instant \<Rightarrow> outer_claims \<Rightarrow> replay_store option \<Rightarrow> jwt_error option \<times> replay_store option" where
  "jti_check now outer st =
     (case st of None \<Rightarrow> (None, None) | Some s \<Rightarrow>
      if oc_Jti outer = [] then (Some JtiRequired, st)
      else case replay_CheckAndAdd now (oc_Jti outer) s of
             (Some e, s') \<Rightarrow> (Some (ReplayDetected e), Some s')
           | (None, s') \<Rightarrow> (None, Some s'))"

text \<open>The result comes with the state of the replay store that was consulted. One reading of the clock per
  call stands for the readings of the code.\<close>

definition VerifyBearer ::
    "jwt_env \<Rightarrow> pki_ops \<Rightarrow> crypto_ops \<Rightarrow> jwt_verifier \<Rightarrow> string \<Rightarrow> instant \<Rightarrow> jwt_verify_options option
     \<Rightarrow> (jwt_error + certificate \<times> outer_claims) \<times> replay_store option" where
  "VerifyBearer J P C v token now opts =
     (let st = chosen_store v opts in
      if jv_roots v = [] then (Inl NoTrustRoot, st)
      else case jw_Validate J token (jwt_options v now opts) st of
        (Some e, st1) \<Rightarrow> (Inl (ValidateFailed e), st1)
      | (None, st1) \<Rightarrow>
          (case jw_ParseCompact J token of Inl e \<Rightarrow> (Inl (ParseFailed e), st1) | Inr pb \<Rightarrow>
           case jw_UnmarshalClaims J pb of Inl e \<Rightarrow> (Inl (PayloadFailed e), st1) | Inr outer \<Rightarrow>
           case jti_check now outer st1 of (Some e, st2) \<Rightarrow> (Inl e, st2) | (None, st2) \<Rightarrow>
           case SynthesizeCertFromJWT J P C outer of Inl e \<Rightarrow> (Inl e, st2) | Inr cert \<Rightarrow> (Inr (cert, outer), st2)))"

section \<open>The interface of a replay store\<close>

text \<open>A sequence of presentations, each with its time; the answers in order and the final store.\<close>

fun store_run :: "(instant \<Rightarrow> 'n \<Rightarrow> 's \<Rightarrow> bool \<times> 's) \<Rightarrow> (instant \<times> 'n) list \<Rightarrow> 's \<Rightarrow> bool list \<times> 's" where
  "store_run check [] s = ([], s)"
| "store_run check ((t, n) # ps) s =
     (case check t n s of (ok, s') \<Rightarrow> case store_run check ps s' of (oks, s'') \<Rightarrow> (ok # oks, s''))"

lemma store_run_Cons: "store_run check (p # ps) s =
  (fst (check (fst p) (snd p) s) # fst (store_run check ps (snd (check (fst p) (snd p) s))),
   snd (store_run check ps (snd (check (fst p) (snd p) s))))"
  by (cases p) (simp split: prod.splits)

lemma store_run_take: "fst (store_run check (take k ps) s) = take k (fst (store_run check ps s))"
proof (induction ps arbitrary: k s)
  case (Cons p ps)
  then show ?case by (cases k) (simp_all add: store_run_Cons del: store_run.simps(2))
qed simp

text \<open>What is presented carries an identifier; the store keeps the time of its first use. An identifier is accepted
  only without a live marker, and a live marker is never lost.\<close>

locale nonce_store =
  fixes check :: "instant \<Rightarrow> 'n \<Rightarrow> 's \<Rightarrow> bool \<times> 's"
    and ident :: "'n \<Rightarrow> string"
    and marker :: "'s \<Rightarrow> string \<Rightarrow> instant option"
    and ttl :: "'s \<Rightarrow> duration"
    and valid :: "'s \<Rightarrow> bool"
  assumes accept_fresh: "valid s \<Longrightarrow> check t n s = (True, s') \<Longrightarrow> marker s (ident n) = Some u \<Longrightarrow> u + ttl s < t"
    and accept_marks: "valid s \<Longrightarrow> check t n s = (True, s') \<Longrightarrow> marker s' (ident n) = Some t"
    and live_kept: "valid s \<Longrightarrow> check t n s = (ok, s') \<Longrightarrow> marker s m = Some u \<Longrightarrow> t \<le> u + ttl s \<Longrightarrow> marker s' m = Some u"
    and ttl_kept: "valid s \<Longrightarrow> check t n s = (ok, s') \<Longrightarrow> ttl s' = ttl s"
    and valid_kept: "valid s \<Longrightarrow> check t n s = (ok, s') \<Longrightarrow> valid s'"
begin

lemma run_kept:
  assumes "valid s"
  shows "valid (snd (store_run check ps s)) \<and> ttl (snd (store_run check ps s)) = ttl s"
  using assms
proof (induction ps arbitrary: s)
  case (Cons p ps)
  obtain ok s1 where "check (fst p) (snd p) s = (ok, s1)" by fastforce
  then show ?case
    using Cons valid_kept ttl_kept by (auto simp: store_run_Cons simp del: store_run.simps(2))
qed simp

text \<open>While a marker is live it stays, and its identifier is refused.\<close>

lemma marked_refused:
  assumes "valid s" "marker s n = Some u" "list_all (\<lambda>(t, _). t \<le> u + ttl s) ps"
  shows "marker (snd (store_run check ps s)) n = Some u
    \<and> (\<forall>j < length ps. ident (snd (ps ! j)) = n \<longrightarrow> \<not> fst (store_run check ps s) ! j)"
  using assms
proof (induction ps arbitrary: s)
  case Nil
  then show ?case by simp
next
  case (Cons p ps)
  obtain t m where p: "p = (t, m)" by fastforce
  obtain ok s1 where c: "check t m s = (ok, s1)" by fastforce
  have "marker s1 n = Some u" using Cons.prems live_kept[OF Cons.prems(1) c Cons.prems(2)] p by simp
  then have "marker (snd (store_run check ps s1)) n = Some u
      \<and> (\<forall>j < length ps. ident (snd (ps ! j)) = n \<longrightarrow> \<not> fst (store_run check ps s1) ! j)"
    using Cons.IH[OF valid_kept[OF Cons.prems(1) c]] Cons.prems(3) ttl_kept[OF Cons.prems(1) c] p by simp
  moreover have "\<not> ok" if "ident m = n" using accept_fresh[OF Cons.prems(1), of t m s1 u] c that Cons.prems(2,3) p by auto
  ultimately show ?case using p c by (auto simp: store_run_Cons nth_Cons split: nat.splits simp del: store_run.simps(2))
qed

lemma accepted_once:
  assumes "valid s" "check t n s = (True, s1)" "ident (snd (ps ! j)) = ident n" "j < length ps" "fst (store_run check ps s1) ! j"
  shows "\<exists>k \<le> j. fst (ps ! k) > t + ttl s"
proof (rule ccontr)
  assume "\<not> ?thesis"
  then have "list_all (\<lambda>(t', _). t' \<le> t + ttl s1) (take (Suc j) ps)"
    using assms(4) ttl_kept[OF assms(1,2)] by (simp add: list_all_length not_less case_prod_beta less_Suc_eq_le)
  from marked_refused[OF valid_kept[OF assms(1,2)] accept_marks[OF assms(1,2)] this] show False
    using assms(3-5) by (simp add: store_run_take)
qed

text \<open>One-time use: between two acceptances of a nonce some presentation lies after its lifetime.\<close>

lemma single_use:
  assumes "valid s" "i < j" "j < length ps" "ident (snd (ps ! i)) = ident (snd (ps ! j))"
    and "fst (store_run check ps s) ! i" "fst (store_run check ps s) ! j"
  shows "\<exists>k. i < k \<and> k \<le> j \<and> fst (ps ! k) > fst (ps ! i) + ttl s"
  using assms
proof (induction ps arbitrary: s i j)
  case Nil
  then show ?case by simp
next
  case (Cons p ps)
  obtain t n where p: "p = (t, n)" by fastforce
  obtain ok s1 where c: "check t n s = (ok, s1)" by fastforce
  have run: "fst (store_run check (p # ps) s) = ok # fst (store_run check ps s1)"
    using p c by (simp add: store_run_Cons del: store_run.simps(2))
  obtain j' where j: "j = Suc j'" using Cons.prems(2) by (cases j) auto
  show ?case
  proof (cases i)
    case (Suc i')
    then obtain k where "i' < k" "k \<le> j'" "fst (ps ! k) > fst (ps ! i') + ttl s1"
      using Cons.IH[OF valid_kept[OF Cons.prems(1) c], of i' j'] Cons.prems(2-) run j by auto
    then show ?thesis using Suc j ttl_kept[OF Cons.prems(1) c] by (intro exI[of _ "Suc k"]) simp
  next
    case 0
    then have "\<exists>k \<le> j'. fst (ps ! k) > t + ttl s"
      using accepted_once[OF Cons.prems(1), of t n s1 ps j'] Cons.prems(3-) run j c p by auto
    then show ?thesis using 0 j p by force
  qed
qed

end

text \<open>The store of the code.\<close>

definition replay_check :: "instant \<Rightarrow> string \<Rightarrow> replay_store \<Rightarrow> bool \<times> replay_store" where
  "replay_check now nonce s = (fst (replay_CheckAndAdd now nonce s) = None, snd (replay_CheckAndAdd now nonce s))"

definition replay_valid :: "replay_store \<Rightarrow> bool" where
  "replay_valid s \<longleftrightarrow> distinct (map fst (rs_seen s)) \<and> rs_ttl s > 0 \<and> int (length (rs_seen s)) \<le> rs_max s"

lemma NewReplayNonceStore_valid [simp]: "replay_valid (NewReplayNonceStore ttl mx)"
  by (simp add: replay_valid_def NewReplayNonceStore_def hour_def minute_def second_def)

lemma map_of_filter_snd:
  "distinct (map fst xs) \<Longrightarrow> map_of (filter (\<lambda>(k, v). P k v) xs) k = (case map_of xs k of Some v \<Rightarrow> if P k v then Some v else None | None \<Rightarrow> None)"
  by (induction xs) (auto simp: map_of_eq_None_iff split: option.splits if_splits dest: map_of_SomeD intro: rev_image_eqI)

lemma distinct_filter_keys: "distinct (map fst xs) \<Longrightarrow> distinct (map fst (filter P xs))"
  by (induction xs) auto

text \<open>What a call does: nothing on an empty or known nonce, otherwise the marker is added, and beyond the capacity
  the lapsed ones are dropped.\<close>

lemma replay_seen:
  assumes "replay_valid s" "replay_check t n s = (ok, s')"
  shows "rs_ttl s' = rs_ttl s" "rs_max s' = rs_max s" "replay_valid s'"
    and "ok \<Longrightarrow> n \<noteq> [] \<and> map_of (rs_seen s) n = None \<and> map_of (rs_seen s') n = Some t"
    and "map_of (rs_seen s) m = Some u \<Longrightarrow> t \<le> u + rs_ttl s \<Longrightarrow> map_of (rs_seen s') m = Some u"
proof -
  let ?seen = "(n, t) # rs_seen s"
  define live where "live = filter (\<lambda>(k, ts). \<not> ts < t - rs_ttl s) ?seen"
  have eq: "replay_CheckAndAdd t n s = (if n = [] then (Some EmptyNonce, s)
      else case map_of (rs_seen s) n of Some ts \<Rightarrow> (Some (Replayed ts), s) | None \<Rightarrow>
        if int (length ?seen) > rs_max s then
          (if int (length live) > rs_max s then (Some (AtCapacity (rs_max s)), s\<lparr>rs_seen := filter (\<lambda>(k, ts). k \<noteq> n) live\<rparr>)
           else (None, s\<lparr>rs_seen := live\<rparr>))
        else (None, s\<lparr>rs_seen := ?seen\<rparr>))"
    unfolding replay_CheckAndAdd_def Let_def live_def by (rule refl)
  have d: "distinct (map fst (rs_seen s))" "rs_ttl s > 0" "int (length (rs_seen s)) \<le> rs_max s"
    using assms(1) by (auto simp: replay_valid_def)
  have res: "ok = (fst (replay_CheckAndAdd t n s) = None)" "s' = snd (replay_CheckAndAdd t n s)"
    using assms(2) by (simp_all add: replay_check_def)
  consider (same) "\<not> ok" "s' = s"
    | (add) "ok" "n \<noteq> []" "map_of (rs_seen s) n = None" "s' = s\<lparr>rs_seen := ?seen\<rparr>" "int (length ?seen) \<le> rs_max s"
    | (purge) "ok" "n \<noteq> []" "map_of (rs_seen s) n = None" "s' = s\<lparr>rs_seen := live\<rparr>" "int (length live) \<le> rs_max s"
    | (full) "\<not> ok" "n \<noteq> []" "map_of (rs_seen s) n = None" "s' = s\<lparr>rs_seen := filter (\<lambda>(k, ts). k \<noteq> n) live\<rparr>"
  proof (cases "n = [] \<or> map_of (rs_seen s) n \<noteq> None")
    case True
    then have "\<not> ok \<and> s' = s" unfolding res eq by auto
    then show ?thesis by (intro that(1)) auto
  next
    case new: False
    show ?thesis
    proof (cases "int (length ?seen) > rs_max s")
      case False
      with new have "ok \<and> s' = s\<lparr>rs_seen := ?seen\<rparr>" unfolding res eq by simp
      then show ?thesis using new False by (intro that(2)) auto
    next
      case over: True
      show ?thesis
      proof (cases "int (length live) > rs_max s")
        case True
        with new over have "\<not> ok \<and> s' = s\<lparr>rs_seen := filter (\<lambda>(k, ts). k \<noteq> n) live\<rparr>" unfolding res eq by simp
        then show ?thesis using new by (intro that(4)) auto
      next
        case False
        with new over have "ok \<and> s' = s\<lparr>rs_seen := live\<rparr>" unfolding res eq by simp
        then show ?thesis using new False by (intro that(3)) auto
      qed
    qed
  qed
  note cases = this
  have dl: "distinct (map fst ?seen)" if "map_of (rs_seen s) n = None" using d(1) that by (auto simp: map_of_eq_None_iff)
  have short: "int (length (filter P (rs_seen s))) \<le> rs_max s" for P
    using d(3) length_filter_le[of P "rs_seen s"] by linarith
  show "rs_ttl s' = rs_ttl s" using cases by cases simp_all
  show "rs_max s' = rs_max s" using cases by cases simp_all
  show "replay_valid s'"
    using cases
  proof cases
    case full
    have "filter (\<lambda>(k, ts). k \<noteq> n) live = filter (\<lambda>(k, ts). k \<noteq> n \<and> \<not> ts < t - rs_ttl s) (rs_seen s)"
      by (auto simp: live_def case_prod_unfold conj_commute)
    then show ?thesis using full(4) d short distinct_filter_keys by (simp add: replay_valid_def)
  qed (use assms(1) d dl distinct_filter_keys in \<open>auto simp: replay_valid_def live_def\<close>)
  show "n \<noteq> [] \<and> map_of (rs_seen s) n = None \<and> map_of (rs_seen s') n = Some t" if ok
    using cases that d(2) by cases (auto simp: live_def)
  show "map_of (rs_seen s') m = Some u" if "map_of (rs_seen s) m = Some u" "t \<le> u + rs_ttl s"
    using cases
  proof cases
    case full
    then have "m \<noteq> n" using that(1) by auto
    then show ?thesis using full(3,4) that d(1)
      by (auto simp: live_def map_of_filter_snd distinct_filter_keys)
  qed (use that d(1) in \<open>auto simp: live_def map_of_filter_snd\<close>)
qed

interpretation rstore: nonce_store replay_check id "\<lambda>s. map_of (rs_seen s)" rs_ttl replay_valid
proof unfold_locales
  show "u + rs_ttl s < t" if "replay_valid s" "replay_check t n s = (True, s')" "map_of (rs_seen s) (id n) = Some u" for s t n s' u
    using replay_seen(4)[OF that(1,2)] that(3) by simp
  show "rs_ttl s' = rs_ttl s" if "replay_valid s" "replay_check t n s = (ok, s')" for t n s ok s'
    by (rule replay_seen(1)[OF that])
  show "map_of (rs_seen s') (id n) = Some t" if "replay_valid s" "replay_check t n s = (True, s')" for s t n s'
    using replay_seen(4)[OF that] by simp
  show "map_of (rs_seen s') m = Some u"
    if "replay_valid s" "replay_check t n s = (ok, s')" "map_of (rs_seen s) m = Some u" "t \<le> u + rs_ttl s" for s t n ok s' m u
    by (rule replay_seen(5)[OF that])
  show "replay_valid s'" if "replay_valid s" "replay_check t n s = (ok, s')" for s t n ok s'
    by (rule replay_seen(3)[OF that])
qed

section \<open>Bearer tokens as a replay store\<close>

definition jti_of :: "jwt_env \<Rightarrow> string \<Rightarrow> string" where
  "jti_of J token =
     (case jw_ParseCompact J token of Inl _ \<Rightarrow> [] | Inr pb \<Rightarrow>
      case jw_UnmarshalClaims J pb of Inl _ \<Rightarrow> [] | Inr outer \<Rightarrow> oc_Jti outer)"

definition bearer_check ::
    "jwt_env \<Rightarrow> pki_ops \<Rightarrow> crypto_ops \<Rightarrow> instant \<Rightarrow> string \<Rightarrow> jwt_verifier \<Rightarrow> bool \<times> jwt_verifier" where
  "bearer_check J P C now token v =
     (case VerifyBearer J P C v token now None of (r, st) \<Rightarrow> (\<not> isl r, v\<lparr>jv_nonceStore := st\<rparr>))"

text \<open>\<^verbatim>\<open>aicjwt.Validate\<close> touches the store it is handed only by presenting nonces to it.\<close>

definition validate_uses_store :: "jwt_env \<Rightarrow> bool" where
  "validate_uses_store J \<longleftrightarrow> (\<forall>token opts s e st. jw_Validate J token opts (Some s) = (e, st) \<longrightarrow>
     (\<exists>ns. st = Some (snd (store_run replay_check (map (Pair (vo_Now opts)) ns) s))))"

definition bearer_marker :: "jwt_verifier \<Rightarrow> string \<Rightarrow> instant option" where
  "bearer_marker v n = (case jv_nonceStore v of None \<Rightarrow> None | Some s \<Rightarrow> map_of (rs_seen s) n)"

definition bearer_ttl :: "jwt_verifier \<Rightarrow> duration" where
  "bearer_ttl v = (case jv_nonceStore v of None \<Rightarrow> 0 | Some s \<Rightarrow> rs_ttl s)"

definition bearer_valid :: "jwt_env \<Rightarrow> jwt_verifier \<Rightarrow> bool" where
  "bearer_valid J v \<longleftrightarrow> validate_uses_store J \<and> (\<exists>s. jv_nonceStore v = Some s \<and> replay_valid s)"

lemma store_run_append: "snd (store_run check (ps @ qs) s) = snd (store_run check qs (snd (store_run check ps s)))"
  by (induction ps arbitrary: s) (simp_all add: store_run_Cons del: store_run.simps(2))

lemma jti_check_cases:
  assumes "jti_check t outer (Some s) = (e, st)"
  shows "\<exists>ns. st = Some (snd (store_run replay_check (map (Pair t) ns) s))
    \<and> (e = None \<longrightarrow> ns = [oc_Jti outer] \<and> fst (replay_check t (oc_Jti outer) s))"
proof (cases "oc_Jti outer = []")
  case True
  then show ?thesis using assms by (intro exI[of _ "[]"]) (auto simp: jti_check_def)
next
  case False
  then show ?thesis
    using assms by (intro exI[of _ "[oc_Jti outer]"]) (auto simp: jti_check_def replay_check_def split: prod.splits option.splits)
qed

text \<open>Every verification is a sequence of presentations to the store; on success the last one was the identifier of
  the token, and it was accepted.\<close>

lemma VerifyBearer_store:
  assumes "validate_uses_store J" "jv_nonceStore v = Some s" "VerifyBearer J P C v token t None = (r, st)"
  shows "\<exists>ns. st = Some (snd (store_run replay_check (map (Pair t) ns) s))
    \<and> (\<not> isl r \<longrightarrow> (\<exists>ms. ns = ms @ [jti_of J token]
        \<and> fst (replay_check t (jti_of J token) (snd (store_run replay_check (map (Pair t) ms) s)))))"
proof (cases "jv_roots v = []")
  case True
  then show ?thesis using assms by (intro exI[of _ "[]"]) (auto simp: VerifyBearer_def chosen_store_def)
next
  case False
  obtain e st1 where val: "jw_Validate J token (jwt_options v t None) (Some s) = (e, st1)" by fastforce
  have "vo_Now (jwt_options v t None) = t" by (simp add: jwt_options_def)
  with val assms(1) obtain ms where ms: "st1 = Some (snd (store_run replay_check (map (Pair t) ms) s))"
    by (metis validate_uses_store_def)
  let ?s1 = "snd (store_run replay_check (map (Pair t) ms) s)"
  have failed: ?thesis if "st = st1" "isl r"
    using that ms by blast
  show ?thesis
  proof (cases "e = None \<and> \<not> isl (jw_ParseCompact J token) \<and> \<not> isl (jw_UnmarshalClaims J (projr (jw_ParseCompact J token)))")
    case bad: False
    then have "st = st1 \<and> isl r"
      using assms(2,3) False val
      by (auto simp: VerifyBearer_def chosen_store_def Let_def split: option.splits sum.splits)
    then show ?thesis using failed by blast
  next
    case True
    then obtain pb outer where c: "jw_ParseCompact J token = Inr pb" "jw_UnmarshalClaims J pb = Inr outer" "e = None"
      by (metis sum.collapse(2))
    obtain e2 st2 where chk: "jti_check t outer (Some ?s1) = (e2, st2)" by fastforce
    obtain ns where ns: "st2 = Some (snd (store_run replay_check (map (Pair t) ns) ?s1))"
        "e2 = None \<longrightarrow> ns = [oc_Jti outer] \<and> fst (replay_check t (oc_Jti outer) ?s1)"
      using jti_check_cases[OF chk] by blast
    have "st = st2" "\<not> isl r \<Longrightarrow> e2 = None"
      using assms(2,3) False val c chk ms
      by (auto simp: VerifyBearer_def chosen_store_def Let_def split: option.splits sum.splits)
    moreover have "jti_of J token = oc_Jti outer" using c by (simp add: jti_of_def)
    ultimately show ?thesis
      using ns by (intro exI[of _ "ms @ ns"]) (auto simp: store_run_append)
  qed
qed

lemma bearer_step:
  assumes "bearer_valid J v" "bearer_check J P C t token v = (ok, v')"
  obtains s ns where "jv_nonceStore v = Some s" "replay_valid s"
    "jv_nonceStore v' = Some (snd (store_run replay_check (map (Pair t) ns) s))"
    "ok \<longrightarrow> (\<exists>ms. ns = ms @ [jti_of J token]
        \<and> fst (replay_check t (jti_of J token) (snd (store_run replay_check (map (Pair t) ms) s))))"
proof -
  from assms(1) obtain s where s: "jv_nonceStore v = Some s" "replay_valid s" "validate_uses_store J"
    by (auto simp: bearer_valid_def)
  obtain r st where run: "VerifyBearer J P C v token t None = (r, st)" by fastforce
  have "ok \<longleftrightarrow> \<not> isl r" "jv_nonceStore v' = st" using assms(2) run by (auto simp: bearer_check_def)
  with VerifyBearer_store[OF s(3,1) run] s that show thesis by blast
qed

lemma serial_positive: "0 < serialFromJWT C outer"
  using big_endian_nonneg by (auto simp: serialFromJWT_def Let_def less_le)

text \<open>The presentations inside one verification leave a live marker alone.\<close>

lemma live_at_once:
  assumes "replay_valid s" "map_of (rs_seen s) m = Some u" "t \<le> u + rs_ttl s"
  shows "map_of (rs_seen (snd (store_run replay_check (map (Pair t) ns) s))) m = Some u"
  using rstore.marked_refused[OF assms(1,2), of "map (Pair t) ns"] assms(3) by (simp add: list_all_iff)

interpretation bstore: nonce_store "bearer_check J P C" "jti_of J" bearer_marker bearer_ttl "bearer_valid J" for J P C
proof unfold_locales
  fix s :: jwt_verifier and t :: instant and n :: string and s' :: jwt_verifier and u :: instant
  assume v: "bearer_valid J s" and c: "bearer_check J P C t n s = (True, s')"
  from bearer_step[OF v c] obtain r ms where r: "jv_nonceStore s = Some r" "replay_valid r"
    "jv_nonceStore s' = Some (snd (store_run replay_check (map (Pair t) (ms @ [jti_of J n])) r))"
    "fst (replay_check t (jti_of J n) (snd (store_run replay_check (map (Pair t) ms) r)))"
    by blast
  let ?r1 = "snd (store_run replay_check (map (Pair t) ms) r)"
  have r1: "replay_valid ?r1" using rstore.run_kept[OF r(2)] by blast
  obtain r2 where acc: "replay_check t (jti_of J n) ?r1 = (True, r2)" using r(4) by (metis prod.collapse)
  show "bearer_marker s' (jti_of J n) = Some t"
    using rstore.accept_marks[OF r1 acc] r(3) acc by (simp add: bearer_marker_def store_run_append)
  show "u + bearer_ttl s < t" if m: "bearer_marker s (jti_of J n) = Some u"
  proof (rule ccontr)
    assume "\<not> u + bearer_ttl s < t"
    then have "map_of (rs_seen ?r1) (jti_of J n) = Some u"
      using m r(1,2) by (intro live_at_once) (auto simp: bearer_marker_def bearer_ttl_def)
    then show False using replay_seen(4)[OF r1 acc] by simp
  qed
next
  fix s :: jwt_verifier and t :: instant and n :: string and ok s' and m u
  assume v: "bearer_valid J s" and c: "bearer_check J P C t n s = (ok, s')"
  from bearer_step[OF v c] obtain r ns where r: "jv_nonceStore s = Some r" "replay_valid r"
    "jv_nonceStore s' = Some (snd (store_run replay_check (map (Pair t) ns) r))" by blast
  note kept = rstore.run_kept[OF r(2), of "map (Pair t) ns"]
  show "bearer_ttl s' = bearer_ttl s" using kept r by (simp add: bearer_ttl_def)
  show "bearer_valid J s'" using kept r v by (simp add: bearer_valid_def)
  show "bearer_marker s' m = Some u" if "bearer_marker s m = Some u" "t \<le> u + bearer_ttl s"
    using that live_at_once[OF r(2), of m u t ns] r by (simp add: bearer_marker_def bearer_ttl_def)
qed

section \<open>Properties\<close>

text \<open>A bearer token is used once: in any sequence of verifications by a verifier with replay protection, if two
  accepted tokens carry the same identifier then more than 24 hours passed between the first of them
  and some verification up to the second, whatever other tokens were presented in between and whatever
  nonces the token library recorded. Within its lifetime no marker is evicted to make room.\<close>

theorem bearer_single_use:
  assumes "validate_uses_store J" "jv_nonceStore v = Some (NewReplayNonceStore 0 0)"
    and "i < j" "j < length ps" "jti_of J (snd (ps ! i)) = jti_of J (snd (ps ! j))"
    and "fst (store_run (bearer_check J P C) ps v) ! i" "fst (store_run (bearer_check J P C) ps v) ! j"
  shows "\<exists>k. i < k \<and> k \<le> j \<and> fst (ps ! k) > fst (ps ! i) + 24 * hour"
proof -
  have "bearer_valid J v" using assms(1,2) by (simp add: bearer_valid_def)
  moreover have "bearer_ttl v = 24 * hour" using assms(2) by (simp add: bearer_ttl_def NewReplayNonceStore_def)
  ultimately show ?thesis using bstore.single_use[of J v i j ps P C] assms(3-) by simp
qed

text \<open>C26. The replay store never holds more markers than its capacity, one per nonce, over any sequence of calls; a nonce
  it accepted is held with the time of the call. When it is full of live markers a new nonce is refused
  rather than an old one forgotten.\<close>

theorem replay_store_bounded:
  assumes "s = snd (store_run replay_check ps (NewReplayNonceStore ttl mx))"
  shows "int (length (rs_seen s)) \<le> rs_max s \<and> distinct (map fst (rs_seen s))
    \<and> (fst (replay_check t n s) \<longrightarrow> map_of (rs_seen (snd (replay_check t n s))) n = Some t)
    \<and> (n \<noteq> [] \<and> map_of (rs_seen s) n = None \<and> int (length (rs_seen s)) = rs_max s
         \<and> (\<forall>(k, ts) \<in> set (rs_seen s). t \<le> ts + rs_ttl s)
       \<longrightarrow> replay_CheckAndAdd t n s = (Some (AtCapacity (rs_max s)), s))"
proof -
  have v: "replay_valid s" unfolding assms by (rule rstore.run_kept[THEN conjunct1, OF NewReplayNonceStore_valid])
  have "map_of (rs_seen (snd (replay_check t n s))) n = Some t" if "fst (replay_check t n s)"
    using rstore.accept_marks[OF v, of t n "snd (replay_check t n s)"] that by (simp add: prod_eq_iff)
  moreover have "replay_CheckAndAdd t n s = (Some (AtCapacity (rs_max s)), s)"
    if "n \<noteq> []" "map_of (rs_seen s) n = None" "int (length (rs_seen s)) = rs_max s"
      "\<forall>(k, ts) \<in> set (rs_seen s). t \<le> ts + rs_ttl s"
  proof -
    have live: "filter (\<lambda>(k, ts). \<not> ts < t - rs_ttl s) (rs_seen s) = rs_seen s"
      using that(4) by (auto simp: filter_id_conv)
    have other: "filter (\<lambda>(k, ts). k \<noteq> n) (rs_seen s) = rs_seen s"
      using that(2) by (auto simp: filter_id_conv map_of_eq_None_iff rev_image_eqI)
    show ?thesis
      using that(1-3) v live other by (simp add: replay_CheckAndAdd_def Let_def replay_valid_def)
  qed
  ultimately show ?thesis using v unfolding replay_valid_def by blast
qed

text \<open>The certificate synthesized from an accepted token carries the claims: the library accepted the token under the
  issuer and audience of the verifier, the AIC read back from the certificate has the agent, principal,
  mode, capabilities and constraints of the claims in their order, the validity is the interval from
  \<^verbatim>\<open>iat\<close> to \<^verbatim>\<open>exp\<close>, and the serial number is positive and depends on the token identifier alone. The
  hypothesis is that parsing an AIC extension inverts its ASN.1 encoding.\<close>

theorem bearer_certificate_carries_claims:
  assumes "VerifyBearer J P C v token now None = (Inr (cert, outer), st)"
    and "\<And>a der c. jw_MarshalAIC J a = Inr der \<Longrightarrow> cert_Extensions c = [(jw_OIDAIC J, der)] \<Longrightarrow> ParseAIC P c = Inr (Some a)"
  shows "fst (jw_Validate J token (jwt_options v now None) (jv_nonceStore v)) = None
    \<and> vo_IssuerKeys (jwt_options v now None) = jv_roots v \<and> jv_roots v \<noteq> []
    \<and> vo_ExpectedIssuer (jwt_options v now None) = jv_expectedIssuer v
    \<and> vo_ExpectedAudience (jwt_options v now None) = jv_expectedAudience v
    \<and> (\<exists>c a. oc_Aic outer = Some c \<and> ParseAIC P cert = Inr (Some a)
        \<and> aic_AgentId a = cert_CommonName cert \<and> aic_AgentId a = (if oc_Sub outer = [] then ac_PrincipalID c else oc_Sub outer)
        \<and> pu_Identifier (aic_PrincipalUid a) = ac_PrincipalID c
        \<and> map CapabilityId (aic_Capabilities a) = map jc_ID (ac_Capabilities c)
        \<and> map SchemeId (aic_Capabilities a) = map jc_Scheme (ac_Capabilities c)
        \<and> map Parameters (aic_Capabilities a) = map jc_Params (ac_Capabilities c)
        \<and> map CapabilityId (aic_AuthorizationConstraints a) = map jc_ID (ac_Constraints c)
        \<and> aic_DelegationMode a \<in> {0, 1})
    \<and> cert_NotBefore cert = time_Unix (oc_Iat outer) \<and> cert_NotAfter cert = time_Unix (oc_Exp outer)
    \<and> cert_SerialNumber cert > 0
    \<and> (oc_Jti outer \<noteq> [] \<and> oc_Jti other = oc_Jti outer \<longrightarrow> serialFromJWT C other = cert_SerialNumber cert)"
proof -
  obtain s: "SynthesizeCertFromJWT J P C outer = Inr cert" "jv_roots v \<noteq> []"
      "fst (jw_Validate J token (jwt_options v now None) (jv_nonceStore v)) = None"
    using assms(1)
    by (auto simp: VerifyBearer_def chosen_store_def Let_def split: if_splits prod.splits option.splits sum.splits)
  obtain c der where c: "oc_Aic outer = Some c" "jw_MarshalAIC J (jwtToAIC J P C outer c) = Inr der"
    using s(1) by (auto simp: SynthesizeCertFromJWT_def split: option.splits sum.splits)
  note cert = s(1)[unfolded SynthesizeCertFromJWT_def c option.case sum.case Let_def, simplified, symmetric]
  have p: "ParseAIC P cert = Inr (Some (jwtToAIC J P C outer c))" by (rule assms(2)[OF c(2)]) (simp add: cert)
  have same: "serialFromJWT C other = serialFromJWT C outer" if "oc_Jti outer \<noteq> [] \<and> oc_Jti other = oc_Jti outer"
    using that by (simp add: serialFromJWT_def)
  show ?thesis
    using c(1) p s same
    by (simp add: cert jwt_options_def jwtToAIC_def jwt_capability_of_def modeToInt_def comp_def serial_positive)
qed

section \<open>Witnesses\<close>

text \<open>A token is its own identifier; the claims name alice and one capability. Validation presents no nonce.\<close>

definition example_claims :: "string \<Rightarrow> outer_claims" where
  "example_claims jti = \<lparr>oc_Iss = ''ca'', oc_Sub = ''agent-1'', oc_Jti = jti, oc_Iat = 10, oc_Exp = 20,
     oc_Aic = Some \<lparr>ac_DelegationMode = ''representative'', ac_PrincipalRealm = ''r'', ac_PrincipalID = ''alice'',
       ac_PrincipalKeyHash = [], ac_Capabilities = [\<lparr>jc_Scheme = ''db'', jc_ID = ''read'', jc_Params = []\<rparr>],
       ac_Constraints = []\<rparr>\<rparr>"

definition example_jwt_aic :: aic where
  "example_jwt_aic = \<lparr>aic_Version = 1, aic_AgentId = ''agent-1'',
     aic_PrincipalUid = \<lparr>pu_Realm = ''r'', pu_Identifier = ''alice'', pu_KeyHash = []\<rparr>,
     aic_Capabilities = [\<lparr>SchemeId = ''db'', CapabilityId = ''read'', Parameters = []\<rparr>], aic_DelegationMode = 1,
     aic_AuthorizationConstraints = [],
     aic_DelegationAuthorization = \<lparr>da_Reason = ''JWT_BEARER: aic-jwt bearer authentication'', da_RequestedLifetime = 10,
       da_Timestamp = 0, da_Nonce = ''t1'', da_SignatureAlgorithm = [4], da_SignatureValue = []\<rparr>\<rparr>"

definition example_jwt_env :: jwt_env where
  "example_jwt_env = \<lparr>jw_SPKIHash = (\<lambda>c. Some ''kid''), jw_Validate = (\<lambda>token opts st. (None, st)),
     jw_ParseCompact = Inr, jw_UnmarshalClaims = (\<lambda>pb. Inr (example_claims pb)),
     jw_MarshalAIC = (\<lambda>a. if a = example_jwt_aic then Inr ''der'' else Inl ''unsupported''),
     jw_DecodeRawURL = id, jw_NameString = id, jw_OIDAIC = [9], jw_ModeRepresentative = ''representative''\<rparr>"

definition example_jwt_pki :: pki_ops where
  "example_jwt_pki = example_pki\<lparr>ParseAIC := (\<lambda>c. Inr (Some example_jwt_aic))\<rparr>"

definition example_verifier :: jwt_verifier where
  "example_verifier = the (SetBearerPolicy ''ca'' [] (Some (NewReplayNonceStore 0 0))
     (Some (NewJWTVerifier example_jwt_env [Some example_cert])))"

lemma example_jwt_store: "validate_uses_store example_jwt_env"
  unfolding validate_uses_store_def example_jwt_env_def
  by (auto intro!: exI[of _ "[]"])

lemma example_verifier_store: "jv_nonceStore example_verifier = Some (NewReplayNonceStore 0 0)"
  by (simp add: example_verifier_def SetBearerPolicy_def)

text \<open>The second presentation of the token within the lifetime of its marker is refused.\<close>

theorem bearer_single_use_witness:
  "fst (store_run (bearer_check example_jwt_env example_jwt_pki example_crypto) [(0, ''t1''), (1, ''t1'')] example_verifier)
   = [True, False]"
proof -
  let ?run = "fst (store_run (bearer_check example_jwt_env example_jwt_pki example_crypto) [(0, ''t1''), (1, ''t1'')] example_verifier)"
  have len: "length ?run = 2" by (simp split: prod.splits)
  have first: "?run ! 0" by code_simp
  have "\<not> ?run ! 1"
  proof
    assume "?run ! 1"
    then have "\<exists>k. 0 < k \<and> k \<le> 1 \<and> fst ([(0::int, ''t1''), (1, ''t1'')] ! k) > fst ([(0::int, ''t1''), (1, ''t1'')] ! 0) + 24 * hour"
      using first by (intro bearer_single_use[OF example_jwt_store example_verifier_store]) simp_all
    then show False by (auto simp: le_Suc_eq hour_def minute_def second_def)
  qed
  then show ?thesis using len first by (auto simp: length_Suc_conv numeral_2_eq_2)
qed

theorem replay_store_bounded_witness:
  "replay_CheckAndAdd 5 ''b'' (snd (store_run replay_check [(0, ''a'')] (NewReplayNonceStore 10 1)))
   = (Some (AtCapacity 1), snd (store_run replay_check [(0, ''a'')] (NewReplayNonceStore 10 1)))"
proof -
  let ?s = "snd (store_run replay_check [(0, ''a'')] (NewReplayNonceStore 10 1))"
  have s: "?s = \<lparr>rs_seen = [(''a'', 0)], rs_ttl = 10, rs_max = 1\<rparr>" by code_simp
  show ?thesis
    using replay_store_bounded[of ?s "[(0, ''a'')]" 10 1 5 "''b''", OF refl] unfolding s by simp
qed

theorem bearer_certificate_carries_claims_witness:
  "\<exists>cert st. VerifyBearer example_jwt_env example_jwt_pki example_crypto example_verifier ''t1'' 5 None
       = (Inr (cert, example_claims ''t1''), st)
     \<and> cert_NotAfter cert = time_Unix 20 \<and> cert_SerialNumber cert > 0"
proof -
  have ok: "case fst (VerifyBearer example_jwt_env example_jwt_pki example_crypto example_verifier ''t1'' 5 None) of
      Inl e \<Rightarrow> False | Inr (cert, outer) \<Rightarrow> outer = example_claims ''t1''"
    by code_simp
  then obtain cert st where run: "VerifyBearer example_jwt_env example_jwt_pki example_crypto example_verifier ''t1'' 5 None
       = (Inr (cert, example_claims ''t1''), st)"
    by (cases "VerifyBearer example_jwt_env example_jwt_pki example_crypto example_verifier ''t1'' 5 None")
      (auto split: sum.splits prod.splits)
  have "jw_MarshalAIC example_jwt_env a = Inr der \<Longrightarrow> ParseAIC example_jwt_pki c = Inr (Some a)" for a der c
    by (auto simp: example_jwt_env_def example_jwt_pki_def split: if_splits)
  with bearer_certificate_carries_claims[OF run, of "example_claims ''t1''"] run show ?thesis
    by (auto simp: example_claims_def)
qed

end
