(* ===== verification/Evidence_Records.thy ===== *)
theory Evidence_Records
  imports Audit_Chain Clc
begin

text \<open>
  Evidence records and their envelopes: the admission and outcome records (\<^verbatim>\<open>src/admission_record.go\<close>,
  \<^verbatim>\<open>src/outcome_record.go\<close>), the evidence profiles and the provenance subjects they add
  (\<^verbatim>\<open>src/evidence_profile.go\<close>), signing and verification (\<^verbatim>\<open>src/evidence_signing.go\<close>, \<^verbatim>\<open>src/evidence_key.go\<close>).
  The envelope type, canonical JSON and digests of \<^verbatim>\<open>github.com/varwof/register/semantics\<close>, and the JSON codec
  of the records, are the parameter \<open>evidence_ops\<close>.
\<close>

section \<open>Records, statements and envelopes\<close>

record digest =
  dg_Alg :: string
  dg_Value :: bytes

record admission_fact =
  fct_Type :: string
  fct_Digest :: digest
  fct_Note :: string

record admission_identity =
  ident_Principal :: string
  ident_AgentID :: string
  ident_Serial :: string
  ident_SPIFFEID :: string

record admission_record =
  arec_Ver :: string
  arec_Stage :: string
  arec_Outcome :: string
  arec_Reason :: string
  arec_RecorderID :: string
  arec_At :: instant
  arec_Identity :: admission_identity
  arec_Facts :: "admission_fact list"

record outcome_record =
  orec_Ver :: string
  orec_Outcome :: string
  orec_At :: instant
  orec_DecisionDigest :: string
  orec_OperationID :: string
  orec_RecorderID :: string
  orec_StatusCode :: int
  orec_Note :: string
  orec_Identity :: admission_identity
  orec_Facts :: "admission_fact list"

text \<open>An in-toto statement; the predicate is kept as its JSON text and the digest map of a subject as a list.\<close>

record subject =
  sub_Name :: string
  sub_Digest :: "(string \<times> string) list"

record statement =
  stm_Type :: string
  stm_Subject :: "subject list"
  stm_PredicateType :: string
  stm_Predicate :: bytes

record envelope =
  env_Payload :: bytes
  env_PayloadType :: string
  env_Signatures :: "(string \<times> bytes) list"

text \<open>A requirement of the relying party is known by its identifier here.\<close>

record requirement =
  req_ID :: string

record evidence_profile =
  pf_Name :: string
  pf_Container :: string
  pf_Decision :: bool
  pf_Admission :: bool
  pf_Outcome :: bool
  pf_Sources :: bool
  pf_Freshness :: duration
  pf_Requirement :: "requirement option"

record recorder_descriptor =
  rd_ID :: string
  rd_Kind :: string
  rd_Note :: string

record evidence_ops =
  sx_SHA256 :: string
  sx_StatementInToto :: string
  sx_PayloadInToto :: string
  sx_PredicateCLCDecision :: string
  sx_CanonicalStatement :: "statement \<Rightarrow> string + bytes"
  sx_ParseStatement :: "bytes \<Rightarrow> string + statement"
  sx_Statement :: "envelope \<Rightarrow> string + statement"
  sx_Check :: "envelope \<Rightarrow> string option"
  sx_PAE :: "string \<Rightarrow> bytes \<Rightarrow> bytes"
  sx_Sign :: "string \<Rightarrow> (bytes \<Rightarrow> string + bytes) \<Rightarrow> envelope \<Rightarrow> string + envelope"
  sx_AdmissionJSON :: "admission_record \<Rightarrow> string + bytes"
  sx_ReadAdmission :: "bytes \<Rightarrow> string + admission_record"
  sx_OutcomeJSON :: "outcome_record \<Rightarrow> string + bytes"
  sx_ReadOutcome :: "bytes \<Rightarrow> string + outcome_record"
  sx_DigestAdmission :: "admission_record \<Rightarrow> string + digest"
  sx_DigestOutcome :: "outcome_record \<Rightarrow> string + digest"
  sx_DigestProfile :: "evidence_profile \<Rightarrow> string + digest"
  sx_DigestRecorder :: "recorder_descriptor \<Rightarrow> string + digest"
  sx_ValidateRequirement :: "requirement \<Rightarrow> string option"
  sx_profile_first :: bool

datatype record_error = PayloadTypeMismatch string | JSONError string | WrongStatement string string
  | IncompleteRecord | UnsupportedDigest string | DigestError string | SignError string | CheckFailed string
  | UnknownPredicate string | NoSignatures | EmptySignature | SignatureInvalid string
  | ProfileNameRequired | UnsupportedContainer string | NegativeFreshness | ProfileEmitsNothing
  | RequirementInvalid string | RecorderIDRequired | UnknownProfile string | NilSigningKey | KeyLoadFailed string
  | RecordFailed string | SinkNeedsDirectory | MkdirFailed string | FileWriteFailed string | SinkFailed string | NoOutcomeSink

section \<open>Admission records\<close>

definition AdmissionRecordPredicateType :: string where
  "AdmissionRecordPredicateType = ''https://varwof.com/aic/v1/admission-record''"

definition AdmissionRecordVersion :: string where
  "AdmissionRecordVersion = ''AIC-ADMISSION-RECORD-v1''"

definition EvidenceAdmitted :: string where "EvidenceAdmitted = ''admitted''"
definition EvidenceRefused :: string where "EvidenceRefused = ''refused''"

record evidence_context =
  ec_Facts :: "admission_fact list"
  ec_RecorderID :: string
  ec_OperationID :: string
  ec_Method :: string
  ec_Path :: string
  ec_TraceID :: string
  ec_Principal :: string
  ec_AgentID :: string
  ec_Serial :: string
  ec_Outcome :: string
  ec_At :: instant

text \<open>Of the refusal its stage, the text of its code and its message are used.\<close>

record refusal =
  rfs_Code :: string
  rfs_Stage :: string
  rfs_Message :: string

definition NewAdmissionRecord :: "evidence_context \<Rightarrow> refusal option \<Rightarrow> admission_fact list \<Rightarrow> admission_record" where
  "NewAdmissionRecord ctx err facts =
     \<lparr>arec_Ver = AdmissionRecordVersion,
      arec_Stage = (case err of None \<Rightarrow> ''authenticate'' | Some e \<Rightarrow> if rfs_Stage e = [] then rfs_Code e else rfs_Stage e),
      arec_Outcome = EvidenceRefused,
      arec_Reason = (case err of None \<Rightarrow> [] | Some e \<Rightarrow> rfs_Message e),
      arec_RecorderID = ec_RecorderID ctx,
      arec_At = ec_At ctx,
      arec_Identity = \<lparr>ident_Principal = ec_Principal ctx, ident_AgentID = ec_AgentID ctx, ident_Serial = ec_Serial ctx,
                       ident_SPIFFEID = []\<rparr>,
      arec_Facts = facts\<rparr>"

definition digestKey :: "evidence_ops \<Rightarrow> digest \<Rightarrow> record_error + string" where
  "digestKey X d =
     (if dg_Alg d = sx_SHA256 X then Inr ''sha256''
      else if dg_Alg d = ''sha-384'' then Inr ''sha384''
      else Inl (UnsupportedDigest (dg_Alg d)))"

definition fact_subject :: "evidence_ops \<Rightarrow> admission_fact \<Rightarrow> subject option" where
  "fact_subject X f =
     (case digestKey X (fct_Digest f) of Inl _ \<Rightarrow> None
      | Inr alg \<Rightarrow> Some \<lparr>sub_Name = fct_Type f, sub_Digest = [(alg, EncodeToString (dg_Value (fct_Digest f)))]\<rparr>)"

definition statement_envelope :: "evidence_ops \<Rightarrow> statement \<Rightarrow> record_error + envelope" where
  "statement_envelope X stm =
     (case sx_CanonicalStatement X stm of Inl e \<Rightarrow> Inl (JSONError e) | Inr payload \<Rightarrow>
      Inr \<lparr>env_Payload = payload, env_PayloadType = sx_PayloadInToto X, env_Signatures = []\<rparr>)"

definition NewAdmissionEnvelope :: "evidence_ops \<Rightarrow> admission_record \<Rightarrow> record_error + envelope" where
  "NewAdmissionEnvelope X rec =
     (case sx_AdmissionJSON X rec of Inl e \<Rightarrow> Inl (JSONError e) | Inr pred \<Rightarrow>
      statement_envelope X
       \<lparr>stm_Type = sx_StatementInToto X, stm_Subject = List.map_filter (fact_subject X) (arec_Facts rec),
        stm_PredicateType = AdmissionRecordPredicateType, stm_Predicate = pred\<rparr>)"

definition ParseAdmissionEnvelope :: "evidence_ops \<Rightarrow> envelope \<Rightarrow> record_error + admission_record" where
  "ParseAdmissionEnvelope X env =
     (if env_PayloadType env \<noteq> sx_PayloadInToto X then Inl (PayloadTypeMismatch (env_PayloadType env))
      else case sx_ParseStatement X (env_Payload env) of Inl e \<Rightarrow> Inl (JSONError e) | Inr stm \<Rightarrow>
        if stm_Type stm \<noteq> sx_StatementInToto X \<or> stm_PredicateType stm \<noteq> AdmissionRecordPredicateType
        then Inl (WrongStatement (stm_Type stm) (stm_PredicateType stm))
        else case sx_ReadAdmission X (stm_Predicate stm) of Inl e \<Rightarrow> Inl (JSONError e) | Inr rec \<Rightarrow>
          if arec_Ver rec \<noteq> AdmissionRecordVersion \<or> arec_Stage rec = [] \<or> arec_Outcome rec = []
          then Inl IncompleteRecord else Inr rec)"

record record_ref =
  ref_Digest :: string
  ref_Verdict :: string
  ref_Path :: string

definition admissionRef :: "evidence_ops \<Rightarrow> admission_record \<Rightarrow> record_error + record_ref" where
  "admissionRef X rec =
     (case sx_DigestAdmission X rec of Inl e \<Rightarrow> Inl (DigestError e) | Inr d \<Rightarrow>
      Inr \<lparr>ref_Digest = EncodeToString (dg_Value d), ref_Verdict = arec_Outcome rec, ref_Path = []\<rparr>)"

section \<open>Outcome records\<close>

definition OutcomeRecordPredicateType :: string where
  "OutcomeRecordPredicateType = ''https://varwof.com/aic/v1/outcome-record''"

definition OutcomeRecordVersion :: string where
  "OutcomeRecordVersion = ''AIC-OUTCOME-RECORD-v1''"

definition NewOutcomeEnvelope :: "evidence_ops \<Rightarrow> outcome_record \<Rightarrow> record_error + envelope" where
  "NewOutcomeEnvelope X rec =
     (case sx_OutcomeJSON X rec of Inl e \<Rightarrow> Inl (JSONError e) | Inr pred \<Rightarrow>
      statement_envelope X
       \<lparr>stm_Type = sx_StatementInToto X, stm_Subject = List.map_filter (fact_subject X) (orec_Facts rec),
        stm_PredicateType = OutcomeRecordPredicateType, stm_Predicate = pred\<rparr>)"

definition parsePredicate ::
    "evidence_ops \<Rightarrow> (bytes \<Rightarrow> string + 'r) \<Rightarrow> envelope \<Rightarrow> string \<Rightarrow> record_error + 'r" where
  "parsePredicate X rd env want =
     (if env_PayloadType env \<noteq> sx_PayloadInToto X then Inl (PayloadTypeMismatch (env_PayloadType env))
      else case sx_ParseStatement X (env_Payload env) of Inl e \<Rightarrow> Inl (JSONError e) | Inr stm \<Rightarrow>
        if stm_Type stm \<noteq> sx_StatementInToto X \<or> stm_PredicateType stm \<noteq> want
        then Inl (WrongStatement (stm_Type stm) (stm_PredicateType stm))
        else case rd (stm_Predicate stm) of Inl e \<Rightarrow> Inl (JSONError e) | Inr out \<Rightarrow> Inr out)"

definition ParseOutcomeEnvelope :: "evidence_ops \<Rightarrow> envelope \<Rightarrow> record_error + outcome_record" where
  "ParseOutcomeEnvelope X env =
     (case parsePredicate X (sx_ReadOutcome X) env OutcomeRecordPredicateType of Inl e \<Rightarrow> Inl e | Inr rec \<Rightarrow>
      if orec_Ver rec \<noteq> OutcomeRecordVersion \<or> orec_Outcome rec = [] then Inl IncompleteRecord else Inr rec)"

section \<open>Kinds\<close>

datatype evidence_kind = KindNone | KindDecision | KindAdmission | KindOutcome

definition CheckEvidenceEnvelope :: "evidence_ops \<Rightarrow> envelope \<Rightarrow> evidence_kind \<times> record_error option" where
  "CheckEvidenceEnvelope X env =
     (case sx_Statement X env of Inl e \<Rightarrow> (KindNone, Some (CheckFailed e)) | Inr stm \<Rightarrow>
      if stm_PredicateType stm = sx_PredicateCLCDecision X
      then (KindDecision, map_option CheckFailed (sx_Check X env))
      else if stm_PredicateType stm = AdmissionRecordPredicateType
      then (KindAdmission, case ParseAdmissionEnvelope X env of Inl e \<Rightarrow> Some e | Inr _ \<Rightarrow> None)
      else if stm_PredicateType stm = OutcomeRecordPredicateType
      then (KindOutcome, case ParseOutcomeEnvelope X env of Inl e \<Rightarrow> Some e | Inr _ \<Rightarrow> None)
      else (KindNone, Some (UnknownPredicate (stm_PredicateType stm))))"

section \<open>Profiles\<close>

definition ContainerDSSEInToto :: string where "ContainerDSSEInToto = ''dsse+in-toto''"

definition plain_profile :: "string \<Rightarrow> bool \<Rightarrow> bool \<Rightarrow> evidence_profile" where
  "plain_profile name admission outcome =
     \<lparr>pf_Name = name, pf_Container = ContainerDSSEInToto, pf_Decision = True, pf_Admission = admission,
      pf_Outcome = outcome, pf_Sources = True, pf_Freshness = 0, pf_Requirement = None\<rparr>"

definition builtinProfiles :: "(string \<times> evidence_profile) list" where
  "builtinProfiles =
     [(''clc-decision@1'', plain_profile ''clc-decision@1'' False False),
      (''clc-decision+admission@1'', plain_profile ''clc-decision+admission@1'' True False),
      (''clc-decision+admission+outcome@1'', plain_profile ''clc-decision+admission+outcome@1'' True True)]"

definition LookupEvidenceProfile :: "string \<Rightarrow> record_error + evidence_profile" where
  "LookupEvidenceProfile name =
     (case map_of builtinProfiles name of Some p \<Rightarrow> Inr p | None \<Rightarrow> Inl (UnknownProfile name))"

definition Validate_profile :: "evidence_ops \<Rightarrow> evidence_profile \<Rightarrow> record_error option" where
  "Validate_profile X p =
     (if pf_Name p = [] then Some ProfileNameRequired
      else if pf_Container p \<noteq> [] \<and> pf_Container p \<noteq> ContainerDSSEInToto then Some (UnsupportedContainer (pf_Container p))
      else if pf_Freshness p < 0 then Some NegativeFreshness
      else if \<not> pf_Decision p \<and> \<not> pf_Admission p \<and> \<not> pf_Outcome p then Some ProfileEmitsNothing
      else case pf_Requirement p of None \<Rightarrow> None
           | Some r \<Rightarrow> map_option RequirementInvalid (sx_ValidateRequirement X r))"

definition profile_ID :: "evidence_ops \<Rightarrow> evidence_profile \<Rightarrow> record_error + digest" where
  "profile_ID X p =
     (case Validate_profile X p of Some e \<Rightarrow> Inl e | None \<Rightarrow>
      case sx_DigestProfile X p of Inl e \<Rightarrow> Inl (DigestError e) | Inr d \<Rightarrow> Inr d)"

definition recorder_Digest :: "evidence_ops \<Rightarrow> recorder_descriptor \<Rightarrow> record_error + digest" where
  "recorder_Digest X r =
     (if rd_ID r = [] then Inl RecorderIDRequired
      else case sx_DigestRecorder X r of Inl e \<Rightarrow> Inl (DigestError e) | Inr d \<Rightarrow> Inr d)"

section \<open>Provenance subjects\<close>

definition subjectNameProfile :: string where "subjectNameProfile = ''evidence-profile''"
definition subjectNameRecorder :: string where "subjectNameRecorder = ''evidence-recorder''"

definition profile_tag :: "evidence_ops \<Rightarrow> evidence_profile option \<Rightarrow> record_error + (string \<times> digest) list" where
  "profile_tag X profile =
     (case profile of None \<Rightarrow> Inr [] | Some p \<Rightarrow>
      if pf_Name p = [] then Inr []
      else case profile_ID X p of Inl e \<Rightarrow> Inl e | Inr d \<Rightarrow> Inr [(subjectNameProfile, d)])"

definition recorder_tag :: "evidence_ops \<Rightarrow> recorder_descriptor option \<Rightarrow> record_error + (string \<times> digest) list" where
  "recorder_tag X recorder =
     (case recorder of None \<Rightarrow> Inr [] | Some r \<Rightarrow>
      if rd_ID r = [] then Inr []
      else case recorder_Digest X r of Inl e \<Rightarrow> Inl e | Inr d \<Rightarrow> Inr [(subjectNameRecorder, d)])"

text \<open>A subject of that name is overwritten wherever it occurs, otherwise one is appended.\<close>

definition set_subject :: "string \<Rightarrow> (string \<times> string) list \<Rightarrow> subject list \<Rightarrow> subject list" where
  "set_subject name dig subs =
     (if list_ex (\<lambda>s. sub_Name s = name) subs
      then map (\<lambda>s. if sub_Name s = name then s\<lparr>sub_Digest := dig\<rparr> else s) subs
      else subs @ [\<lparr>sub_Name = name, sub_Digest = dig\<rparr>])"

fun add_subjects :: "evidence_ops \<Rightarrow> (string \<times> digest) list \<Rightarrow> subject list \<Rightarrow> record_error + subject list" where
  "add_subjects X [] subs = Inr subs"
| "add_subjects X ((name, d) # tags) subs =
     (case digestKey X d of Inl e \<Rightarrow> Inl e | Inr alg \<Rightarrow>
      add_subjects X tags (set_subject name [(alg, EncodeToString (dg_Value d))] subs))"

text \<open>The two tags are kept in a Go map, so which of them is added first is left open.\<close>

definition tagEnvelope ::
    "evidence_ops \<Rightarrow> evidence_profile option \<Rightarrow> recorder_descriptor option \<Rightarrow> envelope \<Rightarrow> record_error + envelope" where
  "tagEnvelope X profile recorder env =
     (case profile_tag X profile of Inl e \<Rightarrow> Inl e | Inr pt \<Rightarrow>
      case recorder_tag X recorder of Inl e \<Rightarrow> Inl e | Inr rt \<Rightarrow>
      let add = (if sx_profile_first X then pt @ rt else rt @ pt) in
      if add = [] then Inr env
      else case sx_ParseStatement X (env_Payload env) of Inl e \<Rightarrow> Inl (JSONError e) | Inr stm \<Rightarrow>
        case add_subjects X add (stm_Subject stm) of Inl e \<Rightarrow> Inl e | Inr subs \<Rightarrow>
        case sx_CanonicalStatement X (stm\<lparr>stm_Subject := subs\<rparr>) of Inl e \<Rightarrow> Inl (JSONError e) | Inr payload \<Rightarrow>
        Inr (env\<lparr>env_Payload := payload\<rparr>))"

text \<open>The digest map of a subject holds one entry when the SDK wrote it; of several the first stands for any.\<close>

definition SubjectDigestByName :: "evidence_ops \<Rightarrow> string \<Rightarrow> envelope \<Rightarrow> record_error + digest option" where
  "SubjectDigestByName X name env =
     (case sx_ParseStatement X (env_Payload env) of Inl e \<Rightarrow> Inl (JSONError e) | Inr stm \<Rightarrow>
      case List.find (\<lambda>s. sub_Name s = name \<and> sub_Digest s \<noteq> []) (stm_Subject stm) of
        None \<Rightarrow> Inr None
      | Some s \<Rightarrow>
          (case DecodeString (snd (hd (sub_Digest s))) of
             None \<Rightarrow> Inl (JSONError ''hex'')
           | Some raw \<Rightarrow> Inr (Some \<lparr>dg_Alg = (if fst (hd (sub_Digest s)) = ''sha384'' then ''sha-384'' else sx_SHA256 X),
                                    dg_Value = raw\<rparr>)))"

definition ProfileSubjectDigest :: "evidence_ops \<Rightarrow> envelope \<Rightarrow> record_error + digest option" where
  "ProfileSubjectDigest X env = SubjectDigestByName X subjectNameProfile env"

definition RecorderSubjectDigest :: "evidence_ops \<Rightarrow> envelope \<Rightarrow> record_error + digest option" where
  "RecorderSubjectDigest X env = SubjectDigestByName X subjectNameRecorder env"

section \<open>Keys and signatures\<close>

text \<open>The dynamic type of a Go public key.\<close>

datatype record_key = RKEcdsa bytes | RKRsa bytes | RKEd25519 bytes | RKOther

text \<open>A \<^verbatim>\<open>crypto.Signer\<close>: its public key, and signing of a message as it is or of a SHA-256 digest.\<close>

record record_signer =
  rsn_keyID :: string
  rsn_public :: record_key
  rsn_SignMessage :: "bytes \<Rightarrow> string + bytes"
  rsn_SignDigest :: "bytes \<Rightarrow> string + bytes"

definition NewRecordSigner :: "string \<Rightarrow> record_signer option \<Rightarrow> record_error + record_signer" where
  "NewRecordSigner keyID signer =
     (case signer of None \<Rightarrow> Inl NilSigningKey | Some k \<Rightarrow> Inr (k\<lparr>rsn_keyID := keyID\<rparr>))"

text \<open>\<open>load\<close> is \<^verbatim>\<open>ParsePrivateKeyPEMFile\<close>.\<close>

definition LoadRecordSignerFile ::
    "(string \<Rightarrow> string + record_signer option) \<Rightarrow> string \<Rightarrow> string \<Rightarrow> record_error + record_signer" where
  "LoadRecordSignerFile load path keyID =
     (case load path of Inl e \<Rightarrow> Inl (KeyLoadFailed e) | Inr key \<Rightarrow> NewRecordSigner keyID key)"

definition RecordSigner_Sign :: "crypto_ops \<Rightarrow> record_signer \<Rightarrow> bytes \<Rightarrow> string + bytes" where
  "RecordSigner_Sign C s pae =
     (case rsn_public s of RKEd25519 _ \<Rightarrow> rsn_SignMessage s pae | _ \<Rightarrow> rsn_SignDigest s (Sum256 C pae))"

text \<open>\<open>DERPair\<close> is \<^verbatim>\<open>asn1.Unmarshal\<close> into two integers with nothing left over.\<close>

record verify_ops =
  vx_DERPair :: "bytes \<Rightarrow> (int \<times> int) option"
  vx_EcdsaVerify :: "bytes \<Rightarrow> bytes \<Rightarrow> int \<Rightarrow> int \<Rightarrow> bool"
  vx_Ed25519Verify :: "bytes \<Rightarrow> bytes \<Rightarrow> bytes \<Rightarrow> bool"

definition splitDSSESignature :: "verify_ops \<Rightarrow> bytes \<Rightarrow> (int \<times> int) option" where
  "splitDSSESignature V sig =
     (case vx_DERPair V sig of
        Some (r, s) \<Rightarrow>
          if r > 0 \<and> s > 0 then Some (r, s)
          else if length sig \<ge> 8 \<and> even (length sig)
          then Some (big_endian (take (length sig div 2) sig), big_endian (drop (length sig div 2) sig)) else None
      | None \<Rightarrow>
          if length sig \<ge> 8 \<and> even (length sig)
          then Some (big_endian (take (length sig div 2) sig), big_endian (drop (length sig div 2) sig)) else None)"

definition VerifyFnFromKey ::
    "crypto_ops \<Rightarrow> verify_ops \<Rightarrow> record_key \<Rightarrow> string \<Rightarrow> bytes \<Rightarrow> bytes \<Rightarrow> string option" where
  "VerifyFnFromKey C V pub keyID pae sig =
     (case pub of
        RKEcdsa k \<Rightarrow>
          (case splitDSSESignature V sig of
             None \<Rightarrow> Some ''mismatch''
           | Some (r, s) \<Rightarrow> if vx_EcdsaVerify V k (Sum256 C pae) r s then None else Some ''mismatch'')
      | RKRsa k \<Rightarrow> if RsaVerifyPKCS1v15 C k (Sum256 C pae) sig then None else Some ''mismatch''
      | RKEd25519 k \<Rightarrow> if vx_Ed25519Verify V k pae sig then None else Some ''mismatch''
      | RKOther \<Rightarrow> Some ''unsupported key type'')"

fun verify_signatures ::
    "(string \<Rightarrow> bytes \<Rightarrow> bytes \<Rightarrow> string option) \<Rightarrow> bytes \<Rightarrow> record_error option \<Rightarrow> (string \<times> bytes) list \<Rightarrow> record_error option" where
  "verify_signatures verify pae firstErr [] = firstErr"
| "verify_signatures verify pae firstErr ((keyID, sig) # rest) =
     (if sig = [] then
        verify_signatures verify pae (if firstErr = None then Some EmptySignature else firstErr) rest
      else case verify keyID pae sig of
             None \<Rightarrow> None
           | Some e \<Rightarrow>
               verify_signatures verify pae (if firstErr = None then Some (SignatureInvalid e) else firstErr) rest)"

definition VerifyEvidenceEnvelope ::
    "evidence_ops \<Rightarrow> (string \<Rightarrow> bytes \<Rightarrow> bytes \<Rightarrow> string option) option \<Rightarrow> envelope \<Rightarrow> evidence_kind \<times> record_error option" where
  "VerifyEvidenceEnvelope X verify env =
     (case CheckEvidenceEnvelope X env of
        (kind, Some e) \<Rightarrow> (kind, Some e)
      | (kind, None) \<Rightarrow>
          (case verify of None \<Rightarrow> (kind, None) | Some vf \<Rightarrow>
             if env_Signatures env = [] then (kind, Some NoSignatures)
             else (kind, verify_signatures vf (sx_PAE X (env_PayloadType env) (env_Payload env)) None (env_Signatures env))))"

section \<open>What the parameters promise\<close>

text \<open>JSON text is read back as it was written, an in-toto statement is found in its envelope, \<^verbatim>\<open>Envelope.Sign\<close>
  appends one signature over the pre-authentication encoding, and the three predicate types differ.\<close>

definition sound_ops :: "evidence_ops \<Rightarrow> bool" where
  "sound_ops X \<longleftrightarrow>
     (\<forall>stm b. sx_CanonicalStatement X stm = Inr b \<longrightarrow> sx_ParseStatement X b = Inr stm)
     \<and> (\<forall>env stm. env_PayloadType env = sx_PayloadInToto X \<and> sx_ParseStatement X (env_Payload env) = Inr stm
           \<and> stm_Type stm = sx_StatementInToto X \<longrightarrow> sx_Statement X env = Inr stm)
     \<and> (\<forall>r b. sx_AdmissionJSON X r = Inr b \<longrightarrow> sx_ReadAdmission X b = Inr r)
     \<and> (\<forall>r b. sx_OutcomeJSON X r = Inr b \<longrightarrow> sx_ReadOutcome X b = Inr r)
     \<and> (\<forall>k f env env'. sx_Sign X k f env = Inr env' \<longrightarrow>
           (\<exists>sig. f (sx_PAE X (env_PayloadType env) (env_Payload env)) = Inr sig
              \<and> env' = env\<lparr>env_Signatures := env_Signatures env @ [(k, sig)]\<rparr>))
     \<and> sx_PredicateCLCDecision X \<noteq> AdmissionRecordPredicateType
     \<and> sx_PredicateCLCDecision X \<noteq> OutcomeRecordPredicateType"

lemma sound_opsD:
  assumes "sound_ops X"
  shows "sx_CanonicalStatement X stm = Inr b \<Longrightarrow> sx_ParseStatement X b = Inr stm"
    and "env_PayloadType env = sx_PayloadInToto X \<Longrightarrow> sx_ParseStatement X (env_Payload env) = Inr stm
           \<Longrightarrow> stm_Type stm = sx_StatementInToto X \<Longrightarrow> sx_Statement X env = Inr stm"
    and "sx_AdmissionJSON X ar = Inr b \<Longrightarrow> sx_ReadAdmission X b = Inr ar"
    and "sx_OutcomeJSON X oc = Inr b \<Longrightarrow> sx_ReadOutcome X b = Inr oc"
    and "sx_Sign X k f env = Inr env' \<Longrightarrow> \<exists>sig. f (sx_PAE X (env_PayloadType env) (env_Payload env)) = Inr sig
              \<and> env' = env\<lparr>env_Signatures := env_Signatures env @ [(k, sig)]\<rparr>"
    and "sx_PredicateCLCDecision X \<noteq> AdmissionRecordPredicateType" "sx_PredicateCLCDecision X \<noteq> OutcomeRecordPredicateType"
  using assms unfolding sound_ops_def by blast+

lemma predicate_types_differ [simp]: "AdmissionRecordPredicateType \<noteq> OutcomeRecordPredicateType"
  "OutcomeRecordPredicateType \<noteq> AdmissionRecordPredicateType"
  by (simp_all add: AdmissionRecordPredicateType_def OutcomeRecordPredicateType_def)

section \<open>Subjects\<close>

definition named_subject :: "string \<Rightarrow> subject list \<Rightarrow> subject option" where
  "named_subject name subs = List.find (\<lambda>s. sub_Name s = name \<and> sub_Digest s \<noteq> []) subs"

lemma named_set_subject:
  assumes "dig \<noteq> []"
  shows "map_option sub_Digest (named_subject name (set_subject name dig subs)) = Some dig"
proof (cases "list_ex (\<lambda>s. sub_Name s = name) subs")
  case True
  then have "map_option sub_Digest (List.find (\<lambda>s. sub_Name s = name \<and> sub_Digest s \<noteq> [])
      (map (\<lambda>s. if sub_Name s = name then s\<lparr>sub_Digest := dig\<rparr> else s) subs)) = Some dig"
    by (induction subs) (auto simp: assms)
  then show ?thesis using True by (simp add: named_subject_def set_subject_def)
next
  case False
  then have "List.find (\<lambda>s. sub_Name s = name \<and> sub_Digest s \<noteq> []) (subs @ [\<lparr>sub_Name = name, sub_Digest = dig\<rparr>])
      = Some \<lparr>sub_Name = name, sub_Digest = dig\<rparr>"
    by (induction subs) (auto simp: assms)
  then show ?thesis using False by (simp add: named_subject_def set_subject_def)
qed

lemma named_set_subject_other:
  assumes "name \<noteq> other"
  shows "named_subject name (set_subject other dig subs) = named_subject name subs"
proof -
  have "List.find (\<lambda>s. sub_Name s = name \<and> sub_Digest s \<noteq> []) (map (\<lambda>s. if sub_Name s = other then s\<lparr>sub_Digest := dig\<rparr> else s) subs)
      = List.find (\<lambda>s. sub_Name s = name \<and> sub_Digest s \<noteq> []) subs"
    using assms by (induction subs) auto
  moreover have "List.find (\<lambda>s. sub_Name s = name \<and> sub_Digest s \<noteq> []) (subs @ [\<lparr>sub_Name = other, sub_Digest = dig\<rparr>])
      = List.find (\<lambda>s. sub_Name s = name \<and> sub_Digest s \<noteq> []) subs"
    using assms by (induction subs) auto
  ultimately show ?thesis by (simp add: named_subject_def set_subject_def)
qed

lemma add_subjects_named:
  assumes "add_subjects X tags subs = Inr subs'" "distinct (map fst tags)"
  shows "case map_of tags name of
           None \<Rightarrow> named_subject name subs' = named_subject name subs
         | Some d \<Rightarrow> (\<exists>alg. digestKey X d = Inr alg
             \<and> map_option sub_Digest (named_subject name subs') = Some [(alg, EncodeToString (dg_Value d))])"
  using assms
proof (induction X tags subs rule: add_subjects.induct)
  case (2 X n d tags subs)
  then obtain alg where alg: "digestKey X d = Inr alg"
    "add_subjects X tags (set_subject n [(alg, EncodeToString (dg_Value d))] subs) = Inr subs'" by auto
  note IH = 2(1)[OF alg] 
  show ?case
  proof (cases "name = n")
    case True
    then have "map_of tags name = None" using 2(3) by (simp add: map_of_eq_None_iff)
    then show ?thesis using IH 2(3) True alg(1) named_set_subject[of "[(alg, EncodeToString (dg_Value d))]" n subs] by simp
  next
    case False
    then show ?thesis using IH 2(3) named_set_subject_other[OF False] by (cases "map_of tags name") simp_all
  qed
qed simp

lemma digestKey_back:
  "digestKey X d = Inr alg \<Longrightarrow> \<lparr>dg_Alg = (if alg = ''sha384'' then ''sha-384'' else sx_SHA256 X), dg_Value = dg_Value d\<rparr> = d"
  by (cases d) (auto simp: digestKey_def split: if_splits)

text \<open>Reading a tag back.\<close>

lemma SubjectDigestByName_named:
  assumes "sx_ParseStatement X (env_Payload env) = Inr stm" "digestKey X d = Inr alg"
    and "map_option sub_Digest (named_subject name (stm_Subject stm)) = Some [(alg, EncodeToString (dg_Value d))]"
  shows "SubjectDigestByName X name env = Inr (Some d)"
  using assms digestKey_back[OF assms(2)]
  by (auto simp: SubjectDigestByName_def named_subject_def Decode_Encode)

text \<open>What tagging does to an envelope: the statement keeps its type and predicate, and carries the digests of the
  profile and of the recorder.\<close>

lemma tagEnvelope_statement:
  assumes "sound_ops X" "tagEnvelope X profile recorder env = Inr env'" "sx_ParseStatement X (env_Payload env) = Inr stm"
  shows "env_PayloadType env' = env_PayloadType env" and "env_Signatures env' = env_Signatures env"
    and "\<exists>subs. sx_ParseStatement X (env_Payload env') = Inr (stm\<lparr>stm_Subject := subs\<rparr>)"
    and "profile = Some p \<Longrightarrow> pf_Name p \<noteq> [] \<Longrightarrow> \<exists>d. profile_ID X p = Inr d \<and> ProfileSubjectDigest X env' = Inr (Some d)"
    and "recorder = Some r \<Longrightarrow> rd_ID r \<noteq> [] \<Longrightarrow> \<exists>d. recorder_Digest X r = Inr d \<and> RecorderSubjectDigest X env' = Inr (Some d)"
proof -
  from assms(2) obtain pt rt where t: "profile_tag X profile = Inr pt" "recorder_tag X recorder = Inr rt"
    unfolding tagEnvelope_def by (auto split: sum.splits)
  define add where "add = (if sx_profile_first X then pt @ rt else rt @ pt)"
  have ne: "subjectNameProfile \<noteq> subjectNameRecorder" by (simp add: subjectNameProfile_def subjectNameRecorder_def)
  have names: "fst ` set pt \<subseteq> {subjectNameProfile}" "fst ` set rt \<subseteq> {subjectNameRecorder}" "distinct (map fst pt)" "distinct (map fst rt)"
    using t by (auto simp: profile_tag_def recorder_tag_def split: option.splits if_splits sum.splits)
  have "{subjectNameProfile} \<inter> {subjectNameRecorder} = {}" using ne by simp
  then have "fst ` set pt \<inter> fst ` set rt = {}" using Int_mono[OF names(1,2)] by (simp only: subset_empty)
  then have dist: "distinct (map fst add)" using names(3,4) by (simp add: add_def Int_commute)
  have step: "env' = env \<and> add = [] \<or> (\<exists>subs. add_subjects X add (stm_Subject stm) = Inr subs
      \<and> sx_ParseStatement X (env_Payload env') = Inr (stm\<lparr>stm_Subject := subs\<rparr>) \<and> env' = env\<lparr>env_Payload := env_Payload env'\<rparr>)"
    using assms(2,3) t sound_opsD(1)[OF assms(1)]
    by (auto simp: tagEnvelope_def add_def[symmetric] Let_def split: if_splits)
  show "env_PayloadType env' = env_PayloadType env" "env_Signatures env' = env_Signatures env"
    using step by (metis envelope.select_convs envelope.surjective envelope.update_convs(1))+
  show "\<exists>subs. sx_ParseStatement X (env_Payload env') = Inr (stm\<lparr>stm_Subject := subs\<rparr>)"
    using step assms(3) by (metis statement.surjective statement.update_convs(2))
  have tagged: "SubjectDigestByName X name env' = Inr (Some d)" if "map_of add name = Some d" for name d
  proof -
    from step that obtain subs where subs: "add_subjects X add (stm_Subject stm) = Inr subs"
      "sx_ParseStatement X (env_Payload env') = Inr (stm\<lparr>stm_Subject := subs\<rparr>)" by auto
    show ?thesis
      using add_subjects_named[OF subs(1) dist, of name] that subs(2)
      by (auto intro: SubjectDigestByName_named)
  qed
  have tag: "SubjectDigestByName X name env' = Inr (Some d)" if "(name, d) \<in> set pt \<union> set rt" for name d
    by (rule tagged, rule map_of_is_SomeI[OF dist]) (use that in \<open>auto simp: add_def\<close>)
  show "\<exists>d. profile_ID X p = Inr d \<and> ProfileSubjectDigest X env' = Inr (Some d)" if "profile = Some p" "pf_Name p \<noteq> []"
    using t(1) that tag by (auto simp: profile_tag_def ProfileSubjectDigest_def)
  show "\<exists>d. recorder_Digest X r = Inr d \<and> RecorderSubjectDigest X env' = Inr (Some d)" if "recorder = Some r" "rd_ID r \<noteq> []"
    using t(2) that tag by (auto simp: recorder_tag_def RecorderSubjectDigest_def)
qed

section \<open>Verification\<close>

lemma verify_signatures_None:
  "verify_signatures vf pae firstErr sigs = None
   \<longleftrightarrow> (\<exists>(k, sig) \<in> set sigs. sig \<noteq> [] \<and> vf k pae sig = None) \<or> (firstErr = None \<and> sigs = [])"
  by (induction vf pae firstErr sigs rule: verify_signatures.induct) (auto split: option.splits)

lemma verify_envelope_iff:
  "VerifyEvidenceEnvelope X (Some vf) env = (kind, None)
     \<longleftrightarrow> CheckEvidenceEnvelope X env = (kind, None)
       \<and> (\<exists>(k, sig) \<in> set (env_Signatures env). sig \<noteq> []
            \<and> vf k (sx_PAE X (env_PayloadType env) (env_Payload env)) sig = None)"
  by (auto simp: VerifyEvidenceEnvelope_def verify_signatures_None split: prod.splits option.splits)

end
