(* ===== verification/Evidence_Sink.thy ===== *)
theory Evidence_Sink
  imports Evidence_Records Admission
begin

text \<open>
  Emission of evidence (\<^verbatim>\<open>src/evidence_sink.go\<close>): the configuration, the two built-in sinks, the freezing of one
  decision record per operation and authority source, the record of a refusal, outcome reports
  (\<^verbatim>\<open>src/outcome_record.go\<close> and \<^verbatim>\<open>reportObservedOutcome\<close> in \<^verbatim>\<open>src/server.go\<close>), and the verification of a directory of
  records (\<^verbatim>\<open>src/evidence_verify.go\<close>). The files written, the records handed to other sinks, the reported errors
  and the gap counter are an explicit state.
\<close>

section \<open>Configuration\<close>

record decision_record =
  dr_Verdict :: string
  dr_Reason :: string
  dr_InputDigest :: digest
  dr_Unresolved :: "string list"

datatype evidence_artifact = DecisionArtifact decision_record | AdmissionArtifact admission_record
  | OutcomeArtifact outcome_record

text \<open>A sink of the deployment is a function; the flag tells whether it takes outcome records.\<close>

datatype evidence_sink = SlogSink | FileSink string string
  | CustomSink bool "evidence_context \<Rightarrow> evidence_artifact \<Rightarrow> envelope \<Rightarrow> string + record_ref"

record evidence_config =
  evc_Sink :: "evidence_sink option"
  evc_Strict :: bool
  evc_TTL :: duration
  evc_RecorderID :: string
  evc_OnError :: bool
  evc_Gaps :: bool
  evc_Sign :: "(bytes \<Rightarrow> string + bytes) option"
  evc_KeyID :: string
  evc_Signer :: "record_signer option"
  evc_SignKeyFile :: string
  evc_RequireSignature :: bool
  evc_EmitOutcome :: bool
  evc_Requirement :: "requirement option"
  evc_Profile :: "evidence_profile option"
  evc_Recorder :: "recorder_descriptor option"
  evc_profileNoDecision :: bool

definition zero_evidence_config :: evidence_config where
  "zero_evidence_config =
     \<lparr>evc_Sink = None, evc_Strict = False, evc_TTL = 0, evc_RecorderID = [], evc_OnError = False, evc_Gaps = False,
      evc_Sign = None, evc_KeyID = [], evc_Signer = None, evc_SignKeyFile = [], evc_RequireSignature = False,
      evc_EmitOutcome = False, evc_Requirement = None, evc_Profile = None, evc_Recorder = None,
      evc_profileNoDecision = False\<rparr>"

record record_options =
  ro_Nonce :: string
  ro_At :: instant
  ro_MaxAgeSec :: int
  ro_Sources :: "source_ref list option"
  ro_Requirement :: "requirement option"

text \<open>The language's record and envelope constructors, the JSON form of an envelope, path joining, the failures of
  the file system, the random nonce of this call and the clock.\<close>

record sink_ops =
  sk_ops :: evidence_ops
  sk_crypto :: crypto_ops
  sk_RecordWith :: "grant list \<Rightarrow> operation \<Rightarrow> record_options \<Rightarrow> string + decision_record"
  sk_NewEnvelope :: "decision_record \<Rightarrow> string + envelope"
  sk_DecisionRecord :: "envelope \<Rightarrow> string + decision_record"
  sk_VerifyRecord :: "decision_record \<Rightarrow> string option"
  sk_EnvelopeJSON :: "envelope \<Rightarrow> string + bytes"
  sk_ReadEnvelope :: "bytes \<Rightarrow> string + envelope"
  sk_Join :: "string \<Rightarrow> string \<Rightarrow> string"
  sk_MkdirFails :: "string \<Rightarrow> bool"
  sk_WriteFails :: "string \<Rightarrow> bool"
  sk_nonce :: string
  sk_now :: instant

record evidence_world =
  ew_files :: "(string \<times> bytes) list"
  ew_handed :: "(evidence_context \<times> evidence_artifact \<times> envelope) list"
  ew_errors :: "(evidence_context \<times> record_error) list"
  ew_gaps :: int

definition signingKey :: "crypto_ops \<Rightarrow> evidence_config option \<Rightarrow> (string \<times> (bytes \<Rightarrow> string + bytes)) option" where
  "signingKey C cfg =
     (case cfg of None \<Rightarrow> None | Some c \<Rightarrow>
      case evc_Signer c of Some s \<Rightarrow> Some (rsn_keyID s, RecordSigner_Sign C s) | None \<Rightarrow>
      case evc_Sign c of Some f \<Rightarrow> Some (evc_KeyID c, f) | None \<Rightarrow> None)"

definition resolveSigner ::
    "(string \<Rightarrow> string + record_signer option) \<Rightarrow> evidence_config option \<Rightarrow> record_error + evidence_config option" where
  "resolveSigner load cfg =
     (case cfg of None \<Rightarrow> Inr None | Some c \<Rightarrow>
      if evc_Signer c \<noteq> None \<or> evc_Sign c \<noteq> None \<or> evc_SignKeyFile c = [] then Inr cfg
      else case LoadRecordSignerFile load (evc_SignKeyFile c) (evc_KeyID c) of
             Inl e \<Rightarrow> Inl e
           | Inr s \<Rightarrow> Inr (Some (c\<lparr>evc_Signer := Some s\<rparr>)))"

definition Apply_profile :: "evidence_ops \<Rightarrow> evidence_profile \<Rightarrow> evidence_config option \<Rightarrow> record_error + evidence_config" where
  "Apply_profile X p cfg =
     (case Validate_profile X p of Some e \<Rightarrow> Inl e | None \<Rightarrow>
      let c = (case cfg of None \<Rightarrow> zero_evidence_config | Some c \<Rightarrow> c) in
      if \<not> pf_Decision p then Inr (c\<lparr>evc_profileNoDecision := True, evc_EmitOutcome := pf_Outcome p\<rparr>)
      else Inr (c\<lparr>evc_Profile := Some p, evc_TTL := pf_Freshness p, evc_EmitOutcome := pf_Outcome p,
                  evc_Requirement := (if pf_Requirement p \<noteq> None then pf_Requirement p else evc_Requirement c)\<rparr>))"

definition recorder_of :: "evidence_config option \<Rightarrow> recorder_descriptor option" where
  "recorder_of cfg =
     (case cfg of None \<Rightarrow> None | Some c \<Rightarrow>
      case evc_Recorder c of Some r \<Rightarrow> Some r | None \<Rightarrow>
      if evc_RecorderID c \<noteq> [] then Some \<lparr>rd_ID = evc_RecorderID c, rd_Kind = ''aic-verifier'', rd_Note = []\<rparr> else None)"

definition signEnvelope :: "evidence_ops \<Rightarrow> crypto_ops \<Rightarrow> evidence_config option \<Rightarrow> envelope \<Rightarrow> record_error + envelope" where
  "signEnvelope X C cfg env =
     (case signingKey C cfg of None \<Rightarrow> Inr env | Some (keyID, key) \<Rightarrow>
      case sx_Sign X keyID key env of Inl e \<Rightarrow> Inl (SignError e) | Inr env' \<Rightarrow> Inr env')"

definition count_gap :: "evidence_config \<Rightarrow> evidence_world \<Rightarrow> evidence_world" where
  "count_gap c w = (if evc_Gaps c then w\<lparr>ew_gaps := ew_gaps w + 1\<rparr> else w)"

section \<open>Sinks\<close>

text \<open>The reference and the file name of an artifact; the payload kinds are told apart by a prefix.\<close>

definition artifact_ref :: "evidence_ops \<Rightarrow> evidence_artifact \<Rightarrow> record_error + record_ref" where
  "artifact_ref X a =
     (case a of
        DecisionArtifact r \<Rightarrow>
          Inr \<lparr>ref_Digest = EncodeToString (dg_Value (dr_InputDigest r)), ref_Verdict = dr_Verdict r, ref_Path = []\<rparr>
      | AdmissionArtifact r \<Rightarrow> admissionRef X r
      | OutcomeArtifact r \<Rightarrow>
          (case sx_DigestOutcome X r of Inl e \<Rightarrow> Inl (DigestError e) | Inr d \<Rightarrow>
           Inr \<lparr>ref_Digest = EncodeToString (dg_Value d), ref_Verdict = orec_Outcome r, ref_Path = []\<rparr>))"

definition kind_marker :: "evidence_artifact \<Rightarrow> string" where
  "kind_marker a = (case a of DecisionArtifact _ \<Rightarrow> [] | AdmissionArtifact _ \<Rightarrow> ''admission-'' | OutcomeArtifact _ \<Rightarrow> ''outcome-'')"

definition file_name :: "string \<Rightarrow> evidence_artifact \<Rightarrow> record_ref \<Rightarrow> string" where
  "file_name recorderID a ref =
     (if recorderID \<noteq> [] then recorderID @ ''-'' else []) @ kind_marker a @ ref_Digest ref @ ''.json''"

definition write_file :: "string \<Rightarrow> bytes \<Rightarrow> (string \<times> bytes) list \<Rightarrow> (string \<times> bytes) list" where
  "write_file path data files = filter (\<lambda>(p, _). p \<noteq> path) files @ [(path, data)]"

text \<open>The structured log falls back to an empty digest for an outcome that has none.\<close>

definition slog_emit :: "evidence_ops \<Rightarrow> evidence_artifact \<Rightarrow> record_error + record_ref" where
  "slog_emit X a =
     (case a of
        OutcomeArtifact r \<Rightarrow>
          (case artifact_ref X a of Inr ref \<Rightarrow> Inr ref
           | Inl _ \<Rightarrow> Inr \<lparr>ref_Digest = [], ref_Verdict = orec_Outcome r, ref_Path = []\<rparr>)
      | _ \<Rightarrow> artifact_ref X a)"

definition file_emit ::
    "sink_ops \<Rightarrow> string \<Rightarrow> string \<Rightarrow> evidence_artifact \<Rightarrow> envelope \<Rightarrow> evidence_world
     \<Rightarrow> (record_error + record_ref) \<times> evidence_world" where
  "file_emit K dir recorderID a env w =
     (if dir = [] then (Inl SinkNeedsDirectory, w)
      else case sk_EnvelopeJSON K env of Inl e \<Rightarrow> (Inl (JSONError e), w) | Inr body \<Rightarrow>
        case artifact_ref (sk_ops K) a of Inl e \<Rightarrow> (Inl e, w) | Inr ref \<Rightarrow>
        if sk_MkdirFails K dir then (Inl (MkdirFailed dir), w)
        else let path = sk_Join K dir (file_name recorderID a ref) in
          if sk_WriteFails K path then (Inl (FileWriteFailed path), w)
          else (Inr (ref\<lparr>ref_Path := path\<rparr>), w\<lparr>ew_files := write_file path (body @ [CHR 0x0A]) (ew_files w)\<rparr>))"

definition sink_emit ::
    "sink_ops \<Rightarrow> evidence_sink option \<Rightarrow> evidence_context \<Rightarrow> evidence_artifact \<Rightarrow> envelope \<Rightarrow> evidence_world
     \<Rightarrow> (record_error + record_ref) \<times> evidence_world" where
  "sink_emit K sink ctx a env w =
     (case sink of
        Some (FileSink dir recorderID) \<Rightarrow> file_emit K dir recorderID a env w
      | Some (CustomSink _ f) \<Rightarrow>
          ((case f ctx a env of Inl e \<Rightarrow> Inl (SinkFailed e) | Inr ref \<Rightarrow> Inr ref),
           w\<lparr>ew_handed := ew_handed w @ [(ctx, a, env)]\<rparr>)
      | _ \<Rightarrow> (slog_emit (sk_ops K) a, w\<lparr>ew_handed := ew_handed w @ [(ctx, a, env)]\<rparr>))"

section \<open>Decision records\<close>

definition seal_envelope :: "sink_ops \<Rightarrow> evidence_config option \<Rightarrow> envelope \<Rightarrow> record_error + envelope" where
  "seal_envelope K cfg env =
     (case tagEnvelope (sk_ops K) (case cfg of None \<Rightarrow> None | Some c \<Rightarrow> evc_Profile c) (recorder_of cfg) env of
        Inl e \<Rightarrow> Inl e
      | Inr env' \<Rightarrow> signEnvelope (sk_ops K) (sk_crypto K) cfg env')"

definition decision_envelope ::
    "sink_ops \<Rightarrow> evidence_config \<Rightarrow> grant list \<Rightarrow> operation \<Rightarrow> record_options \<Rightarrow> record_error + decision_record \<times> envelope" where
  "decision_envelope K c grants op opts =
     (case sk_RecordWith K grants op opts of Inl e \<Rightarrow> Inl (RecordFailed e) | Inr rec \<Rightarrow>
      case sk_NewEnvelope K rec of Inl e \<Rightarrow> Inl (RecordFailed e) | Inr env \<Rightarrow>
      case seal_envelope K (Some c) env of Inl e \<Rightarrow> Inl e | Inr env' \<Rightarrow> Inr (rec, env'))"

definition operation_context :: "evidence_context \<Rightarrow> operation_decision \<Rightarrow> evidence_context" where
  "operation_context base od =
     base\<lparr>ec_OperationID := od_ID od,
          ec_Outcome := (if ec_Outcome base = [] then (if od_Verdict od = VerdictDeny then EvidenceRefused else EvidenceAdmitted)
                         else ec_Outcome base)\<rparr>"

text \<open>The nested loops over operations and sources, flattened; an error ends them and leaves the references so far.\<close>

fun emit_loop ::
    "sink_ops \<Rightarrow> evidence_config \<Rightarrow> evidence_context \<Rightarrow> record_options \<Rightarrow> (operation_decision \<times> string \<times> grant list) list
     \<Rightarrow> record_ref list \<Rightarrow> evidence_world \<Rightarrow> record_ref list \<times> record_error option \<times> evidence_world" where
  "emit_loop K c base opts [] refs w = (refs, None, w)"
| "emit_loop K c base opts ((od, name, grants) # rest) refs w =
     (case decision_envelope K c grants \<lparr>op_ID = od_ID od, op_Params = od_Params od\<rparr> opts of
        Inl e \<Rightarrow> (refs, Some e, w)
      | Inr (rec, env) \<Rightarrow>
          (case sink_emit K (evc_Sink c) (operation_context base od) (DecisionArtifact rec) env w of
             (Inl e, w') \<Rightarrow> (refs, Some e, w')
           | (Inr ref, w') \<Rightarrow> emit_loop K c base opts rest (refs @ [ref]) w'))"

definition record_options_of :: "sink_ops \<Rightarrow> evidence_config \<Rightarrow> source_ref list option \<Rightarrow> record_options" where
  "record_options_of K c sources =
     \<lparr>ro_Nonce = sk_nonce K, ro_At = (if evc_TTL c > 0 then sk_now K else 0),
      ro_MaxAgeSec = (if evc_TTL c > 0 then evc_TTL c div second else 0), ro_Sources = sources,
      ro_Requirement = evc_Requirement c\<rparr>"

definition EmitDecisionRecords ::
    "admission_env \<Rightarrow> sink_ops \<Rightarrow> evidence_config option \<Rightarrow> evidence_context \<Rightarrow> certificate option \<Rightarrow> aic option
     \<Rightarrow> principal_authorization option \<Rightarrow> certificate option \<Rightarrow> operation_decision list \<Rightarrow> evidence_world
     \<Rightarrow> record_ref list \<times> record_error option \<times> evidence_world" where
  "EmitDecisionRecords A K cfg sinkCtx cert aic_opt pa_opt userCert ops w =
     (case cfg of None \<Rightarrow> ([], None, w) | Some c \<Rightarrow>
      if ops = [] \<or> evc_profileNoDecision c then ([], None, w)
      else let recorders = evidenceRecorders (ae_pki A) (ae_clc A) aic_opt pa_opt in
        if recorders = [] then ([], None, w)
        else let sources = (case BuildSourceChain A cert aic_opt userCert of Inl _ \<Rightarrow> None | Inr ch \<Rightarrow> Some ch);
                 base = sinkCtx\<lparr>ec_At := (if IsZero (ec_At sinkCtx) then sk_now K else ec_At sinkCtx),
                                ec_RecorderID := (if ec_RecorderID sinkCtx = [] then evc_RecorderID c else ec_RecorderID sinkCtx)\<rparr>
             in emit_loop K c base (record_options_of K c sources)
                  (concat (map (\<lambda>od. map (\<lambda>(name, gs). (od, name, gs)) recorders) ops)) [] w)"

definition EmitOperationEvidence ::
    "admission_env \<Rightarrow> sink_ops \<Rightarrow> evidence_config option \<Rightarrow> evidence_context \<Rightarrow> certificate option \<Rightarrow> aic option
     \<Rightarrow> operation_decision \<Rightarrow> evidence_world \<Rightarrow> record_ref list \<times> record_error option \<times> evidence_world" where
  "EmitOperationEvidence A K cfg ctx cert aic_opt op w = EmitDecisionRecords A K cfg ctx cert aic_opt None None [op] w"

section \<open>Refusals and outcomes\<close>

definition note_gap :: "evidence_config \<Rightarrow> evidence_context \<Rightarrow> record_error \<Rightarrow> evidence_world \<Rightarrow> evidence_world" where
  "note_gap c ctx e w =
     count_gap c (if evc_OnError c then w\<lparr>ew_errors := ew_errors w @ [(ctx, e)]\<rparr> else w)"

definition recordRefusal ::
    "sink_ops \<Rightarrow> evidence_config \<Rightarrow> evidence_context \<Rightarrow> refusal option \<Rightarrow> evidence_world \<Rightarrow> record_ref list \<times> evidence_world" where
  "recordRefusal K c ctx err w =
     (let rec = NewAdmissionRecord ctx err (ec_Facts ctx) in
      case NewAdmissionEnvelope (sk_ops K) rec of Inl e \<Rightarrow> ([], note_gap c ctx e w) | Inr env0 \<Rightarrow>
      case seal_envelope K (Some c) env0 of Inl e \<Rightarrow> ([], note_gap c ctx e w) | Inr env \<Rightarrow>
      case sink_emit K (evc_Sink c) ctx (AdmissionArtifact rec) env w of
        (Inl e, w') \<Rightarrow> ([], note_gap c ctx e w')
      | (Inr ref, w') \<Rightarrow> ([ref], w'))"

definition complete_outcome :: "sink_ops \<Rightarrow> evidence_context \<Rightarrow> outcome_record \<Rightarrow> outcome_record" where
  "complete_outcome K ctx rec =
     rec\<lparr>orec_Ver := (if orec_Ver rec = [] then OutcomeRecordVersion else orec_Ver rec),
         orec_At := (if \<not> IsZero (orec_At rec) then orec_At rec else if \<not> IsZero (ec_At ctx) then ec_At ctx else sk_now K),
         orec_RecorderID := (if orec_RecorderID rec = [] then ec_RecorderID ctx else orec_RecorderID rec)\<rparr>"

text \<open>The sink handed to \<^verbatim>\<open>ReportOutcome\<close> is an \<^verbatim>\<open>OutcomeSink\<close>; the built-in ones are.\<close>

definition ReportOutcome ::
    "sink_ops \<Rightarrow> evidence_sink option \<Rightarrow> evidence_config option \<Rightarrow> evidence_context \<Rightarrow> outcome_record \<Rightarrow> evidence_world
     \<Rightarrow> (record_error + record_ref) \<times> evidence_world" where
  "ReportOutcome K sink cfg ctx rec0 w =
     (case sink of None \<Rightarrow> (Inl NoOutcomeSink, w) | Some s \<Rightarrow>
      let rec = complete_outcome K ctx rec0 in
      case NewOutcomeEnvelope (sk_ops K) rec of Inl e \<Rightarrow> (Inl e, w) | Inr env0 \<Rightarrow>
      case seal_envelope K cfg env0 of Inl e \<Rightarrow> (Inl e, w) | Inr env \<Rightarrow>
      case sink_emit K (Some s) ctx (OutcomeArtifact rec) env w of
        (Inl e, w') \<Rightarrow> (Inl e, w')
      | (Inr ref, w') \<Rightarrow> (Inr (ref\<lparr>ref_Verdict := (if ref_Verdict ref = [] then orec_Outcome rec else ref_Verdict ref)\<rparr>), w'))"

section \<open>Verifying a directory\<close>

record verify_report =
  vr_Total :: nat
  vr_Decision :: nat
  vr_Admission :: nat
  vr_Outcome :: nat
  vr_OrphanOutcome :: nat
  vr_Failures :: "(string \<times> record_error) list"

definition loadEvidenceEnvelope :: "sink_ops \<Rightarrow> (string + bytes) \<Rightarrow> record_error + envelope" where
  "loadEvidenceEnvelope K file =
     (case file of Inl e \<Rightarrow> Inl (JSONError e) | Inr data \<Rightarrow>
      case sk_ReadEnvelope K data of Inl e \<Rightarrow> Inl (JSONError e) | Inr env \<Rightarrow> Inr env)"

text \<open>\<open>file\<close> is what reading the path yields; the envelope and the record are both checked.\<close>

definition LoadEvidenceRecord :: "sink_ops \<Rightarrow> (string + bytes) \<Rightarrow> record_error + decision_record" where
  "LoadEvidenceRecord K file =
     (case loadEvidenceEnvelope K file of Inl e \<Rightarrow> Inl e | Inr env \<Rightarrow>
      case sx_Check (sk_ops K) env of Some e \<Rightarrow> Inl (CheckFailed e) | None \<Rightarrow>
      case sk_DecisionRecord K env of Inl e \<Rightarrow> Inl (RecordFailed e) | Inr rec \<Rightarrow>
      case sk_VerifyRecord K rec of Some e \<Rightarrow> Inl (RecordFailed e) | None \<Rightarrow> Inr rec)"

text \<open>The first pass over the entries: their name, whether they are a directory, and what reading them yields.\<close>

fun classify_entries ::
    "sink_ops \<Rightarrow> (string \<Rightarrow> bytes \<Rightarrow> bytes \<Rightarrow> string option) option \<Rightarrow> string \<Rightarrow> (string \<times> bool \<times> (string + bytes)) list
     \<Rightarrow> verify_report \<times> string list \<times> (string \<times> envelope) list
     \<Rightarrow> verify_report \<times> string list \<times> (string \<times> envelope) list" where
  "classify_entries K verify dir [] acc = acc"
| "classify_entries K verify dir ((name, is_dir, file) # rest) acc =
     (if is_dir \<or> \<not> HasSuffix name ''.json'' then classify_entries K verify dir rest acc
      else let path = sk_Join K dir name in
        case acc of (rep, decisions, outcomes) \<Rightarrow>
        classify_entries K verify dir rest
          (case loadEvidenceEnvelope K file of
             Inl e \<Rightarrow> (rep\<lparr>vr_Failures := vr_Failures rep @ [(path, e)]\<rparr>, decisions, outcomes)
           | Inr env \<Rightarrow>
               (case VerifyEvidenceEnvelope (sk_ops K) verify env of
                  (_, Some e) \<Rightarrow> (rep\<lparr>vr_Failures := vr_Failures rep @ [(path, e)]\<rparr>, decisions, outcomes)
                | (KindDecision, None) \<Rightarrow>
                    (case sk_DecisionRecord K env of
                       Inl e \<Rightarrow> (rep\<lparr>vr_Failures := vr_Failures rep @ [(path, RecordFailed e)]\<rparr>, decisions, outcomes)
                     | Inr rec \<Rightarrow> (rep\<lparr>vr_Decision := Suc (vr_Decision rep), vr_Total := Suc (vr_Total rep)\<rparr>,
                                   decisions @ [EncodeToString (dg_Value (dr_InputDigest rec))], outcomes))
                | (KindAdmission, None) \<Rightarrow>
                    (rep\<lparr>vr_Admission := Suc (vr_Admission rep), vr_Total := Suc (vr_Total rep)\<rparr>, decisions, outcomes)
                | (KindOutcome, None) \<Rightarrow> (rep, decisions, outcomes @ [(path, env)])
                | (KindNone, None) \<Rightarrow> (rep, decisions, outcomes))))"

fun link_outcomes :: "sink_ops \<Rightarrow> string list \<Rightarrow> (string \<times> envelope) list \<Rightarrow> verify_report \<Rightarrow> verify_report" where
  "link_outcomes K decisions [] rep = rep"
| "link_outcomes K decisions ((path, env) # rest) rep0 =
     (let rep = rep0\<lparr>vr_Total := Suc (vr_Total rep0)\<rparr> in
      link_outcomes K decisions rest
        (case ParseOutcomeEnvelope (sk_ops K) env of
           Inl e \<Rightarrow> rep\<lparr>vr_Failures := vr_Failures rep @ [(path, e)]\<rparr>
         | Inr rec \<Rightarrow>
             if orec_DecisionDigest rec = [] \<or> orec_DecisionDigest rec \<notin> set decisions
             then rep\<lparr>vr_OrphanOutcome := Suc (vr_OrphanOutcome rep),
                      vr_Failures := vr_Failures rep @ [(path, CheckFailed (orec_DecisionDigest rec))]\<rparr>
             else rep\<lparr>vr_Outcome := Suc (vr_Outcome rep)\<rparr>))"

definition VerifyEvidenceDir ::
    "sink_ops \<Rightarrow> (string \<Rightarrow> bytes \<Rightarrow> bytes \<Rightarrow> string option) option \<Rightarrow> string
     \<Rightarrow> string + (string \<times> bool \<times> (string + bytes)) list \<Rightarrow> string + verify_report" where
  "VerifyEvidenceDir K verify dir entries =
     (case entries of Inl e \<Rightarrow> Inl e | Inr es \<Rightarrow>
      case classify_entries K verify dir es
             (\<lparr>vr_Total = 0, vr_Decision = 0, vr_Admission = 0, vr_Outcome = 0, vr_OrphanOutcome = 0, vr_Failures = []\<rparr>, [], []) of
        (rep, decisions, outcomes) \<Rightarrow> Inr (link_outcomes K decisions outcomes rep))"

section \<open>Sealed envelopes\<close>

text \<open>What the record constructors of the language promise, and the JSON form of an envelope: a decision envelope is an
  in-toto statement of the decision predicate; with the provenance subjects and any signatures it still
  passes the check of the language and yields its record.\<close>

definition sound_sink :: "sink_ops \<Rightarrow> bool" where
  "sound_sink K \<longleftrightarrow> sound_ops (sk_ops K)
     \<and> (\<forall>env body. sk_EnvelopeJSON K env = Inr body \<longrightarrow> sk_ReadEnvelope K (body @ [CHR 0x0A]) = Inr env)
     \<and> (\<forall>rec env. sk_NewEnvelope K rec = Inr env \<longrightarrow>
          env_PayloadType env = sx_PayloadInToto (sk_ops K) \<and> env_Signatures env = []
          \<and> (\<exists>stm. sx_ParseStatement (sk_ops K) (env_Payload env) = Inr stm \<and> stm_Type stm = sx_StatementInToto (sk_ops K)
               \<and> stm_PredicateType stm = sx_PredicateCLCDecision (sk_ops K)))
     \<and> (\<forall>rec env profile recorder env' sigs. sk_NewEnvelope K rec = Inr env \<and> tagEnvelope (sk_ops K) profile recorder env = Inr env' \<longrightarrow>
          sx_Check (sk_ops K) (env'\<lparr>env_Signatures := sigs\<rparr>) = None \<and> sk_DecisionRecord K (env'\<lparr>env_Signatures := sigs\<rparr>) = Inr rec)
     \<and> (\<forall>dir a b. sk_Join K dir a = sk_Join K dir b \<longrightarrow> a = b)"

definition sound_key :: "sink_ops \<Rightarrow> evidence_config \<Rightarrow> (string \<Rightarrow> bytes \<Rightarrow> bytes \<Rightarrow> string option) \<Rightarrow> bool" where
  "sound_key K c vf \<longleftrightarrow> (\<exists>keyID f. signingKey (sk_crypto K) (Some c) = Some (keyID, f)
     \<and> (\<forall>m sig. f m = Inr sig \<longrightarrow> sig \<noteq> [] \<and> vf keyID m sig = None))"

lemma sound_sink_ops: "sound_sink K \<Longrightarrow> sound_ops (sk_ops K)"
  by (simp add: sound_sink_def)

lemma seal_statement:
  assumes "sound_ops (sk_ops K)" "sound_key K c vf" "seal_envelope K (Some c) env0 = Inr env" "env_Signatures env0 = []"
    and "sx_ParseStatement (sk_ops K) (env_Payload env0) = Inr stm"
  shows "\<exists>env1 keyID sig subs. tagEnvelope (sk_ops K) (evc_Profile c) (recorder_of (Some c)) env0 = Inr env1
    \<and> env = env1\<lparr>env_Signatures := [(keyID, sig)]\<rparr>
    \<and> env_PayloadType env = env_PayloadType env0
    \<and> sx_ParseStatement (sk_ops K) (env_Payload env) = Inr (stm\<lparr>stm_Subject := subs\<rparr>)
    \<and> sig \<noteq> [] \<and> vf keyID (sx_PAE (sk_ops K) (env_PayloadType env) (env_Payload env)) sig = None"
proof -
  from assms(2) obtain keyID f where key: "signingKey (sk_crypto K) (Some c) = Some (keyID, f)"
      "\<And>m sig. f m = Inr sig \<Longrightarrow> sig \<noteq> [] \<and> vf keyID m sig = None"
    by (auto simp: sound_key_def)
  from assms(3) obtain env1 where tag: "tagEnvelope (sk_ops K) (evc_Profile c) (recorder_of (Some c)) env0 = Inr env1"
      and sg: "sx_Sign (sk_ops K) keyID f env1 = Inr env"
    using key(1) by (auto simp: seal_envelope_def signEnvelope_def)
  note st = tagEnvelope_statement(1-3)[OF assms(1) tag assms(5)]
  from sound_opsD(5)[OF assms(1) sg] obtain sig where
    "f (sx_PAE (sk_ops K) (env_PayloadType env1) (env_Payload env1)) = Inr sig" "env = env1\<lparr>env_Signatures := [(keyID, sig)]\<rparr>"
    using st(2) assms(4) by auto
  with key(2) tag st show ?thesis by fastforce
qed

lemma sealed_verifies:
  assumes "sound_ops (sk_ops K)" "sound_key K c vf" "seal_envelope K (Some c) env0 = Inr env" "env_Signatures env0 = []"
    and "sx_ParseStatement (sk_ops K) (env_Payload env0) = Inr stm"
    and "CheckEvidenceEnvelope (sk_ops K) env = (kind, None)"
  shows "VerifyEvidenceEnvelope (sk_ops K) (Some vf) env = (kind, None)"
  unfolding verify_envelope_iff
  using seal_statement[OF assms(1-5)] assms(6) by auto

lemma statement_envelope_ok:
  assumes "sound_ops X" "statement_envelope X stm = Inr env"
  shows "env_PayloadType env = sx_PayloadInToto X" "env_Signatures env = []" "sx_ParseStatement X (env_Payload env) = Inr stm"
  using assms sound_opsD(1)[OF assms(1)] by (auto simp: statement_envelope_def)

lemma sealed_admission:
  assumes "sound_ops (sk_ops K)" "sound_key K c vf" "NewAdmissionEnvelope (sk_ops K) rec = Inr env0"
    and "seal_envelope K (Some c) env0 = Inr env"
    and "arec_Ver rec = AdmissionRecordVersion" "arec_Stage rec \<noteq> []" "arec_Outcome rec \<noteq> []"
  shows "ParseAdmissionEnvelope (sk_ops K) env = Inr rec"
    and "VerifyEvidenceEnvelope (sk_ops K) (Some vf) env = (KindAdmission, None)"
proof -
  from assms(3) obtain pred where pred: "sx_AdmissionJSON (sk_ops K) rec = Inr pred"
    and e: "statement_envelope (sk_ops K) \<lparr>stm_Type = sx_StatementInToto (sk_ops K),
        stm_Subject = List.map_filter (fact_subject (sk_ops K)) (arec_Facts rec),
        stm_PredicateType = AdmissionRecordPredicateType, stm_Predicate = pred\<rparr> = Inr env0"
    by (auto simp: NewAdmissionEnvelope_def)
  note e0 = statement_envelope_ok[OF assms(1) e]
  from seal_statement[OF assms(1,2,4) e0(2,3)] obtain subs where env: "env_PayloadType env = sx_PayloadInToto (sk_ops K)"
      "sx_ParseStatement (sk_ops K) (env_Payload env) = Inr (\<lparr>stm_Type = sx_StatementInToto (sk_ops K), stm_Subject = subs,
        stm_PredicateType = AdmissionRecordPredicateType, stm_Predicate = pred\<rparr>)"
    using e0(1) by auto
  show p: "ParseAdmissionEnvelope (sk_ops K) env = Inr rec"
    using env assms(5-7) sound_opsD(3)[OF assms(1) pred] by (simp add: ParseAdmissionEnvelope_def)
  have "CheckEvidenceEnvelope (sk_ops K) env = (KindAdmission, None)"
    using sound_opsD(2)[OF assms(1) env] sound_opsD(6)[OF assms(1)] p by (simp add: CheckEvidenceEnvelope_def)
  then show "VerifyEvidenceEnvelope (sk_ops K) (Some vf) env = (KindAdmission, None)"
    by (rule sealed_verifies[OF assms(1,2,4) e0(2,3)])
qed

lemma sealed_outcome:
  assumes "sound_ops (sk_ops K)" "sound_key K c vf" "NewOutcomeEnvelope (sk_ops K) rec = Inr env0"
    and "seal_envelope K (Some c) env0 = Inr env"
    and "orec_Ver rec = OutcomeRecordVersion" "orec_Outcome rec \<noteq> []"
  shows "ParseOutcomeEnvelope (sk_ops K) env = Inr rec"
    and "VerifyEvidenceEnvelope (sk_ops K) (Some vf) env = (KindOutcome, None)"
proof -
  from assms(3) obtain pred where pred: "sx_OutcomeJSON (sk_ops K) rec = Inr pred"
    and e: "statement_envelope (sk_ops K) \<lparr>stm_Type = sx_StatementInToto (sk_ops K),
        stm_Subject = List.map_filter (fact_subject (sk_ops K)) (orec_Facts rec),
        stm_PredicateType = OutcomeRecordPredicateType, stm_Predicate = pred\<rparr> = Inr env0"
    by (auto simp: NewOutcomeEnvelope_def)
  note e0 = statement_envelope_ok[OF assms(1) e]
  from seal_statement[OF assms(1,2,4) e0(2,3)] obtain subs where env: "env_PayloadType env = sx_PayloadInToto (sk_ops K)"
      "sx_ParseStatement (sk_ops K) (env_Payload env) = Inr (\<lparr>stm_Type = sx_StatementInToto (sk_ops K), stm_Subject = subs,
        stm_PredicateType = OutcomeRecordPredicateType, stm_Predicate = pred\<rparr>)"
    using e0(1) by auto
  show p: "ParseOutcomeEnvelope (sk_ops K) env = Inr rec"
    using env assms(5-6) sound_opsD(4)[OF assms(1) pred] by (simp add: ParseOutcomeEnvelope_def parsePredicate_def)
  have "CheckEvidenceEnvelope (sk_ops K) env = (KindOutcome, None)"
    using sound_opsD(2)[OF assms(1) env] sound_opsD(7)[OF assms(1)] p by (simp add: CheckEvidenceEnvelope_def)
  then show "VerifyEvidenceEnvelope (sk_ops K) (Some vf) env = (KindOutcome, None)"
    by (rule sealed_verifies[OF assms(1,2,4) e0(2,3)])
qed

lemma sealed_decision:
  assumes "sound_sink K" "sound_key K c vf" "decision_envelope K c grants op opts = Inr (rec, env)"
  shows "sk_DecisionRecord K env = Inr rec" and "VerifyEvidenceEnvelope (sk_ops K) (Some vf) env = (KindDecision, None)"
proof -
  note so = sound_sink_ops[OF assms(1)]
  from assms(3) obtain env0 where e0: "sk_NewEnvelope K rec = Inr env0" "seal_envelope K (Some c) env0 = Inr env"
    by (auto simp: decision_envelope_def)
  from assms(1) e0(1) obtain stm where stm: "env_PayloadType env0 = sx_PayloadInToto (sk_ops K)" "env_Signatures env0 = []"
      "sx_ParseStatement (sk_ops K) (env_Payload env0) = Inr stm" "stm_Type stm = sx_StatementInToto (sk_ops K)"
      "stm_PredicateType stm = sx_PredicateCLCDecision (sk_ops K)"
    unfolding sound_sink_def by blast
  from seal_statement[OF so assms(2) e0(2) stm(2,3)] obtain env1 sigs subs where env:
      "tagEnvelope (sk_ops K) (evc_Profile c) (recorder_of (Some c)) env0 = Inr env1" "env = env1\<lparr>env_Signatures := sigs\<rparr>"
      "env_PayloadType env = env_PayloadType env0"
      "sx_ParseStatement (sk_ops K) (env_Payload env) = Inr (stm\<lparr>stm_Subject := subs\<rparr>)"
    by blast
  have ok: "sx_Check (sk_ops K) env = None" "sk_DecisionRecord K env = Inr rec"
    using assms(1) e0(1) env(1) unfolding sound_sink_def env(2) by blast+
  show "sk_DecisionRecord K env = Inr rec" by (rule ok(2))
  have "sx_Statement (sk_ops K) env = Inr (stm\<lparr>stm_Subject := subs\<rparr>)"
    using env(3) stm(1,4) by (intro sound_opsD(2)[OF so _ env(4)]) simp_all
  then have "CheckEvidenceEnvelope (sk_ops K) env = (KindDecision, None)"
    using ok(1) stm(5) by (simp add: CheckEvidenceEnvelope_def)
  then show "VerifyEvidenceEnvelope (sk_ops K) (Some vf) env = (KindDecision, None)"
    by (rule sealed_verifies[OF so assms(2) e0(2) stm(2,3)])
qed

section \<open>File names\<close>

lemma hex_chars: "set (EncodeToString bs) \<subseteq> set ''0123456789abcdef''"
proof -
  have "\<forall>n \<in> set [0..<16]. hex_digit n \<in> set ''0123456789abcdef''" by code_simp
  then have d: "hex_digit n \<in> set ''0123456789abcdef''" if "n < 16" for n using that by simp
  have "of_char c div 16 < (16 :: nat)" "of_char c mod 16 < (16 :: nat)" for c
    using of_char_less[of c] by (auto intro: less_mult_imp_div_less)
  then show ?thesis using d by (induction bs) (auto simp: EncodeToString_def)
qed

lemma marker_not_hex: "EncodeToString bs \<noteq> ''admission-'' @ r" "EncodeToString bs \<noteq> ''outcome-'' @ r"
proof -
  have "CHR ''m'' \<notin> set (EncodeToString bs)" "CHR ''o'' \<notin> set (EncodeToString bs)" using hex_chars[of bs] by auto
  then show "EncodeToString bs \<noteq> ''admission-'' @ r" "EncodeToString bs \<noteq> ''outcome-'' @ r" by auto
qed

text \<open>Two artifacts of one sink share a file name only if they are of one kind and have one digest.\<close>

lemma artifact_ref_hex: "artifact_ref X a = Inr ref \<Longrightarrow> \<exists>bs. ref_Digest ref = EncodeToString bs"
  by (auto simp: artifact_ref_def admissionRef_def split: evidence_artifact.splits)

lemma file_name_inject:
  assumes "artifact_ref X a = Inr ref" "artifact_ref X b = Inr ref'" "file_name rid a ref = file_name rid b ref'"
  shows "kind_marker a = kind_marker b \<and> ref_Digest ref = ref_Digest ref'"
proof -
  obtain x y where h: "ref_Digest ref = EncodeToString x" "ref_Digest ref' = EncodeToString y"
    using artifact_ref_hex assms(1,2) by blast
  have eq: "kind_marker a @ EncodeToString x = kind_marker b @ EncodeToString y"
    using assms(3) h by (simp add: file_name_def split: if_splits)
  note ne = marker_not_hex marker_not_hex[symmetric]
  show ?thesis
    using eq ne h by (cases a; cases b) (simp_all add: kind_marker_def)
qed

section \<open>Runs of a file sink\<close>

text \<open>What may differ from one emission to the next: the nonce, the clock and the failures of the file system.\<close>

definition at_step ::
    "sink_ops \<Rightarrow> string \<Rightarrow> instant \<Rightarrow> (string \<Rightarrow> bool) \<Rightarrow> (string \<Rightarrow> bool) \<Rightarrow> sink_ops" where
  "at_step K n t mf wrf = K\<lparr>sk_nonce := n, sk_now := t, sk_MkdirFails := mf, sk_WriteFails := wrf\<rparr>"

lemma at_step_simps [simp]:
  "sk_ops (at_step K n t mf wrf) = sk_ops K" "sk_crypto (at_step K n t mf wrf) = sk_crypto K"
  "sk_Join (at_step K n t mf wrf) = sk_Join K" "sk_EnvelopeJSON (at_step K n t mf wrf) = sk_EnvelopeJSON K"
  "sk_ReadEnvelope (at_step K n t mf wrf) = sk_ReadEnvelope K" "sk_DecisionRecord (at_step K n t mf wrf) = sk_DecisionRecord K"
  "sk_NewEnvelope (at_step K n t mf wrf) = sk_NewEnvelope K"
  by (simp_all add: at_step_def)

lemma sound_at_step [simp]: "sound_sink (at_step K n t mf wrf) = sound_sink K" "sound_key (at_step K n t mf wrf) c vf = sound_key K c vf"
  by (simp_all add: sound_sink_def sound_key_def)

text \<open>The digests an outcome may refer to: those of decision records in the directory.\<close>

definition decision_path :: "sink_ops \<Rightarrow> string \<Rightarrow> string \<Rightarrow> string \<Rightarrow> string" where
  "decision_path K dir rid dig = sk_Join K dir ((if rid \<noteq> [] then rid @ ''-'' else []) @ dig @ ''.json'')"

definition linkable :: "sink_ops \<Rightarrow> string \<Rightarrow> string \<Rightarrow> (string \<times> bytes) list \<Rightarrow> string \<Rightarrow> bool" where
  "linkable K dir rid files dig \<longleftrightarrow> dig \<noteq> [] \<and> (\<exists>bs. dig = EncodeToString bs) \<and> decision_path K dir rid dig \<in> fst ` set files"

text \<open>Every interleaving of decision emissions, refusals and outcome reports, with any failures of the file system.
  Outcomes refer to decision records that were written.\<close>

inductive evidence_run :: "sink_ops \<Rightarrow> evidence_config \<Rightarrow> string \<Rightarrow> string \<Rightarrow> evidence_world \<Rightarrow> bool" for K c dir rid where
  start: "ew_files w = [] \<Longrightarrow> evidence_run K c dir rid w"
| decisions: "evidence_run K c dir rid w
    \<Longrightarrow> EmitDecisionRecords A (at_step K n t mf wrf) (Some c) ctx cert aic_opt pa_opt userCert ops w = (refs, err, w')
    \<Longrightarrow> evidence_run K c dir rid w'"
| refusal: "evidence_run K c dir rid w \<Longrightarrow> recordRefusal (at_step K n t mf wrf) c ctx rfs w = (refs, w')
    \<Longrightarrow> (\<forall>e. rfs = Some e \<longrightarrow> rfs_Code e \<noteq> []) \<Longrightarrow> evidence_run K c dir rid w'"
| outcome: "evidence_run K c dir rid w \<Longrightarrow> ReportOutcome (at_step K n t mf wrf) (evc_Sink c) (Some c) ctx rec w = (res, w')
    \<Longrightarrow> orec_Ver rec \<in> {[], OutcomeRecordVersion} \<Longrightarrow> orec_Outcome rec \<noteq> []
    \<Longrightarrow> linkable K dir rid (ew_files w) (orec_DecisionDigest rec) \<Longrightarrow> evidence_run K c dir rid w'"

definition artifact_ok ::
    "sink_ops \<Rightarrow> (string \<Rightarrow> bytes \<Rightarrow> bytes \<Rightarrow> string option) \<Rightarrow> (string \<Rightarrow> bool) \<Rightarrow> evidence_artifact \<Rightarrow> envelope \<Rightarrow> bool" where
  "artifact_ok K vf linked a env \<longleftrightarrow>
     (case a of
        DecisionArtifact r \<Rightarrow> VerifyEvidenceEnvelope (sk_ops K) (Some vf) env = (KindDecision, None) \<and> sk_DecisionRecord K env = Inr r
      | AdmissionArtifact r \<Rightarrow> VerifyEvidenceEnvelope (sk_ops K) (Some vf) env = (KindAdmission, None)
      | OutcomeArtifact r \<Rightarrow> VerifyEvidenceEnvelope (sk_ops K) (Some vf) env = (KindOutcome, None)
          \<and> ParseOutcomeEnvelope (sk_ops K) env = Inr r \<and> linked (orec_DecisionDigest r))"

definition dir_inv ::
    "sink_ops \<Rightarrow> (string \<Rightarrow> bytes \<Rightarrow> bytes \<Rightarrow> string option) \<Rightarrow> string \<Rightarrow> string \<Rightarrow> (string \<times> bytes) list \<Rightarrow> bool" where
  "dir_inv K vf dir rid files \<longleftrightarrow> (\<forall>(path, data) \<in> set files. \<exists>env a ref.
     sk_ReadEnvelope K data = Inr env \<and> artifact_ref (sk_ops K) a = Inr ref \<and> path = sk_Join K dir (file_name rid a ref)
     \<and> artifact_ok K vf (linkable K dir rid files) a env)"

lemma artifact_ok_mono:
  "artifact_ok K vf P a env \<Longrightarrow> (\<And>d. P d \<Longrightarrow> Q d) \<Longrightarrow> artifact_ok K vf Q a env"
  by (auto simp: artifact_ok_def split: evidence_artifact.splits)

lemma linkable_write: "linkable K dir rid files d \<Longrightarrow> linkable K dir rid (write_file path data files) d"
  by (auto simp: linkable_def write_file_def rev_image_eqI)

lemma dir_inv_write:
  assumes "dir_inv K vf dir rid files" "sk_ReadEnvelope K data = Inr env" "artifact_ref (sk_ops K) a = Inr ref"
    and "artifact_ok K vf (linkable K dir rid files) a env"
  shows "dir_inv K vf dir rid (write_file (sk_Join K dir (file_name rid a ref)) data files)"
  unfolding dir_inv_def
proof (clarify)
  fix path d
  assume "(path, d) \<in> set (write_file (sk_Join K dir (file_name rid a ref)) data files)"
  then consider "(path, d) \<in> set files" | "path = sk_Join K dir (file_name rid a ref)" "d = data"
    by (auto simp: write_file_def)
  then show "\<exists>env b rf. sk_ReadEnvelope K d = Inr env \<and> artifact_ref (sk_ops K) b = Inr rf \<and> path = sk_Join K dir (file_name rid b rf)
      \<and> artifact_ok K vf (linkable K dir rid (write_file (sk_Join K dir (file_name rid a ref)) data files)) b env"
  proof cases
    case 1
    then show ?thesis
      using assms(1) unfolding dir_inv_def by (fastforce intro: artifact_ok_mono linkable_write)
  next
    case 2
    then show ?thesis using assms(2-4) by (fastforce intro: artifact_ok_mono linkable_write)
  qed
qed

text \<open>One write of the file sink keeps the invariant.\<close>

lemma file_emit_inv:
  assumes "sound_sink K" "dir_inv K vf dir rid (ew_files w)" "artifact_ok K vf (linkable K dir rid (ew_files w)) a env"
    and "file_emit (at_step K n t mf wrf) dir rid a env w = (res, w')"
  shows "dir_inv K vf dir rid (ew_files w')"
proof -
  consider "ew_files w' = ew_files w" | body ref where "sk_EnvelopeJSON K env = Inr body" "artifact_ref (sk_ops K) a = Inr ref"
      "ew_files w' = write_file (sk_Join K dir (file_name rid a ref)) (body @ [CHR 0x0A]) (ew_files w)"
    using assms(4) by (auto simp: file_emit_def Let_def split: if_splits sum.splits)
  then show ?thesis
  proof cases
    case 2
    have "sk_ReadEnvelope K (body @ [CHR 0x0A]) = Inr env" using assms(1) 2(1) by (simp add: sound_sink_def)
    then show ?thesis unfolding 2(3) using dir_inv_write[OF assms(2) _ 2(2) assms(3)] by blast
  qed (use assms(2) in simp)
qed

lemma emit_loop_inv:
  assumes "sound_sink K" "sound_key K c vf" "evc_Sink c = Some (FileSink dir rid)"
    and "dir_inv K vf dir rid (ew_files w)"
    and "emit_loop (at_step K n t mf wrf) c base opts items refs w = (refs', err, w')"
  shows "dir_inv K vf dir rid (ew_files w')"
  using assms(4,5)
proof (induction items arbitrary: refs w)
  case (Cons item items)
  obtain od name grants where item: "item = (od, name, grants)" by (cases item) auto
  let ?K = "at_step K n t mf wrf"
  show ?case
  proof (cases "decision_envelope ?K c grants \<lparr>op_ID = od_ID od, op_Params = od_Params od\<rparr> opts")
    case (Inl e)
    then show ?thesis using Cons.prems item by auto
  next
    case (Inr re)
    obtain rec env where re: "re = (rec, env)" by fastforce
    obtain res w1 where em: "file_emit ?K dir rid (DecisionArtifact rec) env w = (res, w1)" by fastforce
    have "artifact_ok K vf (linkable K dir rid (ew_files w)) (DecisionArtifact rec) env"
      using sealed_decision[of ?K c vf grants _ opts rec env] assms(1,2) Inr re by (auto simp: artifact_ok_def)
    then have "dir_inv K vf dir rid (ew_files w1)" by (rule file_emit_inv[OF assms(1) Cons.prems(1) _ em])
    then show ?thesis
      using Cons.prems(2) Cons.IH[of w1] em assms(3) Inr re item
      by (cases res) (auto simp: sink_emit_def)
  qed
qed simp

lemma note_gap_files [simp]: "ew_files (note_gap c ctx e w) = ew_files w"
  by (simp add: note_gap_def count_gap_def)

text \<open>The invariant of every run.\<close>

lemma evidence_run_inv:
  assumes "evidence_run K c dir rid w" "sound_sink K" "sound_key K c vf" "evc_Sink c = Some (FileSink dir rid)"
  shows "dir_inv K vf dir rid (ew_files w)"
  using assms(1)
proof (induction rule: evidence_run.induct)
  case (start w)
  then show ?case by (simp add: dir_inv_def)
next
  case (decisions w A n t mf wrf ctx cert aic_opt pa_opt userCert ops refs err w')
  then show ?case
    using emit_loop_inv[OF assms(2-4), of w]
    by (auto simp: EmitDecisionRecords_def Let_def split: if_splits)
next
  case (refusal w n t mf wrf ctx rfs refs w')
  let ?K = "at_step K n t mf wrf" and ?rec = "NewAdmissionRecord ctx rfs (ec_Facts ctx)"
  have rec: "arec_Ver ?rec = AdmissionRecordVersion" "arec_Stage ?rec \<noteq> []" "arec_Outcome ?rec \<noteq> []"
    using refusal(3) by (auto simp: NewAdmissionRecord_def EvidenceRefused_def split: option.splits)
  show ?case
  proof (cases "ew_files w' = ew_files w")
    case False
    then obtain env0 env where e: "NewAdmissionEnvelope (sk_ops K) ?rec = Inr env0" "seal_envelope ?K (Some c) env0 = Inr env"
        and em: "ew_files (snd (file_emit ?K dir rid (AdmissionArtifact ?rec) env w)) = ew_files w'"
      using refusal(2) assms(4)
      by (auto simp: recordRefusal_def Let_def sink_emit_def split: sum.splits prod.splits)
    have "artifact_ok K vf (linkable K dir rid (ew_files w)) (AdmissionArtifact ?rec) env"
      using sealed_admission(2)[of ?K c vf ?rec env0 env] e rec assms(2,3) sound_sink_ops by (auto simp: artifact_ok_def)
    then show ?thesis using file_emit_inv[OF assms(2) refusal(4)] em by (metis prod.collapse)
  qed (use refusal(4) in simp)
next
  case (outcome w n t mf wrf ctx rec res w')
  let ?K = "at_step K n t mf wrf"
  show ?case
  proof (cases "ew_files w' = ew_files w")
    case False
    let ?rec = "complete_outcome ?K ctx rec"
    from False obtain env0 env where e: "NewOutcomeEnvelope (sk_ops K) ?rec = Inr env0" "seal_envelope ?K (Some c) env0 = Inr env"
        and em: "ew_files (snd (file_emit ?K dir rid (OutcomeArtifact ?rec) env w)) = ew_files w'"
      using outcome(2) assms(4) by (auto simp: ReportOutcome_def Let_def sink_emit_def split: sum.splits prod.splits)
    have rec': "orec_Ver ?rec = OutcomeRecordVersion" "orec_Outcome ?rec = orec_Outcome rec" "orec_DecisionDigest ?rec = orec_DecisionDigest rec"
      using outcome(3) by (auto simp: complete_outcome_def)
    have "artifact_ok K vf (linkable K dir rid (ew_files w)) (OutcomeArtifact ?rec) env"
      using sealed_outcome[of ?K c vf ?rec env0 env] e rec' outcome(4,5) assms(2,3) sound_sink_ops by (auto simp: artifact_ok_def)
    then show ?thesis using file_emit_inv[OF assms(2) outcome(6)] em by (metis prod.collapse)
  qed (use outcome(6) in simp)
qed

section \<open>Reading the directory back\<close>

text \<open>A listing of the directory: every file under its name, read as it was written.\<close>

definition listing :: "sink_ops \<Rightarrow> string \<Rightarrow> (string \<times> bytes) list \<Rightarrow> (string \<times> bool \<times> (string + bytes)) list \<Rightarrow> bool" where
  "listing K dir files es \<longleftrightarrow>
     (\<forall>(n, d, f) \<in> set es. \<not> d \<and> HasSuffix n ''.json'' \<and> (\<exists>data. f = Inr data \<and> (sk_Join K dir n, data) \<in> set files))
     \<and> (\<forall>(path, data) \<in> set files. \<exists>n. path = sk_Join K dir n \<and> (n, False, Inr data) \<in> set es)"

lemma classify_ok:
  assumes "\<forall>(n, d, f) \<in> set es. \<not> d \<and> HasSuffix n ''.json'' \<and> (\<exists>data env a. f = Inr data \<and> sk_ReadEnvelope K data = Inr env
             \<and> artifact_ok K vf linked a env)"
  shows "\<exists>rep' ds os. classify_entries K (Some vf) dir es (rep, decisions, outcomes) = (rep', decisions @ ds, outcomes @ os)
    \<and> vr_Failures rep' = vr_Failures rep \<and> vr_OrphanOutcome rep' = vr_OrphanOutcome rep
    \<and> vr_Total rep' + length os = vr_Total rep + length es
    \<and> (\<forall>n data env r. (n, False, Inr data) \<in> set es \<and> sk_ReadEnvelope K data = Inr env \<and> artifact_ok K vf linked (DecisionArtifact r) env
         \<longrightarrow> EncodeToString (dg_Value (dr_InputDigest r)) \<in> set ds)
    \<and> (\<forall>(p, env) \<in> set os. \<exists>r. ParseOutcomeEnvelope (sk_ops K) env = Inr r \<and> linked (orec_DecisionDigest r))"
  using assms
proof (induction es arbitrary: rep decisions outcomes)
  case (Cons e es)
  obtain n f where e: "e = (n, False, f)" "HasSuffix n ''.json''" using Cons.prems by (cases e) auto
  obtain data env a where ok: "f = Inr data" "sk_ReadEnvelope K data = Inr env" "artifact_ok K vf linked a env"
    using Cons.prems e by auto
  have load: "loadEvidenceEnvelope K f = Inr env" using ok by (simp add: loadEvidenceEnvelope_def)
  show ?case
  proof (cases a)
    case (DecisionArtifact r)
    then have v: "VerifyEvidenceEnvelope (sk_ops K) (Some vf) env = (KindDecision, None)" "sk_DecisionRecord K env = Inr r"
      using ok(3) by (auto simp: artifact_ok_def)
    let ?h = "EncodeToString (dg_Value (dr_InputDigest r))"
    let ?rep = "rep\<lparr>vr_Decision := Suc (vr_Decision rep), vr_Total := Suc (vr_Total rep)\<rparr>"
    have step: "classify_entries K (Some vf) dir (e # es) (rep, decisions, outcomes)
        = classify_entries K (Some vf) dir es (?rep, decisions @ [?h], outcomes)"
      using e load v by (simp add: Let_def)
    obtain rep' ds os where IH: "classify_entries K (Some vf) dir es (?rep, decisions @ [?h], outcomes) = (rep', (decisions @ [?h]) @ ds, outcomes @ os)"
        "vr_Failures rep' = vr_Failures ?rep" "vr_OrphanOutcome rep' = vr_OrphanOutcome ?rep" "vr_Total rep' + length os = vr_Total ?rep + length es"
        "\<forall>n data env r. (n, False, Inr data) \<in> set es \<and> sk_ReadEnvelope K data = Inr env \<and> artifact_ok K vf linked (DecisionArtifact r) env
         \<longrightarrow> EncodeToString (dg_Value (dr_InputDigest r)) \<in> set ds"
        "\<forall>(p, env) \<in> set os. \<exists>r. ParseOutcomeEnvelope (sk_ops K) env = Inr r \<and> linked (orec_DecisionDigest r)"
      using Cons.IH[of ?rep "decisions @ [?h]" outcomes] Cons.prems by auto
    show ?thesis
      unfolding step using IH e ok v
      by (intro exI[of _ rep'] exI[of _ "?h # ds"] exI[of _ os]) (auto simp: artifact_ok_def)
  next
    case (AdmissionArtifact r)
    then have v: "VerifyEvidenceEnvelope (sk_ops K) (Some vf) env = (KindAdmission, None)" using ok(3) by (simp add: artifact_ok_def)
    let ?rep = "rep\<lparr>vr_Admission := Suc (vr_Admission rep), vr_Total := Suc (vr_Total rep)\<rparr>"
    have step: "classify_entries K (Some vf) dir (e # es) (rep, decisions, outcomes)
        = classify_entries K (Some vf) dir es (?rep, decisions, outcomes)"
      using e load v by (simp add: Let_def)
    show ?thesis
      unfolding step using Cons.IH[of ?rep decisions outcomes] Cons.prems e ok v by (fastforce simp: artifact_ok_def)
  next
    case (OutcomeArtifact r)
    then have v: "VerifyEvidenceEnvelope (sk_ops K) (Some vf) env = (KindOutcome, None)"
        "ParseOutcomeEnvelope (sk_ops K) env = Inr r" "linked (orec_DecisionDigest r)"
      using ok(3) by (auto simp: artifact_ok_def)
    let ?o = "(sk_Join K dir n, env)"
    have step: "classify_entries K (Some vf) dir (e # es) (rep, decisions, outcomes)
        = classify_entries K (Some vf) dir es (rep, decisions, outcomes @ [?o])"
      using e load v by (simp add: Let_def)
    obtain rep' ds os where IH: "classify_entries K (Some vf) dir es (rep, decisions, outcomes @ [?o]) = (rep', decisions @ ds, (outcomes @ [?o]) @ os)"
        "vr_Failures rep' = vr_Failures rep" "vr_OrphanOutcome rep' = vr_OrphanOutcome rep" "vr_Total rep' + length os = vr_Total rep + length es"
        "\<forall>n data env r. (n, False, Inr data) \<in> set es \<and> sk_ReadEnvelope K data = Inr env \<and> artifact_ok K vf linked (DecisionArtifact r) env
         \<longrightarrow> EncodeToString (dg_Value (dr_InputDigest r)) \<in> set ds"
        "\<forall>(p, env) \<in> set os. \<exists>r. ParseOutcomeEnvelope (sk_ops K) env = Inr r \<and> linked (orec_DecisionDigest r)"
      using Cons.IH[of rep decisions "outcomes @ [?o]"] Cons.prems by auto
    show ?thesis
      unfolding step using IH e ok v
      by (intro exI[of _ rep'] exI[of _ ds] exI[of _ "?o # os"]) (auto simp: artifact_ok_def)
  qed
qed simp

lemma link_ok:
  assumes "\<forall>(p, env) \<in> set os. \<exists>r. ParseOutcomeEnvelope (sk_ops K) env = Inr r \<and> orec_DecisionDigest r \<noteq> []
      \<and> orec_DecisionDigest r \<in> set ds"
  shows "vr_Failures (link_outcomes K ds os rep) = vr_Failures rep \<and> vr_OrphanOutcome (link_outcomes K ds os rep) = vr_OrphanOutcome rep
    \<and> vr_Total (link_outcomes K ds os rep) = vr_Total rep + length os"
  using assms by (induction K ds os rep rule: link_outcomes.induct) (auto simp: Let_def)

text \<open>A linkable digest belongs to a decision record of the directory.\<close>

lemma linkable_decision:
  assumes "sound_sink K" "dir_inv K vf dir rid files" "linkable K dir rid files dig"
  shows "\<exists>path data env r. (path, data) \<in> set files \<and> sk_ReadEnvelope K data = Inr env
    \<and> artifact_ok K vf (linkable K dir rid files) (DecisionArtifact r) env \<and> EncodeToString (dg_Value (dr_InputDigest r)) = dig"
proof -
  from assms(3) obtain bs data where dig: "dig = EncodeToString bs" and f: "(decision_path K dir rid dig, data) \<in> set files"
    by (auto simp: linkable_def)
  from assms(2) f obtain env a ref where a: "sk_ReadEnvelope K data = Inr env" "artifact_ref (sk_ops K) a = Inr ref"
      "decision_path K dir rid dig = sk_Join K dir (file_name rid a ref)" "artifact_ok K vf (linkable K dir rid files) a env"
    unfolding dir_inv_def by fastforce
  define b :: evidence_artifact where
    "b = DecisionArtifact \<lparr>dr_Verdict = [], dr_Reason = [], dr_InputDigest = \<lparr>dg_Alg = [], dg_Value = bs\<rparr>, dr_Unresolved = []\<rparr>"
  define rb where "rb = \<lparr>ref_Digest = dig, ref_Verdict = [], ref_Path = []\<rparr>"
  have b: "artifact_ref (sk_ops K) b = Inr rb" by (simp add: b_def rb_def artifact_ref_def dig)
  have "decision_path K dir rid dig = sk_Join K dir (file_name rid b rb)"
    by (simp add: decision_path_def file_name_def b_def rb_def kind_marker_def)
  then have "sk_Join K dir (file_name rid a ref) = sk_Join K dir (file_name rid b rb)" using a(3) by simp
  then have "file_name rid a ref = file_name rid b rb" using assms(1) unfolding sound_sink_def by blast
  from file_name_inject[OF a(2) b this] have k: "kind_marker a = []" "ref_Digest ref = dig"
    by (simp_all add: b_def rb_def kind_marker_def)
  then obtain r where "a = DecisionArtifact r" by (cases a) (simp_all add: kind_marker_def)
  with a k f show ?thesis by (fastforce simp: artifact_ref_def)
qed

section \<open>Exact emission\<close>

text \<open>The record of one operation and source, and the reference a built-in sink returns for it.\<close>

definition records :: "sink_ops \<Rightarrow> evidence_config \<Rightarrow> record_options \<Rightarrow> operation_decision \<times> string \<times> grant list \<Rightarrow> record_ref \<Rightarrow> bool" where
  "records K c opts item ref \<longleftrightarrow> (case item of (od, name, grants) \<Rightarrow>
     \<exists>rec. sk_RecordWith K grants \<lparr>op_ID = od_ID od, op_Params = od_Params od\<rparr> opts = Inr rec
       \<and> ref_Digest ref = EncodeToString (dg_Value (dr_InputDigest rec)) \<and> ref_Verdict ref = dr_Verdict rec)"

definition builtin_sink :: "evidence_sink option \<Rightarrow> bool" where
  "builtin_sink s \<longleftrightarrow> (case s of Some (CustomSink _ _) \<Rightarrow> False | _ \<Rightarrow> True)"

lemma sink_emit_ref:
  assumes "builtin_sink sink" "sink_emit K sink ctx (DecisionArtifact rec) env w = (Inr ref, w')"
  shows "ref_Digest ref = EncodeToString (dg_Value (dr_InputDigest rec)) \<and> ref_Verdict ref = dr_Verdict rec"
  using assms
  by (auto simp: builtin_sink_def sink_emit_def slog_emit_def file_emit_def artifact_ref_def Let_def
      split: option.splits evidence_sink.splits if_splits sum.splits)

lemma emit_loop_exact:
  assumes "builtin_sink (evc_Sink c)" "emit_loop K c base opts items refs w = (refs', err, w')"
  shows "\<exists>new. refs' = refs @ new \<and> length new \<le> length items \<and> (err = None \<longleftrightarrow> length new = length items)
    \<and> list_all2 (records K c opts) (take (length new) items) new"
  using assms(2)
proof (induction items arbitrary: refs w)
  case (Cons item items)
  obtain od name grants where item: "item = (od, name, grants)" by (cases item) auto
  consider "refs' = refs" "err \<noteq> None"
    | rec env ref w1 where "decision_envelope K c grants \<lparr>op_ID = od_ID od, op_Params = od_Params od\<rparr> opts = Inr (rec, env)"
      "sink_emit K (evc_Sink c) (operation_context base od) (DecisionArtifact rec) env w = (Inr ref, w1)"
      "emit_loop K c base opts items (refs @ [ref]) w1 = (refs', err, w')"
    using Cons.prems item by (auto split: sum.splits prod.splits)
  then show ?case
  proof cases
    case 1
    then show ?thesis by (intro exI[of _ "[]"]) simp
  next
    case 2
    then obtain new where new: "refs' = (refs @ [ref]) @ new" "length new \<le> length items" "err = None \<longleftrightarrow> length new = length items"
        "list_all2 (records K c opts) (take (length new) items) new"
      using Cons.IH by blast
    have "records K c opts item ref"
      using 2(1) sink_emit_ref[OF assms(1) 2(2)] by (auto simp: records_def item decision_envelope_def)
    with new show ?thesis by (intro exI[of _ "ref # new"]) simp
  qed
qed simp

section \<open>Properties\<close>


text \<open>Emission leaves one record per operation and authority source, operations in order and the AIC before the
  principal authorization. Each reference is to the record the language computes from the grants of that
  source, not to a copied verdict. An error cuts the sequence short and is reported, and there is none
  exactly when no record is missing.\<close>

theorem decision_records_exact:
  assumes "EmitDecisionRecords A K (Some c) ctx cert aic_opt pa_opt userCert ops w = (refs, err, w')"
    and "\<not> evc_profileNoDecision c" "builtin_sink (evc_Sink c)"
  shows "let recorders = evidenceRecorders (ae_pki A) (ae_clc A) aic_opt pa_opt;
             items = concat (map (\<lambda>od. map (\<lambda>(name, gs). (od, name, gs)) recorders) ops);
             sources = (case BuildSourceChain A cert aic_opt userCert of Inl _ \<Rightarrow> None | Inr ch \<Rightarrow> Some ch)
         in length items = length ops * length recorders \<and> length refs \<le> length items
            \<and> (err = None \<longleftrightarrow> length refs = length items)
            \<and> list_all2 (records K c (record_options_of K c sources)) (take (length refs) items) refs"
proof -
  let ?recs = "evidenceRecorders (ae_pki A) (ae_clc A) aic_opt pa_opt"
  let ?items = "concat (map (\<lambda>od. map (\<lambda>(name, gs). (od, name, gs)) ?recs) ops)"
  have len: "length ?items = length ops * length ?recs" by (simp add: length_concat comp_def sum_list_triv)
  show ?thesis
  proof (cases "ops = [] \<or> ?recs = []")
    case True
    then have "refs = [] \<and> err = None" using assms(1) by (auto simp: EmitDecisionRecords_def Let_def split: if_splits)
    moreover have "?items = []" using True by auto
    ultimately show ?thesis using len by (simp add: Let_def)
  next
    case False
    then show ?thesis
      using emit_loop_exact[OF assms(3), of K] assms(1,2) len by (fastforce simp: EmitDecisionRecords_def Let_def)
  qed
qed

section \<open>Witnesses\<close>

text \<open>One decision record \<open>t\<close>, one admission record \<open>s\<close> and one outcome record \<open>u\<close> with their statements.\<close>

definition example_record :: decision_record where
  "example_record = \<lparr>dr_Verdict = ''allow'', dr_Reason = [], dr_InputDigest = \<lparr>dg_Alg = ''sha-256'', dg_Value = ''h''\<rparr>, dr_Unresolved = []\<rparr>"

definition example_ctx :: evidence_context where
  "example_ctx = \<lparr>ec_Facts = [], ec_RecorderID = [], ec_OperationID = [], ec_Method = ''GET'', ec_Path = ''/p'', ec_TraceID = [],
     ec_Principal = [], ec_AgentID = [], ec_Serial = [], ec_Outcome = [], ec_At = 7\<rparr>"

definition example_refusal :: refusal where
  "example_refusal = \<lparr>rfs_Code = ''no_credential'', rfs_Stage = [], rfs_Message = ''no client credential presented''\<rparr>"

definition example_outcome :: outcome_record where
  "example_outcome = \<lparr>orec_Ver = OutcomeRecordVersion, orec_Outcome = ''observed'', orec_At = 7, orec_DecisionDigest = ''68'',
     orec_OperationID = [], orec_RecorderID = [], orec_StatusCode = 200, orec_Note = [],
     orec_Identity = \<lparr>ident_Principal = [], ident_AgentID = [], ident_Serial = [], ident_SPIFFEID = []\<rparr>, orec_Facts = []\<rparr>"

definition example_statement :: "bytes \<Rightarrow> statement" where
  "example_statement b = \<lparr>stm_Type = ''stmt'', stm_Subject = [],
     stm_PredicateType = (if b = ''s'' then AdmissionRecordPredicateType else if b = ''u'' then OutcomeRecordPredicateType else ''clc''),
     stm_Predicate = b\<rparr>"

definition example_evidence_ops :: evidence_ops where
  "example_evidence_ops = \<lparr>sx_SHA256 = ''sha-256'', sx_StatementInToto = ''stmt'', sx_PayloadInToto = ''pt'',
     sx_PredicateCLCDecision = ''clc'',
     sx_CanonicalStatement = (\<lambda>stm. if stm = example_statement (stm_Predicate stm) then Inr (stm_Predicate stm) else Inl ''unsupported''),
     sx_ParseStatement = (\<lambda>b. Inr (example_statement b)),
     sx_Statement = (\<lambda>env. Inr (example_statement (env_Payload env))),
     sx_Check = (\<lambda>env. None), sx_PAE = (\<lambda>t p. t @ p),
     sx_Sign = (\<lambda>k f env. case f (env_PayloadType env @ env_Payload env) of Inl e \<Rightarrow> Inl e
        | Inr sig \<Rightarrow> Inr (env\<lparr>env_Signatures := env_Signatures env @ [(k, sig)]\<rparr>)),
     sx_AdmissionJSON = (\<lambda>r. if r = NewAdmissionRecord example_ctx (Some example_refusal) [] then Inr ''s'' else Inl ''unsupported''),
     sx_ReadAdmission = (\<lambda>b. Inr (NewAdmissionRecord example_ctx (Some example_refusal) [])),
     sx_OutcomeJSON = (\<lambda>r. if r = example_outcome then Inr ''u'' else Inl ''unsupported''),
     sx_ReadOutcome = (\<lambda>b. Inr example_outcome),
     sx_DigestAdmission = (\<lambda>r. Inr \<lparr>dg_Alg = ''sha-256'', dg_Value = ''h''\<rparr>),
     sx_DigestOutcome = (\<lambda>r. Inr \<lparr>dg_Alg = ''sha-256'', dg_Value = ''h''\<rparr>),
     sx_DigestProfile = (\<lambda>p. Inl ''unsupported''), sx_DigestRecorder = (\<lambda>r. Inl ''unsupported''),
     sx_ValidateRequirement = (\<lambda>r. None), sx_profile_first = True\<rparr>"

definition example_sink :: sink_ops where
  "example_sink = \<lparr>sk_ops = example_evidence_ops, sk_crypto = example_crypto,
     sk_RecordWith = (\<lambda>gs op opts. Inr example_record),
     sk_NewEnvelope = (\<lambda>r. if r = example_record then Inr \<lparr>env_Payload = ''t'', env_PayloadType = ''pt'', env_Signatures = []\<rparr> else Inl ''unsupported''),
     sk_DecisionRecord = (\<lambda>env. Inr example_record), sk_VerifyRecord = (\<lambda>r. None),
     sk_EnvelopeJSON = (\<lambda>env. if env_PayloadType env = ''pt'' \<and> env_Signatures env = [(''k'', ''sig'')] then Inr (env_Payload env) else Inl ''unsupported''),
     sk_ReadEnvelope = (\<lambda>b. Inr \<lparr>env_Payload = butlast b, env_PayloadType = ''pt'', env_Signatures = [(''k'', ''sig'')]\<rparr>),
     sk_Join = (\<lambda>d n. d @ ''/'' @ n), sk_MkdirFails = (\<lambda>d. False), sk_WriteFails = (\<lambda>p. False), sk_nonce = ''n'', sk_now = 7\<rparr>"

definition example_evidence :: evidence_config where
  "example_evidence = zero_evidence_config\<lparr>evc_Sink := Some (FileSink ''d'' []), evc_Sign := Some (\<lambda>m. Inr ''sig''), evc_KeyID := ''k''\<rparr>"

definition example_decision :: operation_decision where
  "example_decision = \<lparr>od_ID = ''db:read'', od_Params = None, od_Verdict = VerdictAllow, od_Reason = [], od_Unresolved = [],
     od_Grants = [], od_Released = False\<rparr>"

definition empty_world :: evidence_world where
  "empty_world = \<lparr>ew_files = [], ew_handed = [], ew_errors = [], ew_gaps = 0\<rparr>"

lemma example_ops_sound: "sound_ops example_evidence_ops"
proof -
  let ?X = example_evidence_ops
  have "sx_ParseStatement ?X b = Inr stm" if "sx_CanonicalStatement ?X stm = Inr b" for stm b
    using that unfolding example_evidence_ops_def evidence_ops.simps by (metis sum.inject(2) sum.distinct(1))
  moreover have "sx_Statement ?X env = sx_ParseStatement ?X (env_Payload env)" for env by (simp add: example_evidence_ops_def)
  moreover have "sx_ReadAdmission ?X b = Inr r" if "sx_AdmissionJSON ?X r = Inr b" for r b
    using that by (simp add: example_evidence_ops_def split: if_splits)
  moreover have "sx_ReadOutcome ?X b = Inr r" if "sx_OutcomeJSON ?X r = Inr b" for r b
    using that by (simp add: example_evidence_ops_def split: if_splits)
  moreover have "\<exists>sig. f (sx_PAE ?X (env_PayloadType env) (env_Payload env)) = Inr sig
      \<and> env' = env\<lparr>env_Signatures := env_Signatures env @ [(k, sig)]\<rparr>" if "sx_Sign ?X k f env = Inr env'" for k f env env'
    using that by (auto simp: example_evidence_ops_def)
  moreover have "sx_PredicateCLCDecision ?X \<noteq> AdmissionRecordPredicateType" "sx_PredicateCLCDecision ?X \<noteq> OutcomeRecordPredicateType"
    by (simp_all add: example_evidence_ops_def AdmissionRecordPredicateType_def OutcomeRecordPredicateType_def)
  ultimately show ?thesis unfolding sound_ops_def by simp
qed

lemma example_sink_sound: "sound_sink example_sink"
proof -
  have ops: "sk_ops example_sink = example_evidence_ops" by (simp add: example_sink_def)
  have new: "rec = example_record \<and> env = \<lparr>env_Payload = ''t'', env_PayloadType = ''pt'', env_Signatures = []\<rparr>"
    if "sk_NewEnvelope example_sink rec = Inr env" for rec env
    using that by (simp add: example_sink_def split: if_splits)
  have "sk_ReadEnvelope example_sink (body @ [CHR 0x0A]) = Inr env" if "sk_EnvelopeJSON example_sink env = Inr body" for env body
    using that by (simp add: example_sink_def split: if_splits)
  moreover have "sx_Check example_evidence_ops env = None" "sk_DecisionRecord example_sink env = Inr example_record"
    "sx_ParseStatement example_evidence_ops b = Inr (example_statement b)" "sx_PayloadInToto example_evidence_ops = ''pt''"
    "sx_StatementInToto example_evidence_ops = ''stmt''" "sx_PredicateCLCDecision example_evidence_ops = ''clc''"
    "sk_Join example_sink dir n = dir @ ''/'' @ n" for env b dir n
    by (simp_all add: example_evidence_ops_def example_sink_def)
  ultimately show ?thesis
    unfolding sound_sink_def ops using example_ops_sound new
    by (intro conjI allI impI) (fastforce simp: example_statement_def)+
qed

lemma example_key_sound: "sound_key example_sink example_evidence (\<lambda>k m sig. if sig = ''sig'' then None else Some ''bad'')"
  by (simp add: sound_key_def signingKey_def example_evidence_def zero_evidence_config_def)

definition example_world1 :: evidence_world where
  "example_world1 = snd (snd (EmitDecisionRecords example_adm_env example_sink (Some example_evidence) example_ctx (Some example_cert)
     (Some example_aic) None None [example_decision] empty_world))"

definition example_world2 :: evidence_world where
  "example_world2 = snd (recordRefusal example_sink example_evidence example_ctx (Some example_refusal) example_world1)"

definition example_world3 :: evidence_world where
  "example_world3 = snd (ReportOutcome example_sink (Some (FileSink ''d'' [])) (Some example_evidence) example_ctx example_outcome example_world2)"

lemma example_step: "example_sink = at_step example_sink ''n'' 7 (\<lambda>d. False) (\<lambda>p. False)"
  by (simp add: at_step_def example_sink_def)

lemma example_files: "ew_files example_world2 = [(''d/68.json'', ''t'' @ [CHR 0x0A]), (''d/admission-68.json'', ''s'' @ [CHR 0x0A])]"
  "ew_files example_world3 = [(''d/68.json'', ''t'' @ [CHR 0x0A]), (''d/admission-68.json'', ''s'' @ [CHR 0x0A]), (''d/outcome-68.json'', ''u'' @ [CHR 0x0A])]"
  by code_simp+

lemma example_evidence_run: "evidence_run example_sink example_evidence ''d'' [] example_world3"
proof -
  have sink: "evc_Sink example_evidence = Some (FileSink ''d'' [])" by (simp add: example_evidence_def)
  have "evidence_run example_sink example_evidence ''d'' [] empty_world" by (rule start) (simp add: empty_world_def)
  then have "evidence_run example_sink example_evidence ''d'' [] example_world1"
  proof (rule decisions)
    show "EmitDecisionRecords example_adm_env (at_step example_sink ''n'' 7 (\<lambda>d. False) (\<lambda>p. False)) (Some example_evidence) example_ctx
        (Some example_cert) (Some example_aic) None None [example_decision] empty_world
      = (fst (EmitDecisionRecords example_adm_env example_sink (Some example_evidence) example_ctx (Some example_cert)
          (Some example_aic) None None [example_decision] empty_world),
         fst (snd (EmitDecisionRecords example_adm_env example_sink (Some example_evidence) example_ctx (Some example_cert)
          (Some example_aic) None None [example_decision] empty_world)), example_world1)"
      unfolding example_step[symmetric] example_world1_def by simp
  qed
  then have "evidence_run example_sink example_evidence ''d'' [] example_world2"
  proof (rule refusal)
    show "recordRefusal (at_step example_sink ''n'' 7 (\<lambda>d. False) (\<lambda>p. False)) example_evidence example_ctx (Some example_refusal) example_world1
      = (fst (recordRefusal example_sink example_evidence example_ctx (Some example_refusal) example_world1), example_world2)"
      unfolding example_step[symmetric] example_world2_def by simp
  qed (simp add: example_refusal_def)
  then show ?thesis
  proof (rule outcome)
    show "ReportOutcome (at_step example_sink ''n'' 7 (\<lambda>d. False) (\<lambda>p. False)) (evc_Sink example_evidence) (Some example_evidence)
        example_ctx example_outcome example_world2
      = (fst (ReportOutcome example_sink (Some (FileSink ''d'' [])) (Some example_evidence) example_ctx example_outcome example_world2), example_world3)"
      unfolding example_step[symmetric] sink example_world3_def by simp
    have "''68'' = EncodeToString ''h''" by code_simp
    then show "linkable example_sink ''d'' [] (ew_files example_world2) (orec_DecisionDigest example_outcome)"
      by (auto simp: linkable_def example_files decision_path_def example_sink_def example_outcome_def)
  qed (simp_all add: example_outcome_def)
qed


theorem decision_records_exact_witness:
  "length (fst (EmitDecisionRecords example_adm_env example_sink (Some example_evidence) example_ctx (Some example_cert)
     (Some example_aic) None None [example_decision] empty_world)) = 1"
proof -
  obtain refs err w' where run: "EmitDecisionRecords example_adm_env example_sink (Some example_evidence) example_ctx (Some example_cert)
     (Some example_aic) None None [example_decision] empty_world = (refs, err, w')" by (metis prod_cases3)
  have "fst (snd (EmitDecisionRecords example_adm_env example_sink (Some example_evidence) example_ctx (Some example_cert)
     (Some example_aic) None None [example_decision] empty_world)) = None" by code_simp
  then have "err = None" using run by simp
  moreover have "length (evidenceRecorders (ae_pki example_adm_env) (ae_clc example_adm_env) (Some example_aic) None) = 1" by code_simp
  moreover have "\<not> evc_profileNoDecision example_evidence" "builtin_sink (evc_Sink example_evidence)"
    by (simp_all add: example_evidence_def zero_evidence_config_def builtin_sink_def)
  ultimately have "length refs = 1" using decision_records_exact[OF run] by (simp add: Let_def)
  then show ?thesis using run by simp
qed

end
