(* ===== verification/Challenge.thy ===== *)
theory Challenge
  imports Evidence_Sink Pipeline
begin

text \<open>
  Machine-readable refusals (\<^verbatim>\<open>src/challenge.go\<close>): a refusal that evidence can cure carries a challenge in an RFC 9457
  problem document, with the retry bound mapped to \<^verbatim>\<open>Retry-After\<close>. Building a challenge is code of
  \<^verbatim>\<open>github.com/varwof/register/semantics\<close> and a parameter; the random tokens and the clock of a call are too.
\<close>

section \<open>Data\<close>

record challenge =
  chl_ID :: string
  chl_Nonce :: string
  chl_ActionDigest :: digest
  chl_Retry :: "instant option"

record challenge_params =
  cp_ID :: string
  cp_Nonce :: string
  cp_Audience :: string
  cp_ActionDigest :: digest
  cp_Now :: instant
  cp_TTL :: duration
  cp_Retry :: "instant option"

record challenge_config =
  cc_TTL :: duration
  cc_Audience :: string
  cc_RetryAfter :: duration

record problem_details =
  prb_Type :: string
  prb_Title :: string
  prb_Status :: int
  prb_Detail :: string
  prb_Challenge :: "challenge option"

record requirement_result =
  rr_Verdict :: string
  rr_MissingRoles :: "string list"

text \<open>\<open>ch_ID\<close> and \<open>ch_Nonce\<close> are the results of the two calls of \<^verbatim>\<open>randomToken\<close>.\<close>

record challenge_env =
  che_ID :: "string + string"
  che_Nonce :: "string + string"
  che_now :: instant
  che_DigestOperation :: "operation \<Rightarrow> string + digest"
  che_DigestOperations :: "operation list \<Rightarrow> string + digest"
  che_DigestCanonical :: "bytes \<Rightarrow> digest"
  che_FromDecision :: "decision \<Rightarrow> challenge_params \<Rightarrow> string + challenge"
  che_FromRequirement :: "requirement \<Rightarrow> requirement_result \<Rightarrow> challenge_params \<Rightarrow> string + challenge"
  che_Quote :: "string \<Rightarrow> string"
  che_ProblemJSON :: "problem_details \<Rightarrow> string + bytes"

definition ProblemTypeEvidenceRequired :: string where
  "ProblemTypeEvidenceRequired = ''https://varwof.com/clc/v1/problems/evidence-required''"

definition ProblemContentType :: string where "ProblemContentType = ''application/problem+json''"

definition StatusUnauthorized :: int where "StatusUnauthorized = 401"
definition StatusForbidden :: int where "StatusForbidden = 403"

section \<open>Building challenges\<close>

definition retry_bound :: "challenge_env \<Rightarrow> challenge_config \<Rightarrow> instant option" where
  "retry_bound H cfg = (if cc_RetryAfter cfg > 0 then Some (che_now H + cc_RetryAfter cfg) else None)"

definition operation_challenge ::
    "challenge_env \<Rightarrow> challenge_config \<Rightarrow> operation_decision \<Rightarrow> string + challenge" where
  "operation_challenge H cfg od =
     (case che_DigestOperation H \<lparr>op_ID = od_ID od, op_Params = od_Params od\<rparr> of Inl e \<Rightarrow> Inl e | Inr d \<Rightarrow>
      case che_Nonce H of Inl e \<Rightarrow> Inl e | Inr nonce \<Rightarrow>
      if nonce = [] then Inl ''challenge nonce unavailable''
      else case che_ID H of Inl e \<Rightarrow> Inl e | Inr i \<Rightarrow>
        if i = [] then Inl ''challenge id unavailable''
        else che_FromDecision H \<lparr>dec_Verdict = VerdictAllowUR, dec_Reason = [], dec_Unresolved = od_Unresolved od\<rparr>
               \<lparr>cp_ID = i, cp_Nonce = nonce, cp_Audience = cc_Audience cfg, cp_ActionDigest = d, cp_Now = che_now H,
                cp_TTL = cc_TTL cfg, cp_Retry = retry_bound H cfg\<rparr>)"

text \<open>The first operation that was left with obligations and not released; a refusal with nothing to obtain has no
  challenge.\<close>

definition buildChallengeForResult ::
    "challenge_env \<Rightarrow> pipeline_result option \<Rightarrow> challenge_config \<Rightarrow> string + challenge option" where
  "buildChallengeForResult H res cfg =
     (case res of None \<Rightarrow> Inr None | Some r \<Rightarrow>
      case List.find (\<lambda>od. \<not> (od_Verdict od \<noteq> VerdictAllowUR \<or> od_Released od)) (pr_OperationDecisions r) of
        None \<Rightarrow> Inr None
      | Some od \<Rightarrow> (case operation_challenge H cfg od of Inl e \<Rightarrow> Inl e | Inr c \<Rightarrow> Inr (Some c)))"

definition problemForResult ::
    "challenge_env \<Rightarrow> pipeline_result option \<Rightarrow> challenge_config option \<Rightarrow> string \<Rightarrow> string + problem_details option" where
  "problemForResult H res cfg detail =
     (case cfg of None \<Rightarrow> Inr None | Some c \<Rightarrow>
      case buildChallengeForResult H res c of Inl e \<Rightarrow> Inl e | Inr None \<Rightarrow> Inr None | Inr (Some ch) \<Rightarrow>
        Inr (Some \<lparr>prb_Type = ProblemTypeEvidenceRequired, prb_Title = ''Authorization evidence required'',
                   prb_Status = StatusForbidden, prb_Detail = detail, prb_Challenge = Some ch\<rparr>))"

text \<open>The action an evidence challenge is bound to: the required operations, or else this request.\<close>

definition challenge_action ::
    "challenge_env \<Rightarrow> operation list \<Rightarrow> (string \<times> string) option \<Rightarrow> string + digest" where
  "challenge_action H ops target =
     (if ops \<noteq> [] then che_DigestOperations H ops
      else Inr (che_DigestCanonical H (case target of None \<Rightarrow> ''admission'' | Some (m, p) \<Rightarrow> m @ '' '' @ p)))"

definition evidenceProblem ::
    "challenge_env \<Rightarrow> challenge_config option \<Rightarrow> operation list \<Rightarrow> (string \<times> string) option \<Rightarrow> requirement \<Rightarrow> requirement_result
     \<Rightarrow> string + problem_details option" where
  "evidenceProblem H cfg ops target req sat =
     (case cfg of None \<Rightarrow> Inr None | Some c \<Rightarrow>
      case che_ID H of Inl e \<Rightarrow> Inl e | Inr i \<Rightarrow>
      case che_Nonce H of Inl e \<Rightarrow> Inl e | Inr nonce \<Rightarrow>
      if nonce = [] \<or> i = [] then Inl ''challenge randomness unavailable''
      else case challenge_action H ops target of Inl e \<Rightarrow> Inl e | Inr d \<Rightarrow>
        case che_FromRequirement H req sat
               \<lparr>cp_ID = i, cp_Nonce = nonce, cp_Audience = cc_Audience c, cp_ActionDigest = d, cp_Now = che_now H,
                cp_TTL = cc_TTL c, cp_Retry = retry_bound H c\<rparr> of
          Inl e \<Rightarrow> Inl e
        | Inr ch \<Rightarrow> Inr (Some \<lparr>prb_Type = ProblemTypeEvidenceRequired, prb_Title = ''Authorization evidence required'',
                              prb_Status = StatusForbidden,
                              prb_Detail = ''requirement '' @ req_ID req @ '' is '' @ rr_Verdict sat, prb_Challenge = Some ch\<rparr>))"

section \<open>Errors and responses\<close>

datatype error_code = ErrNoCredential | ErrDenied | ErrNoVerifier | ErrBearerNeedsTLS | ErrInvalidBearer | ErrChainInvalid | ErrConfig

definition ErrorCode_String :: "error_code \<Rightarrow> string" where
  "ErrorCode_String c =
     (case c of ErrNoCredential \<Rightarrow> ''no_credential'' | ErrDenied \<Rightarrow> ''access_denied'' | ErrNoVerifier \<Rightarrow> ''bearer_not_configured''
      | ErrBearerNeedsTLS \<Rightarrow> ''bearer_tls_required'' | ErrInvalidBearer \<Rightarrow> ''invalid_bearer'' | ErrChainInvalid \<Rightarrow> ''chain_invalid''
      | ErrConfig \<Rightarrow> ''config_error'')"

record auth_error =
  aer_Code :: error_code
  aer_Status :: int
  aer_Message :: string
  aer_Stage :: string
  aer_Evidence :: "record_ref list"
  aer_Problem :: "problem_details option"
  aer_Satisfaction :: "requirement_result option"

definition plain_error :: "error_code \<Rightarrow> int \<Rightarrow> string \<Rightarrow> auth_error" where
  "plain_error code status msg =
     \<lparr>aer_Code = code, aer_Status = status, aer_Message = msg, aer_Stage = [], aer_Evidence = [], aer_Problem = None,
      aer_Satisfaction = None\<rparr>"

record http_response =
  rsp_Status :: int
  rsp_Headers :: "(string \<times> string) list"
  rsp_Body :: bytes

text \<open>\<^verbatim>\<open>int(time.Until(t).Seconds() + 0.999)\<close>, with exact arithmetic on nanoseconds, when it is positive.\<close>

definition retry_seconds :: "instant \<Rightarrow> instant \<Rightarrow> nat option" where
  "retry_seconds now notBefore =
     (let d = notBefore - now + 999000000 in if d \<ge> second then Some (nat (d div second)) else None)"

definition retry_headers :: "instant \<Rightarrow> problem_details \<Rightarrow> (string \<times> string) list" where
  "retry_headers now p =
     (case prb_Challenge p of None \<Rightarrow> [] | Some ch \<Rightarrow>
      case chl_Retry ch of None \<Rightarrow> [] | Some nb \<Rightarrow>
      case retry_seconds now nb of None \<Rightarrow> [] | Some s \<Rightarrow> [(''Retry-After'', dec_nat s)])"

text \<open>A carrier sets status, headers and body; with an error it leaves what it wrote so far. The default carrier.\<close>

type_synonym challenge_carrier = "problem_details \<Rightarrow> http_response \<times> string option"

definition problemJSONCarrier :: "challenge_env \<Rightarrow> challenge_carrier" where
  "problemJSONCarrier H p =
     (case che_ProblemJSON H p of
        Inl e \<Rightarrow> (\<lparr>rsp_Status = prb_Status p, rsp_Headers = [(''Content-Type'', ProblemContentType)], rsp_Body = []\<rparr>, Some e)
      | Inr body \<Rightarrow> (\<lparr>rsp_Status = prb_Status p, rsp_Headers = [(''Content-Type'', ProblemContentType)],
                     rsp_Body = body @ [CHR 0x0A]\<rparr>, None))"

definition writeAuthError :: "challenge_env \<Rightarrow> challenge_carrier option \<Rightarrow> auth_error \<Rightarrow> http_response" where
  "writeAuthError H carrier ae =
     (case aer_Problem ae of
        None \<Rightarrow> \<lparr>rsp_Status = aer_Status ae, rsp_Headers = [(''Content-Type'', ''application/json; charset=utf-8'')],
                rsp_Body = ''{\"code\":'' @ che_Quote H (ErrorCode_String (aer_Code ae)) @ '',\"message\":'' @ che_Quote H (aer_Message ae)
                  @ ''}'' @ [CHR 0x0A]\<rparr>
      | Some p \<Rightarrow>
          (case (case carrier of Some c \<Rightarrow> c | None \<Rightarrow> problemJSONCarrier H) p of
             (rsp, err) \<Rightarrow>
               rsp\<lparr>rsp_Headers := retry_headers (che_now H) p @ rsp_Headers rsp,
                   rsp_Body := rsp_Body rsp
                     @ (if err \<noteq> None then ''{\"code\":'' @ che_Quote H (ErrorCode_String (aer_Code ae)) @ ''}'' @ [CHR 0x0A] else [])\<rparr>))"

section \<open>Properties\<close>

text \<open>A challenge is issued only for a refusal that evidence can cure: it belongs to an operation that was decided
  allowed with residual obligations that were not released, is built from exactly those obligations, bound
  to the digest of that operation, and carries a non-empty identifier and nonce; a refusal without such an
  operation carries none.\<close>

theorem challenge_only_for_obligations:
  assumes "problemForResult H (Some res) (Some cfg) detail = Inr (Some p)"
  shows "\<exists>od ch d i nonce. od \<in> set (pr_OperationDecisions res) \<and> od_Verdict od = VerdictAllowUR \<and> \<not> od_Released od
    \<and> prb_Challenge p = Some ch \<and> prb_Status p = 403
    \<and> che_DigestOperation H \<lparr>op_ID = od_ID od, op_Params = od_Params od\<rparr> = Inr d
    \<and> i \<noteq> [] \<and> nonce \<noteq> [] \<and> che_ID H = Inr i \<and> che_Nonce H = Inr nonce
    \<and> che_FromDecision H \<lparr>dec_Verdict = VerdictAllowUR, dec_Reason = [], dec_Unresolved = od_Unresolved od\<rparr>
        \<lparr>cp_ID = i, cp_Nonce = nonce, cp_Audience = cc_Audience cfg, cp_ActionDigest = d, cp_Now = che_now H,
         cp_TTL = cc_TTL cfg, cp_Retry = retry_bound H cfg\<rparr> = Inr ch"
proof -
  from assms obtain od ch where f: "List.find (\<lambda>od. \<not> (od_Verdict od \<noteq> VerdictAllowUR \<or> od_Released od)) (pr_OperationDecisions res) = Some od"
    and c: "operation_challenge H cfg od = Inr ch" and p: "prb_Challenge p = Some ch" "prb_Status p = 403"
    by (auto simp: problemForResult_def buildChallengeForResult_def StatusForbidden_def split: option.splits sum.splits)
  from find_SomeD[OF f] have "od \<in> set (pr_OperationDecisions res)" "od_Verdict od = VerdictAllowUR" "\<not> od_Released od" by auto
  with c p show ?thesis
    by (intro exI[of _ od] exI[of _ ch]) (auto simp: operation_challenge_def split: if_splits)
qed

theorem challenge_only_for_obligations_witness:
  "\<exists>H res p ch. problemForResult H (Some res) (Some \<lparr>cc_TTL = 300, cc_Audience = ''api'', cc_RetryAfter = 0\<rparr>) ''denied'' = Inr (Some p)
     \<and> prb_Challenge p = Some ch \<and> chl_Nonce ch = ''n''"
proof -
  define ch :: "challenge_params \<Rightarrow> challenge" where "ch = (\<lambda>p. \<lparr>chl_ID = cp_ID p, chl_Nonce = cp_Nonce p, chl_ActionDigest = cp_ActionDigest p, chl_Retry = cp_Retry p\<rparr>)"
  define H where "H = \<lparr>che_ID = Inr ''i'', che_Nonce = Inr ''n'', che_now = 0, che_DigestOperation = (\<lambda>_. Inr \<lparr>dg_Alg = ''a'', dg_Value = []\<rparr>),
    che_DigestOperations = (\<lambda>_. Inr \<lparr>dg_Alg = ''a'', dg_Value = []\<rparr>), che_DigestCanonical = (\<lambda>b. \<lparr>dg_Alg = ''a'', dg_Value = b\<rparr>), che_FromDecision = (\<lambda>_ p. Inr (ch p)),
    che_FromRequirement = (\<lambda>_ _ p. Inr (ch p)), che_Quote = id, che_ProblemJSON = (\<lambda>_. Inr [])\<rparr>"
  define res where "res = zero_pipeline_result\<lparr>pr_OperationDecisions := [\<lparr>od_ID = ''op'', od_Params = None, od_Verdict = VerdictAllowUR,
    od_Reason = [], od_Unresolved = [''oversight''], od_Grants = [], od_Released = False\<rparr>]\<rparr>"
  obtain p where p: "problemForResult H (Some res) (Some \<lparr>cc_TTL = 300, cc_Audience = ''api'', cc_RetryAfter = 0\<rparr>) ''denied'' = Inr (Some p)"
    by (simp add: H_def ch_def res_def problemForResult_def buildChallengeForResult_def operation_challenge_def)
  from challenge_only_for_obligations[OF p] have "\<exists>c. prb_Challenge p = Some c \<and> chl_Nonce c = ''n''"
    by (auto simp: H_def ch_def)
  with p show ?thesis by blast
qed

lemma ceil_seconds:
  assumes "(d::int) \<ge> 0"
  shows "d - 999000000 \<le> int (nat (d div second)) * second + 1000000" "int (nat (d div second)) * second < d - 999000000 + second"
proof -
  have "int (nat (d div 1000000000)) = d div 1000000000" using assms by simp
  moreover have "d < (d div 1000000000) * 1000000000 + 1000000000" "(d div 1000000000) * 1000000000 \<le> d" by presburger+
  ultimately show "d - 999000000 \<le> int (nat (d div second)) * second + 1000000" "int (nat (d div second)) * second < d - 999000000 + second"
    unfolding second_def by linarith+
qed

text \<open>The retry bound survives into the response whatever carrier writes it: when the challenge names an instant at
  least a second away, \<^verbatim>\<open>Retry-After\<close> is set, and the seconds in it reach that instant up to one millisecond and
  overshoot it by less than a second.\<close>

theorem retry_after_bound:
  assumes "aer_Problem ae = Some p" "prb_Challenge p = Some ch" "chl_Retry ch = Some nb" "nb - che_now H \<ge> second"
  shows "\<exists>s. (''Retry-After'', dec_nat s) \<in> set (rsp_Headers (writeAuthError H carrier ae))
    \<and> nb - che_now H \<le> int s * second + 1000000 \<and> int s * second < nb - che_now H + second"
proof -
  let ?d = "nb - che_now H + 999000000"
  have d: "?d \<ge> second" using assms(4) by simp
  let ?s = "nat (?d div second)"
  have "?d \<ge> 0" using d by (simp add: second_def)
  from ceil_seconds[OF this] have "nb - che_now H \<le> int ?s * second + 1000000" "int ?s * second < nb - che_now H + second"
    by (simp_all add: second_def)
  moreover have "(''Retry-After'', dec_nat ?s) \<in> set (rsp_Headers (writeAuthError H carrier ae))"
    using assms(1-3) d by (simp add: writeAuthError_def retry_headers_def retry_seconds_def Let_def split: prod.splits)
  ultimately show ?thesis by blast
qed

theorem retry_after_bound_witness:
  "\<exists>H ae s. aer_Status ae = 403 \<and> (''Retry-After'', dec_nat s) \<in> set (rsp_Headers (writeAuthError H None ae)) \<and> 1 < s"
proof -
  define H where "H = \<lparr>che_ID = Inr ''i'', che_Nonce = Inr ''n'', che_now = 0, che_DigestOperation = (\<lambda>_. Inr \<lparr>dg_Alg = ''a'', dg_Value = []\<rparr>),
    che_DigestOperations = (\<lambda>_. Inr \<lparr>dg_Alg = ''a'', dg_Value = []\<rparr>), che_DigestCanonical = (\<lambda>b. \<lparr>dg_Alg = ''a'', dg_Value = b\<rparr>), che_FromDecision = (\<lambda>_ p. Inl []),
    che_FromRequirement = (\<lambda>_ _ p. Inl []), che_Quote = id, che_ProblemJSON = (\<lambda>_. Inr [])\<rparr>"
  define p where "p = \<lparr>prb_Type = ProblemTypeEvidenceRequired, prb_Title = ''t'', prb_Status = 403, prb_Detail = [],
    prb_Challenge = Some \<lparr>chl_ID = ''i'', chl_Nonce = ''n'', chl_ActionDigest = \<lparr>dg_Alg = ''a'', dg_Value = []\<rparr>, chl_Retry = Some (2 * second)\<rparr>\<rparr>"
  define ae where "ae = plain_error ErrDenied 403 ''denied''\<lparr>aer_Problem := Some p\<rparr>"
  obtain s where s: "(''Retry-After'', dec_nat s) \<in> set (rsp_Headers (writeAuthError H None ae))"
    "2 * second \<le> int s * second + 1000000"
    using retry_after_bound[of ae p _ "2 * second" H None] by (force simp: ae_def p_def H_def second_def)
  from s(2) have "1 < s" by (simp add: second_def)
  with s(1) have "aer_Status ae = 403 \<and> (''Retry-After'', dec_nat s) \<in> set (rsp_Headers (writeAuthError H None ae)) \<and> 1 < s"
    by (simp add: ae_def plain_error_def)
  then show ?thesis by blast
qed

end
