(* ===== verification/Authenticator.thy ===== *)
theory Authenticator
  imports Challenge Jwt Supervision_Store Trust_Layers
begin

text \<open>
  The transport-independent decision core (\<^verbatim>\<open>src/decide.go\<close>, the configuration, construction, supervision and
  evidence parts of \<^verbatim>\<open>src/aicverifier.go\<close>, and the counters of \<^verbatim>\<open>src/admin.go\<close>): what a request view carries, how its
  credential is resolved, and one admission decision with everything it writes. The authenticator is a record of its
  configuration, its replay store, the reloaded policy, its counters and the state of the components it
  writes to. What does not change between requests of one process (libraries, certificate verification) is \<open>auth_env\<close>;
  what a single decision reads from outside (clocks, random values, failures) is \<open>auth_call\<close>.
  Log lines are not modelled.
\<close>

section \<open>Counters\<close>

record decision_metrics =
  dm_StartedAt :: instant
  dm_DecideTotal :: "64 word"
  dm_Granted :: "64 word"
  dm_Denied :: "64 word"
  dm_ConfigReload :: "64 word"
  dm_lastErr :: "instant option"
  dm_lastOK :: "instant option"

definition NewDecisionMetrics :: "instant \<Rightarrow> decision_metrics" where
  "NewDecisionMetrics now =
     \<lparr>dm_StartedAt = now, dm_DecideTotal = 0, dm_Granted = 0, dm_Denied = 0, dm_ConfigReload = 0,
      dm_lastErr = None, dm_lastOK = None\<rparr>"

definition noteResult :: "instant \<Rightarrow> bool \<Rightarrow> decision_metrics \<Rightarrow> decision_metrics" where
  "noteResult now failed m =
     (if failed then m\<lparr>dm_Denied := dm_Denied m + 1, dm_lastErr := Some now\<rparr>
      else m\<lparr>dm_Granted := dm_Granted m + 1, dm_lastOK := Some now\<rparr>)"

definition Healthy :: "decision_metrics \<Rightarrow> bool" where
  "Healthy m =
     (case (dm_lastErr m, dm_lastOK m) of
        (None, _) \<Rightarrow> True
      | (Some _, None) \<Rightarrow> False
      | (Some e, Some k) \<Rightarrow> After k e)"

section \<open>Requests, identities and configuration\<close>

type_synonym http_header = "(string \<times> string list) list"

text \<open>An HTTP request; \<open>hr_TLS\<close> holds the peer certificates of a TLS connection.\<close>

record http_request =
  hr_Method :: string
  hr_Path :: string
  hr_RawQuery :: string
  hr_Header :: http_header
  hr_RemoteAddr :: string
  hr_TLS :: "certificate list option"
  hr_Body :: "bytes option"

record auth_context =
  ctx_ClientCert :: certificate
  ctx_Principal :: string
  ctx_AgentID :: string
  ctx_SPIFFEID :: string
  ctx_Roles :: "string list"
  ctx_Capabilities :: "string list"
  ctx_AIC :: "aic option"
  ctx_Bearer :: bool
  ctx_Serial :: string
  ctx_Verdict :: verdict
  ctx_Reason :: string
  ctx_Unresolved :: "string list"
  ctx_OperationDecisions :: "operation_decision list"
  ctx_Evidence :: "record_ref list"
  ctx_Satisfaction :: "requirement_result option"

text \<open>A fact a verifier of the deployment established.\<close>

record evidence_fact =
  evf_Type :: string
  evf_Subject :: string
  evf_IssuedAt :: instant
  evf_Verified :: bool

record risk_assessment =
  ras_OperationID :: string
  ras_AgentID :: string
  ras_PrincipalUid :: string
  ras_DAHash :: string
  ras_Capabilities :: "string list"
  ras_Operation :: string
  ras_RequestedParams :: string

record request_view =
  vw_CertChain :: "certificate list"
  vw_BearerToken :: string
  vw_VerifiedCert :: "certificate option"
  vw_TransportSecure :: bool
  vw_Method :: string
  vw_Path :: string
  vw_RawQuery :: string
  vw_Header :: http_header
  vw_ClientIP :: string
  vw_Body :: bytes
  vw_PresentedCert :: "certificate option"
  vw_EvidenceFactsWith :: "(auth_context \<Rightarrow> string + evidence_fact list) option"
  vw_RequireApprovalWith :: "(auth_context \<Rightarrow> bool) option"
  vw_HTTPAdapter :: "http_request option"

definition zero_view :: request_view where
  "zero_view =
     \<lparr>vw_CertChain = [], vw_BearerToken = [], vw_VerifiedCert = None, vw_TransportSecure = False, vw_Method = [], vw_Path = [],
      vw_RawQuery = [], vw_Header = [], vw_ClientIP = [], vw_Body = [], vw_PresentedCert = None, vw_EvidenceFactsWith = None,
      vw_RequireApprovalWith = None, vw_HTTPAdapter = None\<rparr>"

definition MTLSOnly :: int where "MTLSOnly = 0"
definition BearerOnly :: int where "BearerOnly = 1"
definition MTLSOrBearer :: int where "MTLSOrBearer = 2"

record supervision_policy =
  spl_RequireRuntimeApproval :: bool
  spl_AllowBreakGlass :: bool
  spl_RequireEvidenceExport :: bool

text \<open>The fields of the configuration that decisions read; interfaces only tested against \<^verbatim>\<open>nil\<close> are flags.\<close>

record auth_config =
  cfg_CACertFile :: string
  cfg_JWTCAFile :: string
  cfg_JWTIssuer :: string
  cfg_JWTAudience :: "string list"
  cfg_ReplayProtection :: "bool option"
  cfg_AuthMode :: int
  cfg_RequireAIC :: bool
  cfg_RequiredCapabilities :: "string list"
  cfg_AdminToken :: string
  cfg_AdminTokenFile :: string
  cfg_RequiredOperations :: "operation list"
  cfg_UnresolvedEvaluator :: "(operation \<Rightarrow> string list \<Rightarrow> bool) option"
  cfg_DischargeObligations :: bool
  cfg_ObligationsUnderstood :: "string list"
  cfg_RequireFreshDecisionContext :: bool
  cfg_DecisionContext :: "decision_context option"
  cfg_Challenges :: "challenge_config option"
  cfg_ChallengeCarrier :: "challenge_carrier option"
  cfg_EvidenceRequirement :: "requirement option"
  cfg_EvidenceFacts :: "(http_request option \<Rightarrow> auth_context \<Rightarrow> string + evidence_fact list) option"
  cfg_EvidenceProfile :: string
  cfg_Evidence :: "evidence_config option"
  cfg_DisallowRepresentative :: bool
  cfg_RequireUserAuth :: bool
  cfg_EnforceConstraints :: bool
  cfg_UserCert :: "certificate option"
  cfg_UserCertResolver :: "(bytes \<Rightarrow> string + certificate option) option"
  cfg_CRLCache :: "crl_cache option"
  cfg_AuditLogger :: bool
  cfg_NonceCache :: bool
  cfg_PluginRegistry :: "plugin_registry option"
  cfg_CapabilityRegistry :: "capability_registry option"
  cfg_AuthorizationPolicy :: "authorization_policy option"
  cfg_Constraints :: "constraint_registry option"
  cfg_ParameterValidators :: "parameter_validator_registry option"
  cfg_StreamBody :: bool
  cfg_HookAuthenticated :: "(auth_context \<Rightarrow> http_request \<Rightarrow> string option) option"
  cfg_HookDenied :: bool
  cfg_ApprovalRequester :: "(risk_assessment \<Rightarrow> string + supervision_result option) option"
  cfg_OverrideRecorder :: bool
  cfg_SupervisionPolicy :: supervision_policy
  cfg_EvidenceExporter :: bool
  cfg_RequireApproval :: "(auth_context \<Rightarrow> http_request \<Rightarrow> bool) option"

datatype config_error = NilConfig | ProfileError record_error | NeedsUserCert | NeedsApprovalRequester
  | NeedsOverrideRecorder | NeedsEvidenceExporter | NeedsSigningKey | SignerError record_error
  | CARead string string | NoCACerts string | JWTLoad string | NoAdminToken | AdminTokenRead string | EmptyAdminSecret string

definition authMode :: "auth_config \<Rightarrow> int" where
  "authMode c =
     (if cfg_AuthMode c \<noteq> MTLSOnly \<and> cfg_AuthMode c \<noteq> BearerOnly \<and> cfg_AuthMode c \<noteq> MTLSOrBearer then MTLSOrBearer
      else cfg_AuthMode c)"

definition replayProtection :: "auth_config \<Rightarrow> bool" where
  "replayProtection c = (case cfg_ReplayProtection c of None \<Rightarrow> True | Some b \<Rightarrow> b)"

text \<open>The errors found, in order; none is the \<^verbatim>\<open>nil\<close> error.\<close>

definition Validate_config :: "crypto_ops \<Rightarrow> auth_config option \<Rightarrow> config_error list" where
  "Validate_config C cfg =
     (case cfg of None \<Rightarrow> [NilConfig] | Some c \<Rightarrow>
        (if cfg_EvidenceProfile c \<noteq> [] then
           (case LookupEvidenceProfile (cfg_EvidenceProfile c) of Inl e \<Rightarrow> [ProfileError e] | Inr _ \<Rightarrow> []) else [])
        @ (if cfg_RequireUserAuth c \<and> cfg_UserCert c = None \<and> cfg_UserCertResolver c = None \<and> cfg_CACertFile c = []
           then [NeedsUserCert] else [])
        @ (if spl_RequireRuntimeApproval (cfg_SupervisionPolicy c) \<and> cfg_ApprovalRequester c = None
           then [NeedsApprovalRequester] else [])
        @ (if spl_AllowBreakGlass (cfg_SupervisionPolicy c) \<and> \<not> cfg_OverrideRecorder c then [NeedsOverrideRecorder] else [])
        @ (if spl_RequireEvidenceExport (cfg_SupervisionPolicy c) \<and> \<not> cfg_EvidenceExporter c
           then [NeedsEvidenceExporter] else [])
        @ (case cfg_Evidence c of None \<Rightarrow> [] | Some ev \<Rightarrow>
           if evc_RequireSignature ev \<and> signingKey C (Some ev) = None \<and> evc_SignKeyFile ev = [] then [NeedsSigningKey] else []))"

section \<open>The authenticator\<close>

record auth_policy_bundle =
  apb_Policy :: "authorization_policy option"
  apb_Constraints :: "constraint_registry option"
  apb_Validators :: "parameter_validator_registry option"

text \<open>\<open>a_audited\<close> are the admission entries handed to the audit logger (what the logger does with an entry is
  \<open>Audit_Log\<close>), and \<open>a_pipeline\<close> keeps those of the pipeline.\<close>

record authenticator =
  a_cfg :: auth_config
  a_tlsCAs :: "certificate list option"
  a_verifier :: "jwt_verifier option"
  a_policy :: "auth_policy_bundle option"
  a_metrics :: decision_metrics
  a_pipeline :: pipeline_state
  a_evidence :: evidence_world
  a_audited :: "audit_entry list"
  a_store :: "supervision_store option \<times> file_system"

text \<open>\<open>az_VerifyLeaf\<close> is \<^verbatim>\<open>x509.Certificate.Verify\<close> for client authentication; the texts of errors and reasons, requirement
  evaluation and the event types of \<^verbatim>\<open>github.com/varwof/types\<close> are parameters.\<close>

record auth_env =
  az_jwt :: jwt_env
  az_supervision :: supervision_env
  az_VerifyLeaf :: "certificate list \<Rightarrow> certificate list \<Rightarrow> instant \<Rightarrow> certificate \<Rightarrow> string option"
  az_ParseQuery :: "string \<Rightarrow> http_header option"
  az_DenyText :: "pipeline_reason \<Rightarrow> string"
  az_BearerText :: "jwt_error \<Rightarrow> string"
  az_RecordText :: "record_error \<Rightarrow> string"
  az_ListText :: "string list \<Rightarrow> string"
  az_Evaluate :: "requirement \<Rightarrow> evidence_fact list \<Rightarrow> instant \<Rightarrow> string + requirement_result"
  az_Satisfied :: "requirement_result \<Rightarrow> bool"
  az_EventDenied :: string
  az_EventApproval :: string
  az_EventConsent :: string

record auth_call =
  cl_now :: instant
  cl_pipe :: pipeline_env
  cl_challenge :: challenge_env
  cl_sink :: sink_ops
  cl_operationID :: string
  cl_faults :: fs_faults
  cl_done :: instant

abbreviation (input) cl_pki :: "auth_call \<Rightarrow> pki_ops" where "cl_pki c \<equiv> ae_pki (pe_adm (cl_pipe c))"
abbreviation (input) cl_crypto :: "auth_call \<Rightarrow> crypto_ops" where "cl_crypto c \<equiv> ae_crypto (pe_adm (cl_pipe c))"

text \<open>What construction reads: the CA file as \<^verbatim>\<open>AppendCertsFromPEM\<close> reads it, the PEM blocks of the JWT trust root, and the
  signing key.\<close>

record material =
  mat_Pool :: "string \<Rightarrow> string + certificate list"
  mat_PEM :: "string \<Rightarrow> string + (string \<times> bytes) list"
  mat_ParseCert :: "bytes \<Rightarrow> string + certificate"
  mat_Key :: "string \<Rightarrow> string + record_signer option"
  mat_ReadFile :: "string \<Rightarrow> string + bytes"

definition loadPEMIntoPool :: "material \<Rightarrow> certificate list \<Rightarrow> string \<Rightarrow> config_error + certificate list" where
  "loadPEMIntoPool M pool path =
     (case mat_Pool M path of Inl e \<Rightarrow> Inl (CARead path e) | Inr certs \<Rightarrow>
      if certs = [] then Inl (NoCACerts path) else Inr (pool @ certs))"

definition applied_evidence :: "evidence_ops \<Rightarrow> auth_config \<Rightarrow> config_error + evidence_config option" where
  "applied_evidence X c =
     (if cfg_EvidenceProfile c = [] then Inr (cfg_Evidence c)
      else case LookupEvidenceProfile (cfg_EvidenceProfile c) of Inl e \<Rightarrow> Inl (ProfileError e) | Inr profile \<Rightarrow>
        case Apply_profile X profile (cfg_Evidence c) of Inl e \<Rightarrow> Inl (ProfileError e) | Inr ev \<Rightarrow> Inr (Some ev))"

definition client_pool :: "material \<Rightarrow> auth_config \<Rightarrow> config_error + certificate list option" where
  "client_pool M c =
     (if (authMode c = MTLSOnly \<or> authMode c = MTLSOrBearer) \<and> cfg_CACertFile c \<noteq> [] then
        (case loadPEMIntoPool M [] (cfg_CACertFile c) of Inl e \<Rightarrow> Inl e | Inr pool \<Rightarrow> Inr (Some pool))
      else Inr None)"

definition bearer_verifier :: "auth_env \<Rightarrow> material \<Rightarrow> auth_config \<Rightarrow> config_error + jwt_verifier option" where
  "bearer_verifier E M c =
     (if (authMode c = BearerOnly \<or> authMode c = MTLSOrBearer) \<and> cfg_JWTCAFile c \<noteq> [] then
        (case LoadJWTVerifier (az_jwt E) (mat_PEM M) (mat_ParseCert M) [cfg_JWTCAFile c] of
           Inl e \<Rightarrow> Inl (JWTLoad e)
         | Inr v \<Rightarrow> Inr (SetBearerPolicy (cfg_JWTIssuer c) (cfg_JWTAudience c)
                          (if replayProtection c then Some (NewReplayNonceStore 0 0) else None) v))
      else Inr None)"

text \<open>The components the configuration hands over (caches, loggers, stores, counters) are the last five fields; counters already
  created for the configuration are shared.\<close>

definition newAuthenticator ::
    "auth_env \<Rightarrow> evidence_ops \<Rightarrow> crypto_ops \<Rightarrow> material \<Rightarrow> decision_metrics \<Rightarrow> pipeline_state \<Rightarrow> evidence_world
     \<Rightarrow> supervision_store option \<times> file_system \<Rightarrow> auth_config option \<Rightarrow> config_error list + authenticator" where
  "newAuthenticator E X C M metrics pipe world store cfg =
     (case Validate_config C cfg of e # es \<Rightarrow> Inl (e # es) | [] \<Rightarrow>
      let c = the cfg in
      case applied_evidence X c of Inl e \<Rightarrow> Inl [e] | Inr ev0 \<Rightarrow>
      case resolveSigner (mat_Key M) ev0 of Inl e \<Rightarrow> Inl [SignerError e] | Inr ev \<Rightarrow>
      case client_pool M c of Inl e \<Rightarrow> Inl [e] | Inr pool \<Rightarrow>
      case bearer_verifier E M c of Inl e \<Rightarrow> Inl [e] | Inr verifier \<Rightarrow>
      if cfg_RequireUserAuth c \<and> cfg_UserCert c = None \<and> cfg_UserCertResolver c = None \<and> cfg_CACertFile c = []
      then Inl [NeedsUserCert]
      else Inr \<lparr>a_cfg = c\<lparr>cfg_Evidence := ev\<rparr>, a_tlsCAs = pool, a_verifier = verifier, a_policy = None,
                a_metrics = metrics, a_pipeline = pipe, a_evidence = world, a_audited = [], a_store = store\<rparr>)"

section \<open>Credentials\<close>

definition buildChain :: "auth_env \<Rightarrow> instant \<Rightarrow> certificate list option \<Rightarrow> certificate list \<Rightarrow> string option" where
  "buildChain E now pool chain =
     (case chain of [] \<Rightarrow> Some ''empty certificate chain'' | leaf # intermediates \<Rightarrow>
      case pool of None \<Rightarrow> Some ''mTLS CA pool not configured; client certificate cannot be verified'' | Some roots \<Rightarrow>
      case az_VerifyLeaf E roots intermediates now leaf of
        Some e \<Rightarrow> Some (''certificate chain verification failed: '' @ e)
      | None \<Rightarrow> None)"

definition resolveCredential ::
    "auth_env \<Rightarrow> auth_call \<Rightarrow> request_view \<Rightarrow> authenticator
     \<Rightarrow> (auth_error + certificate list \<times> certificate option \<times> bool) \<times> authenticator" where
  "resolveCredential E cl view a =
     (case vw_VerifiedCert view of
        Some cert \<Rightarrow> (Inr (if vw_CertChain view = [] then [cert] else vw_CertChain view, Some cert, False), a)
      | None \<Rightarrow>
          let mode = authMode (a_cfg a) in
          if vw_CertChain view \<noteq> [] \<and> (mode = MTLSOnly \<or> mode = MTLSOrBearer)
          then (Inr (vw_CertChain view, Some (hd (vw_CertChain view)), False), a)
          else if (mode = BearerOnly \<or> mode = MTLSOrBearer) \<and> vw_BearerToken view \<noteq> [] then
            (case a_verifier a of
               None \<Rightarrow> (Inl (plain_error ErrNoVerifier StatusUnauthorized ''bearer auth not configured''), a)
             | Some v \<Rightarrow>
                 if \<not> vw_TransportSecure view
                 then (Inl (plain_error ErrBearerNeedsTLS StatusUnauthorized ''bearer token requires a TLS transport''), a)
                 else case VerifyBearer (az_jwt E) (cl_pki cl) (cl_crypto cl) v (vw_BearerToken view) (cl_now cl) None of
                   (r, st) \<Rightarrow>
                     (let a' = a\<lparr>a_verifier := Some (v\<lparr>jv_nonceStore := st\<rparr>)\<rparr> in
                      case r of
                        Inl e \<Rightarrow> (Inl (plain_error ErrInvalidBearer StatusUnauthorized (''invalid bearer token: '' @ az_BearerText E e)), a')
                      | Inr (cert, _) \<Rightarrow> (Inr ([cert], Some cert, True), a')))
          else (Inr ([], None, False), a))"

text \<open>The two guards between the credential and the pipeline: without a CA pool a presented chain is refused, with one it
  is verified. A leaf that an adapter verified passes.\<close>

definition chain_guard :: "auth_env \<Rightarrow> auth_call \<Rightarrow> authenticator \<Rightarrow> request_view \<Rightarrow> certificate list \<Rightarrow> bool \<Rightarrow> auth_error option" where
  "chain_guard E cl a view chain bearer =
     (if \<not> bearer \<and> a_tlsCAs a = None \<and> length chain > 0 \<and> vw_VerifiedCert view = None
      then Some (plain_error ErrChainInvalid StatusForbidden ''client certificate presented but no mTLS CA configured to verify it'')
      else if a_tlsCAs a \<noteq> None \<and> \<not> bearer \<and> vw_VerifiedCert view = None then
        map_option (plain_error ErrChainInvalid StatusForbidden) (buildChain E (cl_now cl) (a_tlsCAs a) chain)
      else None)"

section \<open>The pipeline configuration\<close>

definition parseRawQuery :: "auth_env \<Rightarrow> string \<Rightarrow> http_header" where
  "parseRawQuery E q = (case az_ParseQuery E q of None \<Rightarrow> [] | Some vs \<Rightarrow> vs)"

definition httpFacts :: "auth_env \<Rightarrow> request_view \<Rightarrow> bytes \<Rightarrow> http_facts" where
  "httpFacts E v body =
     \<lparr>hf_Method = vw_Method v, hf_Path = vw_Path v, hf_Query = parseRawQuery E (vw_RawQuery v),
      hf_Headers = List.map_filter (\<lambda>(k, vs). case vs of [] \<Rightarrow> None | x # _ \<Rightarrow> Some (k, x)) (vw_Header v), hf_Body = body\<rparr>"

definition bundle_or :: "(auth_policy_bundle \<Rightarrow> 'a option) \<Rightarrow> authenticator \<Rightarrow> 'a option \<Rightarrow> 'a option" where
  "bundle_or field a dflt =
     (case a_policy a of None \<Rightarrow> dflt | Some b \<Rightarrow> (case field b of None \<Rightarrow> dflt | Some x \<Rightarrow> Some x))"

definition pipelineConfig :: "auth_env \<Rightarrow> authenticator \<Rightarrow> request_view \<Rightarrow> bytes \<Rightarrow> bool \<Rightarrow> pipeline_config" where
  "pipelineConfig E a view opBody bearer =
     (let c = a_cfg a in
      \<lparr>pc_CRLCache = cfg_CRLCache c, pc_AllowRoles = [], pc_CheckScope = CheckFullChain, pc_RequireAIC = cfg_RequireAIC c,
       pc_RequireSPIFFE = False, pc_AllowedSPIFFEIDs = [], pc_SPIFFETrustDomain = [], pc_RequiredProtocol = [],
       pc_RequiredRuleId = [], pc_RequiredCapabilities = cfg_RequiredCapabilities c,
       pc_Operations = cfg_RequiredOperations c, pc_UnresolvedEvaluator = cfg_UnresolvedEvaluator c,
       pc_DischargeObligations = cfg_DischargeObligations c, pc_ObligationsUnderstood = cfg_ObligationsUnderstood c,
       pc_RequireFreshDecisionContext = cfg_RequireFreshDecisionContext c, pc_DecisionContext = cfg_DecisionContext c,
       pc_DisallowRepresentative = cfg_DisallowRepresentative c, pc_RequireUserPermission = False, pc_RejectOverflow = False,
       pc_RequireUserAuth = cfg_RequireUserAuth c, pc_SkipDelegationAuthVerification = bearer,
       pc_EnforceCapSizeConstraints = False, pc_EnforceSize32 = False,
       pc_CapabilityPluginRegistry = cfg_PluginRegistry c, pc_CapabilityRegistry = cfg_CapabilityRegistry c,
       pc_CapabilityPluginResolver = None, pc_AuditLogger = cfg_AuditLogger c, pc_NonceCache = cfg_NonceCache c,
       pc_ClientIP = vw_ClientIP view, pc_UserCert = cfg_UserCert c, pc_UserCertResolver = cfg_UserCertResolver c,
       pc_EnforceConstraints = cfg_EnforceConstraints c, pc_StrictConstraints = True,
       pc_AuthorizationPolicy = bundle_or apb_Policy a (cfg_AuthorizationPolicy c),
       pc_ConstraintRegistry = bundle_or apb_Constraints a (cfg_Constraints c),
       pc_ParameterValidators = bundle_or apb_Validators a (cfg_ParameterValidators c),
       pc_PolicyServer = None, pc_CredentialBundle = None, pc_PolicyVersion = 0, pc_OfflineMaxCertLifetime = 0,
       pc_HTTPFacts = Some (httpFacts E view opBody)\<rparr>)"

section \<open>Evidence and audit\<close>

text \<open>\<^verbatim>\<open>Header.Get\<close> with a key in canonical form.\<close>

definition Header_Get :: "http_header \<Rightarrow> string \<Rightarrow> string" where
  "Header_Get h k = (case map_of h k of Some (v # _) \<Rightarrow> v | _ \<Rightarrow> [])"

definition TraceID :: "request_view \<Rightarrow> string" where
  "TraceID v = Header_Get (vw_Header v) ''X-Request-Id''"

definition admissionFacts :: "auth_call \<Rightarrow> authenticator \<Rightarrow> request_view \<Rightarrow> operation_decision list \<Rightarrow> admission_fact list" where
  "admissionFacts cl a view ods =
     (case vw_PresentedCert view of None \<Rightarrow> [] | Some leaf \<Rightarrow>
        [\<lparr>fct_Type = ''client-cert'',
          fct_Digest = \<lparr>dg_Alg = sx_SHA256 (sk_ops (cl_sink cl)), dg_Value = Sum256 (cl_crypto cl) (cert_Raw leaf)\<rparr>,
          fct_Note = ''leaf certificate presented on this connection''\<rparr>])
     @ (let ops0 = map (\<lambda>od. \<lparr>op_ID = od_ID od, op_Params = od_Params od\<rparr>) ods;
            ops = (if ops0 = [] then cfg_RequiredOperations (a_cfg a) else ops0)
        in if ops = [] then []
           else case che_DigestOperations (cl_challenge cl) ops of Inl _ \<Rightarrow> [] | Inr d \<Rightarrow>
             [\<lparr>fct_Type = ''requested-operations'', fct_Digest = d,
               fct_Note = ''operations this connection asked CLC to decide''\<rparr>])"

definition evidence_ctx ::
    "auth_call \<Rightarrow> authenticator \<Rightarrow> request_view \<Rightarrow> evidence_config \<Rightarrow> pipeline_result \<Rightarrow> string \<Rightarrow> evidence_context" where
  "evidence_ctx cl a view c result outcome =
     \<lparr>ec_Facts = admissionFacts cl a view (pr_OperationDecisions result), ec_RecorderID = evc_RecorderID c,
      ec_OperationID = [], ec_Method = vw_Method view, ec_Path = vw_Path view, ec_TraceID = TraceID view,
      ec_Principal = pr_Principal result, ec_AgentID = pr_AgentId result, ec_Serial = pr_Serial result,
      ec_Outcome = outcome, ec_At = sk_now (cl_sink cl)\<rparr>"

definition emission_config :: "auth_config \<Rightarrow> evidence_config \<Rightarrow> evidence_config" where
  "emission_config cfg c =
     (if evc_Requirement c = None then c\<lparr>evc_Requirement := cfg_EvidenceRequirement cfg\<rparr> else c)"

definition emitEvidence ::
    "auth_call \<Rightarrow> request_view \<Rightarrow> certificate \<Rightarrow> pipeline_result \<Rightarrow> string \<Rightarrow> authenticator
     \<Rightarrow> record_ref list \<times> record_error option \<times> authenticator" where
  "emitEvidence cl view cert result outcome a =
     (case cfg_Evidence (a_cfg a) of None \<Rightarrow> ([], None, a) | Some c0 \<Rightarrow>
      if pr_OperationDecisions result = [] then ([], None, a)
      else let ctx = evidence_ctx cl a view c0 result outcome; c = emission_config (a_cfg a) c0 in
        case EmitDecisionRecords (pe_adm (cl_pipe cl)) (cl_sink cl) (Some c) ctx (Some cert) (pr_AIC result)
               (pr_PrincipalAuthorization result) (cfg_UserCert (a_cfg a)) (pr_OperationDecisions result) (a_evidence a) of
          (refs, err, w) \<Rightarrow>
            (refs, err, a\<lparr>a_evidence := (case err of None \<Rightarrow> w | Some e \<Rightarrow> note_gap c ctx e w)\<rparr>))"

definition auditAdmission ::
    "auth_env \<Rightarrow> auth_call \<Rightarrow> request_view \<Rightarrow> certificate \<Rightarrow> record_ref list \<Rightarrow> bool \<Rightarrow> string \<Rightarrow> authenticator \<Rightarrow> authenticator" where
  "auditAdmission E cl view cert refs denied reason a =
     (if \<not> cfg_AuditLogger (a_cfg a) \<or> refs = [] then a
      else let e0 = NewAuditEntryFromConn (cl_pki cl) (cl_crypto cl) (jw_OIDAIC (az_jwt E)) (vw_ClientIP view) (vw_Method view)
                      (vw_Path view) (Some cert);
               e1 = (if denied then e0\<lparr>ent_Action := ActionDenied, ent_DenyReason := reason\<rparr> else e0)
           in a\<lparr>a_audited := a_audited a
                 @ [e1\<lparr>ent_TraceId := TraceID view, ent_RecordDigest := ref_Digest (hd refs)\<rparr>]\<rparr>)"

definition strict_evidence :: "authenticator \<Rightarrow> bool" where
  "strict_evidence a = (case cfg_Evidence (a_cfg a) of None \<Rightarrow> False | Some c \<Rightarrow> evc_Strict c)"

section \<open>Evidence sufficiency\<close>

definition presented_facts :: "authenticator \<Rightarrow> request_view \<Rightarrow> auth_context \<Rightarrow> string + evidence_fact list" where
  "presented_facts a view ac =
     (case vw_EvidenceFactsWith view of Some f \<Rightarrow> f ac | None \<Rightarrow>
      case cfg_EvidenceFacts (a_cfg a) of Some f \<Rightarrow> f (vw_HTTPAdapter view) ac | None \<Rightarrow> Inr [])"

definition checkEvidenceRequirement ::
    "auth_env \<Rightarrow> auth_call \<Rightarrow> request_view \<Rightarrow> auth_context \<Rightarrow> authenticator \<Rightarrow> auth_error + auth_context" where
  "checkEvidenceRequirement E cl view ac a =
     (case cfg_EvidenceRequirement (a_cfg a) of None \<Rightarrow> Inr ac | Some req \<Rightarrow>
      case sx_ValidateRequirement (sk_ops (cl_sink cl)) req of
        Some e \<Rightarrow> Inl (plain_error ErrConfig StatusForbidden (''evidence_requirement_invalid: '' @ e))
      | None \<Rightarrow>
      case presented_facts a view ac of
        Inl e \<Rightarrow> Inl (plain_error ErrDenied StatusForbidden (''evidence_facts_unavailable: '' @ e))
      | Inr facts \<Rightarrow>
      case az_Evaluate E req facts (che_now (cl_challenge cl)) of
        Inl e \<Rightarrow> Inl (plain_error ErrDenied StatusForbidden (''evidence_requirement_error: '' @ e))
      | Inr sat \<Rightarrow>
          if az_Satisfied E sat then Inr (ac\<lparr>ctx_Satisfaction := Some sat\<rparr>)
          else Inl ((plain_error ErrDenied StatusForbidden (''evidence '' @ rr_Verdict sat @ '' for requirement '' @ req_ID req
                        @ '' (missing roles: '' @ az_ListText E (rr_MissingRoles sat) @ '')''))
                     \<lparr>aer_Problem :=
                        (case evidenceProblem (cl_challenge cl) (cfg_Challenges (a_cfg a)) (cfg_RequiredOperations (a_cfg a))
                                (Some (vw_Method view, vw_Path view)) req sat of
                           Inl _ \<Rightarrow> None | Inr p \<Rightarrow> p),
                      aer_Satisfaction := Some sat\<rparr>))"

section \<open>Supervision\<close>

definition NewSummaryFromBody :: "crypto_ops \<Rightarrow> bytes \<Rightarrow> string" where
  "NewSummaryFromBody C body =
     (if body = [] then []
      else ''sha256:'' @ EncodeToString (Sum256 C body) @ '';bytes:'' @ dec_nat (length body))"

definition needRuntimeApproval :: "auth_config \<Rightarrow> auth_context \<Rightarrow> http_request \<Rightarrow> bool" where
  "needRuntimeApproval c ac r = (case cfg_RequireApproval c of None \<Rightarrow> False | Some f \<Rightarrow> f ac r)"

definition needs_approval :: "authenticator \<Rightarrow> request_view \<Rightarrow> auth_context \<Rightarrow> bool" where
  "needs_approval a view ac =
     (case vw_RequireApprovalWith view of Some f \<Rightarrow> f ac | None \<Rightarrow>
      case vw_HTTPAdapter view of Some r \<Rightarrow> needRuntimeApproval (a_cfg a) ac r | None \<Rightarrow> False)"

definition risk_of :: "auth_call \<Rightarrow> request_view \<Rightarrow> auth_context \<Rightarrow> bytes \<Rightarrow> risk_assessment" where
  "risk_of cl view ac opBody =
     \<lparr>ras_OperationID = cl_operationID cl, ras_AgentID = ctx_AgentID ac, ras_PrincipalUid = ctx_Principal ac,
      ras_DAHash = DAHash (cl_pki cl) (cl_crypto cl) (Some (ctx_ClientCert ac)), ras_Capabilities = ctx_Capabilities ac,
      ras_Operation = vw_Method view @ '' '' @ vw_Path view, ras_RequestedParams = NewSummaryFromBody (cl_crypto cl) opBody\<rparr>"

definition requestApproval :: "auth_config \<Rightarrow> risk_assessment \<Rightarrow> string + supervision_result option" where
  "requestApproval c risk = (case cfg_ApprovalRequester c of None \<Rightarrow> Inr None | Some f \<Rightarrow> f risk)"

text \<open>A failure to persist the event changes nothing.\<close>

definition noteSupervision ::
    "auth_env \<Rightarrow> auth_call \<Rightarrow> string \<Rightarrow> risk_assessment \<Rightarrow> string \<Rightarrow> string \<Rightarrow> authenticator \<Rightarrow> authenticator" where
  "noteSupervision E cl ty risk actor reason a =
     (case fst (a_store a) of None \<Rightarrow> a | Some _ \<Rightarrow>
      let ev = \<lparr>sv_Type = ty, sv_Source = ''aic-verifier'', sv_OperationID = ras_OperationID risk, sv_DaHash = ras_DAHash risk,
                sv_AgentID = ras_AgentID risk, sv_Actor = actor, sv_Reason = reason,
                sv_Decision = (if ty = az_EventApproval E \<or> ty = az_EventConsent E then SupervisionDecisionApproved
                               else SupervisionDecisionDenied),
                sv_Ts = cl_done cl, sv_EvidenceRef = []\<rparr>
      in a\<lparr>a_store := snd (store_Record (az_supervision E) (cl_faults cl) ev (a_store a))\<rparr>)"

definition supervise ::
    "auth_env \<Rightarrow> auth_call \<Rightarrow> request_view \<Rightarrow> auth_context \<Rightarrow> bytes \<Rightarrow> authenticator \<Rightarrow> auth_error option \<times> authenticator" where
  "supervise E cl view ac opBody a =
     (if \<not> needs_approval a view ac then (None, a)
      else let risk = risk_of cl view ac opBody; refused = Some (plain_error ErrDenied StatusForbidden ''approval_required'') in
        case requestApproval (a_cfg a) risk of
          Inl e \<Rightarrow> (refused, noteSupervision E cl (az_EventDenied E) risk ''aic-verifier'' (''approval_required: '' @ e) a)
        | Inr sr \<Rightarrow>
            if \<not> Approved sr then
              (let (actor, reason) = (case sr of None \<Rightarrow> (''aic-verifier'', []) | Some s \<Rightarrow> (sr_Approver s, sr_Reason s))
               in (refused, noteSupervision E cl (az_EventDenied E) risk actor (''approval_required: '' @ reason) a))
            else (None, noteSupervision E cl (az_EventApproval E) risk (sr_Approver (the sr)) (sr_Reason (the sr)) a))"

section \<open>The decision\<close>

definition evidence_unavailable :: "auth_env \<Rightarrow> record_error \<Rightarrow> record_ref list \<Rightarrow> auth_error" where
  "evidence_unavailable E e refs =
     (plain_error ErrDenied StatusForbidden (''evidence_unavailable: '' @ az_RecordText E e))\<lparr>aer_Evidence := refs\<rparr>"

definition refuse_decision ::
    "auth_env \<Rightarrow> auth_call \<Rightarrow> request_view \<Rightarrow> certificate \<Rightarrow> pipeline_result \<Rightarrow> authenticator \<Rightarrow> auth_error \<times> authenticator" where
  "refuse_decision E cl view cert result a =
     (case emitEvidence cl view cert result EvidenceRefused a of (refs, err, a1) \<Rightarrow>
      let reason = az_DenyText E (pr_DenyReason result);
          a2 = auditAdmission E cl view cert refs True reason a1
      in if err \<noteq> None \<and> strict_evidence a then (evidence_unavailable E (the err) refs, a2)
         else ((plain_error ErrDenied StatusForbidden reason)
                 \<lparr>aer_Evidence := refs,
                  aer_Problem := (case problemForResult (cl_challenge cl) (Some result) (cfg_Challenges (a_cfg a)) reason of
                                    Inl _ \<Rightarrow> None | Inr p \<Rightarrow> p)\<rparr>, a2))"

definition context_capabilities :: "pipeline_result \<Rightarrow> string list" where
  "context_capabilities result =
     (case pr_AIC result of Some i \<Rightarrow> map CapabilityId (aic_Capabilities i) | None \<Rightarrow>
      case pr_PrincipalAuthorization result of Some pa \<Rightarrow> map CapabilityId (pa_Grants pa) | None \<Rightarrow> [])"

definition context_of :: "certificate \<Rightarrow> bool \<Rightarrow> record_ref list \<Rightarrow> pipeline_result \<Rightarrow> auth_context" where
  "context_of cert bearer refs result =
     \<lparr>ctx_ClientCert = cert, ctx_Principal = pr_Principal result, ctx_AgentID = pr_AgentId result,
      ctx_SPIFFEID = pr_SPIFFEID result, ctx_Roles = pr_ResultRoles result, ctx_Capabilities = context_capabilities result,
      ctx_AIC = pr_AIC result, ctx_Bearer = bearer, ctx_Serial = pr_Serial result, ctx_Verdict = pr_CLCVerdict result,
      ctx_Reason = pr_CLCReason result, ctx_Unresolved = pr_CLCUnresolved result,
      ctx_OperationDecisions = pr_OperationDecisions result, ctx_Evidence = refs, ctx_Satisfaction = None\<rparr>"

definition admit_decision ::
    "auth_env \<Rightarrow> auth_call \<Rightarrow> request_view \<Rightarrow> certificate \<Rightarrow> bool \<Rightarrow> pipeline_result \<Rightarrow> authenticator
     \<Rightarrow> (auth_error + auth_context) \<times> authenticator" where
  "admit_decision E cl view cert bearer result a =
     (case emitEvidence cl view cert result EvidenceAdmitted a of (refs, err, a1) \<Rightarrow>
      if err \<noteq> None \<and> strict_evidence a then (Inl (evidence_unavailable E (the err) refs), a1)
      else let a2 = auditAdmission E cl view cert refs False [] a1; ac = context_of cert bearer refs result in
        case checkEvidenceRequirement E cl view ac a2 of Inl e \<Rightarrow> (Inl e, a2) | Inr ac' \<Rightarrow>
        case supervise E cl view ac' (vw_Body view) a2 of
          (Some e, a3) \<Rightarrow> (Inl e, a3)
        | (None, a3) \<Rightarrow> (Inr ac', a3))"

definition decide ::
    "auth_env \<Rightarrow> auth_call \<Rightarrow> request_view option \<Rightarrow> authenticator \<Rightarrow> (auth_error + auth_context) \<times> authenticator" where
  "decide E cl view_opt a =
     (let view = (case view_opt of None \<Rightarrow> zero_view | Some v \<Rightarrow> v) in
      case resolveCredential E cl view a of
        (Inl e, a1) \<Rightarrow> (Inl e, a1)
      | (Inr (chain, None, bearer), a1) \<Rightarrow>
          (Inl (plain_error ErrNoCredential StatusUnauthorized ''no client credential presented''), a1)
      | (Inr (chain, Some cert, bearer), a1) \<Rightarrow>
          (case chain_guard E cl a1 view chain bearer of Some e \<Rightarrow> (Inl e, a1) | None \<Rightarrow>
           case RunAccessPipeline (cl_pipe cl) chain (pipelineConfig E a1 view (vw_Body view) bearer) (a_pipeline a1) of
             (result, ps) \<Rightarrow>
               (let a2 = a1\<lparr>a_pipeline := ps\<rparr> in
                if \<not> pr_Granted result
                then (case refuse_decision E cl view cert result a2 of (e, a3) \<Rightarrow> (Inl e, a3))
                else admit_decision E cl view cert bearer result a2)))"

definition Decide ::
    "auth_env \<Rightarrow> auth_call \<Rightarrow> request_view option \<Rightarrow> authenticator \<Rightarrow> (auth_error + auth_context) \<times> authenticator" where
  "Decide E cl view a =
     (case decide E cl view (a\<lparr>a_metrics := (a_metrics a)\<lparr>dm_DecideTotal := dm_DecideTotal (a_metrics a) + 1\<rparr>\<rparr>) of
        (r, a') \<Rightarrow> (r, a'\<lparr>a_metrics := noteResult (cl_done cl) (isl r) (a_metrics a')\<rparr>))"

section \<open>What a step may change\<close>

lemma emitEvidence_frame:
  assumes "emitEvidence cl view cert result outcome a = (refs, err, a')"
  shows "a_cfg a' = a_cfg a \<and> a_tlsCAs a' = a_tlsCAs a \<and> a_policy a' = a_policy a \<and> a_verifier a' = a_verifier a
    \<and> a_metrics a' = a_metrics a \<and> a_pipeline a' = a_pipeline a \<and> a_audited a' = a_audited a \<and> a_store a' = a_store a"
  using assms by (auto simp: emitEvidence_def Let_def split: option.splits if_splits prod.splits)

lemma auditAdmission_simps [simp]:
  "a_cfg (auditAdmission E cl view cert refs denied reason a) = a_cfg a"
  "a_tlsCAs (auditAdmission E cl view cert refs denied reason a) = a_tlsCAs a"
  "a_policy (auditAdmission E cl view cert refs denied reason a) = a_policy a"
  "a_verifier (auditAdmission E cl view cert refs denied reason a) = a_verifier a"
  "a_metrics (auditAdmission E cl view cert refs denied reason a) = a_metrics a"
  "a_pipeline (auditAdmission E cl view cert refs denied reason a) = a_pipeline a"
  "a_evidence (auditAdmission E cl view cert refs denied reason a) = a_evidence a"
  "a_store (auditAdmission E cl view cert refs denied reason a) = a_store a"
  by (simp_all add: auditAdmission_def Let_def)

lemma noteSupervision_simps [simp]:
  "a_cfg (noteSupervision E cl ty risk actor reason a) = a_cfg a"
  "a_tlsCAs (noteSupervision E cl ty risk actor reason a) = a_tlsCAs a"
  "a_policy (noteSupervision E cl ty risk actor reason a) = a_policy a"
  "a_verifier (noteSupervision E cl ty risk actor reason a) = a_verifier a"
  "a_metrics (noteSupervision E cl ty risk actor reason a) = a_metrics a"
  "a_pipeline (noteSupervision E cl ty risk actor reason a) = a_pipeline a"
  "a_evidence (noteSupervision E cl ty risk actor reason a) = a_evidence a"
  "a_audited (noteSupervision E cl ty risk actor reason a) = a_audited a"
  by (simp_all add: noteSupervision_def Let_def split: option.splits)

text \<open>The part of the authenticator that a decision leaves alone once the credential is resolved.\<close>

definition same_setup :: "authenticator \<Rightarrow> authenticator \<Rightarrow> bool" where
  "same_setup a a' \<longleftrightarrow> a_cfg a' = a_cfg a \<and> a_tlsCAs a' = a_tlsCAs a \<and> a_policy a' = a_policy a \<and> a_metrics a' = a_metrics a"

lemma supervise_frame:
  assumes "supervise E cl view ac body a = (e, a')"
  shows "same_setup a a' \<and> a_verifier a' = a_verifier a \<and> a_pipeline a' = a_pipeline a \<and> a_evidence a' = a_evidence a
    \<and> a_audited a' = a_audited a"
  using assms by (auto simp: supervise_def Let_def same_setup_def split: sum.splits if_splits option.splits)

lemma refuse_decision_frame:
  assumes "refuse_decision E cl view cert result a = (e, a')"
  shows "same_setup a a' \<and> a_verifier a' = a_verifier a \<and> a_pipeline a' = a_pipeline a"
proof -
  obtain refs err a1 where em: "emitEvidence cl view cert result EvidenceRefused a = (refs, err, a1)" by (metis prod_cases3)
  with assms have "a' = auditAdmission E cl view cert refs True (az_DenyText E (pr_DenyReason result)) a1"
    by (simp add: refuse_decision_def Let_def split: if_splits)
  then show ?thesis using emitEvidence_frame[OF em] by (simp add: same_setup_def)
qed

lemma admit_decision_cases:
  assumes "admit_decision E cl view cert bearer result a = (r, a')"
  obtains (unavailable) refs err where "emitEvidence cl view cert result EvidenceAdmitted a = (refs, Some err, a')"
      "strict_evidence a" "r = Inl (evidence_unavailable E err refs)"
  | (insufficient) refs err a1 e where "emitEvidence cl view cert result EvidenceAdmitted a = (refs, err, a1)"
      "a' = auditAdmission E cl view cert refs False [] a1"
      "checkEvidenceRequirement E cl view (context_of cert bearer refs result) a' = Inl e" "r = Inl e"
  | (unapproved) refs err a1 ac e where "emitEvidence cl view cert result EvidenceAdmitted a = (refs, err, a1)"
      "checkEvidenceRequirement E cl view (context_of cert bearer refs result) (auditAdmission E cl view cert refs False [] a1) = Inr ac"
      "supervise E cl view ac (vw_Body view) (auditAdmission E cl view cert refs False [] a1) = (Some e, a')" "r = Inl e"
  | (admitted) refs err a1 ac where "emitEvidence cl view cert result EvidenceAdmitted a = (refs, err, a1)"
      "strict_evidence a \<longrightarrow> err = None"
      "checkEvidenceRequirement E cl view (context_of cert bearer refs result) (auditAdmission E cl view cert refs False [] a1) = Inr ac"
      "supervise E cl view ac (vw_Body view) (auditAdmission E cl view cert refs False [] a1) = (None, a')" "r = Inr ac"
proof -
  obtain refs err a1 where em: "emitEvidence cl view cert result EvidenceAdmitted a = (refs, err, a1)" by (metis prod_cases3)
  let ?a2 = "auditAdmission E cl view cert refs False [] a1"
  show thesis
  proof (cases "err \<noteq> None \<and> strict_evidence a")
    case True
    then show ?thesis using assms em that(1) by (auto simp: admit_decision_def)
  next
    case ok: False
    then have run: "(case checkEvidenceRequirement E cl view (context_of cert bearer refs result) ?a2 of Inl e \<Rightarrow> (Inl e, ?a2)
        | Inr ac' \<Rightarrow> (case supervise E cl view ac' (vw_Body view) ?a2 of (Some e, a3) \<Rightarrow> (Inl e, a3) | (None, a3) \<Rightarrow> (Inr ac', a3))) = (r, a')"
      using assms em unfolding admit_decision_def Let_def by (auto split: if_splits)
    show ?thesis
    proof (cases "checkEvidenceRequirement E cl view (context_of cert bearer refs result) ?a2")
      case (Inl e)
      then have "a' = ?a2" "r = Inl e" using run by auto
      then show ?thesis using Inl by (intro that(2)[OF em]) simp_all
    next
      case (Inr ac)
      obtain s a3 where sup: "supervise E cl view ac (vw_Body view) ?a2 = (s, a3)" by fastforce
      then have "a3 = a'" "r = (case s of Some e \<Rightarrow> Inl e | None \<Rightarrow> Inr ac)" using run Inr by (auto split: option.splits)
      then show ?thesis
        using sup ok that(3)[OF em Inr] that(4)[OF em _ Inr] by (cases s) auto
    qed
  qed
qed

lemma admit_decision_frame:
  assumes "admit_decision E cl view cert bearer result a = (r, a')"
  shows "same_setup a a' \<and> a_verifier a' = a_verifier a \<and> a_pipeline a' = a_pipeline a"
  using assms
  by (cases rule: admit_decision_cases) (use emitEvidence_frame supervise_frame in \<open>fastforce simp: same_setup_def\<close>)+

lemma resolveCredential_frame:
  assumes "resolveCredential E cl view a = (r, a')"
  shows "same_setup a a' \<and> a_pipeline a' = a_pipeline a"
  using assms
  by (auto simp: resolveCredential_def Let_def same_setup_def split: option.splits if_splits prod.splits sum.splits)

text \<open>The cases of a decision.\<close>

lemma decide_cases:
  assumes "decide E cl (Some view) a = (r, a')"
  obtains (credential) e where "resolveCredential E cl view a = (Inl e, a')" "r = Inl e"
  | (none) chain bearer where "resolveCredential E cl view a = (Inr (chain, None, bearer), a')"
      "r = Inl (plain_error ErrNoCredential StatusUnauthorized ''no client credential presented'')"
  | (chain) chain cert bearer e where "resolveCredential E cl view a = (Inr (chain, Some cert, bearer), a')"
      "chain_guard E cl a' view chain bearer = Some e" "r = Inl e"
  | (refused) chain cert bearer a1 result ps e where "resolveCredential E cl view a = (Inr (chain, Some cert, bearer), a1)"
      "chain_guard E cl a1 view chain bearer = None"
      "RunAccessPipeline (cl_pipe cl) chain (pipelineConfig E a1 view (vw_Body view) bearer) (a_pipeline a1) = (result, ps)"
      "\<not> pr_Granted result" "refuse_decision E cl view cert result (a1\<lparr>a_pipeline := ps\<rparr>) = (e, a')" "r = Inl e"
  | (granted) chain cert bearer a1 result ps where "resolveCredential E cl view a = (Inr (chain, Some cert, bearer), a1)"
      "chain_guard E cl a1 view chain bearer = None"
      "RunAccessPipeline (cl_pipe cl) chain (pipelineConfig E a1 view (vw_Body view) bearer) (a_pipeline a1) = (result, ps)"
      "pr_Granted result" "admit_decision E cl view cert bearer result (a1\<lparr>a_pipeline := ps\<rparr>) = (r, a')"
proof -
  obtain c a1 where res: "resolveCredential E cl view a = (c, a1)" by fastforce
  show thesis
  proof (cases c)
    case (Inl e)
    then show ?thesis using assms res that(1) by (simp add: decide_def)
  next
    case (Inr t)
    obtain chain copt bearer where t: "t = (chain, copt, bearer)" by (cases t) auto
    show ?thesis
    proof (cases copt)
      case None
      then show ?thesis using assms res Inr t that(2) by (simp add: decide_def)
    next
      case (Some cert)
      show ?thesis
      proof (cases "chain_guard E cl a1 view chain bearer")
        case g: (Some e)
        then show ?thesis using assms res Inr t Some that(3) by (simp add: decide_def)
      next
        case g: None
        obtain result ps where run: "RunAccessPipeline (cl_pipe cl) chain (pipelineConfig E a1 view (vw_Body view) bearer) (a_pipeline a1) = (result, ps)"
          by fastforce
        obtain e a3 where ref: "refuse_decision E cl view cert result (a1\<lparr>a_pipeline := ps\<rparr>) = (e, a3)" by fastforce
        show ?thesis
          using assms res Inr t Some g run ref that(4,5) by (cases "pr_Granted result") (simp_all add: decide_def Let_def)
      qed
    qed
  qed
qed

lemma decide_frame:
  assumes "decide E cl (Some view) a = (r, a')"
  shows "same_setup a a'"
  using assms
proof (cases rule: decide_cases)
  case (refused chain cert bearer a1 result ps e)
  then show ?thesis using resolveCredential_frame[OF refused(1)] refuse_decision_frame[OF refused(5)] by (auto simp: same_setup_def)
next
  case (granted chain cert bearer a1 result ps)
  then show ?thesis using resolveCredential_frame[OF granted(1)] admit_decision_frame[OF granted(5)] by (auto simp: same_setup_def)
qed (use resolveCredential_frame in blast)+

section \<open>Credentials that pass\<close>

text \<open>A credential counts as verified when an adapter vouches for its leaf, when the chain verifies against the configured
  roots, or when the token was accepted over a protected transport.\<close>

definition credential_verified ::
    "auth_env \<Rightarrow> auth_call \<Rightarrow> authenticator \<Rightarrow> request_view \<Rightarrow> certificate list \<Rightarrow> certificate \<Rightarrow> bool \<Rightarrow> bool" where
  "credential_verified E cl a view chain cert bearer \<longleftrightarrow>
     (if vw_VerifiedCert view \<noteq> None then vw_VerifiedCert view = Some cert \<and> \<not> bearer
      else if bearer then
        vw_TransportSecure view \<and> vw_BearerToken view \<noteq> [] \<and> authMode (a_cfg a) \<noteq> MTLSOnly \<and> chain = [cert]
        \<and> (\<exists>v outer st. a_verifier a = Some v
             \<and> VerifyBearer (az_jwt E) (cl_pki cl) (cl_crypto cl) v (vw_BearerToken view) (cl_now cl) None = (Inr (cert, outer), st))
      else authMode (a_cfg a) \<noteq> BearerOnly \<and> chain = vw_CertChain view \<and> chain \<noteq> [] \<and> cert = hd chain
        \<and> (\<exists>roots. a_tlsCAs a = Some roots \<and> az_VerifyLeaf E roots (tl chain) (cl_now cl) cert = None))"

lemma resolveCredential_Some:
  assumes "resolveCredential E cl view a = (Inr (chain, Some cert, bearer), a1)"
  obtains (adapter) "vw_VerifiedCert view = Some cert" "\<not> bearer" "a1 = a"
  | (mtls) "vw_VerifiedCert view = None" "\<not> bearer" "a1 = a" "authMode (a_cfg a) \<noteq> BearerOnly" "chain = vw_CertChain view"
      "chain \<noteq> []" "cert = hd chain"
  | (bearer) v outer st where "vw_VerifiedCert view = None" "bearer" "vw_TransportSecure view" "vw_BearerToken view \<noteq> []"
      "authMode (a_cfg a) \<noteq> MTLSOnly" "chain = [cert]" "a_verifier a = Some v"
      "VerifyBearer (az_jwt E) (cl_pki cl) (cl_crypto cl) v (vw_BearerToken view) (cl_now cl) None = (Inr (cert, outer), st)"
      "a1 = a\<lparr>a_verifier := Some (v\<lparr>jv_nonceStore := st\<rparr>)\<rparr>"
proof (cases "vw_VerifiedCert view")
  case (Some c)
  then show ?thesis using assms that(1) by (simp add: resolveCredential_def)
next
  case none: None
  let ?mode = "authMode (a_cfg a)"
  show ?thesis
  proof (cases "vw_CertChain view \<noteq> [] \<and> (?mode = MTLSOnly \<or> ?mode = MTLSOrBearer)")
    case True
    then have "?mode \<noteq> BearerOnly" by (auto simp: MTLSOnly_def BearerOnly_def MTLSOrBearer_def)
    then show ?thesis using assms none True that(2) by (auto simp: resolveCredential_def Let_def)
  next
    case False
    with assms none have tok: "(?mode = BearerOnly \<or> ?mode = MTLSOrBearer) \<and> vw_BearerToken view \<noteq> []"
      by (auto simp: resolveCredential_def Let_def split: if_splits)
    then have "?mode \<noteq> MTLSOnly" by (auto simp: MTLSOnly_def BearerOnly_def MTLSOrBearer_def)
    obtain v where v: "a_verifier a = Some v" "vw_TransportSecure view"
      using assms none False tok by (cases "a_verifier a") (auto simp: resolveCredential_def Let_def split: if_splits)
    obtain r st where run: "VerifyBearer (az_jwt E) (cl_pki cl) (cl_crypto cl) v (vw_BearerToken view) (cl_now cl) None = (r, st)"
      by fastforce
    have "resolveCredential E cl view a = (let a' = a\<lparr>a_verifier := Some (v\<lparr>jv_nonceStore := st\<rparr>)\<rparr> in
        case r of Inl e \<Rightarrow> (Inl (plain_error ErrInvalidBearer StatusUnauthorized (''invalid bearer token: '' @ az_BearerText E e)), a')
        | Inr (cert, _) \<Rightarrow> (Inr ([cert], Some cert, True), a'))"
      using none False tok v run unfolding resolveCredential_def Let_def by auto
    with assms obtain outer where "r = Inr (cert, outer)" "bearer" "chain = [cert]"
        "a1 = a\<lparr>a_verifier := Some (v\<lparr>jv_nonceStore := st\<rparr>)\<rparr>"
      by (cases r) (auto simp: Let_def)
    then show ?thesis using none tok v run \<open>?mode \<noteq> MTLSOnly\<close> by (intro that(3)[of v outer st]) simp_all
  qed
qed

lemma guarded_credential:
  assumes "resolveCredential E cl view a = (Inr (chain, Some cert, bearer), a1)" "chain_guard E cl a1 view chain bearer = None"
  shows "credential_verified E cl a view chain cert bearer"
  using assms(1)
proof (cases rule: resolveCredential_Some)
  case adapter
  then show ?thesis by (simp add: credential_verified_def)
next
  case mtls
  obtain leaf rest where chain: "chain = leaf # rest" using mtls(6) by (meson neq_Nil_conv)
  have "\<exists>roots. a_tlsCAs a = Some roots \<and> az_VerifyLeaf E roots rest (cl_now cl) leaf = None"
    using assms(2) mtls(1-3) unfolding chain chain_guard_def buildChain_def by (auto split: if_splits option.splits)
  then have "\<exists>roots. a_tlsCAs a = Some roots \<and> az_VerifyLeaf E roots (tl chain) (cl_now cl) (hd chain) = None" by (simp add: chain)
  with mtls show ?thesis by (simp add: credential_verified_def)
next
  case (bearer v outer st)
  then show ?thesis by (auto simp: credential_verified_def)
qed

lemma pipelineConfig_scope [simp]:
  "pc_CheckScope (pipelineConfig E a view body bearer) = CheckFullChain"
  by (simp add: pipelineConfig_def Let_def)

lemma checkEvidenceRequirement_Inr:
  assumes "checkEvidenceRequirement E cl view ac a = Inr ac'"
  shows "ac' = ac\<lparr>ctx_Satisfaction := ctx_Satisfaction ac'\<rparr>
    \<and> (\<forall>req. cfg_EvidenceRequirement (a_cfg a) = Some req \<longrightarrow>
        (\<exists>facts sat. presented_facts a view ac = Inr facts \<and> az_Evaluate E req facts (che_now (cl_challenge cl)) = Inr sat
           \<and> az_Satisfied E sat \<and> ctx_Satisfaction ac' = Some sat))"
proof (cases "cfg_EvidenceRequirement (a_cfg a)")
  case None
  then show ?thesis using assms by (simp add: checkEvidenceRequirement_def)
next
  case (Some req)
  then have ok: "sx_ValidateRequirement (sk_ops (cl_sink cl)) req = None"
    using assms unfolding checkEvidenceRequirement_def by (cases "sx_ValidateRequirement (sk_ops (cl_sink cl)) req") simp_all
  then obtain facts where f: "presented_facts a view ac = Inr facts"
    using assms Some unfolding checkEvidenceRequirement_def by (cases "presented_facts a view ac") simp_all
  then obtain sat where "az_Evaluate E req facts (che_now (cl_challenge cl)) = Inr sat"
    using assms Some ok unfolding checkEvidenceRequirement_def by (cases "az_Evaluate E req facts (che_now (cl_challenge cl))") simp_all
  then show ?thesis
    using assms Some ok f unfolding checkEvidenceRequirement_def by (cases "az_Satisfied E sat") auto
qed

lemma supervise_None:
  assumes "supervise E cl view ac body a = (None, a')" "needs_approval a view ac"
  shows "\<exists>sr. requestApproval (a_cfg a) (risk_of cl view ac body) = Inr (Some sr) \<and> sr_Decision sr = SupervisionDecisionApproved"
  using assms by (auto simp: supervise_def Let_def Approved_def split: sum.splits if_splits option.splits)

lemma presented_facts_cfg: "a_cfg a = a_cfg b \<Longrightarrow> presented_facts a = presented_facts b"
  by (intro ext) (simp add: presented_facts_def split: option.splits)

lemma needs_approval_cfg: "a_cfg a = a_cfg b \<Longrightarrow> needs_approval a = needs_approval b"
  by (intro ext) (simp add: needs_approval_def split: option.splits)

lemma complete_emission:
  assumes "EmitDecisionRecords A K (Some c) ctx cert aic_opt pa_opt userCert ops w = (refs, None, w')"
    and "\<not> evc_profileNoDecision c" "builtin_sink (evc_Sink c)"
  shows "length refs = length ops * length (evidenceRecorders (ae_pki A) (ae_clc A) aic_opt pa_opt)"
proof (cases "ops = [] \<or> evidenceRecorders (ae_pki A) (ae_clc A) aic_opt pa_opt = []")
  case True
  then show ?thesis using assms(1) by (auto simp: EmitDecisionRecords_def Let_def split: if_splits)
next
  case False
  then show ?thesis
    using emit_loop_exact[OF assms(3), of K] assms(1,2)
    by (fastforce simp: EmitDecisionRecords_def Let_def length_concat comp_def sum_list_triv)
qed

text \<open>The path of an admitted request.\<close>

lemma decide_admitted:
  assumes "decide E cl (Some view) a = (Inr ac, a')"
  obtains chain cert bearer a1 result ps refs err a2 where
    "resolveCredential E cl view a = (Inr (chain, Some cert, bearer), a1)" "chain_guard E cl a1 view chain bearer = None"
    "RunAccessPipeline (cl_pipe cl) chain (pipelineConfig E a1 view (vw_Body view) bearer) (a_pipeline a1) = (result, ps)"
    "pr_Granted result" "same_setup a a2"
    "emitEvidence cl view cert result EvidenceAdmitted (a1\<lparr>a_pipeline := ps\<rparr>) = (refs, err, a2)"
    "strict_evidence a \<longrightarrow> err = None"
    "checkEvidenceRequirement E cl view (context_of cert bearer refs result) (auditAdmission E cl view cert refs False [] a2) = Inr ac"
    "supervise E cl view ac (vw_Body view) (auditAdmission E cl view cert refs False [] a2) = (None, a')"
  using assms
proof (cases rule: decide_cases)
  case (granted chain cert bearer a1 result ps)
  have "same_setup a a1" using resolveCredential_frame[OF granted(1)] by blast
  from granted(5) show ?thesis
  proof (cases rule: admit_decision_cases)
    case (admitted refs err a2 ac')
    have "same_setup a a2" "strict_evidence a \<longrightarrow> err = None"
      using emitEvidence_frame[OF admitted(1)] \<open>same_setup a a1\<close> admitted(2) by (simp_all add: same_setup_def strict_evidence_def)
    then show ?thesis using that[OF granted(1-4) _ admitted(1)] admitted by simp
  qed simp_all
qed simp_all

section \<open>Decisions as a replay store\<close>

text \<open>A presentation is a call with its view, at a time; it counts as accepted when a bearer credential is admitted.\<close>

definition decide_check :: "auth_env \<Rightarrow> instant \<Rightarrow> auth_call \<times> request_view \<Rightarrow> authenticator \<Rightarrow> bool \<times> authenticator" where
  "decide_check E t p a =
     (case Decide E ((fst p)\<lparr>cl_now := t\<rparr>) (Some (snd p)) a of
        (r, a') \<Rightarrow> ((case r of Inl _ \<Rightarrow> False | Inr ac \<Rightarrow> ctx_Bearer ac), a'))"

definition view_jti :: "auth_env \<Rightarrow> auth_call \<times> request_view \<Rightarrow> string" where
  "view_jti E p = jti_of (az_jwt E) (vw_BearerToken (snd p))"

definition auth_marker :: "authenticator \<Rightarrow> string \<Rightarrow> instant option" where
  "auth_marker a n = (case a_verifier a of None \<Rightarrow> None | Some v \<Rightarrow> bearer_marker v n)"

definition auth_ttl :: "authenticator \<Rightarrow> duration" where
  "auth_ttl a = (case a_verifier a of None \<Rightarrow> 0 | Some v \<Rightarrow> bearer_ttl v)"

definition auth_valid :: "auth_env \<Rightarrow> authenticator \<Rightarrow> bool" where
  "auth_valid E a \<longleftrightarrow> (\<exists>v. a_verifier a = Some v \<and> bearer_valid (az_jwt E) v)"

lemma resolveCredential_verifier:
  assumes "resolveCredential E cl view a = (r, a1)" "a_verifier a = Some v"
  shows "a_verifier a1 = Some v \<or> (\<exists>ok v'. a_verifier a1 = Some v'
    \<and> bearer_check (az_jwt E) (cl_pki cl) (cl_crypto cl) (cl_now cl) (vw_BearerToken view) v = (ok, v') \<and> (\<not> isl r \<longrightarrow> ok))"
proof (cases "vw_VerifiedCert view = None \<and> \<not> (vw_CertChain view \<noteq> [] \<and> (authMode (a_cfg a) = MTLSOnly \<or> authMode (a_cfg a) = MTLSOrBearer))
    \<and> (authMode (a_cfg a) = BearerOnly \<or> authMode (a_cfg a) = MTLSOrBearer) \<and> vw_BearerToken view \<noteq> [] \<and> vw_TransportSecure view")
  case False
  then have "a1 = a" using assms by (auto simp: resolveCredential_def Let_def split: option.splits if_splits)
  then show ?thesis using assms(2) by simp
next
  case True
  obtain q st where run: "VerifyBearer (az_jwt E) (cl_pki cl) (cl_crypto cl) v (vw_BearerToken view) (cl_now cl) None = (q, st)"
    by fastforce
  have "resolveCredential E cl view a = (let a' = a\<lparr>a_verifier := Some (v\<lparr>jv_nonceStore := st\<rparr>)\<rparr> in
      case q of Inl e \<Rightarrow> (Inl (plain_error ErrInvalidBearer StatusUnauthorized (''invalid bearer token: '' @ az_BearerText E e)), a')
      | Inr (cert, _) \<Rightarrow> (Inr ([cert], Some cert, True), a'))"
    using True assms(2) run unfolding resolveCredential_def Let_def by auto
  then have "a_verifier a1 = Some (v\<lparr>jv_nonceStore := st\<rparr>)" "\<not> isl r \<longrightarrow> \<not> isl q"
    using assms(1) by (auto simp: Let_def split: sum.splits)
  then show ?thesis using run by (intro disjI2 exI[of _ "\<not> isl q"] exI[of _ "v\<lparr>jv_nonceStore := st\<rparr>"]) (simp add: bearer_check_def)
qed

lemma Decide_decide:
  assumes "Decide E cl view a = (r, a')"
  obtains a0 a1 where "decide E cl view a0 = (r, a1)" "a0 = a\<lparr>a_metrics := (a_metrics a)\<lparr>dm_DecideTotal := dm_DecideTotal (a_metrics a) + 1\<rparr>\<rparr>"
    "a' = a1\<lparr>a_metrics := noteResult (cl_done cl) (isl r) (a_metrics a1)\<rparr>"
  using assms by (auto simp: Decide_def split: prod.splits)

lemma decide_verifier:
  assumes "decide E cl (Some view) a = (r, a')"
  obtains c a1 where "resolveCredential E cl view a = (c, a1)" "a_verifier a' = a_verifier a1"
    "\<And>ac. r = Inr ac \<Longrightarrow> \<exists>chain cert bearer. c = Inr (chain, Some cert, bearer) \<and> ctx_Bearer ac = bearer"
  using assms
proof (cases rule: decide_cases)
  case (refused chain cert bearer a1 result ps e)
  then show ?thesis using that refuse_decision_frame[OF refused(5)] by auto
next
  case (granted chain cert bearer a1 result ps)
  have "\<exists>chain' cert' bearer'. Inr (chain, Some cert, bearer) = Inr (chain', Some cert', bearer') \<and> ctx_Bearer ac = bearer'" if "r = Inr ac" for ac
  proof -
    from granted(5) that obtain refs a2 where
      "checkEvidenceRequirement E cl view (context_of cert bearer refs result) (auditAdmission E cl view cert refs False [] a2) = Inr ac"
      by (cases rule: admit_decision_cases) auto
    from checkEvidenceRequirement_Inr[OF this] have "ac = (context_of cert bearer refs result)\<lparr>ctx_Satisfaction := ctx_Satisfaction ac\<rparr>" by blast
    then have "ctx_Bearer ac = ctx_Bearer ((context_of cert bearer refs result)\<lparr>ctx_Satisfaction := ctx_Satisfaction ac\<rparr>)" by metis
    then show ?thesis by (simp add: context_of_def)
  qed
  then show ?thesis using that granted(1) admit_decision_frame[OF granted(5)] by auto
qed (use that in auto)

text \<open>On the replay store a decision is the verification of one token, or nothing.\<close>

lemma decide_check_step:
  assumes "auth_valid E a" "decide_check E t p a = (ok, a')"
  obtains v v' P C b where "a_verifier a = Some v" "bearer_valid (az_jwt E) v" "a_verifier a' = Some v'"
    "(v' = v \<and> \<not> ok) \<or> (bearer_check (az_jwt E) P C t (vw_BearerToken (snd p)) v = (b, v') \<and> (ok \<longrightarrow> b))"
proof -
  from assms(1) obtain v where v: "a_verifier a = Some v" "bearer_valid (az_jwt E) v" by (auto simp: auth_valid_def)
  let ?cl = "(fst p)\<lparr>cl_now := t\<rparr>"
  obtain r a2 where dec: "Decide E ?cl (Some (snd p)) a = (r, a2)" by fastforce
  with assms(2) have ok: "ok = (case r of Inl _ \<Rightarrow> False | Inr ac \<Rightarrow> ctx_Bearer ac)" and a2: "a' = a2"
    by (simp_all add: decide_check_def)
  obtain a0 a1 where d: "decide E ?cl (Some (snd p)) a0 = (r, a1)" "a_verifier a0 = Some v" "a_verifier a' = a_verifier a1"
    by (rule Decide_decide[OF dec]) (rule that, assumption, simp_all add: v(1) a2)
  from decide_verifier[OF d(1)] obtain c a3 where c: "resolveCredential E ?cl (snd p) a0 = (c, a3)" "a_verifier a1 = a_verifier a3"
      "\<And>ac. r = Inr ac \<Longrightarrow> \<exists>chain cert bearer. c = Inr (chain, Some cert, bearer) \<and> ctx_Bearer ac = bearer" by blast
  have good: "\<not> isl c" if "ok" using ok c(3) that by (cases r) auto
  have same: "\<not> ok" if "a_verifier a3 = Some v" "\<not> (\<exists>b v'. a_verifier a3 = Some v'
      \<and> bearer_check (az_jwt E) (cl_pki ?cl) (cl_crypto ?cl) t (vw_BearerToken (snd p)) v = (b, v') \<and> (\<not> isl c \<longrightarrow> b))"
  proof
    assume "ok"
    then obtain ac chain cert where "r = Inr ac" "c = Inr (chain, Some cert, True)" using ok c(3) by (cases r) auto
    from c(1)[unfolded this(2)] show False
    proof (cases rule: resolveCredential_Some)
      case (bearer w outer st)
      then have "bearer_check (az_jwt E) (cl_pki ?cl) (cl_crypto ?cl) t (vw_BearerToken (snd p)) v = (True, w\<lparr>jv_nonceStore := st\<rparr>)"
        using d(2) by (auto simp: bearer_check_def)
      then show ?thesis using bearer that(2) by auto
    qed auto
  qed
  from resolveCredential_verifier[OF c(1) d(2)] show thesis
    using that[OF v, of _ "cl_pki ?cl" "cl_crypto ?cl"] d(3) c(2) good same by fastforce
qed

interpretation dstore: nonce_store "decide_check E" "view_jti E" auth_marker auth_ttl "auth_valid E" for E
proof unfold_locales
  fix a :: authenticator and t :: instant and p :: "auth_call \<times> request_view" and a' :: authenticator and u :: instant
  assume v: "auth_valid E a" and c: "decide_check E t p a = (True, a')"
  obtain w w' P C where w: "a_verifier a = Some w" "bearer_valid (az_jwt E) w" "a_verifier a' = Some w'"
    "bearer_check (az_jwt E) P C t (vw_BearerToken (snd p)) w = (True, w')"
    by (rule decide_check_step[OF v c]) (auto intro: that)
  show "auth_marker a' (view_jti E p) = Some t"
    using bstore.accept_marks[OF w(2,4)] w(3) by (simp add: auth_marker_def view_jti_def)
  show "u + auth_ttl a < t" if "auth_marker a (view_jti E p) = Some u"
    using bstore.accept_fresh[OF w(2,4), of u] that w(1) by (simp add: auth_marker_def auth_ttl_def view_jti_def)
next
  fix a :: authenticator and t :: instant and p :: "auth_call \<times> request_view" and ok a' and m u
  assume v: "auth_valid E a" and c: "decide_check E t p a = (ok, a')"
  obtain w w' P C b where w: "a_verifier a = Some w" "bearer_valid (az_jwt E) w" "a_verifier a' = Some w'"
    "w' = w \<or> bearer_check (az_jwt E) P C t (vw_BearerToken (snd p)) w = (b, w')"
    by (rule decide_check_step[OF v c]) (rule that, assumption+, elim disjE conjE, rule disjI1, assumption, rule disjI2, assumption)
  show "auth_ttl a' = auth_ttl a" using w bstore.ttl_kept[OF w(2)] by (auto simp: auth_ttl_def)
  show "auth_valid E a'" using w bstore.valid_kept[OF w(2)] by (auto simp: auth_valid_def)
  show "auth_marker a' m = Some u" if "auth_marker a m = Some u" "t \<le> u + auth_ttl a"
    using that w bstore.live_kept[OF w(2)] by (auto simp: auth_marker_def auth_ttl_def)
qed

section \<open>Properties\<close>

lemma credential_verified_metrics [simp]:
  "credential_verified E cl (a\<lparr>a_metrics := m\<rparr>) = credential_verified E cl a"
  by (intro ext) (simp add: credential_verified_def cong: if_cong)

lemma pipelineConfig_cong:
  "a_cfg b = a_cfg a \<Longrightarrow> a_policy b = a_policy a \<Longrightarrow> pipelineConfig E b view body bearer = pipelineConfig E a view body bearer"
  by (simp add: pipelineConfig_def bundle_or_def)

lemma admitted_context:
  assumes "checkEvidenceRequirement E cl view (context_of cert bearer refs result) a = Inr ac"
  shows "ctx_ClientCert ac = cert" "ctx_Bearer ac = bearer" "ctx_Evidence ac = refs" "ctx_AIC ac = pr_AIC result"
    "ctx_OperationDecisions ac = pr_OperationDecisions result"
    "context_of cert bearer refs result = ac\<lparr>ctx_Satisfaction := None\<rparr>"
proof -
  from checkEvidenceRequirement_Inr[OF assms] have "ac = (context_of cert bearer refs result)\<lparr>ctx_Satisfaction := ctx_Satisfaction ac\<rparr>"
    by blast
  then obtain s where ac: "ac = (context_of cert bearer refs result)\<lparr>ctx_Satisfaction := s\<rparr>" by blast
  show "ctx_ClientCert ac = cert" "ctx_Bearer ac = bearer" "ctx_Evidence ac = refs" "ctx_AIC ac = pr_AIC result"
    "ctx_OperationDecisions ac = pr_OperationDecisions result"
    "context_of cert bearer refs result = ac\<lparr>ctx_Satisfaction := None\<rparr>"
    unfolding ac by (simp_all add: context_of_def)
qed


text \<open>C2. The gates after the pipeline are fail-closed: an admitted request satisfies the evidence requirement of the deployment, if
  there is one, on the facts presented for it, with the satisfaction in its context; and when it is flagged for
  approval, the requester approved the risk assessment of exactly this request. No error, missing requester
  or pending answer lets it pass.\<close>

theorem decide_gates_closed:
  assumes "Decide E cl (Some view) a = (Inr ac, a')"
  shows "(\<forall>req. cfg_EvidenceRequirement (a_cfg a) = Some req \<longrightarrow>
      (\<exists>facts sat. presented_facts a view (ac\<lparr>ctx_Satisfaction := None\<rparr>) = Inr facts
         \<and> az_Evaluate E req facts (che_now (cl_challenge cl)) = Inr sat \<and> az_Satisfied E sat \<and> ctx_Satisfaction ac = Some sat))
    \<and> (needs_approval a view ac \<longrightarrow> (\<exists>ask sr. cfg_ApprovalRequester (a_cfg a) = Some ask
         \<and> ask (risk_of cl view ac (vw_Body view)) = Inr (Some sr) \<and> sr_Decision sr = ''approved''))"
proof -
  obtain a0 b where d: "decide E cl (Some view) a0 = (Inr ac, b)" and a0: "a_cfg a0 = a_cfg a"
    by (rule Decide_decide[OF assms]) (rule that, assumption, simp)
  from d obtain cert bearer result refs a2 where
    r: "same_setup a0 a2"
      "checkEvidenceRequirement E cl view (context_of cert bearer refs result) (auditAdmission E cl view cert refs False [] a2) = Inr ac"
      "supervise E cl view ac (vw_Body view) (auditAdmission E cl view cert refs False [] a2) = (None, b)"
    by (rule decide_admitted) (rule that)
  let ?b = "auditAdmission E cl view cert refs False [] a2"
  have cfg: "a_cfg ?b = a_cfg a" using r(1) a0 by (simp add: same_setup_def)
  have "\<exists>ask sr. cfg_ApprovalRequester (a_cfg a) = Some ask \<and> ask (risk_of cl view ac (vw_Body view)) = Inr (Some sr)
      \<and> sr_Decision sr = ''approved''" if "needs_approval a view ac"
    using supervise_None[OF r(3)] that cfg needs_approval_cfg[OF cfg]
    by (auto simp: requestApproval_def SupervisionDecisionApproved_def split: option.splits)
  then show ?thesis
    using checkEvidenceRequirement_Inr[OF r(2)] cfg presented_facts_cfg[OF cfg] admitted_context(6)[OF r(2)] by auto
qed

text \<open>With strict evidence nobody is admitted unrecorded: the context of an admitted request refers to one decision record
  for every operation the pipeline decided and every authority source behind it, and the decisions in the
  context are those of the pipeline.\<close>

theorem strict_admission_recorded:
  assumes "decide E cl (Some view) a = (Inr ac, a')" "cfg_Evidence (a_cfg a) = Some c" "evc_Strict c"
    and "\<not> evc_profileNoDecision c" "builtin_sink (evc_Sink c)"
  shows "\<exists>chain cert a1 result ps. resolveCredential E cl view a = (Inr (chain, Some cert, ctx_Bearer ac), a1)
    \<and> RunAccessPipeline (cl_pipe cl) chain (pipelineConfig E a1 view (vw_Body view) (ctx_Bearer ac)) (a_pipeline a1) = (result, ps)
    \<and> ctx_OperationDecisions ac = pr_OperationDecisions result
    \<and> length (ctx_Evidence ac) = length (ctx_OperationDecisions ac)
        * length (evidenceRecorders (cl_pki cl) (ae_clc (pe_adm (cl_pipe cl))) (ctx_AIC ac) (pr_PrincipalAuthorization result))"
proof -
  from assms(1) obtain chain cert bearer a1 result ps refs err a2 b where
    r: "resolveCredential E cl view a = (Inr (chain, Some cert, bearer), a1)"
      "RunAccessPipeline (cl_pipe cl) chain (pipelineConfig E a1 view (vw_Body view) bearer) (a_pipeline a1) = (result, ps)"
      "emitEvidence cl view cert result EvidenceAdmitted (a1\<lparr>a_pipeline := ps\<rparr>) = (refs, err, a2)"
      "strict_evidence a \<longrightarrow> err = None" "checkEvidenceRequirement E cl view (context_of cert bearer refs result) b = Inr ac"
    by (rule decide_admitted) (rule that)
  have err: "err = None" using r(4) assms(2,3) by (simp add: strict_evidence_def)
  have cfg: "a_cfg a1 = a_cfg a" using resolveCredential_frame[OF r(1)] by (simp add: same_setup_def)
  have ec: "evc_profileNoDecision (emission_config d c) = evc_profileNoDecision c"
    "evc_Sink (emission_config d c) = evc_Sink c" for d by (simp_all add: emission_config_def)
  have "length refs = length (pr_OperationDecisions result)
      * length (evidenceRecorders (cl_pki cl) (ae_clc (pe_adm (cl_pipe cl))) (pr_AIC result) (pr_PrincipalAuthorization result))"
  proof (cases "pr_OperationDecisions result = []")
    case True
    then show ?thesis using r(3) cfg assms(2) by (simp add: emitEvidence_def)
  next
    case False
    then obtain w where "EmitDecisionRecords (pe_adm (cl_pipe cl)) (cl_sink cl) (Some (emission_config (a_cfg a) c))
        (evidence_ctx cl (a1\<lparr>a_pipeline := ps\<rparr>) view c result EvidenceAdmitted) (Some cert) (pr_AIC result)
        (pr_PrincipalAuthorization result) (cfg_UserCert (a_cfg a)) (pr_OperationDecisions result) (a_evidence a1) = (refs, None, w)"
      using r(3) cfg assms(2) err by (auto simp: emitEvidence_def Let_def split: prod.splits)
    from complete_emission[OF this] ec assms(4,5) show ?thesis by simp
  qed
  with r admitted_context[OF r(5)] show ?thesis by auto
qed

lemma newAuthenticator_verifier:
  assumes "newAuthenticator E X C M m ps w st (Some cfg) = Inr a" "a_verifier a = Some v"
  shows "jv_nonceStore v = (if replayProtection cfg then Some (NewReplayNonceStore 0 0) else None)"
proof -
  from assms have "bearer_verifier E M cfg = Inr (Some v)"
    by (auto simp: newAuthenticator_def Let_def split: list.splits sum.splits if_splits)
  then show ?thesis by (auto simp: bearer_verifier_def SetBearerPolicy_def split: if_splits sum.splits)
qed

text \<open>C3. A bearer token buys one admission: in any sequence of decisions of an authenticator built with replay protection,
  with requests of every kind in between, two admissions by tokens with the same identifier are separated by
  more than the 24 hours of the replay store. A token whose request is then refused further down has been
  used up all the same.\<close>

theorem decide_bearer_single_use:
  assumes "validate_uses_store (az_jwt E)" "newAuthenticator E X C M m ps w st (Some cfg) = Inr a"
    and "a_verifier a \<noteq> None" "replayProtection cfg"
    and "i < j" "j < length qs" "view_jti E (snd (qs ! i)) = view_jti E (snd (qs ! j))"
    and "fst (store_run (decide_check E) qs a) ! i" "fst (store_run (decide_check E) qs a) ! j"
  shows "\<exists>k. i < k \<and> k \<le> j \<and> fst (qs ! k) > fst (qs ! i) + 24 * hour"
proof -
  obtain v where v: "a_verifier a = Some v" "jv_nonceStore v = Some (NewReplayNonceStore 0 0)"
    using assms(2-4) newAuthenticator_verifier by fastforce
  then have "auth_valid E a" using assms(1) by (simp add: auth_valid_def bearer_valid_def)
  moreover have "auth_ttl a = 24 * hour" using v by (simp add: auth_ttl_def bearer_ttl_def NewReplayNonceStore_def)
  ultimately show ?thesis using dstore.single_use[of E a i j qs] assms(5-) by simp
qed

lemma status_values [simp]: "StatusUnauthorized = 401" "StatusForbidden = 403"
  by (simp_all add: StatusUnauthorized_def StatusForbidden_def)

definition credential_refusal :: "error_code \<Rightarrow> bool" where
  "credential_refusal c \<longleftrightarrow> c \<in> {ErrNoCredential, ErrNoVerifier, ErrBearerNeedsTLS, ErrInvalidBearer}"

lemma resolveCredential_Inl:
  assumes "resolveCredential E cl view a = (Inl e, a1)"
  shows "credential_refusal (aer_Code e) \<and> aer_Status e = 401 \<and> aer_Problem e = None \<and> aer_Evidence e = []"
  using assms
  by (auto simp: resolveCredential_def Let_def plain_error_def credential_refusal_def
      split: option.split_asm if_split_asm prod.split_asm sum.split_asm)

lemma chain_guard_Some:
  "chain_guard E cl a view chain bearer = Some e \<Longrightarrow> aer_Code e = ErrChainInvalid \<and> aer_Status e = 403 \<and> aer_Problem e = None
     \<and> aer_Evidence e = []"
  by (auto simp: chain_guard_def plain_error_def split: if_splits)

lemma refusal_error:
  "refuse_decision E cl view cert result a = (e, a') \<Longrightarrow> aer_Code e = ErrDenied \<and> aer_Status e = 403
     \<and> (aer_Problem e \<noteq> None \<longrightarrow> cfg_Challenges (a_cfg a) \<noteq> None)"
  by (auto simp: refuse_decision_def evidence_unavailable_def plain_error_def Let_def problemForResult_def
      split: prod.splits if_splits option.splits)

lemma evidence_refusal:
  assumes "checkEvidenceRequirement E cl view ac a = Inl e"
  shows "aer_Code e \<in> {ErrDenied, ErrConfig} \<and> aer_Status e = 403 \<and> (aer_Problem e \<noteq> None \<longrightarrow> aer_Code e = ErrDenied
    \<and> cfg_Challenges (a_cfg a) \<noteq> None)"
  using assms
  by (auto simp: checkEvidenceRequirement_def plain_error_def evidenceProblem_def split: option.splits sum.splits if_splits)

lemma supervise_Some:
  "supervise E cl view ac body a = (Some e, a') \<Longrightarrow> e = plain_error ErrDenied StatusForbidden ''approval_required''"
  by (auto simp: supervise_def Let_def split: sum.splits if_splits prod.splits)

text \<open>Every refusal is one of two kinds: a credential that is missing or not acceptable is 401 and leaves no evidence of its own,
  everything after that is 403. A machine-readable problem only comes with a plain denial, and only when
  challenges are configured.\<close>

theorem decide_refusal_codes:
  assumes "decide E cl (Some view) a = (Inl e, a')"
  shows "(credential_refusal (aer_Code e) \<and> aer_Status e = 401 \<and> aer_Evidence e = []
      \<or> aer_Code e \<in> {ErrDenied, ErrChainInvalid, ErrConfig} \<and> aer_Status e = 403)
    \<and> (aer_Problem e \<noteq> None \<longrightarrow> aer_Code e = ErrDenied \<and> cfg_Challenges (a_cfg a) \<noteq> None)"
  using assms
proof (cases rule: decide_cases)
  case (credential e')
  then show ?thesis using resolveCredential_Inl[OF credential(1)] by simp
next
  case (none chain bearer)
  then show ?thesis by (simp add: plain_error_def credential_refusal_def)
next
  case (chain chain cert bearer e')
  then show ?thesis using chain_guard_Some[OF chain(2)] by simp
next
  case (refused chain cert bearer a1 result ps e')
  then show ?thesis
    using refusal_error[OF refused(5)] resolveCredential_frame[OF refused(1)] by (simp add: same_setup_def)
next
  case (granted chain cert bearer a1 result ps)
  have cfg: "a_cfg a1 = a_cfg a" using resolveCredential_frame[OF granted(1)] by (simp add: same_setup_def)
  from granted(5) show ?thesis
  proof (cases rule: admit_decision_cases)
    case (unavailable refs err)
    then show ?thesis by (simp add: evidence_unavailable_def plain_error_def)
  next
    case (insufficient refs err a2 e')
    then show ?thesis
      using evidence_refusal[OF insufficient(3)] emitEvidence_frame[OF insufficient(1)] cfg by auto
  next
    case (unapproved refs err a2 ac e')
    then show ?thesis using supervise_Some[OF unapproved(3)] by (simp add: plain_error_def)
  qed simp
qed

section \<open>Witnesses\<close>

text \<open>A deployment with a client CA, a token trust root, one plugin, strict evidence in a directory and a requester that
  approves everything.\<close>

definition example_auth_config :: auth_config where
  "example_auth_config =
     \<lparr>cfg_CACertFile = ''ca.pem'', cfg_JWTCAFile = ''jwt.pem'', cfg_JWTIssuer = ''ca'', cfg_JWTAudience = [],
      cfg_ReplayProtection = None, cfg_AuthMode = MTLSOrBearer, cfg_RequireAIC = True, cfg_RequiredCapabilities = [],
      cfg_AdminToken = ''s3cret'', cfg_AdminTokenFile = [], cfg_RequiredOperations = [\<lparr>op_ID = ''db:read'', op_Params = None\<rparr>],
      cfg_UnresolvedEvaluator = None, cfg_DischargeObligations = False, cfg_ObligationsUnderstood = [],
      cfg_RequireFreshDecisionContext = False, cfg_DecisionContext = None,
      cfg_Challenges = Some \<lparr>cc_TTL = 300, cc_Audience = ''api'', cc_RetryAfter = 0\<rparr>, cfg_ChallengeCarrier = None,
      cfg_EvidenceRequirement = Some \<lparr>req_ID = ''r1''\<rparr>, cfg_EvidenceFacts = None, cfg_EvidenceProfile = [],
      cfg_Evidence = Some (example_evidence\<lparr>evc_Strict := True\<rparr>), cfg_DisallowRepresentative = False,
      cfg_RequireUserAuth = False, cfg_EnforceConstraints = False, cfg_UserCert = Some example_cert, cfg_UserCertResolver = None,
      cfg_CRLCache = None, cfg_AuditLogger = True, cfg_NonceCache = False, cfg_PluginRegistry = Some (example_plugins PluginAllow),
      cfg_CapabilityRegistry = None, cfg_AuthorizationPolicy = None, cfg_Constraints = None, cfg_ParameterValidators = None,
      cfg_StreamBody = False, cfg_HookAuthenticated = None, cfg_HookDenied = True,
      cfg_ApprovalRequester = Some (\<lambda>risk. Inr (Some \<lparr>sr_Decision = ''approved'', sr_Approver = ''bob'', sr_Reason = ''ok''\<rparr>)),
      cfg_OverrideRecorder = False,
      cfg_SupervisionPolicy = \<lparr>spl_RequireRuntimeApproval = True, spl_AllowBreakGlass = False, spl_RequireEvidenceExport = False\<rparr>,
      cfg_EvidenceExporter = False, cfg_RequireApproval = Some (\<lambda>ac r. True)\<rparr>"

definition example_token_claims :: "string \<Rightarrow> outer_claims" where
  "example_token_claims jti = (example_claims jti)\<lparr>oc_Iat := - 62135596800, oc_Exp := - 62135596799\<rparr>"

definition example_token_env :: jwt_env where
  "example_token_env = example_jwt_env\<lparr>jw_MarshalAIC := (\<lambda>a. Inr ''der''),
     jw_UnmarshalClaims := (\<lambda>pb. Inr (example_token_claims pb))\<rparr>"

definition example_auth_env :: auth_env where
  "example_auth_env =
     \<lparr>az_jwt = example_token_env, az_supervision = example_sve,
      az_VerifyLeaf = (\<lambda>roots inter now leaf. if cert_RawIssuer leaf = ''ca'' then None else Some ''unknown authority''),
      az_ParseQuery = (\<lambda>q. None), az_DenyText = (\<lambda>r. ''denied''), az_BearerText = (\<lambda>e. ''bad token''), az_RecordText = (\<lambda>e. ''gap''),
      az_ListText = concat, az_Evaluate = (\<lambda>req facts now. Inr \<lparr>rr_Verdict = ''satisfied'', rr_MissingRoles = []\<rparr>),
      az_Satisfied = (\<lambda>r. rr_Verdict r = ''satisfied''), az_EventDenied = ''denied'', az_EventApproval = ''approval'',
      az_EventConsent = ''consent''\<rparr>"

definition example_challenge_env :: challenge_env where
  "example_challenge_env =
     \<lparr>che_ID = Inr ''i'', che_Nonce = Inr ''n'', che_now = 0, che_DigestOperation = (\<lambda>_. Inr \<lparr>dg_Alg = ''a'', dg_Value = []\<rparr>),
      che_DigestOperations = (\<lambda>_. Inr \<lparr>dg_Alg = ''a'', dg_Value = []\<rparr>), che_DigestCanonical = (\<lambda>b. \<lparr>dg_Alg = ''a'', dg_Value = b\<rparr>),
      che_FromDecision = (\<lambda>_ _. Inl []), che_FromRequirement = (\<lambda>_ _ _. Inl []), che_Quote = id, che_ProblemJSON = (\<lambda>_. Inr [])\<rparr>"

definition example_call :: "pki_ops \<Rightarrow> instant \<Rightarrow> auth_call" where
  "example_call P now =
     \<lparr>cl_now = now,
      cl_pipe = \<lparr>pe_adm = example_adm_env\<lparr>ae_pki := P, ae_now := now\<rparr>, pe_crl = example_crl_env, pe_ocsp = example_ocsp_env OCSPRevoked,
                 pe_later = now, pe_ParseURL = (\<lambda>s. Inl ''no url''), pe_globalCaps = None, pe_ParamErrorText = (\<lambda>e. ''boundary'')\<rparr>,
      cl_challenge = example_challenge_env, cl_sink = example_sink, cl_operationID = ''op-1'', cl_faults = good_os, cl_done = now\<rparr>"

definition example_material :: material where
  "example_material =
     \<lparr>mat_Pool = (\<lambda>f. Inr [example_cert]), mat_PEM = (\<lambda>f. Inr [(''CERTIFICATE'', ''der'')]), mat_ParseCert = (\<lambda>b. Inr example_cert),
      mat_Key = (\<lambda>f. Inl ''no key''), mat_ReadFile = (\<lambda>f. Inl ''no file'')\<rparr>"

definition example_pipe_state :: pipeline_state where
  "example_pipe_state = \<lparr>ps_OCSP = None, ps_Nonces = [], ps_Risk = None, ps_Actions = [], ps_Log = []\<rparr>"

definition example_authenticator :: authenticator where
  "example_authenticator = projr (newAuthenticator example_auth_env example_evidence_ops example_crypto example_material
     (NewDecisionMetrics 0) example_pipe_state empty_world (None, empty_fs) (Some example_auth_config))"

definition example_view :: "certificate list \<Rightarrow> string \<Rightarrow> request_view" where
  "example_view chain token = zero_view\<lparr>vw_CertChain := chain, vw_BearerToken := token, vw_TransportSecure := True, vw_Method := ''GET'',
     vw_Path := ''/db'', vw_RequireApprovalWith := Some (\<lambda>ac. True)\<rparr>"

lemma example_auth_new:
  "newAuthenticator example_auth_env example_evidence_ops example_crypto example_material (NewDecisionMetrics 0) example_pipe_state
     empty_world (None, empty_fs) (Some example_auth_config) = Inr example_authenticator"
  by (simp add: example_authenticator_def newAuthenticator_def Let_def Validate_config_def example_auth_config_def applied_evidence_def
      resolveSigner_def client_pool_def bearer_verifier_def example_evidence_def zero_evidence_config_def authMode_def MTLSOnly_def
      BearerOnly_def MTLSOrBearer_def loadPEMIntoPool_def example_material_def LoadJWTVerifier_def ca_fields_def signingKey_def)

lemma example_auth_simps [simp]:
  "a_cfg example_authenticator = example_auth_config" "a_tlsCAs example_authenticator = Some [example_cert]"
  "a_pipeline example_authenticator = example_pipe_state" "a_policy example_authenticator = None"
  "a_evidence example_authenticator = empty_world"
  by (simp_all add: example_authenticator_def newAuthenticator_def Let_def Validate_config_def example_auth_config_def applied_evidence_def
      resolveSigner_def client_pool_def bearer_verifier_def example_evidence_def zero_evidence_config_def authMode_def MTLSOnly_def
      BearerOnly_def MTLSOrBearer_def loadPEMIntoPool_def example_material_def LoadJWTVerifier_def ca_fields_def signingKey_def)

lemma example_requirement:
  assumes "a_cfg b = example_auth_config" "vw_EvidenceFactsWith view = None"
  shows "\<exists>ac'. checkEvidenceRequirement example_auth_env (example_call P now) view ac b = Inr ac'"
proof -
  have "sx_ValidateRequirement example_evidence_ops \<lparr>req_ID = ''r1''\<rparr> = None" by code_simp
  then show ?thesis
    using assms by (simp add: checkEvidenceRequirement_def example_auth_config_def example_call_def example_sink_def presented_facts_def
        example_auth_env_def)
qed

lemma example_approval:
  assumes "a_cfg b = example_auth_config"
  shows "fst (supervise E cl view ac body b) = None"
  using assms by (simp add: supervise_def requestApproval_def example_auth_config_def Approved_def SupervisionDecisionApproved_def)

definition example_emission :: evidence_config where
  "example_emission = emission_config example_auth_config (example_evidence\<lparr>evc_Strict := True\<rparr>)"

lemma example_envelope:
  "decision_envelope example_sink example_emission grants op opts
     = Inr (example_record, \<lparr>env_Payload = ''t'', env_PayloadType = ''pt'', env_Signatures = [(''k'', ''sig'')]\<rparr>)"
proof -
  have "seal_envelope example_sink (Some example_emission) \<lparr>env_Payload = ''t'', env_PayloadType = ''pt'', env_Signatures = []\<rparr>
      = Inr \<lparr>env_Payload = ''t'', env_PayloadType = ''pt'', env_Signatures = [(''k'', ''sig'')]\<rparr>" by code_simp
  then show ?thesis by (simp add: decision_envelope_def example_sink_def)
qed

lemma example_emit_loop: "fst (snd (emit_loop example_sink example_emission base opts items refs w)) = None"
proof (induction items arbitrary: refs w)
  case (Cons item items)
  obtain od name grants where item: "item = (od, name, grants)" by (cases item) auto
  have "\<exists>ref w'. sink_emit example_sink (evc_Sink example_emission) ctx (DecisionArtifact example_record)
      \<lparr>env_Payload = ''t'', env_PayloadType = ''pt'', env_Signatures = [(''k'', ''sig'')]\<rparr> w = (Inr ref, w')" for ctx
    by (simp add: sink_emit_def example_emission_def emission_config_def example_auth_config_def example_evidence_def zero_evidence_config_def
        file_emit_def example_sink_def artifact_ref_def Let_def)
  from this[of "operation_context base od"] obtain ref w' where "sink_emit example_sink (evc_Sink example_emission) (operation_context base od)
      (DecisionArtifact example_record) \<lparr>env_Payload = ''t'', env_PayloadType = ''pt'', env_Signatures = [(''k'', ''sig'')]\<rparr> w = (Inr ref, w')"
    by blast
  then show ?case using Cons.IH item by (simp add: example_envelope)
qed simp

lemma example_emitEvidence:
  assumes "a_cfg a = example_auth_config"
  shows "fst (snd (emitEvidence (example_call P now) view cert result outcome a)) = None"
proof -
  have "cfg_Evidence (a_cfg a) = Some (example_evidence\<lparr>evc_Strict := True\<rparr>)" using assms by (simp add: example_auth_config_def)
  moreover have "fst (snd (EmitDecisionRecords A example_sink (Some example_emission) ctx cert i pa u ods w)) = None" for A ctx cert i pa u ods w
    by (simp add: EmitDecisionRecords_def Let_def example_emit_loop)
  moreover have "cl_sink (example_call P now) = example_sink" by (simp add: example_call_def)
  ultimately show ?thesis
    using assms by (auto simp: emitEvidence_def Let_def example_emission_def[symmetric] split: prod.splits) (metis fst_conv snd_conv)
qed

text \<open>What remains to be evaluated for an admission.\<close>

lemma example_admitted:
  assumes "resolveCredential example_auth_env (example_call P now) view a = (Inr (chain', Some cert, bearer), a1)"
    and "chain_guard example_auth_env (example_call P now) a1 view chain' bearer = None"
    and "a_cfg a = example_auth_config" "vw_EvidenceFactsWith view = None"
    and "pr_Granted (fst (RunAccessPipeline (cl_pipe (example_call P now)) chain'
           (pipelineConfig example_auth_env a1 view (vw_Body view) bearer) (a_pipeline a1)))"
  shows "\<exists>ac a'. decide example_auth_env (example_call P now) (Some view) a = (Inr ac, a') \<and> ctx_Bearer ac = bearer"
proof -
  let ?cl = "example_call P now"
  obtain result ps where run: "RunAccessPipeline (cl_pipe ?cl) chain' (pipelineConfig example_auth_env a1 view (vw_Body view) bearer) (a_pipeline a1) = (result, ps)"
    by fastforce
  let ?a = "a1\<lparr>a_pipeline := ps\<rparr>"
  have cfg: "a_cfg ?a = example_auth_config" using resolveCredential_frame[OF assms(1)] assms(3) by (simp add: same_setup_def)
  obtain refs a2 where em: "emitEvidence ?cl view cert result EvidenceAdmitted ?a = (refs, None, a2)"
    using example_emitEvidence[OF cfg] by (metis prod.collapse)
  let ?b = "auditAdmission example_auth_env ?cl view cert refs False [] a2"
  have cfgb: "a_cfg ?b = example_auth_config" using emitEvidence_frame[OF em] cfg by simp
  obtain ac where ac: "checkEvidenceRequirement example_auth_env ?cl view (context_of cert bearer refs result) ?b = Inr ac"
    using example_requirement[OF cfgb assms(4)] by blast
  obtain b where "supervise example_auth_env ?cl view ac (vw_Body view) ?b = (None, b)" using example_approval[OF cfgb] by (metis prod.collapse)
  then have "decide example_auth_env ?cl (Some view) a = (Inr ac, b)"
    using assms run em ac by (simp add: decide_def Let_def admit_decision_def)
  then show ?thesis using admitted_context(2)[OF ac] by blast
qed

lemma example_mtls_granted:
  "pr_Granted (fst (RunAccessPipeline (cl_pipe (example_call (ae_pki example_adm_env) 130)) [example_cert]
     (pipelineConfig example_auth_env example_authenticator (example_view [example_cert] []) [] False) example_pipe_state))"
  by code_simp

lemma example_mtls:
  assumes "a = example_authenticator\<lparr>a_metrics := m\<rparr>"
    and "vw_VerifiedCert view = None" "vw_CertChain view = [example_cert]" "vw_EvidenceFactsWith view = None"
    and "pr_Granted (fst (RunAccessPipeline (cl_pipe (example_call (ae_pki example_adm_env) 130)) [example_cert]
           (pipelineConfig example_auth_env example_authenticator view (vw_Body view) False) example_pipe_state))"
  shows "\<exists>ac a'. decide example_auth_env (example_call (ae_pki example_adm_env) 130) (Some view) a = (Inr ac, a')"
proof -
  have "authMode example_auth_config = MTLSOrBearer" by (simp add: authMode_def example_auth_config_def MTLSOrBearer_def)
  then have res: "resolveCredential example_auth_env (example_call (ae_pki example_adm_env) 130) view a
      = (Inr ([example_cert], Some example_cert, False), a)"
    using assms(1-3) by (simp add: resolveCredential_def)
  have guard: "chain_guard example_auth_env (example_call (ae_pki example_adm_env) 130) a view [example_cert] False = None"
    using assms(1) by (simp add: chain_guard_def buildChain_def example_auth_env_def example_cert_def)
  have cfg: "pipelineConfig example_auth_env a view (vw_Body view) False
      = pipelineConfig example_auth_env example_authenticator view (vw_Body view) False"
    by (rule pipelineConfig_cong) (simp_all add: assms(1))
  show ?thesis
    using example_admitted[OF res guard _ assms(4)] assms(1,5) unfolding cfg by auto
qed

lemma example_decide:
  assumes "a = example_authenticator\<lparr>a_metrics := m\<rparr>"
  shows "\<exists>ac a'. decide example_auth_env (example_call (ae_pki example_adm_env) 130) (Some (example_view [example_cert] [])) a = (Inr ac, a')"
proof -
  have "vw_Body (example_view [example_cert] []) = []" by (simp add: example_view_def zero_view_def)
  then show ?thesis
    using example_mtls_granted by (intro example_mtls[OF assms]) (simp_all add: example_view_def zero_view_def)
qed

lemma example_Decide:
  obtains ac a' where "Decide example_auth_env (example_call (ae_pki example_adm_env) 130) (Some (example_view [example_cert] []))
    example_authenticator = (Inr ac, a')"
proof -
  let ?m = "(a_metrics example_authenticator)\<lparr>dm_DecideTotal := dm_DecideTotal (a_metrics example_authenticator) + 1\<rparr>"
  obtain ac a' where "decide example_auth_env (example_call (ae_pki example_adm_env) 130) (Some (example_view [example_cert] []))
      (example_authenticator\<lparr>a_metrics := ?m\<rparr>) = (Inr ac, a')"
    using example_decide[OF refl, of ?m] by blast
  then show thesis by (intro that) (simp add: Decide_def)
qed


theorem decide_gates_closed_witness:
  "\<exists>ac a'. Decide example_auth_env (example_call (ae_pki example_adm_env) 130) (Some (example_view [example_cert] [])) example_authenticator
     = (Inr ac, a') \<and> ctx_Satisfaction ac \<noteq> None"
proof -
  obtain ac a' where run: "Decide example_auth_env (example_call (ae_pki example_adm_env) 130) (Some (example_view [example_cert] []))
    example_authenticator = (Inr ac, a')" by (rule example_Decide)
  have "cfg_EvidenceRequirement (a_cfg example_authenticator) = Some \<lparr>req_ID = ''r1''\<rparr>" by (simp add: example_auth_config_def)
  then show ?thesis using run decide_gates_closed[OF run] by auto
qed

theorem strict_admission_recorded_witness:
  "\<exists>ac a' n. decide example_auth_env (example_call (ae_pki example_adm_env) 130) (Some (example_view [example_cert] [])) example_authenticator
     = (Inr ac, a') \<and> length (ctx_Evidence ac) = length (ctx_OperationDecisions ac) * n"
proof -
  obtain ac a' where run: "decide example_auth_env (example_call (ae_pki example_adm_env) 130) (Some (example_view [example_cert] []))
    example_authenticator = (Inr ac, a')" using example_decide[of example_authenticator "a_metrics example_authenticator"] by auto
  have c: "cfg_Evidence (a_cfg example_authenticator) = Some (example_evidence\<lparr>evc_Strict := True\<rparr>)" by (simp add: example_auth_config_def)
  have "\<not> evc_profileNoDecision (example_evidence\<lparr>evc_Strict := True\<rparr>)" "builtin_sink (evc_Sink (example_evidence\<lparr>evc_Strict := True\<rparr>))"
    by (simp_all add: example_evidence_def zero_evidence_config_def builtin_sink_def)
  from strict_admission_recorded[OF run c _ this] show ?thesis using run by auto
qed

theorem decide_refusal_codes_witness:
  "\<exists>e a'. decide example_auth_env (example_call (ae_pki example_adm_env) 130) (Some zero_view) example_authenticator = (Inl e, a')
     \<and> aer_Problem e = None \<and> aer_Status e \<in> {401, 403}"
proof -
  have "decide example_auth_env (example_call (ae_pki example_adm_env) 130) (Some zero_view) example_authenticator
    = (Inl (plain_error ErrNoCredential StatusUnauthorized ''no client credential presented''), example_authenticator)"
    by (simp add: decide_def resolveCredential_def zero_view_def)
  from decide_refusal_codes[OF this] this show ?thesis by (auto simp: plain_error_def)
qed

text \<open>The token is valid for the first second of the calendar; its second presentation is refused.\<close>

definition example_bearer_cert :: certificate where
  "example_bearer_cert =
     \<lparr>cert_CommonName = ''agent-1'', cert_Organization = [], cert_OrganizationalUnit = [], cert_Subject = ''agent-1'', cert_Issuer = ''ca'',
      cert_IssuerCommonName = ''ca'', cert_RawIssuer = [], cert_RawSubject = [], cert_SerialNumber = 116,
      cert_NotBefore = 0, cert_NotAfter = 1000000000, cert_URIs = [], cert_Raw = [], cert_RawSubjectPublicKeyInfo = [],
      cert_PublicKey = NoKey, cert_Extensions = [([9], ''der'')]\<rparr>"

abbreviation (input) example_bearer_call :: auth_call where "example_bearer_call \<equiv> example_call (ae_pki example_adm_env) 130"

lemma example_bearer_verified:
  "fst (VerifyBearer example_token_env (ae_pki example_adm_env) example_crypto (the (a_verifier example_authenticator)) ''t'' 130 None)
     = Inr (example_bearer_cert, example_token_claims ''t'')"
  by code_simp

lemma example_bearer_granted:
  "pr_Granted (fst (RunAccessPipeline (cl_pipe example_bearer_call) [example_bearer_cert]
     (pipelineConfig example_auth_env example_authenticator (example_view [] ''t'') [] True) example_pipe_state))"
  by code_simp

lemma example_auth_verifier: "\<exists>v. a_verifier example_authenticator = Some v"
proof -
  have "\<not> Option.is_none (a_verifier example_authenticator)" by code_simp
  then show ?thesis by (simp add: Option.is_none_def)
qed

lemma example_bearer_decide:
  "fst (decide_check example_auth_env 130 (example_bearer_call, example_view [] ''t'') example_authenticator)"
proof -
  obtain v where v: "a_verifier example_authenticator = Some v" using example_auth_verifier by blast
  let ?a = "example_authenticator\<lparr>a_metrics := (a_metrics example_authenticator)
    \<lparr>dm_DecideTotal := dm_DecideTotal (a_metrics example_authenticator) + 1\<rparr>\<rparr>"
  obtain st where ver: "VerifyBearer example_token_env (ae_pki example_adm_env) example_crypto v ''t'' 130 None
      = (Inr (example_bearer_cert, example_token_claims ''t''), st)"
    using example_bearer_verified v by (metis option.sel prod.collapse)
  let ?a1 = "?a\<lparr>a_verifier := Some (v\<lparr>jv_nonceStore := st\<rparr>)\<rparr>"
  have call: "example_bearer_call\<lparr>cl_now := 130\<rparr> = example_bearer_call" by (simp add: example_call_def)
  have "authMode example_auth_config = MTLSOrBearer" by (simp add: authMode_def example_auth_config_def MTLSOrBearer_def)
  then have res: "resolveCredential example_auth_env example_bearer_call (example_view [] ''t'') ?a
      = (Inr ([example_bearer_cert], Some example_bearer_cert, True), ?a1)"
    using v ver by (simp add: resolveCredential_def example_view_def zero_view_def example_auth_env_def example_call_def example_adm_env_def)
  have guard: "chain_guard example_auth_env example_bearer_call ?a1 (example_view [] ''t'') [example_bearer_cert] True = None"
    by (simp add: chain_guard_def)
  have view: "vw_Body (example_view [] ''t'') = []" "vw_EvidenceFactsWith (example_view [] ''t'') = None"
    by (simp_all add: example_view_def zero_view_def)
  have cfg: "pipelineConfig example_auth_env ?a1 (example_view [] ''t'') [] True
      = pipelineConfig example_auth_env example_authenticator (example_view [] ''t'') [] True"
    by (rule pipelineConfig_cong) simp_all
  obtain ac a' where d: "decide example_auth_env example_bearer_call (Some (example_view [] ''t'')) ?a = (Inr ac, a')" "ctx_Bearer ac"
    using example_admitted[OF res guard] example_bearer_granted unfolding view(1) cfg by (auto simp: view(2))
  then have "Decide example_auth_env example_bearer_call (Some (example_view [] ''t'')) example_authenticator
      = (Inr ac, a'\<lparr>a_metrics := noteResult (cl_done example_bearer_call) False (a_metrics a')\<rparr>)" by (simp add: Decide_def)
  then show ?thesis unfolding decide_check_def fst_conv snd_conv call using d(2) by simp
qed

lemma example_token_store: "validate_uses_store (az_jwt example_auth_env)"
  unfolding validate_uses_store_def example_auth_env_def example_token_env_def example_jwt_env_def by (auto intro!: exI[of _ "[]"])

theorem decide_bearer_single_use_witness:
  "let p = (example_bearer_call, example_view [] ''t'') in
   fst (store_run (decide_check example_auth_env) [(130, p), (131, p)] example_authenticator) = [True, False]"
proof -
  define p where "p = (example_bearer_call, example_view [] ''t'')"
  define run where "run = fst (store_run (decide_check example_auth_env) [(130, p), (131, p)] example_authenticator)"
  have len: "length run = 2" by (simp add: run_def split: prod.splits)
  have first: "run ! 0" using example_bearer_decide by (simp add: run_def p_def case_prod_beta)
  have "\<not> run ! 1"
  proof
    assume "run ! 1"
    moreover have "replayProtection example_auth_config" by (simp add: replayProtection_def example_auth_config_def)
    ultimately have "\<exists>k. 0 < k \<and> k \<le> 1 \<and> fst ([(130::int, p), (131, p)] ! k) > fst ([(130::int, p), (131, p)] ! 0) + 24 * hour"
      using first example_auth_verifier unfolding run_def
      by (intro decide_bearer_single_use[OF example_token_store example_auth_new]) auto
    then show False by (auto simp: le_Suc_eq hour_def minute_def second_def)
  qed
  then have "run = [True, False]" using len first by (auto simp: length_Suc_conv numeral_2_eq_2)
  then show ?thesis by (simp add: run_def p_def)
qed

end
