(* ===== verification/Middleware.thy ===== *)
theory Middleware
  imports Authenticator
begin

text \<open>
  The HTTP binding of the decision core (\<^verbatim>\<open>src/aicverifier.go\<close>: \<^verbatim>\<open>Authenticate\<close>, \<^verbatim>\<open>viewFromHTTP\<close>, \<^verbatim>\<open>Handler\<close>, \<^verbatim>\<open>refusalEvidence\<close>) and
  the observation of the downstream handler (\<^verbatim>\<open>src/server.go\<close>: \<^verbatim>\<open>reportObservedOutcome\<close>). A request is lowered to a view,
  decided, and either refused, with its evidence, or handed to the next handler, which maps the identity, the request and the
  state to a response and a state. \<^verbatim>\<open>hr_Body\<close> is what reading the body yields. Calls of the hooks \<^verbatim>\<open>Denied\<close> and \<^verbatim>\<open>Forwarded\<close> and
  the requests sent to a backend are recorded in the state.
\<close>

section \<open>Lowering a request\<close>

definition DefaultMaxBodyBytes :: nat where "DefaultMaxBodyBytes = 1048576"

text \<open>\<^verbatim>\<open>net.SplitHostPort\<close>, of which only the host is used; \<open>None\<close> is an error.\<close>

definition split_last_colon :: "string \<Rightarrow> (string \<times> string) option" where
  "split_last_colon s =
     (if CHR '':'' \<notin> set s then None
      else let port = rev (takeWhile (\<lambda>c. c \<noteq> CHR '':'') (rev s)) in Some (take (length s - length port - 1) s, port))"

definition SplitHost :: "string \<Rightarrow> string option" where
  "SplitHost s =
     (case split_last_colon s of None \<Rightarrow> None | Some (before, port) \<Rightarrow>
      case s of
        CHR ''['' # rest \<Rightarrow>
          (let host = takeWhile (\<lambda>c. c \<noteq> CHR '']'') rest; after = dropWhile (\<lambda>c. c \<noteq> CHR '']'') rest in
           if after = [] then None
           else if before \<noteq> CHR ''['' # host @ '']'' then None
           else if CHR ''['' \<in> set rest \<or> CHR '']'' \<in> set (tl after) then None
           else Some host)
      | _ \<Rightarrow> if CHR '':'' \<in> set before \<or> CHR ''['' \<in> set s \<or> CHR '']'' \<in> set s then None else Some before)"

definition clientIPOf :: "http_request \<Rightarrow> string" where
  "clientIPOf r = (case SplitHost (hr_RemoteAddr r) of Some h \<Rightarrow> h | None \<Rightarrow> hr_RemoteAddr r)"

text \<open>\<^verbatim>\<open>strings.EqualFold\<close> against \<^verbatim>\<open>Bearer\<close> and a blank, whose letters fold only within ASCII.\<close>

definition bearerToken :: "http_request \<Rightarrow> string" where
  "bearerToken r =
     (let h = Header_Get (hr_Header r) ''Authorization'' in
      if length h < 7 \<or> ToLower (take 7 h) \<noteq> ''bearer '' then []
      else let tok = TrimSpace (drop 7 h) in
        if tok = [] \<or> CHR 0x0D \<in> set tok \<or> CHR 0x0A \<in> set tok then [] else tok)"

definition viewFromHTTP :: "http_request \<Rightarrow> request_view" where
  "viewFromHTTP r =
     zero_view
       \<lparr>vw_Method := hr_Method r, vw_Path := hr_Path r, vw_RawQuery := hr_RawQuery r, vw_Header := hr_Header r,
        vw_ClientIP := clientIPOf r, vw_TransportSecure := hr_TLS r \<noteq> None,
        vw_CertChain := (case hr_TLS r of None \<Rightarrow> [] | Some peers \<Rightarrow> peers),
        vw_PresentedCert := (case hr_TLS r of Some (leaf # _) \<Rightarrow> Some leaf | _ \<Rightarrow> None),
        vw_BearerToken := bearerToken r, vw_HTTPAdapter := Some r\<rparr>"

text \<open>The request after the body was read for the plugins: its body is what was read. The hooks see the same request.\<close>

definition bounded_request :: "auth_config \<Rightarrow> http_request \<Rightarrow> http_request" where
  "bounded_request c r =
     (case hr_Body r of None \<Rightarrow> r | Some b \<Rightarrow>
      if cfg_StreamBody c then r else r\<lparr>hr_Body := Some (take DefaultMaxBodyBytes b)\<rparr>)"

definition bounded_view :: "auth_config \<Rightarrow> http_request \<Rightarrow> request_view" where
  "bounded_view c r =
     (viewFromHTTP r)\<lparr>vw_HTTPAdapter := Some (bounded_request c r),
        vw_Body := (case hr_Body r of None \<Rightarrow> [] | Some b \<Rightarrow> if cfg_StreamBody c then [] else take DefaultMaxBodyBytes b)\<rparr>"

definition Authenticate ::
    "auth_env \<Rightarrow> auth_call \<Rightarrow> http_request \<Rightarrow> authenticator \<Rightarrow> http_request \<times> (auth_error + auth_context) \<times> authenticator" where
  "Authenticate E cl r a =
     (bounded_request (a_cfg a) r, Decide E cl (Some (bounded_view (a_cfg a) r)) a)"

section \<open>Refusals and outcomes\<close>

definition refusal_ctx :: "auth_call \<Rightarrow> authenticator \<Rightarrow> request_view \<Rightarrow> evidence_config \<Rightarrow> evidence_context" where
  "refusal_ctx cl a view c =
     \<lparr>ec_Facts = admissionFacts cl a view [], ec_RecorderID = evc_RecorderID c, ec_OperationID = [], ec_Method = vw_Method view,
      ec_Path = vw_Path view, ec_TraceID = TraceID view, ec_Principal = [], ec_AgentID = [],
      ec_Serial = (case vw_PresentedCert view of None \<Rightarrow> [] | Some leaf \<Rightarrow> text16 (cert_SerialNumber leaf)),
      ec_Outcome = EvidenceRefused, ec_At = sk_now (cl_sink cl)\<rparr>"

definition refusal_of :: "auth_error \<Rightarrow> refusal" where
  "refusal_of ae = \<lparr>rfs_Code = ErrorCode_String (aer_Code ae), rfs_Stage = aer_Stage ae, rfs_Message = aer_Message ae\<rparr>"

definition refusalEvidence ::
    "auth_call \<Rightarrow> request_view \<Rightarrow> auth_error \<Rightarrow> authenticator \<Rightarrow> record_ref list \<times> authenticator" where
  "refusalEvidence cl view ae a =
     (case cfg_Evidence (a_cfg a) of None \<Rightarrow> ([], a) | Some c \<Rightarrow>
      if aer_Evidence ae \<noteq> [] then ([], a)
      else case recordRefusal (cl_sink cl) c (refusal_ctx cl a view c) (Some (refusal_of ae)) (a_evidence a) of
             (refs, w) \<Rightarrow> (refs, a\<lparr>a_evidence := w\<rparr>))"

definition OutcomeObserved :: string where "OutcomeObserved = ''observed''"
definition OutcomeIndeterminate :: string where "OutcomeIndeterminate = ''indeterminate''"

definition outcome_sink :: "evidence_config \<Rightarrow> evidence_sink option" where
  "outcome_sink c =
     (case evc_Sink c of None \<Rightarrow> Some SlogSink | Some (CustomSink takes f) \<Rightarrow> if takes then Some (CustomSink takes f) else None | s \<Rightarrow> s)"

definition outcome_ctx :: "auth_call \<Rightarrow> evidence_config \<Rightarrow> http_request \<Rightarrow> auth_context \<Rightarrow> evidence_context" where
  "outcome_ctx cl c r ac =
     \<lparr>ec_Facts = [], ec_RecorderID = evc_RecorderID c, ec_OperationID = [], ec_Method = hr_Method r, ec_Path = hr_Path r,
      ec_TraceID = Header_Get (hr_Header r) ''X-Request-Id'', ec_Principal = ctx_Principal ac, ec_AgentID = ctx_AgentID ac,
      ec_Serial = ctx_Serial ac, ec_Outcome = EvidenceAdmitted, ec_At = sk_now (cl_sink cl)\<rparr>"

definition observed_outcome :: "auth_call \<Rightarrow> evidence_config \<Rightarrow> http_request \<Rightarrow> auth_context \<Rightarrow> int \<Rightarrow> bool \<Rightarrow> outcome_record" where
  "observed_outcome cl c r ac status transportErr =
     \<lparr>orec_Ver = [], orec_Outcome = (if transportErr then OutcomeIndeterminate else OutcomeObserved), orec_At = sk_now (cl_sink cl),
      orec_DecisionDigest = (case ctx_Evidence ac of [] \<Rightarrow> [] | ref # _ \<Rightarrow> ref_Digest ref),
      orec_OperationID = hr_Method r @ '' '' @ hr_Path r, orec_RecorderID = evc_RecorderID c, orec_StatusCode = status, orec_Note = [],
      orec_Identity = \<lparr>ident_Principal = ctx_Principal ac, ident_AgentID = ctx_AgentID ac, ident_Serial = ctx_Serial ac, ident_SPIFFEID = []\<rparr>,
      orec_Facts = []\<rparr>"

text \<open>A sink that does not take outcome records is reported to \<^verbatim>\<open>OnError\<close> when there is one, and otherwise passed over.\<close>

definition reportObservedOutcome ::
    "auth_call \<Rightarrow> evidence_config option \<Rightarrow> http_request \<Rightarrow> auth_context \<Rightarrow> int \<Rightarrow> bool \<Rightarrow> evidence_world \<Rightarrow> evidence_world" where
  "reportObservedOutcome cl cfg r ac status transportErr w =
     (case cfg of None \<Rightarrow> w | Some c \<Rightarrow>
      if \<not> evc_EmitOutcome c then w
      else let ctx = outcome_ctx cl c r ac in
        case outcome_sink c of
          None \<Rightarrow> if evc_OnError c then note_gap c ctx (SinkFailed ''sink does not emit outcome records'') w else w
        | Some s \<Rightarrow>
            (case ReportOutcome (cl_sink cl) (Some s) cfg ctx (observed_outcome cl c r ac status transportErr) w of
               (Inl e, w') \<Rightarrow> note_gap c ctx e w'
             | (Inr _, w') \<Rightarrow> w'))"

section \<open>The handler\<close>

record gateway =
  gw_auth :: authenticator
  gw_denied :: "(http_request \<times> auth_error) list"
  gw_sent :: "(string \<times> http_request) list"
  gw_forwarded :: "(http_request \<times> int) list"

datatype handler_result = Refused auth_error http_response | Served auth_context http_request http_response

type_synonym downstream = "auth_context \<Rightarrow> http_request \<Rightarrow> gateway \<Rightarrow> http_response \<times> gateway"

definition run_denied :: "http_request \<Rightarrow> auth_error \<Rightarrow> gateway \<Rightarrow> gateway" where
  "run_denied r ae gw = (if cfg_HookDenied (a_cfg (gw_auth gw)) then gw\<lparr>gw_denied := gw_denied gw @ [(r, ae)]\<rparr> else gw)"

definition serve_refused :: "auth_call \<Rightarrow> http_request \<Rightarrow> auth_error \<Rightarrow> gateway \<Rightarrow> handler_result \<times> gateway" where
  "serve_refused cl r ae gw =
     (case refusalEvidence cl (viewFromHTTP r) ae (gw_auth gw) of (refs, a) \<Rightarrow>
      let ae' = ae\<lparr>aer_Evidence := aer_Evidence ae @ refs\<rparr> in
      (Refused ae' (writeAuthError (cl_challenge cl) (cfg_ChallengeCarrier (a_cfg a)) ae'), run_denied r ae' (gw\<lparr>gw_auth := a\<rparr>)))"

definition serve_vetoed :: "auth_call \<Rightarrow> http_request \<Rightarrow> string \<Rightarrow> gateway \<Rightarrow> handler_result \<times> gateway" where
  "serve_vetoed cl r msg gw =
     (let ae = plain_error ErrDenied StatusForbidden msg in
      (Refused ae (writeAuthError (cl_challenge cl) (cfg_ChallengeCarrier (a_cfg (gw_auth gw))) ae), run_denied r ae gw))"

definition serve_next ::
    "auth_call \<Rightarrow> bool \<Rightarrow> downstream \<Rightarrow> auth_context \<Rightarrow> http_request \<Rightarrow> gateway \<Rightarrow> handler_result \<times> gateway" where
  "serve_next cl selfReporting dst ac r gw =
     (case dst ac r gw of (rsp, gw1) \<Rightarrow>
      let a = gw_auth gw1; ev = cfg_Evidence (a_cfg a);
          probe = \<not> selfReporting \<and> (case ev of None \<Rightarrow> False | Some c \<Rightarrow> evc_EmitOutcome c);
          status = (if rsp_Status rsp = 0 then 200 else rsp_Status rsp)
      in (Served ac r rsp,
          if probe then gw1\<lparr>gw_auth := a\<lparr>a_evidence := reportObservedOutcome cl ev r ac status False (a_evidence a)\<rparr>\<rparr> else gw1))"

definition Handler :: "auth_env \<Rightarrow> auth_call \<Rightarrow> bool \<Rightarrow> downstream \<Rightarrow> http_request \<Rightarrow> gateway \<Rightarrow> handler_result \<times> gateway" where
  "Handler E cl selfReporting dst r0 gw =
     (case Authenticate E cl r0 (gw_auth gw) of (r, res, a) \<Rightarrow>
      let gw' = gw\<lparr>gw_auth := a\<rparr> in
      case res of
        Inl ae \<Rightarrow> serve_refused cl r ae gw'
      | Inr ac \<Rightarrow>
          (case cfg_HookAuthenticated (a_cfg a) of
             None \<Rightarrow> serve_next cl selfReporting dst ac r gw'
           | Some f \<Rightarrow> (case f ac r of Some msg \<Rightarrow> serve_vetoed cl r msg gw' | None \<Rightarrow> serve_next cl selfReporting dst ac r gw')))"

section \<open>What a request leaves behind\<close>

text \<open>Gaps are only ever counted up.\<close>

lemma sink_emit_gaps: "sink_emit K sink ctx art env w = (r, w') \<Longrightarrow> ew_gaps w' = ew_gaps w"
  by (auto simp: sink_emit_def file_emit_def Let_def split: option.splits evidence_sink.splits sum.splits if_splits)

lemma emit_loop_gaps: "emit_loop K c base opts items refs w = (refs', err, w') \<Longrightarrow> ew_gaps w' = ew_gaps w"
proof (induction items arbitrary: refs w)
  case (Cons item rest)
  obtain od name grants where item: "item = (od, name, grants)" by (cases item)
  show ?case
  proof (cases "decision_envelope K c grants \<lparr>op_ID = od_ID od, op_Params = od_Params od\<rparr> opts")
    case (Inr p)
    obtain r w1 where em: "sink_emit K (evc_Sink c) (operation_context base od) (DecisionArtifact (fst p)) (snd p) w = (r, w1)" by fastforce
    then show ?thesis
      using Cons sink_emit_gaps[OF em] Inr by (cases r) (auto simp: item split: prod.splits)
  qed (use Cons.prems in \<open>simp add: item\<close>)
qed simp

lemma EmitDecisionRecords_gaps:
  "EmitDecisionRecords A K cfg ctx cert aic_opt pa user ops w = (refs, err, w') \<Longrightarrow> ew_gaps w' = ew_gaps w"
  by (auto simp: EmitDecisionRecords_def Let_def split: option.splits if_splits dest: emit_loop_gaps)

lemma note_gap_gaps: "ew_gaps (note_gap c ctx e w) = ew_gaps w + (if evc_Gaps c then 1 else 0)"
  by (simp add: note_gap_def count_gap_def)

lemma emitEvidence_gaps:
  assumes "emitEvidence cl view cert result outcome a = (refs, err, a')"
  shows "ew_gaps (a_evidence a) \<le> ew_gaps (a_evidence a')"
  using assms
  by (auto simp: emitEvidence_def Let_def note_gap_gaps split: option.splits if_splits prod.splits dest!: EmitDecisionRecords_gaps)

lemma resolveCredential_evidence:
  "resolveCredential E cl view a = (r, a') \<Longrightarrow> a_evidence a' = a_evidence a"
  by (auto simp: resolveCredential_def Let_def split: option.splits if_splits prod.splits sum.splits)

lemma refuse_decision_gaps:
  assumes "refuse_decision E cl view cert result a = (e, a')"
  shows "ew_gaps (a_evidence a) \<le> ew_gaps (a_evidence a')"
proof -
  obtain refs err a1 where em: "emitEvidence cl view cert result EvidenceRefused a = (refs, err, a1)" by (metis prod_cases3)
  with assms have "a' = auditAdmission E cl view cert refs True (az_DenyText E (pr_DenyReason result)) a1"
    by (simp add: refuse_decision_def Let_def split: if_splits)
  then show ?thesis using emitEvidence_gaps[OF em] by simp
qed

lemma admit_decision_gaps:
  assumes "admit_decision E cl view cert bearer result a = (r, a')"
  shows "ew_gaps (a_evidence a) \<le> ew_gaps (a_evidence a')"
  using assms by (cases rule: admit_decision_cases) (auto dest!: emitEvidence_gaps supervise_frame)

lemma Decide_gaps:
  assumes "Decide E cl (Some view) a = (r, a')"
  shows "ew_gaps (a_evidence a) \<le> ew_gaps (a_evidence a')"
proof -
  obtain a0 b where d: "decide E cl (Some view) a0 = (r, b)" and eq: "a_evidence a0 = a_evidence a" "a_evidence a' = a_evidence b"
    using assms by (auto simp: Decide_def split: prod.splits)
  from d have "ew_gaps (a_evidence a0) \<le> ew_gaps (a_evidence b)"
    by (cases rule: decide_cases)
      (auto dest!: resolveCredential_evidence refuse_decision_gaps admit_decision_gaps)
  with eq show ?thesis by simp
qed

lemma Decide_cfg: "Decide E cl (Some view) a = (r, a') \<Longrightarrow> a_cfg a' = a_cfg a"
  by (auto simp: Decide_def same_setup_def split: prod.splits dest!: decide_frame)

lemma recordRefusal_recorded:
  assumes "recordRefusal K c ctx err w = (refs, w')" "evc_Gaps c"
  shows "ew_gaps w \<le> ew_gaps w' \<and> (refs \<noteq> [] \<or> ew_gaps w < ew_gaps w')"
  using assms
  by (auto simp: recordRefusal_def Let_def note_gap_gaps split: sum.splits prod.splits dest!: sink_emit_gaps)

section \<open>The handler as a whole\<close>

text \<open>The outcomes of a request.\<close>

lemma Handler_cases:
  assumes "Handler E cl self dst r0 gw = (res, gw')"
  obtains (refused) ae a where "Decide E cl (Some (bounded_view (a_cfg (gw_auth gw)) r0)) (gw_auth gw) = (Inl ae, a)"
      "serve_refused cl (bounded_request (a_cfg (gw_auth gw)) r0) ae (gw\<lparr>gw_auth := a\<rparr>) = (res, gw')"
  | (vetoed) ac a f msg where "Decide E cl (Some (bounded_view (a_cfg (gw_auth gw)) r0)) (gw_auth gw) = (Inr ac, a)"
      "cfg_HookAuthenticated (a_cfg (gw_auth gw)) = Some f" "f ac (bounded_request (a_cfg (gw_auth gw)) r0) = Some msg"
      "serve_vetoed cl (bounded_request (a_cfg (gw_auth gw)) r0) msg (gw\<lparr>gw_auth := a\<rparr>) = (res, gw')"
  | (served) ac a where "Decide E cl (Some (bounded_view (a_cfg (gw_auth gw)) r0)) (gw_auth gw) = (Inr ac, a)"
      "\<forall>f. cfg_HookAuthenticated (a_cfg (gw_auth gw)) = Some f \<longrightarrow> f ac (bounded_request (a_cfg (gw_auth gw)) r0) = None"
      "serve_next cl self dst ac (bounded_request (a_cfg (gw_auth gw)) r0) (gw\<lparr>gw_auth := a\<rparr>) = (res, gw')"
proof -
  obtain d a where d: "Decide E cl (Some (bounded_view (a_cfg (gw_auth gw)) r0)) (gw_auth gw) = (d, a)" by fastforce
  note cfg = Decide_cfg[OF d]
  show thesis
  proof (cases d)
    case (Inl ae)
    then show ?thesis using assms d by (intro that(1)[of ae a]) (simp_all add: Handler_def Authenticate_def Let_def)
  next
    case (Inr ac)
    show ?thesis
    proof (cases "cfg_HookAuthenticated (a_cfg (gw_auth gw))")
      case None
      then show ?thesis using assms d Inr cfg by (intro that(3)[of ac a]) (simp_all add: Handler_def Authenticate_def Let_def)
    next
      case (Some f)
      then show ?thesis using assms d Inr cfg that(2)[of ac a f] that(3)[of ac a]
        by (cases "f ac (bounded_request (a_cfg (gw_auth gw)) r0)") (simp_all add: Handler_def Authenticate_def Let_def)
    qed
  qed
qed

lemma serve_results:
  "serve_refused cl r ae gw = (res, gw') \<Longrightarrow> \<exists>ae' rsp. res = Refused ae' rsp"
  "serve_vetoed cl r msg gw = (res, gw') \<Longrightarrow> \<exists>ae' rsp. res = Refused ae' rsp"
  "serve_next cl self dst ac r gw = (res, gw') \<Longrightarrow> res = Served ac r (fst (dst ac r gw))"
  by (auto simp: serve_refused_def serve_vetoed_def serve_next_def Let_def split: prod.splits)

lemma bounded_view_simps [simp]:
  "vw_VerifiedCert (bounded_view c r) = None" "vw_TransportSecure (bounded_view c r) = (hr_TLS r \<noteq> None)"
  "vw_CertChain (bounded_view c r) = (case hr_TLS r of None \<Rightarrow> [] | Some peers \<Rightarrow> peers)"
  "vw_BearerToken (bounded_view c r) = bearerToken r"
  by (simp_all add: bounded_view_def viewFromHTTP_def zero_view_def)

lemma Decide_credential:
  assumes "Decide E cl (Some view) a = (Inr ac, a')"
  shows "\<exists>chain. credential_verified E cl a view chain (ctx_ClientCert ac) (ctx_Bearer ac)"
proof -
  obtain a0 b where d: "decide E cl (Some view) a0 = (Inr ac, b)"
    and a0: "a0 = a\<lparr>a_metrics := (a_metrics a)\<lparr>dm_DecideTotal := dm_DecideTotal (a_metrics a) + 1\<rparr>\<rparr>"
    by (rule Decide_decide[OF assms]) (rule that)
  from d obtain chain cert bearer a1 result refs b' where
    r: "resolveCredential E cl view a0 = (Inr (chain, Some cert, bearer), a1)" "chain_guard E cl a1 view chain bearer = None"
      "checkEvidenceRequirement E cl view (context_of cert bearer refs result) b' = Inr ac"
    by (rule decide_admitted) (rule that)
  then show ?thesis
    using guarded_credential[OF r(1,2)] admitted_context(1,2)[OF r(3)] by (auto simp: a0)
qed


text \<open>No refusal is silent: with evidence configured and gaps counted, a request the decision refused leaves either the records
  its error refers to, or a larger count of gaps. The reverse case, a veto of the hook, leaves neither.\<close>

theorem handler_refusal_recorded:
  assumes "Handler E cl self dst r0 gw = (Refused ae rsp, gw')" "cfg_HookAuthenticated (a_cfg (gw_auth gw)) = None"
    and "cfg_Evidence (a_cfg (gw_auth gw)) = Some c" "evc_Gaps c"
  shows "aer_Evidence ae \<noteq> [] \<or> ew_gaps (a_evidence (gw_auth gw)) < ew_gaps (a_evidence (gw_auth gw'))"
  using assms(1)
proof (cases rule: Handler_cases)
  case (refused ae0 a)
  let ?r = "bounded_request (a_cfg (gw_auth gw)) r0"
  have cfg: "cfg_Evidence (a_cfg a) = Some c" using Decide_cfg[OF refused(1)] assms(3) by simp
  obtain refs b where ev: "refusalEvidence cl (viewFromHTTP ?r) ae0 a = (refs, b)" by fastforce
  then have out: "aer_Evidence ae = aer_Evidence ae0 @ refs" "a_evidence (gw_auth gw') = a_evidence b"
    using refused(2) by (auto simp: serve_refused_def run_denied_def Let_def split: if_splits)
  show ?thesis
  proof (cases "aer_Evidence ae0 = []")
    case True
    then have "recordRefusal (cl_sink cl) c (refusal_ctx cl a (viewFromHTTP ?r) c) (Some (refusal_of ae0)) (a_evidence a) = (refs, a_evidence b)"
      using ev cfg by (auto simp: refusalEvidence_def split: prod.splits)
    from recordRefusal_recorded[OF this assms(4)] Decide_gaps[OF refused(1)] out show ?thesis by auto
  qed (use out in simp)
qed (use assms(2) serve_results(3) in fastforce)+

text \<open>A body over the limit reaches the protected handler cut off at the limit, and not as it was sent.\<close>

theorem handler_truncates_body:
  assumes "Handler E cl self dst r0 gw = (Served ac r rsp, gw')" "\<not> cfg_StreamBody (a_cfg (gw_auth gw))"
    and "hr_Body r0 = Some b" "1048576 < length b"
  shows "hr_Body r = Some (take 1048576 b) \<and> hr_Body r \<noteq> hr_Body r0"
  using assms(1)
proof (cases rule: Handler_cases)
  case (served ac' a)
  then have "r = bounded_request (a_cfg (gw_auth gw)) r0" using serve_results(3)[OF served(3)] by simp
  moreover have "length (take 1048576 b) \<noteq> length b" using assms(4) by simp
  ultimately show ?thesis
    using assms(2,3) by (auto simp: bounded_request_def DefaultMaxBodyBytes_def simp del: length_take)
qed (use serve_results in blast)+

section \<open>Witnesses\<close>

definition example_request :: "certificate list option \<Rightarrow> http_request" where
  "example_request tls =
     \<lparr>hr_Method = ''GET'', hr_Path = ''/db'', hr_RawQuery = [], hr_Header = [(''X-Request-Id'', [''t1''])],
      hr_RemoteAddr = ''10.0.0.7:4711'', hr_TLS = tls, hr_Body = Some ''{}''\<rparr>"

definition example_gateway :: gateway where
  "example_gateway = \<lparr>gw_auth = example_authenticator, gw_denied = [], gw_sent = [], gw_forwarded = []\<rparr>"

definition example_backend :: downstream where
  "example_backend ac r gw = (\<lparr>rsp_Status = 0, rsp_Headers = [], rsp_Body = ctx_Principal ac\<rparr>, gw)"

abbreviation (input) example_mtls_call :: auth_call where "example_mtls_call \<equiv> example_call (ae_pki example_adm_env) 130"

lemma example_gateway_simps [simp]: "gw_auth example_gateway = example_authenticator" "gw_denied example_gateway = []"
  by (simp_all add: example_gateway_def)

lemma example_client_ip: "clientIPOf (example_request tls) = ''10.0.0.7''"
  by (simp add: clientIPOf_def example_request_def SplitHost_def split_last_colon_def)

lemma example_no_token: "bearerToken (example_request tls) = []"
  by (simp add: bearerToken_def example_request_def Header_Get_def)

lemma example_request_view:
  "bounded_view example_auth_config (example_request (Some [example_cert])) =
     zero_view\<lparr>vw_CertChain := [example_cert], vw_TransportSecure := True, vw_Method := ''GET'', vw_Path := ''/db'',
       vw_Header := [(''X-Request-Id'', [''t1''])], vw_ClientIP := ''10.0.0.7'', vw_Body := ''{}'', vw_PresentedCert := Some example_cert,
       vw_HTTPAdapter := Some (example_request (Some [example_cert]))\<rparr>"
proof -
  have "take DefaultMaxBodyBytes ''{}'' = ''{}''" by (simp add: DefaultMaxBodyBytes_def)
  then show ?thesis
    by (simp add: bounded_view_def viewFromHTTP_def example_client_ip example_no_token bounded_request_def example_auth_config_def)
      (simp add: example_request_def zero_view_def)
qed

lemma example_request_granted:
  "pr_Granted (fst (RunAccessPipeline (cl_pipe example_mtls_call) [example_cert]
     (pipelineConfig example_auth_env example_authenticator
       (zero_view\<lparr>vw_CertChain := [example_cert], vw_TransportSecure := True, vw_Method := ''GET'', vw_Path := ''/db'',
         vw_Header := [(''X-Request-Id'', [''t1''])], vw_ClientIP := ''10.0.0.7'', vw_Body := ''{}'', vw_PresentedCert := Some example_cert\<rparr>)
       ''{}'' False) example_pipe_state))"
  by code_simp

lemma example_handler_decide:
  obtains ac a where "Decide example_auth_env example_mtls_call
    (Some (bounded_view example_auth_config (example_request (Some [example_cert])))) example_authenticator = (Inr ac, a)"
proof -
  let ?view = "bounded_view example_auth_config (example_request (Some [example_cert]))"
  let ?m = "(a_metrics example_authenticator)\<lparr>dm_DecideTotal := dm_DecideTotal (a_metrics example_authenticator) + 1\<rparr>"
  have "pipelineConfig example_auth_env example_authenticator ?view (vw_Body ?view) False
    = pipelineConfig example_auth_env example_authenticator
       (zero_view\<lparr>vw_CertChain := [example_cert], vw_TransportSecure := True, vw_Method := ''GET'', vw_Path := ''/db'',
         vw_Header := [(''X-Request-Id'', [''t1''])], vw_ClientIP := ''10.0.0.7'', vw_Body := ''{}'', vw_PresentedCert := Some example_cert\<rparr>)
       ''{}'' False"
    by (simp add: example_request_view zero_view_def pipelineConfig_def httpFacts_def)
  then have "pr_Granted (fst (RunAccessPipeline (cl_pipe example_mtls_call) [example_cert]
     (pipelineConfig example_auth_env example_authenticator ?view (vw_Body ?view) False) example_pipe_state))"
    using example_request_granted by simp
  moreover have "vw_VerifiedCert ?view = None" "vw_CertChain ?view = [example_cert]" "vw_EvidenceFactsWith ?view = None"
    by (simp_all add: example_request_view zero_view_def)
  ultimately obtain ac a where "decide example_auth_env example_mtls_call (Some ?view) (example_authenticator\<lparr>a_metrics := ?m\<rparr>) = (Inr ac, a)"
    using example_mtls[OF refl, of ?view ?m] by blast
  then show thesis by (intro that) (simp add: Decide_def)
qed


definition counting_config :: auth_config where
  "counting_config = example_auth_config\<lparr>cfg_Evidence := Some (example_evidence\<lparr>evc_Gaps := True\<rparr>)\<rparr>"

definition counting_gateway :: gateway where
  "counting_gateway = example_gateway\<lparr>gw_auth := example_authenticator\<lparr>a_cfg := counting_config\<rparr>\<rparr>"

lemma counting_gateway_simps [simp]:
  "a_cfg (gw_auth counting_gateway) = counting_config" "a_evidence (gw_auth counting_gateway) = empty_world"
  by (simp_all add: counting_gateway_def)

theorem handler_refusal_recorded_witness:
  "\<exists>ae rsp gw'. Handler example_auth_env example_mtls_call False example_backend (example_request None) counting_gateway
     = (Refused ae rsp, gw') \<and> rsp_Status rsp = 401
     \<and> (aer_Evidence ae \<noteq> [] \<or> 0 < ew_gaps (a_evidence (gw_auth gw')))"
proof -
  let ?r = "example_request None" and ?e = "plain_error ErrNoCredential StatusUnauthorized ''no client credential presented''"
  have "vw_VerifiedCert (bounded_view counting_config ?r) = None" "vw_CertChain (bounded_view counting_config ?r) = []"
    "vw_BearerToken (bounded_view counting_config ?r) = []"
    by (simp_all add: example_no_token) (simp add: example_request_def)
  then obtain a where d: "Decide example_auth_env example_mtls_call (Some (bounded_view counting_config ?r)) (gw_auth counting_gateway) = (Inl ?e, a)"
    by (simp add: Decide_def decide_def resolveCredential_def)
  obtain refs b where ev: "refusalEvidence example_mtls_call (viewFromHTTP (bounded_request counting_config ?r)) ?e a = (refs, b)" by fastforce
  define ae where "ae = ?e\<lparr>aer_Evidence := aer_Evidence ?e @ refs\<rparr>"
  define rsp where "rsp = writeAuthError (cl_challenge example_mtls_call) (cfg_ChallengeCarrier (a_cfg b)) ae"
  obtain gw' where run: "Handler example_auth_env example_mtls_call False example_backend ?r counting_gateway = (Refused ae rsp, gw')"
    using d ev by (simp add: Handler_def Authenticate_def serve_refused_def Let_def ae_def rsp_def)
  have status: "rsp_Status rsp = 401" by (simp add: rsp_def ae_def writeAuthError_def plain_error_def)
  have cfg: "cfg_HookAuthenticated (a_cfg (gw_auth counting_gateway)) = None"
    "cfg_Evidence (a_cfg (gw_auth counting_gateway)) = Some (example_evidence\<lparr>evc_Gaps := True\<rparr>)"
    "evc_Gaps (example_evidence\<lparr>evc_Gaps := True\<rparr>)"
    by (simp_all add: counting_config_def example_auth_config_def)
  from handler_refusal_recorded[OF run cfg] run status show ?thesis by (auto simp: empty_world_def)
qed

end
