(* ===== verification/Admin.thy ===== *)
theory Admin
  imports Middleware Audit_Log
begin

text \<open>
  The decision server and its administration face (\<^verbatim>\<open>src/decide.go\<close>: \<^verbatim>\<open>DecisionServer\<close>, \<^verbatim>\<open>adminTokenFrom\<close>; \<^verbatim>\<open>src/admin.go\<close>: counters,
  readiness, policy reload and the HTTP endpoints; \<^verbatim>\<open>src/aicverifier.go\<close>: \<^verbatim>\<open>Config.Metrics\<close> and \<^verbatim>\<open>Config.Close\<close>). The server's life is a step
  relation: a decision arrives, is decided and noted later, and requests to the endpoints and reloads come in between.
  Formatting times and JSON are parameters; a response carries the value that is encoded.
\<close>

section \<open>Counters and readiness\<close>

record metrics_snapshot =
  ms_UptimeSeconds :: int
  ms_DecideTotal :: "64 word"
  ms_Granted :: "64 word"
  ms_Denied :: "64 word"
  ms_ConfigReloads :: "64 word"

definition zero_snapshot :: metrics_snapshot where
  "zero_snapshot = \<lparr>ms_UptimeSeconds = 0, ms_DecideTotal = 0, ms_Granted = 0, ms_Denied = 0, ms_ConfigReloads = 0\<rparr>"

text \<open>\<^verbatim>\<open>int64(d.Seconds())\<close> rounds towards zero.\<close>

definition whole_seconds :: "duration \<Rightarrow> int" where
  "whole_seconds d = (if d \<ge> 0 then d div second else - ((- d) div second))"

definition Snapshot :: "instant \<Rightarrow> decision_metrics option \<Rightarrow> metrics_snapshot" where
  "Snapshot now m =
     (case m of None \<Rightarrow> zero_snapshot | Some c \<Rightarrow>
        \<lparr>ms_UptimeSeconds = whole_seconds (go_Sub now (dm_StartedAt c)), ms_DecideTotal = dm_DecideTotal c, ms_Granted = dm_Granted c,
         ms_Denied = dm_Denied c, ms_ConfigReloads = dm_ConfigReload c\<rparr>)"

text \<open>The counter set of a configuration is created on first use and shared from then on.\<close>

definition Metrics :: "instant \<Rightarrow> decision_metrics option \<Rightarrow> decision_metrics" where
  "Metrics now m = (case m of None \<Rightarrow> NewDecisionMetrics now | Some c \<Rightarrow> c)"

record health_report =
  hp_OK :: bool
  hp_Module :: string
  hp_StartTime :: string
  hp_UptimeSeconds :: int
  hp_LastErrorAt :: string
  hp_LastOKAt :: string
  hp_Metrics :: metrics_snapshot

definition empty_report :: health_report where
  "empty_report = \<lparr>hp_OK = False, hp_Module = ''varwof.aic.decision.v1'', hp_StartTime = [], hp_UptimeSeconds = 0, hp_LastErrorAt = [],
     hp_LastOKAt = [], hp_Metrics = zero_snapshot\<rparr>"

text \<open>What an administration request reads: the clock, the format of times, the decoding of the reload request from the bytes
  under the limit and whether the reader fails behind them, and of a policy.\<close>

record admin_env =
  adm_now :: instant
  adm_RFC3339Nano :: "instant \<Rightarrow> string"
  adm_DecodeReload :: "bytes \<Rightarrow> bool \<Rightarrow> string + bytes"
  adm_Policy :: "certificate list policy_env"
  adm_PolicyText :: "policy_error \<Rightarrow> string"

definition healthReport :: "admin_env \<Rightarrow> decision_metrics option \<Rightarrow> health_report" where
  "healthReport V m =
     (case m of None \<Rightarrow> empty_report | Some c \<Rightarrow>
      let snap = Snapshot (adm_now V) m in
      \<lparr>hp_OK = Healthy c, hp_Module = ''varwof.aic.decision.v1'', hp_StartTime = adm_RFC3339Nano V (dm_StartedAt c),
       hp_UptimeSeconds = ms_UptimeSeconds snap,
       hp_LastErrorAt = (case dm_lastErr c of None \<Rightarrow> [] | Some t \<Rightarrow> adm_RFC3339Nano V t),
       hp_LastOKAt = (case dm_lastOK c of None \<Rightarrow> [] | Some t \<Rightarrow> adm_RFC3339Nano V t), hp_Metrics = snap\<rparr>)"

text \<open>The report of a configuration, which is absent or has its counter set created; the counter set is kept.\<close>

definition Config_Health :: "admin_env \<Rightarrow> decision_metrics option option \<Rightarrow> health_report \<times> decision_metrics option option" where
  "Config_Health V c =
     (case c of None \<Rightarrow> (empty_report, c) | Some m \<Rightarrow> let k = Metrics (adm_now V) m in (healthReport V (Some k), Some (Some k)))"

section \<open>The decision server\<close>

record decision_server =
  ds_a :: authenticator
  ds_adminToken :: string

definition adminTokenFrom :: "material \<Rightarrow> auth_config option \<Rightarrow> config_error + string" where
  "adminTokenFrom M cfg =
     (case cfg of None \<Rightarrow> Inl NilConfig | Some c \<Rightarrow>
      if cfg_AdminToken c \<noteq> [] then Inr (cfg_AdminToken c)
      else if cfg_AdminTokenFile c = [] then Inl NoAdminToken
      else case mat_ReadFile M (cfg_AdminTokenFile c) of Inl e \<Rightarrow> Inl (AdminTokenRead e) | Inr b \<Rightarrow>
        if TrimSpace b = [] then Inl (EmptyAdminSecret (cfg_AdminTokenFile c)) else Inr (TrimSpace b))"

definition NewDecisionServer ::
    "auth_env \<Rightarrow> evidence_ops \<Rightarrow> crypto_ops \<Rightarrow> material \<Rightarrow> decision_metrics \<Rightarrow> pipeline_state \<Rightarrow> evidence_world
     \<Rightarrow> supervision_store option \<times> file_system \<Rightarrow> auth_config option \<Rightarrow> config_error list + decision_server" where
  "NewDecisionServer E X C M metrics pipe world store cfg =
     (case newAuthenticator E X C M metrics pipe world store cfg of Inl es \<Rightarrow> Inl es | Inr a \<Rightarrow>
      case adminTokenFrom M cfg of Inl e \<Rightarrow> Inl [e] | Inr tok \<Rightarrow> Inr \<lparr>ds_a = a, ds_adminToken = tok\<rparr>)"

definition Health :: "admin_env \<Rightarrow> decision_server option \<Rightarrow> health_report" where
  "Health V s = (case s of None \<Rightarrow> empty_report | Some d \<Rightarrow> healthReport V (Some (a_metrics (ds_a d))))"

section \<open>Reloading the policy\<close>

definition validateReloadPolicy :: "auth_policy_bundle \<Rightarrow> string option" where
  "validateReloadPolicy b =
     (case apb_Policy b of None \<Rightarrow> Some ''aic-verifier: reload: policy is nil'' | Some p \<Rightarrow>
      if ap_Version p = [] then Some ''aic-verifier: reload: policy missing version''
      else if length (ap_Roles p) = 0 then Some ''aic-verifier: reload: policy has no roles''
      else None)"

definition reload :: "auth_policy_bundle option \<Rightarrow> decision_server option \<Rightarrow> string option \<times> decision_server option" where
  "reload b s =
     (case s of None \<Rightarrow> (Some ''aic-verifier: reload: decision server not configured'', s) | Some d \<Rightarrow>
      case b of None \<Rightarrow> (Some ''aic-verifier: reload: nil bundle'', s) | Some bd \<Rightarrow>
      case validateReloadPolicy bd of Some e \<Rightarrow> (Some e, s) | None \<Rightarrow>
        (None, Some (d\<lparr>ds_a := (ds_a d)\<lparr>a_policy := Some bd,
           a_metrics := (a_metrics (ds_a d))\<lparr>dm_ConfigReload := dm_ConfigReload (a_metrics (ds_a d)) + 1\<rparr>\<rparr>\<rparr>)))"

definition ReloadPolicy :: "authorization_policy option \<Rightarrow> decision_server option \<Rightarrow> string option \<times> decision_server option" where
  "ReloadPolicy p s = reload (Some \<lparr>apb_Policy = p, apb_Constraints = None, apb_Validators = None\<rparr>) s"

definition ReloadPolicyFromFile ::
    "admin_env \<Rightarrow> string \<Rightarrow> string \<Rightarrow> certificate list policy_verify_options option \<Rightarrow> decision_server option
     \<Rightarrow> string option \<times> decision_server option" where
  "ReloadPolicyFromFile V policyPath sigSuffix opts s =
     (case LoadAuthorizationPolicy (adm_Policy V) policyPath sigSuffix opts of
        Inl e \<Rightarrow> (Some (adm_PolicyText V e), s)
      | Inr p \<Rightarrow> ReloadPolicy (Some p) s)"

section \<open>The endpoints\<close>

datatype admin_body = HealthBody health_report | MetricsBody metrics_snapshot | ErrorBody "(string \<times> string) list"

record admin_response =
  adr_Status :: int
  adr_Body :: admin_body

definition handleHealth :: "admin_env \<Rightarrow> decision_server \<Rightarrow> admin_response" where
  "handleHealth V d = \<lparr>adr_Status = 200, adr_Body = HealthBody (Health V (Some d))\<rparr>"

definition handleMetrics :: "admin_env \<Rightarrow> decision_server \<Rightarrow> admin_response" where
  "handleMetrics V d = \<lparr>adr_Status = 200, adr_Body = MetricsBody (Snapshot (adm_now V) (Some (a_metrics (ds_a d))))\<rparr>"

definition admin_error :: "int \<Rightarrow> string \<Rightarrow> string \<times> string \<Rightarrow> admin_response" where
  "admin_error status code detail = \<lparr>adr_Status = status, adr_Body = ErrorBody [(''error'', code), detail]\<rparr>"

definition reloadLimit :: nat where "reloadLimit = 1048576"

definition handleReload :: "admin_env \<Rightarrow> http_request \<Rightarrow> decision_server \<Rightarrow> admin_response \<times> decision_server" where
  "handleReload V r d =
     (if hr_Method r \<noteq> ''POST'' then (admin_error 405 ''method_not_allowed'' (''use'', ''POST''), d)
      else let auth = Header_Get (hr_Header r) ''Authorization'' in
        if \<not> HasPrefix auth ''Bearer '' then (admin_error 401 ''unauthorized'' (''detail'', ''Bearer admin secret required''), d)
        else if drop 7 auth \<noteq> ds_adminToken d then (admin_error 401 ''unauthorized'' (''detail'', ''invalid admin bearer token''), d)
        else let body = (case hr_Body r of None \<Rightarrow> [] | Some b \<Rightarrow> b) in
          case adm_DecodeReload V (take reloadLimit body) (reloadLimit < length body) of
            Inl e \<Rightarrow> (admin_error 400 ''bad_request'' (''detail'', e), d)
          | Inr raw \<Rightarrow>
              (case ParseAuthorizationPolicy (adm_Policy V) raw of
                 Inl e \<Rightarrow> (admin_error 400 ''policy_invalid'' (''detail'', adm_PolicyText V e), d)
               | Inr p \<Rightarrow>
                   (case ReloadPolicy (Some p) (Some d) of
                      (Some e, s) \<Rightarrow> (admin_error 400 ''reload_failed'' (''detail'', e), the s)
                    | (None, s) \<Rightarrow> (\<lparr>adr_Status = 200, adr_Body = HealthBody (Health V s)\<rparr>, the s))))"

text \<open>The routing of the administration endpoints; other paths are answered by the multiplexer.\<close>

definition AdminHandler :: "admin_env \<Rightarrow> http_request \<Rightarrow> decision_server \<Rightarrow> admin_response option \<times> decision_server" where
  "AdminHandler V r d =
     (if hr_Path r \<in> {''/healthz'', ''/readyz'', ''/health''} then (Some (handleHealth V d), d)
      else if hr_Path r = ''/metrics'' then (Some (handleMetrics V d), d)
      else if hr_Path r = ''/reload'' then (case handleReload V r d of (rsp, d') \<Rightarrow> (Some rsp, d'))
      else (None, d))"

section \<open>Closing\<close>

text \<open>The resources of a configuration: the cleanup loop of the nonce cache (a flag once stopped), the supervision store, the audit
  logger and the log file. Closing a file succeeds.\<close>

record owned =
  own_nonces :: "bool option"
  own_store :: "supervision_store option"
  own_audit :: "audit_logger option"
  own_logFile :: bool

definition CloseLogger :: "owned \<Rightarrow> owned" where
  "CloseLogger w = w\<lparr>own_logFile := False\<rparr>"

definition Config_Close :: "fs_faults \<Rightarrow> audit_env \<Rightarrow> bool \<Rightarrow> (nat \<Rightarrow> bool) \<Rightarrow> owned \<Rightarrow> owned" where
  "Config_Close F A hasTSA timely w =
     CloseLogger (w\<lparr>own_nonces := map_option (\<lambda>_. True) (own_nonces w), own_store := store_Close (own_store w),
       own_audit := map_option (Close_logger F A hasTSA timely) (own_audit w)\<rparr>)"

section \<open>The life of a server\<close>

text \<open>\<^verbatim>\<open>Decide\<close> counts a request when it arrives and notes its result when it is decided. Between the two, other requests
  arrive, are decided, or administer the server. \<open>vs\<close> are the requests that have arrived and are not yet decided.\<close>

definition arrival :: "decision_server \<Rightarrow> decision_server" where
  "arrival d = d\<lparr>ds_a := (ds_a d)\<lparr>a_metrics := (a_metrics (ds_a d))\<lparr>dm_DecideTotal := dm_DecideTotal (a_metrics (ds_a d)) + 1\<rparr>\<rparr>\<rparr>"

definition settled :: "auth_call \<Rightarrow> (auth_error + auth_context) \<Rightarrow> authenticator \<Rightarrow> decision_server \<Rightarrow> decision_server" where
  "settled cl r a d = d\<lparr>ds_a := a\<lparr>a_metrics := noteResult (cl_done cl) (isl r) (a_metrics a)\<rparr>\<rparr>"

inductive server_run :: "auth_env \<Rightarrow> decision_server \<Rightarrow> decision_server \<Rightarrow> request_view option list \<Rightarrow> bool" for E d0 where
  start: "server_run E d0 d0 []"
| arrive: "server_run E d0 d vs \<Longrightarrow> server_run E d0 (arrival d) (vs @ [v])"
| settle: "server_run E d0 d (xs @ v # ys) \<Longrightarrow> decide E cl v (ds_a d) = (r, a) \<Longrightarrow> server_run E d0 (settled cl r a d) (xs @ ys)"
| admin: "server_run E d0 d vs \<Longrightarrow> AdminHandler V r d = (rsp, d') \<Longrightarrow> server_run E d0 d' vs"
| install: "server_run E d0 d vs \<Longrightarrow> reload b (Some d) = (e, Some d') \<Longrightarrow> server_run E d0 d' vs"
| from_file: "server_run E d0 d vs \<Longrightarrow> ReloadPolicyFromFile V path suffix opts (Some d) = (e, Some d') \<Longrightarrow> server_run E d0 d' vs"

text \<open>A single request without others in between is \<^verbatim>\<open>Decide\<close>.\<close>

lemma Decide_run:
  assumes "server_run E d0 d []" "Decide E cl v (ds_a d) = (r, a)"
  shows "server_run E d0 (d\<lparr>ds_a := a\<rparr>) []"
proof -
  obtain b where b: "decide E cl v (ds_a (arrival d)) = (r, b)" "a = b\<lparr>a_metrics := noteResult (cl_done cl) (isl r) (a_metrics b)\<rparr>"
    using assms(2) by (auto simp: Decide_def arrival_def split: prod.splits)
  have "server_run E d0 (arrival d) ([] @ v # [])" using arrive[OF assms(1), of v] by simp
  from settle[OF this b(1)] have "server_run E d0 (settled cl r b (arrival d)) []" by simp
  moreover have "settled cl r b (arrival d) = d\<lparr>ds_a := a\<rparr>" by (simp add: settled_def arrival_def b(2))
  ultimately show ?thesis by simp
qed

section \<open>What a step does\<close>

lemma decide_None: "decide E cl None a = decide E cl (Some zero_view) a"
  by (simp add: decide_def)

lemma decide_setup: "decide E cl v a = (r, a') \<Longrightarrow> same_setup a a'"
  using decide_frame by (cases v) (auto simp: decide_None)

definition valid_policy :: "authorization_policy \<Rightarrow> bool" where
  "valid_policy p \<longleftrightarrow> ap_Version p \<noteq> [] \<and> ap_Roles p \<noteq> []"

definition installed :: "auth_policy_bundle \<Rightarrow> decision_server \<Rightarrow> decision_server" where
  "installed b d = d\<lparr>ds_a := (ds_a d)\<lparr>a_policy := Some b,
     a_metrics := (a_metrics (ds_a d))\<lparr>dm_ConfigReload := dm_ConfigReload (a_metrics (ds_a d)) + 1\<rparr>\<rparr>\<rparr>"

lemma installed_neq: "installed b d \<noteq> d"
proof
  assume "installed b d = d"
  then have "dm_ConfigReload (a_metrics (ds_a (installed b d))) = dm_ConfigReload (a_metrics (ds_a d))" by simp
  then show False by (simp add: installed_def)
qed

lemma reload_cases:
  assumes "reload b (Some d) = (e, s)"
  obtains (failed) msg where "e = Some msg" "s = Some d"
  | (swapped) bd p where "b = Some bd" "apb_Policy bd = Some p" "valid_policy p" "e = None" "s = Some (installed bd d)"
  using assms
  by (auto simp: reload_def validateReloadPolicy_def valid_policy_def installed_def split: option.splits if_splits)

lemma ReloadPolicyFromFile_cases:
  assumes "ReloadPolicyFromFile V path suffix opts (Some d) = (e, s)"
  obtains (failed) msg where "e = Some msg" "s = Some d"
  | (swapped) p where "LoadAuthorizationPolicy (adm_Policy V) path suffix opts = Inr p" "valid_policy p" "e = None"
      "s = Some (installed \<lparr>apb_Policy = Some p, apb_Constraints = None, apb_Validators = None\<rparr> d)"
proof (cases "LoadAuthorizationPolicy (adm_Policy V) path suffix opts")
  case (Inl x)
  then show ?thesis using assms that(1) by (auto simp: ReloadPolicyFromFile_def)
next
  case (Inr p)
  then have "reload (Some \<lparr>apb_Policy = Some p, apb_Constraints = None, apb_Validators = None\<rparr>) (Some d) = (e, s)"
    using assms by (simp add: ReloadPolicyFromFile_def ReloadPolicy_def)
  then show ?thesis using Inr that by (cases rule: reload_cases) auto
qed

definition plain_bundle :: "authorization_policy \<Rightarrow> auth_policy_bundle" where
  "plain_bundle p = \<lparr>apb_Policy = Some p, apb_Constraints = None, apb_Validators = None\<rparr>"

lemma handleReload_cases:
  assumes "handleReload V r d = (rsp, d')"
  obtains (failed) "d' = d" "adr_Status rsp \<in> {400, 401, 405}"
  | (swapped) raw p where "hr_Method r = ''POST''" "Header_Get (hr_Header r) ''Authorization'' = ''Bearer '' @ ds_adminToken d"
      "adm_DecodeReload V (take reloadLimit (case hr_Body r of None \<Rightarrow> [] | Some b \<Rightarrow> b))
         (reloadLimit < length (case hr_Body r of None \<Rightarrow> [] | Some b \<Rightarrow> b)) = Inr raw"
      "ParseAuthorizationPolicy (adm_Policy V) raw = Inr p" "valid_policy p" "d' = installed (plain_bundle p) d" "adr_Status rsp = 200"
proof -
  let ?auth = "Header_Get (hr_Header r) ''Authorization''" and ?body = "case hr_Body r of None \<Rightarrow> [] | Some b \<Rightarrow> b"
  show thesis
  proof (cases "hr_Method r = ''POST'' \<and> HasPrefix ?auth ''Bearer '' \<and> drop 7 ?auth = ds_adminToken d")
    case False
    then show ?thesis using assms by (intro that(1)) (auto simp: handleReload_def Let_def admin_error_def split: if_splits)
  next
    case auth: True
    then have bearer: "?auth = ''Bearer '' @ ds_adminToken d" by (auto simp: HasPrefix_iff)
    show ?thesis
    proof (cases "adm_DecodeReload V (take reloadLimit ?body) (reloadLimit < length ?body)")
      case (Inl e)
      then show ?thesis using assms auth by (intro that(1)) (auto simp: handleReload_def Let_def admin_error_def)
    next
      case raw: (Inr raw)
      show ?thesis
      proof (cases "ParseAuthorizationPolicy (adm_Policy V) raw")
        case (Inl e)
        then show ?thesis using assms auth raw by (intro that(1)) (auto simp: handleReload_def Let_def admin_error_def)
      next
        case (Inr p)
        then have "valid_policy p" by (auto simp: ParseAuthorizationPolicy_def valid_policy_def split: option.splits if_splits)
        moreover from this have "ReloadPolicy (Some p) (Some d) = (None, Some (installed (plain_bundle p) d))"
          by (simp add: ReloadPolicy_def reload_def validateReloadPolicy_def valid_policy_def installed_def plain_bundle_def)
        ultimately show ?thesis
          using assms auth raw Inr bearer by (intro that(2)[of raw p]) (auto simp: handleReload_def Let_def)
      qed
    qed
  qed
qed

lemma AdminHandler_cases:
  assumes "AdminHandler V r d = (rsp, d')"
  obtains (unchanged) "d' = d"
  | (reload) rsp' where "hr_Path r = ''/reload''" "handleReload V r d = (rsp', d')" "rsp = Some rsp'"
  using assms by (auto simp: AdminHandler_def split: if_splits prod.splits)

lemma AdminHandler_changes:
  assumes "AdminHandler V r d = (rsp, d')"
  shows "d' = d \<or> (\<exists>p. valid_policy p \<and> d' = installed (plain_bundle p) d)"
  using assms by (cases rule: AdminHandler_cases) (auto elim: handleReload_cases)

lemma server_run_token:
  "server_run E d0 d vs \<Longrightarrow> ds_adminToken d = ds_adminToken d0"
proof (induction rule: server_run.induct)
  case (admin d vs V r rsp d')
  then show ?case using AdminHandler_changes[OF admin(2)] by (auto simp: installed_def)
next
  case (install d vs b e d')
  from install(2) show ?case using install(3) by (cases rule: reload_cases) (auto simp: installed_def)
next
  case (from_file d vs V path suffix opts e d')
  from from_file(2) show ?case using from_file(3) by (cases rule: ReloadPolicyFromFile_cases) (auto simp: installed_def)
qed (simp_all add: arrival_def settled_def)

section \<open>The abstract server\<close>

text \<open>What administration promises: a policy in force, and unbounded counts of the requests granted, denied and still open.\<close>

record admin_spec =
  sp_policy :: "authorization_policy option"
  sp_granted :: nat
  sp_denied :: nat
  sp_open :: nat
  sp_reloads :: nat

definition fresh_spec :: admin_spec where
  "fresh_spec = \<lparr>sp_policy = None, sp_granted = 0, sp_denied = 0, sp_open = 0, sp_reloads = 0\<rparr>"

inductive spec_step :: "admin_spec \<Rightarrow> admin_spec \<Rightarrow> bool" where
  spec_arrive: "spec_step s (s\<lparr>sp_open := sp_open s + 1\<rparr>)"
| spec_grant: "sp_open s = Suc n \<Longrightarrow> spec_step s (s\<lparr>sp_open := n, sp_granted := sp_granted s + 1\<rparr>)"
| spec_deny: "sp_open s = Suc n \<Longrightarrow> spec_step s (s\<lparr>sp_open := n, sp_denied := sp_denied s + 1\<rparr>)"
| spec_install: "valid_policy p \<Longrightarrow> spec_step s (s\<lparr>sp_policy := Some p, sp_reloads := sp_reloads s + 1\<rparr>)"

definition implements :: "decision_server \<Rightarrow> request_view option list \<Rightarrow> admin_spec \<Rightarrow> bool" where
  "implements d vs s \<longleftrightarrow>
     (let m = a_metrics (ds_a d) in
      dm_Granted m = of_nat (sp_granted s) \<and> dm_Denied m = of_nat (sp_denied s) \<and> dm_ConfigReload m = of_nat (sp_reloads s)
      \<and> dm_DecideTotal m = of_nat (sp_granted s + sp_denied s + sp_open s) \<and> length vs = sp_open s
      \<and> (case a_policy (ds_a d) of None \<Rightarrow> sp_policy s = None | Some b \<Rightarrow> sp_policy s \<noteq> None \<and> apb_Policy b = sp_policy s))"

lemma implements_arrival: "implements d vs s \<Longrightarrow> implements (arrival d) (vs @ [v]) (s\<lparr>sp_open := sp_open s + 1\<rparr>)"
  by (simp add: implements_def arrival_def Let_def ac_simps split: option.splits)

lemma implements_settled:
  assumes "implements d (xs @ v # ys) s" "decide E cl v (ds_a d) = (r, a)"
  shows "\<exists>s'. spec_step s s' \<and> implements (settled cl r a d) (xs @ ys) s'"
proof -
  have same: "a_metrics a = a_metrics (ds_a d)" "a_policy a = a_policy (ds_a d)"
    using decide_setup[OF assms(2)] by (simp_all add: same_setup_def)
  obtain n where n: "sp_open s = Suc n" "length (xs @ ys) = n" using assms(1) by (simp add: implements_def Let_def)
  show ?thesis
  proof (cases "isl r")
    case True
    then have "implements (settled cl r a d) (xs @ ys) (s\<lparr>sp_open := n, sp_denied := sp_denied s + 1\<rparr>)"
      using assms(1) same n unfolding implements_def Let_def
      by (simp add: settled_def noteResult_def ac_simps del: length_append split: option.splits)
    then show ?thesis using spec_deny[OF n(1)] by blast
  next
    case False
    then have "implements (settled cl r a d) (xs @ ys) (s\<lparr>sp_open := n, sp_granted := sp_granted s + 1\<rparr>)"
      using assms(1) same n unfolding implements_def Let_def
      by (simp add: settled_def noteResult_def ac_simps del: length_append split: option.splits)
    then show ?thesis using spec_grant[OF n(1)] by blast
  qed
qed

lemma implements_installed:
  "implements d vs s \<Longrightarrow> apb_Policy b = Some p \<Longrightarrow>
   implements (installed b d) vs (s\<lparr>sp_policy := Some p, sp_reloads := sp_reloads s + 1\<rparr>)"
  by (simp add: implements_def installed_def Let_def ac_simps)

lemma spec_policy_valid: "spec_step\<^sup>*\<^sup>* fresh_spec s \<Longrightarrow> sp_policy s = Some p \<Longrightarrow> valid_policy p"
proof (induction arbitrary: p rule: rtranclp_induct)
  case (step s s')
  from step(2) step.IH step.prems show ?case by (cases rule: spec_step.cases) auto
qed (simp add: fresh_spec_def)

lemma server_simulation:
  assumes "server_run E d0 d vs" "implements d0 [] fresh_spec"
  shows "\<exists>s. spec_step\<^sup>*\<^sup>* fresh_spec s \<and> implements d vs s"
  using assms(1)
proof (induction rule: server_run.induct)
  case start
  then show ?case using assms(2) by blast
next
  case (arrive d vs v)
  then show ?case by (meson implements_arrival rtranclp.rtrancl_into_rtrancl spec_arrive)
next
  case (settle d xs v ys cl r a)
  then show ?case by (meson implements_settled rtranclp.rtrancl_into_rtrancl)
next
  case (admin d vs V r rsp d')
  then obtain s where s: "spec_step\<^sup>*\<^sup>* fresh_spec s" "implements d vs s" by blast
  from AdminHandler_changes[OF admin(2)] show ?case
  proof
    assume "\<exists>p. valid_policy p \<and> d' = installed (plain_bundle p) d"
    then obtain p where p: "valid_policy p" "d' = installed (plain_bundle p) d" by blast
    moreover have "apb_Policy (plain_bundle p) = Some p" by (simp add: plain_bundle_def)
    ultimately show ?thesis using s implements_installed[OF s(2)] rtranclp.rtrancl_into_rtrancl[OF s(1) spec_install[OF p(1)]] by blast
  qed (use s in blast)
next
  case (install d vs b e d')
  then obtain s where s: "spec_step\<^sup>*\<^sup>* fresh_spec s" "implements d vs s" by blast
  from install(2) show ?case
  proof (cases rule: reload_cases)
    case (swapped bd p)
    then show ?thesis
      using implements_installed[OF s(2) swapped(2)] rtranclp.rtrancl_into_rtrancl[OF s(1) spec_install[OF swapped(3)]] by auto
  qed (use s in auto)
next
  case (from_file d vs V path suffix opts e d')
  then obtain s where s: "spec_step\<^sup>*\<^sup>* fresh_spec s" "implements d vs s" by blast
  from from_file(2) show ?case
  proof (cases rule: ReloadPolicyFromFile_cases)
    case (swapped p)
    then show ?thesis
      using implements_installed[OF s(2), of _ p] rtranclp.rtrancl_into_rtrancl[OF s(1) spec_install[OF swapped(2)]] by auto
  qed (use s in auto)
qed

section \<open>Properties\<close>

lemma NewDecisionServer_Inr:
  assumes "NewDecisionServer E X C M m ps w st cfg = Inr d"
  shows "a_policy (ds_a d) = None \<and> a_metrics (ds_a d) = m \<and> adminTokenFrom M cfg = Inr (ds_adminToken d) \<and> ds_adminToken d \<noteq> []"
proof -
  from assms obtain a where a: "newAuthenticator E X C M m ps w st cfg = Inr a" "adminTokenFrom M cfg = Inr (ds_adminToken d)" "ds_a d = a"
    by (auto simp: NewDecisionServer_def split: sum.splits)
  moreover have "a_policy a = None \<and> a_metrics a = m"
    using a(1) by (auto simp: newAuthenticator_def Let_def split: list.splits sum.splits if_splits)
  moreover have "ds_adminToken d \<noteq> []" using a(2) by (auto simp: adminTokenFrom_def split: option.splits if_splits sum.splits)
  ultimately show ?thesis by simp
qed



text \<open>Closing a configuration twice is closing it once, whatever the file system does the second time, and leaves the audit logger and
  the supervision store closed.\<close>

theorem config_close_idempotent:
  "Config_Close F' A' hasTSA' timely' (Config_Close F A hasTSA timely w) = Config_Close F A hasTSA timely w
   \<and> own_nonces (Config_Close F A hasTSA timely w) \<noteq> Some False \<and> \<not> own_logFile (Config_Close F A hasTSA timely w)
   \<and> (\<forall>l. own_audit (Config_Close F A hasTSA timely w) = Some l \<longrightarrow> al_closed l)
   \<and> (\<forall>st. own_store (Config_Close F A hasTSA timely w) = Some st \<longrightarrow> sst_closed st)"
proof -
  have closed: "al_closed (drain F A hasTSA timely n l) = al_closed l" for n l
    by (induction n arbitrary: l) (simp_all add: loop_step_def split: list.splits)
  have once: "al_closed (Close_logger F A hasTSA timely l)" for l by (simp add: Close_logger_def Close_begin_def closed Let_def)
  then have "Close_logger F' A' hasTSA' timely' (Close_logger F A hasTSA timely l) = Close_logger F A hasTSA timely l" for l
    by (simp add: Close_logger_def)
  moreover have "store_Close (store_Close s) = store_Close s" for s by (simp add: store_Close_def split: option.splits)
  ultimately show ?thesis
    using once
    by (cases "own_audit w"; cases "own_nonces w") (auto simp: Config_Close_def CloseLogger_def store_Close_def split: option.splits if_splits)
qed

section \<open>Witnesses\<close>

definition example_server :: decision_server where
  "example_server = \<lparr>ds_a = example_authenticator, ds_adminToken = ''s3cret''\<rparr>"

definition example_admin_env :: admin_env where
  "example_admin_env =
     \<lparr>adm_now = 5, adm_RFC3339Nano = (\<lambda>t. ''t''), adm_DecodeReload = (\<lambda>b over. if over then Inl ''too large'' else Inr b),
      adm_Policy = \<lparr>env_ReadFile = (\<lambda>p. None),
        env_DecodePolicy = (\<lambda>b. Some \<lparr>ap_Version = b, ap_Roles = [(''ops'', \<lparr>pr_DisplayName = [], pr_Profiles = [], pr_Grants = [''*''], pr_Scope = []\<rparr>)],
          ap_OUMapping = [], ap_CapabilityParameters = []\<rparr>),
        env_VerifyDetached = (\<lambda>s d. None), env_CertVerify = (\<lambda>r c. False), env_LoadCA = (\<lambda>p. None)\<rparr>,
      adm_PolicyText = (\<lambda>e. ''policy'')\<rparr>"

definition example_reload :: "string \<Rightarrow> http_request" where
  "example_reload secret =
     \<lparr>hr_Method = ''POST'', hr_Path = ''/reload'', hr_RawQuery = [], hr_Header = [(''Authorization'', [''Bearer '' @ secret])],
      hr_RemoteAddr = [], hr_TLS = None, hr_Body = Some ''v2''\<rparr>"

lemma example_server_new:
  "NewDecisionServer example_auth_env example_evidence_ops example_crypto example_material (NewDecisionMetrics 0) example_pipe_state
     empty_world (None, empty_fs) (Some example_auth_config) = Inr example_server"
  using example_auth_new by (simp add: NewDecisionServer_def adminTokenFrom_def example_server_def example_auth_config_def)

lemma example_open_run: "server_run example_auth_env example_server (arrival example_server) [None]"
  using arrive[OF start[of example_auth_env example_server], of None] by simp



end
