(* ===== verification/Identity.thy ===== *)
theory Identity
  imports Middleware
begin

text \<open>
  Identity headers between the gateway and its backends (\<^verbatim>\<open>src/identity.go\<close>): the header namespace the gateway owns, what each
  mode discloses, and the reader on the backend side. Headers are association lists with the canonical keys of
  \<^verbatim>\<open>net/textproto\<close>; \<^verbatim>\<open>Header.Set\<close> and \<^verbatim>\<open>Header.Del\<close> canonicalize the key they are given.
\<close>

section \<open>Header fields\<close>

definition valid_field_byte :: "char \<Rightarrow> bool" where
  "valid_field_byte c \<longleftrightarrow>
     (let n = of_char c :: nat in
      48 \<le> n \<and> n \<le> 57 \<or> 65 \<le> n \<and> n \<le> 90 \<or> 97 \<le> n \<and> n \<le> 122 \<or> c \<in> set ''!#$%&*+-.^_|~'' \<or> n = 39 \<or> n = 96)"

definition upper_char :: "char \<Rightarrow> char" where
  "upper_char c = (if of_char c \<ge> (97::nat) \<and> of_char c \<le> (122::nat) then char_of (of_char c - (32::nat)) else c)"

fun canonical_loop :: "bool \<Rightarrow> string \<Rightarrow> string" where
  "canonical_loop upper [] = []"
| "canonical_loop upper (c # s) =
     (let d = (if upper then upper_char c else lower_char c) in d # canonical_loop (d = CHR ''-'') s)"

definition CanonicalHeaderKey :: "string \<Rightarrow> string" where
  "CanonicalHeaderKey s = (if list_all valid_field_byte s then canonical_loop True s else s)"

definition hdr_Get :: "http_header \<Rightarrow> string \<Rightarrow> string" where
  "hdr_Get h k = Header_Get h (CanonicalHeaderKey k)"

definition hdr_Del :: "http_header \<Rightarrow> string \<Rightarrow> http_header" where
  "hdr_Del h k = filter (\<lambda>(n, _). n \<noteq> CanonicalHeaderKey k) h"

definition hdr_Set :: "http_header \<Rightarrow> string \<Rightarrow> string \<Rightarrow> http_header" where
  "hdr_Set h k v = hdr_Del h k @ [(CanonicalHeaderKey k, [v])]"

definition set_if :: "bool \<Rightarrow> string \<Rightarrow> string \<Rightarrow> http_header \<Rightarrow> http_header" where
  "set_if b k v h = (if b then hdr_Set h k v else h)"

section \<open>Encodings\<close>

definition base64_char :: "nat \<Rightarrow> char" where
  "base64_char n =
     (if n < 26 then char_of (65 + n) else if n < 52 then char_of (71 + n) else if n < 62 then char_of (n - 4)
      else if n = 62 then CHR ''+'' else CHR ''/'')"

fun base64_Std :: "bytes \<Rightarrow> string" where
  "base64_Std [] = []"
| "base64_Std [a] = [base64_char (of_char a div 4), base64_char (of_char a mod 4 * 16), CHR ''='', CHR ''='']"
| "base64_Std [a, b] =
     [base64_char (of_char a div 4), base64_char (of_char a mod 4 * 16 + of_char b div 16), base64_char (of_char b mod 16 * 4), CHR ''='']"
| "base64_Std (a # b # c # rest) =
     [base64_char (of_char a div 4), base64_char (of_char a mod 4 * 16 + of_char b div 16),
      base64_char (of_char b mod 16 * 4 + of_char c div 64), base64_char (of_char c mod 64)] @ base64_Std rest"

definition OID_String :: "oid \<Rightarrow> string" where
  "OID_String o' = go_Join (map dec_nat o') ''.''"

section \<open>The namespace\<close>

definition trustHeaderNames :: "string list" where
  "trustHeaderNames =
     [''X-Client-Cert-DER'', ''X-Client-Cert-SPKI-Hash'', ''X-Client-Cert-Serial'', ''X-Client-Cert-CN'', ''X-Client-Cert-O'',
      ''X-Client-Cert-OU'', ''X-Client-Cert-Principal'', ''X-Client-Cert-Agent-ID'', ''X-AIC-Agent-Id'', ''X-AIC-Principal-Uid'',
      ''X-AIC-Capabilities'', ''X-AIC-Capabilities-Full'', ''X-AIC-Verified-By'', ''X-Agent-ID'', ''X-Agent-Principal'',
      ''X-Forwarded-Client-CN'', ''X-Forwarded-Client-O'', ''X-Forwarded-Client-OU'', ''X-Forwarded-Client-Serial'']"

type_synonym identity_mode = int

definition IdentityMinimal :: identity_mode where "IdentityMinimal = 0"
definition IdentityForwardClientCert :: identity_mode where "IdentityForwardClientCert = 1"
definition IdentityXForwarded :: identity_mode where "IdentityXForwarded = 2"
definition IdentityAIC :: identity_mode where "IdentityAIC = 3"

lemmas identity_modes = IdentityMinimal_def IdentityForwardClientCert_def IdentityXForwarded_def IdentityAIC_def

text \<open>\<^verbatim>\<open>string(rune(mode))\<close> for a mode in the ASCII range.\<close>

definition rune_string :: "int \<Rightarrow> string" where
  "rune_string m = [char_of (nat m)]"

definition SetIdentityHeaderMode :: "http_request \<Rightarrow> identity_mode \<Rightarrow> http_request" where
  "SetIdentityHeaderMode r mode = r\<lparr>hr_Header := hdr_Set (hr_Header r) ''X-AICN-Identity-Mode'' (rune_string mode)\<rparr>"

definition identityHeaderModeOf :: "http_request \<Rightarrow> identity_mode" where
  "identityHeaderModeOf r =
     (let v = hdr_Get (hr_Header r) ''X-AICN-Identity-Mode'' in
      if v = rune_string IdentityMinimal then IdentityMinimal
      else if v = rune_string IdentityXForwarded then IdentityXForwarded
      else if v = rune_string IdentityAIC then IdentityAIC
      else IdentityForwardClientCert)"

section \<open>Asserting the identity\<close>

definition certSPKIHashHex :: "crypto_ops \<Rightarrow> certificate \<Rightarrow> string" where
  "certSPKIHashHex C cert = EncodeToString (Sum256 C (cert_RawSubjectPublicKeyInfo cert))"

definition setAICHeaders :: "pki_ops \<Rightarrow> auth_context \<Rightarrow> http_header \<Rightarrow> http_header" where
  "setAICHeaders P ac h =
     (case ctx_AIC ac of None \<Rightarrow> h | Some x \<Rightarrow>
      let h1 = set_if (aic_AgentId x \<noteq> []) ''X-AIC-Agent-Id'' (aic_AgentId x) h;
          h2 = set_if (ctx_Principal ac \<noteq> []) ''X-AIC-Principal-Uid'' (ctx_Principal ac) h1;
          h3 = set_if (aic_Capabilities x \<noteq> []) ''X-AIC-Capabilities'' (go_Join (map CapabilityId (aic_Capabilities x)) '','') h2;
          h4 = set_if (aic_Capabilities x \<noteq> []) ''X-AIC-Capabilities-Full'' (go_Join (map (FullID P) (aic_Capabilities x)) '','') h3;
          da = aic_DelegationAuthorization x;
          h5 = set_if (go_Unix (da_Timestamp da) > 0) ''X-AIC-Verified-By'' (OID_String (da_SignatureAlgorithm da)) h4;
          h6 = set_if (ctx_AgentID ac \<noteq> []) ''X-Agent-ID'' (ctx_AgentID ac) h5
      in set_if (ctx_Principal ac \<noteq> []) ''X-Agent-Principal'' (ctx_Principal ac) h6)"

definition setClientCertHeaders :: "crypto_ops \<Rightarrow> auth_context \<Rightarrow> http_header \<Rightarrow> http_header" where
  "setClientCertHeaders C ac h =
     (let cert = ctx_ClientCert ac;
          h1 = hdr_Set h ''X-Client-Cert-DER'' (base64_Std (cert_Raw cert));
          h2 = hdr_Set h1 ''X-Client-Cert-SPKI-Hash'' (certSPKIHashHex C cert);
          h3 = hdr_Set h2 ''X-Client-Cert-Serial'' (text16 (cert_SerialNumber cert));
          h4 = hdr_Set h3 ''X-Client-Cert-CN'' (cert_CommonName cert);
          h5 = set_if (cert_Organization cert \<noteq> []) ''X-Client-Cert-O'' (go_Join (cert_Organization cert) '','') h4;
          h6 = set_if (cert_OrganizationalUnit cert \<noteq> []) ''X-Client-Cert-OU'' (go_Join (cert_OrganizationalUnit cert) '','') h5;
          h7 = hdr_Set h6 ''X-Client-Cert-Principal'' (ctx_Principal ac)
      in set_if (ctx_AgentID ac \<noteq> []) ''X-Client-Cert-Agent-ID'' (ctx_AgentID ac) h7)"

definition setForwardedHeaders :: "auth_context \<Rightarrow> http_header \<Rightarrow> http_header" where
  "setForwardedHeaders ac h =
     (let cert = ctx_ClientCert ac;
          h1 = hdr_Set h ''X-Forwarded-Client-CN'' (cert_CommonName cert);
          h2 = set_if (cert_Organization cert \<noteq> []) ''X-Forwarded-Client-O'' (go_Join (cert_Organization cert) '','') h1;
          h3 = set_if (cert_OrganizationalUnit cert \<noteq> []) ''X-Forwarded-Client-OU'' (go_Join (cert_OrganizationalUnit cert) '','') h2
      in hdr_Set h3 ''X-Forwarded-Client-Serial'' (text16 (cert_SerialNumber cert)))"

definition injectIdentityHeaders ::
    "crypto_ops \<Rightarrow> pki_ops \<Rightarrow> auth_context option \<Rightarrow> identity_mode \<Rightarrow> http_header \<Rightarrow> http_header" where
  "injectIdentityHeaders C P ac mode h0 =
     (let h = foldl hdr_Del h0 trustHeaderNames in
      case ac of None \<Rightarrow> h | Some a \<Rightarrow>
        if mode = IdentityForwardClientCert then setAICHeaders P a (setClientCertHeaders C a h)
        else if mode = IdentityXForwarded then setForwardedHeaders a h
        else if mode = IdentityAIC then setAICHeaders P a h
        else h)"

section \<open>Reading the identity\<close>

text \<open>The fields of the reconstructed context; its AIC has the same agent.\<close>

record header_identity =
  hi_Principal :: string
  hi_AgentID :: string
  hi_Capabilities :: "string list"
  hi_AICCapabilities :: "capability list"

definition Cut_colon :: "string \<Rightarrow> string \<times> string" where
  "Cut_colon s =
     (if CHR '':'' \<in> set s
      then (takeWhile (\<lambda>c. c \<noteq> CHR '':'') s, drop 1 (dropWhile (\<lambda>c. c \<noteq> CHR '':'') s))
      else ([], s))"

definition header_capability :: "string \<Rightarrow> capability" where
  "header_capability s = (case Cut_colon s of (scheme, cap) \<Rightarrow> \<lparr>SchemeId = scheme, CapabilityId = cap, Parameters = []\<rparr>)"

definition AuthContextFromHeaders :: "http_header \<Rightarrow> header_identity option" where
  "AuthContextFromHeaders h =
     (let agent0 = hdr_Get h ''X-AIC-Agent-Id''; principal = hdr_Get h ''X-AIC-Principal-Uid''; full = hdr_Get h ''X-AIC-Capabilities-Full'';
          agentID = (if agent0 = [] then hdr_Get h ''X-Agent-ID'' else agent0)
      in if agentID = [] \<and> principal = [] \<and> full = [] then None
         else let ids = filter (\<lambda>s. s \<noteq> []) (map TrimSpace (go_Split CHR '','' full)) in
           Some \<lparr>hi_Principal = principal, hi_AgentID = agentID, hi_Capabilities = ids, hi_AICCapabilities = map header_capability ids\<rparr>)"

section \<open>Lookups\<close>

lemma map_of_hdr_Del: "map_of (hdr_Del h k) K = (if K = CanonicalHeaderKey k then None else map_of h K)"
  by (induction h) (auto simp: hdr_Del_def)

lemma map_of_hdr_Set: "map_of (hdr_Set h k v) K = (if K = CanonicalHeaderKey k then Some [v] else map_of h K)"
  by (simp add: hdr_Set_def map_of_append map_of_hdr_Del map_add_def split: option.splits)

lemma map_of_foldl_Del: "map_of (foldl hdr_Del h ks) K = (if K \<in> CanonicalHeaderKey ` set ks then None else map_of h K)"
  by (induction ks arbitrary: h) (auto simp: map_of_hdr_Del)

lemma map_of_set_if: "map_of (set_if b k v h) K = (if b \<and> K = CanonicalHeaderKey k then Some [v] else map_of h K)"
  by (simp add: set_if_def map_of_hdr_Set)

lemmas header_lookups = map_of_hdr_Del map_of_hdr_Set map_of_foldl_Del map_of_set_if

text \<open>The canonical forms of the names.\<close>

lemma canonical_names:
  "map CanonicalHeaderKey trustHeaderNames =
     [''X-Client-Cert-Der'', ''X-Client-Cert-Spki-Hash'', ''X-Client-Cert-Serial'', ''X-Client-Cert-Cn'', ''X-Client-Cert-O'',
      ''X-Client-Cert-Ou'', ''X-Client-Cert-Principal'', ''X-Client-Cert-Agent-Id'', ''X-Aic-Agent-Id'', ''X-Aic-Principal-Uid'',
      ''X-Aic-Capabilities'', ''X-Aic-Capabilities-Full'', ''X-Aic-Verified-By'', ''X-Agent-Id'', ''X-Agent-Principal'',
      ''X-Forwarded-Client-Cn'', ''X-Forwarded-Client-O'', ''X-Forwarded-Client-Ou'', ''X-Forwarded-Client-Serial'']"
  by code_simp

lemma canonical_keys:
  "CanonicalHeaderKey ''X-Client-Cert-DER'' = ''X-Client-Cert-Der''" "CanonicalHeaderKey ''X-Client-Cert-SPKI-Hash'' = ''X-Client-Cert-Spki-Hash''"
  "CanonicalHeaderKey ''X-Client-Cert-Serial'' = ''X-Client-Cert-Serial''" "CanonicalHeaderKey ''X-Client-Cert-CN'' = ''X-Client-Cert-Cn''"
  "CanonicalHeaderKey ''X-Client-Cert-O'' = ''X-Client-Cert-O''" "CanonicalHeaderKey ''X-Client-Cert-OU'' = ''X-Client-Cert-Ou''"
  "CanonicalHeaderKey ''X-Client-Cert-Principal'' = ''X-Client-Cert-Principal''"
  "CanonicalHeaderKey ''X-Client-Cert-Agent-ID'' = ''X-Client-Cert-Agent-Id''" "CanonicalHeaderKey ''X-AIC-Agent-Id'' = ''X-Aic-Agent-Id''"
  "CanonicalHeaderKey ''X-AIC-Principal-Uid'' = ''X-Aic-Principal-Uid''" "CanonicalHeaderKey ''X-AIC-Capabilities'' = ''X-Aic-Capabilities''"
  "CanonicalHeaderKey ''X-AIC-Capabilities-Full'' = ''X-Aic-Capabilities-Full''"
  "CanonicalHeaderKey ''X-AIC-Verified-By'' = ''X-Aic-Verified-By''" "CanonicalHeaderKey ''X-Agent-ID'' = ''X-Agent-Id''"
  "CanonicalHeaderKey ''X-Agent-Principal'' = ''X-Agent-Principal''" "CanonicalHeaderKey ''X-Forwarded-Client-CN'' = ''X-Forwarded-Client-Cn''"
  "CanonicalHeaderKey ''X-Forwarded-Client-O'' = ''X-Forwarded-Client-O''" "CanonicalHeaderKey ''X-Forwarded-Client-OU'' = ''X-Forwarded-Client-Ou''"
  "CanonicalHeaderKey ''X-Forwarded-Client-Serial'' = ''X-Forwarded-Client-Serial''"
  using canonical_names by (simp_all add: trustHeaderNames_def)

definition trust_keys :: "string set" where
  "trust_keys = CanonicalHeaderKey ` set trustHeaderNames"

lemma trust_keys_list: "K \<in> trust_keys \<longleftrightarrow> K \<in> set (map CanonicalHeaderKey trustHeaderNames)"
  by (simp add: trust_keys_def)

text \<open>The setters act on each key by itself, and only on keys of the namespace.\<close>

lemma setters_agree:
  assumes "map_of h K = map_of h' K"
  shows "map_of (setAICHeaders P ac h) K = map_of (setAICHeaders P ac h') K"
    and "map_of (setClientCertHeaders C ac h) K = map_of (setClientCertHeaders C ac h') K"
    and "map_of (setForwardedHeaders ac h) K = map_of (setForwardedHeaders ac h') K"
  using assms
  by (simp_all add: setAICHeaders_def setClientCertHeaders_def setForwardedHeaders_def Let_def header_lookups split: option.splits cong: if_cong)

lemma setters_outside:
  assumes "K \<notin> trust_keys"
  shows "map_of (setAICHeaders P ac h) K = map_of h K" "map_of (setClientCertHeaders C ac h) K = map_of h K"
    "map_of (setForwardedHeaders ac h) K = map_of h K"
  using assms unfolding trust_keys_list canonical_names
  by (auto simp: setAICHeaders_def setClientCertHeaders_def setForwardedHeaders_def Let_def header_lookups canonical_keys split: option.splits)

lemma inject_outside: "K \<notin> trust_keys \<Longrightarrow> map_of (injectIdentityHeaders C P ac mode h) K = map_of h K"
  by (auto simp: injectIdentityHeaders_def Let_def setters_outside map_of_foldl_Del trust_keys_def[symmetric] split: option.splits)

lemma inject_asserted:
  assumes "K \<in> trust_keys"
  shows "map_of (injectIdentityHeaders C P ac mode h) K = map_of (injectIdentityHeaders C P ac mode []) K"
proof -
  have "map_of (foldl hdr_Del h trustHeaderNames) K = map_of (foldl hdr_Del [] trustHeaderNames) K"
    using assms by (simp add: map_of_foldl_Del trust_keys_def)
  then show ?thesis
    by (cases ac) (auto simp: injectIdentityHeaders_def Let_def intro: setters_agree)
qed

lemma Header_Get_cong: "map_of h k = map_of h' k \<Longrightarrow> Header_Get h k = Header_Get h' k"
  by (simp add: Header_Get_def)

lemma from_headers_cong:
  assumes "\<And>K. K \<in> trust_keys \<Longrightarrow> map_of h K = map_of h' K"
  shows "AuthContextFromHeaders h = AuthContextFromHeaders h'"
proof -
  have "hdr_Get h k = hdr_Get h' k" if "k \<in> set trustHeaderNames" for k
    using assms[of "CanonicalHeaderKey k"] that by (auto simp: hdr_Get_def trust_keys_def intro: Header_Get_cong)
  then show ?thesis by (simp add: AuthContextFromHeaders_def trustHeaderNames_def cong: if_cong)
qed

section \<open>Properties\<close>

text \<open>What a backend reads about the caller is asserted by the gateway alone: whatever headers the client sent, every
  header of the namespace has the value, or is absent, as if the client had sent none; the headers outside
  the namespace pass unchanged; and the reader of the backend finds the same identity.\<close>

theorem identity_headers_asserted:
  "(\<forall>K\<in>trust_keys. map_of (injectIdentityHeaders C P ac mode h) K = map_of (injectIdentityHeaders C P ac mode []) K)
   \<and> (\<forall>K. K \<notin> trust_keys \<longrightarrow> map_of (injectIdentityHeaders C P ac mode h) K = map_of h K)
   \<and> AuthContextFromHeaders (injectIdentityHeaders C P ac mode h) = AuthContextFromHeaders (injectIdentityHeaders C P ac mode [])"
  using inject_asserted inject_outside from_headers_cong[of "injectIdentityHeaders C P ac mode h" "injectIdentityHeaders C P ac mode []"]
  by metis

lemma go_Split_Join:
  assumes "ids \<noteq> []" "\<forall>s\<in>set ids. c \<notin> set s"
  shows "go_Split c (go_Join ids [c]) = ids"
  using assms
proof (induction ids)
  case (Cons s ids)
  then show ?case
    by (cases "ids = []") (simp_all add: go_Split_no_sep go_Join_Cons go_Split_append)
qed simp

text \<open>An identifier that survives the comma-separated header.\<close>

definition sendable :: "string \<Rightarrow> bool" where
  "sendable s \<longleftrightarrow> s \<noteq> [] \<and> CHR '','' \<notin> set s \<and> TrimSpace s = s"

lemma header_ids:
  assumes "\<forall>s\<in>set ids. sendable s"
  shows "filter (\<lambda>s. s \<noteq> []) (map TrimSpace (go_Split CHR '','' (go_Join ids '',''))) = ids"
proof (cases "ids = []")
  case True
  then show ?thesis by (simp add: TrimSpace_def)
next
  case False
  have "map TrimSpace ids = ids" "filter (\<lambda>s. s \<noteq> []) ids = ids"
    using assms by (auto simp: sendable_def filter_eq_self_iff intro: map_idI)
  moreover have "go_Split CHR '','' (go_Join ids '','') = ids"
    using False assms by (intro go_Split_Join) (auto simp: sendable_def)
  ultimately show ?thesis by simp
qed

lemma header_capability_full:
  assumes "FullID P c = SchemeId c @ '':'' @ CapabilityId c" "CHR '':'' \<notin> set (SchemeId c)"
  shows "header_capability (FullID P c) = \<lparr>SchemeId = SchemeId c, CapabilityId = CapabilityId c, Parameters = []\<rparr>"
proof -
  have "takeWhile (\<lambda>d. d \<noteq> CHR '':'') (SchemeId c @ '':'' @ CapabilityId c) = SchemeId c"
    "dropWhile (\<lambda>d. d \<noteq> CHR '':'') (SchemeId c @ '':'' @ CapabilityId c) = '':'' @ CapabilityId c"
    using assms(2) by (auto simp: takeWhile_append dropWhile_append)
  then show ?thesis by (simp add: header_capability_def Cut_colon_def assms(1))
qed

lemma cert_headers_other:
  assumes "K \<notin> CanonicalHeaderKey ` set (take 8 trustHeaderNames)"
  shows "map_of (setClientCertHeaders C ac h) K = map_of h K"
proof -
  have "take 8 trustHeaderNames = [''X-Client-Cert-DER'', ''X-Client-Cert-SPKI-Hash'', ''X-Client-Cert-Serial'', ''X-Client-Cert-CN'', ''X-Client-Cert-O'',
      ''X-Client-Cert-OU'', ''X-Client-Cert-Principal'', ''X-Client-Cert-Agent-ID'']" by (simp add: trustHeaderNames_def)
  then show ?thesis using assms by (simp add: setClientCertHeaders_def Let_def header_lookups)
qed

lemma aic_lookups:
  assumes "ctx_AIC ac = Some x" "\<forall>k\<in>set [''X-AIC-Agent-Id'', ''X-AIC-Principal-Uid'', ''X-AIC-Capabilities-Full'']. map_of h (CanonicalHeaderKey k) = None"
  shows "hdr_Get (setAICHeaders P ac h) ''X-AIC-Agent-Id'' = aic_AgentId x"
    "hdr_Get (setAICHeaders P ac h) ''X-AIC-Principal-Uid'' = ctx_Principal ac"
    "hdr_Get (setAICHeaders P ac h) ''X-AIC-Capabilities-Full'' = go_Join (map (FullID P) (aic_Capabilities x)) '',''"
  using assms by (simp_all add: hdr_Get_def Header_Get_def setAICHeaders_def Let_def header_lookups canonical_keys)


text \<open>In the other modes the backend finds no caller at all.\<close>

lemma other_modes_silent:
  assumes "mode \<noteq> IdentityAIC" "mode \<noteq> IdentityForwardClientCert"
  shows "AuthContextFromHeaders (injectIdentityHeaders C P ac mode h) = None"
proof -
  have "map_of (injectIdentityHeaders C P ac mode h) K = None" if "K \<in> set [''X-Aic-Agent-Id'', ''X-Aic-Principal-Uid'', ''X-Aic-Capabilities-Full'', ''X-Agent-Id'']" for K
  proof -
    have "K \<in> trust_keys" using that unfolding trust_keys_list canonical_names by auto
    moreover have "map_of (foldl hdr_Del h trustHeaderNames) K = None"
      using calculation by (simp add: map_of_foldl_Del trust_keys_def)
    ultimately show ?thesis
      using assms that
      by (auto simp: injectIdentityHeaders_def Let_def setForwardedHeaders_def header_lookups canonical_keys trust_keys_def split: option.splits)
  qed
  then show ?thesis by (simp add: AuthContextFromHeaders_def hdr_Get_def canonical_keys Header_Get_def)
qed

text \<open>The mode set for the middleware style is the mode read back.\<close>

lemma identity_mode_round_trip:
  "mode \<in> {IdentityMinimal, IdentityForwardClientCert, IdentityXForwarded, IdentityAIC} \<Longrightarrow>
   identityHeaderModeOf (SetIdentityHeaderMode r mode) = mode"
  by (auto simp: identityHeaderModeOf_def SetIdentityHeaderMode_def hdr_Get_def Header_Get_def map_of_hdr_Set rune_string_def identity_modes Let_def)

section \<open>Witnesses\<close>

definition example_identity :: auth_context where
  "example_identity = (context_of example_cert False [] zero_pipeline_result)\<lparr>ctx_AIC := Some example_aic, ctx_Principal := ''alice''\<rparr>"

theorem identity_headers_asserted_witness:
  "AuthContextFromHeaders (injectIdentityHeaders example_crypto example_pki (Some example_identity) IdentityAIC [(''X-Aic-Agent-Id'', [''root''])])
     = AuthContextFromHeaders (injectIdentityHeaders example_crypto example_pki (Some example_identity) IdentityAIC [])"
  using identity_headers_asserted[of example_crypto example_pki "Some example_identity" IdentityAIC "[(''X-Aic-Agent-Id'', [''root''])]"] by simp


end
