(* ===== verification/Proxy.thy ===== *)
theory Proxy
  imports Identity "HOL-Library.Sublist"
begin

text \<open>
  The reverse proxy (\<^verbatim>\<open>src/server.go\<close>): construction, routing, the checks after admission, the headers a backend receives, refusals of the
  proxy and observed outcomes. The proxy is the next handler of \<open>Middleware\<close>. What the source uses of the Go library is written
  out: \<^verbatim>\<open>path.Clean\<close>, and from \<^verbatim>\<open>httputil.ReverseProxy\<close> the rewriting of target and headers, where hop-by-hop headers are removed after
  the director has run. Requests have no separately encoded path. The backend's answer is a parameter; what was sent is recorded.
\<close>

section \<open>Routes\<close>

record target_url =
  tgt_Base :: string
  tgt_Path :: string
  tgt_RawQuery :: string

record route =
  rt_Path :: string
  rt_Target :: "target_url option"
  rt_AllowMethods :: "string list"
  rt_RequiredCapabilities :: "string list"

text \<open>\<^verbatim>\<open>path.Clean\<close>; \<open>out\<close> holds the segments so far, the last one first.\<close>

definition clean_step :: "bool \<Rightarrow> string list \<Rightarrow> string \<Rightarrow> string list" where
  "clean_step rooted out seg =
     (if seg = [] \<or> seg = ''.'' then out
      else if seg = ''..'' then
        (case out of [] \<Rightarrow> if rooted then [] else [''..''] | s # rest \<Rightarrow> if s = ''..'' then ''..'' # out else rest)
      else seg # out)"

definition clean_segments :: "string \<Rightarrow> string list" where
  "clean_segments p = rev (foldl (clean_step (HasPrefix p ''/'')) [] (go_Split CHR ''/'' p))"

definition path_Clean :: "string \<Rightarrow> string" where
  "path_Clean p =
     (let out = (if HasPrefix p ''/'' then ''/'' else []) @ go_Join (clean_segments p) ''/'' in if out = [] then ''.'' else out)"

fun match_routes :: "string \<Rightarrow> route list \<Rightarrow> route option" where
  "match_routes lower [] = None"
| "match_routes lower (r # rs) =
     (let pat = ToLower (rt_Path r) in
      if pat = ''/*'' \<or> pat = ''/'' then Some r
      else if HasSuffix pat ''/*'' then
        (let prefix = take (length pat - 2) pat in
         if HasPrefix lower prefix \<and> length prefix > 0
            \<and> (drop (length prefix) lower = [] \<or> HasPrefix (drop (length prefix) lower) ''/'')
         then Some r else match_routes lower rs)
      else if lower = pat \<or> HasPrefix lower ((if HasSuffix pat ''/'' then butlast pat else pat) @ ''/'') then Some r
      else match_routes lower rs)"

definition matchRoute :: "route list \<Rightarrow> string \<Rightarrow> route option" where
  "matchRoute routes p =
     (let cleaned = path_Clean p; c = (if cleaned = ''/'' then [] else cleaned) in match_routes (ToLower c) routes)"

section \<open>Construction\<close>

definition FieldsFunc :: "string \<Rightarrow> string list" where
  "FieldsFunc spec = filter (\<lambda>f. f \<noteq> []) (concat (map (go_Split CHR '' '') (go_Split CHR '','' spec)))"

datatype server_error = ServerNilConfig | BackendCA config_error | NilTarget string | HandlerErrors "config_error list"

fun append_pools :: "material \<Rightarrow> certificate list \<Rightarrow> string list \<Rightarrow> config_error + certificate list" where
  "append_pools M pool [] = Inr pool"
| "append_pools M pool (f # fs) =
     (case loadPEMIntoPool M pool f of Inl e \<Rightarrow> Inl e | Inr pool' \<Rightarrow> append_pools M pool' fs)"

text \<open>\<open>system\<close> is the system pool, when there is one.\<close>

definition backendRootPool :: "material \<Rightarrow> certificate list option \<Rightarrow> string \<Rightarrow> config_error + certificate list" where
  "backendRootPool M system spec = append_pools M (case system of None \<Rightarrow> [] | Some p \<Rightarrow> p) (FieldsFunc spec)"

record server_options =
  svo_BackendRootCA :: string
  svo_IdentityMode :: identity_mode
  svo_HookForwarded :: bool

record proxy_server =
  srv_routes :: "route list"
  srv_backendRoots :: "certificate list option"
  srv_IdentityMode :: identity_mode
  srv_HookForwarded :: bool

definition NewServer ::
    "auth_env \<Rightarrow> evidence_ops \<Rightarrow> crypto_ops \<Rightarrow> material \<Rightarrow> certificate list option \<Rightarrow> decision_metrics \<Rightarrow> pipeline_state \<Rightarrow> evidence_world
     \<Rightarrow> supervision_store option \<times> file_system \<Rightarrow> auth_config option \<Rightarrow> server_options \<Rightarrow> route list
     \<Rightarrow> server_error + proxy_server \<times> gateway" where
  "NewServer E X C M system metrics pipe world store cfg opts routes =
     (case cfg of None \<Rightarrow> Inl ServerNilConfig | Some _ \<Rightarrow>
      case (if svo_BackendRootCA opts = [] then Inr None
            else case backendRootPool M system (svo_BackendRootCA opts) of Inl e \<Rightarrow> Inl (BackendCA e) | Inr p \<Rightarrow> Inr (Some p)) of
        Inl e \<Rightarrow> Inl e
      | Inr roots \<Rightarrow>
      case find (\<lambda>r. rt_Target r = None) routes of Some r \<Rightarrow> Inl (NilTarget (rt_Path r)) | None \<Rightarrow>
      case newAuthenticator E X C M metrics pipe world store cfg of Inl es \<Rightarrow> Inl (HandlerErrors es) | Inr a \<Rightarrow>
        Inr (\<lparr>srv_routes = routes, srv_backendRoots = roots, srv_IdentityMode = svo_IdentityMode opts,
              srv_HookForwarded = svo_HookForwarded opts\<rparr>,
             \<lparr>gw_auth = a, gw_denied = [], gw_sent = [], gw_forwarded = []\<rparr>))"

section \<open>Refusals of the proxy\<close>

definition hasAllCapabilities :: "auth_context \<Rightarrow> string list \<Rightarrow> bool" where
  "hasAllCapabilities ac need = list_all (\<lambda>n. n \<in> set (ctx_Capabilities ac)) need"

definition proxy_error :: "int \<Rightarrow> string \<Rightarrow> string \<Rightarrow> auth_error" where
  "proxy_error status stage msg = (plain_error ErrDenied status msg)\<lparr>aer_Stage := stage\<rparr>"

definition peer_leaf :: "http_request \<Rightarrow> certificate option" where
  "peer_leaf r = (case hr_TLS r of Some (leaf # _) \<Rightarrow> Some leaf | _ \<Rightarrow> None)"

definition denial_ctx :: "auth_call \<Rightarrow> evidence_config \<Rightarrow> http_request \<Rightarrow> auth_context option \<Rightarrow> evidence_context" where
  "denial_ctx cl c r ac =
     (let serial = (case ac of None \<Rightarrow> [] | Some a \<Rightarrow> ctx_Serial a) in
      \<lparr>ec_Facts = (case peer_leaf r of None \<Rightarrow> [] | Some leaf \<Rightarrow>
         [\<lparr>fct_Type = ''client-cert'',
           fct_Digest = \<lparr>dg_Alg = sx_SHA256 (sk_ops (cl_sink cl)), dg_Value = Sum256 (cl_crypto cl) (cert_Raw leaf)\<rparr>,
           fct_Note = ''leaf certificate presented on this connection''\<rparr>]),
       ec_RecorderID = evc_RecorderID c, ec_OperationID = [], ec_Method = hr_Method r, ec_Path = hr_Path r,
       ec_TraceID = Header_Get (hr_Header r) ''X-Request-Id'',
       ec_Principal = (case ac of None \<Rightarrow> [] | Some a \<Rightarrow> ctx_Principal a), ec_AgentID = (case ac of None \<Rightarrow> [] | Some a \<Rightarrow> ctx_AgentID a),
       ec_Serial = (if serial = [] then (case peer_leaf r of None \<Rightarrow> [] | Some leaf \<Rightarrow> text16 (cert_SerialNumber leaf)) else serial),
       ec_Outcome = EvidenceRefused, ec_At = sk_now (cl_sink cl)\<rparr>)"

definition denialEvidence ::
    "auth_call \<Rightarrow> http_request \<Rightarrow> auth_context option \<Rightarrow> auth_error \<Rightarrow> authenticator \<Rightarrow> record_ref list \<times> authenticator" where
  "denialEvidence cl r ac ae a =
     (case cfg_Evidence (a_cfg a) of None \<Rightarrow> ([], a) | Some c \<Rightarrow>
      if aer_Evidence ae \<noteq> [] then ([], a)
      else if (case ac of None \<Rightarrow> False | Some x \<Rightarrow> ctx_Evidence x \<noteq> []) then ([], a)
      else case recordRefusal (cl_sink cl) c (denial_ctx cl c r ac) (Some (refusal_of ae)) (a_evidence a) of
             (refs, w) \<Rightarrow> (refs, a\<lparr>a_evidence := w\<rparr>))"

definition deny :: "auth_call \<Rightarrow> http_request \<Rightarrow> auth_context option \<Rightarrow> auth_error \<Rightarrow> gateway \<Rightarrow> http_response \<times> gateway" where
  "deny cl r ac ae gw =
     (case denialEvidence cl r ac ae (gw_auth gw) of (refs, a) \<Rightarrow>
      let ae' = ae\<lparr>aer_Evidence := aer_Evidence ae @ refs\<rparr> in
      (writeAuthError (cl_challenge cl) (cfg_ChallengeCarrier (a_cfg a)) ae', run_denied r ae' (gw\<lparr>gw_auth := a\<rparr>)))"

section \<open>Forwarding\<close>

text \<open>What the backend receives: the client's headers without the namespace and the credentials, with the asserted identity.\<close>

definition identity_headers :: "auth_call \<Rightarrow> proxy_server \<Rightarrow> auth_context \<Rightarrow> http_header \<Rightarrow> http_header" where
  "identity_headers cl S ac h0 =
     (let h1 = foldl hdr_Del h0 trustHeaderNames; h2 = hdr_Del h1 ''X-AICN-Identity-Mode''; h3 = hdr_Del h2 ''Authorization'';
          h4 = hdr_Del h3 ''Proxy-Authorization''
      in injectIdentityHeaders (cl_crypto cl) (cl_pki cl) (Some ac) (srv_IdentityMode S) h4)"

definition trim_ascii :: "string \<Rightarrow> string" where
  "trim_ascii s = (let sp = (\<lambda>c. c \<in> {CHR '' '', CHR 0x09, CHR 0x0A, CHR 0x0D}) in rev (dropWhile sp (rev (dropWhile sp s))))"

definition header_values :: "http_header \<Rightarrow> string \<Rightarrow> string list" where
  "header_values h k = (case map_of h k of None \<Rightarrow> [] | Some vs \<Rightarrow> vs)"

definition header_tokens :: "http_header \<Rightarrow> string \<Rightarrow> string list" where
  "header_tokens h k = map trim_ascii (concat (map (go_Split CHR '','') (header_values h k)))"

definition has_token :: "http_header \<Rightarrow> string \<Rightarrow> string \<Rightarrow> bool" where
  "has_token h k tok = list_ex (\<lambda>t. ToLower t = ToLower tok) (header_tokens h k)"

definition hopHeaders :: "string list" where
  "hopHeaders = [''Connection'', ''Proxy-Connection'', ''Keep-Alive'', ''Proxy-Authenticate'', ''Proxy-Authorization'', ''Te'', ''Trailer'',
     ''Transfer-Encoding'', ''Upgrade'']"

definition removeHopByHopHeaders :: "http_header \<Rightarrow> http_header" where
  "removeHopByHopHeaders h = foldl hdr_Del (foldl hdr_Del h (filter (\<lambda>t. t \<noteq> []) (header_tokens h ''Connection''))) hopHeaders"

definition upgradeType :: "http_header \<Rightarrow> string" where
  "upgradeType h = (if has_token h ''Connection'' ''Upgrade'' then Header_Get h ''Upgrade'' else [])"

definition printable :: "string \<Rightarrow> bool" where
  "printable s = list_all (\<lambda>c. of_char c \<ge> (32::nat) \<and> of_char c \<le> (126::nat)) s"

definition add_forwarded_for :: "http_request \<Rightarrow> http_header \<Rightarrow> http_header" where
  "add_forwarded_for r h =
     (case SplitHost (hr_RemoteAddr r) of None \<Rightarrow> h | Some ip \<Rightarrow>
      let prior = header_values h ''X-Forwarded-For'' in
      hdr_Set h ''X-Forwarded-For'' (if prior = [] then ip else go_Join prior '', '' @ '', '' @ ip))"

text \<open>The headers of the outgoing request, from those of the request handed to the reverse proxy.\<close>

definition outgoing_headers :: "http_request \<Rightarrow> http_header" where
  "outgoing_headers r =
     (let h1 = hdr_Set (hr_Header r) ''X-Forwarded-For'' (clientIPOf r);
          up = upgradeType h1;
          h2 = removeHopByHopHeaders h1;
          h3 = set_if (has_token (hr_Header r) ''Te'' ''trailers'') ''Te'' ''trailers'' h2;
          h4 = set_if (up \<noteq> []) ''Upgrade'' up (set_if (up \<noteq> []) ''Connection'' ''Upgrade'' h3);
          h5 = add_forwarded_for r h4
      in set_if (map_of h5 ''User-Agent'' = None) ''User-Agent'' [] h5)"

definition singleJoiningSlash :: "string \<Rightarrow> string \<Rightarrow> string" where
  "singleJoiningSlash a b =
     (if HasSuffix a ''/'' \<and> HasPrefix b ''/'' then a @ drop 1 b
      else if \<not> HasSuffix a ''/'' \<and> \<not> HasPrefix b ''/'' then a @ ''/'' @ b
      else a @ b)"

definition outgoing_request :: "target_url \<Rightarrow> http_request \<Rightarrow> http_request" where
  "outgoing_request t r =
     r\<lparr>hr_Path := singleJoiningSlash (tgt_Path t) (hr_Path r),
       hr_RawQuery := (if tgt_RawQuery t = [] \<or> hr_RawQuery r = [] then tgt_RawQuery t @ hr_RawQuery r
                       else tgt_RawQuery t @ ''&'' @ hr_RawQuery r),
       hr_Header := outgoing_headers r\<rparr>"

definition bad_gateway :: http_response where
  "bad_gateway = \<lparr>rsp_Status = 502, rsp_Headers = [(''Content-Type'', ''text/plain; charset=utf-8''), (''X-Content-Type-Options'', ''nosniff'')],
     rsp_Body = ''Bad Gateway'' @ [CHR 0x0A]\<rparr>"

text \<open>\<open>rtrip\<close> is the round trip to a backend: an error or its response.\<close>

type_synonym round_trip = "string \<Rightarrow> http_request \<Rightarrow> string + http_response"

definition reverse_proxy ::
    "round_trip \<Rightarrow> target_url \<Rightarrow> http_request \<Rightarrow> gateway \<Rightarrow> (http_response \<times> bool) \<times> gateway" where
  "reverse_proxy rtrip t r gw =
     (let out = outgoing_request t r in
      if \<not> printable (upgradeType (hr_Header r)) then ((bad_gateway, True), gw)
      else (case rtrip (tgt_Base t) out of Inl e \<Rightarrow> (bad_gateway, True) | Inr rsp \<Rightarrow> (rsp, False),
            gw\<lparr>gw_sent := gw_sent gw @ [(tgt_Base t, out)]\<rparr>))"

definition emitProxyOutcome :: "auth_call \<Rightarrow> http_request \<Rightarrow> auth_context \<Rightarrow> int \<Rightarrow> bool \<Rightarrow> gateway \<Rightarrow> gateway" where
  "emitProxyOutcome cl r ac status transportErr gw =
     (let a = gw_auth gw in
      gw\<lparr>gw_auth := a\<lparr>a_evidence := reportObservedOutcome cl (cfg_Evidence (a_cfg a)) r ac status transportErr (a_evidence a)\<rparr>\<rparr>)"

definition forward :: "auth_call \<Rightarrow> round_trip \<Rightarrow> proxy_server \<Rightarrow> target_url \<Rightarrow> auth_context \<Rightarrow> http_request \<Rightarrow> gateway \<Rightarrow> http_response \<times> gateway" where
  "forward cl rtrip S t ac r0 gw =
     (let r = r0\<lparr>hr_Header := identity_headers cl S ac (hr_Header r0)\<rparr> in
      case reverse_proxy rtrip t r gw of ((rsp, failed), gw1) \<Rightarrow>
      let gw2 = emitProxyOutcome cl r ac (rsp_Status rsp) failed gw1 in
      (rsp, if srv_HookForwarded S then gw2\<lparr>gw_forwarded := gw_forwarded gw2 @ [(r, rsp_Status rsp)]\<rparr> else gw2))"

definition proxy ::
    "auth_call \<Rightarrow> round_trip \<Rightarrow> proxy_server \<Rightarrow> auth_context option \<Rightarrow> http_request \<Rightarrow> gateway \<Rightarrow> http_response \<times> gateway" where
  "proxy cl rtrip S ac r gw =
     (case matchRoute (srv_routes S) (hr_Path r) of
        None \<Rightarrow> deny cl r ac (proxy_error 404 ''route_denied'' ''no matching route'') gw
      | Some rt \<Rightarrow>
          if rt_AllowMethods rt \<noteq> [] \<and> hr_Method r \<notin> set (rt_AllowMethods rt)
          then deny cl r ac (proxy_error 405 ''method_not_allowed'' ''method not allowed'') gw
          else (case ac of
             None \<Rightarrow> deny cl r ac (proxy_error 403 ''identity_denied'' ''no verified identity'') gw
           | Some a \<Rightarrow>
               if rt_RequiredCapabilities rt \<noteq> [] \<and> \<not> hasAllCapabilities a (rt_RequiredCapabilities rt)
               then deny cl r ac (proxy_error 403 ''capability_denied'' ''agent missing required capabilities'') gw
               else forward cl rtrip S (the (rt_Target rt)) a r gw))"

text \<open>The handler of the server: the proxy reports its own outcomes.\<close>

definition Server_handle :: "auth_env \<Rightarrow> auth_call \<Rightarrow> round_trip \<Rightarrow> proxy_server \<Rightarrow> http_request \<Rightarrow> gateway \<Rightarrow> handler_result \<times> gateway" where
  "Server_handle E cl rtrip S r gw = Handler E cl True (\<lambda>ac. proxy cl rtrip S (Some ac)) r gw"

section \<open>Routing by segments\<close>

definition slash_path :: "string list \<Rightarrow> string" where
  "slash_path ps = concat (map ((#) CHR ''/'') ps)"

lemma slash_path_simps [simp]: "slash_path [] = []" "slash_path (p # ps) = CHR ''/'' # p @ slash_path ps"
  by (simp_all add: slash_path_def)

lemma slash_path_Join: "ps \<noteq> [] \<Longrightarrow> CHR ''/'' # go_Join ps ''/'' = slash_path ps"
proof (induction ps)
  case (Cons p ps)
  then show ?case by (cases "ps = []") (simp_all add: go_Join_Cons)
qed simp

lemma lower_slash [simp]: "lower_char c = CHR ''/'' \<longleftrightarrow> c = CHR ''/''"
proof (cases "of_char c \<ge> (65::nat) \<and> of_char c \<le> (90::nat)")
  case True
  then have "of_char (lower_char c) = (of_char c + 32 :: nat)" by (simp add: lower_char_def)
  then show ?thesis using True by auto
qed (auto simp: lower_char_def)

lemma ToLower_slash_path: "ToLower (slash_path ps) = slash_path (map ToLower ps)"
proof -
  have "lower_char CHR ''/'' = CHR ''/''" by simp
  then show ?thesis by (induction ps) (simp_all add: ToLower_def)
qed

lemma slash_free_lower [simp]: "CHR ''/'' \<in> set (ToLower s) \<longleftrightarrow> CHR ''/'' \<in> set s"
proof -
  have "CHR ''/'' \<in> lower_char ` set s \<longleftrightarrow> CHR ''/'' \<in> set s" using lower_slash by (metis imageE imageI)
  then show ?thesis by (simp add: ToLower_def)
qed

lemma go_Split_free: "\<forall>s\<in>set (go_Split c t). c \<notin> set s"
proof (induction t)
  case (Cons x xs)
  show ?case
  proof (cases "go_Split c xs")
    case (Cons p ps)
    then show ?thesis using \<open>\<forall>s\<in>set (go_Split c xs). c \<notin> set s\<close> by auto
  qed simp
qed simp

text \<open>The segments that remain.\<close>

definition plain_segment :: "string \<Rightarrow> bool" where
  "plain_segment s \<longleftrightarrow> s \<noteq> [] \<and> s \<noteq> ''.'' \<and> s \<noteq> ''..'' \<and> CHR ''/'' \<notin> set s"

lemma clean_step_plain:
  assumes "CHR ''/'' \<notin> set seg" "\<forall>s\<in>set out. plain_segment s"
  shows "\<forall>s\<in>set (clean_step True out seg). plain_segment s"
proof (cases "seg = ''..''")
  case True
  then show ?thesis using assms(2) by (cases out) (auto simp: clean_step_def plain_segment_def)
next
  case False
  then show ?thesis using assms by (auto simp: clean_step_def plain_segment_def)
qed

lemma clean_fold:
  "\<forall>s\<in>set segs. CHR ''/'' \<notin> set s \<Longrightarrow> \<forall>s\<in>set out. plain_segment s \<Longrightarrow>
   \<forall>s\<in>set (foldl (clean_step True) out segs). plain_segment s"
proof (induction segs arbitrary: out)
  case (Cons seg segs)
  then show ?case using clean_step_plain[of seg out] by simp
qed simp

lemma clean_segments_plain:
  assumes "HasPrefix p ''/''"
  shows "\<forall>s\<in>set (clean_segments p). plain_segment s"
  using clean_fold[of "go_Split CHR ''/'' p" "[]"] assms go_Split_free[of "CHR ''/''" p] by (simp add: clean_segments_def)

lemma cleaned_path:
  assumes "HasPrefix p ''/''"
  shows "(if path_Clean p = ''/'' then [] else path_Clean p) = slash_path (clean_segments p)"
proof (cases "clean_segments p")
  case Nil
  then show ?thesis using assms by (simp add: path_Clean_def)
next
  case (Cons s ss)
  then have "s \<noteq> []" using clean_segments_plain[OF assms] by (simp add: plain_segment_def)
  then have "slash_path (clean_segments p) \<noteq> ''/''" by (simp add: Cons)
  moreover have "path_Clean p = slash_path (clean_segments p)"
    using assms slash_path_Join[of "clean_segments p"] by (simp add: path_Clean_def Cons)
  ultimately show ?thesis by simp
qed

lemma segment_split:
  assumes "CHR ''/'' \<notin> set p" "CHR ''/'' \<notin> set q" "R = [] \<or> hd R = CHR ''/''" "Q = [] \<or> hd Q = CHR ''/''"
  shows "p @ R = q @ Q \<longleftrightarrow> p = q \<and> R = Q"
proof -
  have cut: "takeWhile (\<lambda>c. c \<noteq> CHR ''/'') (p @ R) = p" if "CHR ''/'' \<notin> set p" "R = [] \<or> hd R = CHR ''/''" for p R
  proof -
    have "takeWhile (\<lambda>c. c \<noteq> CHR ''/'') R = []" using that(2) by (cases R) auto
    moreover have "\<forall>c\<in>set p. c \<noteq> CHR ''/''" using that(1) by auto
    ultimately show ?thesis by (simp add: takeWhile_append2)
  qed
  from cut[OF assms(1,3)] cut[OF assms(2,4)] show ?thesis by auto
qed

lemma slash_path_hd: "slash_path ps = [] \<or> hd (slash_path ps) = CHR ''/''"
  by (cases ps) auto

lemma segments_eq:
  assumes "\<forall>p\<in>set ps. CHR ''/'' \<notin> set p" "\<forall>q\<in>set qs. CHR ''/'' \<notin> set q"
  shows "slash_path ps = slash_path qs \<longleftrightarrow> ps = qs"
  using assms
proof (induction qs arbitrary: ps)
  case Nil
  then show ?case by (cases ps) auto
next
  case (Cons q qs)
  then show ?case using segment_split slash_path_hd by (cases ps) auto
qed

lemma segments_prefix:
  assumes "\<forall>p\<in>set ps. CHR ''/'' \<notin> set p" "\<forall>q\<in>set qs. CHR ''/'' \<notin> set q"
  shows "HasPrefix (slash_path ps) (slash_path qs @ ''/'') \<longleftrightarrow> strict_prefix qs ps"
  using assms
proof (induction qs arbitrary: ps)
  case Nil
  then show ?case by (cases ps) (auto simp: HasPrefix_Cons)
next
  case (Cons q qs)
  show ?case
  proof (cases ps)
    case (Cons p ps')
    have "HasPrefix (slash_path ps) (slash_path (q # qs) @ ''/'') \<longleftrightarrow> (\<exists>t. p @ slash_path ps' = q @ (slash_path qs @ CHR ''/'' # t))"
      by (auto simp: Cons HasPrefix_iff)
    also have "\<dots> \<longleftrightarrow> p = q \<and> HasPrefix (slash_path ps') (slash_path qs @ ''/'')"
    proof -
      have hd: "slash_path qs @ CHR ''/'' # t = [] \<or> hd (slash_path qs @ CHR ''/'' # t) = CHR ''/''" for t
        using slash_path_hd[of qs] by (cases "slash_path qs") auto
      have "p @ slash_path ps' = q @ (slash_path qs @ CHR ''/'' # t) \<longleftrightarrow> p = q \<and> slash_path ps' = slash_path qs @ CHR ''/'' # t" for t
        using Cons.prems hd slash_path_hd by (intro segment_split) (auto simp: \<open>ps = p # ps'\<close>)
      then show ?thesis by (auto simp: HasPrefix_iff)
    qed
    also have "\<dots> \<longleftrightarrow> strict_prefix (q # qs) ps" using Cons.IH[of ps'] Cons.prems by (auto simp: \<open>ps = p # ps'\<close>)
    finally show ?thesis .
  qed simp
qed

text \<open>The forms a route's path has: a path, a path with a slash behind it, or a path with a star segment behind it.\<close>

datatype pattern_kind = Bare | Inner | Star

definition pattern_path :: "pattern_kind \<Rightarrow> string list \<Rightarrow> string" where
  "pattern_path k qs = slash_path qs @ (case k of Bare \<Rightarrow> [] | Inner \<Rightarrow> ''/'' | Star \<Rightarrow> ''/*'')"

definition wf_pattern :: "pattern_kind \<Rightarrow> string list \<Rightarrow> bool" where
  "wf_pattern k qs \<longleftrightarrow> (\<forall>q\<in>set qs. q \<noteq> [] \<and> CHR ''/'' \<notin> set q) \<and> (k = Bare \<longrightarrow> qs \<noteq> [] \<and> last qs \<noteq> ''*'')"

lemma HasSuffix_iff: "HasSuffix s p \<longleftrightarrow> (\<exists>r. s = r @ p)"
  by (simp add: HasSuffix_def HasPrefix_iff) (metis rev_append rev_rev_ident)

lemma last_star:
  assumes "qs \<noteq> []" "\<forall>q\<in>set qs. q \<noteq> [] \<and> CHR ''/'' \<notin> set q" "HasSuffix (slash_path qs) ''/*''"
  shows "last qs = ''*''"
proof -
  obtain rs q where qs: "qs = rs @ [q]" using assms(1) by (metis append_butlast_last_id)
  have "slash_path qs = slash_path rs @ CHR ''/'' # q" by (simp add: qs slash_path_def)
  then obtain t where t: "slash_path rs @ CHR ''/'' # q = t @ ''/*''" using assms(3) HasSuffix_iff by metis
  have q: "q \<noteq> []" "CHR ''/'' \<notin> set q" using assms(2) qs by auto
  then obtain q' where q': "q = q' @ ''*''" using t by (metis append_butlast_last_id last.simps last_appendR list.distinct(1))
  then have "slash_path rs @ CHR ''/'' # q' = t @ ''/''" using t by (simp)
  then have "q' = [] \<or> last q' = CHR ''/''" by (metis last.simps last_appendR list.distinct(1))
  then have "q' = []" using q(2) q' by (metis Un_iff last_in_set set_append)
  then show ?thesis by (simp add: qs q')
qed

definition covers :: "pattern_kind \<Rightarrow> string list \<Rightarrow> string list \<Rightarrow> bool" where
  "covers k qs ps \<longleftrightarrow> prefix qs ps \<and> (k = Inner \<and> qs \<noteq> [] \<longrightarrow> qs \<noteq> ps)"

lemma match_covers:
  assumes "wf_pattern k qs" "ToLower (rt_Path r) = pattern_path k qs" "\<forall>p\<in>set ps. CHR ''/'' \<notin> set p"
  shows "match_routes (slash_path ps) (r # rs) = (if covers k qs ps then Some r else match_routes (slash_path ps) rs)"
proof -
  have free: "\<forall>q\<in>set qs. CHR ''/'' \<notin> set q" using assms(1) by (auto simp: wf_pattern_def)
  note eqs = segments_eq[OF assms(3) free] segments_prefix[OF assms(3) free]
  show ?thesis
  proof (cases "qs = []")
    case True
    then show ?thesis using assms(1,2) by (cases k) (auto simp: pattern_path_def wf_pattern_def covers_def)
  next
    case False
    have ne: "slash_path qs \<noteq> []" using False by (cases qs) auto
    show ?thesis
    proof (cases k)
      case Bare
      have pat: "ToLower (rt_Path r) = slash_path qs" using assms(2) Bare by (simp add: pattern_path_def)
      have "\<not> HasSuffix (slash_path qs) ''/*''" using last_star[OF False] assms(1) Bare by (auto simp: wf_pattern_def)
      moreover have "\<not> HasSuffix (slash_path qs) ''/''"
      proof
        assume "HasSuffix (slash_path qs) ''/''"
        then obtain t where "slash_path qs = t @ ''/''" by (auto simp: HasSuffix_iff)
        moreover obtain rs' q where "qs = rs' @ [q]" using False by (metis append_butlast_last_id)
        moreover have "slash_path (rs' @ [q]) = slash_path rs' @ CHR ''/'' # q" by (simp add: slash_path_def)
        ultimately have "q = [] \<or> last q = CHR ''/''" by (metis last.simps last_appendR list.distinct(1))
        moreover have "q \<noteq> []" "CHR ''/'' \<notin> set q" using assms(1) \<open>qs = rs' @ [q]\<close> by (auto simp: wf_pattern_def)
        ultimately show False using last_in_set by metis
      qed
      moreover have "slash_path qs \<noteq> ''/*''" "slash_path qs \<noteq> ''/''" using calculation by (auto simp: HasSuffix_iff)
      ultimately show ?thesis using eqs pat Bare by (auto simp: Let_def covers_def prefix_order.le_less)
    next
      case Inner
      have pat: "ToLower (rt_Path r) = slash_path qs @ ''/''" using assms(2) Inner by (simp add: pattern_path_def)
      have "HasSuffix (slash_path qs @ ''/'') ''/''" "\<not> HasSuffix (slash_path qs @ ''/'') ''/*''"
        by (auto simp: HasSuffix_iff)
      moreover have "slash_path ps = slash_path qs @ ''/'' \<Longrightarrow> HasPrefix (slash_path ps) (slash_path qs @ ''/'')" by (simp add: HasPrefix_iff)
      ultimately show ?thesis using eqs pat Inner ne False by (auto simp: Let_def covers_def strict_prefix_def)
    next
      case Star
      have pat: "ToLower (rt_Path r) = slash_path qs @ ''/*''" using assms(2) Star by (simp add: pattern_path_def)
      have "HasSuffix (slash_path qs @ ''/*'') ''/*''" by (auto simp: HasSuffix_iff)
      moreover have "(HasPrefix (slash_path ps) (slash_path qs)
          \<and> (drop (length (slash_path qs)) (slash_path ps) = [] \<or> HasPrefix (drop (length (slash_path qs)) (slash_path ps)) ''/''))
        \<longleftrightarrow> slash_path ps = slash_path qs \<or> HasPrefix (slash_path ps) (slash_path qs @ ''/'')"
        by (auto simp: HasPrefix_iff)
      ultimately show ?thesis using eqs pat Star ne by (auto simp: Let_def covers_def prefix_order.le_less)
    qed
  qed
qed

lemma lower_pattern:
  assumes "wf_pattern k qs"
  shows "wf_pattern k (map ToLower qs)" "ToLower (pattern_path k qs) = pattern_path k (map ToLower qs)"
proof -
  have char: "lower_char c = CHR ''*'' \<longleftrightarrow> c = CHR ''*''" for c
  proof (cases "of_char c \<ge> (65::nat) \<and> of_char c \<le> (90::nat)")
    case True
    then have "of_char (lower_char c) = (of_char c + 32 :: nat)" by (simp add: lower_char_def)
    then show ?thesis using True by auto
  qed (auto simp: lower_char_def)
  then have star: "ToLower s = ''*'' \<longleftrightarrow> s = ''*''" for s
    by (cases s) (simp_all add: ToLower_def)
  have "ToLower s = [] \<longleftrightarrow> s = []" for s by (simp add: ToLower_def)
  then show "wf_pattern k (map ToLower qs)" using assms by (auto simp: wf_pattern_def last_map star)
  have "ToLower [] = []" "ToLower ''/'' = ''/''" "ToLower ''/*'' = ''/*''" using char by (simp_all add: ToLower_def)
  then show "ToLower (pattern_path k qs) = pattern_path k (map ToLower qs)"
    by (cases k) (simp_all add: pattern_path_def ToLower_slash_path)
qed

text \<open>C25. Routing compares whole path segments of the cleaned path and the first route that covers the request wins: with \<open>pats\<close> giving the segments of
  every route's path, a route covers a request when its segments are the first ones of the request, letter
  case aside (a route that ends in a slash needs at least one more). The segments of a cleaned absolute path are never empty, a dot or
  two dots, so no request climbs out of the route it is matched by.\<close>

theorem matchRoute_segments:
  assumes "HasPrefix p ''/''" "\<forall>r\<in>set routes. wf_pattern (fst (pats r)) (snd (pats r)) \<and> rt_Path r = pattern_path (fst (pats r)) (snd (pats r))"
  shows "matchRoute routes p = find (\<lambda>r. covers (fst (pats r)) (map ToLower (snd (pats r))) (map ToLower (clean_segments p))) routes
    \<and> (\<forall>s\<in>set (clean_segments p). plain_segment s)"
proof -
  let ?ps = "map ToLower (clean_segments p)"
  have free: "\<forall>s\<in>set ?ps. CHR ''/'' \<notin> set s" using clean_segments_plain[OF assms(1)] by (auto simp: plain_segment_def)
  have "match_routes (slash_path ?ps) rs = find (\<lambda>r. covers (fst (pats r)) (map ToLower (snd (pats r))) ?ps) rs"
    if "set rs \<subseteq> set routes" for rs
    using that
  proof (induction rs)
    case (Cons r rs)
    then have r: "wf_pattern (fst (pats r)) (snd (pats r))" "rt_Path r = pattern_path (fst (pats r)) (snd (pats r))" using assms(2) by auto
    have "ToLower (rt_Path r) = pattern_path (fst (pats r)) (map ToLower (snd (pats r)))" using r lower_pattern(2)[OF r(1)] by simp
    from match_covers[OF lower_pattern(1)[OF r(1)] this free, of rs] Cons show ?case by simp
  qed simp
  moreover have "ToLower (if path_Clean p = ''/'' then [] else path_Clean p) = slash_path ?ps"
    using cleaned_path[OF assms(1)] by (simp add: ToLower_slash_path)
  ultimately show ?thesis using clean_segments_plain[OF assms(1)] by (simp add: matchRoute_def Let_def)
qed

section \<open>What is sent\<close>

lemma deny_sent: "gw_sent (snd (deny cl r ac ae gw)) = gw_sent gw"
  by (simp add: deny_def run_denied_def Let_def split: prod.splits)

lemma forward_sent:
  assumes "forward cl rtrip S t ac r gw = (rsp, gw')"
  shows "gw_sent gw' = gw_sent gw
    \<or> gw_sent gw' = gw_sent gw @ [(tgt_Base t, outgoing_request t (r\<lparr>hr_Header := identity_headers cl S ac (hr_Header r)\<rparr>))]"
  using assms by (auto simp: forward_def reverse_proxy_def emitProxyOutcome_def Let_def split: if_splits sum.splits)

lemma proxy_sent:
  assumes "proxy cl rtrip S (Some ac) r gw = (rsp, gw')" "gw_sent gw' \<noteq> gw_sent gw"
  obtains rt where "matchRoute (srv_routes S) (hr_Path r) = Some rt" "rt_AllowMethods rt = [] \<or> hr_Method r \<in> set (rt_AllowMethods rt)"
    "set (rt_RequiredCapabilities rt) \<subseteq> set (ctx_Capabilities ac)"
    "gw_sent gw' = gw_sent gw @ [(tgt_Base (the (rt_Target rt)),
       outgoing_request (the (rt_Target rt)) (r\<lparr>hr_Header := identity_headers cl S ac (hr_Header r)\<rparr>))]"
proof -
  have no_deny: "deny cl r (Some ac) ae gw \<noteq> (rsp, gw')" for ae using deny_sent assms(2) by (metis snd_conv)
  then obtain rt where rt: "matchRoute (srv_routes S) (hr_Path r) = Some rt" "rt_AllowMethods rt = [] \<or> hr_Method r \<in> set (rt_AllowMethods rt)"
      "rt_RequiredCapabilities rt = [] \<or> hasAllCapabilities ac (rt_RequiredCapabilities rt)"
      "forward cl rtrip S (the (rt_Target rt)) ac r gw = (rsp, gw')"
    using assms(1) by (auto simp: proxy_def split: option.splits if_splits)
  then have "set (rt_RequiredCapabilities rt) \<subseteq> set (ctx_Capabilities ac)" by (auto simp: hasAllCapabilities_def list_all_iff)
  then show thesis using rt forward_sent[OF rt(4)] assms(2) that by blast
qed

lemma Server_handle_sent:
  assumes "Server_handle E cl rtrip S r0 gw = (res, gw')" "gw_sent gw' \<noteq> gw_sent gw"
  obtains ac a rsp where "Decide E cl (Some (bounded_view (a_cfg (gw_auth gw)) r0)) (gw_auth gw) = (Inr ac, a)"
    "\<forall>f. cfg_HookAuthenticated (a_cfg (gw_auth gw)) = Some f \<longrightarrow> f ac (bounded_request (a_cfg (gw_auth gw)) r0) = None"
    "proxy cl rtrip S (Some ac) (bounded_request (a_cfg (gw_auth gw)) r0) (gw\<lparr>gw_auth := a\<rparr>) = (rsp, gw')"
    "res = Served ac (bounded_request (a_cfg (gw_auth gw)) r0) rsp"
proof -
  from assms(1) have run: "Handler E cl True (\<lambda>ac. proxy cl rtrip S (Some ac)) r0 gw = (res, gw')" by (simp add: Server_handle_def)
  from this show thesis
  proof (cases rule: Handler_cases)
    case (refused ae a)
    then show ?thesis using assms(2) by (auto simp: serve_refused_def run_denied_def Let_def split: prod.splits if_splits)
  next
    case (vetoed ac a f msg)
    then show ?thesis using assms(2) by (auto simp: serve_vetoed_def run_denied_def Let_def split: if_splits)
  next
    case (served ac a)
    obtain rsp g where p: "proxy cl rtrip S (Some ac) (bounded_request (a_cfg (gw_auth gw)) r0) (gw\<lparr>gw_auth := a\<rparr>) = (rsp, g)" by fastforce
    then have "res = Served ac (bounded_request (a_cfg (gw_auth gw)) r0) rsp" "gw' = g"
      using served(3) by (auto simp: serve_next_def Let_def)
    then show ?thesis using p by (intro that[OF served(1,2)]) simp_all
  qed
qed

text \<open>C5. A backend is reached only through every gate: when handling a request sends anything, it sends exactly one request, over a TLS connection whose
  credential the decision admitted and the hook did not veto, to the first route that matches, with an allowed method and an
  identity that holds every capability the route requires.\<close>

theorem server_forwards_guarded:
  assumes "Server_handle E cl rtrip S r0 gw = (res, gw')" "gw_sent gw' \<noteq> gw_sent gw"
  shows "\<exists>ac a rt out. hr_TLS r0 \<noteq> None
    \<and> Decide E cl (Some (bounded_view (a_cfg (gw_auth gw)) r0)) (gw_auth gw) = (Inr ac, a)
    \<and> (\<forall>f. cfg_HookAuthenticated (a_cfg (gw_auth gw)) = Some f \<longrightarrow> f ac (bounded_request (a_cfg (gw_auth gw)) r0) = None)
    \<and> matchRoute (srv_routes S) (hr_Path r0) = Some rt
    \<and> (rt_AllowMethods rt = [] \<or> hr_Method r0 \<in> set (rt_AllowMethods rt))
    \<and> set (rt_RequiredCapabilities rt) \<subseteq> set (ctx_Capabilities ac)
    \<and> gw_sent gw' = gw_sent gw @ [(tgt_Base (the (rt_Target rt)), out)]"
proof -
  obtain ac a rsp where h: "Decide E cl (Some (bounded_view (a_cfg (gw_auth gw)) r0)) (gw_auth gw) = (Inr ac, a)"
    "\<forall>f. cfg_HookAuthenticated (a_cfg (gw_auth gw)) = Some f \<longrightarrow> f ac (bounded_request (a_cfg (gw_auth gw)) r0) = None"
    "proxy cl rtrip S (Some ac) (bounded_request (a_cfg (gw_auth gw)) r0) (gw\<lparr>gw_auth := a\<rparr>) = (rsp, gw')"
    using assms by (rule Server_handle_sent)
  have same: "hr_Path (bounded_request c r) = hr_Path r" "hr_Method (bounded_request c r) = hr_Method r" for c r
    by (simp_all add: bounded_request_def split: option.splits)
  obtain chain where "credential_verified E cl (gw_auth gw) (bounded_view (a_cfg (gw_auth gw)) r0) chain (ctx_ClientCert ac) (ctx_Bearer ac)"
    using Decide_credential[OF h(1)] by blast
  then have "hr_TLS r0 \<noteq> None" by (cases "hr_TLS r0") (auto simp: credential_verified_def split: if_splits)
  moreover have "gw_sent gw' \<noteq> gw_sent (gw\<lparr>gw_auth := a\<rparr>)" using assms(2) by simp
  ultimately show ?thesis using h(1,2) by (elim proxy_sent[OF h(3), unfolded same]) auto
qed

section \<open>Headers a backend receives\<close>

definition client_keys :: "string set" where
  "client_keys = {''X-Aicn-Identity-Mode'', ''Authorization'', ''Proxy-Authorization''}"

lemma proxy_keys:
  "CanonicalHeaderKey ''X-AICN-Identity-Mode'' = ''X-Aicn-Identity-Mode''" "CanonicalHeaderKey ''Authorization'' = ''Authorization''"
  "CanonicalHeaderKey ''Proxy-Authorization'' = ''Proxy-Authorization''" "CanonicalHeaderKey ''X-Forwarded-For'' = ''X-Forwarded-For''"
  "CanonicalHeaderKey ''Te'' = ''Te''" "CanonicalHeaderKey ''Connection'' = ''Connection''" "CanonicalHeaderKey ''Upgrade'' = ''Upgrade''"
  "CanonicalHeaderKey ''User-Agent'' = ''User-Agent''"
  by code_simp+

lemma identity_headers_lookup:
  "K \<in> trust_keys \<Longrightarrow> map_of (identity_headers cl S ac h) K
     = map_of (injectIdentityHeaders (cl_crypto cl) (cl_pki cl) (Some ac) (srv_IdentityMode S) []) K"
  "K \<in> client_keys \<Longrightarrow> map_of (identity_headers cl S ac h) K = None"
proof -
  show "K \<in> trust_keys \<Longrightarrow> map_of (identity_headers cl S ac h) K
     = map_of (injectIdentityHeaders (cl_crypto cl) (cl_pki cl) (Some ac) (srv_IdentityMode S) []) K"
    unfolding identity_headers_def Let_def by (rule inject_asserted)
  assume K: "K \<in> client_keys"
  then have "K \<notin> trust_keys" unfolding trust_keys_list canonical_names by (auto simp: client_keys_def)
  then show "map_of (identity_headers cl S ac h) K = None"
    using K by (simp add: identity_headers_def Let_def inject_outside header_lookups proxy_keys client_keys_def) blast
qed

lemma outgoing_lookup:
  assumes "K \<notin> {''X-Forwarded-For'', ''Te'', ''Connection'', ''Upgrade'', ''User-Agent''}"
  shows "map_of (outgoing_headers r) K
    = (if K \<in> CanonicalHeaderKey ` set (filter (\<lambda>t. t \<noteq> []) (header_tokens (hdr_Set (hr_Header r) ''X-Forwarded-For'' (clientIPOf r)) ''Connection''))
          \<union> CanonicalHeaderKey ` set hopHeaders then None else map_of (hr_Header r) K)"
proof -
  have "map_of (add_forwarded_for r h) K = map_of h K" for h
    using assms by (simp add: add_forwarded_for_def Let_def header_lookups proxy_keys split: option.splits)
  then show ?thesis
    using assms unfolding outgoing_headers_def Let_def removeHopByHopHeaders_def
    by (simp add: header_lookups proxy_keys)
qed

lemma trust_keys_apart:
  "K \<in> trust_keys \<or> K \<in> client_keys \<Longrightarrow> K \<notin> {''X-Forwarded-For'', ''Te'', ''Connection'', ''Upgrade'', ''User-Agent''}"
  unfolding trust_keys_list canonical_names by (auto simp: client_keys_def)

lemma sent_identity:
  assumes "Server_handle E cl rtrip S r0 gw = (res, gw')" "gw_sent gw' = gw_sent gw @ [(base, out)]"
  shows "\<exists>ac r rsp. res = Served ac r rsp
    \<and> (\<forall>K\<in>trust_keys. map_of (hr_Header out) K
         \<in> {None, map_of (injectIdentityHeaders (cl_crypto cl) (cl_pki cl) (Some ac) (srv_IdentityMode S) []) K})
    \<and> (\<forall>K\<in>client_keys. map_of (hr_Header out) K = None)"
proof -
  have "gw_sent gw' \<noteq> gw_sent gw" using assms(2) by simp
  with assms(1) obtain ac a rsp where
    h: "proxy cl rtrip S (Some ac) (bounded_request (a_cfg (gw_auth gw)) r0) (gw\<lparr>gw_auth := a\<rparr>) = (rsp, gw')"
      "res = Served ac (bounded_request (a_cfg (gw_auth gw)) r0) rsp"
    by (rule Server_handle_sent)
  let ?r = "bounded_request (a_cfg (gw_auth gw)) r0"
  have "gw_sent gw' \<noteq> gw_sent (gw\<lparr>gw_auth := a\<rparr>)" using assms(2) by simp
  from proxy_sent[OF h(1) this] obtain t where
    "gw_sent gw' = gw_sent gw @ [(tgt_Base t, outgoing_request t (?r\<lparr>hr_Header := identity_headers cl S ac (hr_Header ?r)\<rparr>))]"
    by (metis gateway.select_convs(3) gateway.surjective gateway.update_convs(1))
  then have out: "hr_Header out = outgoing_headers (?r\<lparr>hr_Header := identity_headers cl S ac (hr_Header ?r)\<rparr>)"
    using assms(2) by (simp add: outgoing_request_def)
  have "map_of (hr_Header out) K \<in> {None, map_of (identity_headers cl S ac (hr_Header ?r)) K}" if "K \<in> trust_keys \<or> K \<in> client_keys" for K
    using outgoing_lookup[OF trust_keys_apart[OF that]] by (simp add: out)
  then show ?thesis using h(2) identity_headers_lookup by fastforce
qed

text \<open>C6. No credential and no self-asserted identity reaches a backend: in every request sent, the headers of the identity namespace
  have exactly the value the gateway asserts for the admitted identity, or are absent; the credentials of
  the client and its identity mode are gone.\<close>

theorem forwarded_identity_asserted:
  assumes "Server_handle E cl rtrip S r0 gw = (res, gw')" "gw_sent gw' = gw_sent gw @ [(base, out)]"
  shows "\<exists>ac r rsp. res = Served ac r rsp
    \<and> (\<forall>K\<in>trust_keys. map_of (hr_Header out) K
         \<in> {None, map_of (injectIdentityHeaders (cl_crypto cl) (cl_pki cl) (Some ac) (srv_IdentityMode S) []) K})
    \<and> (\<forall>K\<in>client_keys. map_of (hr_Header out) K = None)"
  by (rule sent_identity[OF assms])

text \<open>The client decides which asserted headers arrive: a header named in its \<^verbatim>\<open>Connection\<close> field is removed after the identity was
  asserted.\<close>

theorem connection_strips_identity:
  assumes "map_of (hr_Header r) ''Connection'' = Some vs" "v \<in> set vs" "t \<in> set (map trim_ascii (go_Split CHR '','' v))"
    and "t \<noteq> []" "CanonicalHeaderKey t \<in> trust_keys"
  shows "map_of (outgoing_headers r) (CanonicalHeaderKey t) = None"
proof -
  have "t \<in> set (header_tokens (hdr_Set (hr_Header r) ''X-Forwarded-For'' (clientIPOf r)) ''Connection'')"
    using assms(1-3) by (auto simp: header_tokens_def header_values_def header_lookups proxy_keys)
  then show ?thesis using outgoing_lookup[OF trust_keys_apart, of "CanonicalHeaderKey t" r] assms(4,5) by auto
qed

text \<open>The backend sees the client twice in \<^verbatim>\<open>X-Forwarded-For\<close>, unless the client has the header removed.\<close>

theorem forwarded_for_repeated:
  assumes "SplitHost (hr_RemoteAddr r) = Some ip"
    and "''X-Forwarded-For'' \<notin> CanonicalHeaderKey ` set (header_tokens (hdr_Set (hr_Header r) ''X-Forwarded-For'' ip) ''Connection'')"
  shows "map_of (outgoing_headers r) ''X-Forwarded-For'' = Some [ip @ '', '' @ ip]"
proof -
  have ip: "clientIPOf r = ip" using assms(1) by (simp add: clientIPOf_def)
  have hop: "''X-Forwarded-For'' \<notin> CanonicalHeaderKey ` set hopHeaders" by code_simp
  have "map_of (removeHopByHopHeaders (hdr_Set (hr_Header r) ''X-Forwarded-For'' ip)) ''X-Forwarded-For'' = Some [ip]"
    using assms(2) hop unfolding removeHopByHopHeaders_def by (auto simp: header_lookups proxy_keys)
  then show ?thesis
    using assms(1) unfolding outgoing_headers_def Let_def ip
    by (simp add: add_forwarded_for_def header_values_def Let_def header_lookups proxy_keys)
qed

section \<open>Witnesses\<close>

definition example_route :: route where
  "example_route = \<lparr>rt_Path = ''/DB/*'', rt_Target = Some \<lparr>tgt_Base = ''http://b'', tgt_Path = [], tgt_RawQuery = []\<rparr>, rt_AllowMethods = [''GET''],
     rt_RequiredCapabilities = []\<rparr>"

definition example_proxy :: proxy_server where
  "example_proxy = \<lparr>srv_routes = [example_route], srv_backendRoots = None, srv_IdentityMode = IdentityAIC, srv_HookForwarded = True\<rparr>"

definition example_trip :: round_trip where
  "example_trip base r = Inr \<lparr>rsp_Status = 200, rsp_Headers = [], rsp_Body = hr_Path r\<rparr>"

theorem matchRoute_segments_witness:
  "matchRoute [example_route] ''/x/../db/t1'' = Some example_route \<and> matchRoute [example_route] ''/dbx'' = None"
proof -
  have pats: "\<forall>r\<in>set [example_route]. wf_pattern (fst (Star, [''DB''])) (snd (Star, [''DB'']))
      \<and> rt_Path r = pattern_path (fst (Star, [''DB''])) (snd (Star, [''DB'']))"
    by (simp add: example_route_def wf_pattern_def pattern_path_def)
  have p: "HasPrefix ''/x/../db/t1'' ''/''" "HasPrefix ''/dbx'' ''/''" by code_simp+
  have c: "covers Star (map ToLower [''DB'']) (map ToLower (clean_segments ''/x/../db/t1''))"
    "\<not> covers Star (map ToLower [''DB'']) (map ToLower (clean_segments ''/dbx''))" by code_simp+
  from matchRoute_segments[OF p(1) pats] matchRoute_segments[OF p(2) pats] c show ?thesis by simp
qed

lemma example_route_match: "matchRoute [example_route] ''/db'' = Some example_route"
proof -
  have "match_routes (ToLower (if path_Clean ''/db'' = ''/'' then [] else path_Clean ''/db'')) [example_route]
      = (if \<not> Option.is_none (match_routes (ToLower (if path_Clean ''/db'' = ''/'' then [] else path_Clean ''/db'')) [example_route])
         then Some example_route else None)" by (simp add: Let_def Option.is_none_def)
  moreover have "\<not> Option.is_none (match_routes (ToLower (if path_Clean ''/db'' = ''/'' then [] else path_Clean ''/db'')) [example_route])" by code_simp
  ultimately show ?thesis by (simp add: matchRoute_def Let_def)
qed

lemma example_sent:
  obtains ac r rsp gw' out where
    "Server_handle example_auth_env example_mtls_call example_trip example_proxy (example_request (Some [example_cert])) example_gateway
       = (Served ac r rsp, gw')" "gw_sent gw' = gw_sent example_gateway @ [(''http://b'', out)]"
proof -
  let ?r = "example_request (Some [example_cert])" and ?b = "bounded_request example_auth_config (example_request (Some [example_cert]))"
  obtain ac a where d: "Decide example_auth_env example_mtls_call (Some (bounded_view example_auth_config ?r)) example_authenticator = (Inr ac, a)"
    by (rule example_handler_decide)
  have hook: "cfg_HookAuthenticated (a_cfg a) = None" using Decide_cfg[OF d] by (simp add: example_auth_config_def)
  have r: "hr_Path ?b = ''/db''" "hr_Method ?b = ''GET''" "hr_Header ?b = [(''X-Request-Id'', [''t1''])]"
    by (simp_all add: bounded_request_def example_request_def example_auth_config_def)
  let ?h = "identity_headers example_mtls_call example_proxy ac [(''X-Request-Id'', [''t1''])]"
  have "map_of ?h ''Connection'' = None"
  proof -
    have "''Connection'' \<notin> trust_keys" using trust_keys_apart[of "''Connection''"] by auto
    then show ?thesis by (simp add: identity_headers_def Let_def inject_outside header_lookups proxy_keys)
  qed
  then have up: "printable (upgradeType ?h)" by (simp add: upgradeType_def has_token_def header_tokens_def header_values_def printable_def)
  obtain rsp gw' out where p: "proxy example_mtls_call example_trip example_proxy (Some ac) ?b (example_gateway\<lparr>gw_auth := a\<rparr>) = (rsp, gw')"
    "gw_sent gw' = gw_sent example_gateway @ [(''http://b'', out)]"
    using example_route_match up
    by (simp add: proxy_def example_proxy_def r) (simp add: example_route_def forward_def reverse_proxy_def r emitProxyOutcome_def Let_def example_proxy_def example_trip_def)
  then have "Server_handle example_auth_env example_mtls_call example_trip example_proxy ?r example_gateway = (Served ac ?b rsp, gw')"
    using d hook by (simp add: Server_handle_def Handler_def Authenticate_def serve_next_def Let_def)
  then show thesis using p(2) that by blast
qed

theorem server_forwards_guarded_witness:
  "\<exists>res gw' out. Server_handle example_auth_env example_mtls_call example_trip example_proxy (example_request (Some [example_cert])) example_gateway
     = (res, gw') \<and> gw_sent gw' = [(''http://b'', out)]"
proof -
  obtain ac r rsp gw' out where run: "Server_handle example_auth_env example_mtls_call example_trip example_proxy
      (example_request (Some [example_cert])) example_gateway = (Served ac r rsp, gw')"
    and sent: "gw_sent gw' = gw_sent example_gateway @ [(''http://b'', out)]" by (rule example_sent)
  have ne: "gw_sent gw' \<noteq> gw_sent example_gateway" using sent by simp
  from server_forwards_guarded[OF run ne] sent run show ?thesis by (auto simp: example_gateway_def)
qed

theorem forwarded_identity_asserted_witness:
  "\<exists>res gw' out. Server_handle example_auth_env example_mtls_call example_trip example_proxy (example_request (Some [example_cert])) example_gateway
     = (res, gw') \<and> gw_sent gw' = [(''http://b'', out)] \<and> map_of (hr_Header out) ''Authorization'' = None"
proof -
  obtain ac r rsp gw' out where run: "Server_handle example_auth_env example_mtls_call example_trip example_proxy
      (example_request (Some [example_cert])) example_gateway = (Served ac r rsp, gw')"
    and sent: "gw_sent gw' = gw_sent example_gateway @ [(''http://b'', out)]" by (rule example_sent)
  from forwarded_identity_asserted[OF run sent] have "map_of (hr_Header out) ''Authorization'' = None" by (auto simp: client_keys_def)
  then show ?thesis using run sent by (auto simp: example_gateway_def)
qed

end
