(* ===== verification/Mcp.thy ===== *)
theory Mcp
  imports Complex_Main Identity Audit_Log "HOL-Library.List_Lexorder" "HOL-Library.Char_ord"
begin

text \<open>
  The tool server (\<^verbatim>\<open>src/mcp/\<close>): the manifest of tools with their capabilities and parameter barriers, the enforcement in front of the embedded
  protocol server, and the wrapper around every tool implementation. The protocol server (\<^verbatim>\<open>github.com/mark3labs/mcp-go\<close>) is a parameter: for
  a request it receives it yields an arbitrary list of tool calls and a response. The JSON parser, the raw text of a member, regular
  expressions and the nearest 64-bit float of a number literal are parameters too. Executed tools, requests that reached the protocol server
  and audit entries are recorded in the state.
\<close>

section \<open>The manifest\<close>

text \<open>\<open>mc_Field\<close> is the text a \<^verbatim>\<open>RawMessage\<close> field of the name receives, empty when it has no member; \<open>mc_Float\<close> is \<^verbatim>\<open>strconv.ParseFloat\<close> on
  a number literal, \<open>None\<close> when it is out of range.\<close>

record mcp_env =
  mc_Parse :: "bytes \<Rightarrow> json option"
  mc_Field :: "bytes \<Rightarrow> string \<Rightarrow> bytes"
  mc_Compile :: "string \<Rightarrow> string + (string \<Rightarrow> bool)"
  mc_Float :: "json \<Rightarrow> rat option"
  mc_pki :: pki_ops
  mc_crypto :: crypto_ops
  mc_OIDAIC :: oid

record barrier =
  bar_Name :: string
  bar_Min :: "rat option"
  bar_Max :: "rat option"
  bar_MinLength :: "int option"
  bar_MaxLength :: "int option"
  bar_Enum :: "string list"
  bar_Pattern :: string
  bar_patternRe :: "(string \<Rightarrow> bool) option"

record tool_spec =
  ts_Name :: string
  ts_Description :: string
  ts_InputSchema :: bytes
  ts_RequiredCapability :: string
  ts_ParameterConstraints :: "barrier list"

record registry =
  reg_Version :: int
  reg_Tools :: "tool_spec list"
  reg_byName :: "(string \<times> tool_spec) list"

datatype manifest_error = ManifestParse string | ManifestVersion int | NoTools | EmptyToolName nat | MissingSchema string
  | InvalidSchema string | MissingCapability string | DuplicateTool string | EmptyBarrierName string nat | BadPattern string string

fun compile_barriers :: "mcp_env \<Rightarrow> string \<Rightarrow> nat \<Rightarrow> barrier list \<Rightarrow> manifest_error + barrier list" where
  "compile_barriers M tool i [] = Inr []"
| "compile_barriers M tool i (c # cs) =
     (if bar_Name c = [] then Inl (EmptyBarrierName tool i)
      else case (if bar_Pattern c = [] then Inr c
                 else case mc_Compile M (bar_Pattern c) of Inl e \<Rightarrow> Inl (BadPattern tool (bar_Pattern c))
                      | Inr re \<Rightarrow> Inr (c\<lparr>bar_patternRe := Some re\<rparr>)) of
             Inl e \<Rightarrow> Inl e
           | Inr c' \<Rightarrow> (case compile_barriers M tool (Suc i) cs of Inl e \<Rightarrow> Inl e | Inr cs' \<Rightarrow> Inr (c' # cs')))"

definition rebuild_tool :: "mcp_env \<Rightarrow> nat \<Rightarrow> string list \<Rightarrow> tool_spec \<Rightarrow> manifest_error + tool_spec" where
  "rebuild_tool M i known spec =
     (let schema = TrimSpace (ts_InputSchema spec) in
      if ts_Name spec = [] then Inl (EmptyToolName i)
      else if schema = [] \<or> schema = ''null'' then Inl (MissingSchema (ts_Name spec))
      else if mc_Parse M (ts_InputSchema spec) = None then Inl (InvalidSchema (ts_Name spec))
      else if ts_RequiredCapability spec = [] then Inl (MissingCapability (ts_Name spec))
      else if ts_Name spec \<in> set known then Inl (DuplicateTool (ts_Name spec))
      else case compile_barriers M (ts_Name spec) 0 (ts_ParameterConstraints spec) of
             Inl e \<Rightarrow> Inl e
           | Inr cs \<Rightarrow> Inr (spec\<lparr>ts_ParameterConstraints := cs\<rparr>))"

fun rebuild_loop :: "mcp_env \<Rightarrow> nat \<Rightarrow> tool_spec list \<Rightarrow> tool_spec list \<Rightarrow> manifest_error + tool_spec list" where
  "rebuild_loop M i acc [] = Inr acc"
| "rebuild_loop M i acc (spec # specs) =
     (case rebuild_tool M i (map ts_Name acc) spec of Inl e \<Rightarrow> Inl e
      | Inr spec' \<Rightarrow> rebuild_loop M (Suc i) (acc @ [spec']) specs)"

definition rebuild :: "mcp_env \<Rightarrow> registry \<Rightarrow> manifest_error + registry" where
  "rebuild M r =
     (if reg_Version r < 1 then Inl (ManifestVersion (reg_Version r))
      else if length (reg_Tools r) = 0 then Inl NoTools
      else case rebuild_loop M 0 [] (reg_Tools r) of Inl e \<Rightarrow> Inl e
           | Inr tools \<Rightarrow> Inr (r\<lparr>reg_Tools := tools, reg_byName := map (\<lambda>t. (ts_Name t, t)) tools\<rparr>))"

text \<open>\<open>decoded\<close> is the strict decoding of the manifest.\<close>

definition LoadJSON :: "mcp_env \<Rightarrow> string + registry \<Rightarrow> manifest_error + registry" where
  "LoadJSON M decoded = (case decoded of Inl e \<Rightarrow> Inl (ManifestParse e) | Inr r \<Rightarrow> rebuild M r)"

definition Find_tool :: "registry \<Rightarrow> string \<Rightarrow> tool_spec option" where
  "Find_tool r name = map_of (reg_byName r) name"

definition names :: "registry \<Rightarrow> string list" where
  "names r = sort (map fst (reg_byName r))"

section \<open>Parameter barriers\<close>

datatype arg_error = MissingArguments | NotAnObject | BadRequired | MissingRequired string | BelowMin string | AboveMax string
  | TooShort string int | TooLong string int | NotInEnum string | NoPatternMatch string

definition jsonNumber :: "mcp_env \<Rightarrow> json \<Rightarrow> rat option" where
  "jsonNumber M v = (case v of JNum n \<Rightarrow> mc_Float M v | JFloat s \<Rightarrow> mc_Float M v | _ \<Rightarrow> None)"

definition checkNumeric :: "mcp_env \<Rightarrow> barrier \<Rightarrow> json \<Rightarrow> arg_error option" where
  "checkNumeric M c v =
     (if bar_Min c = None \<and> bar_Max c = None then None
      else case jsonNumber M v of None \<Rightarrow> None | Some num \<Rightarrow>
        if (case bar_Min c of None \<Rightarrow> False | Some m \<Rightarrow> num < m) then Some (BelowMin (bar_Name c))
        else if (case bar_Max c of None \<Rightarrow> False | Some m \<Rightarrow> num > m) then Some (AboveMax (bar_Name c))
        else None)"

text \<open>\<^verbatim>\<open>utf8.RuneCountInString\<close> on valid UTF-8: the bytes that are not continuation bytes.\<close>

definition rune_count :: "string \<Rightarrow> int" where
  "rune_count s = int (length (filter (\<lambda>c. \<not> (128 \<le> (of_char c :: nat) \<and> (of_char c :: nat) < 192)) s))"

definition length_error :: "barrier \<Rightarrow> int \<Rightarrow> arg_error option" where
  "length_error c n =
     (if (case bar_MinLength c of None \<Rightarrow> False | Some m \<Rightarrow> n < m) then Some (TooShort (bar_Name c) n)
      else if (case bar_MaxLength c of None \<Rightarrow> False | Some m \<Rightarrow> n > m) then Some (TooLong (bar_Name c) n)
      else None)"

definition checkString :: "barrier \<Rightarrow> json \<Rightarrow> arg_error option" where
  "checkString c v =
     (if bar_MinLength c = None \<and> bar_MaxLength c = None \<and> bar_Enum c = [] \<and> bar_Pattern c = [] then None
      else case decode_string v [] of None \<Rightarrow> None | Some s \<Rightarrow>
        case length_error c (rune_count s) of Some e \<Rightarrow> Some e | None \<Rightarrow>
        if bar_Enum c \<noteq> [] \<and> s \<notin> set (bar_Enum c) then Some (NotInEnum (bar_Name c))
        else if bar_Pattern c \<noteq> [] \<and> (case bar_patternRe c of None \<Rightarrow> False | Some re \<Rightarrow> \<not> re s) then Some (NoPatternMatch (bar_Name c))
        else None)"

definition array_length :: "json \<Rightarrow> int option" where
  "array_length v = (case v of JArr js \<Rightarrow> Some (int (length js)) | JNull \<Rightarrow> Some 0 | _ \<Rightarrow> None)"

definition checkArray :: "barrier \<Rightarrow> json \<Rightarrow> arg_error option" where
  "checkArray c v =
     (if bar_MinLength c = None \<and> bar_MaxLength c = None then None
      else case array_length v of None \<Rightarrow> None | Some n \<Rightarrow> length_error c n)"

definition checkConstraint :: "mcp_env \<Rightarrow> barrier \<Rightarrow> json \<Rightarrow> arg_error option" where
  "checkConstraint M c v =
     (case checkNumeric M c v of Some e \<Rightarrow> Some e | None \<Rightarrow>
      case checkString c v of Some e \<Rightarrow> Some e | None \<Rightarrow> checkArray c v)"

definition requiredFields :: "mcp_env \<Rightarrow> bytes \<Rightarrow> string list option" where
  "requiredFields M schema =
     (case mc_Parse M schema of None \<Rightarrow> None | Some j \<Rightarrow> decode_struct1 ''required'' decode_string_list [] j)"

fun check_barriers :: "mcp_env \<Rightarrow> (string \<times> json) list \<Rightarrow> barrier list \<Rightarrow> arg_error option" where
  "check_barriers M args [] = None"
| "check_barriers M args (c # cs) =
     (case map_of args (bar_Name c) of None \<Rightarrow> check_barriers M args cs | Some v \<Rightarrow>
      case checkConstraint M c v of Some e \<Rightarrow> Some e | None \<Rightarrow> check_barriers M args cs)"

definition arguments_of :: "mcp_env \<Rightarrow> bytes \<Rightarrow> (string \<times> json) list option" where
  "arguments_of M raw = (case mc_Parse M raw of None \<Rightarrow> None | Some j \<Rightarrow> decode_map Some j)"

definition validateArgs :: "mcp_env \<Rightarrow> tool_spec \<Rightarrow> bytes \<Rightarrow> arg_error option" where
  "validateArgs M spec raw =
     (if raw = [] \<or> raw = ''null'' then Some MissingArguments
      else case arguments_of M raw of None \<Rightarrow> Some NotAnObject | Some args \<Rightarrow>
        case requiredFields M (ts_InputSchema spec) of None \<Rightarrow> Some BadRequired | Some required \<Rightarrow>
        case find (\<lambda>n. n \<notin> fst ` set args) required of Some n \<Rightarrow> Some (MissingRequired n) | None \<Rightarrow>
          check_barriers M args (ts_ParameterConstraints spec))"

section \<open>Callers\<close>

text \<open>The part of an identity the tool server reads, from the admission in front of it or from the headers of a trusted proxy.\<close>

record caller =
  cal_Principal :: string
  cal_AgentID :: string
  cal_Capabilities :: "string list"
  cal_AIC :: "capability list option"
  cal_ClientCert :: "certificate option"

definition context_caller :: "auth_context \<Rightarrow> caller" where
  "context_caller ac =
     \<lparr>cal_Principal = ctx_Principal ac, cal_AgentID = ctx_AgentID ac, cal_Capabilities = ctx_Capabilities ac,
      cal_AIC = map_option aic_Capabilities (ctx_AIC ac), cal_ClientCert = Some (ctx_ClientCert ac)\<rparr>"

definition header_caller :: "header_identity \<Rightarrow> caller" where
  "header_caller hi =
     \<lparr>cal_Principal = hi_Principal hi, cal_AgentID = hi_AgentID hi, cal_Capabilities = hi_Capabilities hi,
      cal_AIC = Some (hi_AICCapabilities hi), cal_ClientCert = None\<rparr>"

definition capsAllow :: "mcp_env \<Rightarrow> caller option \<Rightarrow> string \<Rightarrow> bool" where
  "capsAllow M ac required =
     (if required = [] then True
      else case ac of None \<Rightarrow> False | Some a \<Rightarrow>
        (case cal_AIC a of None \<Rightarrow> False
         | Some caps \<Rightarrow> list_ex (\<lambda>c. MatchCapability (FullID (mc_pki M) c) required) caps)
        \<or> list_ex (\<lambda>i. MatchCapability i required) (cal_Capabilities a))"

section \<open>Tools and the protocol server\<close>

text \<open>A call as the protocol server hands it over: the tool, the raw arguments, and otherwise its own decoding of them, marshalled.\<close>

record tool_call =
  tcl_Tool :: string
  tcl_Raw :: bytes
  tcl_Arguments :: "(string + bytes) option"

datatype tool_outcome = ToolRefused string | ToolFailed string | ToolResult bytes

type_synonym tool_impl = "caller \<Rightarrow> (string \<times> json) list \<Rightarrow> string + bytes"

record mcp_state =
  ms_audited :: "audit_entry list"
  ms_reached :: "http_request list"
  ms_executed :: "(tool_spec \<times> caller \<times> bytes) list"

definition handle_arguments :: "tool_call \<Rightarrow> string + bytes" where
  "handle_arguments c = (if tcl_Raw c \<noteq> [] then Inr (tcl_Raw c) else case tcl_Arguments c of None \<Rightarrow> Inr [] | Some r \<Rightarrow> r)"

definition handle :: "mcp_env \<Rightarrow> tool_spec \<Rightarrow> tool_impl \<Rightarrow> caller option \<Rightarrow> tool_call \<Rightarrow> mcp_state \<Rightarrow> tool_outcome \<times> mcp_state" where
  "handle M spec impl ac c st =
     (case ac of None \<Rightarrow> (ToolRefused ''unauthenticated'', st) | Some a \<Rightarrow>
      if \<not> capsAllow M ac (ts_RequiredCapability spec) then (ToolRefused ''requires capability'', st)
      else case handle_arguments c of Inl e \<Rightarrow> (ToolRefused e, st) | Inr raw \<Rightarrow>
        case validateArgs M spec raw of Some e \<Rightarrow> (ToolRefused ''arguments'', st) | None \<Rightarrow>
          (case impl a (case arguments_of M raw of None \<Rightarrow> [] | Some args \<Rightarrow> args) of
             Inl e \<Rightarrow> ToolFailed e
           | Inr out \<Rightarrow> ToolResult out,
           st\<lparr>ms_executed := ms_executed st @ [(spec, a, raw)]\<rparr>))"

record mcp_server =
  mcs_reg :: registry
  mcs_tools :: "(string \<times> tool_spec \<times> tool_impl) list"
  mcs_audit :: bool
  mcs_TrustProxy :: bool

datatype mcp_error = NilRegistry | NoHandler string

fun bind_tools :: "(string \<times> tool_impl) list \<Rightarrow> tool_spec list \<Rightarrow> mcp_error + (string \<times> tool_spec \<times> tool_impl) list" where
  "bind_tools handlers [] = Inr []"
| "bind_tools handlers (spec # specs) =
     (case map_of handlers (ts_Name spec) of None \<Rightarrow> Inl (NoHandler (ts_Name spec)) | Some h \<Rightarrow>
      case bind_tools handlers specs of Inl e \<Rightarrow> Inl e | Inr ts \<Rightarrow> Inr ((ts_Name spec, spec, h) # ts))"

definition NewHandler :: "bool \<Rightarrow> bool \<Rightarrow> registry option \<Rightarrow> (string \<times> tool_impl) list \<Rightarrow> mcp_error + mcp_server" where
  "NewHandler audit trustProxy reg handlers =
     (case reg of None \<Rightarrow> Inl NilRegistry | Some r \<Rightarrow>
      case bind_tools handlers (reg_Tools r) of Inl e \<Rightarrow> Inl e
      | Inr tools \<Rightarrow> Inr \<lparr>mcs_reg = r, mcs_tools = tools, mcs_audit = audit, mcs_TrustProxy = trustProxy\<rparr>)"

text \<open>The protocol server: the calls it makes of a request, and its answer to their outcomes.\<close>

record protocol =
  prc_Calls :: "http_request \<Rightarrow> tool_call list"
  prc_Answer :: "http_request \<Rightarrow> tool_outcome list \<Rightarrow> http_response"

fun run_calls :: "mcp_env \<Rightarrow> mcp_server \<Rightarrow> caller option \<Rightarrow> tool_call list \<Rightarrow> mcp_state \<Rightarrow> tool_outcome list \<times> mcp_state" where
  "run_calls M S ac [] st = ([], st)"
| "run_calls M S ac (c # cs) st =
     (case map_of (mcs_tools S) (tcl_Tool c) of
        None \<Rightarrow> (case run_calls M S ac cs st of (os, st') \<Rightarrow> (ToolRefused ''unknown tool'' # os, st'))
      | Some (spec, impl) \<Rightarrow>
          (case handle M spec impl ac c st of (outcome, st1) \<Rightarrow>
           case run_calls M S ac cs st1 of (os, st') \<Rightarrow> (outcome # os, st')))"

definition run_protocol :: "mcp_env \<Rightarrow> mcp_server \<Rightarrow> protocol \<Rightarrow> caller option \<Rightarrow> http_request \<Rightarrow> mcp_state \<Rightarrow> http_response \<times> mcp_state" where
  "run_protocol M S T ac r st =
     (case run_calls M S ac (prc_Calls T r) (st\<lparr>ms_reached := ms_reached st @ [r]\<rparr>) of (os, st') \<Rightarrow> (prc_Answer T r os, st'))"

section \<open>Audit entries\<close>

definition mcp_clientIP :: "http_request \<Rightarrow> string" where
  "mcp_clientIP r =
     (case SplitHost (hr_RemoteAddr r) of Some h \<Rightarrow> h | None \<Rightarrow> if hr_RemoteAddr r \<noteq> [] then hr_RemoteAddr r else ''unknown'')"

definition auditStart :: "mcp_env \<Rightarrow> caller option \<Rightarrow> http_request \<Rightarrow> audit_entry" where
  "auditStart M ac r =
     (let cert = (case ac of None \<Rightarrow> None | Some a \<Rightarrow> cal_ClientCert a);
          e = (NewAuditEntryFromConn (mc_pki M) (mc_crypto M) (mc_OIDAIC M) (mcp_clientIP r) ''mcp'' ''mcp'' cert)
                \<lparr>ent_Action := [], ent_Target := ''mcp''\<rparr>
      in case ac of None \<Rightarrow> e | Some a \<Rightarrow>
           e\<lparr>ent_AgentId := cal_AgentID a, ent_PrincipalUid := cal_Principal a, ent_Capabilities := cal_Capabilities a,
             ent_DaHash := DAHash (mc_pki M) (mc_crypto M) cert, ent_AICFingerprint := AICFingerprint (mc_crypto M) (mc_OIDAIC M) cert\<rparr>)"

definition replace_char :: "char \<Rightarrow> char \<Rightarrow> string \<Rightarrow> string" where
  "replace_char a b s = map (\<lambda>c. if c = a then b else c) s"

definition actionForMethod :: "string \<Rightarrow> string" where
  "actionForMethod meth =
     (if meth = ''initialize'' then ''mcp_initialize'' else if meth = ''tools/list'' then ''mcp_tools_list''
      else if meth = ''tools/call'' then ''mcp_tools_call''
      else ''mcp_'' @ replace_char CHR ''.'' CHR ''_'' (replace_char CHR ''/'' CHR ''_'' meth))"

definition targetID :: "mcp_env \<Rightarrow> string \<Rightarrow> string \<Rightarrow> bytes \<Rightarrow> string" where
  "targetID M tool meth args =
     (if args = [] then (if tool \<noteq> [] then tool else meth)
      else let keys = (case arguments_of M args of None \<Rightarrow> [] | Some vs \<Rightarrow> sort (map fst vs)) in
        tool @ '' args{'' @ go_Join keys '','' @ ''} sha256:'' @ EncodeToString (Sum256 (mc_crypto M) args) @ '';bytes:'' @ dec_nat (length args))"

text \<open>\<open>dur\<close> is the rounded duration of the request.\<close>

definition audit_decision ::
    "mcp_env \<Rightarrow> mcp_server \<Rightarrow> audit_entry \<Rightarrow> string \<Rightarrow> string \<Rightarrow> string \<Rightarrow> string option \<Rightarrow> bytes \<Rightarrow> mcp_state \<Rightarrow> mcp_state" where
  "audit_decision M S base dur meth tool reason args st =
     (if \<not> mcs_audit S then st
      else let e = base\<lparr>ent_Action := actionForMethod meth, ent_TargetID := targetID M tool meth args, ent_Duration := dur\<rparr> in
        st\<lparr>ms_audited := ms_audited st @
          [case reason of None \<Rightarrow> e\<lparr>ent_Decision := ''allow'', ent_Level := ''INFO''\<rparr>
           | Some why \<Rightarrow> e\<lparr>ent_Decision := ''deny'', ent_Level := ''WARN'', ent_DenyReason := why\<rparr>]\<rparr>)"

section \<open>Enforcement\<close>

datatype mcp_answer = ReadError | BodyTooLarge | InvalidParams bytes string | Protocol http_response

definition mcp_body_limit :: nat where "mcp_body_limit = 8388608"

text \<open>A string member of an object whose decoding error is ignored: members of another type are passed over.\<close>

fun lenient_string :: "string \<Rightarrow> (string \<times> json) list \<Rightarrow> string \<Rightarrow> string" where
  "lenient_string name [] v = v"
| "lenient_string name ((k, j) # ms) v =
     lenient_string name ms (if ToLower k = ToLower name then (case j of JStr s \<Rightarrow> s | _ \<Rightarrow> v) else v)"

definition call_name :: "mcp_env \<Rightarrow> bytes \<Rightarrow> string" where
  "call_name M params =
     (case mc_Parse M params of None \<Rightarrow> [] | Some j \<Rightarrow> (case struct_members j of None \<Rightarrow> [] | Some ms \<Rightarrow> lenient_string ''name'' ms []))"

datatype call_check = UnknownTool | MissingToolCapability tool_spec | BadArguments tool_spec arg_error | CallAllowed tool_spec

definition check_call :: "mcp_env \<Rightarrow> mcp_server \<Rightarrow> caller option \<Rightarrow> string \<Rightarrow> bytes \<Rightarrow> call_check" where
  "check_call M S ac name args =
     (case Find_tool (mcs_reg S) name of None \<Rightarrow> UnknownTool | Some spec \<Rightarrow>
      if \<not> capsAllow M ac (ts_RequiredCapability spec) then MissingToolCapability spec
      else case validateArgs M spec args of Some e \<Rightarrow> BadArguments spec e | None \<Rightarrow> CallAllowed spec)"

text \<open>\<open>say\<close> renders the reason of a refusal.\<close>

definition serveMessage ::
    "mcp_env \<Rightarrow> mcp_server \<Rightarrow> protocol \<Rightarrow> (string \<Rightarrow> call_check \<Rightarrow> string) \<Rightarrow> string \<Rightarrow> caller option \<Rightarrow> http_request \<Rightarrow> bytes \<Rightarrow> string \<Rightarrow> bytes
     \<Rightarrow> audit_entry \<Rightarrow> mcp_state \<Rightarrow> mcp_answer \<times> mcp_state" where
  "serveMessage M S T say dur ac r i meth params base st =
     (if meth \<noteq> ''tools/call'' then
        (case run_protocol M S T ac r st of (rsp, st1) \<Rightarrow> (Protocol rsp, audit_decision M S base dur meth [] None [] st1))
      else let name = call_name M params; args = (if mc_Parse M params = None then [] else mc_Field M params ''arguments'') in
        case check_call M S ac name args of
          CallAllowed spec \<Rightarrow>
            (case run_protocol M S T ac r st of (rsp, st1) \<Rightarrow> (Protocol rsp, audit_decision M S base dur ''tools/call'' (ts_Name spec) None args st1))
        | refusal \<Rightarrow> (let msg = say name refusal in
            (InvalidParams i msg, audit_decision M S base dur ''tools/call'' name (Some msg) args st)))"

definition ServeHTTP ::
    "mcp_env \<Rightarrow> mcp_server \<Rightarrow> protocol \<Rightarrow> (string \<Rightarrow> call_check \<Rightarrow> string) \<Rightarrow> string \<Rightarrow> bool \<Rightarrow> auth_context option \<Rightarrow> http_request \<Rightarrow> mcp_state
     \<Rightarrow> mcp_answer \<times> mcp_state" where
  "ServeHTTP M S T say dur readFails ctx r0 st =
     (let ac = (if mcs_TrustProxy S then map_option header_caller (AuthContextFromHeaders (hr_Header r0)) else map_option context_caller ctx);
          body = take mcp_body_limit (case hr_Body r0 of None \<Rightarrow> [] | Some b \<Rightarrow> b)
      in if readFails then (ReadError, st)
         else if length body \<ge> mcp_body_limit then (BodyTooLarge, st)
         else let r = r0\<lparr>hr_Body := Some body\<rparr>; base = auditStart M ac r;
                  members = (if body = [] then None else case mc_Parse M body of None \<Rightarrow> None | Some j \<Rightarrow> struct_members j);
                  meth = (case members of None \<Rightarrow> None | Some ms \<Rightarrow> decode_field ''method'' decode_string ms [])
              in case meth of
                   Some (c # cs) \<Rightarrow> serveMessage M S T say dur ac r (mc_Field M body ''id'') (c # cs) (mc_Field M body ''params'') base st
                 | _ \<Rightarrow> (case run_protocol M S T ac r st of (rsp, st1) \<Rightarrow> (Protocol rsp, st1)))"

section \<open>The manifest is well-formed\<close>

definition tool_ok :: "mcp_env \<Rightarrow> tool_spec \<Rightarrow> bool" where
  "tool_ok M t \<longleftrightarrow> ts_Name t \<noteq> [] \<and> ts_RequiredCapability t \<noteq> [] \<and> mc_Parse M (ts_InputSchema t) \<noteq> None
     \<and> (\<forall>c\<in>set (ts_ParameterConstraints t). bar_Name c \<noteq> [] \<and> (bar_Pattern c \<noteq> [] \<longrightarrow> bar_patternRe c \<noteq> None))"

definition registry_wf :: "mcp_env \<Rightarrow> registry \<Rightarrow> bool" where
  "registry_wf M r \<longleftrightarrow> reg_Version r \<ge> 1 \<and> reg_Tools r \<noteq> [] \<and> distinct (map ts_Name (reg_Tools r)) \<and> (\<forall>t\<in>set (reg_Tools r). tool_ok M t)
     \<and> (\<forall>name spec. Find_tool r name = Some spec \<longleftrightarrow> spec \<in> set (reg_Tools r) \<and> ts_Name spec = name)"

lemma compile_barriers_Inr:
  "compile_barriers M tool i cs = Inr cs' \<Longrightarrow> \<forall>c\<in>set cs'. bar_Name c \<noteq> [] \<and> (bar_Pattern c \<noteq> [] \<longrightarrow> bar_patternRe c \<noteq> None)"
proof (induction cs arbitrary: i cs')
  case (Cons c cs)
  then show ?case by (auto split: if_splits sum.splits)
qed simp

lemma rebuild_tool_Inr:
  assumes "rebuild_tool M i known spec = Inr spec'"
  shows "tool_ok M spec' \<and> ts_Name spec' = ts_Name spec \<and> ts_Name spec \<notin> set known"
  using assms compile_barriers_Inr by (fastforce simp: rebuild_tool_def tool_ok_def Let_def split: if_splits sum.splits)

lemma rebuild_loop_Inr:
  assumes "rebuild_loop M i acc specs = Inr tools" "\<forall>t\<in>set acc. tool_ok M t" "distinct (map ts_Name acc)"
  shows "(\<forall>t\<in>set tools. tool_ok M t) \<and> distinct (map ts_Name tools) \<and> map ts_Name tools = map ts_Name acc @ map ts_Name specs"
  using assms
proof (induction specs arbitrary: i acc)
  case (Cons spec specs)
  then obtain spec' where r: "rebuild_tool M i (map ts_Name acc) spec = Inr spec'" "rebuild_loop M (Suc i) (acc @ [spec']) specs = Inr tools"
    by (auto split: sum.splits)
  note ok = rebuild_tool_Inr[OF r(1)]
  have "\<forall>t\<in>set (acc @ [spec']). tool_ok M t" "distinct (map ts_Name (acc @ [spec']))" using ok Cons.prems(2,3) by simp_all
  note built = Cons.IH[OF r(2) this]
  have "map ts_Name tools = map ts_Name acc @ map ts_Name (spec # specs)" using conjunct2[OF conjunct2[OF built]] ok by simp
  then show ?case using built by blast
qed auto

lemma loaded_wf:
  assumes "LoadJSON M decoded = Inr r"
  shows "registry_wf M r"
proof -
  from assms obtain r0 tools where r: "rebuild_loop M 0 [] (reg_Tools r0) = Inr tools" "reg_Version r0 \<ge> 1" "reg_Tools r0 \<noteq> []"
      "r = r0\<lparr>reg_Tools := tools, reg_byName := map (\<lambda>t. (ts_Name t, t)) tools\<rparr>"
    by (auto simp: LoadJSON_def rebuild_def split: sum.splits if_splits)
  have ok: "\<forall>t\<in>set tools. tool_ok M t" "distinct (map ts_Name tools)" "map ts_Name tools = map ts_Name (reg_Tools r0)"
    using rebuild_loop_Inr[OF r(1), simplified] by blast+
  have "distinct (map fst (map (\<lambda>t. (ts_Name t, t)) tools))" using ok(2) by (simp add: comp_def)
  then have "map_of (map (\<lambda>t. (ts_Name t, t)) tools) name = Some spec \<longleftrightarrow> spec \<in> set tools \<and> ts_Name spec = name" for name spec
    by (auto simp: map_of_eq_Some_iff)
  moreover have "tools \<noteq> []" using ok(3) r(3) by auto
  ultimately show ?thesis using ok r(2,4) by (simp add: registry_wf_def Find_tool_def)
qed

text \<open>C14. A manifest that loads is well-formed: its tools have distinct names, a schema that is JSON, a required capability and
  named barriers with compiled patterns, and the lookup by name finds exactly the tools of the list.\<close>

theorem manifest_wf:
  assumes "LoadJSON M decoded = Inr r"
  shows "registry_wf M r"
  by (rule loaded_wf[OF assms])

section \<open>Tools run only when allowed\<close>

definition execution_ok :: "mcp_env \<Rightarrow> mcp_server \<Rightarrow> caller option \<Rightarrow> tool_spec \<times> caller \<times> bytes \<Rightarrow> bool" where
  "execution_ok M S ac x \<longleftrightarrow>
     (case x of (spec, a, raw) \<Rightarrow> ac = Some a \<and> spec \<in> (fst \<circ> snd) ` set (mcs_tools S)
        \<and> capsAllow M (Some a) (ts_RequiredCapability spec) \<and> validateArgs M spec raw = None)"

lemma handle_executed:
  assumes "handle M spec impl ac c st = (outcome, st')" "spec \<in> (fst \<circ> snd) ` set (mcs_tools S)"
  shows "ms_audited st' = ms_audited st \<and> ms_reached st' = ms_reached st
    \<and> (ms_executed st' = ms_executed st \<or> (\<exists>x. ms_executed st' = ms_executed st @ [x] \<and> execution_ok M S ac x))"
  using assms(1)
  by (auto simp: handle_def execution_ok_def assms(2)[unfolded comp_def] split: option.splits if_splits sum.splits)

lemma run_calls_executed:
  "run_calls M S ac cs st = (os, st') \<Longrightarrow>
   ms_audited st' = ms_audited st \<and> ms_reached st' = ms_reached st
     \<and> (\<exists>xs. ms_executed st' = ms_executed st @ xs \<and> (\<forall>x\<in>set xs. execution_ok M S ac x))"
proof (induction cs arbitrary: st os)
  case (Cons c cs)
  show ?case
  proof (cases "map_of (mcs_tools S) (tcl_Tool c)")
    case None
    then show ?thesis using Cons by (auto split: prod.splits)
  next
    case (Some si)
    obtain spec impl where si: "si = (spec, impl)" by (cases si)
    obtain o1 st1 os1 where h: "handle M spec impl ac c st = (o1, st1)" "run_calls M S ac cs st1 = (os1, st')"
      using Cons.prems Some si by (auto split: prod.splits)
    have "spec \<in> (fst \<circ> snd) ` set (mcs_tools S)" using Some si by (force dest: map_of_SomeD)
    from handle_executed[OF h(1) this] Cons.IH[OF h(2)] show ?thesis
    proof (elim conjE disjE exE)
      fix xs x assume "ms_executed st1 = ms_executed st @ [x]" "execution_ok M S ac x" "ms_executed st' = ms_executed st1 @ xs"
        "\<forall>x\<in>set xs. execution_ok M S ac x" "ms_audited st' = ms_audited st1" "ms_reached st' = ms_reached st1"
        "ms_audited st1 = ms_audited st" "ms_reached st1 = ms_reached st"
      then show ?thesis by (intro conjI exI[of _ "x # xs"]) auto
    qed auto
  qed
qed simp

lemma run_protocol_executed:
  assumes "run_protocol M S T ac r st = (rsp, st')"
  shows "ms_audited st' = ms_audited st \<and> ms_reached st' = ms_reached st @ [r]
    \<and> (\<exists>xs. ms_executed st' = ms_executed st @ xs \<and> (\<forall>x\<in>set xs. execution_ok M S ac x))"
proof -
  obtain os where "run_calls M S ac (prc_Calls T r) (st\<lparr>ms_reached := ms_reached st @ [r]\<rparr>) = (os, st')"
    using assms by (auto simp: run_protocol_def split: prod.splits)
  from run_calls_executed[OF this] show ?thesis by simp
qed

lemma audit_decision_frame [simp]:
  "ms_executed (audit_decision M S base dur meth tool reason args st) = ms_executed st"
  "ms_reached (audit_decision M S base dur meth tool reason args st) = ms_reached st"
  by (simp_all add: audit_decision_def Let_def)

definition mcp_caller :: "mcp_server \<Rightarrow> auth_context option \<Rightarrow> http_request \<Rightarrow> caller option" where
  "mcp_caller S ctx r =
     (if mcs_TrustProxy S then map_option header_caller (AuthContextFromHeaders (hr_Header r)) else map_option context_caller ctx)"

text \<open>A request is answered before anything ran, reaches the protocol server, or is refused.\<close>

lemma serveMessage_cases:
  assumes "serveMessage M S T say dur ac r i meth params base st = (answer, st')"
  obtains (passed) rsp st1 tool args m where "run_protocol M S T ac r st = (rsp, st1)" "answer = Protocol rsp"
      "st' = audit_decision M S base dur m tool None args st1" "meth = ''tools/call'' \<longrightarrow> (\<exists>spec. check_call M S ac (call_name M params) args = CallAllowed spec)"
  | (refused) msg args where "meth = ''tools/call''" "answer = InvalidParams i msg"
      "\<forall>spec. check_call M S ac (call_name M params) args \<noteq> CallAllowed spec"
      "st' = audit_decision M S base dur ''tools/call'' (call_name M params) (Some msg) args st"
proof -
  let ?args = "if mc_Parse M params = None then [] else mc_Field M params ''arguments''"
  obtain rsp st1 where run: "run_protocol M S T ac r st = (rsp, st1)" by fastforce
  show thesis
  proof (cases "meth = ''tools/call''")
    case False
    then show ?thesis using assms run by (intro that(1)[of rsp st1 meth "[]" "[]"]) (auto simp: serveMessage_def)
  next
    case call: True
    show ?thesis
    proof (cases "check_call M S ac (call_name M params) ?args")
      case (CallAllowed spec)
      then show ?thesis using assms run call
        by (intro that(1)[of rsp st1 "''tools/call''" "ts_Name spec" ?args]) (auto simp: serveMessage_def Let_def)
    qed (use assms call in \<open>intro that(2)[of "say (call_name M params) (check_call M S ac (call_name M params) ?args)" ?args];
         auto simp: serveMessage_def Let_def\<close>)+
  qed
qed

lemma ServeHTTP_cases:
  assumes "ServeHTTP M S T say dur fails ctx r0 st = (answer, st')"
  obtains (none) "st' = st" "answer = ReadError \<or> answer = BodyTooLarge"
  | (passed) r rsp where "run_protocol M S T (mcp_caller S ctx r0) r st = (rsp, st')" "answer = Protocol rsp"
  | (message) r i meth params base where
      "serveMessage M S T say dur (mcp_caller S ctx r0) r i meth params base st = (answer, st')" "base = auditStart M (mcp_caller S ctx r0) r"
proof -
  let ?body = "take mcp_body_limit (case hr_Body r0 of None \<Rightarrow> [] | Some b \<Rightarrow> b)"
  let ?r = "r0\<lparr>hr_Body := Some ?body\<rparr>"
  show thesis
  proof (cases "fails \<or> length ?body \<ge> mcp_body_limit")
    case True
    then show ?thesis using assms by (intro that(1)) (auto simp: ServeHTTP_def Let_def split: if_splits)
  next
    case False
    let ?meth = "case (if ?body = [] then None else case mc_Parse M ?body of None \<Rightarrow> None | Some j \<Rightarrow> struct_members j) of
        None \<Rightarrow> None | Some ms \<Rightarrow> decode_field ''method'' decode_string ms []"
    have eq: "ServeHTTP M S T say dur fails ctx r0 st = (case ?meth of
        Some (c # cs) \<Rightarrow> serveMessage M S T say dur (mcp_caller S ctx r0) ?r (mc_Field M ?body ''id'') (c # cs) (mc_Field M ?body ''params'')
          (auditStart M (mcp_caller S ctx r0) ?r) st
      | _ \<Rightarrow> (case run_protocol M S T (mcp_caller S ctx r0) ?r st of (rsp, st1) \<Rightarrow> (Protocol rsp, st1)))"
      using False unfolding ServeHTTP_def Let_def mcp_caller_def[symmetric] by simp
    obtain rsp st1 where run: "run_protocol M S T (mcp_caller S ctx r0) ?r st = (rsp, st1)" by fastforce
    show ?thesis
    proof (cases "?meth = None \<or> ?meth = Some []")
      case True
      then have "ServeHTTP M S T say dur fails ctx r0 st = (Protocol rsp, st1)" unfolding eq using run by (elim disjE) (simp_all only: option.case list.case prod.case)
      then show ?thesis using assms run by (intro that(2)[of ?r rsp]) auto
    next
      case m: False
      then obtain c cs where "?meth = Some (c # cs)" by (metis list.exhaust option.exhaust)
      then show ?thesis using assms unfolding eq by (intro that(3)) (simp_all only: option.case list.case)
    qed
  qed
qed

lemma bind_tools_specs: "bind_tools handlers specs = Inr ts \<Longrightarrow> map (fst \<circ> snd) ts = specs"
  by (induction specs arbitrary: ts) (auto split: option.splits sum.splits)

lemma NewHandler_tools:
  assumes "NewHandler audit trust (Some reg) handlers = Inr S"
  shows "(fst \<circ> snd) ` set (mcs_tools S) = set (reg_Tools reg) \<and> mcs_reg S = reg"
proof -
  obtain ts where ts: "bind_tools handlers (reg_Tools reg) = Inr ts"
      "S = \<lparr>mcs_reg = reg, mcs_tools = ts, mcs_audit = audit, mcs_TrustProxy = trust\<rparr>"
    using assms by (auto simp: NewHandler_def split: sum.splits)
  then show ?thesis using arg_cong[OF bind_tools_specs[OF ts(1)], of set] by simp
qed

lemma executions_gated:
  assumes "NewHandler audit trust (Some reg) handlers = Inr S"
    and "ServeHTTP M S T say dur fails ctx r0 st = (answer, st')"
  shows "\<exists>xs. ms_executed st' = ms_executed st @ xs
    \<and> (\<forall>(spec, a, raw)\<in>set xs. mcp_caller S ctx r0 = Some a \<and> spec \<in> set (reg_Tools reg)
         \<and> capsAllow M (Some a) (ts_RequiredCapability spec) \<and> validateArgs M spec raw = None)"
proof -
  have "\<exists>xs. ms_executed st' = ms_executed st @ xs \<and> (\<forall>x\<in>set xs. execution_ok M S (mcp_caller S ctx r0) x)"
    using assms(2)
  proof (cases rule: ServeHTTP_cases)
    case (passed r rsp)
    then show ?thesis using run_protocol_executed by blast
  next
    case (message r i meth params base)
    from message(1) show ?thesis
    proof (cases rule: serveMessage_cases)
      case (passed rsp st1 tool args m)
      then show ?thesis using run_protocol_executed[OF passed(1)] by simp
    qed simp
  qed simp
  then show ?thesis unfolding execution_ok_def conjunct1[OF NewHandler_tools[OF assms(1)]] by simp
qed

text \<open>C12. Tools run only when allowed, whatever the protocol server makes of a request: every implementation that a request runs belongs to a tool of the
  manifest, is run for the identity of this request, and that identity holds the capability of the tool and the
  arguments pass its barriers.\<close>

theorem tools_run_gated:
  assumes "NewHandler audit trust (Some reg) handlers = Inr S"
    and "ServeHTTP M S T say dur fails ctx r0 st = (answer, st')"
  shows "\<exists>xs. ms_executed st' = ms_executed st @ xs
    \<and> (\<forall>(spec, a, raw)\<in>set xs. mcp_caller S ctx r0 = Some a \<and> spec \<in> set (reg_Tools reg)
         \<and> capsAllow M (Some a) (ts_RequiredCapability spec) \<and> validateArgs M spec raw = None)"
  by (rule executions_gated[OF assms])

section \<open>Refused calls\<close>

lemma auditStart_identity:
  "ent_PrincipalUid (auditStart M (Some a) r) = cal_Principal a \<and> ent_AgentId (auditStart M (Some a) r) = cal_AgentID a"
  by (simp add: auditStart_def Let_def)

lemma ServeHTTP_message:
  assumes "hr_Body r0 = Some body" "body \<noteq> []" "length body < mcp_body_limit" "mc_Parse M body = Some (JObj ms)"
    and "decode_field ''method'' decode_string ms [] = Some meth" "meth \<noteq> []"
  shows "ServeHTTP M S T say dur False ctx r0 st =
    serveMessage M S T say dur (mcp_caller S ctx r0) (r0\<lparr>hr_Body := Some body\<rparr>) (mc_Field M body ''id'') meth (mc_Field M body ''params'')
      (auditStart M (mcp_caller S ctx r0) (r0\<lparr>hr_Body := Some body\<rparr>)) st"
proof -
  obtain c cs where "meth = c # cs" using assms(6) by (cases meth) auto
  then show ?thesis using assms unfolding ServeHTTP_def Let_def mcp_caller_def[symmetric] by (simp add: struct_members_def)
qed

text \<open>C13. A refused call is not delivered: a call of a tool that is unknown, of a tool whose capability the caller lacks, or with arguments that miss a
  barrier is answered with the invalid-parameters error, reaches neither the protocol server nor a tool, and is recorded once, as a denial with
  its reason and the caller, when auditing is on.\<close>

theorem denied_call_not_delivered:
  assumes "hr_Body r0 = Some body" "body \<noteq> []" "length body < mcp_body_limit" "mc_Parse M body = Some (JObj ms)"
    and "decode_field ''method'' decode_string ms [] = Some ''tools/call''"
    and "mc_Field M body ''params'' = params" "mc_Parse M params \<noteq> None"
    and refused: "\<nexists>spec. Find_tool (mcs_reg S) (call_name M params) = Some spec
        \<and> capsAllow M (mcp_caller S ctx r0) (ts_RequiredCapability spec) \<and> validateArgs M spec (mc_Field M params ''arguments'') = None"
    and "ServeHTTP M S T say dur False ctx r0 st = (answer, st')"
  shows "\<exists>msg. answer = InvalidParams (mc_Field M body ''id'') msg
    \<and> ms_reached st' = ms_reached st \<and> ms_executed st' = ms_executed st
    \<and> (if mcs_audit S
      then \<exists>e. ms_audited st' = ms_audited st @ [e] \<and> ent_Decision e = ''deny'' \<and> ent_Level e = ''WARN''
        \<and> ent_Action e = ''mcp_tools_call'' \<and> ent_DenyReason e = msg
        \<and> (\<forall>a. mcp_caller S ctx r0 = Some a \<longrightarrow> ent_PrincipalUid e = cal_Principal a \<and> ent_AgentId e = cal_AgentID a)
      else ms_audited st' = ms_audited st)"
proof -
  let ?base = "auditStart M (mcp_caller S ctx r0) (r0\<lparr>hr_Body := Some body\<rparr>)"
  obtain refusal where check: "check_call M S (mcp_caller S ctx r0) (call_name M params) (mc_Field M params ''arguments'') = refusal" by blast
  then have "\<forall>spec. refusal \<noteq> CallAllowed spec" using refused by (auto simp: check_call_def split: option.splits if_splits)
  note check = check this
  let ?msg = "say (call_name M params) refusal"
  obtain j where j: "mc_Parse M params = Some j" using assms(7) by blast
  have "(answer, st') = serveMessage M S T say dur (mcp_caller S ctx r0) (r0\<lparr>hr_Body := Some body\<rparr>) (mc_Field M body ''id'') ''tools/call'' params ?base st"
    using ServeHTTP_message[OF assms(1-5)] assms(6,9) by simp
  also have "\<dots> = (InvalidParams (mc_Field M body ''id'') ?msg,
      audit_decision M S ?base dur ''tools/call'' (call_name M params) (Some ?msg) (mc_Field M params ''arguments'') st)"
    using check j by (cases refusal) (simp_all add: serveMessage_def Let_def)
  finally have eq: "answer = InvalidParams (mc_Field M body ''id'') ?msg"
      "st' = audit_decision M S ?base dur ''tools/call'' (call_name M params) (Some ?msg) (mc_Field M params ''arguments'') st"
    by simp_all
  show ?thesis by (auto simp: eq audit_decision_def Let_def auditStart_identity actionForMethod_def)
qed

text \<open>A body that is no JSON-RPC object, a batch for one, reaches the protocol server and leaves no entry.\<close>

lemma batch_unaudited:
  assumes "hr_Body r0 = Some body" "length body < mcp_body_limit" "mc_Parse M body = Some (JArr js)"
    and "ServeHTTP M S T say dur False ctx r0 st = (answer, st')"
  shows "ms_audited st' = ms_audited st \<and> ms_reached st' = ms_reached st @ [r0]"
proof -
  have r: "r0\<lparr>hr_Body := Some body\<rparr> = r0" using assms(1) by (cases r0) simp
  obtain rsp st1 where run: "run_protocol M S T (mcp_caller S ctx r0) (r0\<lparr>hr_Body := Some body\<rparr>) st = (rsp, st1)" by fastforce
  then have "st' = st1"
    using assms unfolding ServeHTTP_def Let_def mcp_caller_def[symmetric] by (simp add: struct_members_def split: if_splits)
  then show ?thesis using run_protocol_executed[OF run[unfolded r]] by simp
qed

section \<open>The barriers\<close>

definition within_length :: "barrier \<Rightarrow> int \<Rightarrow> bool" where
  "within_length c n \<longleftrightarrow> (\<forall>m. bar_MinLength c = Some m \<longrightarrow> m \<le> n) \<and> (\<forall>m. bar_MaxLength c = Some m \<longrightarrow> n \<le> m)"

text \<open>What a barrier demands of a value: of a number its bounds, of a string its length, the enumeration and the pattern, of an array its
  length. A null is both the empty string and the empty array.\<close>

definition barrier_holds :: "mcp_env \<Rightarrow> barrier \<Rightarrow> json \<Rightarrow> bool" where
  "barrier_holds M c v \<longleftrightarrow>
     (\<forall>x. jsonNumber M v = Some x \<longrightarrow> (\<forall>m. bar_Min c = Some m \<longrightarrow> m \<le> x) \<and> (\<forall>m. bar_Max c = Some m \<longrightarrow> x \<le> m))
     \<and> (\<forall>s. decode_string v [] = Some s \<longrightarrow> within_length c (rune_count s) \<and> (bar_Enum c \<noteq> [] \<longrightarrow> s \<in> set (bar_Enum c))
          \<and> (\<forall>re. bar_Pattern c \<noteq> [] \<and> bar_patternRe c = Some re \<longrightarrow> re s))
     \<and> (\<forall>n. array_length v = Some n \<longrightarrow> within_length c n)"

lemma length_error_None: "length_error c n = None \<longleftrightarrow> within_length c n"
  by (auto simp: length_error_def within_length_def split: option.splits)

lemma checkNumeric_None:
  "checkNumeric M c v = None \<longleftrightarrow>
   (\<forall>x. jsonNumber M v = Some x \<longrightarrow> (\<forall>m. bar_Min c = Some m \<longrightarrow> m \<le> x) \<and> (\<forall>m. bar_Max c = Some m \<longrightarrow> x \<le> m))"
  by (auto simp: checkNumeric_def split: option.splits)

lemma checkString_None:
  "checkString c v = None \<longleftrightarrow>
   (\<forall>s. decode_string v [] = Some s \<longrightarrow> within_length c (rune_count s) \<and> (bar_Enum c \<noteq> [] \<longrightarrow> s \<in> set (bar_Enum c))
      \<and> (\<forall>re. bar_Pattern c \<noteq> [] \<and> bar_patternRe c = Some re \<longrightarrow> re s))"
proof (cases "decode_string v []")
  case (Some s)
  have "within_length c n" if "bar_MinLength c = None" "bar_MaxLength c = None" for n using that by (simp add: within_length_def)
  then show ?thesis using Some length_error_None[of c "rune_count s"]
    by (cases "length_error c (rune_count s)"; cases "bar_patternRe c") (auto simp: checkString_def)
qed (simp add: checkString_def)

lemma checkArray_None: "checkArray c v = None \<longleftrightarrow> (\<forall>n. array_length v = Some n \<longrightarrow> within_length c n)"
  by (cases "array_length v") (auto simp: checkArray_def length_error_None within_length_def)

lemma checkConstraint_None: "checkConstraint M c v = None \<longleftrightarrow> barrier_holds M c v"
  unfolding barrier_holds_def checkNumeric_None[symmetric] checkString_None[symmetric] checkArray_None[symmetric]
  by (simp add: checkConstraint_def split: option.splits)

lemma check_barriers_None:
  "check_barriers M args cs = None \<longleftrightarrow> (\<forall>c\<in>set cs. \<forall>v. map_of args (bar_Name c) = Some v \<longrightarrow> barrier_holds M c v)"
proof (induction cs)
  case (Cons c cs)
  then show ?case using checkConstraint_None[of M c] by (auto split: option.splits)
qed simp

text \<open>Arguments pass exactly when they are an object that has every member the schema requires and whose members meet the
  barriers of their names.\<close>

lemma barriers_exact:
  "validateArgs M spec raw = None \<longleftrightarrow>
   raw \<noteq> [] \<and> raw \<noteq> ''null'' \<and> (\<exists>args required. arguments_of M raw = Some args \<and> requiredFields M (ts_InputSchema spec) = Some required
     \<and> set required \<subseteq> fst ` set args
     \<and> (\<forall>c\<in>set (ts_ParameterConstraints spec). \<forall>v. map_of args (bar_Name c) = Some v \<longrightarrow> barrier_holds M c v))"
  by (auto simp: validateArgs_def check_barriers_None find_None_iff find_Some_iff split: option.splits if_splits)

text \<open>A number literal outside the range of a 64-bit float is no number to the barriers.\<close>

lemma overflow_passes_bounds:
  assumes "mc_Float M v = None"
  shows "checkNumeric M c v = None"
  using assms by (cases v) (simp_all add: checkNumeric_None jsonNumber_def)

text \<open>Non-vacuity.\<close>

definition example_limit :: barrier where
  "example_limit = \<lparr>bar_Name = ''amount'', bar_Min = Some 0, bar_Max = Some 100, bar_MinLength = None, bar_MaxLength = None, bar_Enum = [],
     bar_Pattern = [], bar_patternRe = None\<rparr>"

definition example_tool :: tool_spec where
  "example_tool = \<lparr>ts_Name = ''pay'', ts_Description = [], ts_InputSchema = ''S'', ts_RequiredCapability = ''pay:*'',
     ts_ParameterConstraints = [example_limit]\<rparr>"

definition example_mcp_env :: mcp_env where
  "example_mcp_env = \<lparr>
     mc_Parse = (\<lambda>b. if b = ''S'' then Some (JObj [(''required'', JArr [JStr ''amount''])])
        else if b = ''A'' then Some (JObj [(''amount'', JNum 7)]) else if b = ''B'' then Some (JObj [(''amount'', JNum 700)])
        else if b = ''P'' then Some (JObj [(''name'', JStr ''pay''), (''arguments'', JObj [(''amount'', JNum 700)])])
        else if b = ''M'' then Some (JObj [(''method'', JStr ''tools/call'')]) else None),
     mc_Field = (\<lambda>b n. if b = ''M'' \<and> n = ''params'' then ''P'' else if b = ''P'' \<and> n = ''arguments'' then ''B'' else ''1''),
     mc_Compile = (\<lambda>p. Inl ''none''),
     mc_Float = (\<lambda>j. case j of JNum n \<Rightarrow> Some (of_int n) | _ \<Rightarrow> None),
     mc_pki = example_pki, mc_crypto = example_crypto, mc_OIDAIC = []\<rparr>"

definition example_manifest :: registry where
  "example_manifest = \<lparr>reg_Version = 1, reg_Tools = [example_tool], reg_byName = []\<rparr>"

definition example_registry :: registry where
  "example_registry = example_manifest\<lparr>reg_byName := [(''pay'', example_tool)]\<rparr>"

definition example_mcp_server :: mcp_server where
  "example_mcp_server = \<lparr>mcs_reg = example_registry, mcs_tools = [(''pay'', example_tool, \<lambda>a args. Inr ''paid'')], mcs_audit = True, mcs_TrustProxy = True\<rparr>"

definition example_mcp_request :: "bytes \<Rightarrow> http_request" where
  "example_mcp_request b = \<lparr>hr_Method = ''POST'', hr_Path = ''/mcp'', hr_RawQuery = [],
     hr_Header = [(''X-Aic-Agent-Id'', [''agent'']), (''X-Aic-Capabilities-Full'', [''pay:send''])],
     hr_RemoteAddr = ''10.0.0.1:1'', hr_TLS = None, hr_Body = Some b\<rparr>"

definition example_protocol :: "bytes \<Rightarrow> protocol" where
  "example_protocol args = \<lparr>prc_Calls = (\<lambda>r. [\<lparr>tcl_Tool = ''pay'', tcl_Raw = args, tcl_Arguments = None\<rparr>]),
     prc_Answer = (\<lambda>r os. \<lparr>rsp_Status = 200, rsp_Headers = [], rsp_Body = []\<rparr>)\<rparr>"

definition empty_mcp_state :: mcp_state where
  "empty_mcp_state = \<lparr>ms_audited = [], ms_reached = [], ms_executed = []\<rparr>"

lemma example_mcp_loads: "LoadJSON example_mcp_env (Inr example_manifest) = Inr example_registry"
  by (simp add: LoadJSON_def rebuild_def rebuild_tool_def example_manifest_def example_registry_def example_tool_def example_limit_def
      example_mcp_env_def TrimSpace_def isSpace_def Let_def)

lemma example_mcp_bound: "NewHandler True True (Some example_registry) [(''pay'', \<lambda>a args. Inr ''paid'')] = Inr example_mcp_server"
  by (simp add: NewHandler_def example_registry_def example_manifest_def example_tool_def example_mcp_server_def)

definition example_headers :: header_identity where
  "example_headers = \<lparr>hi_Principal = [], hi_AgentID = ''agent'', hi_Capabilities = [''pay:send''], hi_AICCapabilities = [header_capability ''pay:send'']\<rparr>"

lemma example_mcp_caller:
  "mcp_caller example_mcp_server None (example_mcp_request b) = Some (header_caller example_headers)"
proof -
  have "AuthContextFromHeaders (hr_Header (example_mcp_request [])) = Some example_headers" by code_simp
  then show ?thesis by (simp add: mcp_caller_def example_mcp_server_def example_mcp_request_def)
qed

lemma example_mcp_checks:
  "capsAllow example_mcp_env (Some (header_caller example_headers)) ''pay:*''"
  "validateArgs example_mcp_env example_tool ''A'' = None"
  "validateArgs example_mcp_env example_tool ''B'' = Some (AboveMax ''amount'')"
  by code_simp+

lemma example_mcp_refusal:
  "\<nexists>spec. Find_tool (mcs_reg example_mcp_server) (call_name example_mcp_env ''P'') = Some spec
     \<and> capsAllow example_mcp_env (mcp_caller example_mcp_server None (example_mcp_request ''M'')) (ts_RequiredCapability spec)
     \<and> validateArgs example_mcp_env spec (mc_Field example_mcp_env ''P'' ''arguments'') = None"
proof -
  have "call_name example_mcp_env ''P'' = ''pay''" "mc_Field example_mcp_env ''P'' ''arguments'' = ''B''" by code_simp+
  moreover have "Find_tool (mcs_reg example_mcp_server) ''pay'' = Some example_tool"
    by (simp add: Find_tool_def example_mcp_server_def example_registry_def)
  ultimately show ?thesis by (simp add: example_mcp_checks)
qed

lemma example_mcp_call:
  "length (ms_executed (snd (ServeHTTP example_mcp_env example_mcp_server (example_protocol ''A'') (\<lambda>n c. n) [] False None
      (example_mcp_request ''Z'') empty_mcp_state))) = 1"
proof -
  have "mc_Parse example_mcp_env ''Z'' = None" by (simp add: example_mcp_env_def)
  moreover have "ts_RequiredCapability example_tool = ''pay:*''" by (simp add: example_tool_def)
  ultimately show ?thesis unfolding ServeHTTP_def Let_def mcp_caller_def[symmetric] example_mcp_caller
    by (simp add: example_mcp_request_def mcp_body_limit_def run_protocol_def example_protocol_def example_mcp_server_def handle_def
        example_mcp_checks handle_arguments_def empty_mcp_state_def)
qed

text \<open>The call of the tool at a limit is run, the call above it is refused.\<close>

theorem tools_run_gated_witness:
  "\<exists>xs. xs \<noteq> [] \<and> ms_executed (snd (ServeHTTP example_mcp_env example_mcp_server (example_protocol ''A'') (\<lambda>n c. n) [] False None
      (example_mcp_request ''Z'') empty_mcp_state)) = xs
    \<and> list_all (\<lambda>(spec, a, raw). spec = example_tool \<and> capsAllow example_mcp_env (Some a) ''pay:*'') xs"
proof -
  let ?run = "ServeHTTP example_mcp_env example_mcp_server (example_protocol ''A'') (\<lambda>n c. n) [] False None (example_mcp_request ''Z'') empty_mcp_state"
  obtain answer st' where run: "?run = (answer, st')" by fastforce
  have set: "set (reg_Tools example_registry) = {example_tool}" "ts_RequiredCapability example_tool = ''pay:*''" "ms_executed empty_mcp_state = []"
    by (simp_all add: example_registry_def example_manifest_def example_tool_def empty_mcp_state_def)
  have "ms_executed st' \<noteq> []" using example_mcp_call[unfolded run] by auto
  with tools_run_gated[OF example_mcp_bound run] show ?thesis unfolding run by (auto simp: set list_all_iff)
qed

theorem denied_call_not_delivered_witness:
  "ms_reached (snd (ServeHTTP example_mcp_env example_mcp_server (example_protocol ''A'') (\<lambda>n c. n) [] False None
      (example_mcp_request ''M'') empty_mcp_state)) = []"
proof -
  let ?run = "ServeHTTP example_mcp_env example_mcp_server (example_protocol ''A'') (\<lambda>n c. n) [] False None (example_mcp_request ''M'') empty_mcp_state"
  obtain answer st' where run: "?run = (answer, st')" by fastforce
  have "decode_field ''method'' decode_string [(''method'', JStr ''tools/call'')] [] = Some ''tools/call''" by code_simp
  from denied_call_not_delivered[OF _ _ _ _ this _ _ example_mcp_refusal run] show ?thesis unfolding run
    by (auto simp: example_mcp_request_def mcp_body_limit_def example_mcp_env_def empty_mcp_state_def)
qed

lemma example_barrier: "barrier_holds example_mcp_env example_limit (JNum 7)"
proof -
  have "arguments_of example_mcp_env ''A'' = Some [(''amount'', JNum 7)]" by code_simp
  then show ?thesis using example_mcp_checks(2) unfolding barriers_exact by (auto simp: example_tool_def example_limit_def)
qed

theorem manifest_wf_witness: "registry_wf example_mcp_env example_registry"
  by (rule manifest_wf[OF example_mcp_loads])

end
