(* ===== verification/Evidence_Bundle.thy ===== *)
theory Evidence_Bundle
  imports Supervision_Store Evidence_Sink "HOL-Library.List_Lexorder" "HOL-Library.Char_ord"
begin

text \<open>
  Evidence bundles (\<^verbatim>\<open>src/evidence.go\<close>): the export of the audit lines of an operation with the decision record they pin,
  the supervision events and a Merkle root, the signature of a bundle and its verification, canonical JSON, and the check of the decision
  section against its record. Files are read as a whole and are
  arguments of the export; JSON encoding and decoding, record verification and signing are parameters.
\<close>

section \<open>Bundles\<close>

record evidence_manifest =
  mf_Schema :: string
  mf_Version :: string
  mf_BundleID :: string
  mf_ExportedAt :: instant
  mf_Generator :: string
  mf_HashAlg :: string
  mf_PolicyRef :: string

record evidence_operation =
  eo_OperationID :: string
  eo_StartedAt :: string
  eo_FinishedAt :: string
  eo_Resource :: string
  eo_Action :: string
  eo_RequestedParams :: string
  eo_Outcome :: string

record evidence_subject =
  es_AgentID :: string
  es_KeyBinding :: string
  es_TransportIdentity :: string
  es_PresentedCredentialRef :: string

record evidence_grant_ref =
  gr_Ref :: string
  gr_Digest :: string

record evidence_capability =
  ecap_Scheme :: string
  ecap_CapabilityID :: string
  ecap_Parameters :: string

record evidence_authorization =
  ea_DelegationMode :: string
  ea_Principal :: string
  ea_GrantRef :: "evidence_grant_ref option"
  ea_Capabilities :: "evidence_capability list"
  ea_Constraints :: string
  ea_Ceiling :: string
  ea_ValidFrom :: string
  ea_ExpiresAt :: string

record evidence_decision =
  ed_Decision :: string
  ed_RecordDigest :: string
  ed_Record :: "decision_record option"
  ed_MatchedPolicy :: string
  ed_ReasonCodes :: "string list"
  ed_EvaluatedCapabilities :: "string list"
  ed_PdpContext :: string

record evidence_supervision_event =
  ese_Type :: string
  ese_OccurredAt :: string
  ese_Actor :: string
  ese_DecisionRef :: string
  ese_EvidenceRef :: string

record evidence_audit_entry =
  eae_Seq :: int
  eae_Action :: string
  eae_Actor :: string
  eae_Ts :: string
  eae_EntryHash :: string
  eae_PrevHash :: string

record evidence_audit_chain =
  eac_Entries :: "evidence_audit_entry list"
  eac_MerkleRoot :: string
  eac_Anchor :: string
  eac_TSA :: string

text \<open>The signatures are a Go map; the list is the order of an iteration over it.\<close>

record evidence_bundle =
  eb_Manifest :: evidence_manifest
  eb_Operation :: evidence_operation
  eb_Subject :: evidence_subject
  eb_Authorization :: evidence_authorization
  eb_Decision :: evidence_decision
  eb_Supervision :: "evidence_supervision_event list"
  eb_AuditChain :: evidence_audit_chain
  eb_Signatures :: "(string \<times> bytes) list"

text \<open>\<open>bx_Tree\<close> marshals a bundle and decodes the text into a tree, \<open>bx_Print\<close> marshals a tree whose members are in the order given;
  \<open>bx_FormatNano\<close> and \<open>bx_FormatSecond\<close> are the UTC formats of the export and of the rendering.\<close>

record bundle_env =
  bx_sink :: sink_ops
  bx_query :: query_env
  bx_supervision :: supervision_env
  bx_Tree :: "evidence_bundle \<Rightarrow> string + json"
  bx_Print :: "json \<Rightarrow> string + bytes"
  bx_SigJSON :: "string \<times> bytes \<Rightarrow> string + bytes"
  bx_ReadSig :: "bytes \<Rightarrow> string + string \<times> bytes"
  bx_FormatNano :: "instant \<Rightarrow> string"
  bx_FormatSecond :: "instant \<Rightarrow> string"
  bx_StepUp :: string
  bx_BreakGlass :: string

datatype export_error = AuditUnreadable string | AuditLineTooLong | RecordDoesNotReproduce string | RecordDigestMismatch string
  | DecisionContradicts string | NoEvidenceDir string | EvidenceDirUnreadable string | EvidenceGap string
  | SupervisionUnreadable string | SupervisionLineTooLong | CanonicalFailed string | BundleSignFailed string | SignatureMalformed string
  | BundleSignatureEmpty | BundleSignatureInvalid string | BundleUnsigned | UnknownFormat string

section \<open>The decision section\<close>

definition canonicalReasonCode :: "string \<Rightarrow> string" where
  "canonicalReasonCode s = takeWhile (\<lambda>c. c \<noteq> CHR '':'') s"

definition ApplyRecord :: "sink_ops \<Rightarrow> decision_record option \<Rightarrow> evidence_decision \<Rightarrow> export_error + evidence_decision" where
  "ApplyRecord K rec d =
     (case rec of None \<Rightarrow> Inr d | Some r \<Rightarrow>
      case sk_VerifyRecord K r of Some e \<Rightarrow> Inl (RecordDoesNotReproduce e) | None \<Rightarrow>
        Inr (d\<lparr>ed_Record := Some r, ed_RecordDigest := EncodeToString (dg_Value (dr_InputDigest r)), ed_Decision := dr_Verdict r,
               ed_ReasonCodes := (if dr_Reason r \<noteq> [] then [canonicalReasonCode (dr_Reason r)] else [])
                 @ map (\<lambda>u. ''unresolved:'' @ u) (dr_Unresolved r)\<rparr>))"

definition CheckDecisions :: "sink_ops \<Rightarrow> evidence_bundle \<Rightarrow> export_error option" where
  "CheckDecisions K b =
     (case ed_Record (eb_Decision b) of None \<Rightarrow> None | Some r \<Rightarrow>
      case sk_VerifyRecord K r of Some e \<Rightarrow> Some (RecordDoesNotReproduce e) | None \<Rightarrow>
        if ed_RecordDigest (eb_Decision b) \<noteq> EncodeToString (dg_Value (dr_InputDigest r)) then Some (RecordDigestMismatch (ed_RecordDigest (eb_Decision b)))
        else if ed_Decision (eb_Decision b) \<noteq> dr_Verdict r then Some (DecisionContradicts (ed_Decision (eb_Decision b)))
        else None)"

section \<open>Audit lines\<close>

record evidence_query =
  eq_OperationID :: string
  eq_DaHash :: string
  eq_AgentID :: string
  eq_TimeRange :: "time_range option"
  eq_IncludeSupervision :: bool
  eq_Record :: "decision_record option"

definition matchesAuditQuery :: "query_env \<Rightarrow> audit_entry \<Rightarrow> evidence_query \<Rightarrow> bool" where
  "matchesAuditQuery Q e q \<longleftrightarrow>
     \<not> (eq_OperationID q \<noteq> [] \<and> ent_TraceId e \<noteq> eq_OperationID q \<and> ent_TargetID e \<noteq> eq_OperationID q)
     \<and> \<not> (eq_DaHash q \<noteq> [] \<and> ent_DaHash e \<noteq> eq_DaHash q)
     \<and> \<not> (eq_AgentID q \<noteq> [] \<and> ent_AgentId e \<noteq> eq_AgentID q \<and> ent_ClientCN e \<noteq> eq_AgentID q)
     \<and> (case eq_TimeRange q of None \<Rightarrow> True | Some tr \<Rightarrow>
          (case qe_ParseTime Q (ent_Time e) of None \<Rightarrow> False | Some t \<Rightarrow>
             \<not> (\<not> IsZero (tr_Start tr) \<and> Before t (tr_Start tr)) \<and> \<not> (\<not> IsZero (tr_End tr) \<and> After t (tr_End tr))))"

text \<open>What the loop over the lines makes of one of them: nothing, or an entry with the trimmed line it was read from.\<close>

definition chain_line :: "query_env \<Rightarrow> evidence_query \<Rightarrow> bytes \<Rightarrow> (audit_entry \<times> bytes) option" where
  "chain_line Q q raw =
     (let line = TrimSpace raw in
      if line = [] then None
      else case qe_Unmarshal Q line of None \<Rightarrow> None | Some se \<Rightarrow>
        if matchesAuditQuery Q (sa_Entry se) q then Some (sa_Entry se, line) else None)"

definition readAuditChainLines :: "query_env \<Rightarrow> string + bytes \<Rightarrow> evidence_query \<Rightarrow> export_error + (audit_entry \<times> bytes) list" where
  "readAuditChainLines Q file q =
     (case file of Inl e \<Rightarrow> Inl (AuditUnreadable e) | Inr data \<Rightarrow>
      if scanner_overflows data then Inl AuditLineTooLong
      else Inr (List.map_filter (chain_line Q q) (fitting_lines data)))"

definition evidenceSHA256Pf :: string where "evidenceSHA256Pf = ''sha256:''"

definition entTime :: "query_env \<Rightarrow> audit_entry \<Rightarrow> instant" where
  "entTime Q e = (case qe_ParseTime Q (ent_Time e) of None \<Rightarrow> 0 | Some t \<Rightarrow> t)"

definition startEndString :: "bundle_env \<Rightarrow> instant \<Rightarrow> string" where
  "startEndString B t = (if IsZero t then [] else bx_FormatNano B t)"

definition auditActor :: "audit_entry \<Rightarrow> string" where
  "auditActor e =
     (if ent_ClientCN e \<noteq> [] then ent_ClientCN e else if ent_PrincipalUid e \<noteq> [] then ent_PrincipalUid e
      else if ent_AgentId e \<noteq> [] then ent_AgentId e else [])"

definition digestOf :: "string \<Rightarrow> string" where
  "digestOf h = (if h = [] then [] else evidenceSHA256Pf @ h)"

definition delegationModeString :: "int \<Rightarrow> string" where
  "delegationModeString mode = (if mode = 1 then ''representative'' else if mode = 0 then ''authorized'' else [])"

definition outcomeOf :: "audit_entry \<Rightarrow> string" where
  "outcomeOf e = (if ent_DenyReason e \<noteq> [] \<or> ent_Action e = ActionDenied then ''deny'' else ''permit'')"

definition entry_hash :: "(bytes \<Rightarrow> bytes) \<Rightarrow> bytes \<Rightarrow> string" where
  "entry_hash H raw = evidenceSHA256Pf @ EncodeToString (H raw)"

fun chain_entries :: "(bytes \<Rightarrow> bytes) \<Rightarrow> int \<Rightarrow> string \<Rightarrow> (audit_entry \<times> bytes) list \<Rightarrow> evidence_audit_entry list" where
  "chain_entries H i prev [] = []"
| "chain_entries H i prev ((ent, raw) # rest) =
     \<lparr>eae_Seq = i + 1, eae_Action = ent_Action ent, eae_Actor = auditActor ent, eae_Ts = ent_Time ent, eae_EntryHash = entry_hash H raw,
      eae_PrevHash = prev\<rparr> # chain_entries H (i + 1) (entry_hash H raw) rest"

text \<open>The summary of the operation from the first and the last line.\<close>

definition operation_of :: "bundle_env \<Rightarrow> evidence_query \<Rightarrow> instant \<Rightarrow> (audit_entry \<times> bytes) list \<Rightarrow> evidence_operation" where
  "operation_of B q now entries =
     (let op0 = \<lparr>eo_OperationID = eq_OperationID q, eo_StartedAt = [], eo_FinishedAt = [], eo_Resource = [], eo_Action = [],
                 eo_RequestedParams = [], eo_Outcome = ''permit''\<rparr>;
          op1 = (if entries = [] then op0
                 else let first = fst (hd entries); last = fst (last entries) in
                   op0\<lparr>eo_OperationID := (if eo_OperationID op0 \<noteq> [] then eo_OperationID op0
                                          else if ent_TraceId first \<noteq> [] then ent_TraceId first else ent_TargetID first),
                       eo_Resource := ent_Target first, eo_Action := ent_Action first, eo_Outcome := outcomeOf last,
                       eo_StartedAt := startEndString B (entTime (bx_query B) first),
                       eo_FinishedAt := startEndString B (entTime (bx_query B) last)\<rparr>)
      in if eo_StartedAt op1 \<noteq> [] then op1
         else let s = startEndString B (case eq_TimeRange q of Some tr \<Rightarrow> if \<not> IsZero (tr_Start tr) then tr_Start tr else now | None \<Rightarrow> now)
              in op1\<lparr>eo_StartedAt := s, eo_FinishedAt := s\<rparr>)"

definition subject_of :: "evidence_query \<Rightarrow> (audit_entry \<times> bytes) list \<Rightarrow> evidence_subject" where
  "subject_of q entries =
     (case entries of
        [] \<Rightarrow> \<lparr>es_AgentID = eq_AgentID q, es_KeyBinding = [], es_TransportIdentity = [], es_PresentedCredentialRef = []\<rparr>
      | (first, _) # _ \<Rightarrow>
          \<lparr>es_AgentID = (if eq_AgentID q \<noteq> [] then eq_AgentID q else if ent_AgentId first \<noteq> [] then ent_AgentId first else ent_ClientCN first),
           es_KeyBinding = digestOf (ent_AICFingerprint first), es_TransportIdentity = digestOf (ent_ClientSerial first),
           es_PresentedCredentialRef = ent_Mapping first\<rparr>)"

definition authorization_of :: "(audit_entry \<times> bytes) list \<Rightarrow> evidence_authorization" where
  "authorization_of entries =
     (let a0 = \<lparr>ea_DelegationMode = [], ea_Principal = [], ea_GrantRef = None, ea_Capabilities = [], ea_Constraints = [], ea_Ceiling = [],
                ea_ValidFrom = [], ea_ExpiresAt = []\<rparr>
      in case entries of [] \<Rightarrow> a0 | (first, _) # _ \<Rightarrow>
           a0\<lparr>ea_DelegationMode := delegationModeString (ent_DelegationMode first), ea_Principal := ent_PrincipalUid first,
              ea_GrantRef := (if ent_DaHash first \<noteq> [] then Some \<lparr>gr_Ref = ''da-jwt'', gr_Digest = evidenceSHA256Pf @ ent_DaHash first\<rparr> else None),
              ea_Capabilities := map (\<lambda>c. \<lparr>ecap_Scheme = [], ecap_CapabilityID = c, ecap_Parameters = []\<rparr>) (ent_Capabilities first),
              ea_Constraints := (if ent_Roles first \<noteq> [] then go_Join (ent_Roles first) '';'' else [])\<rparr>)"

definition empty_decision :: evidence_decision where
  "empty_decision = \<lparr>ed_Decision = [], ed_RecordDigest = [], ed_Record = None, ed_MatchedPolicy = [], ed_ReasonCodes = [],
     ed_EvaluatedCapabilities = [], ed_PdpContext = []\<rparr>"

definition decision_of :: "(audit_entry \<times> bytes) list \<Rightarrow> evidence_decision" where
  "decision_of entries =
     (if entries = [] then empty_decision
      else let first = fst (hd entries); outcome = outcomeOf (fst (last entries)) in
        empty_decision\<lparr>ed_Decision := outcome, ed_RecordDigest := ent_RecordDigest first,
          ed_ReasonCodes := (if outcome = ''deny'' then [if ent_DenyReason first \<noteq> [] then ent_DenyReason first else ''param-out-of-bound''] else []),
          ed_EvaluatedCapabilities := ent_Capabilities first\<rparr>)"

definition fillFromAudit :: "bundle_env \<Rightarrow> evidence_bundle \<Rightarrow> (audit_entry \<times> bytes) list \<Rightarrow> evidence_query \<Rightarrow> instant \<Rightarrow> evidence_bundle" where
  "fillFromAudit B b entries q now =
     b\<lparr>eb_AuditChain := (eb_AuditChain b)\<lparr>eac_Entries := chain_entries (Sum256 (sk_crypto (bx_sink B))) 0 [] entries\<rparr>,
       eb_Operation := operation_of B q now entries, eb_Subject := subject_of q entries, eb_Authorization := authorization_of entries,
       eb_Decision := decision_of entries\<rparr>"

section \<open>Records and supervision events\<close>

text \<open>\<open>entries\<close> is the directory: names, whether they are directories, and what reading them yields.\<close>

fun find_record :: "sink_ops \<Rightarrow> string \<Rightarrow> (string \<times> bool \<times> (string + bytes)) list \<Rightarrow> decision_record option" where
  "find_record K digest [] = None"
| "find_record K digest ((name, is_dir, file) # rest) =
     (if is_dir \<or> \<not> HasSuffix name ''.json'' then find_record K digest rest
      else case LoadEvidenceRecord K file of
             Inl e \<Rightarrow> find_record K digest rest
           | Inr r \<Rightarrow> if EncodeToString (dg_Value (dr_InputDigest r)) = digest then Some r else find_record K digest rest)"

definition resolveRecordByDigest ::
    "sink_ops \<Rightarrow> string + (string \<times> bool \<times> (string + bytes)) list \<Rightarrow> string \<Rightarrow> export_error + decision_record" where
  "resolveRecordByDigest K dir digest =
     (case dir of Inl e \<Rightarrow> Inl (EvidenceDirUnreadable e) | Inr entries \<Rightarrow>
      case find_record K digest entries of None \<Rightarrow> Inl (EvidenceGap digest) | Some r \<Rightarrow> Inr r)"

datatype file_content = FileMissing | FileUnreadable string | FileContent bytes

definition supervision_line :: "bundle_env \<Rightarrow> evidence_query \<Rightarrow> bytes \<Rightarrow> evidence_supervision_event option" where
  "supervision_line B q raw =
     (let line = TrimSpace raw in
      if line = [] then None
      else case sve_Unmarshal (bx_supervision B) line of None \<Rightarrow> None | Some sg \<Rightarrow>
        let ev = ssv_Event sg in
        if \<not> matchesSupervisionQuery ev \<lparr>sq_OperationID = eq_OperationID q, sq_DaHash = eq_DaHash q, sq_AgentID = eq_AgentID q, sq_Type = [],
               sq_TimeRange = eq_TimeRange q, sq_Limit = 0\<rparr> then None
        else let t1 = (if sv_Type ev = bx_StepUp B then ''stepUp'' else sv_Type ev);
                 t2 = (if t1 = bx_BreakGlass B then ''breakGlass'' else t1)
             in Some \<lparr>ese_Type = t2, ese_OccurredAt = bx_FormatNano B (sv_Ts ev), ese_Actor = sv_Actor ev, ese_DecisionRef = sv_OperationID ev,
                      ese_EvidenceRef = sv_EvidenceRef ev\<rparr>)"

definition readSupervisionLines :: "bundle_env \<Rightarrow> file_content \<Rightarrow> evidence_query \<Rightarrow> export_error + evidence_supervision_event list" where
  "readSupervisionLines B file q =
     (case file of FileMissing \<Rightarrow> Inr [] | FileUnreadable e \<Rightarrow> Inl (SupervisionUnreadable e) | FileContent data \<Rightarrow>
      if scanner_overflows data then Inl SupervisionLineTooLong
      else Inr (List.map_filter (supervision_line B q) (fitting_lines data)))"

section \<open>Canonical JSON and signatures\<close>

text \<open>The copy of a decoded tree, and the order \<^verbatim>\<open>encoding/json\<close> gives the members of a map.\<close>

fun canonicalize :: "json \<Rightarrow> json" where
  "canonicalize (JObj ms) = JObj (map (\<lambda>(k, v). (k, canonicalize v)) ms)"
| "canonicalize (JArr js) = JArr (map canonicalize js)"
| "canonicalize v = v"

fun sort_members :: "json \<Rightarrow> json" where
  "sort_members (JObj ms) = JObj (sort_key fst (map (\<lambda>(k, v). (k, sort_members v)) ms))"
| "sort_members (JArr js) = JArr (map sort_members js)"
| "sort_members v = v"

definition CanonicalJSON :: "bundle_env \<Rightarrow> evidence_bundle \<Rightarrow> export_error + bytes" where
  "CanonicalJSON B v =
     (case bx_Tree B v of Inl e \<Rightarrow> Inl (CanonicalFailed e) | Inr tree \<Rightarrow>
      case bx_Print B (sort_members (canonicalize tree)) of Inl e \<Rightarrow> Inl (CanonicalFailed e) | Inr out \<Rightarrow> Inr out)"

definition BundlePayloadType :: string where
  "BundlePayloadType = ''application/vnd.varwof.aic-evidence-bundle.v0.1+json''"

definition SigningBytes :: "bundle_env \<Rightarrow> evidence_bundle \<Rightarrow> export_error + bytes" where
  "SigningBytes B b = CanonicalJSON B (b\<lparr>eb_Signatures := []\<rparr>)"

definition put_signature :: "string \<Rightarrow> bytes \<Rightarrow> (string \<times> bytes) list \<Rightarrow> (string \<times> bytes) list" where
  "put_signature k v sigs = filter (\<lambda>(k', _). k' \<noteq> k) sigs @ [(k, v)]"

definition Sign_bundle :: "bundle_env \<Rightarrow> string \<Rightarrow> (bytes \<Rightarrow> string + bytes) \<Rightarrow> evidence_bundle \<Rightarrow> export_error + evidence_bundle" where
  "Sign_bundle B keyID sign b =
     (case SigningBytes B b of Inl e \<Rightarrow> Inl e | Inr body \<Rightarrow>
      case sign (sx_PAE (sk_ops (bx_sink B)) BundlePayloadType body) of Inl e \<Rightarrow> Inl (BundleSignFailed e) | Inr sig \<Rightarrow>
      case bx_SigJSON B (keyID, sig) of Inl e \<Rightarrow> Inl (BundleSignFailed e) | Inr raw \<Rightarrow>
        Inr (b\<lparr>eb_Signatures := put_signature keyID raw (eb_Signatures b)\<rparr>))"

fun verify_bundle_signatures ::
    "bundle_env \<Rightarrow> (string \<Rightarrow> bytes \<Rightarrow> bytes \<Rightarrow> string option) \<Rightarrow> bytes \<Rightarrow> export_error option \<Rightarrow> (string \<times> bytes) list \<Rightarrow> export_error option" where
  "verify_bundle_signatures B verify pae firstErr [] = firstErr"
| "verify_bundle_signatures B verify pae firstErr ((k, raw) # rest) =
     (let note = (\<lambda>e. if firstErr = None then Some e else firstErr) in
      case bx_ReadSig B raw of
        Inl e \<Rightarrow> verify_bundle_signatures B verify pae (note (SignatureMalformed e)) rest
      | Inr (keyID, sig) \<Rightarrow>
          if sig = [] then verify_bundle_signatures B verify pae (note BundleSignatureEmpty) rest
          else case verify keyID pae sig of None \<Rightarrow> None
               | Some e \<Rightarrow> verify_bundle_signatures B verify pae (note (BundleSignatureInvalid e)) rest)"

definition VerifySignature ::
    "bundle_env \<Rightarrow> (string \<Rightarrow> bytes \<Rightarrow> bytes \<Rightarrow> string option) \<Rightarrow> evidence_bundle \<Rightarrow> export_error option" where
  "VerifySignature B verify b =
     (if eb_Signatures b = [] then Some BundleUnsigned
      else case SigningBytes B b of Inl e \<Rightarrow> Some e | Inr body \<Rightarrow>
        verify_bundle_signatures B verify (sx_PAE (sk_ops (bx_sink B)) BundlePayloadType body) None (eb_Signatures b))"

section \<open>The export\<close>

record evidence_exporter =
  fe_EvidenceDir :: string
  fe_Generator :: string
  fe_Signer :: "record_signer option"

definition Version :: string where "Version = ''0.3.0-rc2''"

text \<open>\<open>newID\<close> is the random identifier of the call, \<open>now\<close> the export clock.\<close>

definition new_bundle :: "evidence_exporter \<Rightarrow> string \<Rightarrow> instant \<Rightarrow> evidence_bundle" where
  "new_bundle e newID now =
     \<lparr>eb_Manifest = \<lparr>mf_Schema = ''varwof/aic-evidence-bundle'', mf_Version = ''0.1'', mf_BundleID = ''evidence-'' @ drop 3 newID, mf_ExportedAt = now,
        mf_Generator = (if fe_Generator e = [] then ''aic-verifier v'' @ Version else fe_Generator e), mf_HashAlg = ''SHA-256'', mf_PolicyRef = []\<rparr>,
      eb_Operation = \<lparr>eo_OperationID = [], eo_StartedAt = [], eo_FinishedAt = [], eo_Resource = [], eo_Action = [], eo_RequestedParams = [], eo_Outcome = []\<rparr>,
      eb_Subject = \<lparr>es_AgentID = [], es_KeyBinding = [], es_TransportIdentity = [], es_PresentedCredentialRef = []\<rparr>,
      eb_Authorization = authorization_of [], eb_Decision = empty_decision, eb_Supervision = [],
      eb_AuditChain = \<lparr>eac_Entries = [], eac_MerkleRoot = [], eac_Anchor = ''self'', eac_TSA = []\<rparr>, eb_Signatures = []\<rparr>"

definition TrimPrefix :: "string \<Rightarrow> string \<Rightarrow> string" where
  "TrimPrefix s p = (if HasPrefix s p then drop (length p) s else s)"

definition merkle_root_of :: "(bytes \<Rightarrow> bytes) \<Rightarrow> evidence_audit_entry list \<Rightarrow> string" where
  "merkle_root_of H entries =
     (let leaves = List.map_filter (\<lambda>ent. DecodeString (TrimPrefix (eae_EntryHash ent) evidenceSHA256Pf)) entries;
          root = RootHex (NewMerkleTree H leaves)
      in if entries \<noteq> [] \<and> root \<noteq> [] then evidenceSHA256Pf @ root else [])"

definition attach_record ::
    "bundle_env \<Rightarrow> evidence_exporter \<Rightarrow> string + (string \<times> bool \<times> (string + bytes)) list \<Rightarrow> evidence_query \<Rightarrow> evidence_decision
     \<Rightarrow> export_error + evidence_decision" where
  "attach_record B e dir q d0 =
     (case ApplyRecord (bx_sink B) (eq_Record q) d0 of Inl err \<Rightarrow> Inl err | Inr d \<Rightarrow>
      if eq_Record q = None \<and> ed_RecordDigest d \<noteq> [] then
        (if fe_EvidenceDir e = [] then Inl (NoEvidenceDir (ed_RecordDigest d))
         else case resolveRecordByDigest (bx_sink B) dir (ed_RecordDigest d) of Inl err \<Rightarrow> Inl err
              | Inr r \<Rightarrow> ApplyRecord (bx_sink B) (Some r) d)
      else Inr d)"

definition Export ::
    "bundle_env \<Rightarrow> evidence_exporter \<Rightarrow> string \<Rightarrow> instant \<Rightarrow> string + bytes \<Rightarrow> file_content
     \<Rightarrow> string + (string \<times> bool \<times> (string + bytes)) list \<Rightarrow> evidence_query \<Rightarrow> export_error + evidence_bundle" where
  "Export B e newID now audit events_file dir q =
     (case readAuditChainLines (bx_query B) audit q of Inl err \<Rightarrow> Inl err | Inr entries \<Rightarrow>
      let b0 = fillFromAudit B (new_bundle e newID now) entries q now in
      case attach_record B e dir q (eb_Decision b0) of Inl err \<Rightarrow> Inl err | Inr d \<Rightarrow>
      case (if eq_IncludeSupervision q then readSupervisionLines B events_file q else Inr []) of Inl err \<Rightarrow> Inl err | Inr events \<Rightarrow>
      let b = b0\<lparr>eb_Decision := d, eb_Supervision := events,
                 eb_AuditChain := (eb_AuditChain b0)\<lparr>eac_MerkleRoot :=
                   merkle_root_of (Sum256 (sk_crypto (bx_sink B))) (eac_Entries (eb_AuditChain b0))\<rparr>\<rparr>
      in case fe_Signer e of None \<Rightarrow> Inr b
         | Some s \<Rightarrow> Sign_bundle B (rsn_keyID s) (RecordSigner_Sign (sk_crypto (bx_sink B)) s) b)"

section \<open>The exported chain\<close>

lemma length_chain_entries [simp]: "length (chain_entries H i prev entries) = length entries"
  by (induction entries arbitrary: i prev) auto

lemma chain_entries_nth:
  assumes "j < length entries"
  shows "eae_Seq (chain_entries H i prev entries ! j) = i + int j + 1"
    and "eae_EntryHash (chain_entries H i prev entries ! j) = entry_hash H (snd (entries ! j))"
    and "eae_PrevHash (chain_entries H i prev entries ! j) = (if j = 0 then prev else entry_hash H (snd (entries ! (j - 1))))"
  using assms
proof (induction entries arbitrary: i prev j)
  case (Cons x entries)
  obtain ent raw where x: "x = (ent, raw)" by (cases x)
  {
    case 1
    then show ?case using Cons.IH(1)[of "j - 1"] by (cases j) (simp_all add: x)
  next
    case 2
    then show ?case using Cons.IH(2)[of "j - 1"] by (cases j) (simp_all add: x)
  next
    case 3
    then show ?case using Cons.IH(3)[of "j - 1"] by (cases j) (simp_all add: x nth_Cons')
  }
qed simp_all

text \<open>The parts of a successful export.\<close>

lemma Export_parts:
  assumes "Export B e newID now audit events_file dir q = Inr b"
  obtains entries d events where
    "readAuditChainLines (bx_query B) audit q = Inr entries"
    "attach_record B e dir q (decision_of entries) = Inr d"
    "eb_AuditChain b = \<lparr>eac_Entries = chain_entries (Sum256 (sk_crypto (bx_sink B))) 0 [] entries,
       eac_MerkleRoot = merkle_root_of (Sum256 (sk_crypto (bx_sink B))) (chain_entries (Sum256 (sk_crypto (bx_sink B))) 0 [] entries),
       eac_Anchor = ''self'', eac_TSA = []\<rparr>"
    "eb_Decision b = d" "eb_Operation b = operation_of B q now entries" "eb_Supervision b = events"
    "if eq_IncludeSupervision q then readSupervisionLines B events_file q = Inr events else events = []"
    "case fe_Signer e of None \<Rightarrow> eb_Signatures b = []
       | Some s \<Rightarrow> \<exists>b0. Sign_bundle B (rsn_keyID s) (RecordSigner_Sign (sk_crypto (bx_sink B)) s) b0 = Inr b"
proof -
  let ?H = "Sum256 (sk_crypto (bx_sink B))"
  obtain entries where ent: "readAuditChainLines (bx_query B) audit q = Inr entries"
    using assms by (auto simp: Export_def split: sum.splits)
  let ?b0 = "fillFromAudit B (new_bundle e newID now) entries q now"
  obtain d where d: "attach_record B e dir q (decision_of entries) = Inr d"
    using assms ent by (auto simp: Export_def Let_def fillFromAudit_def split: sum.splits)
  obtain events where ev: "(if eq_IncludeSupervision q then readSupervisionLines B events_file q else Inr []) = Inr events"
    using assms ent d by (auto simp: Export_def Let_def fillFromAudit_def split: sum.splits)
  define b1 where "b1 = ?b0\<lparr>eb_Decision := d, eb_Supervision := events,
    eb_AuditChain := (eb_AuditChain ?b0)\<lparr>eac_MerkleRoot := merkle_root_of ?H (eac_Entries (eb_AuditChain ?b0))\<rparr>\<rparr>"
  have run: "(case fe_Signer e of None \<Rightarrow> Inr b1 | Some s \<Rightarrow> Sign_bundle B (rsn_keyID s) (RecordSigner_Sign (sk_crypto (bx_sink B)) s) b1) = Inr b"
    using assms ent d ev unfolding Export_def Let_def b1_def by (simp add: fillFromAudit_def)
  have same: "eb_AuditChain b = eb_AuditChain b1 \<and> eb_Decision b = eb_Decision b1 \<and> eb_Operation b = eb_Operation b1 \<and> eb_Supervision b = eb_Supervision b1"
    using run by (auto simp: Sign_bundle_def split: option.splits sum.splits)
  have sig: "case fe_Signer e of None \<Rightarrow> eb_Signatures b = []
       | Some s \<Rightarrow> \<exists>b0. Sign_bundle B (rsn_keyID s) (RecordSigner_Sign (sk_crypto (bx_sink B)) s) b0 = Inr b"
    using run by (auto simp: b1_def fillFromAudit_def new_bundle_def split: option.splits)
  show thesis
    using same sig ev by (intro that[of entries d events, OF ent d]) (simp_all add: b1_def fillFromAudit_def new_bundle_def split: if_splits)
qed

lemma chain_leaves:
  "List.map_filter (\<lambda>ent. DecodeString (TrimPrefix (eae_EntryHash ent) evidenceSHA256Pf)) (chain_entries H i prev entries)
     = map (H \<circ> snd) entries"
proof (induction entries arbitrary: i prev)
  case (Cons x entries)
  have "TrimPrefix (entry_hash H r) evidenceSHA256Pf = EncodeToString (H r)" for r
    by (simp add: TrimPrefix_def entry_hash_def HasPrefix_def)
  then show ?case using Cons by (cases x) (simp add: List.map_filter_simps Decode_Encode)
qed (simp add: List.map_filter_simps)

lemma exported_root:
  assumes "Export B e newID now audit events_file dir q = Inr b" "readAuditChainLines (bx_query B) audit q = Inr entries" "entries \<noteq> []"
    and H: "H = Sum256 (sk_crypto (bx_sink B))" "\<And>x. H x \<noteq> []"
  obtains rt where "mt_root (NewMerkleTree H (map (H \<circ> snd) entries)) = Some rt"
    "eac_MerkleRoot (eb_AuditChain b) = evidenceSHA256Pf @ EncodeToString rt"
proof -
  let ?ls = "map (H \<circ> snd) entries"
  have root: "eac_MerkleRoot (eb_AuditChain b) = merkle_root_of H (chain_entries H 0 [] entries)"
    by (rule Export_parts[OF assms(1)]) (use assms(2) H(1) in simp)
  have ls: "?ls \<noteq> []" using assms(3) by simp
  obtain rt where rt: "mt_root (NewMerkleTree H ?ls) = Some rt" using mt_root_NewMerkleTree[OF ls, of H] by simp
  have "VerifyProof H (?ls ! 0) (proof_loop (mt_levels (NewMerkleTree H ?ls)) 0) rt"
    using Proof_verifies[of H 0 ?ls] H(2) ls rt by simp
  then have "rt \<noteq> []" by (simp add: VerifyProof_def Let_def)
  then show thesis using root ls rt assms(3) unfolding merkle_root_of_def chain_leaves Let_def
    by (intro that[OF rt]) (auto simp: RootHex_def dest: arg_cong[of _ _ length])
qed

text \<open>C28. An exported chain is the matching part of the audit log: one entry per matching line, in order and numbered from one, each with the
  digest of its line and the digest of the entry before it; and the Merkle root commits to exactly these lines: every one has a
  proof that verifies against the root, and without hash collisions a proof that verifies is about one of them.\<close>

theorem export_chain_committed:
  assumes "Export B e newID now audit events_file dir q = Inr b" "readAuditChainLines (bx_query B) audit q = Inr entries" "entries \<noteq> []"
    and H: "H = Sum256 (sk_crypto (bx_sink B))" "\<And>x. length (H x) = 32"
  shows "map eae_Seq (eac_Entries (eb_AuditChain b)) = map (\<lambda>i. int i + 1) [0..<length entries]
    \<and> map eae_EntryHash (eac_Entries (eb_AuditChain b)) = map (entry_hash H \<circ> snd) entries
    \<and> map eae_PrevHash (eac_Entries (eb_AuditChain b)) = [] # butlast (map (entry_hash H \<circ> snd) entries)
    \<and> (\<exists>rt. eac_MerkleRoot (eb_AuditChain b) = evidenceSHA256Pf @ EncodeToString rt
         \<and> (\<forall>i<length entries. \<exists>pf. VerifyProof H (H (snd (entries ! i))) pf rt)
         \<and> (\<forall>leaf pf. VerifyProof H leaf pf rt \<and> inj_on H (tree_inputs H (map (H \<circ> snd) entries) \<union> proof_inputs H leaf pf)
              \<longrightarrow> leaf \<in> (H \<circ> snd) ` set entries))"
proof -
  have H0: "H x \<noteq> []" for x using H(2)[of x] by auto
  let ?ls = "map (H \<circ> snd) entries"
  have chain: "eac_Entries (eb_AuditChain b) = chain_entries H 0 [] entries"
    by (rule Export_parts[OF assms(1)]) (use assms(2) H(1) in simp)
  obtain rt where rt: "mt_root (NewMerkleTree H ?ls) = Some rt" "eac_MerkleRoot (eb_AuditChain b) = evidenceSHA256Pf @ EncodeToString rt"
    by (rule exported_root[OF assms(1-3) H(1) H0])
  have "VerifyProof H (H (snd (entries ! i))) (proof_loop (mt_levels (NewMerkleTree H ?ls)) i) rt" if "i < length entries" for i
    using Proof_verifies[of H i ?ls] H0 that rt(1) by simp
  moreover have "leaf \<in> (H \<circ> snd) ` set entries"
    if "VerifyProof H leaf pf rt" "inj_on H (tree_inputs H ?ls \<union> proof_inputs H leaf pf)" for leaf pf
    using VerifyProof_member[OF H(2) rt(1) that] by simp
  moreover have "map eae_Seq (chain_entries H 0 [] entries) = map (\<lambda>i. int i + 1) [0..<length entries]"
    "map eae_EntryHash (chain_entries H 0 [] entries) = map (entry_hash H \<circ> snd) entries"
    by (rule nth_equalityI; simp add: chain_entries_nth)+
  moreover have "map eae_PrevHash (chain_entries H 0 [] entries) = [] # butlast (map (entry_hash H \<circ> snd) entries)"
    using assms(3) by (intro nth_equalityI) (auto simp: chain_entries_nth nth_Cons' nth_butlast)
  ultimately show ?thesis unfolding chain using rt(2) by blast
qed

section \<open>The decision of a bundle\<close>

lemma ApplyRecord_Inr:
  assumes "ApplyRecord K (Some r) d = Inr d'"
  shows "sk_VerifyRecord K r = None" "ed_Record d' = Some r" "ed_RecordDigest d' = EncodeToString (dg_Value (dr_InputDigest r))" "ed_Decision d' = dr_Verdict r"
  using assms by (auto simp: ApplyRecord_def split: option.splits)

lemma find_record_Some:
  "find_record K digest entries = Some r \<Longrightarrow> EncodeToString (dg_Value (dr_InputDigest r)) = digest"
  by (induction entries) (auto split: if_splits sum.splits)

lemma decision_of_fields: "ed_Record (decision_of entries) = None"
    "entries \<noteq> [] \<Longrightarrow> ed_RecordDigest (decision_of entries) = ent_RecordDigest (fst (hd entries))"
  by (simp_all add: decision_of_def empty_decision_def Let_def)

lemma attach_record_Inr:
  assumes "attach_record B e dir q d0 = Inr d" "ed_Record d0 = None"
  shows "(case ed_Record d of None \<Rightarrow> d = d0 \<and> ed_RecordDigest d0 = [] \<and> eq_Record q = None
      | Some r \<Rightarrow> sk_VerifyRecord (bx_sink B) r = None \<and> ed_RecordDigest d = EncodeToString (dg_Value (dr_InputDigest r)) \<and> ed_Decision d = dr_Verdict r
          \<and> (case eq_Record q of Some r' \<Rightarrow> r = r' | None \<Rightarrow> ed_RecordDigest d = ed_RecordDigest d0 \<and> ed_RecordDigest d0 \<noteq> []))"
proof (cases "eq_Record q")
  case None
  show ?thesis
  proof (cases "ed_RecordDigest d0 = []")
    case True
    then show ?thesis using assms None by (simp add: attach_record_def ApplyRecord_def)
  next
    case False
    then obtain r where r: "resolveRecordByDigest (bx_sink B) dir (ed_RecordDigest d0) = Inr r" "ApplyRecord (bx_sink B) (Some r) d0 = Inr d"
      using assms None by (auto simp: attach_record_def ApplyRecord_def[of _ None] split: if_splits sum.splits)
    then have "EncodeToString (dg_Value (dr_InputDigest r)) = ed_RecordDigest d0"
      by (auto simp: resolveRecordByDigest_def dest: find_record_Some split: sum.splits option.splits)
    then show ?thesis using ApplyRecord_Inr[OF r(2)] None False by simp
  qed
next
  case (Some r)
  then have "ApplyRecord (bx_sink B) (Some r) d0 = Inr d" using assms by (auto simp: attach_record_def split: sum.splits)
  from ApplyRecord_Inr[OF this] show ?thesis using Some by simp
qed


text \<open>A record handed over by the caller is attached whatever digest the audit lines pin.\<close>

lemma supplied_record_unpinned:
  assumes "sk_VerifyRecord (bx_sink B) r = None" "eq_Record q = Some r"
  shows "\<exists>d'. attach_record B e dir q d = Inr d' \<and> ed_Record d' = Some r \<and> ed_RecordDigest d' = EncodeToString (dg_Value (dr_InputDigest r))"
  using assms by (simp add: attach_record_def ApplyRecord_def)

text \<open>The outcome is that of the last line and the reason that of the first: where only the last line denies, its reason is replaced by a fixed one.\<close>

lemma denial_reason_invented:
  assumes "entries \<noteq> []" "ent_DenyReason (fst (hd entries)) = []" "ent_DenyReason (fst (last entries)) = why" "why \<noteq> []"
  shows "ed_Decision (decision_of entries) = ''deny'' \<and> ed_ReasonCodes (decision_of entries) = [''param-out-of-bound'']"
  using assms by (auto simp: decision_of_def Let_def outcomeOf_def)

section \<open>Signatures of bundles\<close>

definition entry_verifies :: "bundle_env \<Rightarrow> (string \<Rightarrow> bytes \<Rightarrow> bytes \<Rightarrow> string option) \<Rightarrow> bytes \<Rightarrow> string \<times> bytes \<Rightarrow> bool" where
  "entry_verifies B verify pae x =
     (case bx_ReadSig B (snd x) of Inl e \<Rightarrow> False | Inr (keyID, sig) \<Rightarrow> sig \<noteq> [] \<and> verify keyID pae sig = None)"

lemma verify_bundle_signatures_None:
  "verify_bundle_signatures B verify pae err sigs = None \<longleftrightarrow> (err = None \<and> sigs = []) \<or> list_ex (entry_verifies B verify pae) sigs"
proof (induction sigs arbitrary: err)
  case (Cons x sigs)
  obtain k raw where x: "x = (k, raw)" by (cases x)
  show ?case
  proof (cases "bx_ReadSig B raw")
    case (Inr ks)
    then show ?thesis by (cases ks; cases "verify (fst ks) pae (snd ks)") (auto simp: x Cons.IH Let_def entry_verifies_def)
  qed (auto simp: x Cons.IH Let_def entry_verifies_def)
qed simp

text \<open>A bundle is accepted exactly when one of its signatures is over its canonical bytes without the signatures, under the domain of bundles,
  and verifies; the order in which the map of signatures is iterated does not matter.\<close>

lemma bundle_signature_exact:
  "VerifySignature B verify b = None \<longleftrightarrow>
   (\<exists>body k raw keyID sig. SigningBytes B b = Inr body \<and> (k, raw) \<in> set (eb_Signatures b) \<and> bx_ReadSig B raw = Inr (keyID, sig) \<and> sig \<noteq> []
      \<and> verify keyID (sx_PAE (sk_ops (bx_sink B)) BundlePayloadType body) sig = None)"
proof (cases "SigningBytes B b")
  case (Inr body)
  let ?pae = "sx_PAE (sk_ops (bx_sink B)) BundlePayloadType body"
  have "VerifySignature B verify b = None \<longleftrightarrow> list_ex (entry_verifies B verify ?pae) (eb_Signatures b)"
    using Inr by (auto simp: VerifySignature_def verify_bundle_signatures_None)
  also have "\<dots> \<longleftrightarrow> (\<exists>(k, raw)\<in>set (eb_Signatures b). \<exists>keyID sig. bx_ReadSig B raw = Inr (keyID, sig) \<and> sig \<noteq> [] \<and> verify keyID ?pae sig = None)"
    unfolding list_ex_iff entry_verifies_def by (intro bex_cong refl) (auto split: sum.splits)
  finally show ?thesis using Inr by (auto simp: Bex_def)
qed (simp add: VerifySignature_def)

lemma SigningBytes_put [simp]: "SigningBytes B (b\<lparr>eb_Signatures := s\<rparr>) = SigningBytes B b"
  by (simp add: SigningBytes_def)

lemma Sign_bundle_verifies:
  assumes "Sign_bundle B keyID sign b0 = Inr b"
    and codec: "\<And>ks raw. bx_SigJSON B ks = Inr raw \<Longrightarrow> bx_ReadSig B raw = Inr ks"
    and key: "\<And>pae sig. sign pae = Inr sig \<Longrightarrow> sig \<noteq> [] \<and> verify keyID pae sig = None"
  shows "VerifySignature B verify b = None"
proof -
  obtain body sig raw where s: "SigningBytes B b0 = Inr body" "sign (sx_PAE (sk_ops (bx_sink B)) BundlePayloadType body) = Inr sig"
      "bx_SigJSON B (keyID, sig) = Inr raw" "b = b0\<lparr>eb_Signatures := put_signature keyID raw (eb_Signatures b0)\<rparr>"
    using assms(1) by (auto simp: Sign_bundle_def split: sum.splits)
  have "(keyID, raw) \<in> set (eb_Signatures b)" by (simp add: s(4) put_signature_def)
  moreover have "SigningBytes B b = Inr body" using s(1,4) by simp
  moreover note codec[OF s(3)] key[OF s(2)]
  ultimately show ?thesis by (force simp: VerifySignature_def verify_bundle_signatures_None list_ex_iff entry_verifies_def)
qed

text \<open>C27. What a signing exporter hands out verifies: with a key whose signatures verify, an exported bundle passes both the check of its signature and the check
  of its decision.\<close>

theorem exported_bundle_verifies:
  assumes "Export B e newID now audit events_file dir q = Inr b" "fe_Signer e = Some s"
    and codec: "\<And>ks raw. bx_SigJSON B ks = Inr raw \<Longrightarrow> bx_ReadSig B raw = Inr ks"
    and key: "\<And>pae sig. RecordSigner_Sign (sk_crypto (bx_sink B)) s pae = Inr sig \<Longrightarrow> sig \<noteq> [] \<and> verify (rsn_keyID s) pae sig = None"
  shows "VerifySignature B verify b = None \<and> CheckDecisions (bx_sink B) b = None"
proof -
  obtain entries d where p: "readAuditChainLines (bx_query B) audit q = Inr entries" "attach_record B e dir q (decision_of entries) = Inr d" "eb_Decision b = d"
      "\<exists>b0. Sign_bundle B (rsn_keyID s) (RecordSigner_Sign (sk_crypto (bx_sink B)) s) b0 = Inr b"
    by (rule Export_parts[OF assms(1)]) (use assms(2) that in simp)
  from p(4) obtain b0 where "Sign_bundle B (rsn_keyID s) (RecordSigner_Sign (sk_crypto (bx_sink B)) s) b0 = Inr b" by blast
  then have "VerifySignature B verify b = None" using codec key by (rule Sign_bundle_verifies) blast+
  moreover from attach_record_Inr[OF p(2) decision_of_fields(1)] have "CheckDecisions (bx_sink B) b = None"
    using p(3) by (cases "ed_Record d") (auto simp: CheckDecisions_def)
  ultimately show ?thesis ..
qed

section \<open>Canonical form\<close>

lemma canonicalize_id [simp]: "canonicalize t = t"
proof (induction t rule: canonicalize.induct)
  case (1 ms)
  then show ?case by (auto intro!: map_idI)
next
  case (2 js)
  then show ?case by (auto intro!: map_idI)
qed simp_all

text \<open>Two trees that differ in the order of the members of their objects, whose keys are distinct in a decoded map.\<close>

inductive reordered :: "json \<Rightarrow> json \<Rightarrow> bool" where
  same: "reordered v v"
| arr: "list_all2 reordered js js' \<Longrightarrow> reordered (JArr js) (JArr js')"
| obj: "list_all2 (\<lambda>m m'. fst m = fst m' \<and> reordered (snd m) (snd m')) ms ms1 \<Longrightarrow> mset ms1 = mset ms' \<Longrightarrow> distinct (map fst ms)
    \<Longrightarrow> reordered (JObj ms) (JObj ms')"
  monos list_all2_mono

lemma sort_members_reordered: "reordered t t' \<Longrightarrow> sort_members t = sort_members t'"
proof (induction rule: reordered.induct)
  case (arr js js')
  then have "map sort_members js = map sort_members js'" by (induction rule: list_all2_induct) auto
  then show ?case by simp
next
  case (obj ms ms1 ms')
  let ?f = "\<lambda>(k, v). (k, sort_members v)"
  have eq: "map ?f ms = map ?f ms1 \<and> map fst ms = map fst ms1" using obj(1) by (induction rule: list_all2_induct) auto
  have "mset (map ?f ms1) = mset (map ?f ms')" using obj(2) by (metis mset_map)
  moreover have "inj_on fst (set (map ?f ms1))"
  proof -
    have "map fst (map ?f ms1) = map fst ms1" by (auto simp: case_prod_beta)
    then have "distinct (map fst (map ?f ms1))" using conjunct2[OF eq] obj(3) by metis
    then show ?thesis by (simp only: distinct_map)
  qed
  ultimately have "sort_key fst (map ?f ms1) = sort_key fst (map ?f ms')"
    by (intro sort_key_inj_key_eq) simp_all
  then show ?case using eq by simp
qed simp

text \<open>Canonical JSON does not depend on the iteration order of maps: bundles whose trees differ only in the order of members have the same canonical bytes, at
  every depth.\<close>

theorem canonical_json_unordered:
  assumes "bx_Tree B b = Inr t" "bx_Tree B b' = Inr t'" "reordered t t'"
  shows "CanonicalJSON B b = CanonicalJSON B b'"
  using assms sort_members_reordered[OF assms(3)] by (simp add: CanonicalJSON_def)

section \<open>Witnesses\<close>

definition example_hash :: "bytes \<Rightarrow> bytes" where
  "example_hash x = take 32 (x @ replicate 32 CHR ''.'')"

definition example_bundle_env :: bundle_env where
  "example_bundle_env = \<lparr>bx_sink = example_sink\<lparr>sk_crypto := example_crypto\<lparr>Sum256 := example_hash\<rparr>\<rparr>,
     bx_query = \<lparr>qe_Unmarshal = (\<lambda>l. Some \<lparr>sa_Entry = zero_entry\<lparr>ent_Time := l, ent_RecordDigest := EncodeToString ''h''\<rparr>, sa_TST = []\<rparr>),
       qe_ParseTime = (\<lambda>s. Some 1)\<rparr>,
     bx_supervision = example_sve, bx_Tree = (\<lambda>b. Inr (JObj [(''b'', JNull), (''a'', JStr (mf_BundleID (eb_Manifest b)))])), bx_Print = (\<lambda>j. Inr ''json''),
     bx_SigJSON = (\<lambda>ks. if ks = (''k'', ''sig'') then Inr ''s'' else Inl ''unsupported''), bx_ReadSig = (\<lambda>b. Inr (''k'', ''sig'')),
     bx_FormatNano = (\<lambda>t. ''t''), bx_FormatSecond = (\<lambda>t. ''t''), bx_StepUp = ''step_up'', bx_BreakGlass = ''break_glass''\<rparr>"

definition example_exporter :: evidence_exporter where
  "example_exporter = \<lparr>fe_EvidenceDir = ''d'', fe_Generator = [], fe_Signer = Some \<lparr>rsn_keyID = ''k'', rsn_public = RKEcdsa ''pub'',
     rsn_SignMessage = (\<lambda>m. Inr ''sig''), rsn_SignDigest = (\<lambda>m. Inr ''sig'')\<rparr>\<rparr>"

definition example_evidence_query :: evidence_query where
  "example_evidence_query = \<lparr>eq_OperationID = [], eq_DaHash = [], eq_AgentID = [], eq_TimeRange = None, eq_IncludeSupervision = True, eq_Record = None\<rparr>"

definition example_data :: bytes where
  "example_data = ''a'' @ [newline] @ ''b'' @ [newline]"

definition example_lines :: "(audit_entry \<times> bytes) list" where
  "example_lines = map (\<lambda>l. (zero_entry\<lparr>ent_Time := l, ent_RecordDigest := EncodeToString ''h''\<rparr>, l)) [''a'', ''b'']"

definition example_export :: "export_error + evidence_bundle" where
  "example_export = Export example_bundle_env example_exporter ''op-1'' 5 (Inr example_data) FileMissing
     (Inr [(''r.json'', False, Inr ''t.'')]) example_evidence_query"

lemma example_read: "readAuditChainLines (bx_query example_bundle_env) (Inr example_data) example_evidence_query = Inr example_lines"
proof -
  have split: "go_Split newline example_data = [''a'', ''b'', []]" by code_simp
  have trim: "TrimSpace ''a'' = ''a''" "TrimSpace ''b'' = ''b''" "TrimSpace [] = []" by code_simp+
  show ?thesis
    by (simp add: readAuditChainLines_def scanner_overflows_def fitting_lines_def split scanner_max_def List.map_filter_simps chain_line_def Let_def trim
        matchesAuditQuery_def example_evidence_query_def example_bundle_env_def example_lines_def)
qed

lemma example_resolved:
  "resolveRecordByDigest (bx_sink example_bundle_env) (Inr [(''r.json'', False, Inr ''t.'')]) (EncodeToString ''h'') = Inr example_record"
proof -
  have "HasSuffix ''r.json'' ''.json''" by code_simp
  then show ?thesis
    by (simp add: resolveRecordByDigest_def LoadEvidenceRecord_def loadEvidenceEnvelope_def example_bundle_env_def example_sink_def
        example_evidence_ops_def example_record_def)
qed

lemma example_exported: obtains b where "example_export = Inr b"
proof -
  let ?d = "decision_of example_lines"
  have "ed_RecordDigest ?d = EncodeToString ''h''" by (simp add: decision_of_def example_lines_def Let_def)
  then obtain d where d: "attach_record example_bundle_env example_exporter (Inr [(''r.json'', False, Inr ''t.'')]) example_evidence_query ?d = Inr d"
    using example_resolved
    by (simp add: attach_record_def ApplyRecord_def example_evidence_query_def example_exporter_def)
      (simp add: example_bundle_env_def example_sink_def)
  obtain s where s: "fe_Signer example_exporter = Some s" by (simp add: example_exporter_def)
  then have "rsn_keyID s = ''k'' \<and> (\<forall>C m. RecordSigner_Sign C s m = Inr ''sig'')" by (auto simp: example_exporter_def RecordSigner_Sign_def)
  then have sign: "\<exists>b. Sign_bundle example_bundle_env (rsn_keyID s) (RecordSigner_Sign C s) b0 = Inr b" for b0 C
    by (simp add: Sign_bundle_def SigningBytes_def CanonicalJSON_def example_bundle_env_def)
  have events: "(if eq_IncludeSupervision example_evidence_query then readSupervisionLines example_bundle_env FileMissing example_evidence_query else Inr [])
      = Inr []" by (simp add: readSupervisionLines_def)
  have dec: "eb_Decision (fillFromAudit example_bundle_env b example_lines q now) = ?d" for b q now by (simp add: fillFromAudit_def)
  have "\<exists>b. example_export = Inr b"
    unfolding example_export_def Export_def Let_def example_read sum.case dec d events s option.case by (rule sign)
  then show thesis using that by blast
qed

theorem export_chain_committed_witness:
  "\<exists>b. example_export = Inr b \<and> map eae_EntryHash (eac_Entries (eb_AuditChain b)) = [entry_hash example_hash ''a'', entry_hash example_hash ''b'']"
proof -
  obtain b where b: "example_export = Inr b" by (rule example_exported)
  have ne: "example_lines \<noteq> []" by (simp add: example_lines_def)
  have H: "example_hash = Sum256 (sk_crypto (bx_sink example_bundle_env))" "\<And>x. length (example_hash x) = 32"
    by (simp_all add: example_bundle_env_def example_hash_def)
  have "map (entry_hash example_hash \<circ> snd) example_lines = [entry_hash example_hash ''a'', entry_hash example_hash ''b'']"
    by (simp add: example_lines_def)
  then show ?thesis using conjunct1[OF conjunct2[OF export_chain_committed[OF b[unfolded example_export_def] example_read ne H]]] b by metis
qed


theorem exported_bundle_verifies_witness:
  "\<exists>b. example_export = Inr b \<and> VerifySignature example_bundle_env (\<lambda>k m sig. if sig = ''sig'' then None else Some ''bad'') b = None"
proof -
  obtain b where b: "example_export = Inr b" by (rule example_exported)
  obtain s where s: "fe_Signer example_exporter = Some s" "s = \<lparr>rsn_keyID = ''k'', rsn_public = RKEcdsa ''pub'',
     rsn_SignMessage = (\<lambda>m. Inr ''sig''), rsn_SignDigest = (\<lambda>m. Inr ''sig'')\<rparr>" by (simp add: example_exporter_def)
  have "VerifySignature example_bundle_env (\<lambda>k m sig. if sig = ''sig'' then None else Some ''bad'') b = None
      \<and> CheckDecisions (bx_sink example_bundle_env) b = None"
    by (rule exported_bundle_verifies[OF b[unfolded example_export_def] s(1)])
      (auto simp: example_bundle_env_def s(2) RecordSigner_Sign_def split: if_splits)
  then show ?thesis using b by blast
qed

theorem canonical_json_unordered_witness:
  "CanonicalJSON example_bundle_env (new_bundle example_exporter ''op-1'' 5)
     = CanonicalJSON example_bundle_env (new_bundle example_exporter ''op-1'' 6)"
  by (rule canonical_json_unordered[OF _ _ reordered.obj[of "[(''b'', JNull), (''a'', JStr ''evidence-1'')]" "[(''b'', JNull), (''a'', JStr ''evidence-1'')]"]])
    (simp_all add: example_bundle_env_def new_bundle_def reordered.same del: mset.simps)

end
