(* ===== verification/Evidence_Render.thy ===== *)
theory Evidence_Render
  imports Evidence_Bundle
begin

text \<open>
  Renderings of an evidence bundle for readers (\<^verbatim>\<open>src/evidence_render.go\<close>): the rows every format shares, plain text, Markdown tables and CSV.
  The output is the text written, the writer does not fail. Of \<^verbatim>\<open>encoding/csv\<close> the quoting is written out, with the ASCII spaces.
\<close>

section \<open>Rows\<close>

record bundle_row =
  br_section :: string
  br_field :: string
  br_value :: string

definition row :: "string \<Rightarrow> string \<Rightarrow> string \<Rightarrow> bundle_row list" where
  "row section field value = (if value = [] then [] else [\<lparr>br_section = section, br_field = field, br_value = value\<rparr>])"

definition manifest_rows :: "bundle_env \<Rightarrow> evidence_manifest \<Rightarrow> bundle_row list" where
  "manifest_rows B m =
     row ''manifest'' ''schema'' (mf_Schema m @ '' '' @ mf_Version m) @ row ''manifest'' ''bundleId'' (mf_BundleID m)
     @ row ''manifest'' ''exportedAt'' (bx_FormatSecond B (mf_ExportedAt m)) @ row ''manifest'' ''generator'' (mf_Generator m)
     @ row ''manifest'' ''hashAlg'' (mf_HashAlg m) @ row ''manifest'' ''policyRef'' (mf_PolicyRef m)"

definition operation_rows :: "evidence_operation \<Rightarrow> bundle_row list" where
  "operation_rows p =
     row ''operation'' ''operationId'' (eo_OperationID p) @ row ''operation'' ''action'' (eo_Action p) @ row ''operation'' ''resource'' (eo_Resource p)
     @ row ''operation'' ''outcome'' (eo_Outcome p) @ row ''operation'' ''startedAt'' (eo_StartedAt p) @ row ''operation'' ''finishedAt'' (eo_FinishedAt p)"

definition subject_rows :: "evidence_subject \<Rightarrow> bundle_row list" where
  "subject_rows s =
     row ''subject'' ''agentId'' (es_AgentID s) @ row ''subject'' ''keyBinding'' (es_KeyBinding s)
     @ row ''subject'' ''transportIdentity'' (es_TransportIdentity s) @ row ''subject'' ''presentedCredentialRef'' (es_PresentedCredentialRef s)"

definition authorization_rows :: "evidence_authorization \<Rightarrow> bundle_row list" where
  "authorization_rows a =
     row ''authorization'' ''principal'' (ea_Principal a) @ row ''authorization'' ''delegationMode'' (ea_DelegationMode a)
     @ (case ea_GrantRef a of None \<Rightarrow> [] | Some g \<Rightarrow>
          row ''authorization'' ''grantRef.ref'' (gr_Ref g) @ row ''authorization'' ''grantRef.digest'' (gr_Digest g))
     @ (if ea_Capabilities a = [] then [] else row ''authorization'' ''capabilities'' (go_Join (map ecap_CapabilityID (ea_Capabilities a)) '' ''))
     @ row ''authorization'' ''constraints'' (ea_Constraints a) @ row ''authorization'' ''ceiling'' (ea_Ceiling a)
     @ row ''authorization'' ''validFrom'' (ea_ValidFrom a) @ row ''authorization'' ''expiresAt'' (ea_ExpiresAt a)"

definition decision_rows :: "evidence_decision \<Rightarrow> bundle_row list" where
  "decision_rows d =
     row ''decision'' ''decision'' (ed_Decision d) @ row ''decision'' ''recordDigest'' (ed_RecordDigest d)
     @ row ''decision'' ''matchedPolicy'' (ed_MatchedPolicy d) @ row ''decision'' ''reasonCodes'' (go_Join (ed_ReasonCodes d) '' '')
     @ row ''decision'' ''evaluatedCapabilities'' (go_Join (ed_EvaluatedCapabilities d) '' '') @ row ''decision'' ''pdpContext'' (ed_PdpContext d)"

definition dec_int :: "int \<Rightarrow> string" where
  "dec_int i = (if i < 0 then ''-'' @ dec_nat (nat (- i)) else dec_nat (nat i))"

fun supervision_rows :: "nat \<Rightarrow> evidence_supervision_event list \<Rightarrow> bundle_row list" where
  "supervision_rows i [] = []"
| "supervision_rows i (s # ss) =
     row ''supervision'' (dec_nat (i + 1) @ ''.'' @ ese_Type s) (TrimSpace (ese_OccurredAt s @ '' '' @ ese_Actor s)) @ supervision_rows (Suc i) ss"

definition chain_rows :: "evidence_audit_chain \<Rightarrow> bundle_row list" where
  "chain_rows c =
     row ''auditChain'' ''anchor'' (eac_Anchor c) @ row ''auditChain'' ''merkleRoot'' (eac_MerkleRoot c) @ row ''auditChain'' ''tsa'' (eac_TSA c)
     @ concat (map (\<lambda>e. row ''auditChain'' (''entry['' @ dec_int (eae_Seq e) @ '']'')
         (eae_Action e @ '' '' @ eae_Actor e @ '' '' @ eae_Ts e @ '' '' @ eae_EntryHash e)) (eac_Entries c))"

definition bundleRows :: "bundle_env \<Rightarrow> evidence_bundle option \<Rightarrow> bundle_row list" where
  "bundleRows B bundle =
     (case bundle of None \<Rightarrow> [] | Some b \<Rightarrow>
      manifest_rows B (eb_Manifest b) @ operation_rows (eb_Operation b) @ subject_rows (eb_Subject b) @ authorization_rows (eb_Authorization b)
      @ decision_rows (eb_Decision b) @ supervision_rows 0 (eb_Supervision b) @ chain_rows (eb_AuditChain b)
      @ concat (map (\<lambda>s. row ''signature'' ''keyID'' (fst s)) (eb_Signatures b)))"

section \<open>Formats\<close>

abbreviation lf :: char where "lf \<equiv> CHR 0x0A"
abbreviation cr :: char where "cr \<equiv> CHR 0x0D"
abbreviation quote :: char where "quote \<equiv> CHR 0x22"
abbreviation backslash :: char where "backslash \<equiv> CHR 0x5C"

definition field_needs_quotes :: "string \<Rightarrow> bool" where
  "field_needs_quotes f \<longleftrightarrow> f \<noteq> [] \<and> (f = [backslash, CHR ''.''] \<or> (\<exists>c \<in> set f. c \<in> {CHR '','', quote, cr, lf}) \<or> isSpace (hd f))"

definition csv_field :: "string \<Rightarrow> string" where
  "csv_field f =
     (if field_needs_quotes f then [quote] @ concat (map (\<lambda>c. if c = quote then [quote, quote] else [c]) f) @ [quote] else f)"

definition csv_line :: "string list \<Rightarrow> string" where
  "csv_line fs = go_Join (map csv_field fs) '','' @ [lf]"

definition row_fields :: "bundle_row \<Rightarrow> string list" where
  "row_fields r = [br_section r, br_field r, br_value r]"

definition RenderCSV :: "bundle_env \<Rightarrow> evidence_bundle option \<Rightarrow> string" where
  "RenderCSV B b = concat (map csv_line ([''section'', ''field'', ''value''] # map row_fields (bundleRows B b)))"

fun text_rows :: "string \<Rightarrow> bundle_row list \<Rightarrow> string" where
  "text_rows section [] = []"
| "text_rows section (r # rs) =
     (if br_section r \<noteq> section then ''['' @ br_section r @ '']'' @ [lf] else [])
     @ ''  '' @ br_field r @ '': '' @ br_value r @ [lf] @ text_rows (br_section r) rs"

definition RenderText :: "bundle_env \<Rightarrow> evidence_bundle \<Rightarrow> string" where
  "RenderText B b = ''Evidence bundle '' @ mf_BundleID (eb_Manifest b) @ [lf, lf] @ text_rows [] (bundleRows B (Some b))"

fun crlf_spaces :: "string \<Rightarrow> string" where
  "crlf_spaces (c # d # s) = (if c = cr \<and> d = lf then CHR '' '' # crlf_spaces s else c # crlf_spaces (d # s))"
| "crlf_spaces s = s"

definition mdCell :: "string \<Rightarrow> string" where
  "mdCell s =
     (let s1 = crlf_spaces s; s2 = map (\<lambda>c. if c = lf then CHR '' '' else c) s1; s3 = map (\<lambda>c. if c = cr then CHR '' '' else c) s2
      in concat (map (\<lambda>c. if c = CHR ''|'' then [backslash, CHR ''|''] else [c]) s3))"

definition md_row :: "string \<Rightarrow> string \<Rightarrow> string" where
  "md_row f v = ''| '' @ mdCell f @ '' | '' @ mdCell v @ '' |''"

fun markdown_rows :: "string \<Rightarrow> bool \<Rightarrow> bundle_row list \<Rightarrow> string" where
  "markdown_rows section opened [] = (if opened then [lf] else [])"
| "markdown_rows section opened (r # rs) =
     (if br_section r \<noteq> section
      then (if opened then [lf] else []) @ ''## '' @ mdCell (br_section r) @ [lf, lf] @ ''| field | value |'' @ [lf] @ ''|---|---|'' @ [lf] else [])
     @ md_row (br_field r) (br_value r) @ [lf] @ markdown_rows (br_section r) (opened \<or> br_section r \<noteq> section) rs"

definition RenderMarkdown :: "bundle_env \<Rightarrow> evidence_bundle \<Rightarrow> string" where
  "RenderMarkdown B b =
     ''# Evidence bundle `'' @ mdCell (mf_BundleID (eb_Manifest b)) @ ''`'' @ [lf, lf] @ markdown_rows [] False (bundleRows B (Some b))"

definition Render :: "bundle_env \<Rightarrow> evidence_bundle \<Rightarrow> string \<Rightarrow> export_error + string" where
  "Render B b format =
     (if format = [] \<or> format = ''markdown'' then Inr (RenderMarkdown B b) else if format = ''csv'' then Inr (RenderCSV B (Some b))
      else if format = ''text'' then Inr (RenderText B b) else Inl (UnknownFormat format))"

text \<open>The file is created or truncated before anything is rendered.\<close>

definition WriteRendered ::
    "bundle_env \<Rightarrow> (string \<Rightarrow> string option) \<Rightarrow> evidence_bundle \<Rightarrow> string \<Rightarrow> string \<Rightarrow> (string \<rightharpoonup> bytes) \<Rightarrow> (string + unit) \<times> (string \<rightharpoonup> bytes)" where
  "WriteRendered B openErr b path format files =
     (case openErr path of Some e \<Rightarrow> (Inl e, files) | None \<Rightarrow>
      case Render B b format of Inl e \<Rightarrow> (Inl ''unknown render format'', files(path \<mapsto> [])) | Inr out \<Rightarrow> (Inr (), files(path \<mapsto> out)))"

section \<open>Reading the table back\<close>

text \<open>A reader of quoted tables: fields are separated by commas, records end with a line feed, a quoted field ends at a quote that is not doubled.\<close>

fun quoted_field :: "string \<Rightarrow> string \<times> string" where
  "quoted_field [] = ([], [])"
| "quoted_field [c] = (if c = quote then ([], []) else ([c], []))"
| "quoted_field (c # d # s) =
     (if c = quote then (if d = quote then (case quoted_field s of (f, r) \<Rightarrow> (quote # f, r)) else ([], d # s))
      else (case quoted_field (d # s) of (f, r) \<Rightarrow> (c # f, r)))"

definition csv_next :: "string \<Rightarrow> string \<times> string" where
  "csv_next s =
     (case s of [] \<Rightarrow> ([], []) | c # r \<Rightarrow>
      if c = quote then quoted_field r else (takeWhile (\<lambda>c. c \<noteq> CHR '','' \<and> c \<noteq> lf) s, dropWhile (\<lambda>c. c \<noteq> CHR '','' \<and> c \<noteq> lf) s))"

lemma quoted_field_shorter: "length (snd (quoted_field s)) \<le> length s"
  by (induction s rule: quoted_field.induct) (auto split: prod.splits)

lemma csv_next_shorter: "length (snd (csv_next s)) \<le> length s"
  using quoted_field_shorter by (cases s) (auto simp: csv_next_def le_SucI length_dropWhile_le)

lemma csv_next_rest: "(f, d # r) = csv_next s \<Longrightarrow> length r < length s"
  using csv_next_shorter[of s] by (metis Suc_le_lessD length_Cons snd_conv)

function csv_read :: "string list \<Rightarrow> string \<Rightarrow> string list list" where
  "csv_read acc s =
     (if s = [] then []
      else case csv_next s of (f, rest) \<Rightarrow>
        (case rest of [] \<Rightarrow> [acc @ [f]] | d # r \<Rightarrow> if d = lf then (acc @ [f]) # csv_read [] r else csv_read (acc @ [f]) r))"
  by pat_completeness auto
termination by (relation "measure (\<lambda>(acc, s). length s)") (auto dest!: csv_next_rest)

declare csv_read.simps [simp del]

lemma quoted_field_ends:
  assumes "d \<noteq> quote"
  shows "quoted_field (concat (map (\<lambda>c. if c = quote then [quote, quote] else [c]) f) @ quote # d # r) = (f, d # r)"
proof (induction f)
  case (Cons c f)
  let ?rest = "concat (map (\<lambda>c. if c = quote then [quote, quote] else [c]) f) @ quote # d # r"
  obtain e s where "?rest = e # s" by (cases ?rest) auto
  then show ?case using Cons by auto
qed (use assms in simp)

lemma csv_next_field:
  assumes "d = CHR '','' \<or> d = lf"
  shows "csv_next (csv_field f @ d # r) = (f, d # r)"
proof (cases "field_needs_quotes f")
  case True
  moreover have "d \<noteq> quote" using assms by auto
  ultimately show ?thesis using quoted_field_ends[of d f r] by (simp add: csv_field_def csv_next_def)
next
  case False
  then have raw: "csv_field f = f" by (simp add: csv_field_def)
  have nq: "c \<notin> {CHR '','', quote, cr, lf}" if "c \<in> set f" for c
  proof -
    from that have "f \<noteq> []" by (cases f) simp_all
    with False that show ?thesis unfolding field_needs_quotes_def by blast
  qed
  have f: "\<forall>c \<in> set f. c \<noteq> CHR '','' \<and> c \<noteq> lf" "f = [] \<or> hd f \<noteq> quote" using nq[OF hd_in_set] nq by blast+
  define P where "P = (\<lambda>c. c \<noteq> CHR '','' \<and> c \<noteq> lf)"
  have "\<And>c. c \<in> set f \<Longrightarrow> P c" "\<not> P d" using f(1) assms by (auto simp: P_def)
  then have "takeWhile P (f @ d # r) = f" "dropWhile P (f @ d # r) = d # r" by (simp_all add: takeWhile_append2 dropWhile_append2)
  moreover obtain e s where "f @ d # r = e # s" "e \<noteq> quote" using f(2) assms by (cases f) auto
  ultimately show ?thesis unfolding csv_next_def raw P_def by simp
qed

lemma csv_read_line: "csv_read acc (csv_line (f # fs) @ r) = (acc @ f # fs) # csv_read [] r"
proof (induction fs arbitrary: acc f)
  case Nil
  then show ?case using csv_next_field[of lf f r] by (subst csv_read.simps) (simp add: csv_line_def)
next
  case (Cons g fs)
  have "csv_line (f # g # fs) @ r = csv_field f @ CHR '','' # (csv_line (g # fs) @ r)" by (simp add: csv_line_def)
  then show ?case using csv_next_field[of "CHR '',''" f "csv_line (g # fs) @ r"] Cons.IH[of "acc @ [f]" g]
    by (subst csv_read.simps) simp
qed

text \<open>The table an auditor downloads is exact: read back, the CSV rendering gives the header and one record for each row of the bundle, with section,
  field and value unchanged, whatever commas, quotes or line breaks they contain.\<close>

theorem csv_lossless: "csv_read [] (RenderCSV B b) = [''section'', ''field'', ''value''] # map row_fields (bundleRows B b)"
proof -
  have "csv_read [] (concat (map csv_line (map row_fields rs))) = map row_fields rs" for rs
    by (induction rs) (simp_all add: csv_read.simps[of "[]" "[]"] row_fields_def csv_read_line)
  then show ?thesis by (simp add: RenderCSV_def csv_read_line)
qed

section \<open>Markdown and text\<close>

lemma crlf_spaces_no_new: "c \<in> set (crlf_spaces s) \<Longrightarrow> c \<in> insert (CHR '' '') (set s)"
  by (induction s rule: crlf_spaces.induct) (auto split: if_splits)

lemma mdCell_one_line: "lf \<notin> set (mdCell s)" "cr \<notin> set (mdCell s)"
  by (auto simp: mdCell_def Let_def split: if_splits)

text \<open>The cells of a table line: a backslash escapes the character after it, a bare pipe separates.\<close>

fun md_cells :: "string \<Rightarrow> string \<Rightarrow> string list" where
  "md_cells acc [] = [acc]"
| "md_cells acc [c] = (if c = CHR ''|'' then [acc, []] else [acc @ [c]])"
| "md_cells acc (c # d # s) =
     (if c = backslash then md_cells (acc @ [d]) s else if c = CHR ''|'' then acc # md_cells [] (d # s) else md_cells (acc @ [c]) (d # s))"

lemma md_cells_text:
  assumes "backslash \<notin> set s" "t \<noteq> []"
  shows "md_cells acc (concat (map (\<lambda>c. if c = CHR ''|'' then [backslash, CHR ''|''] else [c]) s) @ t) = md_cells (acc @ s) t"
  using assms
proof (induction s arbitrary: acc)
  case (Cons c s)
  let ?rest = "concat (map (\<lambda>c. if c = CHR ''|'' then [backslash, CHR ''|''] else [c]) s) @ t"
  obtain e u where "?rest = e # u" using Cons.prems(2) by (cases ?rest) auto
  then show ?case using Cons by auto
qed simp

lemma md_cells_step:
  assumes "t \<noteq> []"
  shows "c \<noteq> backslash \<Longrightarrow> c \<noteq> CHR ''|'' \<Longrightarrow> md_cells acc (c # t) = md_cells (acc @ [c]) t" "md_cells acc (CHR ''|'' # t) = acc # md_cells [] t"
  using assms by (cases t; simp)+

definition flat :: "string \<Rightarrow> string" where
  "flat s = map (\<lambda>c. if c = cr \<or> c = lf then CHR '' '' else c) (crlf_spaces s)"

lemma mdCell_flat: "mdCell s = concat (map (\<lambda>c. if c = CHR ''|'' then [backslash, CHR ''|''] else [c]) (flat s))"
  by (simp add: mdCell_def flat_def Let_def comp_def) (rule arg_cong[of _ _ concat], auto)

text \<open>A row without backslashes stays one row of two cells, with line breaks as spaces.\<close>

lemma md_row_intact:
  assumes "backslash \<notin> set f" "backslash \<notin> set v"
  shows "md_cells [] (md_row f v) = [[], '' '' @ flat f @ '' '', '' '' @ flat v @ '' '', []]"
proof -
  have "backslash \<notin> set (flat s)" if "backslash \<notin> set s" for s
    using that crlf_spaces_no_new[of backslash s] by (auto simp: flat_def)
  then have "md_cells acc (mdCell s @ t) = md_cells (acc @ flat s) t" if "backslash \<notin> set s" "t \<noteq> []" for acc s t
    using that md_cells_text[of "flat s"] by (simp add: mdCell_flat)
  then show ?thesis using assms by (simp add: md_row_def md_cells_step)
qed

text \<open>A value with a backslash before a pipe ends its cell early: the escape written in front of the pipe is escaped itself.\<close>

lemma md_backslash_breaks: "md_cells [] (md_row ''actor'' [backslash, CHR ''|'', CHR ''x'']) = [[], '' actor '', [CHR '' '', backslash], ''x '', []]"
  by (simp add: md_row_def mdCell_def Let_def)

text \<open>In plain text a line break in a value forges a section.\<close>

lemma text_forged:
  "text_rows [] [\<lparr>br_section = ''subject'', br_field = ''agentId'', br_value = ''a'' @ [lf] @ ''[decision]'' @ [lf] @ ''  decision: allow''\<rparr>]
   = text_rows [] [\<lparr>br_section = ''subject'', br_field = ''agentId'', br_value = ''a''\<rparr>, \<lparr>br_section = ''decision'', br_field = ''decision'', br_value = ''allow''\<rparr>]"
  by simp

text \<open>Asking for an unknown format empties the file that was there.\<close>

lemma unknown_format_truncates:
  assumes "openErr path = None" "format \<notin> {[], ''markdown'', ''csv'', ''text''}"
  shows "\<exists>e. WriteRendered B openErr b path format files = (Inl e, files(path \<mapsto> []))"
  using assms by (simp add: WriteRendered_def Render_def)

end
