(* ===== verification/Timestamp.thy ===== *)
theory Timestamp
  imports Audit_Log
begin

text \<open>
  The time-stamp client (\<^verbatim>\<open>src/tsa.go\<close>): requests to an authority, the decoding of a signed token element by element and its verification. The reading
  of one DER element follows \<^verbatim>\<open>encoding/asn1\<close>; decoding of structures, certificates, signatures and the HTTP exchange are parameters. Texts of errors
  are left out.
\<close>

section \<open>DER elements\<close>

record raw_value =
  rv_Class :: nat
  rv_Tag :: nat
  rv_Compound :: bool
  rv_Bytes :: bytes
  rv_FullBytes :: bytes

abbreviation octet :: "char \<Rightarrow> nat" where "octet c \<equiv> of_char c"

fun base128 :: "nat \<Rightarrow> nat \<Rightarrow> bytes \<Rightarrow> (nat \<times> bytes) option" where
  "base128 shifted acc [] = None"
| "base128 shifted acc (c # rest) =
     (if shifted = 5 \<or> (shifted = 0 \<and> octet c = 128) then None
      else let acc' = acc * 128 + octet c mod 128 in
        if octet c < 128 then (if acc' > 2 ^ 31 - 1 then None else Some (acc', rest))
        else base128 (Suc shifted) acc' rest)"

fun der_length :: "nat \<Rightarrow> nat \<Rightarrow> bytes \<Rightarrow> (nat \<times> bytes) option" where
  "der_length 0 acc rest = (if acc < 128 then None else Some (acc, rest))"
| "der_length (Suc n) acc [] = None"
| "der_length (Suc n) acc (c # rest) =
     (if acc \<ge> 2 ^ 23 then None
      else let acc' = acc * 256 + octet c in if acc' = 0 then None else der_length n acc' rest)"

definition der_tag :: "char \<Rightarrow> bytes \<Rightarrow> (nat \<times> bytes) option" where
  "der_tag c rest =
     (if octet c mod 32 \<noteq> 31 then Some (octet c mod 32, rest)
      else case base128 0 0 rest of None \<Rightarrow> None | Some (t, rest') \<Rightarrow> if t < 31 then None else Some (t, rest'))"

definition parseTagAndLength :: "bytes \<Rightarrow> (nat \<times> nat \<times> bool \<times> nat \<times> bytes) option" where
  "parseTagAndLength b =
     (case b of [] \<Rightarrow> None | c # rest \<Rightarrow>
      case der_tag c rest of None \<Rightarrow> None | Some (t, rest1) \<Rightarrow>
      case rest1 of [] \<Rightarrow> None | l # rest2 \<Rightarrow>
      case (if octet l < 128 then Some (octet l, rest2) else if octet l = 128 then None else der_length (octet l - 128) 0 rest2) of
        None \<Rightarrow> None
      | Some (n, rest3) \<Rightarrow> Some (octet c div 64, t, octet c mod 64 \<ge> 32, n, rest3))"

definition asn1_raw :: "bytes \<Rightarrow> (raw_value \<times> bytes) option" where
  "asn1_raw b =
     (case parseTagAndLength b of None \<Rightarrow> None | Some (cls, t, compound, n, body) \<Rightarrow>
      if n > length body then None
      else Some (\<lparr>rv_Class = cls, rv_Tag = t, rv_Compound = compound, rv_Bytes = take n body,
                  rv_FullBytes = take (length b - (length body - n)) b\<rparr>, drop n body))"

lemma base128_shorter: "base128 k acc b = Some (t, rest) \<Longrightarrow> length rest < length b"
  by (induction k acc b rule: base128.induct) (auto simp: Let_def split: if_splits)

lemma der_length_shorter: "der_length k acc b = Some (n, rest) \<Longrightarrow> length rest \<le> length b"
  by (induction k acc b rule: der_length.induct) (auto simp: Let_def split: if_splits)

lemma asn1_raw_shorter: "asn1_raw b = Some (el, rest) \<Longrightarrow> length rest < length b"
  by (auto simp: asn1_raw_def parseTagAndLength_def der_tag_def dest!: base128_shorter der_length_shorter
      split: option.splits list.splits if_splits prod.splits)

section \<open>Tokens\<close>

definition oidTSTInfo :: oid where "oidTSTInfo = [1, 2, 840, 113549, 1, 9, 16, 1, 4]"
definition oidSignedData :: oid where "oidSignedData = [1, 2, 840, 113549, 1, 7, 2]"
definition oidContentType :: oid where "oidContentType = [1, 2, 840, 113549, 1, 9, 3]"
definition oidMessageDigest :: oid where "oidMessageDigest = [1, 2, 840, 113549, 1, 9, 4]"
definition oidSha256 :: oid where "oidSha256 = [2, 16, 840, 1, 101, 3, 4, 2, 1]"
definition oidEcdsaSha256 :: oid where "oidEcdsaSha256 = [1, 2, 840, 10045, 4, 3, 2]"
definition oidRsaSha256 :: oid where "oidRsaSha256 = [1, 2, 840, 113549, 1, 1, 11]"

record time_stamp_req =
  tq_Version :: int
  tq_HashAlgorithm :: oid
  tq_HashedMessage :: bytes
  tq_CertReq :: bool

text \<open>Of the token information: what the client reads.\<close>

record tst_info =
  tst_HashedMessage :: bytes
  tst_GenTime :: instant

text \<open>A missing object identifier is empty. \<open>si_SignedAttrsSet\<close> is missing when the attributes were not read.\<close>

record signer_info =
  si_DigestAlgorithm :: oid
  si_SignatureAlgo :: oid
  si_SignedAttrsRaw :: bytes
  si_SignedAttrsSet :: "bytes option"
  si_MessageDigest :: bytes
  si_ContentType :: oid
  si_SignatureValue :: bytes

type_synonym attribute = "oid \<times> raw_value list"

record tsa_env =
  ta_ContentInfo :: "bytes \<Rightarrow> (oid \<times> bytes) option"
  ta_EncapContent :: "bytes \<Rightarrow> (oid \<times> bytes) option"
  ta_TSTInfo :: "bytes \<Rightarrow> tst_info option"
  ta_Attribute :: "bytes \<Rightarrow> attribute option"
  ta_SetOf :: "attribute list \<Rightarrow> bytes option"
  ta_OID :: "bytes \<Rightarrow> oid option"
  ta_Algorithm :: "bytes \<Rightarrow> oid option"
  ta_Elements :: "bytes \<Rightarrow> raw_value list option"
  ta_ParseCert :: "bytes \<Rightarrow> certificate option"
  ta_ReadCert :: "string \<Rightarrow> string + certificate"
  ta_TimeStamping :: "certificate \<Rightarrow> bool"
  ta_IsCA :: "certificate \<Rightarrow> bool"
  ta_VerifyChain :: "certificate \<Rightarrow> certificate list \<Rightarrow> instant \<Rightarrow> certificate \<Rightarrow> string option"
  ta_EcdsaSig :: "bytes \<Rightarrow> (int \<times> int) option"
  ta_EcdsaVerify :: "bytes \<Rightarrow> bytes \<Rightarrow> int \<times> int \<Rightarrow> bool"
  ta_MarshalRequest :: "time_stamp_req \<Rightarrow> string + bytes"
  ta_MarshalContent :: "oid \<Rightarrow> bytes \<Rightarrow> string + bytes"
  ta_Post :: "string \<Rightarrow> bytes \<Rightarrow> string + bytes"
  ta_Response :: "bytes \<Rightarrow> (int \<times> bytes) option"

record tsa_client =
  ts_URL :: string
  ts_CACert :: "certificate option"
  ts_SignFunc :: "(bytes \<Rightarrow> string + bytes) option"
  ts_maxTSTAge :: int

datatype tsa_error =
  TsaNotConfigured | ParseContentInfo | NotSignedData oid | ParseSignedData | NotSequence | ParseElement nat | ParseEncap | NotTSTInfo oid
  | MissingEContent | ParseTSTInfo | ParseSignerInfo | HashMismatch | FutureTime | TooOld | NoTrustAnchor | NoTSACert | NoSuitableCert
  | ChainVerify string | NoSignerInfo | NoSigner | WrongContentType oid | DigestMismatch | UnsupportedAlgorithm oid | WrongKey | BadSignatureForm
  | SignatureFailed | MarshalRequest string | MarshalContent string | SignFailed string | PostFailed string | ParseResponse | BadStatus int

definition NewTSAClient :: "string \<Rightarrow> tsa_client option" where
  "NewTSAClient url = (if url = [] then None else Some \<lparr>ts_URL = url, ts_CACert = None, ts_SignFunc = None, ts_maxTSTAge = hour\<rparr>)"

definition SetMaxTSTAge :: "int \<Rightarrow> tsa_client option \<Rightarrow> tsa_client option" where
  "SetMaxTSTAge d t = map_option (\<lambda>c. c\<lparr>ts_maxTSTAge := d\<rparr>) t"

definition SetCACert :: "tsa_env \<Rightarrow> string \<Rightarrow> tsa_client option \<Rightarrow> string option \<times> tsa_client option" where
  "SetCACert X certFile t =
     (case t of None \<Rightarrow> (None, t) | Some c \<Rightarrow>
      if certFile = [] then (None, t)
      else case ta_ReadCert X certFile of Inl e \<Rightarrow> (Some e, t) | Inr cert \<Rightarrow> (None, Some (c\<lparr>ts_CACert := Some cert\<rparr>)))"

section \<open>Requests\<close>

definition postTSA :: "tsa_env \<Rightarrow> tsa_client \<Rightarrow> bytes \<Rightarrow> tsa_error + bytes" where
  "postTSA X c reqData = (case ta_Post X (ts_URL c) reqData of Inl e \<Rightarrow> Inl (PostFailed e) | Inr body \<Rightarrow> Inr (take (2 ^ 20) body))"

definition tsa_Sign :: "tsa_env \<Rightarrow> crypto_ops \<Rightarrow> tsa_client option \<Rightarrow> bytes \<Rightarrow> tsa_error + bytes" where
  "tsa_Sign X C t data =
     (case t of None \<Rightarrow> Inl TsaNotConfigured | Some c \<Rightarrow>
      case ts_SignFunc c of Some f \<Rightarrow> (case f data of Inl e \<Rightarrow> Inl (SignFailed e) | Inr b \<Rightarrow> Inr b) | None \<Rightarrow>
      case ta_MarshalRequest X \<lparr>tq_Version = 1, tq_HashAlgorithm = oidSha256, tq_HashedMessage = Sum256 C data, tq_CertReq = True\<rparr> of
        Inl e \<Rightarrow> Inl (MarshalRequest e)
      | Inr reqDER \<Rightarrow>
      case ta_MarshalContent X oidTSTInfo reqDER of Inl e \<Rightarrow> Inl (MarshalContent e) | Inr body \<Rightarrow>
      case postTSA X c body of Inl e \<Rightarrow> Inl e | Inr respBody \<Rightarrow>
      case ta_Response X respBody of None \<Rightarrow> Inl ParseResponse | Some (status, token) \<Rightarrow>
      if status \<noteq> 0 \<and> status \<noteq> 1 then Inl (BadStatus status) else Inr token)"

section \<open>Decoding a token\<close>

function elements_loop :: "bytes \<Rightarrow> raw_value list option" where
  "elements_loop rest =
     (if rest = [] then Some []
      else case asn1_raw rest of None \<Rightarrow> None | Some (el, remaining) \<Rightarrow>
        (case elements_loop remaining of None \<Rightarrow> None | Some els \<Rightarrow> Some (el # els)))"
  by pat_completeness auto
termination by (relation "measure length") (auto dest: asn1_raw_shorter)

declare elements_loop.simps [simp del]

fun attributes_of :: "tsa_env \<Rightarrow> raw_value list \<Rightarrow> attribute list option" where
  "attributes_of X [] = Some []"
| "attributes_of X (el # els) =
     (case ta_Attribute X (rv_FullBytes el) of None \<Rightarrow> None | Some a \<Rightarrow>
      case attributes_of X els of None \<Rightarrow> None | Some as \<Rightarrow> Some (a # as))"

definition TagSet :: nat where "TagSet = 17"
definition TagSequence :: nat where "TagSequence = 16"
definition TagOctetString :: nat where "TagOctetString = 4"

definition parseSignedAttrs :: "tsa_env \<Rightarrow> bytes \<Rightarrow> attribute list option" where
  "parseSignedAttrs X data =
     (case asn1_raw data of None \<Rightarrow> None | Some (outer, _) \<Rightarrow>
      if rv_Tag outer \<noteq> TagSet then None
      else case elements_loop (rv_Bytes outer) of None \<Rightarrow> None | Some els \<Rightarrow> attributes_of X els)"

definition parseAlgorithmOID :: "tsa_env \<Rightarrow> bytes \<Rightarrow> oid" where
  "parseAlgorithmOID X data = (case ta_Algorithm X data of None \<Rightarrow> [] | Some o' \<Rightarrow> o')"

definition note_attribute :: "tsa_env \<Rightarrow> attribute \<Rightarrow> signer_info \<Rightarrow> signer_info" where
  "note_attribute X a si =
     (if fst a = oidContentType \<and> length (snd a) = 1 then
        (case ta_OID X (rv_FullBytes (hd (snd a))) of None \<Rightarrow> si | Some o' \<Rightarrow> si\<lparr>si_ContentType := o'\<rparr>)
      else if fst a = oidMessageDigest \<and> length (snd a) = 1 then si\<lparr>si_MessageDigest := rv_Bytes (hd (snd a))\<rparr>
      else si)"

definition zero_signer :: signer_info where
  "zero_signer = \<lparr>si_DigestAlgorithm = [], si_SignatureAlgo = [], si_SignedAttrsRaw = [], si_SignedAttrsSet = None, si_MessageDigest = [],
     si_ContentType = [], si_SignatureValue = []\<rparr>"

text \<open>The optional attributes, an element with the tag byte \<open>0xA0\<close>.\<close>

definition signed_attributes :: "tsa_env \<Rightarrow> raw_value \<Rightarrow> signer_info" where
  "signed_attributes X raw =
     (let si = zero_signer\<lparr>si_SignedAttrsRaw := rv_FullBytes raw\<rparr> in
      case parseSignedAttrs X (rv_Bytes raw) of None \<Rightarrow> si | Some attrs \<Rightarrow>
        fold (note_attribute X) attrs (si\<lparr>si_SignedAttrsSet := ta_SetOf X attrs\<rparr>))"

definition parseSignerInfo :: "tsa_env \<Rightarrow> bytes \<Rightarrow> signer_info option" where
  "parseSignerInfo X data =
     (case asn1_raw data of None \<Rightarrow> None | Some (version, rest1) \<Rightarrow>
      case asn1_raw rest1 of None \<Rightarrow> None | Some (sid, rest2) \<Rightarrow>
      case asn1_raw rest2 of None \<Rightarrow> None | Some (digestAlgo, rest3) \<Rightarrow>
      case (if rest3 \<noteq> [] \<and> octet (hd rest3) = 0xA0
            then (case asn1_raw rest3 of None \<Rightarrow> None | Some (raw, rest) \<Rightarrow> Some (signed_attributes X raw, rest))
            else Some (zero_signer, rest3)) of None \<Rightarrow> None | Some (si, rest4) \<Rightarrow>
      case asn1_raw rest4 of None \<Rightarrow> None | Some (sigAlgo, rest5) \<Rightarrow>
      case asn1_raw rest5 of None \<Rightarrow> None | Some (sig, rest6) \<Rightarrow>
        Some (si\<lparr>si_DigestAlgorithm := parseAlgorithmOID X (rv_FullBytes digestAlgo), si_SignatureAlgo := parseAlgorithmOID X (rv_FullBytes sigAlgo),
                 si_SignatureValue := rv_Bytes sig\<rparr>))"

fun certs_loop :: "tsa_env \<Rightarrow> raw_value list \<Rightarrow> certificate list" where
  "certs_loop X els = List.map_filter (\<lambda>el. ta_ParseCert X (rv_FullBytes el)) els"

text \<open>The elements before the first malformed one.\<close>

function good_elements :: "bytes \<Rightarrow> raw_value list" where
  "good_elements rest =
     (if rest = [] then [] else case asn1_raw rest of None \<Rightarrow> [] | Some (el, remaining) \<Rightarrow> el # good_elements remaining)"
  by pat_completeness auto
termination by (relation "measure length") (auto dest: asn1_raw_shorter)

declare good_elements.simps [simp del]

definition parseCertificatesFromRaw :: "tsa_env \<Rightarrow> bytes \<Rightarrow> certificate list" where
  "parseCertificatesFromRaw X data =
     (let listed = (case ta_Elements X data of None \<Rightarrow> [] | Some els \<Rightarrow> certs_loop X els) in
      if listed \<noteq> [] then listed else certs_loop X (good_elements data))"

definition inner_content :: "bytes \<Rightarrow> bytes" where
  "inner_content content =
     (case asn1_raw content of None \<Rightarrow> content | Some (el, _) \<Rightarrow> if rv_Tag el = TagOctetString then rv_Bytes el else content)"

definition certificates_of :: "tsa_env \<Rightarrow> bytes \<Rightarrow> certificate list \<times> bytes" where
  "certificates_of X rest =
     (if rest \<noteq> [] \<and> octet (hd rest) = 0xA0
      then (case asn1_raw rest of None \<Rightarrow> ([], rest) | Some (raw, newRest) \<Rightarrow> (parseCertificatesFromRaw X (rv_Bytes raw), newRest))
      else ([], rest))"

text \<open>The first signer; an unreadable set of signers counts as none, an unreadable signer is an error.\<close>

definition signer_of :: "tsa_env \<Rightarrow> bytes \<Rightarrow> tsa_error + signer_info option" where
  "signer_of X rest =
     (case asn1_raw rest of None \<Rightarrow> Inr None | Some (infos, _) \<Rightarrow>
      if rv_Tag infos \<noteq> TagSet then Inr None
      else case asn1_raw (rv_Bytes infos) of None \<Rightarrow> Inr None | Some (si, _) \<Rightarrow>
      case parseSignerInfo X (rv_Bytes si) of None \<Rightarrow> Inl ParseSignerInfo | Some s \<Rightarrow> Inr (Some s))"

definition extractTSTInfoFromCMS ::
    "tsa_env \<Rightarrow> bytes \<Rightarrow> tsa_error + tst_info \<times> certificate list \<times> signer_info option \<times> bytes" where
  "extractTSTInfoFromCMS X tstDER =
     (case ta_ContentInfo X tstDER of None \<Rightarrow> Inl ParseContentInfo | Some (ty, content) \<Rightarrow>
      if ty \<noteq> oidSignedData then Inl (NotSignedData ty)
      else case asn1_raw content of None \<Rightarrow> Inl ParseSignedData | Some (sd, _) \<Rightarrow>
      if rv_Tag sd \<noteq> TagSequence then Inl NotSequence
      else case asn1_raw (rv_Bytes sd) of None \<Rightarrow> Inl (ParseElement 0) | Some (_, rest1) \<Rightarrow>
      case asn1_raw rest1 of None \<Rightarrow> Inl (ParseElement 1) | Some (_, rest2) \<Rightarrow>
      case asn1_raw rest2 of None \<Rightarrow> Inl (ParseElement 2) | Some (eciRaw, rest3) \<Rightarrow>
      case ta_EncapContent X (rv_FullBytes eciRaw) of None \<Rightarrow> Inl ParseEncap | Some (ety, econtent) \<Rightarrow>
      if ety \<noteq> oidTSTInfo then Inl (NotTSTInfo ety)
      else if econtent = [] then Inl MissingEContent
      else let eContent = inner_content econtent in
      case ta_TSTInfo X eContent of None \<Rightarrow> Inl ParseTSTInfo | Some info \<Rightarrow>
      case certificates_of X rest3 of (certs, rest4) \<Rightarrow>
      case signer_of X rest4 of Inl e \<Rightarrow> Inl e | Inr si \<Rightarrow> Inr (info, certs, si, eContent))"

definition UnmarshalTimestampToken :: "tsa_env \<Rightarrow> bytes \<Rightarrow> tsa_error + tst_info" where
  "UnmarshalTimestampToken X data = (case extractTSTInfoFromCMS X data of Inl e \<Rightarrow> Inl e | Inr (info, _) \<Rightarrow> Inr info)"

section \<open>Verification\<close>

text \<open>The position of the authority's certificate: the first for time stamping, else the first that is no authority, else the first.\<close>

definition findTSACert :: "tsa_env \<Rightarrow> certificate list \<Rightarrow> nat option" where
  "findTSACert X certs =
     (case List.find (\<lambda>i. ta_TimeStamping X (certs ! i)) [0..<length certs] of Some i \<Rightarrow> Some i | None \<Rightarrow>
      case List.find (\<lambda>i. \<not> ta_IsCA X (certs ! i)) [0..<length certs] of Some i \<Rightarrow> Some i | None \<Rightarrow>
      if certs \<noteq> [] then Some 0 else None)"

definition verifyTSACertChain :: "tsa_env \<Rightarrow> instant \<Rightarrow> certificate list \<Rightarrow> certificate \<Rightarrow> tsa_error option" where
  "verifyTSACertChain X now certs caCert =
     (case findTSACert X certs of None \<Rightarrow> Some NoSuitableCert | Some i \<Rightarrow>
      case ta_VerifyChain X caCert (take i certs @ drop (Suc i) certs) now (certs ! i) of Some e \<Rightarrow> Some (ChainVerify e) | None \<Rightarrow> None)"

definition verifyECDSASignatureRaw :: "tsa_env \<Rightarrow> bytes \<Rightarrow> bytes \<Rightarrow> certificate \<Rightarrow> tsa_error option" where
  "verifyECDSASignatureRaw X digest sig cert =
     (case cert_PublicKey cert of
        ECDSAKey k \<Rightarrow> (case ta_EcdsaSig X sig of None \<Rightarrow> Some BadSignatureForm | Some rs \<Rightarrow>
                       if ta_EcdsaVerify X k digest rs then None else Some SignatureFailed)
      | _ \<Rightarrow> Some WrongKey)"

definition verifyRSASignatureRaw :: "crypto_ops \<Rightarrow> bytes \<Rightarrow> bytes \<Rightarrow> certificate \<Rightarrow> tsa_error option" where
  "verifyRSASignatureRaw C digest sig cert =
     (case cert_PublicKey cert of RSAKey k \<Rightarrow> if RsaVerifyPKCS1v15 C k digest sig then None else Some SignatureFailed | _ \<Rightarrow> Some WrongKey)"

definition attributes_bound :: "crypto_ops \<Rightarrow> signer_info \<Rightarrow> bytes \<Rightarrow> tsa_error option" where
  "attributes_bound C si eContent =
     (if si_SignedAttrsSet si = None then None
      else if si_ContentType si \<noteq> oidTSTInfo then Some (WrongContentType (si_ContentType si))
      else if si_MessageDigest si \<noteq> Sum256 C eContent then Some DigestMismatch else None)"

definition verifyCMSSignature :: "tsa_env \<Rightarrow> crypto_ops \<Rightarrow> signer_info option \<Rightarrow> certificate list \<Rightarrow> bytes \<Rightarrow> tsa_error option" where
  "verifyCMSSignature X C si_opt certs eContent =
     (case si_opt of None \<Rightarrow> Some NoSignerInfo | Some si \<Rightarrow>
      case findTSACert X certs of None \<Rightarrow> Some NoSigner | Some i \<Rightarrow>
      case attributes_bound C si eContent of Some e \<Rightarrow> Some e | None \<Rightarrow>
      let digest = Sum256 C (case si_SignedAttrsSet si of None \<Rightarrow> eContent | Some attrs \<Rightarrow> attrs) in
      if si_SignatureAlgo si = oidEcdsaSha256 then verifyECDSASignatureRaw X digest (si_SignatureValue si) (certs ! i)
      else if si_SignatureAlgo si = oidRsaSha256 then verifyRSASignatureRaw C digest (si_SignatureValue si) (certs ! i)
      else Some (UnsupportedAlgorithm (si_SignatureAlgo si)))"

definition tsa_Verify :: "tsa_env \<Rightarrow> crypto_ops \<Rightarrow> instant \<Rightarrow> tsa_client option \<Rightarrow> bytes \<Rightarrow> bytes \<Rightarrow> tsa_error option" where
  "tsa_Verify X C now t entryJSON tstDER =
     (case t of None \<Rightarrow> Some TsaNotConfigured | Some c \<Rightarrow>
      case extractTSTInfoFromCMS X tstDER of Inl e \<Rightarrow> Some e | Inr (info, certs, si, eContent) \<Rightarrow>
      if tst_HashedMessage info \<noteq> Sum256 C entryJSON then Some HashMismatch
      else if tst_GenTime info > now + 5 * minute then Some FutureTime
      else if tst_GenTime info < now - ts_maxTSTAge c then Some TooOld
      else case ts_CACert c of None \<Rightarrow> Some NoTrustAnchor | Some ca \<Rightarrow>
      if certs = [] then Some NoTSACert
      else case verifyTSACertChain X now certs ca of Some e \<Rightarrow> Some e | None \<Rightarrow> verifyCMSSignature X C si certs eContent)"

section \<open>What a verified token shows\<close>

lemma find_upt: "List.find P [0..<n] = Some i \<Longrightarrow> i < n \<and> P i"
  by (auto simp: find_Some_iff)

lemma findTSACert_bound: "findTSACert X certs = Some i \<Longrightarrow> i < length certs"
  by (auto simp: findTSACert_def dest: find_upt split: option.splits if_splits)

text \<open>The signature of a certificate over a text, by the algorithm the signer names.\<close>

definition signature_holds :: "tsa_env \<Rightarrow> crypto_ops \<Rightarrow> signer_info \<Rightarrow> certificate \<Rightarrow> bytes \<Rightarrow> bool" where
  "signature_holds X C si cert text \<longleftrightarrow>
     (\<exists>k rs. si_SignatureAlgo si = oidEcdsaSha256 \<and> cert_PublicKey cert = ECDSAKey k \<and> ta_EcdsaSig X (si_SignatureValue si) = Some rs
        \<and> ta_EcdsaVerify X k (Sum256 C text) rs)
     \<or> (\<exists>k. si_SignatureAlgo si = oidRsaSha256 \<and> cert_PublicKey cert = RSAKey k \<and> RsaVerifyPKCS1v15 C k (Sum256 C text) (si_SignatureValue si))"

lemma checked_signature:
  assumes "(if si_SignatureAlgo si = oidEcdsaSha256 then verifyECDSASignatureRaw X (Sum256 C text) (si_SignatureValue si) cert
      else if si_SignatureAlgo si = oidRsaSha256 then verifyRSASignatureRaw C (Sum256 C text) (si_SignatureValue si) cert else Some e) = None"
  shows "signature_holds X C si cert text"
  using assms
  by (auto simp: signature_holds_def verifyECDSASignatureRaw_def verifyRSASignatureRaw_def split: option.splits if_splits public_key.splits)

lemma verifyCMSSignature_holds:
  assumes "verifyCMSSignature X C si_opt certs eContent = None" "findTSACert X certs = Some i"
  shows "\<exists>si. si_opt = Some si \<and> (case si_SignedAttrsSet si of
      None \<Rightarrow> signature_holds X C si (certs ! i) eContent
    | Some attrs \<Rightarrow> signature_holds X C si (certs ! i) attrs \<and> si_ContentType si = oidTSTInfo \<and> si_MessageDigest si = Sum256 C eContent)"
proof -
  obtain si where si: "si_opt = Some si" using assms(1) by (cases si_opt) (simp_all add: verifyCMSSignature_def)
  let ?text = "case si_SignedAttrsSet si of None \<Rightarrow> eContent | Some attrs \<Rightarrow> attrs"
  have bound: "attributes_bound C si eContent = None"
    using assms si by (cases "attributes_bound C si eContent") (simp_all add: verifyCMSSignature_def)
  then have "signature_holds X C si (certs ! i) ?text"
    using assms si by (intro checked_signature) (simp add: verifyCMSSignature_def Let_def)
  then show ?thesis using si bound by (auto simp: attributes_bound_def split: option.splits if_splits)
qed

lemma extract_content:
  assumes "extractTSTInfoFromCMS X tst = Inr (info, certs, si, eContent)"
  shows "ta_TSTInfo X eContent = Some info"
  using assms by (auto simp: extractTSTInfoFromCMS_def Let_def split: option.splits if_splits prod.splits sum.splits)

text \<open>C38. A token that verifies vouches for exactly this entry: the stamped content names the hash of the entry and a time no older than the window of the
  client and at most five minutes ahead; one certificate of the token verifies against the configured authority, and the signature made with its key covers
  the content, directly or through attributes that name the hash of the content and its type.\<close>

theorem verified_token_binds:
  assumes "tsa_Verify X C now t entry tst = None"
  shows "\<exists>c ca info certs si eContent signer. t = Some c \<and> ts_CACert c = Some ca \<and> extractTSTInfoFromCMS X tst = Inr (info, certs, Some si, eContent)
    \<and> ta_TSTInfo X eContent = Some info \<and> tst_HashedMessage info = Sum256 C entry
    \<and> now - ts_maxTSTAge c \<le> tst_GenTime info \<and> tst_GenTime info \<le> now + 5 * minute
    \<and> signer \<in> set certs \<and> (\<exists>others. set others \<subseteq> set certs \<and> ta_VerifyChain X ca others now signer = None)
    \<and> (case si_SignedAttrsSet si of
         None \<Rightarrow> signature_holds X C si signer eContent
       | Some attrs \<Rightarrow> signature_holds X C si signer attrs \<and> si_ContentType si = oidTSTInfo \<and> si_MessageDigest si = Sum256 C eContent)"
proof -
  obtain c where t: "t = Some c" using assms by (cases t) (simp_all add: tsa_Verify_def)
  obtain info certs si eContent where ex: "extractTSTInfoFromCMS X tst = Inr (info, certs, si, eContent)"
    using assms t by (cases "extractTSTInfoFromCMS X tst") (auto simp: tsa_Verify_def)
  obtain ca where ca: "ts_CACert c = Some ca" using assms t ex by (auto simp: tsa_Verify_def split: if_splits option.splits)
  have run: "tst_HashedMessage info = Sum256 C entry" "\<not> tst_GenTime info > now + 5 * minute" "\<not> tst_GenTime info < now - ts_maxTSTAge c"
    "verifyTSACertChain X now certs ca = None" "verifyCMSSignature X C si certs eContent = None"
    using assms t ex ca by (auto simp: tsa_Verify_def split: if_splits option.splits)
  obtain i where i: "findTSACert X certs = Some i" "ta_VerifyChain X ca (take i certs @ drop (Suc i) certs) now (certs ! i) = None"
    using run(4) by (auto simp: verifyTSACertChain_def split: option.splits)
  have "certs ! i \<in> set certs" using findTSACert_bound[OF i(1)] by simp
  moreover have "set (take i certs @ drop (Suc i) certs) \<subseteq> set certs" by (auto dest: in_set_takeD in_set_dropD)
  moreover obtain s where "si = Some s" "case si_SignedAttrsSet s of
      None \<Rightarrow> signature_holds X C s (certs ! i) eContent
    | Some attrs \<Rightarrow> signature_holds X C s (certs ! i) attrs \<and> si_ContentType s = oidTSTInfo \<and> si_MessageDigest s = Sum256 C eContent"
    using verifyCMSSignature_holds[OF run(5) i(1)] by blast
  ultimately have "\<exists>others. set others \<subseteq> set certs \<and> ta_VerifyChain X ca others now (certs ! i) = None" "certs ! i \<in> set certs" "si = Some s"
    "case si_SignedAttrsSet s of None \<Rightarrow> signature_holds X C s (certs ! i) eContent
     | Some attrs \<Rightarrow> signature_holds X C s (certs ! i) attrs \<and> si_ContentType s = oidTSTInfo \<and> si_MessageDigest s = Sum256 C eContent"
    using i(2) by blast+
  then show ?thesis using t ca ex extract_content[OF ex] run(1-3) unfolding not_less by blast
qed

text \<open>The age of a token is measured against the clock of the verifier, so an audit line stops verifying once the window has passed, one hour by default.\<close>

lemma stamped_line_expires:
  assumes "au_TSAVerify A = (\<lambda>d tst. map_option (\<lambda>e. ''tsa'') (tsa_Verify X C now (Some c) d tst))"
    and "au_UnmarshalSigned A line = Some se" "sa_TST se \<noteq> []" "au_DecodeBase64 A (sa_TST se) = Inr tst"
    and "extractTSTInfoFromCMS X tst = Inr (info, rest)" "tst_GenTime info + ts_maxTSTAge c < now"
  shows "VerifyAuditEntry A line \<noteq> None"
proof -
  have "tsa_Verify X C now (Some c) d tst \<noteq> None" for d
    using assms(5,6) by (cases rest) (simp add: tsa_Verify_def split: option.splits if_splits)
  then show ?thesis using assms(1-4) by (auto simp: VerifyAuditEntry_def split: option.splits)
qed

text \<open>An audit line that verifies either carries no token or a token for the hash of its entry, made within the window before the check.\<close>

theorem verified_line_stamped:
  assumes "au_TSAVerify A = (\<lambda>d tst. map_option (\<lambda>e. ''tsa'') (tsa_Verify X C now (Some c) d tst))"
    and "VerifyAuditEntry A line = None"
  shows "\<exists>se. au_UnmarshalSigned A line = Some se \<and> (sa_TST se \<noteq> [] \<longrightarrow> (\<exists>tst info rest. au_DecodeBase64 A (sa_TST se) = Inr tst
    \<and> extractTSTInfoFromCMS X tst = Inr (info, rest) \<and> tst_HashedMessage info = Sum256 C (au_MarshalEntry A (sa_Entry se))
    \<and> now - ts_maxTSTAge c \<le> tst_GenTime info \<and> tst_GenTime info \<le> now + 5 * minute))"
proof -
  obtain se where se: "au_UnmarshalSigned A line = Some se" using assms(2) by (auto simp: VerifyAuditEntry_def split: option.splits)
  have "\<exists>tst. au_DecodeBase64 A (sa_TST se) = Inr tst \<and> tsa_Verify X C now (Some c) (au_MarshalEntry A (sa_Entry se)) tst = None" if "sa_TST se \<noteq> []"
    using assms se that by (auto simp: VerifyAuditEntry_def split: sum.splits option.splits)
  moreover have "\<exists>info rest. extractTSTInfoFromCMS X tst = Inr (info, rest) \<and> tst_HashedMessage info = Sum256 C d
      \<and> now - ts_maxTSTAge c \<le> tst_GenTime info \<and> tst_GenTime info \<le> now + 5 * minute"
    if "tsa_Verify X C now (Some c) d tst = None" for d tst
    using that by (auto simp: tsa_Verify_def split: sum.splits if_splits)
  ultimately show ?thesis using se by blast
qed

text \<open>In the standard encoding the attributes follow the implicit tag directly, so the first element is a sequence. Such attributes are not read, and the
  signature is compared with the content and not with the attributes it was made over.\<close>

lemma standard_attributes_unread:
  assumes "asn1_raw (rv_Bytes raw) = Some (first, rest)" "rv_Tag first = TagSequence"
  shows "signed_attributes X raw = zero_signer\<lparr>si_SignedAttrsRaw := rv_FullBytes raw\<rparr>"
  using assms by (simp add: signed_attributes_def parseSignedAttrs_def TagSequence_def TagSet_def)

section \<open>Witnesses\<close>

text \<open>A token with one certificate and one signer without attributes.\<close>

definition example_token :: bytes where
  "example_token =
     [CHR 0x30, CHR 0x1B, CHR 0x02, CHR 0x01, CHR 0x03, CHR 0x31, CHR 0x00, CHR 0x30, CHR 0x00, CHR 0xA0, CHR 0x02, CHR 0x30, CHR 0x00, CHR 0x31, CHR 0x0E,
      CHR 0x30, CHR 0x0C, CHR 0x02, CHR 0x01, CHR 0x01, CHR 0x30, CHR 0x00, CHR 0x30, CHR 0x00, CHR 0x30, CHR 0x00, CHR 0x04, CHR 0x01, CHR 0x53]"

definition example_tsa :: tsa_env where
  "example_tsa =
     \<lparr>ta_ContentInfo = (\<lambda>b. Some (oidSignedData, b)), ta_EncapContent = (\<lambda>b. Some (oidTSTInfo, ''T'')),
      ta_TSTInfo = (\<lambda>b. Some \<lparr>tst_HashedMessage = ''entry'', tst_GenTime = 90\<rparr>), ta_Attribute = (\<lambda>b. None), ta_SetOf = (\<lambda>a. None),
      ta_OID = (\<lambda>b. None), ta_Algorithm = (\<lambda>b. Some oidEcdsaSha256), ta_Elements = (\<lambda>b. None), ta_ParseCert = (\<lambda>b. Some example_cert),
      ta_ReadCert = (\<lambda>f. Inr example_cert), ta_TimeStamping = (\<lambda>c. True), ta_IsCA = (\<lambda>c. False),
      ta_VerifyChain = (\<lambda>ca cs now c. if c = ca then None else Some ''unknown authority''), ta_EcdsaSig = (\<lambda>b. if b = ''S'' then Some (1, 2) else None),
      ta_EcdsaVerify = (\<lambda>k d rs. k = ''k''), ta_MarshalRequest = (\<lambda>r. Inr (tq_HashedMessage r)), ta_MarshalContent = (\<lambda>t b. Inr b),
      ta_Post = (\<lambda>u b. Inr b), ta_Response = (\<lambda>b. Some (0, b))\<rparr>"

definition example_tsa_client :: tsa_client where
  "example_tsa_client = \<lparr>ts_URL = ''http://tsa'', ts_CACert = Some example_cert, ts_SignFunc = None, ts_maxTSTAge = hour\<rparr>"

lemma asn1_raw_short:
  assumes "octet c mod 32 \<noteq> 31" "octet l < 128" "octet l \<le> length body"
  shows "asn1_raw (c # l # body) = Some (\<lparr>rv_Class = octet c div 64, rv_Tag = octet c mod 32, rv_Compound = (octet c mod 64 \<ge> 32),
      rv_Bytes = take (octet l) body, rv_FullBytes = c # l # take (octet l) body\<rparr>, drop (octet l) body)"
  using assms by (simp add: asn1_raw_def parseTagAndLength_def der_tag_def)

lemma example_parts:
  "asn1_raw ''T'' = None" "good_elements [CHR 0x30, CHR 0x00] = [\<lparr>rv_Class = 0, rv_Tag = 16, rv_Compound = True, rv_Bytes = [], rv_FullBytes = [CHR 0x30, CHR 0x00]\<rparr>]"
  by (simp add: asn1_raw_def parseTagAndLength_def der_tag_def) (simp add: good_elements.simps asn1_raw_short)

lemma example_extracted:
  "extractTSTInfoFromCMS example_tsa example_token
     = Inr (\<lparr>tst_HashedMessage = ''entry'', tst_GenTime = 90\<rparr>, [example_cert],
         Some (zero_signer\<lparr>si_DigestAlgorithm := oidEcdsaSha256, si_SignatureAlgo := oidEcdsaSha256, si_SignatureValue := ''S''\<rparr>), ''T'')"
  by (simp add: extractTSTInfoFromCMS_def example_token_def asn1_raw_short TagSequence_def certificates_of_def parseCertificatesFromRaw_def signer_of_def
      TagSet_def parseSignerInfo_def inner_content_def example_parts parseAlgorithmOID_def example_tsa_def map_filter_def)

theorem verified_token_binds_witness:
  "tsa_Verify example_tsa example_crypto 100 (Some example_tsa_client) ''entry'' example_token = None
   \<and> (\<exists>info rest. extractTSTInfoFromCMS example_tsa example_token = Inr (info, rest) \<and> 100 - hour \<le> tst_GenTime info)"
proof -
  have x: "ta_TimeStamping example_tsa example_cert" "ta_VerifyChain example_tsa example_cert [] 100 example_cert = None"
    "ta_EcdsaSig example_tsa ''S'' = Some (1, 2)" "ta_EcdsaVerify example_tsa ''k'' d (1, 2)" for d
    by (simp_all add: example_tsa_def)
  have "findTSACert example_tsa [example_cert] = Some 0" by (simp add: findTSACert_def x)
  moreover have "cert_PublicKey example_cert = ECDSAKey ''k''" "Sum256 example_crypto ''entry'' = ''entry''"
    by (simp_all add: example_cert_def example_crypto_def)
  ultimately have v: "tsa_Verify example_tsa example_crypto 100 (Some example_tsa_client) ''entry'' example_token = None"
    by (simp add: tsa_Verify_def example_extracted example_tsa_client_def hour_def minute_def second_def verifyTSACertChain_def verifyCMSSignature_def
        attributes_bound_def zero_signer_def verifyECDSASignatureRaw_def x)
  from verified_token_binds[OF v] v show ?thesis by (auto simp: example_tsa_client_def)
qed

end
