(* ===== verification/Wire.thy ===== *)
theory Wire
  imports Admin
begin

text \<open>
  The wire form of a decision (\<^verbatim>\<open>src/payload.go\<close>) and the gRPC binding (\<^verbatim>\<open>src/grpc/grpc.go\<close>): the documents for a request view and for an outcome, the
  service around the decision server and the reference client. JSON, certificate parsing and the ASN.1 form of an AIC are
  parameters; the gRPC framework is modelled as far as its contract goes, as a carrier of encoded documents with an optional interceptor.
\<close>

section \<open>Documents\<close>

record decide_request =
  dq_CertChainDER :: "bytes list"
  dq_BearerToken :: string
  dq_TransportSecure :: bool
  dq_VerifiedCertDER :: bytes
  dq_Method :: string
  dq_Path :: string
  dq_RawQuery :: string
  dq_Headers :: http_header
  dq_ClientIP :: string
  dq_Body :: bytes

record decide_result =
  dx_Granted :: bool
  dx_Code :: string
  dx_Status :: int
  dx_Message :: string
  dx_Principal :: string
  dx_AgentID :: string
  dx_SpiffeID :: string
  dx_Roles :: "string list"
  dx_Capabilities :: "string list"
  dx_AICDER :: bytes
  dx_Bearer :: bool
  dx_Serial :: string
  dx_Verdict :: verdict
  dx_Reason :: string
  dx_Unresolved :: "string list"
  dx_OperationDecisions :: "operation_decision list"
  dx_Evidence :: "record_ref list"
  dx_Satisfaction :: "requirement_result option"
  dx_ClientCertDER :: bytes

text \<open>The context a peer reconstructs; its certificate may be missing.\<close>

record received_context =
  rx_ClientCert :: "certificate option"
  rx_Principal :: string
  rx_AgentID :: string
  rx_SPIFFEID :: string
  rx_Roles :: "string list"
  rx_Capabilities :: "string list"
  rx_AIC :: "aic option"
  rx_Bearer :: bool
  rx_Serial :: string
  rx_Verdict :: verdict
  rx_Reason :: string
  rx_Unresolved :: "string list"
  rx_OperationDecisions :: "operation_decision list"
  rx_Evidence :: "record_ref list"
  rx_Satisfaction :: "requirement_result option"

record wire_env =
  wx_ParseCert :: "bytes \<Rightarrow> string + certificate"
  wx_MarshalAIC :: "aic \<Rightarrow> string + bytes"
  wx_UnmarshalAIC :: "bytes \<Rightarrow> string + aic"
  wx_RequestJSON :: "decide_request \<Rightarrow> string + bytes"
  wx_ReadRequest :: "bytes \<Rightarrow> string + decide_request"
  wx_ResultJSON :: "decide_result \<Rightarrow> string + bytes"
  wx_ReadResult :: "bytes \<Rightarrow> string + decide_result"

definition wrapped :: "string \<Rightarrow> string + 'a \<Rightarrow> string + 'a" where
  "wrapped what r = (case r of Inl e \<Rightarrow> Inl (what @ '': '' @ e) | Inr x \<Rightarrow> Inr x)"

lemma wrapped_simps [simp]: "wrapped what (Inl e) = Inl (what @ '': '' @ e)" "wrapped what (Inr x) = Inr x" "wrapped what r = Inr x \<longleftrightarrow> r = Inr x"
  by (cases r; simp add: wrapped_def)+

fun parse_chain :: "wire_env \<Rightarrow> nat \<Rightarrow> bytes list \<Rightarrow> string + certificate list" where
  "parse_chain W i [] = Inr []"
| "parse_chain W i (der # rest) =
     (case wrapped (''aic-verifier: parse chain cert '' @ dec_nat i) (wx_ParseCert W der) of Inl e \<Rightarrow> Inl e | Inr c \<Rightarrow>
      case parse_chain W (Suc i) rest of Inl e \<Rightarrow> Inl e | Inr cs \<Rightarrow> Inr (c # cs))"

definition ToView :: "wire_env \<Rightarrow> decide_request \<Rightarrow> string + request_view" where
  "ToView W d =
     (let v = zero_view\<lparr>vw_Method := dq_Method d, vw_Path := dq_Path d, vw_RawQuery := dq_RawQuery d, vw_Header := dq_Headers d,
                vw_ClientIP := dq_ClientIP d, vw_Body := dq_Body d, vw_BearerToken := dq_BearerToken d, vw_TransportSecure := dq_TransportSecure d\<rparr>
      in case parse_chain W 0 (dq_CertChainDER d) of Inl e \<Rightarrow> Inl e | Inr chain \<Rightarrow>
         let v1 = v\<lparr>vw_CertChain := chain, vw_PresentedCert := (if dq_CertChainDER d = [] then None else Some (hd chain))\<rparr> in
         if dq_VerifiedCertDER d = [] then Inr v1
         else case wrapped ''aic-verifier: parse verified cert'' (wx_ParseCert W (dq_VerifiedCertDER d)) of Inl e \<Rightarrow> Inl e | Inr c \<Rightarrow> Inr (v1\<lparr>vw_VerifiedCert := Some c\<rparr>))"

definition zero_request :: decide_request where
  "zero_request = \<lparr>dq_CertChainDER = [], dq_BearerToken = [], dq_TransportSecure = False, dq_VerifiedCertDER = [], dq_Method = [], dq_Path = [],
     dq_RawQuery = [], dq_Headers = [], dq_ClientIP = [], dq_Body = []\<rparr>"

definition ToDTO :: "request_view option \<Rightarrow> decide_request" where
  "ToDTO view =
     (case view of None \<Rightarrow> zero_request | Some v \<Rightarrow>
      \<lparr>dq_CertChainDER = map cert_Raw (vw_CertChain v), dq_BearerToken = vw_BearerToken v, dq_TransportSecure = vw_TransportSecure v,
       dq_VerifiedCertDER = (case vw_VerifiedCert v of None \<Rightarrow> [] | Some c \<Rightarrow> cert_Raw c), dq_Method = vw_Method v, dq_Path = vw_Path v,
       dq_RawQuery = vw_RawQuery v, dq_Headers = vw_Header v, dq_ClientIP = vw_ClientIP v, dq_Body = vw_Body v\<rparr>)"

definition zero_result :: decide_result where
  "zero_result = \<lparr>dx_Granted = False, dx_Code = [], dx_Status = 0, dx_Message = [], dx_Principal = [], dx_AgentID = [], dx_SpiffeID = [], dx_Roles = [],
     dx_Capabilities = [], dx_AICDER = [], dx_Bearer = False, dx_Serial = [], dx_Verdict = VerdictOther [], dx_Reason = [], dx_Unresolved = [],
     dx_OperationDecisions = [], dx_Evidence = [], dx_Satisfaction = None, dx_ClientCertDER = []\<rparr>"

text \<open>A missing context still marks the document as granted.\<close>

definition FromAuthContext :: "wire_env \<Rightarrow> auth_context option \<Rightarrow> decide_result \<Rightarrow> decide_result" where
  "FromAuthContext W context d =
     (case context of None \<Rightarrow> d\<lparr>dx_Granted := True\<rparr> | Some ac \<Rightarrow>
     d\<lparr>dx_Granted := True, dx_Principal := ctx_Principal ac, dx_AgentID := ctx_AgentID ac, dx_SpiffeID := ctx_SPIFFEID ac, dx_Roles := ctx_Roles ac,
       dx_Capabilities := ctx_Capabilities ac, dx_Bearer := ctx_Bearer ac, dx_Serial := ctx_Serial ac, dx_Verdict := ctx_Verdict ac,
       dx_Reason := ctx_Reason ac, dx_Unresolved := ctx_Unresolved ac, dx_OperationDecisions := ctx_OperationDecisions ac,
       dx_Evidence := ctx_Evidence ac, dx_Satisfaction := ctx_Satisfaction ac, dx_ClientCertDER := cert_Raw (ctx_ClientCert ac),
       dx_AICDER := (case ctx_AIC ac of None \<Rightarrow> dx_AICDER d | Some x \<Rightarrow> (case wx_MarshalAIC W x of Inl e \<Rightarrow> dx_AICDER d | Inr der \<Rightarrow> der))\<rparr>)"

text \<open>The context of a document, \<open>None\<close> for a denial.\<close>

definition ToAuthContext :: "wire_env \<Rightarrow> decide_result \<Rightarrow> string + received_context option" where
  "ToAuthContext W d =
     (if \<not> dx_Granted d then Inr None
      else let ac = \<lparr>rx_ClientCert = None, rx_Principal = dx_Principal d, rx_AgentID = dx_AgentID d, rx_SPIFFEID = dx_SpiffeID d, rx_Roles = dx_Roles d,
             rx_Capabilities = dx_Capabilities d, rx_AIC = None, rx_Bearer = dx_Bearer d, rx_Serial = dx_Serial d, rx_Verdict = dx_Verdict d,
             rx_Reason = dx_Reason d, rx_Unresolved = dx_Unresolved d, rx_OperationDecisions = dx_OperationDecisions d, rx_Evidence = dx_Evidence d,
             rx_Satisfaction = dx_Satisfaction d\<rparr> in
        case (if dx_ClientCertDER d = [] then Inr None
              else case wrapped ''aic-verifier: parse client cert'' (wx_ParseCert W (dx_ClientCertDER d)) of Inl e \<Rightarrow> Inl e | Inr c \<Rightarrow> Inr (Some c)) of Inl e \<Rightarrow> Inl e | Inr cert \<Rightarrow>
        case (if dx_AICDER d = [] then Inr None
              else case wrapped ''aic-verifier: parse aic der'' (wx_UnmarshalAIC W (dx_AICDER d)) of Inl e \<Rightarrow> Inl e | Inr x \<Rightarrow> Inr (Some x)) of Inl e \<Rightarrow> Inl e | Inr x \<Rightarrow>
          Inr (Some (ac\<lparr>rx_ClientCert := cert, rx_AIC := x\<rparr>)))"

definition ParseErrorCode :: "string \<Rightarrow> error_code option" where
  "ParseErrorCode s =
     (if s = ''no_credential'' then Some ErrNoCredential else if s = ''access_denied'' then Some ErrDenied
      else if s = ''bearer_not_configured'' then Some ErrNoVerifier else if s = ''bearer_tls_required'' then Some ErrBearerNeedsTLS
      else if s = ''invalid_bearer'' then Some ErrInvalidBearer else if s = ''chain_invalid'' then Some ErrChainInvalid
      else if s = ''config_error'' then Some ErrConfig else None)"

text \<open>An error of the decision is an admission failure or any other error, which the code turns into one.\<close>

datatype go_error = Auth auth_error | Other string

definition AsAuthError :: "go_error option \<Rightarrow> auth_error" where
  "AsAuthError err = (case err of Some (Auth e) \<Rightarrow> e | None \<Rightarrow> plain_error ErrDenied StatusForbidden ''admission failed''
     | Some (Other msg) \<Rightarrow> plain_error ErrDenied StatusForbidden msg)"

definition denial_result :: "auth_error \<Rightarrow> decide_result" where
  "denial_result ae = zero_result\<lparr>dx_Code := ErrorCode_String (aer_Code ae), dx_Status := aer_Status ae, dx_Message := aer_Message ae\<rparr>"

section \<open>Encoding and decoding\<close>

definition EncodeDecideRequest :: "wire_env \<Rightarrow> request_view option \<Rightarrow> string + bytes" where
  "EncodeDecideRequest W v = wx_RequestJSON W (ToDTO v)"

definition DecodeDecideRequest :: "wire_env \<Rightarrow> bytes \<Rightarrow> string + request_view" where
  "DecodeDecideRequest W b = (case wrapped ''aic-verifier: decode decide request'' (wx_ReadRequest W b) of Inl e \<Rightarrow> Inl e | Inr d \<Rightarrow> ToView W d)"

definition EncodeDecideResult :: "wire_env \<Rightarrow> auth_context option \<Rightarrow> go_error option \<Rightarrow> string + bytes" where
  "EncodeDecideResult W ac err =
     wx_ResultJSON W (case err of Some e \<Rightarrow> denial_result (AsAuthError (Some e)) | None \<Rightarrow> FromAuthContext W ac zero_result)"

definition received_error :: "decide_result \<Rightarrow> int \<Rightarrow> auth_error" where
  "received_error d status = plain_error (case ParseErrorCode (dx_Code d) of None \<Rightarrow> ErrDenied | Some c \<Rightarrow> c) status (dx_Message d)"

definition DecodeDecideResult :: "wire_env \<Rightarrow> bytes \<Rightarrow> string + (auth_error + received_context option)" where
  "DecodeDecideResult W b =
     (case wrapped ''aic-verifier: decode decide result'' (wx_ReadResult W b) of Inl e \<Rightarrow> Inl e | Inr d \<Rightarrow>
      if \<not> dx_Granted d then Inr (Inl (received_error d (dx_Status d)))
      else case ToAuthContext W d of Inl e \<Rightarrow> Inl e | Inr ac \<Rightarrow> Inr (Inr ac))"

section \<open>The gRPC service\<close>

definition service_error :: "int \<Rightarrow> string \<Rightarrow> decide_result" where
  "service_error status msg = zero_result\<lparr>dx_Code := ErrorCode_String ErrConfig, dx_Status := status, dx_Message := msg\<rparr>"

definition DecisionService_Decide ::
    "wire_env \<Rightarrow> auth_env \<Rightarrow> auth_call \<Rightarrow> decide_request option \<Rightarrow> decision_server option \<Rightarrow> decide_result \<times> decision_server option" where
  "DecisionService_Decide W E cl req core =
     (case core of None \<Rightarrow> (service_error 500 ''aic-verifier: decision core not configured'', core) | Some ds \<Rightarrow>
      case req of None \<Rightarrow> (service_error 422 ''aic-verifier: nil decide request'', core) | Some d \<Rightarrow>
      case ToView W d of Inl e \<Rightarrow> (service_error 422 e, core) | Inr view \<Rightarrow>
      case Decide E cl (Some view) (ds_a ds) of (r, a) \<Rightarrow>
        (case r of Inl ae \<Rightarrow> denial_result (AsAuthError (Some (Auth ae))) | Inr ac \<Rightarrow> FromAuthContext W (Some ac) zero_result, Some (ds\<lparr>ds_a := a\<rparr>)))"

text \<open>\<open>dec\<close> is the decoding of the message; an interceptor gets the request and the handler.\<close>

type_synonym rpc_handler = "decide_request \<Rightarrow> decision_server option \<Rightarrow> (string + decide_result) \<times> decision_server option"

definition grpcDecideHandler ::
    "wire_env \<Rightarrow> auth_env \<Rightarrow> auth_call \<Rightarrow> string + decide_request \<Rightarrow> (rpc_handler \<Rightarrow> rpc_handler) option \<Rightarrow> decision_server option
     \<Rightarrow> (string + decide_result) \<times> decision_server option" where
  "grpcDecideHandler W E cl dec interceptor core =
     (case dec of Inl e \<Rightarrow> (Inl e, core) | Inr d \<Rightarrow>
      let handler = (\<lambda>req c. case DecisionService_Decide W E cl (Some req) c of (res, c') \<Rightarrow> (Inr res, c')) in
      case interceptor of None \<Rightarrow> handler d core | Some f \<Rightarrow> f handler d core)"

text \<open>A call over the wire: the registered codec encodes the request and the answer.\<close>

definition Invoke ::
    "wire_env \<Rightarrow> auth_env \<Rightarrow> auth_call \<Rightarrow> (rpc_handler \<Rightarrow> rpc_handler) option \<Rightarrow> decide_request \<Rightarrow> decision_server option
     \<Rightarrow> (string + decide_result) \<times> decision_server option" where
  "Invoke W E cl interceptor req core =
     (case wx_RequestJSON W req of Inl e \<Rightarrow> (Inl e, core) | Inr b \<Rightarrow>
      case grpcDecideHandler W E cl (wx_ReadRequest W b) interceptor core of
        (Inl e, core') \<Rightarrow> (Inl e, core')
      | (Inr res, core') \<Rightarrow>
          (case wx_ResultJSON W res of Inl e \<Rightarrow> Inl e | Inr b' \<Rightarrow> wx_ReadResult W b', core'))"

text \<open>The client; \<open>call\<close> is the connection.\<close>

definition DecisionClient_Decide ::
    "wire_env \<Rightarrow> (decide_request \<Rightarrow> 's \<Rightarrow> (string + decide_result) \<times> 's) \<Rightarrow> request_view option \<Rightarrow> 's \<Rightarrow> (auth_error + received_context option) \<times> 's" where
  "DecisionClient_Decide W call view s =
     (case call (ToDTO view) s of
        (Inl e, s') \<Rightarrow> (Inl (plain_error ErrDenied 502 (''aic-verifier: grpc decision call failed: '' @ e)), s')
      | (Inr res, s') \<Rightarrow>
          (if \<not> dx_Granted res then Inl (received_error res (if dx_Status res = 0 then StatusForbidden else dx_Status res))
           else case ToAuthContext W res of
                  Inl e \<Rightarrow> Inl (plain_error ErrDenied 502 (''aic-verifier: decode grpc decision: '' @ e))
                | Inr ac \<Rightarrow> Inr ac, s'))"

section \<open>Round trips\<close>

text \<open>What the encoders promise of a document: its JSON text is read back as it was written, which holds of valid UTF-8; a certificate is parsed from its
  own bytes; an AIC is read back from its ASN.1 form.\<close>

definition carries_request :: "wire_env \<Rightarrow> decide_request \<Rightarrow> bool" where
  "carries_request W d \<longleftrightarrow> (\<exists>b. wx_RequestJSON W d = Inr b \<and> wx_ReadRequest W b = Inr d)"

definition carries_result :: "wire_env \<Rightarrow> decide_result \<Rightarrow> bool" where
  "carries_result W d \<longleftrightarrow> (\<exists>b. wx_ResultJSON W d = Inr b \<and> wx_ReadResult W b = Inr d)"

definition sendable_cert :: "wire_env \<Rightarrow> certificate \<Rightarrow> bool" where
  "sendable_cert W c \<longleftrightarrow> cert_Raw c \<noteq> [] \<and> wx_ParseCert W (cert_Raw c) = Inr c"

definition sendable_aic :: "wire_env \<Rightarrow> aic \<Rightarrow> bool" where
  "sendable_aic W x \<longleftrightarrow> (\<exists>der. wx_MarshalAIC W x = Inr der \<and> der \<noteq> [] \<and> wx_UnmarshalAIC W der = Inr x)"

definition sendable_view :: "wire_env \<Rightarrow> request_view \<Rightarrow> bool" where
  "sendable_view W v \<longleftrightarrow> list_all (sendable_cert W) (vw_CertChain v) \<and> (\<forall>c. vw_VerifiedCert v = Some c \<longrightarrow> sendable_cert W c)
     \<and> carries_request W (ToDTO (Some v))"

definition sendable_context :: "wire_env \<Rightarrow> auth_context \<Rightarrow> bool" where
  "sendable_context W ac \<longleftrightarrow> sendable_cert W (ctx_ClientCert ac) \<and> (\<forall>x. ctx_AIC ac = Some x \<longrightarrow> sendable_aic W x)
     \<and> carries_result W (FromAuthContext W (Some ac) zero_result)"

definition sendable_error :: "wire_env \<Rightarrow> auth_error \<Rightarrow> bool" where
  "sendable_error W ae \<longleftrightarrow> aer_Status ae \<noteq> 0 \<and> carries_result W (denial_result ae)"

text \<open>The part of a view that crosses the wire, and the context as its receiver has it.\<close>

definition carried :: "request_view \<Rightarrow> request_view" where
  "carried v = v\<lparr>vw_PresentedCert := (case vw_CertChain v of [] \<Rightarrow> None | c # _ \<Rightarrow> Some c), vw_EvidenceFactsWith := None, vw_RequireApprovalWith := None,
     vw_HTTPAdapter := None\<rparr>"

definition received :: "auth_context \<Rightarrow> received_context" where
  "received ac = \<lparr>rx_ClientCert = Some (ctx_ClientCert ac), rx_Principal = ctx_Principal ac, rx_AgentID = ctx_AgentID ac, rx_SPIFFEID = ctx_SPIFFEID ac,
     rx_Roles = ctx_Roles ac, rx_Capabilities = ctx_Capabilities ac, rx_AIC = ctx_AIC ac, rx_Bearer = ctx_Bearer ac, rx_Serial = ctx_Serial ac,
     rx_Verdict = ctx_Verdict ac, rx_Reason = ctx_Reason ac, rx_Unresolved = ctx_Unresolved ac, rx_OperationDecisions = ctx_OperationDecisions ac,
     rx_Evidence = ctx_Evidence ac, rx_Satisfaction = ctx_Satisfaction ac\<rparr>"

lemma parse_chain_raw: "list_all (sendable_cert W) cs \<Longrightarrow> parse_chain W i (map cert_Raw cs) = Inr cs"
  by (induction cs arbitrary: i) (auto simp: sendable_cert_def)

lemma ToView_ToDTO:
  assumes "sendable_view W v"
  shows "ToView W (ToDTO (Some v)) = Inr (carried v)"
  using assms
  by (cases v; cases "vw_VerifiedCert v"; cases "vw_CertChain v")
    (auto simp: ToView_def ToDTO_def parse_chain_raw carried_def zero_view_def Let_def sendable_view_def sendable_cert_def)

lemma ToAuthContext_From:
  assumes "sendable_context W ac"
  shows "ToAuthContext W (FromAuthContext W (Some ac) zero_result) = Inr (Some (received ac))"
  using assms
  by (cases "ctx_AIC ac")
    (auto simp: ToAuthContext_def FromAuthContext_def received_def zero_result_def Let_def sendable_context_def sendable_cert_def sendable_aic_def)

lemma ParseErrorCode_String [simp]: "ParseErrorCode (ErrorCode_String c) = Some c"
  by (cases c) (simp_all add: ParseErrorCode_def ErrorCode_String_def)

lemma received_denial: "received_error (denial_result ae) s = plain_error (aer_Code ae) s (aer_Message ae)"
  by (simp add: received_error_def denial_result_def zero_result_def)

lemma denial_result_fields [simp]: "\<not> dx_Granted (denial_result ae)" "dx_Status (denial_result ae) = aer_Status ae" "dx_Granted (FromAuthContext W x d)"
  by (simp_all add: denial_result_def zero_result_def FromAuthContext_def split: option.split)

text \<open>The wire loses nothing of a decision that its receiver may rely on: a request is decoded to what was encoded, without the hooks of the
  sender; an admitted context comes back whole, and a refusal with its code, status and message.\<close>

theorem wire_round_trip:
  assumes "sendable_view W v" "sendable_context W ac" "AsAuthError (Some err) = ae" "sendable_error W ae"
  shows "(\<exists>b. EncodeDecideRequest W (Some v) = Inr b \<and> DecodeDecideRequest W b = Inr (carried v))
    \<and> (\<exists>b. EncodeDecideResult W (Some ac) None = Inr b \<and> DecodeDecideResult W b = Inr (Inr (Some (received ac))))
    \<and> (\<exists>b. EncodeDecideResult W None (Some err) = Inr b
         \<and> DecodeDecideResult W b = Inr (Inl (plain_error (aer_Code ae) (aer_Status ae) (aer_Message ae))))"
proof -
  have "carries_request W (ToDTO (Some v))" "carries_result W (FromAuthContext W (Some ac) zero_result)" "carries_result W (denial_result ae)"
    using assms by (simp_all add: sendable_view_def sendable_context_def sendable_error_def)
  then obtain b1 b2 b3 where "wx_RequestJSON W (ToDTO (Some v)) = Inr b1" "wx_ReadRequest W b1 = Inr (ToDTO (Some v))"
    "wx_ResultJSON W (FromAuthContext W (Some ac) zero_result) = Inr b2" "wx_ReadResult W b2 = Inr (FromAuthContext W (Some ac) zero_result)"
    "wx_ResultJSON W (denial_result ae) = Inr b3" "wx_ReadResult W b3 = Inr (denial_result ae)"
    unfolding carries_request_def carries_result_def by blast
  then show ?thesis
    using ToView_ToDTO[OF assms(1)] ToAuthContext_From[OF assms(2)] assms(3)
    by (simp add: EncodeDecideRequest_def DecodeDecideRequest_def EncodeDecideResult_def DecodeDecideResult_def received_denial)
qed

section \<open>One decision for every carrier\<close>

lemma Invoke_decides:
  assumes "ToView W req = Inr view" "Decide E cl (Some view) (ds_a ds) = (r, a)" "carries_request W req"
    and "x = (case r of Inl ae \<Rightarrow> denial_result ae | Inr ac \<Rightarrow> FromAuthContext W (Some ac) zero_result)" "carries_result W x"
  shows "Invoke W E cl None req (Some ds) = (Inr x, Some (ds\<lparr>ds_a := a\<rparr>))"
  using assms
  by (cases r) (auto simp: Invoke_def carries_request_def carries_result_def grpcDecideHandler_def DecisionService_Decide_def AsAuthError_def Let_def)

lemma DecisionClient_decides:
  assumes "sendable_view W v" "Decide E cl (Some (carried v)) (ds_a ds) = (r, a)"
    and "\<And>ac. r = Inr ac \<Longrightarrow> sendable_context W ac" "\<And>ae. r = Inl ae \<Longrightarrow> sendable_error W ae"
  shows "DecisionClient_Decide W (Invoke W E cl None) (Some v) (Some ds)
    = (case r of Inl ae \<Rightarrow> Inl (plain_error (aer_Code ae) (aer_Status ae) (aer_Message ae)) | Inr ac \<Rightarrow> Inr (Some (received ac)), Some (ds\<lparr>ds_a := a\<rparr>))"
proof -
  let ?x = "case r of Inl ae \<Rightarrow> denial_result ae | Inr ac \<Rightarrow> FromAuthContext W (Some ac) zero_result"
  have "carries_result W ?x" using assms(3,4) by (cases r) (simp_all add: sendable_context_def sendable_error_def)
  moreover have "carries_request W (ToDTO (Some v))" using assms(1) by (simp add: sendable_view_def)
  ultimately have run: "Invoke W E cl None (ToDTO (Some v)) (Some ds) = (Inr ?x, Some (ds\<lparr>ds_a := a\<rparr>))"
    by (intro Invoke_decides[OF ToView_ToDTO[OF assms(1)] assms(2)]) simp_all
  show ?thesis
  proof (cases r)
    case (Inl ae)
    then show ?thesis using run assms(4)[OF Inl] by (simp add: DecisionClient_Decide_def received_denial sendable_error_def)
  next
    case (Inr ac)
    then show ?thesis using run ToAuthContext_From[OF assms(3)[OF Inr]] by (simp add: DecisionClient_Decide_def)
  qed
qed

section \<open>Sessions\<close>

text \<open>What a carrier of decisions promises: a call that can be delivered answers with an image of what the core decides on what was carried, and leaves the
  core where that decision leaves it. A client may then think of a whole session as of calls to the core.\<close>

fun calls :: "('v \<Rightarrow> 's \<Rightarrow> 'r \<times> 's) \<Rightarrow> 'v list \<Rightarrow> 's \<Rightarrow> 'r list \<times> 's" where
  "calls f [] s = ([], s)"
| "calls f (v # vs) s = (case f v s of (r, s') \<Rightarrow> case calls f vs s' of (rs, s'') \<Rightarrow> (r # rs, s''))"

fun deliverable_all :: "('v \<Rightarrow> 's \<Rightarrow> bool) \<Rightarrow> ('v \<Rightarrow> 's \<Rightarrow> 'd \<times> 's) \<Rightarrow> 'v list \<Rightarrow> 's \<Rightarrow> bool" where
  "deliverable_all ok f [] s = True"
| "deliverable_all ok f (v # vs) s = (ok v s \<and> deliverable_all ok f vs (snd (f v s)))"

locale carrier =
  fixes call :: "'v \<Rightarrow> 's \<Rightarrow> 'r \<times> 's" and core :: "'v \<Rightarrow> 's \<Rightarrow> 'd \<times> 's" and answer :: "'d \<Rightarrow> 'r" and deliverable :: "'v \<Rightarrow> 's \<Rightarrow> bool"
  assumes faithful: "deliverable v s \<Longrightarrow> call v s = map_prod answer id (core v s)"
begin

lemma session_faithful:
  "deliverable_all deliverable core vs s \<Longrightarrow> calls call vs s = map_prod (map answer) id (calls core vs s)"
proof (induction vs arbitrary: s)
  case (Cons v vs)
  then show ?case by (cases "core v s"; cases "calls core vs (snd (core v s))") (simp add: faithful)
qed simp

lemma session_state: "deliverable_all deliverable core vs s \<Longrightarrow> snd (calls call vs s) = snd (calls core vs s)"
  by (simp add: session_faithful)

end

text \<open>A remote call, the decision it stands for, its answer and when it can be delivered.\<close>

definition remote_decide ::
    "wire_env \<Rightarrow> auth_env \<Rightarrow> auth_call \<times> request_view \<Rightarrow> decision_server \<Rightarrow> (auth_error + received_context option) \<times> decision_server" where
  "remote_decide W E q ds = map_prod id the (DecisionClient_Decide W (Invoke W E (fst q) None) (Some (snd q)) (Some ds))"

definition local_decide :: "auth_env \<Rightarrow> auth_call \<times> request_view \<Rightarrow> decision_server \<Rightarrow> (auth_error + auth_context) \<times> decision_server" where
  "local_decide E q ds = (case Decide E (fst q) (Some (carried (snd q))) (ds_a ds) of (r, a) \<Rightarrow> (r, ds\<lparr>ds_a := a\<rparr>))"

definition remote_answer :: "auth_error + auth_context \<Rightarrow> auth_error + received_context option" where
  "remote_answer r = (case r of Inl ae \<Rightarrow> Inl (plain_error (aer_Code ae) (aer_Status ae) (aer_Message ae)) | Inr ac \<Rightarrow> Inr (Some (received ac)))"

definition deliverable_call :: "wire_env \<Rightarrow> auth_env \<Rightarrow> auth_call \<times> request_view \<Rightarrow> decision_server \<Rightarrow> bool" where
  "deliverable_call W E q ds \<longleftrightarrow> sendable_view W (snd q)
     \<and> (case fst (local_decide E q ds) of Inl ae \<Rightarrow> sendable_error W ae | Inr ac \<Rightarrow> sendable_context W ac)"

interpretation rpc: carrier "remote_decide W E" "local_decide E" remote_answer "deliverable_call W E" for W E
proof
  fix q ds
  assume ok: "deliverable_call W E q ds"
  obtain r a where d: "Decide E (fst q) (Some (carried (snd q))) (ds_a ds) = (r, a)" by fastforce
  have "sendable_view W (snd q)" "\<And>ac. r = Inr ac \<Longrightarrow> sendable_context W ac" "\<And>ae. r = Inl ae \<Longrightarrow> sendable_error W ae"
    using ok d by (auto simp: deliverable_call_def local_decide_def)
  from DecisionClient_decides[OF this(1) d this(2,3)] show "remote_decide W E q ds = map_prod remote_answer id (local_decide E q ds)"
    by (simp add: remote_decide_def local_decide_def remote_answer_def d)
qed


text \<open>Nothing authenticates the sender of a document that claims a certificate was verified: the decision core takes the certificate as the credential
  and does not check it against the configured roots.\<close>

lemma wire_vouches_for_itself:
  assumes "ToView W d = Inr view" "dq_VerifiedCertDER d \<noteq> []"
  shows "\<exists>cert. wx_ParseCert W (dq_VerifiedCertDER d) = Inr cert
    \<and> (\<exists>chain. resolveCredential E cl view a = (Inr (chain, Some cert, False), a) \<and> chain_guard E cl a view chain False = None)"
proof -
  obtain cert where "wx_ParseCert W (dq_VerifiedCertDER d) = Inr cert" "vw_VerifiedCert view = Some cert"
    using assms by (auto simp: ToView_def Let_def split: sum.splits)
  then show ?thesis by (simp add: resolveCredential_def chain_guard_def)
qed

section \<open>Witnesses\<close>

text \<open>A wire that carries one request, one admission and one refusal.\<close>

definition example_wire :: "aic option \<Rightarrow> decide_request \<Rightarrow> decide_result \<Rightarrow> decide_result \<Rightarrow> wire_env" where
  "example_wire x q granted refused =
     \<lparr>wx_ParseCert = (\<lambda>der. if der = ''der'' then Inr example_cert else Inl ''malformed''), wx_MarshalAIC = (\<lambda>y. if x = Some y then Inr ''aic'' else Inl ''unsupported''),
      wx_UnmarshalAIC = (\<lambda>b. case x of None \<Rightarrow> Inl ''malformed'' | Some y \<Rightarrow> Inr y),
      wx_RequestJSON = (\<lambda>d. if d = q then Inr ''q'' else Inl ''unsupported''), wx_ReadRequest = (\<lambda>b. Inr q),
      wx_ResultJSON = (\<lambda>d. if d = granted then Inr ''g'' else if d = refused then Inr ''r'' else Inl ''unsupported''),
      wx_ReadResult = (\<lambda>b. Inr (if b = ''g'' then granted else refused))\<rparr>"

definition example_wire_view :: request_view where
  "example_wire_view = zero_view\<lparr>vw_CertChain := [example_cert], vw_TransportSecure := True, vw_Method := ''GET'', vw_Path := ''/db'',
     vw_Header := [(''X-Request-Id'', [''t1''])], vw_ClientIP := ''10.0.0.7'', vw_Body := ''{}'', vw_PresentedCert := Some example_cert\<rparr>"

definition example_denial :: auth_error where
  "example_denial = plain_error ErrDenied StatusForbidden ''not today''"

lemma example_wire_carried: "carried example_wire_view = example_wire_view"
  by (simp add: carried_def example_wire_view_def zero_view_def)

lemma example_wire_decide:
  obtains ac a where "Decide example_auth_env example_mtls_call (Some example_wire_view) example_authenticator = (Inr ac, a)" "ctx_ClientCert ac = example_cert"
proof -
  let ?v = example_wire_view
  let ?m = "(a_metrics example_authenticator)\<lparr>dm_DecideTotal := dm_DecideTotal (a_metrics example_authenticator) + 1\<rparr>"
  have v: "vw_VerifiedCert ?v = None" "vw_CertChain ?v = [example_cert]" "vw_EvidenceFactsWith ?v = None" "vw_Body ?v = ''{}''" "vw_BearerToken ?v = []"
    by (simp_all add: example_wire_view_def zero_view_def)
  have "pr_Granted (fst (RunAccessPipeline (cl_pipe example_mtls_call) [example_cert]
     (pipelineConfig example_auth_env example_authenticator ?v (vw_Body ?v) False) example_pipe_state))"
    using example_request_granted by (simp add: v(4)) (simp add: example_wire_view_def)
  then obtain ac a where "decide example_auth_env example_mtls_call (Some ?v) (example_authenticator\<lparr>a_metrics := ?m\<rparr>) = (Inr ac, a)"
    using example_mtls[OF refl, of ?v ?m] v by blast
  then obtain b where d: "Decide example_auth_env example_mtls_call (Some ?v) example_authenticator = (Inr ac, b)" by (simp add: Decide_def)
  then have "ctx_ClientCert ac = example_cert" using Decide_credential[OF d] v by (auto simp: credential_verified_def split: if_splits)
  with d show thesis by (rule that)
qed

lemma example_wire_sends:
  assumes "ctx_ClientCert ac = example_cert"
    and "W = example_wire (ctx_AIC ac) (ToDTO (Some example_wire_view)) G (denial_result example_denial)"
    and "G = FromAuthContext (example_wire (ctx_AIC ac) (ToDTO (Some example_wire_view)) zero_result zero_result) (Some ac) zero_result"
  shows "sendable_view W example_wire_view" "sendable_context W ac" "sendable_error W example_denial"
proof -
  have cert: "sendable_cert W example_cert" using assms(2) by (simp add: sendable_cert_def example_wire_def example_cert_def)
  have "FromAuthContext W (Some ac) zero_result = G" using assms(2,3) by (simp add: FromAuthContext_def example_wire_def cong: option.case_cong)
  moreover have "carries_result W G" "carries_result W (denial_result example_denial)" "carries_request W (ToDTO (Some example_wire_view))"
    using assms(2) by (simp_all add: carries_result_def carries_request_def example_wire_def)
  ultimately show "sendable_context W ac" "sendable_view W example_wire_view" "sendable_error W example_denial"
    using cert assms(1,2)
    by (auto simp: sendable_context_def sendable_view_def sendable_error_def sendable_aic_def example_wire_view_def zero_view_def example_wire_def
        example_denial_def plain_error_def)
qed

theorem wire_round_trip_witness:
  "\<exists>W b ac. EncodeDecideRequest W (Some example_wire_view) = Inr b \<and> DecodeDecideRequest W b = Inr example_wire_view
     \<and> (\<exists>b'. EncodeDecideResult W (Some ac) None = Inr b' \<and> DecodeDecideResult W b' = Inr (Inr (Some (received ac)))) \<and> ctx_ClientCert ac = example_cert"
proof -
  obtain ac a where d: "Decide example_auth_env example_mtls_call (Some example_wire_view) example_authenticator = (Inr ac, a)"
    and c: "ctx_ClientCert ac = example_cert" by (rule example_wire_decide)
  note sends = example_wire_sends[OF c refl refl]
  have "AsAuthError (Some (Auth example_denial)) = example_denial" by (simp add: AsAuthError_def)
  from wire_round_trip[OF sends(1,2) this sends(3)] c show ?thesis unfolding example_wire_carried by blast
qed


end
