(* ===== verification/Tls.thy ===== *)
theory Tls
  imports Proxy
begin

text \<open>
  TLS configurations (\<^verbatim>\<open>src/tls.go\<close>): cipher suites and protocol versions, the loading of key pairs and certificate authorities, server and client
  configurations and the check of a peer's chain. Reading files, PEM, certificate parsing and key pairs are parameters, as are the two properties of a
  certificate the checks read beside its record, the basic constraint and the key usage.
\<close>

section \<open>Cipher suites and versions\<close>

type_synonym suite_id = "16 word"

definition cipherSuiteNames :: "(string \<times> suite_id) list" where
  "cipherSuiteNames =
     [(''TLS_ECDHE_ECDSA_WITH_AES_128_GCM_SHA256'', 0xC02B), (''TLS_ECDHE_RSA_WITH_AES_128_GCM_SHA256'', 0xC02F),
      (''TLS_ECDHE_ECDSA_WITH_AES_256_GCM_SHA384'', 0xC02C), (''TLS_ECDHE_RSA_WITH_AES_256_GCM_SHA384'', 0xC030),
      (''TLS_ECDHE_ECDSA_WITH_CHACHA20_POLY1305'', 0xCCA9), (''TLS_ECDHE_RSA_WITH_CHACHA20_POLY1305'', 0xCCA8),
      (''TLS_AES_128_GCM_SHA256'', 0x1301), (''TLS_AES_256_GCM_SHA384'', 0x1302), (''TLS_CHACHA20_POLY1305_SHA256'', 0x1303)]"

definition SecureCipherSuites :: "suite_id list" where
  "SecureCipherSuites = [0xC02B, 0xC02F, 0xC02C, 0xC030, 0xCCA9, 0xCCA8, 0x1301, 0x1302, 0x1303]"

definition BuildCipherSuites :: "string list \<Rightarrow> suite_id list" where
  "BuildCipherSuites names =
     (if names = [] then SecureCipherSuites
      else let suites = List.map_filter (map_of cipherSuiteNames) names in if suites = [] then SecureCipherSuites else suites)"

definition VersionTLS12 :: "16 word" where "VersionTLS12 = 0x0303"
definition VersionTLS13 :: "16 word" where "VersionTLS13 = 0x0304"

definition TLSVersionFromString :: "string \<Rightarrow> 16 word" where
  "TLSVersionFromString s = (if s = ''1.2'' then VersionTLS12 else if s = ''1.3'' then VersionTLS13 else VersionTLS12)"

section \<open>Configurations\<close>

datatype tls_error =
  KeyPairFailed string string string | ReadCAFailed string string | NoValidCA string | ParseCAFailed string string | NotACA string string
  | NoPEM string | NoVerifiedChain | Expired string | MissingCertSign string

text \<open>A key pair is known by its certificate chain. \<open>tc_VerifyPeer\<close> is the extra check of the verified chains at a time; an empty list of suites leaves
  the choice to the library.\<close>

datatype client_auth = NoClientCert | RequireAndVerifyClientCert

record tls_config =
  tc_MinVersion :: "16 word"
  tc_CipherSuites :: "suite_id list"
  tc_Certificates :: "certificate list list"
  tc_ClientAuth :: client_auth
  tc_ClientCAs :: "certificate list option"
  tc_RootCAs :: "certificate list option"
  tc_VerifyPeer :: "(instant \<Rightarrow> certificate list list \<Rightarrow> tls_error option) option"

text \<open>A PEM block has a type, headers or none, and its bytes.\<close>

record tls_env =
  tx_ReadFile :: "string \<Rightarrow> string + bytes"
  tx_PEM :: "bytes \<Rightarrow> (string \<times> bool \<times> bytes) list"
  tx_ParseCert :: "bytes \<Rightarrow> string + certificate"
  tx_KeyPair :: "string \<Rightarrow> string \<Rightarrow> string + certificate list"
  tx_IsCA :: "certificate \<Rightarrow> bool"
  tx_CertSign :: "certificate \<Rightarrow> bool"

definition BaseTLSConfig :: "string list \<Rightarrow> string \<Rightarrow> tls_config" where
  "BaseTLSConfig cipherSuites minTLSVersion =
     \<lparr>tc_MinVersion = (if minTLSVersion \<noteq> [] then TLSVersionFromString minTLSVersion else VersionTLS12),
      tc_CipherSuites = (if cipherSuites \<noteq> [] then BuildCipherSuites cipherSuites else SecureCipherSuites),
      tc_Certificates = [], tc_ClientAuth = NoClientCert, tc_ClientCAs = None, tc_RootCAs = None, tc_VerifyPeer = None\<rparr>"

definition LoadCert :: "tls_env \<Rightarrow> string \<Rightarrow> string \<Rightarrow> tls_error + certificate list" where
  "LoadCert X certFile keyFile = (case tx_KeyPair X certFile keyFile of Inl e \<Rightarrow> Inl (KeyPairFailed certFile keyFile e) | Inr kp \<Rightarrow> Inr kp)"

text \<open>\<^verbatim>\<open>CertPool.AppendCertsFromPEM\<close> takes the certificate blocks without headers that parse and passes over all others.\<close>

definition AppendCertsFromPEM :: "tls_env \<Rightarrow> (string \<times> bool \<times> bytes) list \<Rightarrow> certificate list" where
  "AppendCertsFromPEM X blocks =
     List.map_filter (\<lambda>(ty, headers, der). if ty = ''CERTIFICATE'' \<and> \<not> headers
                        then (case tx_ParseCert X der of Inl e \<Rightarrow> None | Inr c \<Rightarrow> Some c) else None) blocks"

fun check_blocks :: "tls_env \<Rightarrow> string \<Rightarrow> (string \<times> bool \<times> bytes) list \<Rightarrow> tls_error option" where
  "check_blocks X file [] = None"
| "check_blocks X file ((ty, headers, der) # rest) =
     (case tx_ParseCert X der of Inl e \<Rightarrow> Some (ParseCAFailed file e) | Inr cert \<Rightarrow>
      if \<not> tx_IsCA X cert then Some (NotACA (cert_Subject cert) file) else check_blocks X file rest)"

definition LoadCA :: "tls_env \<Rightarrow> string \<Rightarrow> tls_error + certificate list" where
  "LoadCA X caCertFile =
     (case tx_ReadFile X caCertFile of Inl e \<Rightarrow> Inl (ReadCAFailed caCertFile e) | Inr data \<Rightarrow>
      let pool = AppendCertsFromPEM X (tx_PEM X data) in
      if pool = [] then Inl (NoValidCA caCertFile)
      else case check_blocks X caCertFile (tx_PEM X data) of Some e \<Rightarrow> Inl e | None \<Rightarrow> Inr pool)"

definition LoadCACert :: "tls_env \<Rightarrow> string \<Rightarrow> tls_error + certificate" where
  "LoadCACert X caCertFile =
     (case tx_ReadFile X caCertFile of Inl e \<Rightarrow> Inl (ReadCAFailed caCertFile e) | Inr data \<Rightarrow>
      case tx_PEM X data of [] \<Rightarrow> Inl (NoPEM caCertFile) | (ty, headers, der) # _ \<Rightarrow>
      case tx_ParseCert X der of Inl e \<Rightarrow> Inl (ParseCAFailed caCertFile e) | Inr c \<Rightarrow> Inr c)"

definition ServerTLSConfig :: "certificate list \<Rightarrow> string list \<Rightarrow> string \<Rightarrow> tls_config" where
  "ServerTLSConfig cert cipherSuites minTLSVersion = (BaseTLSConfig cipherSuites minTLSVersion)\<lparr>tc_Certificates := [cert]\<rparr>"

text \<open>The check of the first verified chain; its last certificate, the root, is not looked at. \<open>i\<close> is the position in the chain.\<close>

fun peer_loop :: "tls_env \<Rightarrow> instant \<Rightarrow> nat \<Rightarrow> certificate list \<Rightarrow> tls_error option" where
  "peer_loop X now i (c # d # rest) =
     (if now < cert_NotBefore c \<or> cert_NotAfter c < now then Some (Expired (cert_Subject c))
      else if 0 < i \<and> \<not> tx_CertSign X c then Some (MissingCertSign (cert_Subject c))
      else peer_loop X now (Suc i) (d # rest))"
| "peer_loop X now i _ = None"

definition verify_peer :: "tls_env \<Rightarrow> instant \<Rightarrow> certificate list list \<Rightarrow> tls_error option" where
  "verify_peer X now verified = (case verified of [] \<Rightarrow> Some NoVerifiedChain | chain # _ \<Rightarrow> peer_loop X now 0 chain)"

definition MTLSServerConfig :: "tls_env \<Rightarrow> string \<Rightarrow> certificate list \<Rightarrow> string list \<Rightarrow> string \<Rightarrow> tls_error + tls_config" where
  "MTLSServerConfig X caCertFile cert cipherSuites minTLSVersion =
     (case LoadCA X caCertFile of Inl e \<Rightarrow> Inl e | Inr caPool \<Rightarrow>
      Inr ((BaseTLSConfig cipherSuites minTLSVersion)\<lparr>tc_Certificates := [cert], tc_ClientAuth := RequireAndVerifyClientCert,
             tc_ClientCAs := Some caPool, tc_VerifyPeer := Some (verify_peer X)\<rparr>))"

definition ClientTLSConfig :: "tls_env \<Rightarrow> string \<Rightarrow> string \<Rightarrow> string \<Rightarrow> string list \<Rightarrow> string \<Rightarrow> tls_error + tls_config" where
  "ClientTLSConfig X caCertFile certFile keyFile cipherSuites minTLSVersion =
     (case LoadCA X caCertFile of Inl e \<Rightarrow> Inl e | Inr caPool \<Rightarrow>
      let cfg = (BaseTLSConfig cipherSuites minTLSVersion)\<lparr>tc_RootCAs := Some caPool\<rparr> in
      if certFile \<noteq> [] \<and> keyFile \<noteq> []
      then (case LoadCert X certFile keyFile of Inl e \<Rightarrow> Inl e | Inr cert \<Rightarrow> Inr (cfg\<lparr>tc_Certificates := [cert]\<rparr>))
      else Inr cfg)"

section \<open>What a configuration guarantees\<close>

lemma named_suites_secure: "map_of cipherSuiteNames n = Some s \<Longrightarrow> s \<in> set SecureCipherSuites"
  using map_of_SomeD[of cipherSuiteNames n s] by (auto simp: cipherSuiteNames_def SecureCipherSuites_def)

text \<open>Whatever names and version are asked for, the configuration is no weaker than the built-in one.\<close>

definition tls_floor :: "tls_config \<Rightarrow> bool" where
  "tls_floor c \<longleftrightarrow> VersionTLS12 \<le> tc_MinVersion c \<and> tc_CipherSuites c \<noteq> [] \<and> set (tc_CipherSuites c) \<subseteq> set SecureCipherSuites"

lemma BuildCipherSuites_secure: "BuildCipherSuites names \<noteq> [] \<and> set (BuildCipherSuites names) \<subseteq> set SecureCipherSuites"
proof -
  have "SecureCipherSuites \<noteq> []" by (simp add: SecureCipherSuites_def)
  then show ?thesis using named_suites_secure by (auto simp: BuildCipherSuites_def Let_def map_filter_def)
qed

lemma BaseTLSConfig_floor: "tls_floor (BaseTLSConfig suites version)"
  using BuildCipherSuites_secure[of suites] BuildCipherSuites_secure[of "[]"]
  by (auto simp: tls_floor_def BaseTLSConfig_def TLSVersionFromString_def VersionTLS12_def VersionTLS13_def BuildCipherSuites_def)

lemma tls_floor_update [simp]:
  "tls_floor (c\<lparr>tc_Certificates := k\<rparr>) = tls_floor c" "tls_floor (c\<lparr>tc_ClientAuth := m\<rparr>) = tls_floor c"
  "tls_floor (c\<lparr>tc_ClientCAs := p\<rparr>) = tls_floor c" "tls_floor (c\<lparr>tc_RootCAs := p\<rparr>) = tls_floor c" "tls_floor (c\<lparr>tc_VerifyPeer := v\<rparr>) = tls_floor c"
  by (simp_all add: tls_floor_def)

lemma check_blocks_ca:
  assumes "check_blocks X file blocks = None" "(ty, headers, der) \<in> set blocks"
  shows "\<exists>c. tx_ParseCert X der = Inr c \<and> tx_IsCA X c"
  using assms by (induction blocks) (auto split: sum.splits if_splits)

lemma LoadCA_authorities:
  assumes "LoadCA X file = Inr pool"
  shows "pool \<noteq> [] \<and> list_all (tx_IsCA X) pool"
proof -
  from assms obtain data where "pool = AppendCertsFromPEM X (tx_PEM X data)" "pool \<noteq> []" "check_blocks X file (tx_PEM X data) = None"
    by (auto simp: LoadCA_def Let_def split: sum.splits if_splits option.splits)
  moreover have "tx_IsCA X c" if "c \<in> set (AppendCertsFromPEM X (tx_PEM X data))" "check_blocks X file (tx_PEM X data) = None" for c
    using that(1) check_blocks_ca[OF that(2)]
    by (fastforce simp: AppendCertsFromPEM_def map_filter_def split: sum.splits if_splits)
  ultimately show ?thesis by (simp add: list_all_iff)
qed

lemma peer_loop_valid:
  assumes "peer_loop X now i chain = None" "j < length chain - 1"
  shows "cert_NotBefore (chain ! j) \<le> now \<and> now \<le> cert_NotAfter (chain ! j) \<and> (0 < i + j \<longrightarrow> tx_CertSign X (chain ! j))"
  using assms
proof (induction X now i chain arbitrary: j rule: peer_loop.induct)
  case (1 X now i c d rest)
  then show ?case by (cases j) (auto split: if_splits)
qed auto

text \<open>A server configured for mutual TLS is closed to everyone else: it asks for a client certificate that verifies against a non-empty pool in which
  every certificate is an authority; it speaks TLS 1.2 or later with the listed suites only, whatever was asked for; and of a chain it accepts, every
  certificate below the root is within its validity and every intermediate may sign certificates. Likewise a client trusts authorities only.\<close>

theorem mtls_config_closed:
  assumes "MTLSServerConfig X caFile cert suites version = Inr cfg"
  shows "tc_ClientAuth cfg = RequireAndVerifyClientCert \<and> tls_floor cfg
    \<and> (\<exists>pool. tc_ClientCAs cfg = Some pool \<and> pool \<noteq> [] \<and> list_all (tx_IsCA X) pool)
    \<and> (\<exists>check. tc_VerifyPeer cfg = Some check \<and> (\<forall>now verified. check now verified = None \<longrightarrow> verified \<noteq> []
         \<and> (\<forall>j < length (hd verified) - 1. cert_NotBefore (hd verified ! j) \<le> now \<and> now \<le> cert_NotAfter (hd verified ! j)
              \<and> (0 < j \<longrightarrow> tx_CertSign X (hd verified ! j)))))"
proof -
  from assms obtain pool where pool: "LoadCA X caFile = Inr pool"
    and cfg: "cfg = (BaseTLSConfig suites version)\<lparr>tc_Certificates := [cert], tc_ClientAuth := RequireAndVerifyClientCert,
             tc_ClientCAs := Some pool, tc_VerifyPeer := Some (verify_peer X)\<rparr>"
    by (auto simp: MTLSServerConfig_def split: sum.splits)
  have "verified \<noteq> [] \<and> (\<forall>j < length (hd verified) - 1. cert_NotBefore (hd verified ! j) \<le> now \<and> now \<le> cert_NotAfter (hd verified ! j)
      \<and> (0 < j \<longrightarrow> tx_CertSign X (hd verified ! j)))" if "verify_peer X now verified = None" for now verified
    using that peer_loop_valid[of X now 0 "hd verified"] by (cases verified) (auto simp: verify_peer_def)
  then show ?thesis using LoadCA_authorities[OF pool] by (simp add: cfg BaseTLSConfig_floor)
qed

lemma client_config_trusts_authorities:
  assumes "ClientTLSConfig X caFile certFile keyFile suites version = Inr cfg"
  shows "tls_floor cfg \<and> (\<exists>pool. tc_RootCAs cfg = Some pool \<and> pool \<noteq> [] \<and> list_all (tx_IsCA X) pool)"
proof -
  from assms obtain pool k where "LoadCA X caFile = Inr pool" "cfg = (BaseTLSConfig suites version)\<lparr>tc_RootCAs := Some pool, tc_Certificates := k\<rparr>"
  proof (cases "LoadCA X caFile")
    case (Inr pool)
    moreover have "(BaseTLSConfig suites version)\<lparr>tc_RootCAs := Some pool\<rparr>
        = (BaseTLSConfig suites version)\<lparr>tc_RootCAs := Some pool, tc_Certificates := []\<rparr>" by (simp add: BaseTLSConfig_def)
    ultimately show thesis using assms that by (auto simp: ClientTLSConfig_def Let_def split: if_splits sum.splits)
  qed (simp add: ClientTLSConfig_def)
  then show ?thesis using LoadCA_authorities[of X caFile pool] by (simp add: BaseTLSConfig_floor)
qed

section \<open>Witnesses\<close>

definition example_tls :: tls_env where
  "example_tls =
     \<lparr>tx_ReadFile = (\<lambda>f. if f = ''ca.pem'' then Inr ''pem'' else Inl ''no such file''), tx_PEM = (\<lambda>b. [(''CERTIFICATE'', False, b)]),
      tx_ParseCert = (\<lambda>b. if b = ''pem'' then Inr example_cert else Inl ''malformed''), tx_KeyPair = (\<lambda>c k. Inr [example_cert]),
      tx_IsCA = (\<lambda>c. cert_SerialNumber c = 7), tx_CertSign = (\<lambda>c. True)\<rparr>"

theorem mtls_config_closed_witness:
  "\<exists>cfg. MTLSServerConfig example_tls ''ca.pem'' [example_cert] [''RC4''] ''1.0'' = Inr cfg \<and> tls_floor cfg
     \<and> tc_ClientAuth cfg = RequireAndVerifyClientCert"
proof -
  obtain cfg where c: "MTLSServerConfig example_tls ''ca.pem'' [example_cert] [''RC4''] ''1.0'' = Inr cfg"
    by (simp add: MTLSServerConfig_def LoadCA_def AppendCertsFromPEM_def example_tls_def example_cert_def map_filter_def)
  with mtls_config_closed[OF c] show ?thesis by blast
qed

end
