(* ===== verification/Config_File.thy ===== *)
theory Config_File
  imports Proxy
begin

text \<open>
  Configuration files (\<^verbatim>\<open>src/config.go\<close>): the JSON form of a configuration, its translation, the supervision store it opens and the timeouts it sets.
  JSON decoding and \<^verbatim>\<open>time.ParseDuration\<close> are parameters; a configuration is the part that decisions read and the part for the embedded server.
\<close>

section \<open>The file\<close>

record file_config =
  fc_Comment :: string
  fc_LogFile :: string
  fc_ReadTimeout :: string
  fc_ReadHeaderTimeout :: string
  fc_WriteTimeout :: string
  fc_IdleTimeout :: string
  fc_MaxHeaderBytes :: int
  fc_TLSCertFile :: string
  fc_TLSKeyFile :: string
  fc_CACertFile :: string
  fc_JWTCAFile :: string
  fc_JWTIssuer :: string
  fc_JWTAudience :: "string list"
  fc_BackendRootCA :: string
  fc_ReplayProtection :: "bool option"
  fc_AuthMode :: string
  fc_IdentityMode :: string
  fc_RequireAIC :: bool
  fc_RequiredCapabilities :: "string list"
  fc_DisallowRepresentative :: bool
  fc_RequireUserAuth :: bool
  fc_EnforceConstraints :: bool
  fc_StreamBody :: bool
  fc_RequireRuntimeApproval :: "bool option"
  fc_AllowBreakGlass :: "bool option"
  fc_RequireEvidenceExport :: "bool option"
  fc_AuditLogFile :: string
  fc_AuditTSAURL :: string
  fc_SupervisionLogFile :: string

record http_options =
  ho_ReadTimeout :: int
  ho_ReadHeaderTimeout :: int
  ho_WriteTimeout :: int
  ho_IdleTimeout :: int
  ho_MaxHeaderBytes :: int

record gateway_config =
  gc_auth :: auth_config
  gc_LogFile :: string
  gc_TLSCertFile :: string
  gc_TLSKeyFile :: string
  gc_BackendRootCA :: string
  gc_IdentityMode :: identity_mode
  gc_AuditLogFile :: string
  gc_AuditTSAURL :: string
  gc_SupervisionLogFile :: string
  gc_SupervisionStore :: "supervision_store option"
  gc_ServerOptions :: "http_options option"

record config_env =
  gx_ReadFile :: "string \<Rightarrow> string + bytes"
  gx_Decode :: "bytes \<Rightarrow> string + file_config"
  gx_ParseDuration :: "string \<Rightarrow> string + int"

datatype file_config_error =
  ReadConfigFailed string string | ParseConfigFailed string | UnknownAuthMode string | UnknownIdentityMode string | SupervisionStoreFailed store_error
  | BadDuration string string

text \<open>The zero value of a configuration, as far as decisions read it.\<close>

definition zero_auth_config :: auth_config where
  "zero_auth_config =
     \<lparr>cfg_CACertFile = [], cfg_JWTCAFile = [], cfg_JWTIssuer = [], cfg_JWTAudience = [], cfg_ReplayProtection = None, cfg_AuthMode = 0,
      cfg_RequireAIC = False, cfg_RequiredCapabilities = [], cfg_AdminToken = [], cfg_AdminTokenFile = [], cfg_RequiredOperations = [],
      cfg_UnresolvedEvaluator = None, cfg_DischargeObligations = False, cfg_ObligationsUnderstood = [], cfg_RequireFreshDecisionContext = False,
      cfg_DecisionContext = None, cfg_Challenges = None, cfg_ChallengeCarrier = None, cfg_EvidenceRequirement = None, cfg_EvidenceFacts = None,
      cfg_EvidenceProfile = [], cfg_Evidence = None, cfg_DisallowRepresentative = False, cfg_RequireUserAuth = False, cfg_EnforceConstraints = False,
      cfg_UserCert = None, cfg_UserCertResolver = None, cfg_CRLCache = None, cfg_AuditLogger = False, cfg_NonceCache = False, cfg_PluginRegistry = None,
      cfg_CapabilityRegistry = None, cfg_AuthorizationPolicy = None, cfg_Constraints = None, cfg_ParameterValidators = None, cfg_StreamBody = False,
      cfg_HookAuthenticated = None, cfg_HookDenied = False, cfg_ApprovalRequester = None, cfg_OverrideRecorder = False,
      cfg_SupervisionPolicy = \<lparr>spl_RequireRuntimeApproval = False, spl_AllowBreakGlass = False, spl_RequireEvidenceExport = False\<rparr>,
      cfg_EvidenceExporter = False, cfg_RequireApproval = None\<rparr>"

section \<open>Parsing\<close>

definition parseDur :: "config_env \<Rightarrow> string \<Rightarrow> string \<Rightarrow> file_config_error + int" where
  "parseDur X s field =
     (if s = [] then Inr 0 else case gx_ParseDuration X s of Inl e \<Rightarrow> Inl (BadDuration field e) | Inr d \<Rightarrow> Inr d)"

definition file_auth_mode :: "string \<Rightarrow> file_config_error + int" where
  "file_auth_mode s =
     (if s = [] then Inr (cfg_AuthMode zero_auth_config) else if s = ''mtls'' then Inr MTLSOnly else if s = ''bearer'' then Inr BearerOnly
      else if s = ''mtls_or_bearer'' then Inr MTLSOrBearer else Inl (UnknownAuthMode s))"

definition file_identity_mode :: "string \<Rightarrow> file_config_error + identity_mode" where
  "file_identity_mode s =
     (if s = [] then Inr 0 else if s = ''minimal'' then Inr IdentityMinimal else if s = ''forward_client_cert'' then Inr IdentityForwardClientCert
      else if s = ''xforwarded'' then Inr IdentityXForwarded else if s = ''aic'' then Inr IdentityAIC else Inl (UnknownIdentityMode s))"

definition file_policy :: "file_config \<Rightarrow> supervision_policy" where
  "file_policy fc =
     (let p = cfg_SupervisionPolicy zero_auth_config in
      \<lparr>spl_RequireRuntimeApproval = (case fc_RequireRuntimeApproval fc of None \<Rightarrow> spl_RequireRuntimeApproval p | Some b \<Rightarrow> b),
       spl_AllowBreakGlass = (case fc_AllowBreakGlass fc of None \<Rightarrow> spl_AllowBreakGlass p | Some b \<Rightarrow> b),
       spl_RequireEvidenceExport = (case fc_RequireEvidenceExport fc of None \<Rightarrow> spl_RequireEvidenceExport p | Some b \<Rightarrow> b)\<rparr>)"

definition file_auth :: "file_config \<Rightarrow> int \<Rightarrow> auth_config" where
  "file_auth fc mode =
     zero_auth_config\<lparr>cfg_CACertFile := fc_CACertFile fc, cfg_JWTCAFile := fc_JWTCAFile fc, cfg_JWTIssuer := fc_JWTIssuer fc,
       cfg_JWTAudience := fc_JWTAudience fc, cfg_ReplayProtection := fc_ReplayProtection fc, cfg_RequireAIC := fc_RequireAIC fc,
       cfg_RequiredCapabilities := fc_RequiredCapabilities fc, cfg_DisallowRepresentative := fc_DisallowRepresentative fc,
       cfg_RequireUserAuth := fc_RequireUserAuth fc, cfg_EnforceConstraints := fc_EnforceConstraints fc, cfg_StreamBody := fc_StreamBody fc,
       cfg_AuthMode := mode, cfg_SupervisionPolicy := file_policy fc\<rparr>"

definition server_tuned :: "file_config \<Rightarrow> bool" where
  "server_tuned fc \<longleftrightarrow> fc_ReadTimeout fc \<noteq> [] \<or> fc_ReadHeaderTimeout fc \<noteq> [] \<or> fc_WriteTimeout fc \<noteq> [] \<or> fc_IdleTimeout fc \<noteq> []
     \<or> fc_MaxHeaderBytes fc \<noteq> 0"

definition file_server_options :: "config_env \<Rightarrow> file_config \<Rightarrow> file_config_error + http_options option" where
  "file_server_options X fc =
     (if \<not> server_tuned fc then Inr None
      else case parseDur X (fc_ReadTimeout fc) ''server.read_timeout'' of Inl e \<Rightarrow> Inl e | Inr d1 \<Rightarrow>
           case parseDur X (fc_ReadHeaderTimeout fc) ''server.read_header_timeout'' of Inl e \<Rightarrow> Inl e | Inr d2 \<Rightarrow>
           case parseDur X (fc_WriteTimeout fc) ''server.write_timeout'' of Inl e \<Rightarrow> Inl e | Inr d3 \<Rightarrow>
           case parseDur X (fc_IdleTimeout fc) ''server.idle_timeout'' of Inl e \<Rightarrow> Inl e | Inr d4 \<Rightarrow>
             Inr (Some \<lparr>ho_ReadTimeout = d1, ho_ReadHeaderTimeout = d2, ho_WriteTimeout = d3, ho_IdleTimeout = d4,
                        ho_MaxHeaderBytes = fc_MaxHeaderBytes fc\<rparr>))"

text \<open>The files a failed parse leaves open are counted: \<open>left\<close> is the store that was opened and is not returned.\<close>

definition ParseConfig ::
    "config_env \<Rightarrow> fs_faults \<Rightarrow> bytes \<Rightarrow> file_system \<Rightarrow> (file_config_error \<times> supervision_store option + gateway_config) \<times> file_system" where
  "ParseConfig X F data fs =
     (case gx_Decode X data of Inl e \<Rightarrow> (Inl (ParseConfigFailed e, None), fs) | Inr fc \<Rightarrow>
      case file_auth_mode (fc_AuthMode fc) of Inl e \<Rightarrow> (Inl (e, None), fs) | Inr mode \<Rightarrow>
      case file_identity_mode (fc_IdentityMode fc) of Inl e \<Rightarrow> (Inl (e, None), fs) | Inr identity \<Rightarrow>
      case (if fc_SupervisionLogFile fc = [] then Inr (None, fs) else NewSupervisionStore F (fc_SupervisionLogFile fc) None (64 * 2 ^ 20) 3 fs) of
        Inl e \<Rightarrow> (Inl (SupervisionStoreFailed e, None), fs)
      | Inr (store, fs') \<Rightarrow>
      case file_server_options X fc of Inl e \<Rightarrow> (Inl (e, store), fs') | Inr opts \<Rightarrow>
        (Inr \<lparr>gc_auth = file_auth fc mode, gc_LogFile = fc_LogFile fc, gc_TLSCertFile = fc_TLSCertFile fc, gc_TLSKeyFile = fc_TLSKeyFile fc,
              gc_BackendRootCA = fc_BackendRootCA fc, gc_IdentityMode = identity, gc_AuditLogFile = fc_AuditLogFile fc,
              gc_AuditTSAURL = fc_AuditTSAURL fc, gc_SupervisionLogFile = fc_SupervisionLogFile fc, gc_SupervisionStore = store,
              gc_ServerOptions = opts\<rparr>, fs'))"

definition LoadConfigFile ::
    "config_env \<Rightarrow> fs_faults \<Rightarrow> string \<Rightarrow> file_system \<Rightarrow> (file_config_error \<times> supervision_store option + gateway_config) \<times> file_system" where
  "LoadConfigFile X F path fs =
     (case gx_ReadFile X path of Inl e \<Rightarrow> (Inl (ReadConfigFailed path e, None), fs) | Inr data \<Rightarrow> ParseConfig X F data fs)"

section \<open>A gateway built from a file\<close>

lemma ParseConfig_parsed:
  assumes "ParseConfig X F data fs = (Inr c, fs')"
  obtains fc mode where "gx_Decode X data = Inr fc" "file_auth_mode (fc_AuthMode fc) = Inr mode" "gc_auth c = file_auth fc mode"
    "file_identity_mode (fc_IdentityMode fc) = Inr (gc_IdentityMode c)" "file_server_options X fc = Inr (gc_ServerOptions c)"
  using assms by (auto simp: ParseConfig_def split: sum.splits prod.splits)

lemma file_auth_fields [simp]:
  "cfg_AuthMode (file_auth fc mode) = mode" "cfg_CACertFile (file_auth fc mode) = fc_CACertFile fc" "cfg_JWTCAFile (file_auth fc mode) = fc_JWTCAFile fc"
  "cfg_SupervisionPolicy (file_auth fc mode) = file_policy fc" "\<not> cfg_AuditLogger (file_auth fc mode)" "cfg_ApprovalRequester (file_auth fc mode) = None"
  "\<not> cfg_OverrideRecorder (file_auth fc mode)" "\<not> cfg_EvidenceExporter (file_auth fc mode)" "cfg_EvidenceProfile (file_auth fc mode) = []"
  "cfg_Evidence (file_auth fc mode) = None"
  by (simp_all add: file_auth_def zero_auth_config_def)

lemma file_auth_mode_cases:
  assumes "file_auth_mode s = Inr mode" "cfg_AuthMode c = mode"
  shows "authMode c = mode" "mode \<noteq> MTLSOnly \<Longrightarrow> s \<in> {''bearer'', ''mtls_or_bearer''}" "mode \<noteq> BearerOnly \<Longrightarrow> s \<in> {[], ''mtls'', ''mtls_or_bearer''}"
  using assms by (auto simp: file_auth_mode_def authMode_def MTLSOnly_def BearerOnly_def MTLSOrBearer_def zero_auth_config_def split: if_splits)

lemma newAuthenticator_built:
  assumes "newAuthenticator E Y C M metrics pipe world store (Some c) = Inr a"
  shows "Validate_config C (Some c) = []" "client_pool M c = Inr (a_tlsCAs a)" "bearer_verifier E M c = Inr (a_verifier a)" "a_audited a = []"
    "\<exists>ev. a_cfg a = c\<lparr>cfg_Evidence := ev\<rparr>"
  using assms by (auto simp: newAuthenticator_def Let_def split: list.splits sum.splits if_splits)

lemma file_policy_on:
  "spl_RequireRuntimeApproval (file_policy fc) \<longleftrightarrow> fc_RequireRuntimeApproval fc = Some True"
  "spl_AllowBreakGlass (file_policy fc) \<longleftrightarrow> fc_AllowBreakGlass fc = Some True"
  "spl_RequireEvidenceExport (file_policy fc) \<longleftrightarrow> fc_RequireEvidenceExport fc = Some True"
  by (auto simp: file_policy_def zero_auth_config_def Let_def split: option.splits)


text \<open>The audit file of the configuration is not opened: whatever the file names there, its gateway hands no admission to an audit log.\<close>

lemma decide_unaudited:
  assumes "decide E cl (Some view) a = (r, a')" "\<not> cfg_AuditLogger (a_cfg a)"
  shows "a_audited a' = a_audited a"
proof -
  have off: "auditAdmission E cl view cert refs denied reason b = b" if "a_cfg b = a_cfg a" for cert refs denied reason b
    using that assms(2) by (simp add: auditAdmission_def)
  have res: "a_audited b = a_audited a \<and> a_cfg b = a_cfg a" if "resolveCredential E cl view a = (x, b)" for x b
    using that by (auto simp: resolveCredential_def Let_def split: option.splits if_splits prod.splits sum.splits)
  show ?thesis
    using assms(1)
  proof (cases rule: decide_cases)
    case (refused chain cert bearer a1 result ps e)
    then show ?thesis
      using res[OF refused(1)] off emitEvidence_frame[of cl view cert result] by (fastforce simp: refuse_decision_def Let_def split: prod.splits if_splits)
  next
    case (granted chain cert bearer a1 result ps)
    from granted(5) show ?thesis
      using res[OF granted(1)] off by (cases rule: admit_decision_cases) (fastforce dest: emitEvidence_frame supervise_frame)+
  qed (use res in auto)
qed

lemma file_audit_ignored:
  assumes "ParseConfig X F data fs = (Inr c, fs')" "newAuthenticator E Y C M metrics pipe world store (Some (gc_auth c)) = Inr a"
    and "Decide E cl (Some view) a = (r, a')"
  shows "a_audited a' = []"
proof -
  obtain fc mode where c: "gc_auth c = file_auth fc mode" using ParseConfig_parsed[OF assms(1)] by metis
  note built = newAuthenticator_built[OF assms(2)[unfolded c]]
  obtain b where d: "decide E cl (Some view) (a\<lparr>a_metrics := (a_metrics a)\<lparr>dm_DecideTotal := dm_DecideTotal (a_metrics a) + 1\<rparr>\<rparr>) = (r, b)"
    and "a_audited a' = a_audited b"
    using assms(3) by (auto simp: Decide_def split: prod.splits)
  moreover have "\<not> cfg_AuditLogger (a_cfg a)" using built(5) by auto
  ultimately show ?thesis using decide_unaudited[OF d] built(4) by simp
qed

section \<open>Witnesses\<close>

definition example_file :: file_config where
  "example_file =
     \<lparr>fc_Comment = [], fc_LogFile = [], fc_ReadTimeout = [], fc_ReadHeaderTimeout = [], fc_WriteTimeout = [], fc_IdleTimeout = [], fc_MaxHeaderBytes = 0,
      fc_TLSCertFile = ''tls.pem'', fc_TLSKeyFile = ''tls.key'', fc_CACertFile = ''ca.pem'', fc_JWTCAFile = [], fc_JWTIssuer = [], fc_JWTAudience = [],
      fc_BackendRootCA = [], fc_ReplayProtection = None, fc_AuthMode = ''mtls'', fc_IdentityMode = ''aic'', fc_RequireAIC = False,
      fc_RequiredCapabilities = [], fc_DisallowRepresentative = False, fc_RequireUserAuth = False, fc_EnforceConstraints = False, fc_StreamBody = False,
      fc_RequireRuntimeApproval = None, fc_AllowBreakGlass = Some False, fc_RequireEvidenceExport = None, fc_AuditLogFile = ''audit.log'',
      fc_AuditTSAURL = [], fc_SupervisionLogFile = []\<rparr>"

definition example_config_env :: "file_config \<Rightarrow> config_env" where
  "example_config_env fc = \<lparr>gx_ReadFile = (\<lambda>p. Inr ''{}''), gx_Decode = (\<lambda>b. Inr fc), gx_ParseDuration = (\<lambda>s. Inl ''invalid duration'')\<rparr>"

definition file_authenticator :: authenticator where
  "file_authenticator =
     \<lparr>a_cfg = file_auth example_file MTLSOnly, a_tlsCAs = Some [example_cert], a_verifier = None, a_policy = None, a_metrics = NewDecisionMetrics 0,
      a_pipeline = example_pipe_state, a_evidence = empty_world, a_audited = [], a_store = (None, empty_fs)\<rparr>"

lemma example_file_fields [simp]:
  "fc_CACertFile example_file = ''ca.pem''" "fc_RequireRuntimeApproval example_file = None" "fc_AllowBreakGlass example_file = Some False"
  "fc_RequireEvidenceExport example_file = None" "fc_AuthMode example_file = ''mtls''" "fc_IdentityMode example_file = ''aic''"
  "fc_SupervisionLogFile example_file = []" "\<not> server_tuned example_file"
  by (simp_all add: example_file_def server_tuned_def)

lemma example_file_parsed:
  obtains c where "ParseConfig (example_config_env example_file) good_os ''{}'' empty_fs = (Inr c, empty_fs)" "gc_auth c = file_auth example_file MTLSOnly"
  by (rule that, simp add: ParseConfig_def example_config_env_def file_auth_mode_def file_identity_mode_def file_server_options_def) simp

lemma example_file_new:
  "newAuthenticator example_auth_env example_evidence_ops example_crypto example_material (NewDecisionMetrics 0) example_pipe_state empty_world
     (None, empty_fs) (Some (file_auth example_file MTLSOnly)) = Inr file_authenticator"
proof -
  have mode: "authMode (file_auth example_file MTLSOnly) = MTLSOnly" "\<not> cfg_RequireUserAuth (file_auth example_file MTLSOnly)"
    by (simp_all add: authMode_def) (simp add: file_auth_def example_file_def)
  have "(file_auth example_file MTLSOnly)\<lparr>cfg_Evidence := None\<rparr> = file_auth example_file MTLSOnly" by (simp add: file_auth_def zero_auth_config_def)
  moreover have "loadPEMIntoPool example_material [] ''ca.pem'' = Inr [example_cert]" by (simp add: loadPEMIntoPool_def example_material_def)
  moreover have "bearer_verifier example_auth_env example_material (file_auth example_file MTLSOnly) = Inr None"
    by (simp add: bearer_verifier_def mode) (simp add: MTLSOnly_def BearerOnly_def MTLSOrBearer_def)
  ultimately show ?thesis
    by (simp add: newAuthenticator_def Let_def Validate_config_def applied_evidence_def resolveSigner_def client_pool_def file_authenticator_def file_policy_on
        mode)
qed

definition file_view :: request_view where
  "file_view = zero_view\<lparr>vw_CertChain := [example_cert], vw_TransportSecure := True, vw_Method := ''GET'', vw_Path := ''/db''\<rparr>"

lemma example_file_granted:
  "pr_Granted (fst (RunAccessPipeline (cl_pipe example_mtls_call) [example_cert] (pipelineConfig example_auth_env file_authenticator file_view [] False)
     example_pipe_state))"
  by code_simp

lemma example_file_Decide:
  obtains ac a where "Decide example_auth_env example_mtls_call (Some file_view) file_authenticator = (Inr ac, a)"
proof -
  let ?a = "file_authenticator\<lparr>a_metrics := (a_metrics file_authenticator)\<lparr>dm_DecideTotal := dm_DecideTotal (a_metrics file_authenticator) + 1\<rparr>\<rparr>"
  have v: "vw_VerifiedCert file_view = None" "vw_CertChain file_view = [example_cert]" "vw_EvidenceFactsWith file_view = None"
    "vw_RequireApprovalWith file_view = None" "vw_Body file_view = []" "vw_HTTPAdapter file_view = None"
    by (simp_all add: file_view_def zero_view_def)
  have a: "a_cfg ?a = file_auth example_file MTLSOnly" "a_tlsCAs ?a = Some [example_cert]" "a_pipeline ?a = example_pipe_state"
    by (simp_all add: file_authenticator_def)
  have "authMode (file_auth example_file MTLSOnly) = MTLSOnly" by (simp add: authMode_def)
  then have res: "resolveCredential example_auth_env example_mtls_call file_view ?a = (Inr ([example_cert], Some example_cert, False), ?a)"
    using v a by (simp add: resolveCredential_def)
  have guard: "chain_guard example_auth_env example_mtls_call ?a file_view [example_cert] False = None"
    using a by (simp add: chain_guard_def buildChain_def example_auth_env_def example_cert_def)
  have cfg: "pipelineConfig example_auth_env ?a file_view [] False = pipelineConfig example_auth_env file_authenticator file_view [] False"
    by (rule pipelineConfig_cong) simp_all
  obtain result ps where run: "RunAccessPipeline (cl_pipe example_mtls_call) [example_cert]
      (pipelineConfig example_auth_env ?a file_view [] False) example_pipe_state = (result, ps)" by fastforce
  have "pr_Granted result" using example_file_granted run unfolding cfg by simp
  moreover have "cfg_EvidenceRequirement (file_auth example_file MTLSOnly) = None" "cfg_RequireApproval (file_auth example_file MTLSOnly) = None"
    by (simp_all add: file_auth_def zero_auth_config_def)
  ultimately have "\<exists>ac b. decide example_auth_env example_mtls_call (Some file_view) ?a = (Inr ac, b)"
    using res guard run a v
    by (simp add: decide_def Let_def admit_decision_def emitEvidence_def auditAdmission_def checkEvidenceRequirement_def supervise_def needs_approval_def)
  then show thesis using that by (auto simp: Decide_def)
qed


text \<open>A file whose timeout does not parse is refused after the supervision log was opened; nothing holds the store that would close it.\<close>

lemma refused_file_leaves_store:
  "\<exists>e st fs. ParseConfig (example_config_env (example_file\<lparr>fc_SupervisionLogFile := ''sup.log'', fc_IdleTimeout := ''2 minutes''\<rparr>)) good_os ''{}'' empty_fs
     = (Inl (e, Some st), fs) \<and> \<not> sst_closed st \<and> fs_names fs ''sup.log'' \<noteq> None"
  by (simp add: ParseConfig_def example_config_env_def file_auth_mode_def file_identity_mode_def NewSupervisionStore_def NewRotatingFile_def open_append_def
      good_os_def empty_fs_def fs_create_def file_server_options_def server_tuned_def parseDur_def split: prod.splits)

end
