(* ===== verification/Gateway_Life.thy ===== *)
theory Gateway_Life
  imports Tls Config_File Admin
begin

text \<open>
  The embedded server of the gateway (\<^verbatim>\<open>src/server.go\<close>): binding a listener with or without TLS, serving, the address and closing. The operating system
  hands out sockets by number; of \<^verbatim>\<open>net/http\<close> the model has what the source relies on: a server tracks the listeners it serves, shutting down closes them
  and stops later calls of \<^verbatim>\<open>Serve\<close>, which close the listener they were given.
\<close>

section \<open>State\<close>

record http_server =
  hs_ReadTimeout :: int
  hs_ReadHeaderTimeout :: int
  hs_WriteTimeout :: int
  hs_IdleTimeout :: int
  hs_MaxHeaderBytes :: int
  hs_tracked :: "nat list"
  hs_down :: bool

record listener =
  ln_socket :: nat
  ln_addr :: string
  ln_TLS :: "tls_config option"

text \<open>\<open>gs_open\<close> are the open sockets.\<close>

record gateway_server =
  gs_cfg :: gateway_config
  gs_listener :: "listener option"
  gs_srv :: "http_server option"
  gs_open :: "nat list"
  gs_next :: nat
  gs_owned :: owned

datatype life_error = ListenFailed string string | ListenTLS tls_error | ServeUnprepared | ErrServerClosed

definition close_socket :: "nat \<Rightarrow> gateway_server \<Rightarrow> gateway_server" where
  "close_socket n s = s\<lparr>gs_open := filter (\<lambda>m. m \<noteq> n) (gs_open s)\<rparr>"

section \<open>Operations\<close>

definition listen_tls :: "tls_env \<Rightarrow> gateway_config \<Rightarrow> tls_error + tls_config option" where
  "listen_tls X c =
     (if gc_TLSCertFile c = [] then Inr None
      else case LoadCert X (gc_TLSCertFile c) (gc_TLSKeyFile c) of Inl e \<Rightarrow> Inl e | Inr cert \<Rightarrow>
      let t = \<lparr>tc_MinVersion = VersionTLS12, tc_CipherSuites = [], tc_Certificates = [cert], tc_ClientAuth = NoClientCert, tc_ClientCAs = None,
               tc_RootCAs = None, tc_VerifyPeer = None\<rparr> in
      if cfg_CACertFile (gc_auth c) = [] then Inr (Some t)
      else case Tls.LoadCA X (cfg_CACertFile (gc_auth c)) of Inl e \<Rightarrow> Inl e | Inr pool \<Rightarrow>
        Inr (Some (t\<lparr>tc_ClientCAs := Some pool, tc_ClientAuth := RequireAndVerifyClientCert\<rparr>)))"

definition prefer_positive :: "int \<Rightarrow> int \<Rightarrow> int" where
  "prefer_positive v dflt = (if v > 0 then v else dflt)"

definition http_server_of :: "http_options option \<Rightarrow> http_server" where
  "http_server_of opts =
     (let srv = \<lparr>hs_ReadTimeout = 0, hs_ReadHeaderTimeout = 30 * second, hs_WriteTimeout = 0, hs_IdleTimeout = 120 * second, hs_MaxHeaderBytes = 0,
                 hs_tracked = [], hs_down = False\<rparr> in
      case opts of None \<Rightarrow> srv | Some o' \<Rightarrow>
        srv\<lparr>hs_ReadTimeout := prefer_positive (ho_ReadTimeout o') (hs_ReadTimeout srv),
            hs_ReadHeaderTimeout := prefer_positive (ho_ReadHeaderTimeout o') (hs_ReadHeaderTimeout srv),
            hs_WriteTimeout := prefer_positive (ho_WriteTimeout o') (hs_WriteTimeout srv),
            hs_IdleTimeout := prefer_positive (ho_IdleTimeout o') (hs_IdleTimeout srv),
            hs_MaxHeaderBytes := prefer_positive (ho_MaxHeaderBytes o') (hs_MaxHeaderBytes srv)\<rparr>)"

text \<open>\<open>bind\<close> is \<^verbatim>\<open>net.Listen\<close>: the address bound, or its error.\<close>

definition Listen :: "tls_env \<Rightarrow> (string \<Rightarrow> string + string) \<Rightarrow> string \<Rightarrow> gateway_server \<Rightarrow> (life_error + listener) \<times> gateway_server" where
  "Listen X bind addr s =
     (case bind addr of Inl e \<Rightarrow> (Inl (ListenFailed addr e), s) | Inr bound \<Rightarrow>
      let n = gs_next s; s1 = s\<lparr>gs_next := Suc n, gs_open := n # gs_open s\<rparr> in
      case listen_tls X (gs_cfg s) of Inl e \<Rightarrow> (Inl (ListenTLS e), close_socket n s1) | Inr t \<Rightarrow>
        let ln = \<lparr>ln_socket = n, ln_addr = bound, ln_TLS = t\<rparr> in
        (Inr ln, s1\<lparr>gs_listener := Some ln, gs_srv := Some (http_server_of (gc_ServerOptions (gs_cfg s)))\<rparr>))"

text \<open>The start of serving; \<open>serve_ends\<close> is its end on a fatal error of the listener.\<close>

definition Serve :: "listener \<Rightarrow> gateway_server \<Rightarrow> life_error option \<times> gateway_server" where
  "Serve ln s =
     (case gs_srv s of None \<Rightarrow> (Some ServeUnprepared, s) | Some srv \<Rightarrow>
      if hs_down srv then (Some ErrServerClosed, close_socket (ln_socket ln) s)
      else (None, s\<lparr>gs_srv := Some (srv\<lparr>hs_tracked := ln_socket ln # hs_tracked srv\<rparr>)\<rparr>))"

definition serve_ends :: "listener \<Rightarrow> gateway_server \<Rightarrow> gateway_server" where
  "serve_ends ln s =
     close_socket (ln_socket ln)
       (s\<lparr>gs_srv := map_option (\<lambda>srv. srv\<lparr>hs_tracked := filter (\<lambda>m. m \<noteq> ln_socket ln) (hs_tracked srv)\<rparr>) (gs_srv s)\<rparr>)"

definition Addr :: "gateway_server \<Rightarrow> string option" where
  "Addr s = map_option ln_addr (gs_listener s)"

definition ListenAndServe :: "tls_env \<Rightarrow> (string \<Rightarrow> string + string) \<Rightarrow> string \<Rightarrow> gateway_server \<Rightarrow> life_error option \<times> gateway_server" where
  "ListenAndServe X bind addr s = (case Listen X bind addr s of (Inl e, s') \<Rightarrow> (Some e, s') | (Inr ln, s') \<Rightarrow> Serve ln s')"

definition Shutdown :: "http_server \<Rightarrow> gateway_server \<Rightarrow> gateway_server" where
  "Shutdown srv s = (fold close_socket (hs_tracked srv) s)\<lparr>gs_srv := Some (srv\<lparr>hs_down := True, hs_tracked := []\<rparr>)\<rparr>"

definition server_Close :: "fs_faults \<Rightarrow> audit_env \<Rightarrow> bool \<Rightarrow> (nat \<Rightarrow> bool) \<Rightarrow> gateway_server \<Rightarrow> gateway_server" where
  "server_Close F A hasTSA timely s =
     (let s1 = (case gs_srv s of None \<Rightarrow> s | Some srv \<Rightarrow>
        let s' = Shutdown srv s in case gs_listener s of None \<Rightarrow> s' | Some ln \<Rightarrow> close_socket (ln_socket ln) s')
      in s1\<lparr>gs_owned := Config_Close F A hasTSA timely (gs_owned s1)\<rparr>)"

section \<open>Binding\<close>

lemma close_fresh: "n \<notin> set (gs_open s) \<Longrightarrow> gs_open (close_socket n (s\<lparr>gs_next := m, gs_open := n # gs_open s\<rparr>)) = gs_open s"
  by (auto simp: close_socket_def filter_id_conv)

lemma http_server_limits: "0 < hs_ReadHeaderTimeout (http_server_of opts) \<and> 0 < hs_IdleTimeout (http_server_of opts)"
  by (cases opts) (simp_all add: http_server_of_def prefer_positive_def second_def Let_def)

text \<open>A bound listener is guarded: the server behind it never waits without limit for the headers of a request or on an idle connection, whatever the
  configuration says; with a certificate configured it speaks TLS 1.2 or later, and with a certificate authority it demands a client certificate verified
  against a non-empty pool of authorities. A listener that could not be set up leaves no socket open and the server as it was.\<close>

theorem listen_guarded:
  assumes "Listen X bind addr s = (r, s')" "\<forall>n \<in> set (gs_open s). n < gs_next s"
  shows "case r of
      Inl e \<Rightarrow> gs_open s' = gs_open s \<and> gs_listener s' = gs_listener s \<and> gs_srv s' = gs_srv s
    | Inr ln \<Rightarrow> gs_listener s' = Some ln \<and> set (gs_open s') = insert (ln_socket ln) (set (gs_open s)) \<and> ln_socket ln \<notin> set (gs_open s)
        \<and> (\<exists>srv. gs_srv s' = Some srv \<and> 0 < hs_ReadHeaderTimeout srv \<and> 0 < hs_IdleTimeout srv)
        \<and> (ln_TLS ln = None \<longleftrightarrow> gc_TLSCertFile (gs_cfg s) = [])
        \<and> (\<forall>t. ln_TLS ln = Some t \<longrightarrow> VersionTLS12 \<le> tc_MinVersion t
             \<and> (cfg_CACertFile (gc_auth (gs_cfg s)) \<noteq> [] \<longrightarrow> tc_ClientAuth t = RequireAndVerifyClientCert
                  \<and> (\<exists>pool. tc_ClientCAs t = Some pool \<and> pool \<noteq> [] \<and> list_all (tx_IsCA X) pool)))"
proof (cases "bind addr")
  case (Inr bound)
  have fresh: "gs_next s \<notin> set (gs_open s)" using assms(2) by blast
  show ?thesis
  proof (cases "listen_tls X (gs_cfg s)")
    case (Inl e)
    then show ?thesis using assms(1) Inr close_fresh[OF fresh] by (auto simp: Listen_def Let_def close_socket_def)
  next
    case t: (Inr t)
    have "t = None \<longleftrightarrow> gc_TLSCertFile (gs_cfg s) = []" using t by (auto simp: listen_tls_def Let_def split: if_splits sum.splits)
    moreover have "VersionTLS12 \<le> tc_MinVersion u \<and> (cfg_CACertFile (gc_auth (gs_cfg s)) \<noteq> [] \<longrightarrow> tc_ClientAuth u = RequireAndVerifyClientCert
        \<and> (\<exists>pool. tc_ClientCAs u = Some pool \<and> pool \<noteq> [] \<and> list_all (tx_IsCA X) pool))" if "t = Some u" for u
      using t that LoadCA_authorities[of X "cfg_CACertFile (gc_auth (gs_cfg s))"] by (auto simp: listen_tls_def Let_def split: if_splits sum.splits)
    ultimately show ?thesis using assms(1) Inr t fresh http_server_limits by (auto simp: Listen_def Let_def)
  qed
qed (use assms(1) in \<open>auto simp: Listen_def\<close>)

section \<open>The life of a listener\<close>

text \<open>A caller serves only what it bound, and binds again only once the previous listener is closed.\<close>

inductive gateway_run :: "gateway_server \<Rightarrow> gateway_server \<Rightarrow> bool" for s0 where
  built: "gs_listener s0 = None \<Longrightarrow> gs_srv s0 = None \<Longrightarrow> gs_open s0 = [] \<Longrightarrow> gateway_run s0 s0"
| listens: "gateway_run s0 s \<Longrightarrow> gs_open s = [] \<Longrightarrow> Listen X bind addr s = (r, s') \<Longrightarrow> gateway_run s0 s'"
| serves: "gateway_run s0 s \<Longrightarrow> gs_listener s = Some ln \<Longrightarrow> Serve ln s = (e, s') \<Longrightarrow> gateway_run s0 s'"
| stops: "gateway_run s0 s \<Longrightarrow> gs_listener s = Some ln \<Longrightarrow> gateway_run s0 (serve_ends ln s)"
| closes: "gateway_run s0 s \<Longrightarrow> gateway_run s0 (server_Close F A hasTSA timely s)"

definition one_socket :: "gateway_server \<Rightarrow> bool" where
  "one_socket s \<longleftrightarrow> set (gs_open s) \<subseteq> (case gs_listener s of None \<Rightarrow> {} | Some ln \<Rightarrow> {ln_socket ln})
     \<and> (\<forall>n \<in> set (gs_open s). n < gs_next s) \<and> (gs_listener s \<noteq> None \<longrightarrow> gs_srv s \<noteq> None)"

lemma close_socket_frame [simp]:
  "gs_listener (close_socket n s) = gs_listener s" "gs_srv (close_socket n s) = gs_srv s" "gs_next (close_socket n s) = gs_next s"
  "gs_cfg (close_socket n s) = gs_cfg s" "gs_owned (close_socket n s) = gs_owned s" "set (gs_open (close_socket n s)) = set (gs_open s) - {n}"
  by (auto simp: close_socket_def)

lemma close_sockets [simp]:
  "gs_listener (fold close_socket ns s) = gs_listener s" "gs_srv (fold close_socket ns s) = gs_srv s" "gs_next (fold close_socket ns s) = gs_next s"
  "gs_cfg (fold close_socket ns s) = gs_cfg s" "gs_owned (fold close_socket ns s) = gs_owned s" "set (gs_open (fold close_socket ns s)) = set (gs_open s) - set ns"
  by (induction ns arbitrary: s) auto

lemma server_Close_frame:
  "gs_listener (server_Close F A hasTSA timely s) = gs_listener s" "gs_next (server_Close F A hasTSA timely s) = gs_next s"
  "gs_owned (server_Close F A hasTSA timely s) = Config_Close F A hasTSA timely (gs_owned s)"
  "gs_srv (server_Close F A hasTSA timely s) = map_option (\<lambda>srv. srv\<lparr>hs_down := True, hs_tracked := []\<rparr>) (gs_srv s)"
  "set (gs_open (server_Close F A hasTSA timely s)) \<subseteq> set (gs_open s)"
  by (auto simp: server_Close_def Shutdown_def Let_def split: option.splits)

lemma Listen_one_socket:
  assumes "Listen X bind addr s = (r, s')" "one_socket s" "gs_open s = []"
  shows "one_socket s'"
  using assms by (auto simp: Listen_def one_socket_def Let_def split: sum.splits)

lemma gateway_run_one_socket: "gateway_run s0 s \<Longrightarrow> one_socket s"
proof (induction rule: gateway_run.induct)
  case (listens s X bind addr r s')
  then show ?case by (blast intro: Listen_one_socket)
next
  case (closes s F A hasTSA timely)
  then show ?case using server_Close_frame[of F A hasTSA timely s] by (auto simp: one_socket_def)
qed (auto simp: one_socket_def Serve_def serve_ends_def split: option.splits if_splits)


section \<open>Witnesses and limits\<close>

definition example_gateway_server :: gateway_server where
  "example_gateway_server =
     \<lparr>gs_cfg = \<lparr>gc_auth = (file_auth example_file MTLSOrBearer), gc_LogFile = [], gc_TLSCertFile = ''tls.pem'', gc_TLSKeyFile = ''tls.key'',
        gc_BackendRootCA = [], gc_IdentityMode = IdentityAIC, gc_AuditLogFile = [], gc_AuditTSAURL = [], gc_SupervisionLogFile = [],
        gc_SupervisionStore = None, gc_ServerOptions = None\<rparr>,
      gs_listener = None, gs_srv = None, gs_open = [], gs_next = 0, gs_owned = \<lparr>own_nonces = Some False, own_store = None, own_audit = None, own_logFile = True\<rparr>\<rparr>"

lemma example_listen:
  obtains ln s t where "Listen example_tls Inr '':8443'' example_gateway_server = (Inr ln, s)" "gs_open s = [0]" "gs_cfg s = gs_cfg example_gateway_server"
    "ln_socket ln = 0" "ln_TLS ln = Some t" "tc_ClientAuth t = RequireAndVerifyClientCert" "gs_next s = 1"
proof -
  have "Tls.LoadCA example_tls ''ca.pem'' = Inr [example_cert]"
    by (simp add: LoadCA_def AppendCertsFromPEM_def example_tls_def example_cert_def map_filter_def)
  moreover have "LoadCert example_tls ''tls.pem'' ''tls.key'' = Inr [example_cert]" by (simp add: LoadCert_def example_tls_def)
  ultimately have "\<exists>ln s t. Listen example_tls Inr '':8443'' example_gateway_server = (Inr ln, s) \<and> gs_open s = [0]
      \<and> gs_cfg s = gs_cfg example_gateway_server \<and> ln_socket ln = 0 \<and> ln_TLS ln = Some t \<and> tc_ClientAuth t = RequireAndVerifyClientCert \<and> gs_next s = 1"
    by (simp add: Listen_def listen_tls_def example_gateway_server_def Let_def)
  then show thesis using that by blast
qed

theorem listen_guarded_witness:
  "\<exists>ln s. Listen example_tls Inr '':8443'' example_gateway_server = (Inr ln, s)
     \<and> (\<exists>srv. gs_srv s = Some srv \<and> 0 < hs_ReadHeaderTimeout srv)"
proof -
  obtain ln s where l: "Listen example_tls Inr '':8443'' example_gateway_server = (Inr ln, s)" by (rule example_listen)
  have "\<forall>n \<in> set (gs_open example_gateway_server). n < gs_next example_gateway_server" by (simp add: example_gateway_server_def)
  from listen_guarded[OF l this] l show ?thesis by auto
qed


text \<open>Binding a second time forgets the first listener, which closing does not release.\<close>

lemma rebinding_leaks:
  "\<exists>ln s ln' s'. Listen example_tls Inr '':8443'' example_gateway_server = (Inr ln, s) \<and> Listen example_tls Inr '':8444'' s = (Inr ln', s')
     \<and> ln_socket ln \<in> set (gs_open (server_Close F A hasTSA timely s'))"
proof -
  obtain ln s t where l: "Listen example_tls Inr '':8443'' example_gateway_server = (Inr ln, s)" "gs_open s = [0]"
    "gs_cfg s = gs_cfg example_gateway_server" "ln_socket ln = 0" "gs_next s = 1" "ln_TLS ln = Some t" by (rule example_listen)
  have "listen_tls example_tls (gs_cfg example_gateway_server) = Inr (Some t)"
    using l(1,6) by (auto simp: Listen_def Let_def split: sum.splits)
  then have "\<exists>ln' s'. Listen example_tls Inr '':8444'' s = (Inr ln', s') \<and> ln_socket ln' = 1 \<and> gs_open s' = [1, 0] \<and> gs_listener s' = Some ln'
      \<and> (\<exists>srv. gs_srv s' = Some srv \<and> hs_tracked srv = [])"
    using l by (simp add: Listen_def Let_def http_server_of_def split: option.splits)
  then show ?thesis using l by (fastforce simp: server_Close_def Shutdown_def Let_def)
qed

text \<open>A gateway that is to accept certificates or tokens accepts no client without a certificate.\<close>

lemma token_needs_certificate:
  "authMode (gc_auth (gs_cfg example_gateway_server)) = MTLSOrBearer
   \<and> (\<exists>ln s t. Listen example_tls Inr '':8443'' example_gateway_server = (Inr ln, s) \<and> ln_TLS ln = Some t \<and> tc_ClientAuth t = RequireAndVerifyClientCert)"
  by (rule conjI, simp add: example_gateway_server_def authMode_def) (rule example_listen, blast)

end
