(* ===== verification/Background.thy ===== *)
theory Background
  imports Tls Ocsp Nonce_Cache
begin

text \<open>
  The goroutines of the caches: the hourly cleanup of nonces with its stop signal (\<^verbatim>\<open>src/nonce_cache.go\<close>) and the OCSP stapling of a server
  certificate (\<^verbatim>\<open>src/ocsp.go\<close>). A loop is a step relation: a tick of its clock, the closing of its channel and its exit are steps, in any order the
  scheduler chooses. A select with both cases ready takes either.
\<close>

section \<open>Cleanup of nonces\<close>

record janitor =
  jn_cache :: nonce_cache
  jn_done :: bool
  jn_running :: bool

definition start_janitor :: janitor where
  "start_janitor = \<lparr>jn_cache = NewNonceCache, jn_done = False, jn_running = True\<rparr>"

definition janitor_Stop :: "janitor option \<Rightarrow> janitor option" where
  "janitor_Stop j = map_option (\<lambda>s. s\<lparr>jn_done := True\<rparr>) j"

inductive janitor_run :: "instant \<Rightarrow> janitor \<Rightarrow> presentation list \<Rightarrow> bool" where
  spawn: "janitor_run t start_janitor []"
| present: "janitor_run t s h \<Longrightarrow> t \<le> t' \<Longrightarrow> CheckAndAdd t' scope nonce (jn_cache s) = (ok, m) \<Longrightarrow>
    janitor_run t' (s\<lparr>jn_cache := m\<rparr>) (h @ [\<lparr>p_time = t', p_scope = scope, p_nonce = nonce, p_accepted = ok\<rparr>])"
| tick: "janitor_run t s h \<Longrightarrow> t \<le> t' \<Longrightarrow> jn_running s \<Longrightarrow> janitor_run t' (s\<lparr>jn_cache := cleanup t' (jn_cache s)\<rparr>) h"
| stop: "janitor_run t s h \<Longrightarrow> janitor_Stop (Some s) = Some s' \<Longrightarrow> janitor_run t s' h"
| exit: "janitor_run t s h \<Longrightarrow> jn_done s \<Longrightarrow> janitor_run t (s\<lparr>jn_running := False\<rparr>) h"

text \<open>Whatever the loop and the stop signal do, the cache is in a state of a run of checks and cleanups, so what holds of those holds of a cache with its
  goroutine; and the loop only ends after a stop.\<close>

theorem janitor_refines_runs:
  assumes "janitor_run t s h"
  shows "nonce_run t (jn_cache s) h \<and> (jn_running s \<or> jn_done s)"
  using assms
  by (induction rule: janitor_run.induct)
    (auto simp: start_janitor_def janitor_Stop_def intro: nonce_run.start nonce_run.check nonce_run.clean)

lemma janitor_Stop_idempotent: "janitor_Stop (janitor_Stop j) = janitor_Stop j"
  by (cases j) (simp_all add: janitor_Stop_def)

section \<open>OCSP stapling\<close>

record tls_pair =
  tp_Certificate :: "bytes list"
  tp_Leaf :: "certificate option"
  tp_Staple :: bytes

text \<open>\<open>sg_ParseResponse\<close> checks the signature of the issuer over a response; it is not told for which certificate.\<close>

record stapling_env =
  sg_ocsp :: ocsp_env
  sg_tls :: tls_env
  sg_ParseResponse :: "bytes \<Rightarrow> certificate \<Rightarrow> string + ocsp_response"

definition FetchOCSPResponseRaw :: "ocsp_env \<Rightarrow> certificate \<Rightarrow> certificate \<Rightarrow> string \<Rightarrow> string + bytes" where
  "FetchOCSPResponseRaw O' cert issuer ocspURL =
     (case oe_CreateRequest O' cert issuer of Inl e \<Rightarrow> Inl (''create OCSP request: '' @ e) | Inr req \<Rightarrow>
      case oe_Post O' ocspURL req of Inl e \<Rightarrow> Inl (''OCSP request: '' @ e) | Inr body \<Rightarrow> Inr (take (2 ^ 20) body))"

record stapling =
  sl_cert :: tls_pair
  sl_leaf :: certificate
  sl_issuer :: certificate
  sl_url :: string
  sl_served :: tls_pair

definition refresh_staple :: "stapling_env \<Rightarrow> stapling \<Rightarrow> stapling" where
  "refresh_staple X s =
     (case FetchOCSPResponseRaw (sg_ocsp X) (sl_leaf s) (sl_issuer s) (sl_url s) of Inl e \<Rightarrow> s | Inr staple \<Rightarrow>
      case sg_ParseResponse X staple (sl_issuer s) of Inl e \<Rightarrow> s | Inr _ \<Rightarrow> s\<lparr>sl_served := (sl_cert s)\<lparr>tp_Staple := staple\<rparr>\<rparr>)"

text \<open>Nothing is started without a certificate and a configuration, a parsable leaf, a responder and an issuer; otherwise the first refresh comes before the
  loop.\<close>

definition StartOCSPStapling :: "stapling_env \<Rightarrow> tls_pair option \<Rightarrow> bool \<Rightarrow> string \<Rightarrow> stapling option" where
  "StartOCSPStapling X tlsCert hasConfig caCertFile =
     (case tlsCert of None \<Rightarrow> None | Some c \<Rightarrow>
      if tp_Certificate c = [] \<or> \<not> hasConfig then None
      else case (case tp_Leaf c of Some l \<Rightarrow> Some l | None \<Rightarrow>
                   (case tx_ParseCert (sg_tls X) (hd (tp_Certificate c)) of Inl e \<Rightarrow> None | Inr l \<Rightarrow> Some l)) of None \<Rightarrow> None | Some leaf \<Rightarrow>
      let url = ExtractOCSPURL (oe_Unmarshal (sg_ocsp X)) leaf in
      if url = [] then None
      else case LoadCACert (sg_tls X) caCertFile of Inl e \<Rightarrow> None | Inr issuer \<Rightarrow>
        Some (refresh_staple X \<lparr>sl_cert = c, sl_leaf = leaf, sl_issuer = issuer, sl_url = url, sl_served = c\<rparr>))"

inductive stapling_run :: "stapling \<Rightarrow> stapling \<Rightarrow> bool" for s0 where
  begun: "stapling_run s0 s0"
| refreshed: "stapling_run s0 s \<Longrightarrow> stapling_run s0 (refresh_staple X s)"

definition staple_signed :: "stapling \<Rightarrow> bool" where
  "staple_signed s \<longleftrightarrow> sl_served s = sl_cert s
     \<or> (\<exists>(X :: stapling_env) staple r. sl_served s = (sl_cert s)\<lparr>tp_Staple := staple\<rparr> \<and> sg_ParseResponse X staple (sl_issuer s) = Inr r)"

lemma refresh_frame: "sl_cert (refresh_staple X s) = sl_cert s" "sl_issuer (refresh_staple X s) = sl_issuer s"
  by (auto simp: refresh_staple_def split: sum.splits)

lemma refresh_signed: "staple_signed s \<Longrightarrow> staple_signed (refresh_staple X s)"
  by (cases "FetchOCSPResponseRaw (sg_ocsp X) (sl_leaf s) (sl_issuer s) (sl_url s)")
    (auto simp: staple_signed_def refresh_staple_def split: sum.splits)

text \<open>At any time the certificate served is the configured one, with the staple it came with or with a response signed for the issuer that was loaded.\<close>

theorem served_staple_signed:
  assumes "StartOCSPStapling X (Some c) hasConfig caFile = Some s0" "stapling_run s0 s"
  shows "staple_signed s \<and> sl_cert s = c \<and> tp_Certificate (sl_served s) = tp_Certificate c \<and> LoadCACert (sg_tls X) caFile = Inr (sl_issuer s)"
proof -
  obtain leaf url issuer where "s0 = refresh_staple X \<lparr>sl_cert = c, sl_leaf = leaf, sl_issuer = issuer, sl_url = url, sl_served = c\<rparr>"
    and issuer: "LoadCACert (sg_tls X) caFile = Inr issuer"
    using assms(1) by (auto simp: StartOCSPStapling_def Let_def split: option.splits if_splits sum.splits)
  moreover have "staple_signed \<lparr>sl_cert = c, sl_leaf = leaf, sl_issuer = issuer, sl_url = url, sl_served = c\<rparr>" by (simp add: staple_signed_def)
  ultimately have "staple_signed s0 \<and> sl_cert s0 = c \<and> sl_issuer s0 = issuer" using refresh_signed refresh_frame by simp
  with assms(2) have "staple_signed s \<and> sl_cert s = c \<and> sl_issuer s = issuer"
    by (induction rule: stapling_run.induct) (simp_all add: refresh_signed refresh_frame)
  then show ?thesis using issuer by (auto simp: staple_signed_def)
qed

text \<open>A response is stapled whatever it says and of whichever certificate, and a responder that fails leaves the last staple in place for ever.\<close>

lemma staple_unchecked:
  assumes "FetchOCSPResponseRaw (sg_ocsp X) (sl_leaf s) (sl_issuer s) (sl_url s) = Inr staple" "sg_ParseResponse X staple (sl_issuer s) = Inr r"
  shows "tp_Staple (sl_served (refresh_staple X s)) = staple"
  using assms by (simp add: refresh_staple_def)

lemma stale_staple_kept:
  assumes "\<And>u b. \<exists>e. oe_Post (sg_ocsp X) u b = Inl e"
  shows "refresh_staple X s = s"
proof (cases "oe_CreateRequest (sg_ocsp X) (sl_leaf s) (sl_issuer s)")
  case (Inr req)
  obtain e where "oe_Post (sg_ocsp X) (sl_url s) req = Inl e" using assms by blast
  then show ?thesis using Inr by (simp add: refresh_staple_def FetchOCSPResponseRaw_def)
qed (simp add: refresh_staple_def FetchOCSPResponseRaw_def)

end
