(* ===== verification/Policy_Signing.thy ===== *)
theory Policy_Signing
  imports Tls Policy
begin

text \<open>
  The signing side of authorization policies (the end of \<^verbatim>\<open>src/policy.go\<close>): identities read from PEM files, detached signatures and the pool of signers.
  PKCS\#7, PEM and key parsing are parameters, reading a file includes the cleaning of its path; a private key is of an abstract type.
\<close>

section \<open>Identities\<close>

text \<open>A PKCS\#8 block may hold a key that cannot sign.\<close>

record 'k signing_env =
  sn_ReadFile :: "string \<Rightarrow> string + bytes"
  sn_PEM :: "bytes \<Rightarrow> (string \<times> bool \<times> bytes) list"
  sn_tls :: tls_env
  sn_PKCS1 :: "bytes \<Rightarrow> string + 'k"
  sn_EC :: "bytes \<Rightarrow> string + 'k"
  sn_PKCS8 :: "bytes \<Rightarrow> string + 'k option"
  sn_BuildSignedData :: "bytes \<Rightarrow> certificate \<Rightarrow> 'k \<Rightarrow> string + bytes"

datatype signing_error = FileUnreadable string | NoPEMCerts | NoCertBlock | BadCertificate string | NoKeyBlock | BadKey string | NotASigner | KeyEncrypted
  | UnsupportedKey string

record 'k policy_signing_identity =
  psi_Cert :: certificate
  psi_Key :: 'k

definition LoadCAFromFile :: "'k signing_env \<Rightarrow> string \<Rightarrow> signing_error + certificate list" where
  "LoadCAFromFile S path =
     (case sn_ReadFile S path of Inl e \<Rightarrow> Inl (FileUnreadable e) | Inr data \<Rightarrow>
      let pool = AppendCertsFromPEM (sn_tls S) (sn_PEM S data) in if pool = [] then Inl NoPEMCerts else Inr pool)"

definition ParseCertPEM :: "'k signing_env \<Rightarrow> bytes \<Rightarrow> signing_error + certificate" where
  "ParseCertPEM S data =
     (case sn_PEM S data of [] \<Rightarrow> Inl NoCertBlock | (ty, headers, der) # _ \<Rightarrow>
      case tx_ParseCert (sn_tls S) der of Inl e \<Rightarrow> Inl (BadCertificate e) | Inr c \<Rightarrow> Inr c)"

definition parseSignerKey :: "'k signing_env \<Rightarrow> string \<Rightarrow> bytes \<Rightarrow> signing_error + 'k" where
  "parseSignerKey S ty der =
     (if ty = ''RSA PRIVATE KEY'' then (case sn_PKCS1 S der of Inl e \<Rightarrow> Inl (BadKey e) | Inr k \<Rightarrow> Inr k)
      else if ty = ''EC PRIVATE KEY'' then (case sn_EC S der of Inl e \<Rightarrow> Inl (BadKey e) | Inr k \<Rightarrow> Inr k)
      else if ty = ''PRIVATE KEY'' then
        (case sn_PKCS8 S der of Inl e \<Rightarrow> Inl (BadKey e) | Inr None \<Rightarrow> Inl NotASigner | Inr (Some k) \<Rightarrow> Inr k)
      else if ty = ''ENCRYPTED PRIVATE KEY'' then Inl KeyEncrypted else Inl (UnsupportedKey ty))"

definition ParsePrivateKeyPEM :: "'k signing_env \<Rightarrow> bytes \<Rightarrow> signing_error + 'k" where
  "ParsePrivateKeyPEM S data = (case sn_PEM S data of [] \<Rightarrow> Inl NoKeyBlock | (ty, headers, der) # _ \<Rightarrow> parseSignerKey S ty der)"

definition ParseCertPEMFile :: "'k signing_env \<Rightarrow> string \<Rightarrow> signing_error + certificate" where
  "ParseCertPEMFile S path = (case sn_ReadFile S path of Inl e \<Rightarrow> Inl (FileUnreadable e) | Inr data \<Rightarrow> ParseCertPEM S data)"

definition ParsePrivateKeyPEMFile :: "'k signing_env \<Rightarrow> string \<Rightarrow> signing_error + 'k" where
  "ParsePrivateKeyPEMFile S path = (case sn_ReadFile S path of Inl e \<Rightarrow> Inl (FileUnreadable e) | Inr data \<Rightarrow> ParsePrivateKeyPEM S data)"

definition LoadPolicySigningIdentity :: "'k signing_env \<Rightarrow> string \<Rightarrow> string \<Rightarrow> signing_error + 'k policy_signing_identity" where
  "LoadPolicySigningIdentity S certPEM keyPEM =
     (case ParseCertPEMFile S certPEM of Inl e \<Rightarrow> Inl e | Inr cert \<Rightarrow>
      case ParsePrivateKeyPEMFile S keyPEM of Inl e \<Rightarrow> Inl e | Inr key \<Rightarrow> Inr \<lparr>psi_Cert = cert, psi_Key = key\<rparr>)"

definition SignPolicy :: "'k signing_env \<Rightarrow> bytes \<Rightarrow> certificate \<Rightarrow> 'k \<Rightarrow> string + bytes" where
  "SignPolicy S policyData cert signer = sn_BuildSignedData S policyData cert signer"

section \<open>Signed policies load\<close>

text \<open>A policy signed with an identity loaded from files is accepted wherever the signer is an administrator and trusted: with the signature of
  \<^verbatim>\<open>SignPolicy\<close> beside it, the policy loads exactly as it parses. \<open>detached\<close> is what the PKCS\#7 library promises of its own signatures.\<close>

theorem signed_policy_loads:
  assumes "LoadPolicySigningIdentity S certPEM keyPEM = Inr i" "SignPolicy S data (psi_Cert i) (psi_Key i) = Inr sig"
    and detached: "\<And>c k d s. sn_BuildSignedData S d c k = Inr s \<Longrightarrow> env_VerifyDetached E s d = Some c"
    and "env_ReadFile E path = Some data" "env_ReadFile E (path @ suff) = Some sig"
    and "pvo_RequireAdminOU opts \<longrightarrow> SignerHasAdminOU (psi_Cert i)" "\<And>pool. pvo_Roots opts = Some pool \<Longrightarrow> env_CertVerify E pool (psi_Cert i)"
  shows "LoadAuthorizationPolicy E path suff (Some opts) = ParseAuthorizationPolicy E data"
proof -
  have "VerifySignedPolicy E sig data (pvo_Roots opts) (pvo_RequireAdminOU opts) = Inr (psi_Cert i)"
    using assms(2,6,7) detached by (auto simp: VerifySignedPolicy_def SignPolicy_def split: option.splits)
  then show ?thesis using assms(4,5) by (simp add: LoadAuthorizationPolicy_def)
qed

text \<open>Conversely a policy whose signature is required and was made by somebody without the administrator role is not loaded, whoever trusts the signer.\<close>

theorem unprivileged_signature_refused:
  assumes "pvo_RequireAdminOU opts" "env_ReadFile E path = Some data" "env_ReadFile E (path @ suff) = Some sig"
    and "\<And>c. env_VerifyDetached E sig data = Some c \<Longrightarrow> \<not> SignerHasAdminOU c"
  shows "LoadAuthorizationPolicy E path suff (Some opts) \<in> {Inl SignatureInvalid, Inl SignerNotAdmin}"
  using assms by (auto simp: LoadAuthorizationPolicy_def VerifySignedPolicy_def split: option.splits)

end
