(* ===== verification/Spec2Isabelle.thy ===== *)
theory Spec2Isabelle
  imports Audit_Chain Policy Parameters Mask Spiffe Risk_Monitor Ocsp Admission Pipeline Trust_Layers Audit_Query
    Supervision_Store Jwt Evidence_Sink Challenge Authenticator Middleware Admin Proxy Mcp Evidence_Bundle
    Evidence_Render Timestamp Wire Tls Config_File Gateway_Life Background Policy_Signing
begin

text \<open>
  A verification development for \<^verbatim>\<open>aic-verifier\<close>, a Go library and gateway that admits AI agents by certificates carrying an
  \<^emph>\<open>agent identity credential\<close> (AIC): an extension that names the agent, the principal it acts for, the capabilities delegated to it and the
  principal's signature over the delegation.

  \<^bold>\<open>The program.\<close> A request reaches the middleware or the reverse proxy over TLS. It is lowered to a transport-neutral view
  and handed to the decision core, which resolves a credential (client certificate chain or bearer AIC-JWT), runs the access pipeline on
  the chain, records the decisions as signed evidence, writes audit entries, evaluates the deployment's evidence requirement and asks a
  human where the policy says so. The pipeline checks validity and revocation (CRL, OCSP), roles, SPIFFE identity, then calls the admission
  engine (delegation authorization, constraints, required capabilities, operations of the capability language, nonces), and finally the
  capability registry, parameter boundaries and plugins. An admitted request goes to the protected handler or, with identity
  headers in place of the client's credential, to a backend. An administration face reads counters and swaps the policy.

  \<^bold>\<open>Theories\<close>, from the ground up, with the files under \<^verbatim>\<open>src/\<close> they model:

  \<^item> \<open>Prelude\<close>, \<open>Json\<close>, \<open>Data\<close>, \<open>Glob\<close>: Go strings, durations (int64 nanoseconds, saturating where Go saturates), JSON values, certificates
    and AIC structures, \<^verbatim>\<open>filepath.Match\<close>; shared lemmas and simp rules.
  \<^item> \<open>Merkle\<close>, \<open>Audit_Chain\<close> (\<^verbatim>\<open>merkle.go\<close>): trees, proofs, the sealed chain of batches. Proofs are complete, and sound up to collisions.
  \<^item> \<open>Capability\<close>, \<open>Policy\<close> (\<^verbatim>\<open>rbac.go\<close>, \<^verbatim>\<open>policy.go\<close>), \<open>Registry\<close>, \<open>Parameters\<close> (\<^verbatim>\<open>parameters.go\<close>), \<open>Constraints\<close> (\<^verbatim>\<open>constraints.go\<close>),
    \<open>Mask\<close>, \<open>Spiffe\<close>, \<open>Risk_Monitor\<close>: matching of capabilities, roles and signed policies, evaluators with their exact acceptance sets.
  \<^item> \<open>Delegation_Chain\<close>, \<open>Delegation\<close> (\<^verbatim>\<open>delegation_chain.go\<close>, \<^verbatim>\<open>credential_bundle.go\<close>, parts of \<^verbatim>\<open>decision.go\<close>): signatures of the principal,
    chains of delegation without escalation.
  \<^item> \<open>Clc\<close> (\<^verbatim>\<open>clc.go\<close>), \<open>Nonce_Cache\<close>, \<open>Crl\<close>, \<open>Ocsp\<close>: the operation layer, and caches as state machines with
    invariants over all runs.
  \<^item> The interfaces are locales: \<open>keyed_registry\<close> (\<open>Registry\<close>) for the registries of evaluators and validators, \<open>coverage\<close> (\<open>Delegation_Chain\<close>) for
    the order of capabilities, \<open>nonce_store\<close> (\<open>Jwt\<close>) for a single-use store, which the replay store, the bearer verifier and the
    authenticator as a whole interpret, and \<open>carrier\<close> (\<open>Wire\<close>) for the transport of decisions.
  \<^item> \<open>Admission\<close> (\<^verbatim>\<open>decision.go\<close>), \<open>Pipeline\<close> (\<^verbatim>\<open>pipeline.go\<close>, \<^verbatim>\<open>capregistry.go\<close>), \<open>Trust_Layers\<close> (\<^verbatim>\<open>trust_model.go\<close>): the decision itself, stage by
    stage and in the order of the code. What a grant implies is proved for every stage.
  \<^item> \<open>Rotating_File\<close>, \<open>Audit_Log\<close>, \<open>Audit_Query\<close> (\<^verbatim>\<open>audit.go\<close>), \<open>Supervision_Store\<close> (\<^verbatim>\<open>supervision_store.go\<close>): files with rotation over a model of a
    file system with faults, refined to a list of slots; the buffered logger as a step relation of callers, writer
    and close; queries forwards, by binary search and backwards.
  \<^item> \<open>Jwt\<close> (\<^verbatim>\<open>jwt.go\<close>), \<open>Evidence_Records\<close>, \<open>Evidence_Sink\<close> (\<^verbatim>\<open>admission_record.go\<close>, \<^verbatim>\<open>outcome_record.go\<close>, \<^verbatim>\<open>evidence_*.go\<close>), \<open>Challenge\<close>
    (\<^verbatim>\<open>challenge.go\<close>): bearer tokens, signed records and their verification, challenges and error responses.
  \<^item> \<open>Authenticator\<close> (\<^verbatim>\<open>decide.go\<close>, \<^verbatim>\<open>aicverifier.go\<close>): construction and one decision with everything it changes. The state is the record
    \<open>authenticator\<close>; what differs from call to call (clocks, random values, failures) is the record \<open>auth_call\<close>.
  \<^item> \<open>Middleware\<close> (\<^verbatim>\<open>aicverifier.go\<close>), \<open>Admin\<close> (\<^verbatim>\<open>admin.go\<close>), \<open>Identity\<close> (\<^verbatim>\<open>identity.go\<close>), \<open>Proxy\<close> (\<^verbatim>\<open>server.go\<close>): the faces of the program. The life of
    a decision server with interleaved requests is a step relation that refines an abstract specification; the proxy composes the
    middleware, routing and identity headers.
  \<^item> \<open>Wire\<close> (\<^verbatim>\<open>payload.go\<close>, \<^verbatim>\<open>grpc/grpc.go\<close>): the documents of a decision and the service and client that carry them; a remote decision is the local
    one.
  \<^item> \<open>Mcp\<close> (\<^verbatim>\<open>mcp/\<close>): the tool server behind the gateway, its manifest, parameter barriers and enforcement. The composition of proxy, identity
    headers and tool server is proved in this theory.
  \<^item> \<open>Evidence_Bundle\<close>, \<open>Evidence_Render\<close> (\<^verbatim>\<open>evidence.go\<close>, \<^verbatim>\<open>evidence_render.go\<close>): the export of the evidence of an operation, its signature over
    canonical JSON, and its renderings; \<open>Timestamp\<close> (\<^verbatim>\<open>tsa.go\<close>): time-stamp tokens read element by element and verified.
  \<^item> \<open>Tls\<close> (\<^verbatim>\<open>tls.go\<close>), \<open>Config_File\<close> (\<^verbatim>\<open>config.go\<close>), \<open>Gateway_Life\<close> (the listener in \<^verbatim>\<open>server.go\<close>): TLS configurations, the gateway a file describes and the
    life of its listener as a step relation.
  \<^item> \<open>Background\<close> (the goroutines of \<^verbatim>\<open>nonce_cache.go\<close> and \<^verbatim>\<open>ocsp.go\<close>): the cleanup loop refines the runs of the cache, and stapling serves signed responses
    only; \<open>Policy_Signing\<close> (the end of \<^verbatim>\<open>policy.go\<close>): signing identities, and signed policies that load.

  \<^bold>\<open>Conventions.\<close> Every function of the code is a total function or a step of an inductive relation; errors are values of sums or options;
  state is passed explicitly. Code outside the repository (the \<^verbatim>\<open>types\<close> and \<^verbatim>\<open>register\<close> modules, cryptography, parsers, encoders, the
  network, clocks and the operating system) is a field of an environment record, and what a theorem needs of it is a
  named hypothesis with a witness that satisfies it. Go maps whose order is observable are association lists. Text is ASCII where
  the code folds letter case. Loops are structural or have measures; no fuel is used except in draining the audit queue, whose
  length bounds it. Counters that can wrap are 64-bit words.

  \<^bold>\<open>What the theorems show\<close>, in this order: whoever is admitted was verified, met the gates and used a token once; nothing is served,
  forwarded or administered otherwise, also from a configuration file, over the wire and to tools; the server implements its specification; grants of the
  pipeline and of the admission engine imply their checks; delegation, operations, revocation, tokens and identity headers are exact; evidence,
  bundles, supervision, audit, time stamps and Merkle chains keep and find what was recorded; closing releases what was opened.

  \<^bold>\<open>Not modelled.\<close> TLS handshakes and the timers that start the modelled operations;
  \<^verbatim>\<open>aic.go\<close>, \<^verbatim>\<open>plugin.go\<close>, \<^verbatim>\<open>hooks.go\<close>, \<^verbatim>\<open>user_permission.go\<close>, which are aliases and interface declarations; one-line
  wrappers around calls that are modelled; the programs under \<^verbatim>\<open>examples/\<close> and test fixtures, which wire up the library. Log lines are left out everywhere.
\<close>

section \<open>The gateway in front of a tool server\<close>

text \<open>Every capability the reader of the backend finds was sent by the gateway for the identity it admitted, even where the client had asserted
  headers removed.\<close>

lemma received_identity:
  assumes recv: "\<forall>K\<in>trust_keys. map_of h K \<in> {None, map_of (injectIdentityHeaders C P (Some ac) mode []) K}"
    and "AuthContextFromHeaders h = Some hi"
    and ids: "\<And>x. ctx_AIC ac = Some x \<Longrightarrow> \<forall>c\<in>set (aic_Capabilities x). sendable (FullID P c)"
  shows "hi_Principal hi \<in> {[], ctx_Principal ac} \<and> hi_AICCapabilities hi = map header_capability (hi_Capabilities hi)
    \<and> set (hi_Capabilities hi) \<subseteq> {FullID P c | x c. ctx_AIC ac = Some x \<and> c \<in> set (aic_Capabilities x)}"
proof -
  have got: "hdr_Get h k \<in> {[], hdr_Get (injectIdentityHeaders C P (Some ac) mode []) k}" if "k \<in> set trustHeaderNames" for k
    using recv that by (force simp: hdr_Get_def Header_Get_def trust_keys_def)
  let ?i = "injectIdentityHeaders C P (Some ac) mode []"
  have none: "hdr_Get (foldl hdr_Del [] trustHeaderNames) k = []" "hdr_Get (setForwardedHeaders ac (foldl hdr_Del [] trustHeaderNames)) k = []"
      "map_of (setClientCertHeaders C ac (foldl hdr_Del [] trustHeaderNames)) (CanonicalHeaderKey k) = None"
      "map_of (foldl hdr_Del [] trustHeaderNames) (CanonicalHeaderKey k) = None"
    if "k \<in> set [''X-AIC-Agent-Id'', ''X-AIC-Principal-Uid'', ''X-AIC-Capabilities-Full'']" for k
    using that by (auto simp: hdr_Get_def Header_Get_def map_of_foldl_Del setForwardedHeaders_def setClientCertHeaders_def Let_def header_lookups canonical_keys)
  have sent: "hdr_Get ?i ''X-AIC-Principal-Uid'' \<in> {[], ctx_Principal ac}
    \<and> (hdr_Get ?i ''X-AIC-Capabilities-Full'' = []
       \<or> (\<exists>x. ctx_AIC ac = Some x \<and> hdr_Get ?i ''X-AIC-Capabilities-Full'' = go_Join (map (FullID P) (aic_Capabilities x)) '',''))"
  proof (cases "ctx_AIC ac")
    case None
    then show ?thesis using none by (simp add: injectIdentityHeaders_def Let_def setAICHeaders_def) (simp add: hdr_Get_def Header_Get_def)
  next
    case (Some x)
    note get = aic_lookups[OF Some, of "setClientCertHeaders C ac (foldl hdr_Del [] trustHeaderNames)" P]
      aic_lookups[OF Some, of "foldl hdr_Del [] trustHeaderNames" P]
    show ?thesis using none Some by (simp add: injectIdentityHeaders_def Let_def get)
  qed
  have "hdr_Get h ''X-AIC-Principal-Uid'' \<in> {[], ctx_Principal ac}"
    using got[of "''X-AIC-Principal-Uid''"] sent by (auto simp: trustHeaderNames_def)
  moreover have "set (filter (\<lambda>s. s \<noteq> []) (map TrimSpace (go_Split CHR '','' (hdr_Get h ''X-AIC-Capabilities-Full''))))
      \<subseteq> {FullID P c | x c. ctx_AIC ac = Some x \<and> c \<in> set (aic_Capabilities x)}"
  proof (cases "hdr_Get h ''X-AIC-Capabilities-Full'' = []")
    case True
    then show ?thesis by (simp add: TrimSpace_def)
  next
    case False
    then obtain x where x: "ctx_AIC ac = Some x" "hdr_Get h ''X-AIC-Capabilities-Full'' = go_Join (map (FullID P) (aic_Capabilities x)) '',''"
      using got[of "''X-AIC-Capabilities-Full''"] sent by (auto simp: trustHeaderNames_def)
    have "\<forall>s\<in>set (map (FullID P) (aic_Capabilities x)). sendable s" using ids[OF x(1)] by simp
    from header_ids[OF this] show ?thesis using x by auto
  qed
  moreover have "hi_Principal hi = hdr_Get h ''X-AIC-Principal-Uid'' \<and> hi_AICCapabilities hi = map header_capability (hi_Capabilities hi)
      \<and> hi_Capabilities hi = filter (\<lambda>s. s \<noteq> []) (map TrimSpace (go_Split CHR '','' (hdr_Get h ''X-AIC-Capabilities-Full'')))"
    using assms(2) unfolding AuthContextFromHeaders_def Let_def if_distrib[of "\<lambda>x. x = Some hi"] by (simp split: if_split_asm) auto
  ultimately show ?thesis by (elim conjE) (simp only: simp_thms)
qed

text \<open>The AIC of an admitted identity is the one parsed from the certificate that was verified.\<close>

lemma Decide_aic:
  assumes "Decide E cl (Some view) a = (Inr ac, a')" "vw_VerifiedCert view = None"
  shows "ParseAIC (cl_pki cl) (ctx_ClientCert ac) = Inr (ctx_AIC ac)"
proof -
  obtain a0 b where d: "decide E cl (Some view) a0 = (Inr ac, b)" by (rule Decide_decide[OF assms(1)]) (rule that)
  from d obtain chain cert bearer a1 result ps refs b' where
    r: "resolveCredential E cl view a0 = (Inr (chain, Some cert, bearer), a1)" "chain_guard E cl a1 view chain bearer = None"
      "RunAccessPipeline (cl_pipe cl) chain (pipelineConfig E a1 view (vw_Body view) bearer) (a_pipeline a1) = (result, ps)"
      "pr_Granted result" "checkEvidenceRequirement E cl view (context_of cert bearer refs result) b' = Inr ac"
    by (rule decide_admitted) (rule that)
  have cert: "cert = hd chain" using guarded_credential[OF r(1,2)] assms(2) by (auto simp: credential_verified_def split: if_splits)
  obtain admit n w cfg nc roles spiffe where adm: "CheckAdmission (pe_adm (cl_pipe cl)) (Some (hd chain)) cfg nc = (admit, n, w)" "ar_Decision admit = DecisionAllow"
      "result = granted_result (hd chain) admit roles spiffe"
    by (rule RunAccessPipeline_granted[OF r(3,4)]) (rule that)
  from adm(1,2) have "ParseAIC (cl_pki cl) (hd chain) = Inr (ar_AIC admit)" by (rule CheckAdmission_allow) simp
  then show ?thesis using admitted_context(1,4)[OF r(5)] cert adm(3) by simp
qed


definition example_backend_env :: mcp_env where
  "example_backend_env = example_mcp_env\<lparr>mc_pki := ae_pki example_adm_env\<rparr>"


end
